(* ===== verification/Prelude.thy ===== *)
theory Prelude
  imports Main "HOL-Library.Word"
begin

text \<open>
  Shared vocabulary of the development: the outcome type of a Rust function that may return
  \<open>Result::Err\<close> or panic, its combinators, checked machine arithmetic, ASCII character classes,
  and generic lemmas on lists and maps.  Every component theory imports this one.
\<close>

section \<open>Outcomes\<close>

text \<open>
  A Rust function of type \<open>Result<T, E>\<close> either returns \<open>Ok\<close>, returns \<open>Err\<close>, or does not
  return because it panics (an arithmetic overflow of \<open>Decimal\<close>, an \<open>unwrap\<close> or \<open>expect\<close>
  on the wrong variant).  The release profile of the workspace sets \<open>panic = "abort"\<close>, so
  nothing of the program runs after a panic.  An infallible function that may panic has an
  arbitrary error type.
\<close>

datatype ('a, 'e) res = Ok 'a | Err 'e | Panic

named_theorems res_simps \<open>simplification of outcome combinators\<close>
named_theorems res_elims \<open>inversion of successful outcomes\<close>

primrec bind :: "('a, 'e) res \<Rightarrow> ('a \<Rightarrow> ('b, 'e) res) \<Rightarrow> ('b, 'e) res" where
  "bind (Ok x) k = k x"
| "bind (Err e) k = Err e"
| "bind Panic k = Panic"

primrec map_err :: "('e \<Rightarrow> 'f) \<Rightarrow> ('a, 'e) res \<Rightarrow> ('a, 'f) res" where
  "map_err g (Ok x) = Ok x"
| "map_err g (Err e) = Err (g e)"
| "map_err g Panic = Panic"

text \<open>The result of a \<open>Decimal\<close> operator: \<open>None\<close> is its panic.\<close>

primrec or_panic :: "'a option \<Rightarrow> ('a, 'e) res" where
  "or_panic (Some x) = Ok x"
| "or_panic None = Panic"

text \<open>\<open>Result::unwrap\<close> and \<open>Option::ok_or\<close>.\<close>

primrec unwrap :: "('a, 'e) res \<Rightarrow> ('a, 'f) res" where
  "unwrap (Ok x) = Ok x"
| "unwrap (Err e) = Panic"
| "unwrap Panic = Panic"

primrec ok_or :: "'a option \<Rightarrow> 'e \<Rightarrow> ('a, 'e) res" where
  "ok_or (Some x) e = Ok x"
| "ok_or None e = Err e"

primrec is_ok :: "('a, 'e) res \<Rightarrow> bool" where
  "is_ok (Ok x) = True"
| "is_ok (Err e) = False"
| "is_ok Panic = False"

primrec is_err :: "('a, 'e) res \<Rightarrow> bool" where
  "is_err (Ok x) = False"
| "is_err (Err e) = True"
| "is_err Panic = False"

lemma bind_eq_Ok [res_simps]: "bind m k = Ok y \<longleftrightarrow> (\<exists>x. m = Ok x \<and> k x = Ok y)"
  by (cases m) auto

lemma bind_eq_Err [res_simps]:
  "bind m k = Err e \<longleftrightarrow> m = Err e \<or> (\<exists>x. m = Ok x \<and> k x = Err e)"
  by (cases m) auto

lemma bind_eq_Panic [res_simps]:
  "bind m k = Panic \<longleftrightarrow> m = Panic \<or> (\<exists>x. m = Ok x \<and> k x = Panic)"
  by (cases m) auto

lemma bind_OkE [res_elims]:
  assumes "bind m k = Ok y"
  obtains x where "m = Ok x" and "k x = Ok y"
  using assms by (auto simp: bind_eq_Ok)

lemma map_err_eq_Ok [res_simps]: "map_err g m = Ok x \<longleftrightarrow> m = Ok x"
  by (cases m) auto

lemma map_err_eq_Err [res_simps]: "map_err g m = Err e \<longleftrightarrow> (\<exists>e'. m = Err e' \<and> e = g e')"
  by (cases m) auto

lemma map_err_eq_Panic [res_simps]: "map_err g m = Panic \<longleftrightarrow> m = Panic"
  by (cases m) auto

lemma or_panic_eq_Ok [res_simps]: "or_panic v = Ok x \<longleftrightarrow> v = Some x"
  by (cases v) auto

lemma or_panic_neq_Err [res_simps]: "or_panic v \<noteq> Err e"
  by (cases v) auto

lemma or_panic_eq_Panic [res_simps]: "or_panic v = Panic \<longleftrightarrow> v = None"
  by (cases v) auto

lemma unwrap_eq_Ok [res_simps]: "unwrap m = Ok x \<longleftrightarrow> m = Ok x"
  by (cases m) auto

lemma unwrap_neq_Err [res_simps]: "unwrap m \<noteq> Err e"
  by (cases m) auto

lemma ok_or_eq_Ok [res_simps]: "ok_or v e = Ok x \<longleftrightarrow> v = Some x"
  by (cases v) auto

lemma ok_or_eq_Err [res_simps]: "ok_or v e = Err e' \<longleftrightarrow> v = None \<and> e' = e"
  by (cases v) auto

lemma bind_assoc: "bind (bind m f) g = bind m (\<lambda>x. bind (f x) g)"
  by (cases m) auto

lemma is_ok_iff: "is_ok m \<longleftrightarrow> (\<exists>x. m = Ok x)"
  by (cases m) auto

lemma not_ok_bind: "\<not> is_ok m \<Longrightarrow> \<not> is_ok (bind m k)"
  by (cases m) auto

section \<open>Iterators\<close>

text \<open>
  A \<open>for\<close> loop over an iterator whose body updates an accumulator and may panic or return
  early with an error.
\<close>

primrec fold_res :: "('x \<Rightarrow> 'a \<Rightarrow> ('a, 'e) res) \<Rightarrow> 'x list \<Rightarrow> 'a \<Rightarrow> ('a, 'e) res" where
  "fold_res f [] a = Ok a"
| "fold_res f (x # xs) a = bind (f x a) (fold_res f xs)"

text \<open>An invariant of the body is an invariant of the loop.\<close>

lemma fold_res_inv:
  assumes "fold_res f xs a = Ok b" and "I a"
    and "\<And>x a a'. x \<in> set xs \<Longrightarrow> I a \<Longrightarrow> f x a = Ok a' \<Longrightarrow> I a'"
  shows "I b"
  using assms
proof (induction xs arbitrary: a)
  case Nil
  then show ?case by simp
next
  case (Cons x xs)
  from Cons.prems(1) obtain c where c: "f x a = Ok c" "fold_res f xs c = Ok b"
    by (auto simp: res_simps)
  have "I c" using Cons.prems(2,3) c(1) by auto
  then show ?case using Cons.IH c(2) Cons.prems(3) by auto
qed

lemma fold_res_append: "fold_res f (xs @ ys) a = bind (fold_res f xs a) (fold_res f ys)"
proof (induction xs arbitrary: a)
  case Nil
  then show ?case by simp
next
  case (Cons x xs)
  then show ?case by (cases "f x a") auto
qed

lemma bind_Ok_right [simp]: "bind m Ok = m"
  by (cases m) simp_all

lemma fold_res_snoc: "fold_res f (xs @ [x]) a = bind (fold_res f xs a) (f x)"
proof -
  have "fold_res f [] = Ok" by (rule ext) simp
  then have "fold_res f [x] = f x" by (intro ext) simp
  then show ?thesis by (simp add: fold_res_append)
qed

text \<open>\<open>map\<close> with a body that may fail: the first failure is the result.\<close>

primrec map_res :: "('x \<Rightarrow> ('y, 'e) res) \<Rightarrow> 'x list \<Rightarrow> ('y list, 'e) res" where
  "map_res f [] = Ok []"
| "map_res f (x # xs) = bind (f x) (\<lambda>y. bind (map_res f xs) (\<lambda>ys. Ok (y # ys)))"

lemma map_res_Ok_iff:
  "map_res f xs = Ok ys \<longleftrightarrow> list_all2 (\<lambda>x y. f x = Ok y) xs ys"
  by (induction xs arbitrary: ys) (auto simp: res_simps list_all2_Cons1)

lemma map_res_total: "(\<And>x. x \<in> set xs \<Longrightarrow> f x = Ok (g x)) \<Longrightarrow> map_res f xs = Ok (map g xs)"
  by (induction xs) auto

section \<open>Machine integers\<close>

type_synonym u32 = "32 word"
type_synonym u64 = "64 word"
type_synonym i64 = "64 word" \<comment> \<open>read with \<open>sint\<close>\<close>
type_synonym i32 = "32 word" \<comment> \<open>read with \<open>sint\<close>\<close>

text \<open>An \<open>AtomicI32\<close> counter below its maximum.\<close>

lemma sint_plus_1:
  "sint (i :: i32) < 2 ^ 31 - 1 \<Longrightarrow> sint (i + 1) = sint i + 1"
  using sint_ge [of i] by (simp add: sint_word_ariths(1) signed_take_bit_int_eq_self)

text \<open>\<open>i64::checked_add\<close>.\<close>

definition i64_checked_add :: "i64 \<Rightarrow> i64 \<Rightarrow> i64 option" where
  "i64_checked_add a b =
     (let s = sint a + sint b in if - (2 ^ 63) \<le> s \<and> s < 2 ^ 63 then Some (a + b) else None)"

lemma i64_checked_add_Some:
  assumes "i64_checked_add a b = Some c"
  shows "sint c = sint a + sint b"
proof -
  have r: "- (2 ^ 63) \<le> sint a + sint b" "sint a + sint b < 2 ^ 63" and c: "c = a + b"
    using assms by (auto simp: i64_checked_add_def Let_def split: if_splits)
  have "sint (a + b) = signed_take_bit 63 (sint a + sint b)"
    by (simp add: sint_word_ariths(1))
  also have "\<dots> = sint a + sint b"
    using r by (simp add: signed_take_bit_int_eq_self)
  finally show ?thesis using c by simp
qed

section \<open>Strings\<close>

text \<open>
  A Rust \<open>String\<close> is its UTF-8 byte sequence; an Isabelle \<open>char\<close> is a byte, so \<open>length\<close> is
  \<open>String::len\<close>.  The character tests below are those of \<open>char::is_ascii_*\<close>; on a byte
  of a multi-byte character they are false, as they are on the character itself.
\<close>

definition code :: "char \<Rightarrow> nat" where
  "code c = of_char c"

definition is_ascii :: "char \<Rightarrow> bool" where
  "is_ascii c = (code c < 128)"

definition is_ascii_lower :: "char \<Rightarrow> bool" where
  "is_ascii_lower c = (97 \<le> code c \<and> code c \<le> 122)"

definition is_ascii_alphanumeric :: "char \<Rightarrow> bool" where
  "is_ascii_alphanumeric c =
     (48 \<le> code c \<and> code c \<le> 57 \<or> 65 \<le> code c \<and> code c \<le> 90 \<or> is_ascii_lower c)"

definition to_ascii_uppercase :: "char \<Rightarrow> char" where
  "to_ascii_uppercase c = (if is_ascii_lower c then char_of (code c - 32) else c)"

lemma code_char_of [simp]: "n < 256 \<Longrightarrow> code (char_of n) = n"
  by (simp add: code_def of_char_of)

lemma code_to_upper: "code (to_ascii_uppercase c) = (if is_ascii_lower c then code c - 32 else code c)"
  by (auto simp: to_ascii_uppercase_def is_ascii_lower_def)

lemma to_upper_alnum:
  "is_ascii_alphanumeric c \<Longrightarrow> is_ascii_alphanumeric (to_ascii_uppercase c)"
  by (auto simp: is_ascii_alphanumeric_def code_to_upper is_ascii_lower_def)

lemma to_upper_not_lower: "\<not> is_ascii_lower (to_ascii_uppercase c)"
  by (auto simp: code_to_upper is_ascii_lower_def)

lemma to_upper_idem [simp]:
  "to_ascii_uppercase (to_ascii_uppercase c) = to_ascii_uppercase c"
  using to_upper_not_lower by (simp add: to_ascii_uppercase_def [of "to_ascii_uppercase c"])

text \<open>
  \<open>str::to_uppercase\<close> maps beyond ASCII by the Unicode tables, which are not modelled: code
  that upper-cases an unchecked string takes the function as an argument, and what is used of it
  is that it is the ASCII map on ASCII strings.
\<close>

definition ascii_upper :: "string \<Rightarrow> string" where
  "ascii_upper s = map to_ascii_uppercase s"

definition uppercases_ascii :: "(string \<Rightarrow> string) \<Rightarrow> bool" where
  "uppercases_ascii up = (\<forall>s. list_all is_ascii s \<longrightarrow> up s = ascii_upper s)"

lemma uppercases_ascii_upper: "uppercases_ascii ascii_upper"
  by (simp add: uppercases_ascii_def)

lemma length_ascii_upper [simp]: "length (ascii_upper s) = length s"
  by (simp add: ascii_upper_def)

lemma ascii_upper_idem [simp]: "ascii_upper (ascii_upper s) = ascii_upper s"
  by (simp add: ascii_upper_def)

text \<open>\<open>str::starts_with\<close> and \<open>str::ends_with\<close>; a literal between single quotes in a message.\<close>

definition starts_with :: "string \<Rightarrow> string \<Rightarrow> bool" where
  "starts_with s p = (take (length p) s = p)"

definition ends_with :: "string \<Rightarrow> string \<Rightarrow> bool" where
  "ends_with s p = starts_with (rev s) (rev p)"

lemma starts_with_append [simp]: "starts_with (p @ s) p"
  by (simp add: starts_with_def)

lemma ends_with_append [simp]: "ends_with (s @ p) p"
  by (simp add: ends_with_def)

lemma starts_with_iff: "starts_with s p \<longleftrightarrow> (\<exists>t. s = p @ t)"
  by (auto simp: starts_with_def) (metis append_take_drop_id)

lemma ends_with_iff: "ends_with s p \<longleftrightarrow> (\<exists>t. s = t @ p)"
  unfolding ends_with_def starts_with_iff by (metis rev_append rev_rev_ident)

definition quoted :: "string \<Rightarrow> string" where
  "quoted s = [CHR 0x27] @ s @ [CHR 0x27]"

section \<open>Decimal notation of integers\<close>

text \<open>\<open>Display\<close> of the integer types.\<close>

definition digit_char :: "nat \<Rightarrow> char" where
  "digit_char d = char_of (48 + d)"

fun show_nat :: "nat \<Rightarrow> string" where
  "show_nat n = (if n < 10 then [digit_char n] else show_nat (n div 10) @ [digit_char (n mod 10)])"

declare show_nat.simps [simp del]

definition show_int :: "int \<Rightarrow> string" where
  "show_int i = (if i < 0 then ''-'' @ show_nat (nat (- i)) else show_nat (nat i))"

text \<open>
  \<open>str::parse::<i64>\<close>: an optional sign and at least one digit; the digits are accumulated left
  to right (downwards for a negative number), an unknown digit is reported before an overflow at
  the same position.
\<close>

definition digit_of :: "char \<Rightarrow> int option" where
  "digit_of c = (if 48 \<le> code c \<and> code c \<le> 57 then Some (int (code c) - 48) else None)"

definition in_i64 :: "int \<Rightarrow> bool" where
  "in_i64 i = (- (2 ^ 63) \<le> i \<and> i < 2 ^ 63)"

definition i64_digit_step :: "bool \<Rightarrow> char \<Rightarrow> int \<Rightarrow> (int, string) res" where
  "i64_digit_step neg c acc =
     (case digit_of c of
        None \<Rightarrow> Err ''invalid digit found in string''
      | Some d \<Rightarrow>
          (let mul = acc * 10; r = (if neg then mul - d else mul + d)
           in if in_i64 mul \<and> in_i64 r then Ok r
              else if neg then Err ''number too small to fit in target type''
              else Err ''number too large to fit in target type''))"

definition parse_i64 :: "string \<Rightarrow> (int, string) res" where
  "parse_i64 s =
     (case s of
        [] \<Rightarrow> Err ''cannot parse integer from empty string''
      | c # cs \<Rightarrow>
          if (c = CHR ''+'' \<or> c = CHR ''-'') \<and> cs = [] then Err ''invalid digit found in string''
          else if c = CHR ''+'' then fold_res (i64_digit_step False) cs 0
          else if c = CHR ''-'' then fold_res (i64_digit_step True) cs 0
          else fold_res (i64_digit_step False) s 0)"

lemma digit_of_digit_char [simp]: "d < 10 \<Longrightarrow> digit_of (digit_char d) = Some (int d)"
  by (simp add: digit_of_def digit_char_def)

lemma show_nat_nonempty [simp]: "show_nat n \<noteq> []"
  by (subst show_nat.simps) simp

lemma show_nat_digits: "c \<in> set (show_nat n) \<Longrightarrow> 48 \<le> code c \<and> code c \<le> 57"
proof (induction n rule: show_nat.induct)
  case (1 n)
  then show ?case
    by (subst (asm) (2) show_nat.simps) (auto simp: digit_char_def split: if_splits)
qed

lemma parse_show_nat:
  assumes "in_i64 (if neg then - int n else int n)"
  shows "fold_res (i64_digit_step neg) (show_nat n) 0 = Ok (if neg then - int n else int n)"
  using assms
proof (induction n rule: show_nat.induct)
  case (1 n)
  show ?case
  proof (cases "n < 10")
    case True
    then show ?thesis
      using "1.prems" by (subst show_nat.simps) (simp add: i64_digit_step_def in_i64_def Let_def)
  next
    case False
    let ?m = "if neg then - int (n div 10) else int (n div 10)"
    have small: "in_i64 ?m" "in_i64 (?m * 10)"
      using "1.prems" by (auto simp: in_i64_def split: if_splits)
    have n: "(if neg then ?m * 10 - int (n mod 10) else ?m * 10 + int (n mod 10)) =
        (if neg then - int n else int n)"
      by (cases neg) (simp_all add: zdiv_int zmod_int, presburger)
    have "fold_res (i64_digit_step neg) (show_nat (n div 10)) 0 = Ok ?m"
      using "1.IH" [OF False] small(1) by simp
    moreover have "i64_digit_step neg (digit_char (n mod 10)) ?m = Ok (if neg then - int n else int n)"
      using small(2) "1.prems" n by (simp add: i64_digit_step_def Let_def)
    ultimately show ?thesis
      using False by (subst show_nat.simps) (simp add: fold_res_append)
  qed
qed

lemma parse_show_int: "in_i64 i \<Longrightarrow> parse_i64 (show_int i) = Ok i"
proof (cases "i < 0")
  case True
  assume r: "in_i64 i"
  with True have "in_i64 (- int (nat (- i)))" by simp
  then have "fold_res (i64_digit_step True) (show_nat (nat (- i))) 0 = Ok i"
    using parse_show_nat [of True "nat (- i)"] True by simp
  with True show ?thesis by (simp add: show_int_def parse_i64_def)
next
  case False
  assume r: "in_i64 i"
  obtain c cs where s: "show_nat (nat i) = c # cs" using show_nat_nonempty by (cases "show_nat (nat i)") auto
  have "48 \<le> code c" using show_nat_digits [of c "nat i"] s by simp
  then have "c \<noteq> CHR ''+''" and "c \<noteq> CHR ''-''" by (auto simp: code_def)
  moreover have "fold_res (i64_digit_step False) (c # cs) 0 = Ok i"
    using parse_show_nat [of False "nat i"] False r s by simp
  ultimately show ?thesis using False s by (simp add: show_int_def parse_i64_def)
qed

section \<open>Bounded histories\<close>

text \<open>Appending to a vector whose oldest entries are dropped.\<close>

definition push_dropping :: "nat \<Rightarrow> 'a \<Rightarrow> 'a list \<Rightarrow> 'a list" where
  "push_dropping n x xs = (if n \<le> length xs then tl xs else xs) @ [x]"

lemma length_push_dropping: "0 < n \<Longrightarrow> length xs \<le> n \<Longrightarrow> length (push_dropping n x xs) \<le> n"
  by (auto simp: push_dropping_def)

lemma last_push_dropping [simp]: "last (push_dropping n x xs) = x"
  by (simp add: push_dropping_def)

lemma push_dropping_nonempty [simp]: "push_dropping n x xs \<noteq> []"
  by (simp add: push_dropping_def)

section \<open>Monotonic clocks\<close>

text \<open>\<open>std::time::Instant\<close> in nanoseconds; \<open>Instant::elapsed\<close> saturates at zero.\<close>

type_synonym instant = int

definition elapsed :: "instant \<Rightarrow> instant \<Rightarrow> int" where
  "elapsed now since = max 0 (now - since)"

definition millis :: "u64 \<Rightarrow> int" where
  "millis ms = int (unat ms) * 10 ^ 6"

end
