(* ===== verification/Decimal_Arith.thy ===== *)
theory Decimal_Arith
  imports Prelude Complex_Main
begin

text \<open>
  The interface of \<open>rust_decimal::Decimal\<close>, the fixed-precision number type every amount, price
  and quantity of the program has.  The crate is not part of the repository: its arithmetic is a
  parameter \<open>D\<close> of every definition that computes with decimals.  What is used of it is stated
  by \<open>dec_ok\<close>: a decimal is \<open>m / 10^s\<close> with a 96-bit \<open>m\<close> and \<open>s \<le> 28\<close>, an operator returns its
  mathematical result when that is such a number and otherwise a faithful rounding of it, and it
  panics only on overflow or on division by zero.  Comparison and equality of decimals are
  numeric, so a decimal is carried as the rational number it denotes.
\<close>

type_synonym decimal = rat

text \<open>The operators; \<open>None\<close> is a panic.  \<open>d_fmt\<close> is \<open>Display\<close>,
  \<open>d_fmt2\<close> the format with two decimal places, \<open>d_parse\<close> is \<open>FromStr\<close>.\<close>

record dec_ops =
  d_add :: "decimal \<Rightarrow> decimal \<Rightarrow> decimal option"
  d_sub :: "decimal \<Rightarrow> decimal \<Rightarrow> decimal option"
  d_mul :: "decimal \<Rightarrow> decimal \<Rightarrow> decimal option"
  d_div :: "decimal \<Rightarrow> decimal \<Rightarrow> decimal option"
  d_round :: "decimal \<Rightarrow> decimal"
  d_floor :: "decimal \<Rightarrow> decimal"
  d_ceil :: "decimal \<Rightarrow> decimal"
  d_fract :: "decimal \<Rightarrow> decimal"
  d_fmt :: "decimal \<Rightarrow> string"
  d_fmt2 :: "decimal \<Rightarrow> string"
  d_parse :: "string \<Rightarrow> (decimal, string) res"

definition dec_max :: decimal where
  "dec_max = 2 ^ 96 - 1"

definition representable :: "decimal \<Rightarrow> bool" where
  "representable x = (\<exists>m s. x = of_int m / 10 ^ s \<and> s \<le> 28 \<and> \<bar>m\<bar> \<le> 2 ^ 96 - 1)"

text \<open>
  \<open>c\<close> is a faithful rounding of \<open>x\<close>: no decimal lies strictly between them.  In particular
  \<open>c = x\<close> when \<open>x\<close> is itself a decimal.
\<close>

definition rounds_to :: "decimal \<Rightarrow> decimal \<Rightarrow> bool" where
  "rounds_to x c =
     ((\<forall>lo. representable lo \<and> lo \<le> x \<longrightarrow> lo \<le> c) \<and> (\<forall>hi. representable hi \<and> x \<le> hi \<longrightarrow> c \<le> hi))"

definition rounded :: "decimal \<Rightarrow> decimal option \<Rightarrow> bool" where
  "rounded x r = (case r of None \<Rightarrow> dec_max < \<bar>x\<bar> | Some c \<Rightarrow> rounds_to x c)"

definition dec_ok :: "dec_ops \<Rightarrow> bool" where
  "dec_ok D =
     ((\<forall>a b. rounded (a + b) (d_add D a b)) \<and>
      (\<forall>a b. rounded (a - b) (d_sub D a b)) \<and>
      (\<forall>a b. rounded (a * b) (d_mul D a b)) \<and>
      (\<forall>a b. b \<noteq> 0 \<longrightarrow> rounded (a / b) (d_div D a b)) \<and>
      (\<forall>a. d_div D a 0 = None))"

text \<open>The instance used by witnesses: arithmetic without rounding or overflow.\<close>

definition exact_dec :: dec_ops where
  "exact_dec =
     \<lparr>d_add = (\<lambda>a b. Some (a + b)), d_sub = (\<lambda>a b. Some (a - b)), d_mul = (\<lambda>a b. Some (a * b)),
      d_div = (\<lambda>a b. if b = 0 then None else Some (a / b)),
      d_round = (\<lambda>a. of_int (round a)), d_floor = (\<lambda>a. of_int \<lfloor>a\<rfloor>), d_ceil = (\<lambda>a. of_int \<lceil>a\<rceil>),
      d_fract = (\<lambda>a. a - of_int (if 0 \<le> a then \<lfloor>a\<rfloor> else \<lceil>a\<rceil>)),
      d_fmt = (\<lambda>a. ''''), d_fmt2 = (\<lambda>a. ''''), d_parse = (\<lambda>s. Err '''')\<rparr>"

lemma exact_dec_simps [simp]:
  "d_add exact_dec a b = Some (a + b)"
  "d_sub exact_dec a b = Some (a - b)"
  "d_mul exact_dec a b = Some (a * b)"
  "d_div exact_dec a b = (if b = 0 then None else Some (a / b))"
  "d_round exact_dec a = of_int (round a)"
  "d_fmt exact_dec a = ''''"
  by (simp_all add: exact_dec_def)

lemma dec_ok_exact: "dec_ok exact_dec"
  by (simp add: dec_ok_def rounded_def rounds_to_def)

text \<open>
  A run in which no operator rounds: every operator that returns gives its mathematical result.
  It is the documented behaviour while no result needs more than 28 digits, and the setting of
  the value identities (averages, notionals) that rounding would only approximate.
\<close>

definition no_rounding :: "dec_ops \<Rightarrow> bool" where
  "no_rounding D =
     (\<forall>a b c. (d_add D a b = Some c \<longrightarrow> c = a + b) \<and> (d_sub D a b = Some c \<longrightarrow> c = a - b) \<and>
              (d_mul D a b = Some c \<longrightarrow> c = a * b) \<and> (d_div D a b = Some c \<longrightarrow> b \<noteq> 0 \<and> c = a / b))"

lemma no_rounding_exact: "no_rounding exact_dec"
  by (simp add: no_rounding_def exact_dec_def)

lemma no_roundingD:
  assumes "no_rounding D"
  shows "d_add D a b = Some c \<Longrightarrow> c = a + b" and "d_sub D a b = Some c \<Longrightarrow> c = a - b"
    and "d_mul D a b = Some c \<Longrightarrow> c = a * b" and "d_div D a b = Some c \<Longrightarrow> b \<noteq> 0 \<and> c = a / b"
  using assms by (simp_all add: no_rounding_def)

section \<open>Consequences of the interface\<close>

lemma representableI:
  "x = of_int m / 10 ^ s \<Longrightarrow> s \<le> 28 \<Longrightarrow> \<bar>m\<bar> \<le> 2 ^ 96 - 1 \<Longrightarrow> representable x"
  unfolding representable_def by blast

lemma representable_of_int: "\<bar>m\<bar> \<le> 2 ^ 96 - 1 \<Longrightarrow> representable (of_int m)"
  by (rule representableI [of _ m 0]) simp_all

lemma representable_0 [simp]: "representable 0"
  using representable_of_int [of 0] by simp

lemma representable_1 [simp]: "representable 1"
  using representable_of_int [of 1] by simp

lemma representable_le_max: "representable x \<Longrightarrow> \<bar>x\<bar> \<le> dec_max"
proof -
  assume "representable x"
  then obtain m s where x: "x = of_int m / 10 ^ s" and m: "\<bar>m\<bar> \<le> 2 ^ 96 - 1"
    unfolding representable_def by blast
  have "\<bar>x\<bar> = \<bar>of_int m\<bar> / 10 ^ s" by (simp add: x abs_divide)
  also have "\<dots> \<le> \<bar>of_int m\<bar>" by (simp add: divide_le_eq mult_le_cancel_left1)
  also have "\<dots> = of_int \<bar>m\<bar>" by simp
  also have "\<dots> \<le> of_int (2 ^ 96 - 1)" using m by (simp only: of_int_le_iff)
  finally show "\<bar>x\<bar> \<le> dec_max" by (simp add: dec_max_def)
qed

lemma rounds_to_exact: "rounds_to x c \<Longrightarrow> representable x \<Longrightarrow> c = x"
  unfolding rounds_to_def by (meson order_antisym order_refl)

lemma rounds_to_ge: "rounds_to x c \<Longrightarrow> representable lo \<Longrightarrow> lo \<le> x \<Longrightarrow> lo \<le> c"
  by (simp add: rounds_to_def)

lemma rounds_to_le: "rounds_to x c \<Longrightarrow> representable hi \<Longrightarrow> x \<le> hi \<Longrightarrow> c \<le> hi"
  by (simp add: rounds_to_def)

lemma rounded_exact: "rounded x r \<Longrightarrow> representable x \<Longrightarrow> r = Some x"
  using representable_le_max [of x]
  by (cases r) (auto simp: rounded_def dest: rounds_to_exact)

lemma rounded_SomeD: "rounded x (Some c) \<Longrightarrow> rounds_to x c"
  by (simp add: rounded_def)

lemma dec_ok_addD: "dec_ok D \<Longrightarrow> rounded (a + b) (d_add D a b)"
  and dec_ok_subD: "dec_ok D \<Longrightarrow> rounded (a - b) (d_sub D a b)"
  and dec_ok_mulD: "dec_ok D \<Longrightarrow> rounded (a * b) (d_mul D a b)"
  and dec_ok_divD: "dec_ok D \<Longrightarrow> b \<noteq> 0 \<Longrightarrow> rounded (a / b) (d_div D a b)"
  and dec_ok_div0: "dec_ok D \<Longrightarrow> d_div D a 0 = None"
  by (simp_all add: dec_ok_def)

text \<open>An operator whose mathematical result is a decimal returns it.\<close>

lemma d_add_exact: "dec_ok D \<Longrightarrow> representable (a + b) \<Longrightarrow> d_add D a b = Some (a + b)"
  by (rule rounded_exact [OF dec_ok_addD])

lemma d_sub_exact: "dec_ok D \<Longrightarrow> representable (a - b) \<Longrightarrow> d_sub D a b = Some (a - b)"
  by (rule rounded_exact [OF dec_ok_subD])

lemma d_mul_exact: "dec_ok D \<Longrightarrow> representable (a * b) \<Longrightarrow> d_mul D a b = Some (a * b)"
  by (rule rounded_exact [OF dec_ok_mulD])

lemma d_div_exact:
  "dec_ok D \<Longrightarrow> b \<noteq> 0 \<Longrightarrow> representable (a / b) \<Longrightarrow> d_div D a b = Some (a / b)"
  by (rule rounded_exact [OF dec_ok_divD])

lemma d_sub_self: "dec_ok D \<Longrightarrow> d_sub D a a = Some 0"
  using d_sub_exact [of D a a] by simp

lemma d_sub_0: "dec_ok D \<Longrightarrow> representable a \<Longrightarrow> d_sub D a 0 = Some a"
  using d_sub_exact [of D a 0] by simp

lemma d_add_0_right: "dec_ok D \<Longrightarrow> representable a \<Longrightarrow> d_add D a 0 = Some a"
  using d_add_exact [of D a 0] by simp

lemma d_add_0_left: "dec_ok D \<Longrightarrow> representable a \<Longrightarrow> d_add D 0 a = Some a"
  using d_add_exact [of D 0 a] by simp

text \<open>Rounding keeps the sign and keeps a bound that is a decimal.\<close>

lemma d_add_nonneg: "dec_ok D \<Longrightarrow> d_add D a b = Some c \<Longrightarrow> 0 \<le> a + b \<Longrightarrow> 0 \<le> c"
  using dec_ok_addD [of D a b] by (auto dest!: rounded_SomeD intro: rounds_to_ge)

lemma d_sub_nonneg: "dec_ok D \<Longrightarrow> d_sub D a b = Some c \<Longrightarrow> b \<le> a \<Longrightarrow> 0 \<le> c"
  using dec_ok_subD [of D a b] by (auto dest!: rounded_SomeD intro: rounds_to_ge)

lemma d_sub_nonpos: "dec_ok D \<Longrightarrow> d_sub D a b = Some c \<Longrightarrow> a \<le> b \<Longrightarrow> c \<le> 0"
  using dec_ok_subD [of D a b] by (auto dest!: rounded_SomeD intro: rounds_to_le)

lemma d_mul_nonneg: "dec_ok D \<Longrightarrow> d_mul D a b = Some c \<Longrightarrow> 0 \<le> a * b \<Longrightarrow> 0 \<le> c"
  using dec_ok_mulD [of D a b] by (auto dest!: rounded_SomeD intro: rounds_to_ge)

lemma d_mul_nonpos: "dec_ok D \<Longrightarrow> d_mul D a b = Some c \<Longrightarrow> a * b \<le> 0 \<Longrightarrow> c \<le> 0"
  using dec_ok_mulD [of D a b] by (auto dest!: rounded_SomeD intro: rounds_to_le)

lemma d_add_ge: "dec_ok D \<Longrightarrow> d_add D a b = Some c \<Longrightarrow> representable a \<Longrightarrow> 0 \<le> b \<Longrightarrow> a \<le> c"
  using dec_ok_addD [of D a b] by (auto dest!: rounded_SomeD intro: rounds_to_ge)

lemma d_sub_le: "dec_ok D \<Longrightarrow> d_sub D a b = Some c \<Longrightarrow> representable a \<Longrightarrow> 0 \<le> b \<Longrightarrow> c \<le> a"
  using dec_ok_subD [of D a b] by (auto dest!: rounded_SomeD intro: rounds_to_le)

lemma rounded_between:
  assumes "rounded x r" and "representable lo" and "representable hi" and "lo \<le> x" and "x \<le> hi"
  shows "\<exists>c. r = Some c \<and> lo \<le> c \<and> c \<le> hi"
proof (cases r)
  case None
  with assms representable_le_max [OF assms(2)] representable_le_max [OF assms(3)] show ?thesis
    by (simp add: rounded_def)
next
  case (Some c)
  with assms show ?thesis by (auto dest: rounded_SomeD intro: rounds_to_ge rounds_to_le)
qed

section \<open>A common scale\<close>

text \<open>
  Decimals with the same number \<open>k\<close> of decimal places and a mantissa in range.  Sums and
  differences that stay between \<open>0\<close> and such a number are such numbers again, so addition and
  subtraction of order quantities quoted at one scale are exact.
\<close>

definition on_grid :: "nat \<Rightarrow> decimal \<Rightarrow> bool" where
  "on_grid k x = (\<exists>m. x = of_int m / 10 ^ k \<and> \<bar>m\<bar> \<le> 2 ^ 96 - 1)"

lemma on_gridI: "x = of_int m / 10 ^ k \<Longrightarrow> \<bar>m\<bar> \<le> 2 ^ 96 - 1 \<Longrightarrow> on_grid k x"
  unfolding on_grid_def by blast

lemma on_grid_representable: "on_grid k x \<Longrightarrow> k \<le> 28 \<Longrightarrow> representable x"
  unfolding on_grid_def representable_def by blast

lemma on_grid_0 [simp]: "on_grid k 0"
  by (rule on_gridI [of _ 0]) simp_all

lemma not_pow_ten_le_0 [simp]: "\<not> (10 ^ k \<le> (0::rat))"
  by (simp add: not_le)

lemma on_grid_diff:
  assumes "on_grid k a" and "on_grid k b" and "0 \<le> b" and "b \<le> a"
  shows "on_grid k (a - b)"
proof -
  obtain m n where a: "a = of_int m / 10 ^ k" "\<bar>m\<bar> \<le> 2 ^ 96 - 1" and b: "b = of_int n / 10 ^ k"
    using assms(1,2) unfolding on_grid_def by blast
  have "0 \<le> n" and "n \<le> m"
    using assms(3,4) by (simp_all add: a b divide_le_cancel zero_le_divide_iff)
  then have "\<bar>m - n\<bar> \<le> 2 ^ 96 - 1" using a(2) by simp
  moreover have "a - b = of_int (m - n) / 10 ^ k" by (simp add: a b diff_divide_distrib)
  ultimately show ?thesis by (rule on_gridI [rotated])
qed

lemma on_grid_sum:
  assumes "on_grid k a" and "on_grid k b" and "on_grid k c"
    and "0 \<le> a" and "0 \<le> b" and "a + b \<le> c"
  shows "on_grid k (a + b)"
proof -
  obtain m n l where a: "a = of_int m / 10 ^ k" and b: "b = of_int n / 10 ^ k"
    and c: "c = of_int l / 10 ^ k" "\<bar>l\<bar> \<le> 2 ^ 96 - 1"
    using assms(1-3) unfolding on_grid_def by blast
  have s: "a + b = of_int (m + n) / 10 ^ k" by (simp add: a b add_divide_distrib)
  have "0 \<le> m" and "0 \<le> n" using assms(4,5) by (simp_all add: a b zero_le_divide_iff)
  moreover have "(of_int (m + n) :: rat) \<le> of_int l"
    using assms(6) unfolding s c by (simp add: divide_le_cancel)
  then have "m + n \<le> l" by (simp only: of_int_le_iff)
  ultimately have "\<bar>m + n\<bar> \<le> 2 ^ 96 - 1" using c(2) by simp
  with s show ?thesis by (rule on_gridI)
qed

section \<open>Sums\<close>

text \<open>\<open>Iterator::sum\<close>: \<open>Decimal::ZERO\<close> plus each element in turn.\<close>

definition dec_sum_from :: "dec_ops \<Rightarrow> decimal \<Rightarrow> decimal list \<Rightarrow> (decimal, 'e) res" where
  "dec_sum_from D a xs = fold_res (\<lambda>x acc. or_panic (d_add D acc x)) xs a"

definition dec_sum :: "dec_ops \<Rightarrow> decimal list \<Rightarrow> (decimal, 'e) res" where
  "dec_sum D xs = dec_sum_from D 0 xs"

lemma dec_sum_from_exact_dec: "dec_sum_from exact_dec a xs = Ok (a + sum_list xs)"
  by (induction xs arbitrary: a) (auto simp: dec_sum_from_def add.assoc)

lemma dec_sum_exact_dec: "dec_sum exact_dec xs = Ok (sum_list xs)"
  by (simp add: dec_sum_def dec_sum_from_exact_dec)

lemma dec_sum_from_not_Err: "dec_sum_from D a xs \<noteq> Err e"
  by (induction xs arbitrary: a) (auto simp: dec_sum_from_def res_simps)

lemma dec_sum_not_Err [simp]: "dec_sum D xs \<noteq> Err e"
  by (simp add: dec_sum_def dec_sum_from_not_Err)

lemma dec_sum_nonneg:
  assumes D: "dec_ok D" and s: "dec_sum D xs = Ok s" and pos: "\<And>x. x \<in> set xs \<Longrightarrow> 0 \<le> x"
  shows "0 \<le> s"
  using s unfolding dec_sum_def dec_sum_from_def
  by (rule fold_res_inv) (auto simp: res_simps pos intro: d_add_nonneg [OF D])

text \<open>When nothing rounds, a sum is the sum.\<close>

lemma dec_sum_from_no_rounding:
  assumes "no_rounding D" and "dec_sum_from D a xs = (Ok s :: (decimal, 'e) res)"
  shows "s = a + sum_list xs"
  using assms(2)
proof (induction xs arbitrary: a)
  case Nil
  then show ?case by (simp add: dec_sum_from_def)
next
  case (Cons x xs)
  then obtain y where "d_add D a x = Some y" "dec_sum_from D y xs = (Ok s :: (decimal, 'e) res)"
    by (auto simp: dec_sum_from_def res_simps)
  then show ?case using Cons.IH [of y] no_roundingD(1) [OF assms(1), of a x y] by (simp add: add.assoc)
qed

lemma dec_sum_no_rounding:
  "no_rounding D \<Longrightarrow> dec_sum D xs = (Ok s :: (decimal, 'e) res) \<Longrightarrow> s = sum_list xs"
  using dec_sum_from_no_rounding [of D 0 xs s] by (simp add: dec_sum_def)

end
