(* ===== verification/Values.thy ===== *)
theory Values
  imports Decimal_Arith
begin

text \<open>
  The value objects of \<open>crates/domain/src/values.rs\<close>: prices, symbols, quantities, volumes,
  identifiers, currencies, money and the trading enumerations, each with its validating
  constructor, its conversions and their errors.  A newtype struct is a datatype with one
  constructor, so that a price is never mistaken for a quantity.
\<close>

section \<open>Errors\<close>

datatype value_error =
    Value_InvalidPrice string
  | Value_InvalidQuantity string
  | Value_InvalidSymbol string
  | Value_InvalidVolume string
  | Value_InvalidOrderId string
  | Value_InvalidMoney string
  | Value_InvalidTimeFrame string
  | Value_InvalidSide string
  | Value_InvalidOrderType string
  | Value_InvalidTimeInForce string
  | Value_InvalidCurrency string

fun value_error_display :: "value_error \<Rightarrow> string" where
  "value_error_display (Value_InvalidPrice msg) = ''Invalid price: '' @ msg"
| "value_error_display (Value_InvalidQuantity msg) = ''Invalid quantity: '' @ msg"
| "value_error_display (Value_InvalidSymbol msg) = ''Invalid symbol: '' @ msg"
| "value_error_display (Value_InvalidVolume msg) = ''Invalid volume: '' @ msg"
| "value_error_display (Value_InvalidOrderId msg) = ''Invalid order ID: '' @ msg"
| "value_error_display (Value_InvalidMoney msg) = ''Invalid money: '' @ msg"
| "value_error_display (Value_InvalidTimeFrame msg) = ''Invalid timeframe: '' @ msg"
| "value_error_display (Value_InvalidSide msg) = ''Invalid side: '' @ msg"
| "value_error_display (Value_InvalidOrderType msg) = ''Invalid order type: '' @ msg"
| "value_error_display (Value_InvalidTimeInForce msg) = ''Invalid time in force: '' @ msg"
| "value_error_display (Value_InvalidCurrency msg) = ''Invalid currency: '' @ msg"

definition failed_to_parse :: "string \<Rightarrow> string \<Rightarrow> string" where
  "failed_to_parse s e = ''Failed to parse '' @ quoted s @ '': '' @ e"

section \<open>Price\<close>

datatype price = Price (price_inner: decimal)

definition price_new :: "dec_ops \<Rightarrow> decimal \<Rightarrow> (price, value_error) res" where
  "price_new D value =
     (if value \<le> 0
      then Err (Value_InvalidPrice (''Price must be positive, got '' @ d_fmt D value))
      else Ok (Price value))"

definition price_new_unchecked :: "decimal \<Rightarrow> price" where
  "price_new_unchecked value = Price value"

definition price_zero :: price where
  "price_zero = Price 0"

definition price_is_positive :: "price \<Rightarrow> bool" where
  "price_is_positive p = (0 < price_inner p)"

definition price_is_zero :: "price \<Rightarrow> bool" where
  "price_is_zero p = (price_inner p = 0)"

definition price_mul :: "dec_ops \<Rightarrow> price \<Rightarrow> decimal \<Rightarrow> (price, 'e) res" where
  "price_mul D p scalar = bind (or_panic (d_mul D (price_inner p) scalar)) (\<lambda>v. Ok (Price v))"

definition price_from_str :: "dec_ops \<Rightarrow> string \<Rightarrow> (price, value_error) res" where
  "price_from_str D s =
     bind (map_err (\<lambda>e. Value_InvalidPrice (failed_to_parse s e)) (d_parse D s)) (price_new D)"

section \<open>Symbol\<close>

datatype symbol = Symbol (symbol_str: string)

definition MAX_SYMBOL_LENGTH :: nat where
  "MAX_SYMBOL_LENGTH = 20"

definition symbol_char_ok :: "char \<Rightarrow> bool" where
  "symbol_char_ok c =
     (is_ascii_alphanumeric c \<or> c = CHR ''/'' \<or> c = CHR ''-'' \<or> c = CHR ''.'' \<or> c = CHR '':'')"

text \<open>
  The characters are ASCII once the third test has passed, so the upper-casing is the ASCII one.
\<close>

definition symbol_new :: "string \<Rightarrow> (symbol, value_error) res" where
  "symbol_new s =
     (if s = [] then Err (Value_InvalidSymbol ''Symbol cannot be empty'')
      else if MAX_SYMBOL_LENGTH < length s
      then Err (Value_InvalidSymbol
             (''Symbol '' @ quoted s @ '' exceeds maximum length of '' @ show_nat MAX_SYMBOL_LENGTH
              @ '' characters''))
      else if \<not> list_all symbol_char_ok s
      then Err (Value_InvalidSymbol (''Symbol '' @ quoted s @ '' contains invalid characters''))
      else Ok (Symbol (ascii_upper s)))"

definition symbol_is_futures :: "symbol \<Rightarrow> bool" where
  "symbol_is_futures s = (CHR ''/'' \<in> set (symbol_str s))"

definition symbol_is_option :: "symbol \<Rightarrow> bool" where
  "symbol_is_option s = (CHR '':'' \<in> set (symbol_str s))"

definition symbol_len :: "symbol \<Rightarrow> nat" where
  "symbol_len s = length (symbol_str s)"

definition symbol_is_empty :: "symbol \<Rightarrow> bool" where
  "symbol_is_empty s = (symbol_str s = [])"

definition symbol_from_str :: "string \<Rightarrow> (symbol, value_error) res" where
  "symbol_from_str s = symbol_new s"

section \<open>Quantity\<close>

datatype quantity = Quantity (qty_inner: decimal)

definition quantity_new :: "dec_ops \<Rightarrow> decimal \<Rightarrow> (quantity, value_error) res" where
  "quantity_new D value =
     (if value \<le> 0
      then Err (Value_InvalidQuantity (''Quantity must be positive, got '' @ d_fmt D value))
      else Ok (Quantity value))"

definition quantity_new_unchecked :: "decimal \<Rightarrow> quantity" where
  "quantity_new_unchecked value = Quantity value"

definition quantity_is_integer :: "dec_ops \<Rightarrow> quantity \<Rightarrow> bool" where
  "quantity_is_integer D q = (d_fract D (qty_inner q) = 0)"

definition quantity_floor :: "dec_ops \<Rightarrow> quantity \<Rightarrow> quantity" where
  "quantity_floor D q = Quantity (d_floor D (qty_inner q))"

definition quantity_ceil :: "dec_ops \<Rightarrow> quantity \<Rightarrow> quantity" where
  "quantity_ceil D q = Quantity (d_ceil D (qty_inner q))"

definition quantity_is_positive :: "quantity \<Rightarrow> bool" where
  "quantity_is_positive q = (0 < qty_inner q)"

definition quantity_add :: "dec_ops \<Rightarrow> quantity \<Rightarrow> quantity \<Rightarrow> (quantity, 'e) res" where
  "quantity_add D q other =
     bind (or_panic (d_add D (qty_inner q) (qty_inner other))) (\<lambda>v. Ok (Quantity v))"

definition quantity_sub :: "dec_ops \<Rightarrow> quantity \<Rightarrow> quantity \<Rightarrow> (decimal, 'e) res" where
  "quantity_sub D q other = or_panic (d_sub D (qty_inner q) (qty_inner other))"

definition quantity_from_str :: "dec_ops \<Rightarrow> string \<Rightarrow> (quantity, value_error) res" where
  "quantity_from_str D s =
     bind (map_err (\<lambda>e. Value_InvalidQuantity (failed_to_parse s e)) (d_parse D s)) (quantity_new D)"

section \<open>Volume\<close>

datatype volume = Volume (volume_i64: i64)

definition volume_new :: "i64 \<Rightarrow> (volume, value_error) res" where
  "volume_new value =
     (if sint value < 0
      then Err (Value_InvalidVolume (''Volume cannot be negative, got '' @ show_int (sint value)))
      else Ok (Volume value))"

definition volume_zero :: volume where
  "volume_zero = Volume 0"

definition volume_increment :: "volume \<Rightarrow> (volume, 'e) res" where
  "volume_increment v = bind (or_panic (i64_checked_add (volume_i64 v) 1)) (\<lambda>n. Ok (Volume n))"

definition volume_add :: "volume \<Rightarrow> volume \<Rightarrow> (volume, 'e) res" where
  "volume_add v other =
     bind (or_panic (i64_checked_add (volume_i64 v) (volume_i64 other))) (\<lambda>n. Ok (Volume n))"

definition volume_is_zero :: "volume \<Rightarrow> bool" where
  "volume_is_zero v = (volume_i64 v = 0)"

definition volume_display :: "volume \<Rightarrow> string" where
  "volume_display v = show_int (sint (volume_i64 v))"

definition volume_from_str :: "string \<Rightarrow> (volume, value_error) res" where
  "volume_from_str s =
     bind (map_err (\<lambda>e. Value_InvalidVolume (failed_to_parse s e)) (parse_i64 s))
       (\<lambda>value. volume_new (word_of_int value))"

section \<open>Order identifiers\<close>

text \<open>
  A UUID is an opaque identity; its text form belongs to the \<open>uuid\<close> crate.  The parser accepts
  the printed form, which starts with a hexadecimal digit.
\<close>

type_synonym uuid = nat

record uuid_ops =
  u_parse :: "string \<Rightarrow> (uuid, string) res"
  u_fmt :: "uuid \<Rightarrow> string"

definition uuid_ok :: "uuid_ops \<Rightarrow> bool" where
  "uuid_ok U = (\<forall>u. u_parse U (u_fmt U u) = Ok u \<and> \<not> starts_with (u_fmt U u) ''ord-'')"

datatype order_id = OrderId (order_uuid: uuid)

definition order_id_from_str :: "uuid_ops \<Rightarrow> string \<Rightarrow> (order_id, value_error) res" where
  "order_id_from_str U s =
     (let uuid_str = (if starts_with s ''ord-'' then drop 4 s else s)
      in bind (map_err (\<lambda>e. Value_InvalidOrderId (failed_to_parse s e)) (u_parse U uuid_str))
           (\<lambda>uuid. Ok (OrderId uuid)))"

definition order_id_to_simple_string :: "uuid_ops \<Rightarrow> order_id \<Rightarrow> string" where
  "order_id_to_simple_string U i = u_fmt U (order_uuid i)"

definition order_id_display :: "uuid_ops \<Rightarrow> order_id \<Rightarrow> string" where
  "order_id_display U i = ''ord-'' @ u_fmt U (order_uuid i)"

section \<open>Currency and money\<close>

datatype currency = USD | EUR | GBP | JPY | CHF | CAD | AUD | CNY

fun currency_as_str :: "currency \<Rightarrow> string" where
  "currency_as_str USD = ''USD''"
| "currency_as_str EUR = ''EUR''"
| "currency_as_str GBP = ''GBP''"
| "currency_as_str JPY = ''JPY''"
| "currency_as_str CHF = ''CHF''"
| "currency_as_str CAD = ''CAD''"
| "currency_as_str AUD = ''AUD''"
| "currency_as_str CNY = ''CNY''"

definition currency_decimal_places :: "currency \<Rightarrow> u32" where
  "currency_decimal_places c = (case c of JPY \<Rightarrow> 0 | _ \<Rightarrow> 2)"

definition currency_all :: "currency list" where
  "currency_all = [USD, EUR, GBP, JPY, CHF, CAD, AUD, CNY]"

definition currency_from_str :: "(string \<Rightarrow> string) \<Rightarrow> string \<Rightarrow> (currency, value_error) res" where
  "currency_from_str up s =
     (let u = up s in
      if u = ''USD'' then Ok USD else if u = ''EUR'' then Ok EUR
      else if u = ''GBP'' then Ok GBP else if u = ''JPY'' then Ok JPY
      else if u = ''CHF'' then Ok CHF else if u = ''CAD'' then Ok CAD
      else if u = ''AUD'' then Ok AUD else if u = ''CNY'' then Ok CNY
      else Err (Value_InvalidCurrency (''Unknown currency code: '' @ s)))"

record money =
  m_amount :: decimal
  m_currency :: currency

definition money_new :: "decimal \<Rightarrow> currency \<Rightarrow> (money, value_error) res" where
  "money_new amount currency =
     (if amount < 0 then Err (Value_InvalidMoney ''Money amount cannot be negative'')
      else Ok \<lparr>m_amount = amount, m_currency = currency\<rparr>)"

definition money_new_unchecked :: "decimal \<Rightarrow> currency \<Rightarrow> money" where
  "money_new_unchecked amount currency = \<lparr>m_amount = amount, m_currency = currency\<rparr>"

definition money_add :: "dec_ops \<Rightarrow> money \<Rightarrow> money \<Rightarrow> (money, value_error) res" where
  "money_add D m other =
     (if m_currency m \<noteq> m_currency other
      then Err (Value_InvalidMoney ''Cannot add Money with different currencies'')
      else bind (or_panic (d_add D (m_amount m) (m_amount other)))
             (\<lambda>a. Ok \<lparr>m_amount = a, m_currency = m_currency m\<rparr>))"

definition money_mul :: "dec_ops \<Rightarrow> money \<Rightarrow> decimal \<Rightarrow> (money, 'e) res" where
  "money_mul D m scalar =
     bind (or_panic (d_mul D (m_amount m) scalar))
       (\<lambda>a. Ok \<lparr>m_amount = a, m_currency = m_currency m\<rparr>)"

definition money_display :: "dec_ops \<Rightarrow> money \<Rightarrow> string" where
  "money_display D m = d_fmt D (m_amount m) @ '' '' @ currency_as_str (m_currency m)"

section \<open>Time frames\<close>

datatype time_frame = M1 | M5 | M15 | M30 | H1 | H4 | D1 | W1

fun time_frame_as_seconds :: "time_frame \<Rightarrow> u64" where
  "time_frame_as_seconds M1 = 60"
| "time_frame_as_seconds M5 = 300"
| "time_frame_as_seconds M15 = 900"
| "time_frame_as_seconds M30 = 1800"
| "time_frame_as_seconds H1 = 3600"
| "time_frame_as_seconds H4 = 14400"
| "time_frame_as_seconds D1 = 86400"
| "time_frame_as_seconds W1 = 604800"

fun time_frame_as_str :: "time_frame \<Rightarrow> string" where
  "time_frame_as_str M1 = ''1m''"
| "time_frame_as_str M5 = ''5m''"
| "time_frame_as_str M15 = ''15m''"
| "time_frame_as_str M30 = ''30m''"
| "time_frame_as_str H1 = ''1h''"
| "time_frame_as_str H4 = ''4h''"
| "time_frame_as_str D1 = ''1d''"
| "time_frame_as_str W1 = ''1w''"

definition time_frame_parse :: "string \<Rightarrow> (time_frame, value_error) res" where
  "time_frame_parse s =
     (if s = ''1m'' then Ok M1 else if s = ''5m'' then Ok M5
      else if s = ''15m'' then Ok M15 else if s = ''30m'' then Ok M30
      else if s = ''1h'' then Ok H1 else if s = ''4h'' then Ok H4
      else if s = ''1d'' then Ok D1 else if s = ''1w'' then Ok W1
      else Err (Value_InvalidTimeFrame (''Unknown timeframe: '' @ s)))"

definition time_frame_all :: "time_frame list" where
  "time_frame_all = [M1, M5, M15, M30, H1, H4, D1, W1]"

fun time_frame_is_intraday :: "time_frame \<Rightarrow> bool" where
  "time_frame_is_intraday D1 = False"
| "time_frame_is_intraday W1 = False"
| "time_frame_is_intraday _ = True"

section \<open>Side\<close>

datatype side = Buy | Sell

fun side_opposite :: "side \<Rightarrow> side" where
  "side_opposite Buy = Sell"
| "side_opposite Sell = Buy"

fun side_sign :: "side \<Rightarrow> int" where
  "side_sign Buy = 1"
| "side_sign Sell = -1"

definition side_is_buy :: "side \<Rightarrow> bool" where
  "side_is_buy s = (s = Buy)"

definition side_is_sell :: "side \<Rightarrow> bool" where
  "side_is_sell s = (s = Sell)"

fun side_as_str :: "side \<Rightarrow> string" where
  "side_as_str Buy = ''BUY''"
| "side_as_str Sell = ''SELL''"

definition side_parse :: "(string \<Rightarrow> string) \<Rightarrow> string \<Rightarrow> (side, value_error) res" where
  "side_parse up s =
     (let u = up s in
      if u \<in> {''BUY'', ''LONG'', ''B''} then Ok Buy
      else if u \<in> {''SELL'', ''SHORT'', ''S''} then Ok Sell
      else Err (Value_InvalidSide (''Unknown side: '' @ s)))"

section \<open>Order type and time in force\<close>

datatype order_type = Market | Limit | Stop | StopLimit

fun order_type_as_str :: "order_type \<Rightarrow> string" where
  "order_type_as_str Market = ''MARKET''"
| "order_type_as_str Limit = ''LIMIT''"
| "order_type_as_str Stop = ''STOP''"
| "order_type_as_str StopLimit = ''STOP_LIMIT''"

definition order_type_parse :: "(string \<Rightarrow> string) \<Rightarrow> string \<Rightarrow> (order_type, value_error) res" where
  "order_type_parse up s =
     (let u = up s in
      if u \<in> {''MARKET'', ''MKT''} then Ok Market
      else if u \<in> {''LIMIT'', ''LMT''} then Ok Limit
      else if u \<in> {''STOP'', ''STP''} then Ok Stop
      else if u \<in> {''STOP_LIMIT'', ''STOP-LIMIT'', ''STP_LMT''} then Ok StopLimit
      else Err (Value_InvalidOrderType (''Unknown order type: '' @ s)))"

fun requires_limit_price :: "order_type \<Rightarrow> bool" where
  "requires_limit_price Limit = True"
| "requires_limit_price StopLimit = True"
| "requires_limit_price _ = False"

fun requires_stop_price :: "order_type \<Rightarrow> bool" where
  "requires_stop_price Stop = True"
| "requires_stop_price StopLimit = True"
| "requires_stop_price _ = False"

definition order_type_is_market :: "order_type \<Rightarrow> bool" where
  "order_type_is_market t = (t = Market)"

datatype time_in_force = Day | GTC | IOC | FOK

fun time_in_force_as_str :: "time_in_force \<Rightarrow> string" where
  "time_in_force_as_str Day = ''DAY''"
| "time_in_force_as_str GTC = ''GTC''"
| "time_in_force_as_str IOC = ''IOC''"
| "time_in_force_as_str FOK = ''FOK''"

definition time_in_force_parse ::
    "(string \<Rightarrow> string) \<Rightarrow> string \<Rightarrow> (time_in_force, value_error) res" where
  "time_in_force_parse up s =
     (let u = up s in
      if u = ''DAY'' then Ok Day
      else if u \<in> {''GTC'', ''GOOD_TILL_CANCELED''} then Ok GTC
      else if u \<in> {''IOC'', ''IMMEDIATE_OR_CANCEL''} then Ok IOC
      else if u \<in> {''FOK'', ''FILL_OR_KILL''} then Ok FOK
      else Err (Value_InvalidTimeInForce (''Unknown time in force: '' @ s)))"

fun is_intraday_only :: "time_in_force \<Rightarrow> bool" where
  "is_intraday_only IOC = True"
| "is_intraday_only FOK = True"
| "is_intraday_only _ = False"

definition is_persistent :: "time_in_force \<Rightarrow> bool" where
  "is_persistent t = (t = GTC)"

definition allows_partial_fill :: "time_in_force \<Rightarrow> bool" where
  "allows_partial_fill t = (t \<noteq> FOK)"

section \<open>Lemmas on the constructors\<close>

lemma price_new_eq_Ok: "price_new D v = Ok p \<longleftrightarrow> 0 < v \<and> p = Price v"
  by (auto simp: price_new_def)

lemma quantity_new_eq_Ok: "quantity_new D v = Ok q \<longleftrightarrow> 0 < v \<and> q = Quantity v"
  by (auto simp: quantity_new_def)

lemma money_new_eq_Ok:
  "money_new a c = Ok m \<longleftrightarrow> 0 \<le> a \<and> m = \<lparr>m_amount = a, m_currency = c\<rparr>"
  by (auto simp: money_new_def)

lemma volume_new_eq_Ok: "volume_new n = Ok v \<longleftrightarrow> 0 \<le> sint n \<and> v = Volume n"
  by (auto simp: volume_new_def)

lemma price_new_not_Panic [simp]: "price_new D v \<noteq> Panic"
  and quantity_new_not_Panic [simp]: "quantity_new D v \<noteq> Panic"
  and money_new_not_Panic [simp]: "money_new a c \<noteq> Panic"
  by (auto simp: price_new_def quantity_new_def money_new_def)

text \<open>The constructor of a quantity refuses zero; several callers pass it zero.\<close>

lemma quantity_new_zero:
  "quantity_new D 0 = Err (Value_InvalidQuantity (''Quantity must be positive, got '' @ d_fmt D 0))"
  by (simp add: quantity_new_def)

lemmas value_new_simps =
  price_new_eq_Ok quantity_new_eq_Ok money_new_eq_Ok volume_new_eq_Ok

lemma money_new_unchecked_simps [simp]:
  "m_amount (money_new_unchecked a c) = a" "m_currency (money_new_unchecked a c) = c"
  by (simp_all add: money_new_unchecked_def)

lemma symbol_char_ok_upper: "symbol_char_ok c \<Longrightarrow> symbol_char_ok (to_ascii_uppercase c)"
  by (auto simp: symbol_char_ok_def to_upper_alnum)
    (auto simp: to_ascii_uppercase_def is_ascii_lower_def code_def)

lemma list_all_symbol_upper:
  "list_all symbol_char_ok s \<Longrightarrow> list_all symbol_char_ok (ascii_upper s)"
  by (induction s) (auto simp: ascii_upper_def symbol_char_ok_upper)

lemma symbol_new_eq_Ok:
  "symbol_new s = Ok x \<longleftrightarrow>
     s \<noteq> [] \<and> length s \<le> MAX_SYMBOL_LENGTH \<and> list_all symbol_char_ok s \<and> x = Symbol (ascii_upper s)"
  by (auto simp: symbol_new_def)

lemma volume_add_eq:
  "volume_add v w =
     (if in_i64 (sint (volume_i64 v) + sint (volume_i64 w))
      then Ok (Volume (volume_i64 v + volume_i64 w)) else Panic)"
  by (simp add: volume_add_def i64_checked_add_def in_i64_def Let_def)

lemma volume_add_Ok_sint:
  "volume_add v w = Ok x \<Longrightarrow> sint (volume_i64 x) = sint (volume_i64 v) + sint (volume_i64 w)"
  by (auto simp: volume_add_def res_simps dest: i64_checked_add_Some)

lemma in_i64_sint: "in_i64 (sint (n :: i64))"
  using sint_range_size [of n] by (simp add: in_i64_def word_size)

text \<open>The texts of the enumerations are ASCII and upper-case already.\<close>

lemma upper_texts:
  "list_all is_ascii (side_as_str s) \<and> ascii_upper (side_as_str s) = side_as_str s"
  "list_all is_ascii (order_type_as_str t) \<and> ascii_upper (order_type_as_str t) = order_type_as_str t"
  "list_all is_ascii (time_in_force_as_str f) \<and>
     ascii_upper (time_in_force_as_str f) = time_in_force_as_str f"
  "list_all is_ascii (currency_as_str c) \<and> ascii_upper (currency_as_str c) = currency_as_str c"
  subgoal by (induction s) code_simp+
  subgoal by (induction t) code_simp+
  subgoal by (induction f) code_simp+
  subgoal by (induction c) code_simp+
  done

section \<open>Properties\<close>

text \<open>
  The validating constructors accept exactly the values their types promise: a price and a
  quantity are strictly positive, money and volume are non-negative, and the accepted value is
  stored unchanged.
\<close>

theorem constructors_validate:
  "(price_new D v = Ok p \<longleftrightarrow> 0 < v \<and> p = Price v) \<and>
   (quantity_new D v = Ok q \<longleftrightarrow> 0 < v \<and> q = Quantity v) \<and>
   (money_new v c = Ok m \<longleftrightarrow> 0 \<le> v \<and> m = \<lparr>m_amount = v, m_currency = c\<rparr>) \<and>
   (volume_new n = Ok w \<longleftrightarrow> 0 \<le> sint n \<and> w = Volume n)"
  by (auto simp: price_new_def quantity_new_def money_new_def volume_new_def)

text \<open>
  C40: a symbol that was accepted is in canonical form: between 1 and 20 bytes, only admissible
  characters, no lower-case letter, and validating its text again gives the same symbol.
\<close>

theorem symbol_new_canonical:
  assumes "symbol_new s = Ok x"
  shows "1 \<le> symbol_len x \<and> symbol_len x \<le> 20 \<and> list_all symbol_char_ok (symbol_str x) \<and>
    list_all (\<lambda>c. \<not> is_ascii_lower c) (symbol_str x) \<and> symbol_new (symbol_str x) = Ok x"
proof -
  from assms have s: "s \<noteq> []" "length s \<le> 20" "list_all symbol_char_ok s"
    and x: "x = Symbol (ascii_upper s)"
    by (auto simp: symbol_new_eq_Ok MAX_SYMBOL_LENGTH_def)
  have "list_all (\<lambda>c. \<not> is_ascii_lower c) (ascii_upper s)"
    by (auto simp: ascii_upper_def list_all_iff to_upper_not_lower)
  moreover have "ascii_upper s \<noteq> []" using s(1) by (simp add: ascii_upper_def)
  ultimately show ?thesis
    using s x list_all_symbol_upper [OF s(3)]
    by (auto simp: symbol_len_def symbol_new_eq_Ok MAX_SYMBOL_LENGTH_def Suc_le_eq)
qed

theorem symbol_new_canonical_witness:
  "symbol_new ''es/2024'' = Ok (Symbol ''ES/2024'') \<and>
   symbol_new (symbol_str (Symbol ''ES/2024'')) = Ok (Symbol ''ES/2024'')"
proof -
  have h: "symbol_new ''es/2024'' = Ok (Symbol ''ES/2024'')" by code_simp
  show ?thesis using h symbol_new_canonical [OF h] by simp
qed

text \<open>
  Printing and parsing of the enumerations round-trip: every side, order type, time in
  force, currency and time frame is parsed back from its text.
\<close>

theorem enum_text_roundtrip:
  assumes "uppercases_ascii up"
  shows "side_parse up (side_as_str s) = Ok s \<and>
    order_type_parse up (order_type_as_str t) = Ok t \<and>
    time_in_force_parse up (time_in_force_as_str f) = Ok f \<and>
    currency_from_str up (currency_as_str c) = Ok c \<and>
    time_frame_parse (time_frame_as_str tf) = Ok tf"
proof -
  have up: "up x = ascii_upper x" if "list_all is_ascii x" for x
    using assms that by (simp add: uppercases_ascii_def)
  have "side_parse up (side_as_str s) = Ok s"
    using upper_texts(1) [of s] by (cases s) (simp_all add: side_parse_def up)
  moreover have "order_type_parse up (order_type_as_str t) = Ok t"
    using upper_texts(2) [of t] by (cases t) (simp_all add: order_type_parse_def up)
  moreover have "time_in_force_parse up (time_in_force_as_str f) = Ok f"
    using upper_texts(3) [of f] by (cases f) (simp_all add: time_in_force_parse_def up)
  moreover have "currency_from_str up (currency_as_str c) = Ok c"
    using upper_texts(4) [of c] by (cases c) (simp_all add: currency_from_str_def up)
  moreover have "time_frame_parse (time_frame_as_str tf) = Ok tf"
    by (cases tf) (simp_all add: time_frame_parse_def)
  ultimately show ?thesis by blast
qed

theorem enum_text_roundtrip_witness:
  "side_parse ascii_upper (side_as_str Sell) = Ok Sell"
  using enum_text_roundtrip [OF uppercases_ascii_upper] by blast

text \<open>
  An order identifier is recovered from both of its text forms, the prefixed one that
  \<open>Display\<close> prints and the plain one.
\<close>

theorem order_id_text_roundtrip:
  assumes "uuid_ok U"
  shows "order_id_from_str U (order_id_display U i) = Ok i \<and>
    order_id_from_str U (order_id_to_simple_string U i) = Ok i"
  using assms
  by (simp add: uuid_ok_def order_id_from_str_def order_id_display_def
      order_id_to_simple_string_def starts_with_def)

theorem order_id_text_roundtrip_witness:
  "order_id_from_str \<lparr>u_parse = (\<lambda>s. Ok (length s)), u_fmt = (\<lambda>u. replicate u (CHR ''0''))\<rparr>
     ''ord-000'' = Ok (OrderId 3)"
proof -
  let ?U = "\<lparr>u_parse = (\<lambda>s. Ok (length s)), u_fmt = (\<lambda>u. replicate u (CHR ''0''))\<rparr>"
  have "CHR ''r'' \<notin> set (take (length ''ord-'') (replicate u (CHR ''0'')))" for u
    by (auto dest: in_set_takeD)
  then have "\<not> starts_with (replicate u (CHR ''0'')) ''ord-''" for u
    unfolding starts_with_def by (metis list.set_intros)
  then have "uuid_ok ?U"
    by (simp add: uuid_ok_def)
  from order_id_text_roundtrip [OF this, of "OrderId 3"] show ?thesis
    by (simp add: order_id_display_def numeral_3_eq_3)
qed

text \<open>
  Volumes never wrap: adding two volumes gives the exact sum or panics, and a volume is
  parsed back from its printed form.
\<close>

theorem volume_exact_and_roundtrip:
  assumes "0 \<le> sint (volume_i64 v)"
  shows "volume_from_str (volume_display v) = Ok v \<and>
    (case volume_add v w of
       Ok x \<Rightarrow> sint (volume_i64 x) = sint (volume_i64 v) + sint (volume_i64 w)
     | Err _ \<Rightarrow> False
     | Panic \<Rightarrow> 2 ^ 63 \<le> sint (volume_i64 v) + sint (volume_i64 w))"
proof -
  have "volume_from_str (volume_display v) = Ok v"
    using assms parse_show_int [OF in_i64_sint [of "volume_i64 v"]]
    by (simp add: volume_from_str_def volume_display_def volume_new_def)
  moreover have "- (2 ^ 63) \<le> sint (volume_i64 w)"
    using in_i64_sint by (simp add: in_i64_def)
  ultimately show ?thesis
    using assms volume_add_Ok_sint [of v w]
    by (auto simp: volume_add_eq in_i64_def split: res.splits if_splits)
qed

theorem volume_exact_and_roundtrip_witness:
  "volume_from_str (volume_display (Volume 1420)) = Ok (Volume 1420)"
  by (rule conjunct1 [OF volume_exact_and_roundtrip]) simp

end
