(* ===== verification/Domain_Errors.thy ===== *)
theory Domain_Errors
  imports Values
begin

text \<open>
  The error types of \<open>crates/domain/src/errors.rs\<close>: one enum per layer, their union
  \<open>DomainError\<close> with its convenience constructors, and the texts that \<open>to_string\<close> gives, which
  the upper layers embed in their own errors.  Timestamps are nanoseconds; their text form is
  an argument.
\<close>

type_synonym timestamp = int

section \<open>Validation\<close>

datatype validation_error =
    Val_InvalidPrice string
  | Val_InvalidQuantity string
  | Val_InvalidSymbol string string
  | Val_InvalidTimeRange timestamp timestamp
  | Val_InvalidState string string
  | Val_MissingField string
  | Val_OutOfRange string string string string

fun validation_error_display :: "(timestamp \<Rightarrow> string) \<Rightarrow> validation_error \<Rightarrow> string" where
  "validation_error_display tf (Val_InvalidPrice reason) = ''invalid price: '' @ reason"
| "validation_error_display tf (Val_InvalidQuantity reason) = ''invalid quantity: '' @ reason"
| "validation_error_display tf (Val_InvalidSymbol symbol reason) =
     ''invalid symbol '' @ quoted symbol @ '': '' @ reason"
| "validation_error_display tf (Val_InvalidTimeRange start finish) =
     ''invalid time range: start '' @ tf start @ '' is after end '' @ tf finish"
| "validation_error_display tf (Val_InvalidState expected actual) =
     ''invalid state: expected '' @ expected @ '', got '' @ actual"
| "validation_error_display tf (Val_MissingField field) = ''missing required field: '' @ field"
| "validation_error_display tf (Val_OutOfRange field lo hi actual) =
     ''value out of range for '' @ field @ '': expected '' @ lo @ ''-'' @ hi @ '', got '' @ actual"

section \<open>Providers\<close>

datatype provider_error =
    Prov_ConnectionFailed string string
  | Prov_Disconnected string
  | Prov_Timeout string u64
  | Prov_AuthenticationFailed string
  | Prov_RateLimited string u64
  | Prov_InvalidResponse string string
  | Prov_SubscriptionFailed string string string
  | Prov_NotSupported string string

fun provider_error_display :: "provider_error \<Rightarrow> string" where
  "provider_error_display (Prov_ConnectionFailed provider reason) =
     ''connection failed to '' @ provider @ '': '' @ reason"
| "provider_error_display (Prov_Disconnected provider) = ''disconnected from '' @ provider"
| "provider_error_display (Prov_Timeout operation duration_ms) =
     ''timeout during '' @ operation @ '' after '' @ show_nat (unat duration_ms) @ ''ms''"
| "provider_error_display (Prov_AuthenticationFailed provider) =
     ''authentication failed for '' @ provider"
| "provider_error_display (Prov_RateLimited provider retry_after_secs) =
     ''rate limited by '' @ provider @ '', retry after '' @ show_nat (unat retry_after_secs) @ ''s''"
| "provider_error_display (Prov_InvalidResponse provider details) =
     ''invalid response from '' @ provider @ '': '' @ details"
| "provider_error_display (Prov_SubscriptionFailed symbol provider reason) =
     ''subscription failed for '' @ symbol @ '' on '' @ provider @ '': '' @ reason"
| "provider_error_display (Prov_NotSupported feature provider) =
     ''feature '' @ quoted feature @ '' not supported by '' @ provider"

section \<open>Repositories\<close>

datatype repository_error =
    Repo_ConnectionFailed
  | Repo_QueryFailed string string
  | Repo_NotFound string string
  | Repo_DuplicateKey string string
  | Repo_ConstraintViolation string string
  | Repo_SerializationFailed string
  | Repo_TransactionFailed string

fun repository_error_display :: "repository_error \<Rightarrow> string" where
  "repository_error_display Repo_ConnectionFailed = ''connection failed''"
| "repository_error_display (Repo_QueryFailed query reason) =
     ''query failed: '' @ query @ '' - '' @ reason"
| "repository_error_display (Repo_NotFound entity ident) = entity @ '' not found: '' @ ident"
| "repository_error_display (Repo_DuplicateKey entity key) =
     ''duplicate key for '' @ entity @ '': '' @ key"
| "repository_error_display (Repo_ConstraintViolation constraint details) =
     ''constraint violation: '' @ constraint @ '' - '' @ details"
| "repository_error_display (Repo_SerializationFailed reason) = ''serialization failed: '' @ reason"
| "repository_error_display (Repo_TransactionFailed reason) = ''transaction failed: '' @ reason"

definition repository_error_query :: "string \<Rightarrow> repository_error" where
  "repository_error_query reason = Repo_QueryFailed ''unknown'' reason"

definition repository_error_not_found :: "string \<Rightarrow> repository_error" where
  "repository_error_not_found ident = Repo_NotFound ''Record'' ident"

definition repository_error_duplicate_key :: "string \<Rightarrow> repository_error" where
  "repository_error_duplicate_key key = Repo_DuplicateKey ''Record'' key"

definition repository_error_constraint_violation :: "string \<Rightarrow> repository_error" where
  "repository_error_constraint_violation details = Repo_ConstraintViolation ''unknown'' details"

section \<open>Execution\<close>

datatype execution_error =
    Exec_OrderRejected string string
  | Exec_OrderNotFound string
  | Exec_InvalidOrderState string string string
  | Exec_InsufficientFunds string string
  | Exec_MarketClosed string
  | Exec_PriceOutOfRange string string string
  | Exec_QuantityTooLarge string string
  | Exec_ExchangeError string string string

fun execution_error_display :: "execution_error \<Rightarrow> string" where
  "execution_error_display (Exec_OrderRejected order_id reason) =
     ''order '' @ order_id @ '' rejected: '' @ reason"
| "execution_error_display (Exec_OrderNotFound order_id) = ''order not found: '' @ order_id"
| "execution_error_display (Exec_InvalidOrderState order_id state operation) =
     ''invalid order state for '' @ order_id @ '': '' @ state @ '' during '' @ operation"
| "execution_error_display (Exec_InsufficientFunds required available) =
     ''insufficient funds: required '' @ required @ '', available '' @ available"
| "execution_error_display (Exec_MarketClosed symbol) = ''market closed for '' @ symbol"
| "execution_error_display (Exec_PriceOutOfRange price lo hi) =
     ''price '' @ price @ '' out of range ['' @ lo @ '', '' @ hi @ '']''"
| "execution_error_display (Exec_QuantityTooLarge quantity max_allowed) =
     ''quantity '' @ quantity @ '' exceeds maximum allowed '' @ max_allowed"
| "execution_error_display (Exec_ExchangeError exchange ecode message) =
     ''exchange error from '' @ exchange @ '': ['' @ ecode @ ''] '' @ message"

section \<open>Strategies\<close>

datatype strategy_error =
    Strat_InvalidConfiguration string string string
  | Strat_InitializationFailed string string
  | Strat_ExecutionFailed string string string
  | Strat_InvalidSignal string string string
  | Strat_RiskViolation string string

fun strategy_error_display :: "strategy_error \<Rightarrow> string" where
  "strategy_error_display (Strat_InvalidConfiguration strategy field reason) =
     ''invalid configuration for '' @ strategy @ '': '' @ field @ '' - '' @ reason"
| "strategy_error_display (Strat_InitializationFailed strategy reason) =
     ''initialization failed for '' @ strategy @ '': '' @ reason"
| "strategy_error_display (Strat_ExecutionFailed strategy signal reason) =
     ''execution failed for '' @ strategy @ '' on signal '' @ signal @ '': '' @ reason"
| "strategy_error_display (Strat_InvalidSignal strategy signal reason) =
     ''invalid signal from '' @ strategy @ '': '' @ signal @ '' - '' @ reason"
| "strategy_error_display (Strat_RiskViolation strategy violation) =
     ''risk violation in '' @ strategy @ '': '' @ violation"

section \<open>The domain error\<close>

datatype domain_error =
    Dom_Validation validation_error
  | Dom_Provider provider_error
  | Dom_Repository repository_error
  | Dom_Execution execution_error
  | Dom_Strategy strategy_error
  | Dom_Unknown string timestamp
  | Dom_InvalidPrice string
  | Dom_InvalidQuantity string
  | Dom_OrderValidation string
  | Dom_InvalidStateTransition string string
  | Dom_PositionNotFound string
  | Dom_SymbolNotFound string
  | Dom_NotImplemented string

fun domain_error_display :: "(timestamp \<Rightarrow> string) \<Rightarrow> domain_error \<Rightarrow> string" where
  "domain_error_display tf (Dom_Validation e) = ''validation error: '' @ validation_error_display tf e"
| "domain_error_display tf (Dom_Provider e) = ''provider error: '' @ provider_error_display e"
| "domain_error_display tf (Dom_Repository e) = ''repository error: '' @ repository_error_display e"
| "domain_error_display tf (Dom_Execution e) = ''execution error: '' @ execution_error_display e"
| "domain_error_display tf (Dom_Strategy e) = ''strategy error: '' @ strategy_error_display e"
| "domain_error_display tf (Dom_Unknown message moment) = ''unknown error: '' @ message"
| "domain_error_display tf (Dom_InvalidPrice m) = ''Invalid price: '' @ m"
| "domain_error_display tf (Dom_InvalidQuantity m) = ''Invalid quantity: '' @ m"
| "domain_error_display tf (Dom_OrderValidation m) = ''Order validation failed: '' @ m"
| "domain_error_display tf (Dom_InvalidStateTransition old new) =
     ''Invalid state transition from '' @ old @ '' to '' @ new"
| "domain_error_display tf (Dom_PositionNotFound m) = ''Position not found: '' @ m"
| "domain_error_display tf (Dom_SymbolNotFound m) = ''Symbol not found: '' @ m"
| "domain_error_display tf (Dom_NotImplemented m) = ''Not implemented: '' @ m"

definition domain_error_unknown :: "timestamp \<Rightarrow> string \<Rightarrow> domain_error" where
  "domain_error_unknown now message = Dom_Unknown message now"

definition domain_error_validation :: "string \<Rightarrow> domain_error" where
  "domain_error_validation msg = Dom_Validation (Val_InvalidState ''valid'' msg)"

definition domain_error_invalid_price :: "string \<Rightarrow> domain_error" where
  "domain_error_invalid_price msg = Dom_InvalidPrice msg"

definition domain_error_invalid_quantity :: "string \<Rightarrow> domain_error" where
  "domain_error_invalid_quantity msg = Dom_InvalidQuantity msg"

section \<open>Errors with their context\<close>

record error_context =
  ec_operation :: string
  ec_timestamp :: timestamp
  ec_correlation_id :: uuid
  ec_user_id :: "string option"
  ec_metadata :: "string \<rightharpoonup> string"

definition error_context_new :: "uuid \<Rightarrow> timestamp \<Rightarrow> string \<Rightarrow> error_context" where
  "error_context_new fresh now operation =
     \<lparr>ec_operation = operation, ec_timestamp = now, ec_correlation_id = fresh, ec_user_id = None,
      ec_metadata = Map.empty\<rparr>"

definition with_user_id :: "string \<Rightarrow> error_context \<Rightarrow> error_context" where
  "with_user_id user_id c = c\<lparr>ec_user_id := Some user_id\<rparr>"

definition with_metadata :: "string \<Rightarrow> string \<Rightarrow> error_context \<Rightarrow> error_context" where
  "with_metadata key v c = c\<lparr>ec_metadata := (ec_metadata c)(key \<mapsto> v)\<rparr>"

record 'e contextual_error =
  ce_error :: 'e
  ce_context :: error_context

definition contextual_error_new :: "'e \<Rightarrow> error_context \<Rightarrow> 'e contextual_error" where
  "contextual_error_new e c = \<lparr>ce_error = e, ce_context = c\<rparr>"

definition contextual_error_display :: "uuid_ops \<Rightarrow> ('e \<Rightarrow> string) \<Rightarrow> 'e contextual_error \<Rightarrow> string" where
  "contextual_error_display U show_error x =
     show_error (ce_error x) @ '' (operation: '' @ ec_operation (ce_context x) @ '', correlation_id: '' @
     u_fmt U (ec_correlation_id (ce_context x)) @ '')''"

end
