(* ===== verification/Order_Entity.thy ===== *)
theory Order_Entity
  imports Domain_Errors
begin

text \<open>
  The order of \<open>crates/domain/src/entities.rs\<close>: its lifecycle status, its construction, its
  status transitions, fills, cancellation and rejection.  Each \<open>Utc::now()\<close> and each fresh UUID
  of the code is an argument.  A method on \<open>&mut self\<close> returns the new order; on \<open>Err\<close> the code
  has not written to the order.
\<close>

type_synonym entity_id = uuid

datatype position_direction = Long | Short

fun direction_to_side :: "position_direction \<Rightarrow> side" where
  "direction_to_side Long = Buy"
| "direction_to_side Short = Sell"

section \<open>Status\<close>

datatype order_status =
    Created
  | Submitted timestamp
  | Pending timestamp
  | PartiallyFilled (status_filled: quantity) (status_remaining: quantity) (status_avg_price: price)
  | Filled timestamp
  | Cancelled timestamp string
  | Rejected timestamp string

fun status_is_active :: "order_status \<Rightarrow> bool" where
  "status_is_active Created = True"
| "status_is_active (Submitted _) = True"
| "status_is_active (Pending _) = True"
| "status_is_active (PartiallyFilled _ _ _) = True"
| "status_is_active _ = False"

fun status_is_terminal :: "order_status \<Rightarrow> bool" where
  "status_is_terminal (Filled _) = True"
| "status_is_terminal (Cancelled _ _) = True"
| "status_is_terminal (Rejected _ _) = True"
| "status_is_terminal _ = False"

fun status_can_cancel :: "order_status \<Rightarrow> bool" where
  "status_can_cancel Created = True"
| "status_can_cancel (Submitted _) = True"
| "status_can_cancel (Pending _) = True"
| "status_can_cancel (PartiallyFilled _ _ _) = True"
| "status_can_cancel _ = False"

fun status_is_filled :: "order_status \<Rightarrow> bool" where
  "status_is_filled (Filled _) = True"
| "status_is_filled (PartiallyFilled _ _ _) = True"
| "status_is_filled _ = False"

fun status_timestamp :: "order_status \<Rightarrow> timestamp option" where
  "status_timestamp Created = None"
| "status_timestamp (Submitted moment) = Some moment"
| "status_timestamp (Pending moment) = Some moment"
| "status_timestamp (PartiallyFilled _ _ _) = None"
| "status_timestamp (Filled moment) = Some moment"
| "status_timestamp (Cancelled moment _) = Some moment"
| "status_timestamp (Rejected moment _) = Some moment"

fun variant_name :: "order_status \<Rightarrow> string" where
  "variant_name Created = ''Created''"
| "variant_name (Submitted _) = ''Submitted''"
| "variant_name (Pending _) = ''Pending''"
| "variant_name (PartiallyFilled _ _ _) = ''PartiallyFilled''"
| "variant_name (Filled _) = ''Filled''"
| "variant_name (Cancelled _ _) = ''Cancelled''"
| "variant_name (Rejected _ _) = ''Rejected''"

section \<open>Order\<close>

record order =
  ord_id :: entity_id
  ord_account_id :: entity_id
  ord_symbol :: symbol
  ord_side :: side
  ord_type :: order_type
  ord_quantity :: quantity
  ord_filled_quantity :: quantity
  ord_limit_price :: "price option"
  ord_stop_price :: "price option"
  ord_status :: order_status
  ord_time_in_force :: time_in_force
  ord_created_at :: timestamp
  ord_updated_at :: timestamp

definition check_prices ::
    "order_type \<Rightarrow> price option \<Rightarrow> price option \<Rightarrow> (unit, domain_error) res" where
  "check_prices order_type limit_price stop_price =
     (if requires_limit_price order_type \<and> limit_price = None
      then Err (Dom_OrderValidation ''Limit orders require a limit price'')
      else if requires_stop_price order_type \<and> stop_price = None
      then Err (Dom_OrderValidation ''Stop orders require a stop price'')
      else Ok ())"

definition order_new ::
    "uuid \<Rightarrow> timestamp \<Rightarrow> entity_id \<Rightarrow> symbol \<Rightarrow> side \<Rightarrow> order_type \<Rightarrow> quantity \<Rightarrow>
     price option \<Rightarrow> price option \<Rightarrow> (order, domain_error) res" where
  "order_new fresh now account_id symbol side order_type quantity limit_price stop_price =
     bind (check_prices order_type limit_price stop_price) (\<lambda>_.
       Ok \<lparr>ord_id = fresh, ord_account_id = account_id, ord_symbol = symbol, ord_side = side,
           ord_type = order_type, ord_quantity = quantity,
           ord_filled_quantity = quantity_new_unchecked 0,
           ord_limit_price = limit_price, ord_stop_price = stop_price,
           ord_status = Pending now, ord_time_in_force = Day,
           ord_created_at = now, ord_updated_at = now\<rparr>)"

definition order_new_with_id ::
    "timestamp \<Rightarrow> order_id \<Rightarrow> entity_id \<Rightarrow> symbol \<Rightarrow> side \<Rightarrow> quantity \<Rightarrow> order_type \<Rightarrow>
     time_in_force \<Rightarrow> price option \<Rightarrow> price option \<Rightarrow> (order, domain_error) res" where
  "order_new_with_id now i account_id symbol side quantity order_type tif limit_price stop_price =
     bind (check_prices order_type limit_price stop_price) (\<lambda>_.
       Ok \<lparr>ord_id = order_uuid i, ord_account_id = account_id, ord_symbol = symbol, ord_side = side,
           ord_type = order_type, ord_quantity = quantity,
           ord_filled_quantity = quantity_new_unchecked 0,
           ord_limit_price = limit_price, ord_stop_price = stop_price,
           ord_status = Created, ord_time_in_force = tif,
           ord_created_at = now, ord_updated_at = now\<rparr>)"

definition remaining_quantity :: "dec_ops \<Rightarrow> order \<Rightarrow> (quantity, 'e) res" where
  "remaining_quantity D ord =
     bind (or_panic (d_sub D (qty_inner (ord_quantity ord)) (qty_inner (ord_filled_quantity ord))))
       (\<lambda>r. Ok (quantity_new_unchecked r))"

definition order_can_cancel :: "order \<Rightarrow> bool" where
  "order_can_cancel ord = status_can_cancel (ord_status ord)"

definition order_is_active :: "order \<Rightarrow> bool" where
  "order_is_active ord = status_is_active (ord_status ord)"

definition order_is_terminal :: "order \<Rightarrow> bool" where
  "order_is_terminal ord = status_is_terminal (ord_status ord)"

definition validate_for_submission :: "order \<Rightarrow> (unit, domain_error) res" where
  "validate_for_submission ord =
     (if symbol_str (ord_symbol ord) = []
      then Err (Dom_OrderValidation ''Symbol cannot be empty'')
      else if qty_inner (ord_quantity ord) \<le> 0
      then Err (domain_error_invalid_quantity ''Order quantity must be positive'')
      else if requires_limit_price (ord_type ord) \<and> ord_limit_price ord = None
      then Err (Dom_OrderValidation ''Limit orders require a limit price'')
      else if requires_stop_price (ord_type ord) \<and> ord_stop_price ord = None
      then Err (Dom_OrderValidation ''Stop orders require a stop price'')
      else if ord_status ord \<noteq> Created
      then Err (Dom_OrderValidation (''Cannot submit order in state: '' @ variant_name (ord_status ord)))
      else Ok ())"

text \<open>\<open>date_naive\<close> of the \<open>chrono\<close> crate, the day of a timestamp, is an argument.\<close>

definition time_in_force_expired :: "(timestamp \<Rightarrow> int) \<Rightarrow> order \<Rightarrow> timestamp \<Rightarrow> bool" where
  "time_in_force_expired date_naive ord now =
     (case ord_time_in_force ord of
        GTC \<Rightarrow> False
      | Day \<Rightarrow> date_naive (ord_created_at ord) < date_naive now
      | IOC \<Rightarrow> False
      | FOK \<Rightarrow> False)"

definition is_valid_transition :: "order_status \<Rightarrow> order_status \<Rightarrow> bool" where
  "is_valid_transition old new =
     (if variant_name old = variant_name new then True
      else case (old, new) of
        (Created, Submitted _) \<Rightarrow> True
      | (Created, Cancelled _ _) \<Rightarrow> True
      | (Created, Rejected _ _) \<Rightarrow> True
      | (Submitted _, Pending _) \<Rightarrow> True
      | (Submitted _, Rejected _ _) \<Rightarrow> True
      | (Submitted _, Cancelled _ _) \<Rightarrow> True
      | (Pending _, PartiallyFilled _ _ _) \<Rightarrow> True
      | (Pending _, Filled _) \<Rightarrow> True
      | (Pending _, Rejected _ _) \<Rightarrow> True
      | (Pending _, Cancelled _ _) \<Rightarrow> True
      | (PartiallyFilled _ _ _, Filled _) \<Rightarrow> True
      | (PartiallyFilled _ _ _, Cancelled _ _) \<Rightarrow> True
      | (PartiallyFilled _ _ _, Rejected _ _) \<Rightarrow> True
      | (PartiallyFilled _ _ _, PartiallyFilled _ _ _) \<Rightarrow> True
      | (Filled _, _) \<Rightarrow> False
      | (Cancelled _ _, _) \<Rightarrow> False
      | (Rejected _ _, _) \<Rightarrow> False
      | _ \<Rightarrow> False)"

definition update_status :: "timestamp \<Rightarrow> order \<Rightarrow> order_status \<Rightarrow> (order, domain_error) res" where
  "update_status now ord new_status =
     (if \<not> is_valid_transition (ord_status ord) new_status
      then Err (Dom_InvalidStateTransition (variant_name (ord_status ord)) (variant_name new_status))
      else Ok (ord\<lparr>ord_status := new_status, ord_updated_at := now\<rparr>))"

text \<open>
  The average over the earlier fills and this one; \<open>ord\<close> already counts the fill, and still has
  the status it had before it.
\<close>

definition calculate_avg_fill_price ::
    "dec_ops \<Rightarrow> order \<Rightarrow> quantity \<Rightarrow> price \<Rightarrow> (price, 'e) res" where
  "calculate_avg_fill_price D ord fill_qty fill_price =
     (let total_filled = qty_inner (ord_filled_quantity ord) in
      bind (or_panic (d_sub D total_filled (qty_inner fill_qty))) (\<lambda>prev_filled.
        if prev_filled = 0 then Ok fill_price
        else
          let prev_avg = (case ord_status ord of
                            PartiallyFilled _ _ avg_price \<Rightarrow> price_inner avg_price
                          | _ \<Rightarrow> price_inner fill_price)
          in bind (or_panic (d_mul D prev_avg prev_filled)) (\<lambda>a.
             bind (or_panic (d_mul D (price_inner fill_price) (qty_inner fill_qty))) (\<lambda>b.
             bind (or_panic (d_add D a b)) (\<lambda>n.
             bind (or_panic (d_div D n total_filled)) (\<lambda>new_avg.
             Ok (price_new_unchecked new_avg)))))))"

definition order_fill ::
    "dec_ops \<Rightarrow> timestamp \<Rightarrow> timestamp \<Rightarrow> order \<Rightarrow> quantity \<Rightarrow> price \<Rightarrow> (order, domain_error) res" where
  "order_fill D now1 now2 ord fill_qty fill_price =
     (if \<not> status_is_active (ord_status ord)
      then Err (Dom_OrderValidation (''Cannot fill order in state: '' @ variant_name (ord_status ord)))
      else
        bind (remaining_quantity D ord) (\<lambda>left.
        if qty_inner left < qty_inner fill_qty
        then Err (domain_error_invalid_quantity ''Fill quantity exceeds remaining quantity'')
        else
          bind (or_panic (d_add D (qty_inner (ord_filled_quantity ord)) (qty_inner fill_qty))) (\<lambda>f.
          let ord1 = ord\<lparr>ord_filled_quantity := quantity_new_unchecked f\<rparr> in
          bind (remaining_quantity D ord1) (\<lambda>remaining.
          bind (calculate_avg_fill_price D ord1 fill_qty fill_price) (\<lambda>avg_price.
          Ok (ord1\<lparr>ord_status :=
                     (if qty_inner remaining = 0 then Filled now1
                      else PartiallyFilled (ord_filled_quantity ord1) remaining avg_price),
                   ord_updated_at := now2\<rparr>))))))"

definition order_cancel ::
    "timestamp \<Rightarrow> timestamp \<Rightarrow> order \<Rightarrow> string \<Rightarrow> (order, domain_error) res" where
  "order_cancel now1 now2 ord reason =
     (if \<not> order_can_cancel ord
      then Err (Dom_OrderValidation (''Cannot cancel order in state: '' @ variant_name (ord_status ord)))
      else Ok (ord\<lparr>ord_status := Cancelled now1 reason, ord_updated_at := now2\<rparr>))"

definition order_reject ::
    "timestamp \<Rightarrow> timestamp \<Rightarrow> order \<Rightarrow> string \<Rightarrow> (order, domain_error) res" where
  "order_reject now1 now2 ord reason =
     (if status_is_terminal (ord_status ord)
      then Err (Dom_OrderValidation
             (''Cannot reject order in terminal state: '' @ variant_name (ord_status ord)))
      else Ok (ord\<lparr>ord_status := Rejected now1 reason, ord_updated_at := now2\<rparr>))"

definition order_notional_value :: "dec_ops \<Rightarrow> order \<Rightarrow> price \<Rightarrow> (money, 'e) res" where
  "order_notional_value D ord current_price =
     bind (or_panic (d_mul D (price_inner current_price) (qty_inner (ord_quantity ord))))
       (\<lambda>amount. Ok (money_new_unchecked amount USD))"

definition order_avg_entry_price :: "order \<Rightarrow> price option" where
  "order_avg_entry_price ord =
     (case ord_status ord of
        PartiallyFilled _ _ avg_price \<Rightarrow> Some avg_price
      | Filled _ \<Rightarrow> ord_limit_price ord
      | _ \<Rightarrow> ord_limit_price ord)"

section \<open>The lifecycle, abstractly\<close>

text \<open>
  The lifecycle an order promises, on the phase of its status alone: which phase may follow
  which.  The transition check of the code is compared with it below.
\<close>

datatype phase = P_Created | P_Submitted | P_Pending | P_Partial | P_Filled | P_Cancelled | P_Rejected

fun phase_of :: "order_status \<Rightarrow> phase" where
  "phase_of Created = P_Created"
| "phase_of (Submitted _) = P_Submitted"
| "phase_of (Pending _) = P_Pending"
| "phase_of (PartiallyFilled _ _ _) = P_Partial"
| "phase_of (Filled _) = P_Filled"
| "phase_of (Cancelled _ _) = P_Cancelled"
| "phase_of (Rejected _ _) = P_Rejected"

inductive lifecycle_edge :: "phase \<Rightarrow> phase \<Rightarrow> bool" where
  submit: "lifecycle_edge P_Created P_Submitted"
| accept: "lifecycle_edge P_Submitted P_Pending"
| part: "lifecycle_edge P_Pending P_Partial"
| complete: "p \<in> {P_Pending, P_Partial} \<Longrightarrow> lifecycle_edge p P_Filled"
| cancel: "p \<in> {P_Created, P_Submitted, P_Pending, P_Partial} \<Longrightarrow> lifecycle_edge p P_Cancelled"
| reject: "p \<in> {P_Created, P_Submitted, P_Pending, P_Partial} \<Longrightarrow> lifecycle_edge p P_Rejected"

inductive_simps lifecycle_edge_simps [simp]:
  "lifecycle_edge p P_Created"
  "lifecycle_edge p P_Submitted"
  "lifecycle_edge p P_Pending"
  "lifecycle_edge p P_Partial"
  "lifecycle_edge p P_Filled"
  "lifecycle_edge p P_Cancelled"
  "lifecycle_edge p P_Rejected"

lemma variant_name_eq_iff: "variant_name s = variant_name t \<longleftrightarrow> phase_of s = phase_of t"
  by (cases s; cases t) simp_all

lemma is_valid_transition_iff:
  "is_valid_transition s t \<longleftrightarrow> phase_of s = phase_of t \<or> lifecycle_edge (phase_of s) (phase_of t)"
  unfolding is_valid_transition_def variant_name_eq_iff by (cases s; cases t) simp_all

lemma terminal_phase: "status_is_terminal s \<longleftrightarrow> phase_of s \<in> {P_Filled, P_Cancelled, P_Rejected}"
  by (cases s) simp_all

lemma active_iff_not_terminal: "status_is_active s \<longleftrightarrow> \<not> status_is_terminal s"
  by (cases s) simp_all

lemma can_cancel_iff_active: "status_can_cancel s \<longleftrightarrow> status_is_active s"
  by (cases s) simp_all

lemma terminal_transition:
  "status_is_terminal s \<Longrightarrow> is_valid_transition s t \<Longrightarrow> phase_of t = phase_of s"
  unfolding is_valid_transition_iff by (cases s; cases t) simp_all

section \<open>Steps of an order\<close>

text \<open>
  Everything that can happen to an order: any status update, any fill whose quantity satisfies
  \<open>P\<close>, a cancellation, a rejection, each when the code accepts it.
\<close>

inductive order_step :: "dec_ops \<Rightarrow> (decimal \<Rightarrow> bool) \<Rightarrow> order \<Rightarrow> order \<Rightarrow> bool" for D P where
  by_update: "update_status now ord s = Ok ord' \<Longrightarrow> order_step D P ord ord'"
| by_fill: "P (qty_inner q) \<Longrightarrow> order_fill D now1 now2 ord q p = Ok ord' \<Longrightarrow> order_step D P ord ord'"
| by_cancel: "order_cancel now1 now2 ord reason = Ok ord' \<Longrightarrow> order_step D P ord ord'"
| by_reject: "order_reject now1 now2 ord reason = Ok ord' \<Longrightarrow> order_step D P ord ord'"

lemma update_status_eq_Ok:
  "update_status now ord s = Ok ord' \<longleftrightarrow>
     is_valid_transition (ord_status ord) s \<and> ord' = ord\<lparr>ord_status := s, ord_updated_at := now\<rparr>"
  by (auto simp: update_status_def)

lemma order_cancel_eq_Ok:
  "order_cancel now1 now2 ord reason = Ok ord' \<longleftrightarrow>
     status_is_active (ord_status ord) \<and>
     ord' = ord\<lparr>ord_status := Cancelled now1 reason, ord_updated_at := now2\<rparr>"
  by (auto simp: order_cancel_def order_can_cancel_def can_cancel_iff_active)

lemma order_reject_eq_Ok:
  "order_reject now1 now2 ord reason = Ok ord' \<longleftrightarrow>
     status_is_active (ord_status ord) \<and>
     ord' = ord\<lparr>ord_status := Rejected now1 reason, ord_updated_at := now2\<rparr>"
  by (auto simp: order_reject_def active_iff_not_terminal)

lemma order_fill_active: "order_fill D now1 now2 ord q p = Ok ord' \<Longrightarrow> status_is_active (ord_status ord)"
  by (auto simp: order_fill_def split: if_splits)

lemma order_fill_frame:
  "order_fill D now1 now2 ord q p = Ok ord' \<Longrightarrow>
     ord' = ord\<lparr>ord_filled_quantity := ord_filled_quantity ord', ord_status := ord_status ord',
                ord_updated_at := now2\<rparr> \<and> phase_of (ord_status ord') \<in> {P_Filled, P_Partial}"
  by (auto simp: order_fill_def res_simps Let_def split: if_splits)

lemmas order_ops_eq_Ok = update_status_eq_Ok order_cancel_eq_Ok order_reject_eq_Ok

lemma order_fill_quantity:
  "order_fill D now1 now2 ord q p = Ok ord' \<Longrightarrow> ord_quantity ord' = ord_quantity ord"
  by (auto simp: order_fill_def res_simps Let_def split: if_splits)

lemma order_step_quantity: "order_step D P ord ord' \<Longrightarrow> ord_quantity ord' = ord_quantity ord"
  by (induction rule: order_step.induct) (auto simp: order_ops_eq_Ok dest: order_fill_quantity)

lemma order_step_terminal:
  "order_step D P ord ord' \<Longrightarrow> order_is_terminal ord \<Longrightarrow>
     phase_of (ord_status ord') = phase_of (ord_status ord) \<and>
     ord_filled_quantity ord' = ord_filled_quantity ord \<and> ord_quantity ord' = ord_quantity ord"
proof (induction rule: order_step.induct)
  case (by_update now ord s ord')
  then show ?case
    by (auto simp: order_ops_eq_Ok order_is_terminal_def dest: terminal_transition)
qed (auto simp: order_ops_eq_Ok order_is_terminal_def active_iff_not_terminal dest: order_fill_active)

section \<open>Fills at a common scale\<close>

text \<open>
  An order is \<open>sound_at k\<close> when its quantities have \<open>k\<close> decimal places and the filled part does
  not exceed the whole.
\<close>

definition sound_at :: "nat \<Rightarrow> order \<Rightarrow> bool" where
  "sound_at k ord =
     (on_grid k (qty_inner (ord_quantity ord)) \<and> on_grid k (qty_inner (ord_filled_quantity ord)) \<and>
      0 \<le> qty_inner (ord_filled_quantity ord) \<and>
      qty_inner (ord_filled_quantity ord) \<le> qty_inner (ord_quantity ord))"

definition open_quantity :: "order \<Rightarrow> decimal" where
  "open_quantity ord = qty_inner (ord_quantity ord) - qty_inner (ord_filled_quantity ord)"

lemma open_quantity_frame [simp]:
  "open_quantity (ord\<lparr>ord_status := s\<rparr>) = open_quantity ord"
  "open_quantity (ord\<lparr>ord_updated_at := t\<rparr>) = open_quantity ord"
  by (simp_all add: open_quantity_def)

lemma sound_at_frame [simp]:
  "sound_at k (ord\<lparr>ord_status := s\<rparr>) = sound_at k ord"
  "sound_at k (ord\<lparr>ord_updated_at := t\<rparr>) = sound_at k ord"
  by (simp_all add: sound_at_def)

lemma remaining_quantity_sound:
  assumes "dec_ok D" and "k \<le> 28" and "sound_at k ord"
  shows "remaining_quantity D ord = Ok (Quantity (open_quantity ord))"
proof -
  have "on_grid k (open_quantity ord)"
    using assms(3) unfolding sound_at_def open_quantity_def by (auto intro: on_grid_diff)
  then have "representable (open_quantity ord)" using assms(2) by (rule on_grid_representable)
  then show ?thesis
    using assms(1) by (simp add: remaining_quantity_def open_quantity_def d_sub_exact
        quantity_new_unchecked_def)
qed

text \<open>What a fill does to a sound order, with the arithmetic of the quantities carried out.\<close>

lemma order_fill_sound:
  assumes D: "dec_ok D" "k \<le> 28" and snd: "sound_at k ord"
    and q: "on_grid k (qty_inner q)" "0 \<le> qty_inner q"
  defines "ord1 \<equiv> ord\<lparr>ord_filled_quantity := Quantity (qty_inner (ord_filled_quantity ord) + qty_inner q)\<rparr>"
  shows "order_fill D now1 now2 ord q p =
     (if \<not> status_is_active (ord_status ord)
      then Err (Dom_OrderValidation (''Cannot fill order in state: '' @ variant_name (ord_status ord)))
      else if open_quantity ord < qty_inner q
      then Err (Dom_InvalidQuantity ''Fill quantity exceeds remaining quantity'')
      else bind (calculate_avg_fill_price D ord1 q p) (\<lambda>avg.
             Ok (ord1\<lparr>ord_status :=
                        (if open_quantity ord1 = 0 then Filled now1
                         else PartiallyFilled (ord_filled_quantity ord1) (Quantity (open_quantity ord1)) avg),
                      ord_updated_at := now2\<rparr>)))"
    and "qty_inner q \<le> open_quantity ord \<Longrightarrow> sound_at k ord1"
proof -
  have rem: "remaining_quantity D ord = (Ok (Quantity (open_quantity ord)) :: (quantity, domain_error) res)"
    using D snd by (rule remaining_quantity_sound)
  have s1: "sound_at k ord1" if le: "qty_inner q \<le> open_quantity ord"
    using snd q le on_grid_sum [of k "qty_inner (ord_filled_quantity ord)" "qty_inner q"
        "qty_inner (ord_quantity ord)"]
    by (auto simp: sound_at_def ord1_def open_quantity_def)
  then show "qty_inner q \<le> open_quantity ord \<Longrightarrow> sound_at k ord1" .
  have add: "d_add D (qty_inner (ord_filled_quantity ord)) (qty_inner q) =
      Some (qty_inner (ord_filled_quantity ord) + qty_inner q)" if "qty_inner q \<le> open_quantity ord"
    using s1 [OF that] D
    by (auto simp: sound_at_def ord1_def intro: d_add_exact on_grid_representable)
  have rem1: "remaining_quantity D ord1 = (Ok (Quantity (open_quantity ord1)) :: (quantity, domain_error) res)"
    if "qty_inner q \<le> open_quantity ord"
    using D s1 [OF that] by (rule remaining_quantity_sound)
  show "order_fill D now1 now2 ord q p =
     (if \<not> status_is_active (ord_status ord)
      then Err (Dom_OrderValidation (''Cannot fill order in state: '' @ variant_name (ord_status ord)))
      else if open_quantity ord < qty_inner q
      then Err (Dom_InvalidQuantity ''Fill quantity exceeds remaining quantity'')
      else bind (calculate_avg_fill_price D ord1 q p) (\<lambda>avg.
             Ok (ord1\<lparr>ord_status :=
                        (if open_quantity ord1 = 0 then Filled now1
                         else PartiallyFilled (ord_filled_quantity ord1) (Quantity (open_quantity ord1)) avg),
                      ord_updated_at := now2\<rparr>)))"
  proof (cases "open_quantity ord < qty_inner q")
    case True
    then show ?thesis
      by (simp add: order_fill_def rem domain_error_invalid_quantity_def)
  next
    case False
    then show ?thesis
      using add rem1 unfolding ord1_def
      by (simp add: order_fill_def rem quantity_new_unchecked_def Let_def)
  qed
qed

lemma order_fill_sound_Ok:
  assumes "dec_ok D" "k \<le> 28" "sound_at k ord" "on_grid k (qty_inner q)" "0 \<le> qty_inner q"
    and "order_fill D now1 now2 ord q p = Ok ord'"
  shows "sound_at k ord'"
    and "qty_inner (ord_filled_quantity ord') = qty_inner (ord_filled_quantity ord) + qty_inner q"
    and "ord_quantity ord' = ord_quantity ord"
    and "\<exists>avg. ord_status ord' =
      (if open_quantity ord' = 0 then Filled now1
       else PartiallyFilled (ord_filled_quantity ord') (Quantity (open_quantity ord')) avg)"
proof -
  let ?o = "ord\<lparr>ord_filled_quantity := Quantity (qty_inner (ord_filled_quantity ord) + qty_inner q)\<rparr>"
  let ?s = "\<lambda>avg. ?o\<lparr>ord_status := (if open_quantity ?o = 0 then Filled now1
        else PartiallyFilled (ord_filled_quantity ?o) (Quantity (open_quantity ?o)) avg),
      ord_updated_at := now2\<rparr>"
  note fill = assms(6) [unfolded order_fill_sound(1) [OF assms(1-5)]]
  have act: "status_is_active (ord_status ord)" by (rule ccontr) (use fill in simp)
  have le: "qty_inner q \<le> open_quantity ord" by (rule ccontr) (use fill act in \<open>simp add: not_le\<close>)
  have "bind (calculate_avg_fill_price D ?o q p) (\<lambda>avg. Ok (?s avg)) = (Ok ord' :: (order, domain_error) res)"
    using fill act le by (simp only: not_True_eq_False if_False not_less [symmetric])
  then obtain avg where "Ok (?s avg) = (Ok ord' :: (order, domain_error) res)" by (rule bind_OkE)
  then have ord': "ord' = ?s avg" by (simp only: res.inject)
  have "sound_at k ?o" using order_fill_sound(2) [OF assms(1-5) le] .
  then show "sound_at k ord'" unfolding ord' by (simp add: sound_at_def)
  show "qty_inner (ord_filled_quantity ord') = qty_inner (ord_filled_quantity ord) + qty_inner q"
    and "ord_quantity ord' = ord_quantity ord"
    unfolding ord' by simp_all
  show "\<exists>avg. ord_status ord' =
      (if open_quantity ord' = 0 then Filled now1
       else PartiallyFilled (ord_filled_quantity ord') (Quantity (open_quantity ord')) avg)"
    unfolding ord' by (intro exI [of _ avg]) simp
qed

lemma order_step_sound:
  assumes "order_step D (\<lambda>q. 0 \<le> q \<and> on_grid k q) ord ord'" "dec_ok D" "k \<le> 28" "sound_at k ord"
  shows "sound_at k ord'"
  using assms
proof (induction rule: order_step.induct)
  case (by_fill q now1 now2 ord p ord')
  then show ?case using order_fill_sound_Ok(1) by blast
qed (auto simp: order_ops_eq_Ok sound_at_def)

text \<open>A run of fills, each with its two clock readings.\<close>

definition order_fills ::
    "dec_ops \<Rightarrow> (timestamp \<times> timestamp \<times> quantity \<times> price) list \<Rightarrow> order \<Rightarrow> (order, domain_error) res" where
  "order_fills D = fold_res (\<lambda>(now1, now2, q, p) ord. order_fill D now1 now2 ord q p)"

definition fill_qty_of :: "timestamp \<times> timestamp \<times> quantity \<times> price \<Rightarrow> decimal" where
  "fill_qty_of f = qty_inner (fst (snd (snd f)))"

definition fill_notional_of :: "timestamp \<times> timestamp \<times> quantity \<times> price \<Rightarrow> decimal" where
  "fill_notional_of f = price_inner (snd (snd (snd f))) * qty_inner (fst (snd (snd f)))"

lemma order_fills_simps [simp]:
  "order_fills D [] ord = Ok ord"
  "order_fills D (f # fs) ord =
     bind (order_fill D (fst f) (fst (snd f)) ord (fst (snd (snd f))) (snd (snd (snd f)))) (order_fills D fs)"
  by (simp_all add: order_fills_def split_beta)

lemma order_fills_sound:
  assumes "dec_ok D" "k \<le> 28" "sound_at k ord"
    and "list_all (\<lambda>f. on_grid k (fill_qty_of f) \<and> 0 < fill_qty_of f) fs"
    and "order_fills D fs ord = Ok ord'"
  shows "sound_at k ord' \<and> ord_quantity ord' = ord_quantity ord \<and>
    qty_inner (ord_filled_quantity ord') =
      qty_inner (ord_filled_quantity ord) + (\<Sum>f\<leftarrow>fs. fill_qty_of f) \<and>
    (fs \<noteq> [] \<longrightarrow> (\<exists>now avg. ord_status ord' =
      (if open_quantity ord' = 0 then Filled now
       else PartiallyFilled (ord_filled_quantity ord') (Quantity (open_quantity ord')) avg)))"
  using assms(3-)
proof (induction fs arbitrary: ord)
  case Nil
  then show ?case by simp
next
  case (Cons f fs)
  then obtain o1 where o1: "order_fill D (fst f) (fst (snd f)) ord (fst (snd (snd f))) (snd (snd (snd f))) = Ok o1"
    and rest: "order_fills D fs o1 = Ok ord'" by (auto simp: res_simps)
  note step = order_fill_sound_Ok [OF assms(1,2) Cons.prems(1) _ _ o1]
  have q: "on_grid k (qty_inner (fst (snd (snd f))))" "0 \<le> qty_inner (fst (snd (snd f)))"
    using Cons.prems(2) by (auto simp: fill_qty_of_def)
  note ih = Cons.IH [OF step(1) [OF q] _ rest]
  show ?case
  proof (cases fs)
    case Nil
    then show ?thesis using step [OF q] rest by (auto simp: fill_qty_of_def)
  next
    case (Cons g gs)
    then show ?thesis using step [OF q] ih Cons.prems(2) by (auto simp: fill_qty_of_def)
  qed
qed

section \<open>The average fill price\<close>

text \<open>
  Between fills the status carries the average of the fills so far: \<open>averages N ord\<close> says that
  it is \<open>N\<close> over the filled quantity.
\<close>

definition averages :: "decimal \<Rightarrow> order \<Rightarrow> bool" where
  "averages N ord =
     (if qty_inner (ord_filled_quantity ord) = 0 then N = 0
      else case ord_status ord of
             PartiallyFilled f _ avg \<Rightarrow> price_inner avg * qty_inner (ord_filled_quantity ord) = N
           | Filled _ \<Rightarrow> True
           | _ \<Rightarrow> False)"

lemma order_fill_averages:
  assumes D: "no_rounding D" and N: "averages N ord"
    and pos: "0 \<le> qty_inner (ord_filled_quantity ord)" "0 < qty_inner q"
    and fill: "order_fill D now1 now2 ord q p = Ok ord'"
  shows "averages (N + price_inner p * qty_inner q) ord'"
proof -
  let ?f = "qty_inner (ord_filled_quantity ord)"
  note ex = no_roundingD [OF D]
  obtain f where f: "d_add D ?f (qty_inner q) = Some f"
    and filled: "ord_filled_quantity ord' = Quantity f" and act: "status_is_active (ord_status ord)"
    and st: "(\<exists>now. ord_status ord' = Filled now) \<or>
      (\<exists>r avg. ord_status ord' = PartiallyFilled (Quantity f) r avg \<and>
        calculate_avg_fill_price D (ord\<lparr>ord_filled_quantity := Quantity f\<rparr>) q p =
          (Ok avg :: (price, domain_error) res))"
    using fill
    by (auto simp: order_fill_def res_simps Let_def quantity_new_unchecked_def split: if_splits)
  have fv: "f = ?f + qty_inner q" using ex(1) [OF f] .
  then have "f \<noteq> 0" using pos by simp
  from st show ?thesis
  proof (elim disjE exE conjE)
    fix now assume "ord_status ord' = Filled now"
    then show ?thesis using \<open>f \<noteq> 0\<close> filled by (simp add: averages_def)
  next
    fix r avg assume s: "ord_status ord' = PartiallyFilled (Quantity f) r avg"
      and c: "calculate_avg_fill_price D (ord\<lparr>ord_filled_quantity := Quantity f\<rparr>) q p =
        (Ok avg :: (price, domain_error) res)"
    have "price_inner avg * f = N + price_inner p * qty_inner q"
    proof (cases "?f = 0")
      case True
      then show ?thesis
        using c N fv
        by (auto simp: calculate_avg_fill_price_def averages_def res_simps Let_def dest!: ex split: if_splits)
    next
      case False
      with N act obtain f0 r0 a where s0: "ord_status ord = PartiallyFilled f0 r0 a"
        and a: "price_inner a * ?f = N"
        by (cases "ord_status ord") (auto simp: averages_def)
      from c s0 False fv \<open>f \<noteq> 0\<close> show ?thesis
        by (auto simp: calculate_avg_fill_price_def res_simps Let_def price_new_unchecked_def a
            dest!: ex split: if_splits)
    qed
    then show ?thesis using \<open>f \<noteq> 0\<close> filled s by (simp add: averages_def)
  qed
qed

lemma order_fill_filled:
  assumes "no_rounding D" and "order_fill D now1 now2 ord q p = Ok ord'"
  shows "qty_inner (ord_filled_quantity ord') = qty_inner (ord_filled_quantity ord) + qty_inner q"
  using assms(2) no_roundingD(1) [OF assms(1)]
  by (auto simp: order_fill_def res_simps Let_def quantity_new_unchecked_def split: if_splits)

lemma order_fills_averages:
  assumes "no_rounding D" and "averages N ord" and "0 \<le> qty_inner (ord_filled_quantity ord)"
    and "list_all (\<lambda>f. 0 < fill_qty_of f) fs" and "order_fills D fs ord = Ok ord'"
  shows "averages (N + (\<Sum>f\<leftarrow>fs. fill_notional_of f)) ord' \<and>
    qty_inner (ord_filled_quantity ord') =
      qty_inner (ord_filled_quantity ord) + (\<Sum>f\<leftarrow>fs. fill_qty_of f)"
  using assms(2-)
proof (induction fs arbitrary: ord N)
  case Nil
  then show ?case by simp
next
  case (Cons f fs)
  then obtain o1 where o1: "order_fill D (fst f) (fst (snd f)) ord (fst (snd (snd f))) (snd (snd (snd f))) = Ok o1"
    and rest: "order_fills D fs o1 = Ok ord'" by (auto simp: res_simps)
  have q: "0 < qty_inner (fst (snd (snd f)))" using Cons.prems(3) by (simp add: fill_qty_of_def)
  have a1: "averages (N + fill_notional_of f) o1"
    using order_fill_averages [OF assms(1) Cons.prems(1,2) q o1] by (simp add: fill_notional_of_def)
  have f1: "qty_inner (ord_filled_quantity o1) = qty_inner (ord_filled_quantity ord) + fill_qty_of f"
    using order_fill_filled [OF assms(1) o1] by (simp add: fill_qty_of_def)
  have "0 \<le> qty_inner (ord_filled_quantity o1)"
    using f1 Cons.prems(2) q by (simp add: fill_qty_of_def)
  from Cons.IH [OF a1 this _ rest] Cons.prems(3) f1 show ?case by (simp add: add.assoc)
qed

section \<open>Properties\<close>

text \<open>
  C9: a status update follows the order lifecycle.  It succeeds exactly when the lifecycle has an
  edge from the old phase to the new one, or when the phase does not change; it then changes the
  status and the update time only, and it is refused with the names of the two states otherwise.
\<close>

theorem update_status_refines_lifecycle:
  "update_status now ord s =
     (if lifecycle_edge (phase_of (ord_status ord)) (phase_of s) \<or> phase_of s = phase_of (ord_status ord)
      then Ok (ord\<lparr>ord_status := s, ord_updated_at := now\<rparr>)
      else Err (Dom_InvalidStateTransition (variant_name (ord_status ord)) (variant_name s)))"
  by (auto simp: update_status_def is_valid_transition_iff)

text \<open>
  A filled, cancelled or rejected order is final: whatever sequence of updates, fills,
  cancellations and rejections the code accepts afterwards, the phase and the filled quantity
  stay what they were.
\<close>

theorem terminal_order_is_final:
  assumes "(order_step D P)\<^sup>*\<^sup>* ord ord'" and "order_is_terminal ord"
  shows "phase_of (ord_status ord') = phase_of (ord_status ord) \<and>
    ord_filled_quantity ord' = ord_filled_quantity ord"
  using assms
proof (induction rule: rtranclp_induct)
  case base
  then show ?case by simp
next
  case (step o1 o2)
  then have "order_is_terminal o1" by (auto simp: order_is_terminal_def terminal_phase)
  with step show ?case by (auto dest: order_step_terminal)
qed

definition sample_order :: order where
  "sample_order =
     \<lparr>ord_id = 7, ord_account_id = 1, ord_symbol = Symbol ''NQ'', ord_side = Buy, ord_type = Limit,
      ord_quantity = Quantity 100, ord_filled_quantity = Quantity 0,
      ord_limit_price = Some (Price 150), ord_stop_price = None, ord_status = Created,
      ord_time_in_force = GTC, ord_created_at = 0, ord_updated_at = 0\<rparr>"

theorem terminal_order_is_final_witness:
  "phase_of (ord_status (sample_order\<lparr>ord_status := Cancelled 2 ''second''\<rparr>)) =
     phase_of (ord_status (sample_order\<lparr>ord_status := Cancelled 1 ''first''\<rparr>))"
proof -
  let ?c = "sample_order\<lparr>ord_status := Cancelled 1 ''first''\<rparr>"
  let ?d = "sample_order\<lparr>ord_status := Cancelled 2 ''second''\<rparr>"
  have "update_status 0 ?c (Cancelled 2 ''second'') = Ok ?d"
    by (simp add: update_status_def is_valid_transition_def sample_order_def)
  then have s: "(order_step exact_dec (\<lambda>_. True))\<^sup>*\<^sup>* ?c ?d"
    by (blast intro: order_step.by_update)
  have t: "order_is_terminal ?c" by (simp add: order_is_terminal_def)
  show ?thesis using terminal_order_is_final [OF s t] by blast
qed

text \<open>
  C8: an order is never over-filled.  From an order with nothing filled, through any accepted
  sequence of status updates, fills, cancellations and rejections, the filled quantity stays
  between zero and the ordered quantity, which itself never changes; quantities share one scale.
\<close>

theorem fills_never_exceed_quantity:
  assumes "dec_ok D" and "k \<le> 28"
    and "on_grid k (qty_inner (ord_quantity ord))" and "0 \<le> qty_inner (ord_quantity ord)"
    and "qty_inner (ord_filled_quantity ord) = 0"
    and "(order_step D (\<lambda>q. 0 \<le> q \<and> on_grid k q))\<^sup>*\<^sup>* ord ord'"
  shows "0 \<le> qty_inner (ord_filled_quantity ord') \<and>
    qty_inner (ord_filled_quantity ord') \<le> qty_inner (ord_quantity ord') \<and>
    ord_quantity ord' = ord_quantity ord"
proof -
  have "sound_at k ord" using assms(3-5) by (simp add: sound_at_def)
  from assms(6) this have "sound_at k ord' \<and> ord_quantity ord' = ord_quantity ord"
  proof (induction rule: rtranclp_induct)
    case base
    then show ?case by simp
  next
    case (step o1 o2)
    then show ?case
      using order_step_sound [OF step.hyps(2) assms(1,2)] order_step_quantity [OF step.hyps(2)] by simp
  qed
  then show ?thesis by (auto simp: sound_at_def)
qed

lemma on_grid_of_nat: "on_grid 0 (of_nat n)" if "int n \<le> 2 ^ 96 - 1"
  by (rule on_gridI [of _ "int n"]) (use that in simp_all)

theorem fills_never_exceed_quantity_witness:
  "\<exists>ord'. order_fill exact_dec 1 1 sample_order (Quantity 40) (Price 150) = Ok ord' \<and>
     qty_inner (ord_filled_quantity ord') \<le> qty_inner (ord_quantity ord')"
proof -
  obtain ord' where f: "order_fill exact_dec 1 1 sample_order (Quantity 40) (Price 150) = Ok ord'"
    by (simp add: order_fill_def sample_order_def remaining_quantity_def quantity_new_unchecked_def
        calculate_avg_fill_price_def)
  have g: "on_grid 0 (qty_inner (ord_quantity sample_order))" "on_grid 0 (qty_inner (Quantity 40))"
    using on_grid_of_nat [of 100] on_grid_of_nat [of 40] by (simp_all add: sample_order_def)
  have s: "(order_step exact_dec (\<lambda>q. 0 \<le> q \<and> on_grid 0 q))\<^sup>*\<^sup>* sample_order ord'"
    using g(2) f by (intro r_into_rtranclp order_step.by_fill) simp_all
  show ?thesis
    using fills_never_exceed_quantity [OF dec_ok_exact _ g(1) _ _ s] f
    by (auto simp: sample_order_def)
qed

text \<open>
  A run of fills is accounted exactly.  The filled quantity is the sum of the fill quantities
  and never more than the ordered quantity; the status is \<open>Filled\<close> exactly when they are equal and
  otherwise carries the sum and the exact remainder.
\<close>

theorem fill_run_accounting:
  assumes "dec_ok D" and "k \<le> 28"
    and "on_grid k (qty_inner (ord_quantity ord))" and "0 \<le> qty_inner (ord_quantity ord)"
    and "ord_filled_quantity ord = Quantity 0"
    and "list_all (\<lambda>f. on_grid k (fill_qty_of f) \<and> 0 < fill_qty_of f) fs" and "fs \<noteq> []"
    and "order_fills D fs ord = Ok ord'"
  shows "let total = (\<Sum>f\<leftarrow>fs. fill_qty_of f); whole = qty_inner (ord_quantity ord) in
    ord_filled_quantity ord' = Quantity total \<and> total \<le> whole \<and>
    (\<exists>now avg. ord_status ord' =
       (if total = whole then Filled now
        else PartiallyFilled (Quantity total) (Quantity (whole - total)) avg))"
proof -
  have "sound_at k ord" using assms(3-5) by (simp add: sound_at_def)
  from order_fills_sound [OF assms(1,2) this assms(6,8)] assms(5,7) show ?thesis
    by (cases "ord_filled_quantity ord'") (auto simp: sound_at_def open_quantity_def Let_def)
qed

theorem fill_run_accounting_witness:
  "\<exists>ord' avg. order_fills exact_dec [(1, 1, Quantity 40, Price 150), (2, 2, Quantity 10, Price 149)]
       sample_order = Ok ord' \<and>
     ord_status ord' = PartiallyFilled (Quantity 50) (Quantity 50) avg"
proof -
  let ?fs = "[(1, 1, Quantity 40, Price 150), (2, 2, Quantity 10, Price 149)]"
  obtain ord' where f: "order_fills exact_dec ?fs sample_order = Ok ord'"
    by (simp add: order_fill_def sample_order_def remaining_quantity_def quantity_new_unchecked_def
        calculate_avg_fill_price_def)
  have g: "on_grid 0 (qty_inner (ord_quantity sample_order))" "on_grid 0 40" "on_grid 0 10"
    using on_grid_of_nat [of 100] on_grid_of_nat [of 40] on_grid_of_nat [of 10]
    by (simp_all add: sample_order_def)
  show ?thesis
    using fill_run_accounting [OF dec_ok_exact _ g(1) _ _ _ _ f] g(2,3) f
    by (simp add: sample_order_def fill_qty_of_def Let_def)
qed

text \<open>
  The average price a partially filled order carries is the volume-weighted average of its
  fills, when no operator rounds: average times filled quantity is the sum of price times
  quantity.
\<close>

theorem average_fill_price_is_vwap:
  assumes "no_rounding D" and "ord_filled_quantity ord = Quantity 0"
    and "list_all (\<lambda>f. 0 < fill_qty_of f) fs" and "fs \<noteq> []"
    and "order_fills D fs ord = Ok ord'" and "ord_status ord' = PartiallyFilled filled left avg"
  shows "price_inner avg * (\<Sum>f\<leftarrow>fs. fill_qty_of f) = (\<Sum>f\<leftarrow>fs. fill_notional_of f)"
proof -
  have "averages 0 ord" using assms(2) by (simp add: averages_def)
  from order_fills_averages [OF assms(1) this _ assms(3,5)] assms(2)
  have a: "averages (\<Sum>f\<leftarrow>fs. fill_notional_of f) ord'"
    and q: "qty_inner (ord_filled_quantity ord') = (\<Sum>f\<leftarrow>fs. fill_qty_of f)" by simp_all
  have "0 < (\<Sum>f\<leftarrow>fs. fill_qty_of f)"
    using assms(3,4)
    by (cases fs) (fastforce simp: list_all_iff intro!: add_pos_nonneg sum_list_nonneg intro: less_imp_le)+
  then show ?thesis using a q assms(6) by (simp add: averages_def)
qed

theorem average_fill_price_is_vwap_witness:
  "\<exists>ord' filled left avg.
     order_fills exact_dec [(1, 1, Quantity 40, Price 150), (2, 2, Quantity 10, Price 145)] sample_order
       = Ok ord' \<and>
     ord_status ord' = PartiallyFilled filled left avg \<and> price_inner avg * 50 = 7450"
proof -
  let ?fs = "[(1, 1, Quantity 40, Price 150), (2, 2, Quantity 10, Price 145)]"
  obtain ord' filled left avg where f: "order_fills exact_dec ?fs sample_order = Ok ord'"
    and s: "ord_status ord' = PartiallyFilled filled left avg"
    by (simp add: order_fill_def sample_order_def remaining_quantity_def quantity_new_unchecked_def
        calculate_avg_fill_price_def)
  show ?thesis
    using average_fill_price_is_vwap [OF no_rounding_exact _ _ _ f s] f s
    by (simp add: sample_order_def fill_qty_of_def fill_notional_of_def)
qed

text \<open>
  When a fill is refused and why: an order that is not active refuses every fill, an active
  one refuses exactly the fills above its remaining quantity, and the refusal is an error value,
  not a panic.
\<close>

theorem order_fill_refusals:
  assumes "dec_ok D" and "k \<le> 28" and "sound_at k ord" and "on_grid k (qty_inner q)"
    and "0 \<le> qty_inner q"
  shows "order_fill D now1 now2 ord q p = Err e \<longleftrightarrow>
    \<not> status_is_active (ord_status ord) \<and>
      e = Dom_OrderValidation (''Cannot fill order in state: '' @ variant_name (ord_status ord)) \<or>
    status_is_active (ord_status ord) \<and>
      qty_inner (ord_quantity ord) < qty_inner (ord_filled_quantity ord) + qty_inner q \<and>
      e = Dom_InvalidQuantity ''Fill quantity exceeds remaining quantity''"
proof -
  have avg: "calculate_avg_fill_price D o' q p \<noteq> Err e'" for o' and e' :: domain_error
    by (auto simp: calculate_avg_fill_price_def res_simps Let_def)
  have "open_quantity ord < qty_inner q \<longleftrightarrow>
      qty_inner (ord_quantity ord) < qty_inner (ord_filled_quantity ord) + qty_inner q"
    by (auto simp: open_quantity_def)
  then show ?thesis
    unfolding order_fill_sound(1) [OF assms] using avg by (auto simp: bind_eq_Err)
qed

theorem order_fill_refusals_witness:
  "order_fill exact_dec 1 1 sample_order (Quantity 101) (Price 150) =
     Err (Dom_InvalidQuantity ''Fill quantity exceeds remaining quantity'')"
proof -
  have g: "on_grid 0 100" "on_grid 0 101"
    using on_grid_of_nat [of 100] on_grid_of_nat [of 101] by simp_all
  then have "sound_at 0 sample_order" by (simp add: sound_at_def sample_order_def)
  with g show ?thesis
    using order_fill_refusals [OF dec_ok_exact _ \<open>sound_at 0 sample_order\<close>, of "Quantity 101"]
    by (simp add: sample_order_def)
qed

end
