(* ===== verification/Position_Entity.thy ===== *)
theory Position_Entity
  imports Order_Entity
begin

text \<open>
  Fills, their aggregation, positions and accounts, of \<open>crates/domain/src/entities.rs\<close>.  Profit
  and loss are \<open>Money\<close> built with the unchecked constructor, so they may be negative.
\<close>

section \<open>Fill\<close>

record fill =
  fl_order_id :: order_id
  fl_symbol :: symbol
  fl_quantity :: quantity
  fl_price :: price
  fl_side :: side
  fl_timestamp :: timestamp
  fl_commission :: "money option"

definition fill_new ::
    "order_id \<Rightarrow> symbol \<Rightarrow> quantity \<Rightarrow> price \<Rightarrow> side \<Rightarrow> timestamp \<Rightarrow> fill" where
  "fill_new order_id symbol quantity price side timestamp =
     \<lparr>fl_order_id = order_id, fl_symbol = symbol, fl_quantity = quantity, fl_price = price,
      fl_side = side, fl_timestamp = timestamp, fl_commission = None\<rparr>"

definition fill_with_commission ::
    "order_id \<Rightarrow> symbol \<Rightarrow> quantity \<Rightarrow> price \<Rightarrow> side \<Rightarrow> timestamp \<Rightarrow> money \<Rightarrow> fill" where
  "fill_with_commission order_id symbol quantity price side timestamp commission =
     \<lparr>fl_order_id = order_id, fl_symbol = symbol, fl_quantity = quantity, fl_price = price,
      fl_side = side, fl_timestamp = timestamp, fl_commission = Some commission\<rparr>"

definition fill_notional_value :: "dec_ops \<Rightarrow> fill \<Rightarrow> (money, 'e) res" where
  "fill_notional_value D f =
     bind (or_panic (d_mul D (price_inner (fl_price f)) (qty_inner (fl_quantity f))))
       (\<lambda>amount. Ok (money_new_unchecked amount USD))"

definition fill_net_value :: "dec_ops \<Rightarrow> fill \<Rightarrow> (money, 'e) res" where
  "fill_net_value D f =
     bind (fill_notional_value D f) (\<lambda>notional.
       case fl_commission f of
         Some comm \<Rightarrow>
           (case fl_side f of
              Buy \<Rightarrow> bind (or_panic (d_add D (m_amount notional) (m_amount comm)))
                       (\<lambda>total. Ok (money_new_unchecked total USD))
            | Sell \<Rightarrow> bind (or_panic (d_sub D (m_amount notional) (m_amount comm)))
                        (\<lambda>total. Ok (money_new_unchecked total USD)))
       | None \<Rightarrow> Ok notional)"

definition fill_pnl :: "dec_ops \<Rightarrow> fill \<Rightarrow> price \<Rightarrow> (money, 'e) res" where
  "fill_pnl D f entry_price =
     bind (or_panic (case fl_side f of
                       Buy \<Rightarrow> d_sub D (price_inner entry_price) (price_inner (fl_price f))
                     | Sell \<Rightarrow> d_sub D (price_inner (fl_price f)) (price_inner entry_price)))
       (\<lambda>price_diff.
     bind (or_panic (d_mul D price_diff (qty_inner (fl_quantity f)))) (\<lambda>gross_pnl.
     let commission_amount = (case fl_commission f of Some c \<Rightarrow> m_amount c | None \<Rightarrow> 0) in
     bind (or_panic (d_sub D gross_pnl commission_amount)) (\<lambda>net_pnl.
     Ok (money_new_unchecked net_pnl USD))))"

definition fill_is_closing :: "fill \<Rightarrow> position_direction \<Rightarrow> bool" where
  "fill_is_closing f position_side =
     (case (position_side, fl_side f) of
        (Long, Sell) \<Rightarrow> True
      | (Short, Buy) \<Rightarrow> True
      | _ \<Rightarrow> False)"

text \<open>The builder holds the same fields as the fill it builds.\<close>

record fill_builder =
  fb_order_id :: order_id
  fb_symbol :: symbol
  fb_quantity :: quantity
  fb_price :: price
  fb_side :: side
  fb_timestamp :: timestamp
  fb_commission :: "money option"

definition fill_builder_new ::
    "order_id \<Rightarrow> symbol \<Rightarrow> quantity \<Rightarrow> price \<Rightarrow> side \<Rightarrow> timestamp \<Rightarrow> fill_builder" where
  "fill_builder_new order_id symbol quantity price side timestamp =
     \<lparr>fb_order_id = order_id, fb_symbol = symbol, fb_quantity = quantity, fb_price = price,
      fb_side = side, fb_timestamp = timestamp, fb_commission = None\<rparr>"

definition fill_builder_commission :: "fill_builder \<Rightarrow> money \<Rightarrow> fill_builder" where
  "fill_builder_commission b commission = b\<lparr>fb_commission := Some commission\<rparr>"

definition fill_builder_build :: "fill_builder \<Rightarrow> fill" where
  "fill_builder_build b =
     \<lparr>fl_order_id = fb_order_id b, fl_symbol = fb_symbol b, fl_quantity = fb_quantity b,
      fl_price = fb_price b, fl_side = fb_side b, fl_timestamp = fb_timestamp b,
      fl_commission = fb_commission b\<rparr>"

section \<open>Aggregation of fills\<close>

record fill_aggregation =
  agg_total_quantity :: quantity
  agg_avg_price :: price
  agg_total_notional :: money
  agg_total_commission :: money
  agg_fill_count :: nat

definition fill_aggregation_new :: "currency \<Rightarrow> fill_aggregation" where
  "fill_aggregation_new currency =
     \<lparr>agg_total_quantity = quantity_new_unchecked 0, agg_avg_price = price_new_unchecked 0,
      agg_total_notional = money_new_unchecked 0 currency,
      agg_total_commission = money_new_unchecked 0 currency, agg_fill_count = 0\<rparr>"

definition fill_aggregation_add_fill ::
    "dec_ops \<Rightarrow> fill \<Rightarrow> fill_aggregation \<Rightarrow> (fill_aggregation, 'e) res" where
  "fill_aggregation_add_fill D f agg =
     (let fill_qty = qty_inner (fl_quantity f); fill_price = price_inner (fl_price f) in
      bind (or_panic (d_mul D fill_price fill_qty)) (\<lambda>notional.
      bind (or_panic (d_add D (m_amount (agg_total_notional agg)) notional)) (\<lambda>tn.
      bind (case fl_commission f of
              Some comm \<Rightarrow>
                bind (or_panic (d_add D (m_amount (agg_total_commission agg)) (m_amount comm)))
                  (\<lambda>tc. Ok (money_new_unchecked tc (m_currency (agg_total_commission agg))))
            | None \<Rightarrow> Ok (agg_total_commission agg)) (\<lambda>total_commission.
      let prev_qty = qty_inner (agg_total_quantity agg) in
      bind (or_panic (d_add D prev_qty fill_qty)) (\<lambda>tq.
      bind (if 0 < tq
            then if prev_qty = 0 then Ok (price_new_unchecked fill_price)
                 else bind (or_panic (d_mul D (price_inner (agg_avg_price agg)) prev_qty)) (\<lambda>prev_notional.
                      bind (or_panic (d_add D prev_notional notional)) (\<lambda>n.
                      bind (or_panic (d_div D n tq)) (\<lambda>new_avg. Ok (price_new_unchecked new_avg))))
            else Ok (agg_avg_price agg)) (\<lambda>avg_price.
      Ok \<lparr>agg_total_quantity = quantity_new_unchecked tq, agg_avg_price = avg_price,
          agg_total_notional = money_new_unchecked tn (m_currency (agg_total_notional agg)),
          agg_total_commission = total_commission,
          agg_fill_count = agg_fill_count agg + 1\<rparr>))))))"

definition fill_aggregation_from_fills ::
    "dec_ops \<Rightarrow> fill list \<Rightarrow> currency \<Rightarrow> (fill_aggregation, 'e) res" where
  "fill_aggregation_from_fills D fills currency =
     fold_res (fill_aggregation_add_fill D) fills (fill_aggregation_new currency)"

definition fill_aggregation_net_value ::
    "dec_ops \<Rightarrow> fill_aggregation \<Rightarrow> side \<Rightarrow> (money, 'e) res" where
  "fill_aggregation_net_value D agg side =
     (let total = m_amount (agg_total_notional agg); commission = m_amount (agg_total_commission agg) in
      bind (or_panic (case side of Buy \<Rightarrow> d_add D total commission | Sell \<Rightarrow> d_sub D total commission))
        (\<lambda>net. Ok (money_new_unchecked net (m_currency (agg_total_notional agg)))))"

section \<open>Positions\<close>

record closed_position =
  cp_position_id :: entity_id
  cp_symbol :: symbol
  cp_side :: side
  cp_quantity :: quantity
  cp_avg_entry_price :: price
  cp_avg_exit_price :: price
  cp_realized_pnl :: money
  cp_opened_at :: timestamp
  cp_closed_at :: timestamp

record position =
  pos_id :: entity_id
  pos_account_id :: entity_id
  pos_symbol :: symbol
  pos_side :: side
  pos_quantity :: quantity
  pos_avg_entry_price :: price
  pos_current_price :: price
  pos_unrealized_pnl :: money
  pos_realized_pnl :: money
  pos_currency :: currency
  pos_opened_at :: timestamp
  pos_updated_at :: timestamp

definition position_new ::
    "uuid \<Rightarrow> timestamp \<Rightarrow> entity_id \<Rightarrow> symbol \<Rightarrow> position_direction \<Rightarrow> quantity \<Rightarrow> price \<Rightarrow>
     currency \<Rightarrow> position" where
  "position_new fresh now account_id symbol direction quantity avg_entry_price currency =
     \<lparr>pos_id = fresh, pos_account_id = account_id, pos_symbol = symbol,
      pos_side = direction_to_side direction, pos_quantity = quantity,
      pos_avg_entry_price = avg_entry_price, pos_current_price = avg_entry_price,
      pos_unrealized_pnl = money_new_unchecked 0 currency,
      pos_realized_pnl = money_new_unchecked 0 currency, pos_currency = currency,
      pos_opened_at = now, pos_updated_at = now\<rparr>"

text \<open>\<open>Uuid::nil()\<close> is the identity zero.\<close>

definition position_new_with_side ::
    "uuid \<Rightarrow> timestamp \<Rightarrow> symbol \<Rightarrow> side \<Rightarrow> quantity \<Rightarrow> price \<Rightarrow> currency \<Rightarrow>
     (position, domain_error) res" where
  "position_new_with_side fresh now symbol side quantity avg_entry_price currency =
     Ok \<lparr>pos_id = fresh, pos_account_id = 0, pos_symbol = symbol,
      pos_side = side, pos_quantity = quantity,
      pos_avg_entry_price = avg_entry_price, pos_current_price = avg_entry_price,
      pos_unrealized_pnl = money_new_unchecked 0 currency,
      pos_realized_pnl = money_new_unchecked 0 currency, pos_currency = currency,
      pos_opened_at = now, pos_updated_at = now\<rparr>"

definition position_direction_of :: "position \<Rightarrow> position_direction" where
  "position_direction_of p = (case pos_side p of Buy \<Rightarrow> Long | Sell \<Rightarrow> Short)"

definition position_is_long :: "position \<Rightarrow> bool" where
  "position_is_long p = side_is_buy (pos_side p)"

definition position_is_short :: "position \<Rightarrow> bool" where
  "position_is_short p = side_is_sell (pos_side p)"

definition market_value :: "dec_ops \<Rightarrow> position \<Rightarrow> (money, 'e) res" where
  "market_value D p =
     bind (or_panic (d_mul D (price_inner (pos_current_price p)) (qty_inner (pos_quantity p))))
       (\<lambda>amount. Ok (money_new_unchecked amount (pos_currency p)))"

text \<open>The signed profit of moving the whole position from its entry price to another price.\<close>

definition position_pnl_at :: "dec_ops \<Rightarrow> position \<Rightarrow> price \<Rightarrow> (decimal, 'e) res" where
  "position_pnl_at D p price =
     bind (or_panic (d_sub D (price_inner price) (price_inner (pos_avg_entry_price p)))) (\<lambda>price_diff.
     bind (or_panic (d_mul D price_diff (qty_inner (pos_quantity p)))) (\<lambda>a.
     or_panic (d_mul D a (of_int (side_sign (pos_side p))))))"

definition update_price :: "dec_ops \<Rightarrow> timestamp \<Rightarrow> position \<Rightarrow> price \<Rightarrow> (position, 'e) res" where
  "update_price D now p new_price =
     bind (position_pnl_at D p new_price) (\<lambda>pnl.
     Ok (p\<lparr>pos_current_price := new_price,
           pos_unrealized_pnl := money_new_unchecked pnl (pos_currency p),
           pos_updated_at := now\<rparr>))"

definition position_add_fill ::
    "dec_ops \<Rightarrow> timestamp \<Rightarrow> position \<Rightarrow> fill \<Rightarrow> (position, domain_error) res" where
  "position_add_fill D now p f =
     (if fl_side f \<noteq> pos_side p
      then Err (domain_error_validation ''Fill side must match position side for adding to position'')
      else
        bind (or_panic (d_mul D (price_inner (pos_avg_entry_price p)) (qty_inner (pos_quantity p))))
          (\<lambda>current_notional.
        bind (or_panic (d_mul D (price_inner (fl_price f)) (qty_inner (fl_quantity f)))) (\<lambda>fill_notional.
        bind (or_panic (d_add D (qty_inner (pos_quantity p)) (qty_inner (fl_quantity f)))) (\<lambda>new_quantity.
        bind (or_panic (d_add D current_notional fill_notional)) (\<lambda>n.
        bind (or_panic (d_div D n new_quantity)) (\<lambda>new_avg_price.
        update_price D now
          (p\<lparr>pos_quantity := quantity_new_unchecked new_quantity,
             pos_avg_entry_price := price_new_unchecked new_avg_price\<rparr>)
          (pos_current_price p)))))))"

definition add_realized_pnl :: "dec_ops \<Rightarrow> timestamp \<Rightarrow> position \<Rightarrow> money \<Rightarrow> (position, 'e) res" where
  "add_realized_pnl D now p pnl =
     bind (or_panic (d_add D (m_amount (pos_realized_pnl p)) (m_amount pnl))) (\<lambda>total.
     Ok (p\<lparr>pos_realized_pnl := money_new_unchecked total (m_currency (pos_realized_pnl p)),
           pos_updated_at := now\<rparr>))"

definition position_close ::
    "dec_ops \<Rightarrow> timestamp \<Rightarrow> timestamp \<Rightarrow> position \<Rightarrow> price \<Rightarrow>
     (closed_position \<times> position, domain_error) res" where
  "position_close D now1 now2 p exit_price =
     bind (position_pnl_at D p exit_price) (\<lambda>pnl.
     bind (or_panic (d_add D (m_amount (pos_realized_pnl p)) pnl)) (\<lambda>total.
     Ok (\<lparr>cp_position_id = pos_id p, cp_symbol = pos_symbol p, cp_side = pos_side p,
          cp_quantity = pos_quantity p, cp_avg_entry_price = pos_avg_entry_price p,
          cp_avg_exit_price = exit_price, cp_realized_pnl = money_new_unchecked pnl (pos_currency p),
          cp_opened_at = pos_opened_at p, cp_closed_at = now1\<rparr>,
         p\<lparr>pos_realized_pnl := money_new_unchecked total (pos_currency p),
           pos_quantity := quantity_new_unchecked 0,
           pos_unrealized_pnl := money_new_unchecked 0 (pos_currency p),
           pos_updated_at := now2\<rparr>)))"

section \<open>Accounts\<close>

record account =
  acc_id :: entity_id
  acc_name :: string
  acc_currency :: currency
  acc_balance :: money
  acc_created_at :: timestamp
  acc_updated_at :: timestamp

definition account_new ::
    "uuid \<Rightarrow> timestamp \<Rightarrow> string \<Rightarrow> currency \<Rightarrow> decimal \<Rightarrow> (account, domain_error) res" where
  "account_new fresh now name currency balance =
     (if name = [] then Err (domain_error_validation ''Account name cannot be empty'')
      else Ok \<lparr>acc_id = fresh, acc_name = name, acc_currency = currency,
               acc_balance = money_new_unchecked balance currency,
               acc_created_at = now, acc_updated_at = now\<rparr>)"

definition update_balance :: "timestamp \<Rightarrow> account \<Rightarrow> decimal \<Rightarrow> account" where
  "update_balance now a new_balance =
     a\<lparr>acc_balance := money_new_unchecked new_balance (acc_currency a), acc_updated_at := now\<rparr>"

section \<open>Lemmas on positions\<close>

lemma position_new_simps [simp]:
  "pos_quantity (position_new fresh now a s d q p c) = q"
  "pos_avg_entry_price (position_new fresh now a s d q p c) = p"
  "pos_side (position_new fresh now a s d q p c) = direction_to_side d"
  "pos_symbol (position_new fresh now a s d q p c) = s"
  "pos_currency (position_new fresh now a s d q p c) = c"
  "pos_realized_pnl (position_new fresh now a s d q p c) = money_new_unchecked 0 c"
  "pos_unrealized_pnl (position_new fresh now a s d q p c) = money_new_unchecked 0 c"
  "pos_current_price (position_new fresh now a s d q p c) = p"
  by (simp_all add: position_new_def)

lemma update_price_frame:
  assumes "update_price D now p x = (Ok p' :: (position, 'e) res)"
  shows "pos_quantity p' = pos_quantity p" and "pos_avg_entry_price p' = pos_avg_entry_price p"
    and "pos_side p' = pos_side p" and "pos_currency p' = pos_currency p"
    and "pos_realized_pnl p' = pos_realized_pnl p" and "pos_current_price p' = x"
    and "pos_symbol p' = pos_symbol p"
  using assms by (auto simp: update_price_def res_simps)

lemma pnl_at_update_price:
  assumes "update_price D now p x = (Ok p' :: (position, 'e) res)"
  shows "position_pnl_at D p' x = (Ok (m_amount (pos_unrealized_pnl p')) :: (decimal, 'f) res)"
    and "m_currency (pos_unrealized_pnl p') = pos_currency p"
  using assms by (auto simp: update_price_def position_pnl_at_def res_simps)

text \<open>What adding a fill computes, before the price refresh.\<close>

lemma position_add_fill_Ok:
  assumes "position_add_fill D now p f = Ok p'"
  obtains a b q n avg where "fl_side f = pos_side p"
    and "d_mul D (price_inner (pos_avg_entry_price p)) (qty_inner (pos_quantity p)) = Some a"
    and "d_mul D (price_inner (fl_price f)) (qty_inner (fl_quantity f)) = Some b"
    and "d_add D (qty_inner (pos_quantity p)) (qty_inner (fl_quantity f)) = Some q"
    and "d_add D a b = Some n" and "d_div D n q = Some avg"
    and "pos_quantity p' = Quantity q" and "pos_avg_entry_price p' = Price avg"
    and "pos_side p' = pos_side p" and "pos_realized_pnl p' = pos_realized_pnl p"
    and "pos_currency p' = pos_currency p" and "pos_symbol p' = pos_symbol p"
    and "position_pnl_at D p' (pos_current_price p) =
           (Ok (m_amount (pos_unrealized_pnl p')) :: (decimal, domain_error) res)"
proof -
  have side: "fl_side f = pos_side p"
    using assms by (simp add: position_add_fill_def split: if_splits)
  from assms obtain a b q n avg where ops:
      "d_mul D (price_inner (pos_avg_entry_price p)) (qty_inner (pos_quantity p)) = Some a"
      "d_mul D (price_inner (fl_price f)) (qty_inner (fl_quantity f)) = Some b"
      "d_add D (qty_inner (pos_quantity p)) (qty_inner (fl_quantity f)) = Some q"
      "d_add D a b = Some n" "d_div D n q = Some avg"
    and up: "update_price D now (p\<lparr>pos_quantity := Quantity q, pos_avg_entry_price := Price avg\<rparr>)
          (pos_current_price p) = (Ok p' :: (position, domain_error) res)"
    unfolding position_add_fill_def side quantity_new_unchecked_def price_new_unchecked_def
    by (simp only: simp_thms if_False or_panic_eq_Ok bind_eq_Ok) (elim exE conjE, rule that)
  show ?thesis
    using that [OF side ops] update_price_frame [OF up] pnl_at_update_price(1) [OF up] by simp
qed

text \<open>The sign of the profit at a price follows the direction of the position.\<close>

lemma position_pnl_at_sign:
  assumes D: "dec_ok D" and q: "0 \<le> qty_inner (pos_quantity p)"
    and pnl: "position_pnl_at D p x = (Ok v :: (decimal, 'e) res)"
  shows "price_inner (pos_avg_entry_price p) \<le> price_inner x \<Longrightarrow> 0 \<le> v * of_int (side_sign (pos_side p))"
    and "price_inner x \<le> price_inner (pos_avg_entry_price p) \<Longrightarrow> v * of_int (side_sign (pos_side p)) \<le> 0"
proof -
  from pnl obtain d a where d: "d_sub D (price_inner x) (price_inner (pos_avg_entry_price p)) = Some d"
    and a: "d_mul D d (qty_inner (pos_quantity p)) = Some a"
    and v: "d_mul D a (of_int (side_sign (pos_side p))) = Some v"
    by (auto simp: position_pnl_at_def res_simps)
  show "0 \<le> v * of_int (side_sign (pos_side p))"
    if "price_inner (pos_avg_entry_price p) \<le> price_inner x"
  proof -
    have "0 \<le> d" using d_sub_nonneg [OF D d that] .
    then have "0 \<le> a" using d_mul_nonneg [OF D a] q by simp
    then show ?thesis
      using v d_mul_nonneg [OF D, of a 1 v] d_mul_nonpos [OF D, of a "-1" v] by (cases "pos_side p") auto
  qed
  show "v * of_int (side_sign (pos_side p)) \<le> 0"
    if "price_inner x \<le> price_inner (pos_avg_entry_price p)"
  proof -
    have "d \<le> 0" using d_sub_nonpos [OF D d that] .
    then have "a \<le> 0" using d_mul_nonpos [OF D a] q by (simp add: mult_nonpos_nonneg)
    then show ?thesis
      using v d_mul_nonpos [OF D, of a 1 v] d_mul_nonneg [OF D, of a "-1" v] by (cases "pos_side p") auto
  qed
qed

section \<open>Lemmas on the aggregation\<close>

lemma fill_aggregation_add_fill_Ok:
  assumes "fill_aggregation_add_fill D f agg = (Ok agg' :: (fill_aggregation, 'e) res)"
  obtains b tn tq where "d_mul D (price_inner (fl_price f)) (qty_inner (fl_quantity f)) = Some b"
    and "d_add D (m_amount (agg_total_notional agg)) b = Some tn"
    and "d_add D (qty_inner (agg_total_quantity agg)) (qty_inner (fl_quantity f)) = Some tq"
    and "agg_total_quantity agg' = Quantity tq"
    and "m_amount (agg_total_notional agg') = tn"
    and "agg_fill_count agg' = agg_fill_count agg + 1"
    and "0 < tq \<and> qty_inner (agg_total_quantity agg) = 0 \<longrightarrow> agg_avg_price agg' = fl_price f"
    and "0 < tq \<and> qty_inner (agg_total_quantity agg) \<noteq> 0 \<longrightarrow>
      (\<exists>a n avg. d_mul D (price_inner (agg_avg_price agg)) (qty_inner (agg_total_quantity agg)) = Some a \<and>
        d_add D a b = Some n \<and> d_div D n tq = Some avg \<and> agg_avg_price agg' = Price avg)"
    and "case fl_commission f of
           None \<Rightarrow> agg_total_commission agg' = agg_total_commission agg
         | Some c \<Rightarrow> d_add D (m_amount (agg_total_commission agg)) (m_amount c) =
             Some (m_amount (agg_total_commission agg'))"
proof -
  note unf = fill_aggregation_add_fill_def res_simps Let_def quantity_new_unchecked_def
    price_new_unchecked_def
  from assms obtain b tn tc tq avg where ops:
      "d_mul D (price_inner (fl_price f)) (qty_inner (fl_quantity f)) = Some b"
      "d_add D (m_amount (agg_total_notional agg)) b = Some tn"
      "d_add D (qty_inner (agg_total_quantity agg)) (qty_inner (fl_quantity f)) = Some tq"
    and c: "(case fl_commission f of
              Some comm \<Rightarrow>
                bind (or_panic (d_add D (m_amount (agg_total_commission agg)) (m_amount comm)))
                  (\<lambda>tc. Ok (money_new_unchecked tc (m_currency (agg_total_commission agg))))
            | None \<Rightarrow> Ok (agg_total_commission agg)) = (Ok tc :: (money, 'e) res)"
    and avg: "(if 0 < tq
            then if qty_inner (agg_total_quantity agg) = 0 then Ok (Price (price_inner (fl_price f)))
                 else bind (or_panic (d_mul D (price_inner (agg_avg_price agg)) (qty_inner (agg_total_quantity agg)))) (\<lambda>pn.
                      bind (or_panic (d_add D pn b)) (\<lambda>n.
                      bind (or_panic (d_div D n tq)) (\<lambda>new_avg. Ok (Price new_avg))))
            else Ok (agg_avg_price agg)) = (Ok avg :: (price, 'e) res)"
    and agg': "agg' = \<lparr>agg_total_quantity = Quantity tq, agg_avg_price = avg,
          agg_total_notional = money_new_unchecked tn (m_currency (agg_total_notional agg)),
          agg_total_commission = tc, agg_fill_count = agg_fill_count agg + 1\<rparr>"
    by (auto simp only: unf res.inject)
  show ?thesis
  proof (rule that [OF ops])
    show "case fl_commission f of
           None \<Rightarrow> agg_total_commission agg' = agg_total_commission agg
         | Some c \<Rightarrow> d_add D (m_amount (agg_total_commission agg)) (m_amount c) =
             Some (m_amount (agg_total_commission agg'))"
      using c agg' by (auto simp: res_simps split: option.splits)
  qed (use avg agg' in \<open>auto simp: res_simps\<close>)
qed

text \<open>A position opened by a fill and increased by the fills that follow.\<close>

definition open_and_add ::
    "dec_ops \<Rightarrow> position \<Rightarrow> (timestamp \<times> fill) list \<Rightarrow> (position, domain_error) res" where
  "open_and_add D p fs = fold_res (\<lambda>(now, f) p. position_add_fill D now p f) fs p"

text \<open>The relation between a position and the aggregate of the fills it was built from.\<close>

definition tracks :: "decimal \<Rightarrow> position \<Rightarrow> fill_aggregation \<Rightarrow> bool" where
  "tracks q0 p agg = (pos_quantity p = agg_total_quantity agg \<and> pos_avg_entry_price p = agg_avg_price agg \<and>
     q0 \<le> qty_inner (pos_quantity p))"

lemma tracks_step:
  assumes D: "dec_ok D" and q0: "representable q0" "0 < q0" and t: "tracks q0 p agg"
    and f: "0 \<le> qty_inner (fl_quantity f)"
    and p': "position_add_fill D now p f = Ok p'"
    and agg': "fill_aggregation_add_fill D f agg = (Ok agg' :: (fill_aggregation, 'e) res)"
  shows "tracks q0 p' agg'"
proof -
  have pq: "pos_quantity p = agg_total_quantity agg" "pos_avg_entry_price p = agg_avg_price agg"
    and lo: "q0 \<le> qty_inner (agg_total_quantity agg)"
    using t by (auto simp: tracks_def)
  obtain a b q n avg where P:
      "d_mul D (price_inner (agg_avg_price agg)) (qty_inner (agg_total_quantity agg)) = Some a"
      "d_mul D (price_inner (fl_price f)) (qty_inner (fl_quantity f)) = Some b"
      "d_add D (qty_inner (agg_total_quantity agg)) (qty_inner (fl_quantity f)) = Some q"
      "d_add D a b = Some n" "d_div D n q = Some avg"
      "pos_quantity p' = Quantity q" "pos_avg_entry_price p' = Price avg"
    using p' by (rule position_add_fill_Ok) (simp add: pq)
  have ge: "q0 \<le> q"
  proof (rule rounds_to_ge [OF rounded_SomeD q0(1)])
    show "rounded (qty_inner (agg_total_quantity agg) + qty_inner (fl_quantity f)) (Some q)"
      unfolding P(3) [symmetric] by (rule dec_ok_addD [OF D])
  qed (use lo f in simp)
  from agg' have "agg_total_quantity agg' = Quantity q \<and> agg_avg_price agg' = Price avg"
    by (rule fill_aggregation_add_fill_Ok) (use P ge lo q0(2) in auto)
  with P(6,7) ge show ?thesis by (simp add: tracks_def)
qed

lemma tracks_run:
  assumes D: "dec_ok D" and q0: "representable q0" "0 < q0" and t: "tracks q0 p agg"
    and f: "\<And>f. f \<in> set (map snd fs) \<Longrightarrow> 0 \<le> qty_inner (fl_quantity f)"
    and p': "open_and_add D p fs = Ok p'"
    and agg': "fold_res (fill_aggregation_add_fill D) (map snd fs) agg =
        (Ok agg' :: (fill_aggregation, 'e) res)"
  shows "tracks q0 p' agg'"
  using t f p' agg'
proof (induction fs arbitrary: p agg)
  case Nil
  then show ?case by (simp add: open_and_add_def)
next
  case (Cons x fs)
  obtain p1 where p1: "position_add_fill D (fst x) p (snd x) = Ok p1" "open_and_add D p1 fs = Ok p'"
    using Cons.prems(3) by (auto simp: open_and_add_def res_simps case_prod_unfold)
  obtain agg1 where agg1: "fill_aggregation_add_fill D (snd x) agg = (Ok agg1 :: (fill_aggregation, 'e) res)"
    "fold_res (fill_aggregation_add_fill D) (map snd fs) agg1 = (Ok agg' :: (fill_aggregation, 'e) res)"
    using Cons.prems(4) by (auto simp: res_simps)
  have "tracks q0 p1 agg1"
    by (rule tracks_step [OF D q0 Cons.prems(1) _ p1(1) agg1(1)]) (use Cons.prems(2) in auto)
  then show ?case using Cons.IH p1(2) agg1(2) Cons.prems(2) by simp
qed

lemma aggregation_of_first_fill:
  assumes D: "dec_ok D" and q0: "representable (qty_inner (fl_quantity f))" "0 < qty_inner (fl_quantity f)"
    and agg: "fill_aggregation_add_fill D f (fill_aggregation_new c) =
        (Ok agg :: (fill_aggregation, 'e) res)"
  shows "agg_total_quantity agg = fl_quantity f" and "agg_avg_price agg = fl_price f"
proof -
  have "agg_total_quantity agg = fl_quantity f \<and> agg_avg_price agg = fl_price f"
    using agg
    by (rule fill_aggregation_add_fill_Ok)
      (use q0 d_add_0_left [OF D q0(1)] in
        \<open>auto simp: fill_aggregation_new_def quantity_new_unchecked_def\<close>)
  then show "agg_total_quantity agg = fl_quantity f" and "agg_avg_price agg = fl_price f" by auto
qed

lemma position_pnl_at_exact:
  assumes D: "no_rounding D" and pnl: "position_pnl_at D p x = (Ok v :: (decimal, 'e) res)"
  shows "v = (price_inner x - price_inner (pos_avg_entry_price p)) * qty_inner (pos_quantity p) *
      of_int (side_sign (pos_side p))"
proof -
  from pnl obtain d a where "d_sub D (price_inner x) (price_inner (pos_avg_entry_price p)) = Some d"
    and "d_mul D d (qty_inner (pos_quantity p)) = Some a"
    and "d_mul D a (of_int (side_sign (pos_side p))) = Some v"
    by (auto simp: position_pnl_at_def res_simps)
  then show ?thesis using no_roundingD(2,3) [OF D] by (metis (no_types))
qed

text \<open>The aggregate of the fills seen so far, in exact arithmetic.\<close>

definition commission_amount :: "fill \<Rightarrow> decimal" where
  "commission_amount f = (case fl_commission f of None \<Rightarrow> 0 | Some c \<Rightarrow> m_amount c)"

definition agg_sums :: "fill_aggregation \<Rightarrow> fill list \<Rightarrow> bool" where
  "agg_sums agg fs =
     (qty_inner (agg_total_quantity agg) = sum_list (map (\<lambda>f. qty_inner (fl_quantity f)) fs) \<and>
      m_amount (agg_total_notional agg) =
        sum_list (map (\<lambda>f. price_inner (fl_price f) * qty_inner (fl_quantity f)) fs) \<and>
      m_amount (agg_total_commission agg) = sum_list (map commission_amount fs) \<and>
      agg_fill_count agg = length fs \<and>
      price_inner (agg_avg_price agg) * qty_inner (agg_total_quantity agg) =
        m_amount (agg_total_notional agg))"

lemma agg_sums_new: "agg_sums (fill_aggregation_new c) []"
  by (simp add: agg_sums_def fill_aggregation_new_def quantity_new_unchecked_def
      price_new_unchecked_def)

lemma agg_sums_step:
  assumes D: "no_rounding D" and s: "agg_sums agg xs"
    and pos: "\<And>g. g \<in> set xs \<Longrightarrow> 0 < qty_inner (fl_quantity g)" "0 < qty_inner (fl_quantity f)"
    and agg': "fill_aggregation_add_fill D f agg = (Ok agg' :: (fill_aggregation, 'e) res)"
  shows "agg_sums agg' (xs @ [f])"
proof -
  note nr = no_roundingD [OF D]
  have prev: "0 \<le> qty_inner (agg_total_quantity agg)"
  proof -
    have "0 \<le> sum_list (map (\<lambda>f. qty_inner (fl_quantity f)) xs)"
      by (rule sum_list_nonneg) (use pos(1) in fastforce)
    with s show ?thesis by (simp add: agg_sums_def)
  qed
  obtain b tn tq where A: "d_mul D (price_inner (fl_price f)) (qty_inner (fl_quantity f)) = Some b"
      "d_add D (m_amount (agg_total_notional agg)) b = Some tn"
      "d_add D (qty_inner (agg_total_quantity agg)) (qty_inner (fl_quantity f)) = Some tq"
      "agg_total_quantity agg' = Quantity tq" "m_amount (agg_total_notional agg') = tn"
      "agg_fill_count agg' = agg_fill_count agg + 1"
    and first: "0 < tq \<and> qty_inner (agg_total_quantity agg) = 0 \<longrightarrow> agg_avg_price agg' = fl_price f"
    and later: "0 < tq \<and> qty_inner (agg_total_quantity agg) \<noteq> 0 \<longrightarrow>
      (\<exists>a n avg. d_mul D (price_inner (agg_avg_price agg)) (qty_inner (agg_total_quantity agg)) = Some a \<and>
        d_add D a b = Some n \<and> d_div D n tq = Some avg \<and> agg_avg_price agg' = Price avg)"
    and comm: "case fl_commission f of
           None \<Rightarrow> agg_total_commission agg' = agg_total_commission agg
         | Some c \<Rightarrow> d_add D (m_amount (agg_total_commission agg)) (m_amount c) =
             Some (m_amount (agg_total_commission agg'))"
    using agg' by (rule fill_aggregation_add_fill_Ok) (rule that; assumption)
  have tq: "tq = qty_inner (agg_total_quantity agg) + qty_inner (fl_quantity f)" using nr(1) [OF A(3)] .
  then have tq_pos: "0 < tq" using prev pos(2) by simp
  have b: "b = price_inner (fl_price f) * qty_inner (fl_quantity f)" using nr(3) [OF A(1)] .
  have tn: "tn = m_amount (agg_total_notional agg) + b" using nr(1) [OF A(2)] .
  have inv: "price_inner (agg_avg_price agg) * qty_inner (agg_total_quantity agg) =
      m_amount (agg_total_notional agg)" using s unfolding agg_sums_def by blast
  have "price_inner (agg_avg_price agg') * tq = tn"
  proof (cases "qty_inner (agg_total_quantity agg) = 0")
    case True
    then show ?thesis using first tq_pos True inv tq tn b by simp
  next
    case False
    obtain a n avg where L: "d_mul D (price_inner (agg_avg_price agg)) (qty_inner (agg_total_quantity agg)) = Some a"
        "d_add D a b = Some n" "d_div D n tq = Some avg" "agg_avg_price agg' = Price avg"
      using later tq_pos False by blast
    show ?thesis
      using nr(3) [OF L(1)] nr(1) [OF L(2)] nr(4) [OF L(3)] L(4) inv tn by simp
  qed
  moreover have "m_amount (agg_total_commission agg') =
      m_amount (agg_total_commission agg) + commission_amount f"
    using comm nr(1) by (auto simp: commission_amount_def split: option.splits)
  ultimately show ?thesis using s A(4-6) tq tn b by (simp add: agg_sums_def)
qed

lemma agg_sums_run:
  assumes D: "no_rounding D" and s: "agg_sums agg xs"
    and pos: "\<And>g. g \<in> set (xs @ fs) \<Longrightarrow> 0 < qty_inner (fl_quantity g)"
    and agg': "fold_res (fill_aggregation_add_fill D) fs agg = (Ok agg' :: (fill_aggregation, 'e) res)"
  shows "agg_sums agg' (xs @ fs)"
  using s pos agg'
proof (induction fs arbitrary: agg xs)
  case Nil
  then show ?case by simp
next
  case (Cons f fs)
  obtain agg1 where a: "fill_aggregation_add_fill D f agg = (Ok agg1 :: (fill_aggregation, 'e) res)"
      "fold_res (fill_aggregation_add_fill D) fs agg1 = (Ok agg' :: (fill_aggregation, 'e) res)"
    using Cons.prems(3) by (auto simp: res_simps)
  have "agg_sums agg1 (xs @ [f])"
    using agg_sums_step [OF D Cons.prems(1) _ _ a(1)] Cons.prems(2) by simp
  from Cons.IH [OF this _ a(2)] Cons.prems(2) show ?case by simp
qed

section \<open>Properties\<close>

text \<open>
  C11: the two ways the code tracks an open holding agree.  A position opened with the quantity
  and price of its first fill and increased with \<open>Position::add_fill\<close> holds, after any further
  fills, exactly the quantity and the average price that \<open>FillAggregation::from_fills\<close> computes
  from the same fills -- whatever faithful rounding the decimal library performs on the way.
\<close>

theorem position_tracks_aggregation:
  assumes "dec_ok D"
    and "representable (qty_inner (fl_quantity f))" and "0 < qty_inner (fl_quantity f)"
    and "\<And>g. g \<in> set (map snd fs) \<Longrightarrow> 0 \<le> qty_inner (fl_quantity g)"
    and "open_and_add D (position_new fresh now account (fl_symbol f) direction (fl_quantity f)
           (fl_price f) c) fs = Ok p"
    and "fill_aggregation_from_fills D (f # map snd fs) c = (Ok agg :: (fill_aggregation, 'e) res)"
  shows "pos_quantity p = agg_total_quantity agg \<and> pos_avg_entry_price p = agg_avg_price agg"
proof -
  obtain agg1 where agg1:
      "fill_aggregation_add_fill D f (fill_aggregation_new c) = (Ok agg1 :: (fill_aggregation, 'e) res)"
      "fold_res (fill_aggregation_add_fill D) (map snd fs) agg1 = (Ok agg :: (fill_aggregation, 'e) res)"
    using assms(6) by (auto simp: fill_aggregation_from_fills_def res_simps)
  have "tracks (qty_inner (fl_quantity f))
      (position_new fresh now account (fl_symbol f) direction (fl_quantity f) (fl_price f) c) agg1"
    using aggregation_of_first_fill [OF assms(1-3) agg1(1)] by (simp add: tracks_def)
  from tracks_run [OF assms(1-3) this assms(4,5) agg1(2)] show ?thesis by (simp add: tracks_def)
qed

definition sample_fill :: "decimal \<Rightarrow> decimal \<Rightarrow> fill" where
  "sample_fill q p = fill_new (OrderId 7) (Symbol ''AAPL'') (Quantity q) (Price p) Buy 0"

lemma sample_fill_simps [simp]:
  "fl_quantity (sample_fill q p) = Quantity q" "fl_price (sample_fill q p) = Price p"
  "fl_side (sample_fill q p) = Buy" "fl_symbol (sample_fill q p) = Symbol ''AAPL''"
  "fl_commission (sample_fill q p) = None"
  by (simp_all add: sample_fill_def fill_new_def)

definition sample_position :: "decimal \<Rightarrow> decimal \<Rightarrow> position" where
  "sample_position q p = position_new 1 0 2 (Symbol ''AAPL'') Long (Quantity q) (Price p) USD"

lemma sample_add_fill:
  "position_add_fill exact_dec 5 (sample_position 10 100) (sample_fill 30 120) =
     Ok ((sample_position 40 115)\<lparr>pos_current_price := Price 100,
       pos_unrealized_pnl := money_new_unchecked (- 600) USD, pos_updated_at := 5\<rparr>)"
  by (simp add: position_add_fill_def sample_position_def update_price_def position_pnl_at_def
      position_new_def quantity_new_unchecked_def price_new_unchecked_def 
     )

lemma sample_aggregation:
  "fill_aggregation_from_fills exact_dec [sample_fill 10 100, sample_fill 30 120] USD =
     (Ok \<lparr>agg_total_quantity = Quantity 40, agg_avg_price = Price 115,
         agg_total_notional = money_new_unchecked 4600 USD,
         agg_total_commission = money_new_unchecked 0 USD, agg_fill_count = 2\<rparr> ::
       (fill_aggregation, domain_error) res)"
  by (simp add: fill_aggregation_from_fills_def fill_aggregation_add_fill_def Let_def
      fill_aggregation_new_def quantity_new_unchecked_def price_new_unchecked_def
      money_new_unchecked_def)

lemma representable_10: "representable (10 :: rat)"
  using representable_of_int [of 10] by simp

theorem position_tracks_aggregation_witness:
  "\<exists>p agg. open_and_add exact_dec (sample_position 10 100) [(5, sample_fill 30 120)] = Ok p \<and>
     fill_aggregation_from_fills exact_dec [sample_fill 10 100, sample_fill 30 120] USD =
       (Ok agg :: (fill_aggregation, domain_error) res) \<and>
     agg_avg_price agg = Price 115 \<and> pos_avg_entry_price p = agg_avg_price agg"
proof -
  obtain p where p: "open_and_add exact_dec (sample_position 10 100) [(5, sample_fill 30 120)] = Ok p"
    by (simp add: open_and_add_def sample_add_fill)
  obtain agg where agg: "fill_aggregation_from_fills exact_dec [sample_fill 10 100, sample_fill 30 120] USD =
       (Ok agg :: (fill_aggregation, domain_error) res)" "agg_avg_price agg = Price 115"
    by (simp add: sample_aggregation)
  have "pos_quantity p = agg_total_quantity agg \<and> pos_avg_entry_price p = agg_avg_price agg"
    by (rule position_tracks_aggregation [OF dec_ok_exact, of "sample_fill 10 100"
          "[(5, sample_fill 30 120)]" 1 0 2 Long USD p agg])
      (use p agg representable_10 in \<open>simp_all add: sample_position_def\<close>)
  with p agg show ?thesis by blast
qed

text \<open>
  Adding a fill conserves value.  When no operation rounds, the cost basis of the enlarged
  position is the old cost basis plus the cost of the fill, and the profit the position shows at
  any price is the profit it showed before plus the profit of the fill at that price.
\<close>

theorem add_fill_conserves_value:
  assumes D: "no_rounding D"
    and fill: "position_add_fill D now p f = Ok p'"
    and before: "position_pnl_at D p x = (Ok v :: (decimal, 'e) res)"
    and after: "position_pnl_at D p' x = (Ok w :: (decimal, 'e) res)"
  shows "price_inner (pos_avg_entry_price p') * qty_inner (pos_quantity p') =
           price_inner (pos_avg_entry_price p) * qty_inner (pos_quantity p) +
           price_inner (fl_price f) * qty_inner (fl_quantity f) \<and>
         w = v + (price_inner x - price_inner (fl_price f)) * qty_inner (fl_quantity f) *
                 of_int (side_sign (fl_side f))"
proof -
  note nr = no_roundingD [OF D]
  obtain a b q n avg where P: "fl_side f = pos_side p"
      "d_mul D (price_inner (pos_avg_entry_price p)) (qty_inner (pos_quantity p)) = Some a"
      "d_mul D (price_inner (fl_price f)) (qty_inner (fl_quantity f)) = Some b"
      "d_add D (qty_inner (pos_quantity p)) (qty_inner (fl_quantity f)) = Some q"
      "d_add D a b = Some n" "d_div D n q = Some avg"
      "pos_quantity p' = Quantity q" "pos_avg_entry_price p' = Price avg" "pos_side p' = pos_side p"
    using fill by (rule position_add_fill_Ok)
  have basis: "avg * q = price_inner (pos_avg_entry_price p) * qty_inner (pos_quantity p) +
      price_inner (fl_price f) * qty_inner (fl_quantity f)"
    using nr(3) [OF P(2)] nr(3) [OF P(3)] nr(1) [OF P(5)] nr(4) [OF P(6)] by simp
  have q: "q = qty_inner (pos_quantity p) + qty_inner (fl_quantity f)" using nr(1) [OF P(4)] .
  have v: "v = (price_inner x - price_inner (pos_avg_entry_price p)) * qty_inner (pos_quantity p) *
      of_int (side_sign (pos_side p))"
    by (rule position_pnl_at_exact [OF D before])
  have w: "w = (price_inner x - avg) * q * of_int (side_sign (pos_side p))"
    using position_pnl_at_exact [OF D after] P(7-9) by simp
  have "(price_inner x - avg) * q = price_inner x * q - avg * q" by (simp add: algebra_simps)
  then have "w = (price_inner x * q - price_inner (pos_avg_entry_price p) * qty_inner (pos_quantity p) -
      price_inner (fl_price f) * qty_inner (fl_quantity f)) * of_int (side_sign (pos_side p))"
    unfolding w basis by (simp add: algebra_simps)
  then have "w = v + (price_inner x - price_inner (fl_price f)) * qty_inner (fl_quantity f) *
      of_int (side_sign (fl_side f))"
    unfolding v q P(1) by (simp add: algebra_simps)
  with basis P(7,8) show ?thesis by simp
qed

theorem add_fill_conserves_value_witness:
  "\<exists>p'. position_add_fill exact_dec 5 (sample_position 10 100) (sample_fill 30 120) = Ok p' \<and>
     price_inner (pos_avg_entry_price p') * qty_inner (pos_quantity p') = 100 * 10 + 120 * 30"
proof -
  obtain p' where p': "position_add_fill exact_dec 5 (sample_position 10 100) (sample_fill 30 120) = Ok p'"
    by (simp add: sample_add_fill)
  obtain v w where "position_pnl_at exact_dec (sample_position 10 100) (Price 130) = (Ok v :: (decimal, domain_error) res)"
    "position_pnl_at exact_dec p' (Price 130) = (Ok w :: (decimal, domain_error) res)"
    by (simp add: position_pnl_at_def)
  from add_fill_conserves_value [OF no_rounding_exact p' this] p' show ?thesis
    by (auto simp: sample_position_def)
qed

text \<open>
  Closing a position realizes exactly the profit it was showing.  After a price refresh the
  unrealized profit of a position is the profit of the closed position that \<open>close\<close> at that
  price returns; the position is left with quantity zero and nothing unrealized, its realized
  profit grown by that amount; and for a position of non-negative size the profit is a gain
  exactly on the side of the entry price that the direction of the position calls for.
\<close>

theorem close_realizes_unrealized:
  assumes D: "dec_ok D" and q: "0 \<le> qty_inner (pos_quantity p)"
    and up: "update_price D t0 p x = (Ok p1 :: (position, domain_error) res)"
    and cl: "position_close D t1 t2 p1 x = Ok (cp, p2)"
  shows "cp_realized_pnl cp = pos_unrealized_pnl p1 \<and> cp_quantity cp = pos_quantity p \<and>
         cp_avg_exit_price cp = x \<and> cp_avg_entry_price cp = pos_avg_entry_price p \<and>
         qty_inner (pos_quantity p2) = 0 \<and> m_amount (pos_unrealized_pnl p2) = 0 \<and>
         d_add D (m_amount (pos_realized_pnl p)) (m_amount (cp_realized_pnl cp)) =
           Some (m_amount (pos_realized_pnl p2)) \<and>
         (price_inner (pos_avg_entry_price p) \<le> price_inner x \<longrightarrow>
            0 \<le> m_amount (cp_realized_pnl cp) * of_int (side_sign (pos_side p))) \<and>
         (price_inner x \<le> price_inner (pos_avg_entry_price p) \<longrightarrow>
            m_amount (cp_realized_pnl cp) * of_int (side_sign (pos_side p)) \<le> 0)"
proof -
  note frame = update_price_frame [OF up]
  have pnl: "position_pnl_at D p1 x = (Ok (m_amount (pos_unrealized_pnl p1)) :: (decimal, domain_error) res)"
    and cur: "m_currency (pos_unrealized_pnl p1) = pos_currency p"
    using pnl_at_update_price [OF up] by auto
  from cl obtain total where total: "d_add D (m_amount (pos_realized_pnl p1)) (m_amount (pos_unrealized_pnl p1)) = Some total"
    and cp: "cp_realized_pnl cp = money_new_unchecked (m_amount (pos_unrealized_pnl p1)) (pos_currency p1)"
      "cp_quantity cp = pos_quantity p1" "cp_avg_exit_price cp = x"
      "cp_avg_entry_price cp = pos_avg_entry_price p1"
    and p2: "pos_realized_pnl p2 = money_new_unchecked total (pos_currency p1)"
      "pos_quantity p2 = quantity_new_unchecked 0"
      "pos_unrealized_pnl p2 = money_new_unchecked 0 (pos_currency p1)"
    by (auto simp: position_close_def pnl res_simps)
  have same: "cp_realized_pnl cp = pos_unrealized_pnl p1"
    by (simp add: cp money_new_unchecked_def frame cur [symmetric])
  have "0 \<le> qty_inner (pos_quantity p1)" using q frame(1) by simp
  note sign = position_pnl_at_sign [OF D this pnl]
  show ?thesis
    using total cp p2 frame sign same by (simp add: quantity_new_unchecked_def money_new_unchecked_def)
qed

theorem close_realizes_unrealized_witness:
  "\<exists>p1 cp p2. update_price exact_dec 3 (sample_position 10 100) (Price 95) =
       (Ok p1 :: (position, domain_error) res) \<and>
     position_close exact_dec 4 4 p1 (Price 95) = Ok (cp, p2) \<and>
     m_amount (pos_unrealized_pnl p1) = - 50 \<and> cp_realized_pnl cp = pos_unrealized_pnl p1"
proof -
  let ?p = "sample_position 10 100"
  obtain p1 where p1: "update_price exact_dec 3 ?p (Price 95) = (Ok p1 :: (position, domain_error) res)"
      "m_amount (pos_unrealized_pnl p1) = - 50"
    by (simp add: update_price_def position_pnl_at_def sample_position_def money_new_unchecked_def
       )
  obtain cp p2 where cl: "position_close exact_dec 4 4 p1 (Price 95) = Ok (cp, p2)"
    by (simp add: position_close_def position_pnl_at_def)
  have q: "0 \<le> qty_inner (pos_quantity ?p)" by (simp add: sample_position_def)
  from close_realizes_unrealized [OF dec_ok_exact q p1(1) cl] p1 cl show ?thesis by blast
qed

text \<open>
  What an aggregation of fills reports.  When no operation rounds, the total quantity, the
  total notional and the total commission are the sums over the fills, the count is their number,
  and the average price of fills with positive quantities is the notional divided by the
  quantity; the order in which the fills arrive therefore does not matter.
\<close>

theorem aggregation_totals:
  assumes D: "no_rounding D" and pos: "\<And>f. f \<in> set fs \<Longrightarrow> 0 < qty_inner (fl_quantity f)"
    and agg: "fill_aggregation_from_fills D fs c = (Ok agg :: (fill_aggregation, 'e) res)"
  shows "qty_inner (agg_total_quantity agg) = sum_list (map (\<lambda>f. qty_inner (fl_quantity f)) fs) \<and>
         m_amount (agg_total_notional agg) =
           sum_list (map (\<lambda>f. price_inner (fl_price f) * qty_inner (fl_quantity f)) fs) \<and>
         m_amount (agg_total_commission agg) = sum_list (map commission_amount fs) \<and>
         agg_fill_count agg = length fs \<and>
         price_inner (agg_avg_price agg) * qty_inner (agg_total_quantity agg) =
           m_amount (agg_total_notional agg)"
proof -
  have "agg_sums agg ([] @ fs)"
    by (rule agg_sums_run [OF D agg_sums_new])
      (use pos agg in \<open>auto simp: fill_aggregation_from_fills_def\<close>)
  then show ?thesis unfolding agg_sums_def append_Nil .
qed

theorem aggregation_totals_witness:
  "\<exists>agg. fill_aggregation_from_fills exact_dec [sample_fill 10 100, sample_fill 30 120] USD =
       (Ok agg :: (fill_aggregation, domain_error) res) \<and>
     qty_inner (agg_total_quantity agg) = 40 \<and> m_amount (agg_total_notional agg) = 4600 \<and>
     agg_fill_count agg = 2"
proof -
  obtain agg where agg: "fill_aggregation_from_fills exact_dec [sample_fill 10 100, sample_fill 30 120] USD =
       (Ok agg :: (fill_aggregation, domain_error) res)"
    by (simp add: sample_aggregation)
  have "\<And>f. f \<in> set [sample_fill 10 100, sample_fill 30 120] \<Longrightarrow> 0 < qty_inner (fl_quantity f)" by auto
  from aggregation_totals [OF no_rounding_exact this agg] agg show ?thesis by simp
qed

end
