(* ===== verification/Market_Data.thy ===== *)
theory Market_Data
  imports Position_Entity
begin

text \<open>
  Bars and ticks of \<open>crates/domain/src/entities.rs\<close>.  A bar can only be built by the validating
  constructor; the prices derived from it are built unchecked.
\<close>

section \<open>Bars\<close>

record bar =
  bar_timestamp :: timestamp
  bar_symbol :: symbol
  bar_open :: price
  bar_high :: price
  bar_low :: price
  bar_close :: price
  bar_volume :: volume
  bar_timeframe :: time_frame
  bar_provider :: string

definition bar_new ::
    "dec_ops \<Rightarrow> timestamp \<Rightarrow> symbol \<Rightarrow> price \<Rightarrow> price \<Rightarrow> price \<Rightarrow> price \<Rightarrow> volume \<Rightarrow> time_frame \<Rightarrow>
     string \<Rightarrow> (bar, domain_error) res" where
  "bar_new D timestamp symbol open_price high low close_price volume timeframe provider =
     (if price_inner high < price_inner low
      then Err (domain_error_validation
             (''High ('' @ d_fmt D (price_inner high) @ '') must be >= low ('' @ d_fmt D (price_inner low) @ '')''))
      else if price_inner high < price_inner open_price \<or> price_inner high < price_inner close_price
      then Err (domain_error_validation ''High must be >= open and close'')
      else if price_inner open_price < price_inner low \<or> price_inner close_price < price_inner low
      then Err (domain_error_validation ''Low must be <= open and close'')
      else Ok \<lparr>bar_timestamp = timestamp, bar_symbol = symbol, bar_open = open_price, bar_high = high,
               bar_low = low, bar_close = close_price, bar_volume = volume,
               bar_timeframe = timeframe, bar_provider = provider\<rparr>)"

definition bar_range :: "dec_ops \<Rightarrow> bar \<Rightarrow> (price, 'e) res" where
  "bar_range D b =
     bind (or_panic (d_sub D (price_inner (bar_high b)) (price_inner (bar_low b))))
       (\<lambda>r. Ok (price_new_unchecked r))"

definition bar_body :: "dec_ops \<Rightarrow> bar \<Rightarrow> (decimal, 'e) res" where
  "bar_body D b = or_panic (d_sub D (price_inner (bar_close b)) (price_inner (bar_open b)))"

definition bar_is_bullish :: "bar \<Rightarrow> bool" where
  "bar_is_bullish b = (price_inner (bar_open b) < price_inner (bar_close b))"

definition bar_is_bearish :: "bar \<Rightarrow> bool" where
  "bar_is_bearish b = (price_inner (bar_close b) < price_inner (bar_open b))"

definition bar_is_neutral :: "bar \<Rightarrow> bool" where
  "bar_is_neutral b = (price_inner (bar_close b) = price_inner (bar_open b))"

definition bar_typical_price :: "dec_ops \<Rightarrow> bar \<Rightarrow> (price, 'e) res" where
  "bar_typical_price D b =
     bind (or_panic (d_add D (price_inner (bar_high b)) (price_inner (bar_low b)))) (\<lambda>hl.
     bind (or_panic (d_add D hl (price_inner (bar_close b)))) (\<lambda>hlc.
     bind (or_panic (d_div D hlc 3)) (\<lambda>tp. Ok (price_new_unchecked tp))))"

definition bar_weighted_close :: "dec_ops \<Rightarrow> bar \<Rightarrow> (price, 'e) res" where
  "bar_weighted_close D b =
     bind (or_panic (d_add D (price_inner (bar_high b)) (price_inner (bar_low b)))) (\<lambda>hl.
     bind (or_panic (d_mul D (price_inner (bar_close b)) 2)) (\<lambda>c2.
     bind (or_panic (d_add D hl c2)) (\<lambda>hlcc.
     bind (or_panic (d_div D hlcc 4)) (\<lambda>wc. Ok (price_new_unchecked wc)))))"

section \<open>Ticks\<close>

record tick =
  tick_timestamp :: timestamp
  tick_symbol :: symbol
  tick_price :: price
  tick_size :: volume
  tick_side :: "side option"
  tick_provider :: string

definition tick_new ::
    "timestamp \<Rightarrow> symbol \<Rightarrow> price \<Rightarrow> volume \<Rightarrow> side option \<Rightarrow> string \<Rightarrow> (tick, domain_error) res" where
  "tick_new timestamp symbol price sz side provider =
     Ok \<lparr>tick_timestamp = timestamp, tick_symbol = symbol, tick_price = price, tick_size = sz,
         tick_side = side, tick_provider = provider\<rparr>"

definition tick_notional_value :: "dec_ops \<Rightarrow> tick \<Rightarrow> (money, 'e) res" where
  "tick_notional_value D t =
     bind (or_panic (d_mul D (price_inner (tick_price t)) (of_int (sint (volume_i64 (tick_size t))))))
       (\<lambda>amount. Ok (money_new_unchecked amount USD))"

definition tick_is_trade :: "tick \<Rightarrow> bool" where
  "tick_is_trade t = (tick_side t \<noteq> None)"

definition tick_is_quote :: "tick \<Rightarrow> bool" where
  "tick_is_quote t = (tick_side t = None)"

section \<open>Lemmas\<close>

text \<open>The shape every bar of the program has.\<close>

definition bar_wf :: "bar \<Rightarrow> bool" where
  "bar_wf b =
     (price_inner (bar_low b) \<le> price_inner (bar_open b) \<and> price_inner (bar_open b) \<le> price_inner (bar_high b) \<and>
      price_inner (bar_low b) \<le> price_inner (bar_close b) \<and> price_inner (bar_close b) \<le> price_inner (bar_high b))"

lemma bar_wf_low_high: "bar_wf b \<Longrightarrow> price_inner (bar_low b) \<le> price_inner (bar_high b)"
  by (auto simp: bar_wf_def)

lemma bar_new_Ok_wf: "bar_new D t s a h l c v tf pr = Ok b \<Longrightarrow> bar_wf b"
  by (auto simp: bar_new_def bar_wf_def split: if_splits)

lemma bar_new_Ok_iff:
  "is_ok (bar_new D t s a h l c v tf pr) \<longleftrightarrow>
     price_inner l \<le> price_inner a \<and> price_inner a \<le> price_inner h \<and>
     price_inner l \<le> price_inner c \<and> price_inner c \<le> price_inner h"
  by (auto simp: bar_new_def)

lemma bar_range_nonneg:
  assumes "dec_ok D" and "bar_wf b" and "bar_range D b = (Ok r :: (price, 'e) res)"
  shows "0 \<le> price_inner r"
  using assms(3) d_sub_nonneg [OF assms(1) _ bar_wf_low_high [OF assms(2)]]
  by (auto simp: bar_range_def res_simps price_new_unchecked_def)

lemma bar_typical_price_exact:
  assumes D: "no_rounding D" and tp: "bar_typical_price D b = (Ok p :: (price, 'e) res)"
  shows "price_inner p = (price_inner (bar_high b) + price_inner (bar_low b) + price_inner (bar_close b)) / 3"
proof -
  from tp obtain hl hlc where "d_add D (price_inner (bar_high b)) (price_inner (bar_low b)) = Some hl"
      "d_add D hl (price_inner (bar_close b)) = Some hlc" "d_div D hlc 3 = Some (price_inner p)"
    by (auto simp: bar_typical_price_def res_simps price_new_unchecked_def)
  then show ?thesis using no_roundingD(1,4) [OF D] by metis
qed

lemma bar_weighted_close_exact:
  assumes D: "no_rounding D" and wc: "bar_weighted_close D b = (Ok p :: (price, 'e) res)"
  shows "price_inner p =
    (price_inner (bar_high b) + price_inner (bar_low b) + price_inner (bar_close b) * 2) / 4"
proof -
  from wc obtain hl c2 hlcc where "d_add D (price_inner (bar_high b)) (price_inner (bar_low b)) = Some hl"
      "d_mul D (price_inner (bar_close b)) 2 = Some c2" "d_add D hl c2 = Some hlcc"
      "d_div D hlcc 4 = Some (price_inner p)"
    by (auto simp: bar_weighted_close_def res_simps price_new_unchecked_def)
  then show ?thesis using no_roundingD(1,3,4) [OF D] by metis
qed

section \<open>Properties\<close>

text \<open>
  A bar is accepted exactly when its open and close lie between its low and its high; the
  direction flags of an accepted bar are exclusive and exhaustive, its range is not negative, and
  its typical price and its weighted close lie between its low and its high.
\<close>

theorem bar_prices_consistent:
  assumes "bar_new D t s a h l c v tf pr = Ok b" and "no_rounding D"
  shows "price_inner l \<le> price_inner a \<and> price_inner a \<le> price_inner h \<and>
         price_inner l \<le> price_inner c \<and> price_inner c \<le> price_inner h \<and>
         bar_low b = l \<and> bar_high b = h \<and> bar_open b = a \<and> bar_close b = c \<and>
         (bar_is_neutral b \<longleftrightarrow> \<not> bar_is_bullish b \<and> \<not> bar_is_bearish b) \<and>
         \<not> (bar_is_bullish b \<and> bar_is_bearish b) \<and>
         (\<forall>r. bar_range D b = (Ok r :: (price, unit) res) \<longrightarrow> 0 \<le> price_inner r) \<and>
         (\<forall>p. bar_typical_price D b = (Ok p :: (price, unit) res) \<or>
              bar_weighted_close D b = (Ok p :: (price, unit) res) \<longrightarrow>
              price_inner l \<le> price_inner p \<and> price_inner p \<le> price_inner h)"
proof -
  have wf: "bar_wf b" and b: "bar_low b = l" "bar_high b = h" "bar_open b = a" "bar_close b = c"
    using assms(1) by (auto simp: bar_new_def bar_wf_def split: if_splits)
  have r: "0 \<le> price_inner r" if "bar_range D b = (Ok r :: (price, unit) res)" for r
  proof -
    have "d_sub D (price_inner (bar_high b)) (price_inner (bar_low b)) = Some (price_inner r)"
      using that by (auto simp: bar_range_def res_simps price_new_unchecked_def)
    from no_roundingD(2) [OF assms(2) this] bar_wf_low_high [OF wf] show ?thesis by simp
  qed
  have tp: "price_inner l \<le> price_inner p \<and> price_inner p \<le> price_inner h"
    if "bar_typical_price D b = (Ok p :: (price, unit) res)" for p
    using bar_typical_price_exact [OF assms(2) that] wf b by (auto simp: bar_wf_def)
  have wc: "price_inner l \<le> price_inner p \<and> price_inner p \<le> price_inner h"
    if "bar_weighted_close D b = (Ok p :: (price, unit) res)" for p
    using bar_weighted_close_exact [OF assms(2) that] wf b by (auto simp: bar_wf_def)
  show ?thesis
    using wf b r tp wc
    by (auto simp: bar_wf_def bar_is_neutral_def bar_is_bullish_def bar_is_bearish_def)
qed

definition sample_bar :: bar where
  "sample_bar = \<lparr>bar_timestamp = 0, bar_symbol = Symbol ''NQ'', bar_open = Price 10,
     bar_high = Price 14, bar_low = Price 9, bar_close = Price 13, bar_volume = Volume 5,
     bar_timeframe = M1, bar_provider = ''ib''\<rparr>"

theorem bar_prices_consistent_witness:
  "\<exists>p. bar_new exact_dec 0 (Symbol ''NQ'') (Price 10) (Price 14) (Price 9) (Price 13) (Volume 5) M1 ''ib'' =
       Ok sample_bar \<and>
     bar_typical_price exact_dec sample_bar = (Ok p :: (price, unit) res) \<and>
     9 \<le> price_inner p \<and> price_inner p \<le> 14"
proof -
  have b: "bar_new exact_dec 0 (Symbol ''NQ'') (Price 10) (Price 14) (Price 9) (Price 13) (Volume 5) M1 ''ib'' =
       Ok sample_bar"
    by (simp add: bar_new_def sample_bar_def)
  obtain p where p: "bar_typical_price exact_dec sample_bar = (Ok p :: (price, unit) res)"
    by (simp add: bar_typical_price_def)
  from bar_prices_consistent [OF b no_rounding_exact] b p show ?thesis by auto
qed

end
