(* ===== verification/Trading_Events.thy ===== *)
theory Trading_Events
  imports Market_Data
begin

text \<open>
  The events of \<open>crates/domain/src/events.rs\<close>: the domain events the services return, the event
  metadata, strategy signals, and the \<open>TradingEvent\<close> union that travels on the event bus.  Fresh
  identifiers and \<open>Utc::now()\<close> are arguments.
\<close>

section \<open>Domain events\<close>

record order_created_event =
  oc_event_id :: entity_id
  oc_order_id :: entity_id
  oc_account_id :: entity_id
  oc_symbol :: symbol
  oc_side :: side
  oc_quantity :: quantity
  oc_occurred_at :: timestamp

definition order_created_new ::
    "uuid \<Rightarrow> timestamp \<Rightarrow> entity_id \<Rightarrow> entity_id \<Rightarrow> symbol \<Rightarrow> side \<Rightarrow> quantity \<Rightarrow>
     order_created_event" where
  "order_created_new fresh now i account_id symbol side quantity =
     \<lparr>oc_event_id = fresh, oc_order_id = i, oc_account_id = account_id, oc_symbol = symbol,
      oc_side = side, oc_quantity = quantity, oc_occurred_at = now\<rparr>"

record order_filled_event =
  of_event_id :: entity_id
  of_order_id :: entity_id
  of_account_id :: entity_id
  of_symbol :: symbol
  of_fill_quantity :: quantity
  of_fill_price :: price
  of_total_filled :: quantity
  of_is_fully_filled :: bool
  of_occurred_at :: timestamp

definition order_filled_new ::
    "uuid \<Rightarrow> timestamp \<Rightarrow> entity_id \<Rightarrow> entity_id \<Rightarrow> symbol \<Rightarrow> quantity \<Rightarrow> price \<Rightarrow> quantity \<Rightarrow>
     bool \<Rightarrow> order_filled_event" where
  "order_filled_new fresh now i account_id symbol fill_quantity fill_price total_filled is_fully_filled =
     \<lparr>of_event_id = fresh, of_order_id = i, of_account_id = account_id, of_symbol = symbol,
      of_fill_quantity = fill_quantity, of_fill_price = fill_price,
      of_total_filled = total_filled, of_is_fully_filled = is_fully_filled,
      of_occurred_at = now\<rparr>"

record order_cancelled_event =
  ocx_event_id :: entity_id
  ocx_order_id :: entity_id
  ocx_account_id :: entity_id
  ocx_reason :: "string option"
  ocx_occurred_at :: timestamp

definition order_cancelled_new ::
    "uuid \<Rightarrow> timestamp \<Rightarrow> entity_id \<Rightarrow> entity_id \<Rightarrow> string option \<Rightarrow> order_cancelled_event" where
  "order_cancelled_new fresh now i account_id reason =
     \<lparr>ocx_event_id = fresh, ocx_order_id = i, ocx_account_id = account_id, ocx_reason = reason,
      ocx_occurred_at = now\<rparr>"

record position_opened_event =
  po_event_id :: entity_id
  po_position_id :: entity_id
  po_account_id :: entity_id
  po_symbol :: symbol
  po_direction :: position_direction
  po_quantity :: quantity
  po_entry_price :: price
  po_occurred_at :: timestamp

definition position_opened_new ::
    "uuid \<Rightarrow> timestamp \<Rightarrow> entity_id \<Rightarrow> entity_id \<Rightarrow> symbol \<Rightarrow> position_direction \<Rightarrow> quantity \<Rightarrow>
     price \<Rightarrow> position_opened_event" where
  "position_opened_new fresh now i account_id symbol direction quantity entry_price =
     \<lparr>po_event_id = fresh, po_position_id = i, po_account_id = account_id, po_symbol = symbol,
      po_direction = direction, po_quantity = quantity, po_entry_price = entry_price,
      po_occurred_at = now\<rparr>"

record position_closed_event =
  pc_event_id :: entity_id
  pc_position_id :: entity_id
  pc_account_id :: entity_id
  pc_symbol :: symbol
  pc_quantity :: quantity
  pc_exit_price :: price
  pc_realized_pnl :: decimal
  pc_occurred_at :: timestamp

definition position_closed_new ::
    "uuid \<Rightarrow> timestamp \<Rightarrow> entity_id \<Rightarrow> entity_id \<Rightarrow> symbol \<Rightarrow> quantity \<Rightarrow> price \<Rightarrow> decimal \<Rightarrow>
     position_closed_event" where
  "position_closed_new fresh now i account_id symbol quantity exit_price realized_pnl =
     \<lparr>pc_event_id = fresh, pc_position_id = i, pc_account_id = account_id, pc_symbol = symbol,
      pc_quantity = quantity, pc_exit_price = exit_price, pc_realized_pnl = realized_pnl,
      pc_occurred_at = now\<rparr>"

record position_updated_event =
  pu_event_id :: entity_id
  pu_position_id :: entity_id
  pu_account_id :: entity_id
  pu_new_quantity :: quantity
  pu_new_avg_price :: price
  pu_occurred_at :: timestamp

definition position_updated_new ::
    "uuid \<Rightarrow> timestamp \<Rightarrow> entity_id \<Rightarrow> entity_id \<Rightarrow> quantity \<Rightarrow> price \<Rightarrow> position_updated_event" where
  "position_updated_new fresh now i account_id new_quantity new_avg_price =
     \<lparr>pu_event_id = fresh, pu_position_id = i, pu_account_id = account_id,
      pu_new_quantity = new_quantity, pu_new_avg_price = new_avg_price, pu_occurred_at = now\<rparr>"

record account_balance_updated_event =
  ab_event_id :: entity_id
  ab_account_id :: entity_id
  ab_old_balance :: decimal
  ab_new_balance :: decimal
  ab_reason :: string
  ab_occurred_at :: timestamp

definition account_balance_updated_new ::
    "uuid \<Rightarrow> timestamp \<Rightarrow> entity_id \<Rightarrow> decimal \<Rightarrow> decimal \<Rightarrow> string \<Rightarrow>
     account_balance_updated_event" where
  "account_balance_updated_new fresh now account_id old_balance new_balance reason =
     \<lparr>ab_event_id = fresh, ab_account_id = account_id, ab_old_balance = old_balance,
      ab_new_balance = new_balance, ab_reason = reason, ab_occurred_at = now\<rparr>"

section \<open>Metadata\<close>

record event_metadata =
  em_event_id :: uuid
  em_correlation_id :: uuid
  em_causation_id :: "uuid option"
  em_timestamp :: timestamp
  em_source :: string
  em_user_id :: "string option"

definition event_metadata_new :: "uuid \<Rightarrow> timestamp \<Rightarrow> string \<Rightarrow> event_metadata" where
  "event_metadata_new fresh now source =
     \<lparr>em_event_id = fresh, em_correlation_id = fresh, em_causation_id = None, em_timestamp = now,
      em_source = source, em_user_id = None\<rparr>"

definition with_correlation :: "uuid \<Rightarrow> timestamp \<Rightarrow> uuid \<Rightarrow> string \<Rightarrow> event_metadata" where
  "with_correlation fresh now correlation_id source =
     \<lparr>em_event_id = fresh, em_correlation_id = correlation_id, em_causation_id = None,
      em_timestamp = now, em_source = source, em_user_id = None\<rparr>"

definition caused_by :: "event_metadata \<Rightarrow> uuid \<Rightarrow> event_metadata" where
  "caused_by m causation_id = m\<lparr>em_causation_id := Some causation_id\<rparr>"

definition with_user :: "event_metadata \<Rightarrow> string \<Rightarrow> event_metadata" where
  "with_user m user_id = m\<lparr>em_user_id := Some user_id\<rparr>"

section \<open>Signals\<close>

text \<open>
  The strength of a signal is an \<open>f64\<close> that is only compared: a finite value, an infinity, or a
  NaN, which no range contains.
\<close>

datatype f64 = Finite rat | PosInf | NegInf | NotANumber

fun in_unit_range :: "f64 \<Rightarrow> bool" where
  "in_unit_range (Finite x) = (0 \<le> x \<and> x \<le> 1)"
| "in_unit_range PosInf = False"
| "in_unit_range NegInf = False"
| "in_unit_range NotANumber = False"

datatype signal_type = Entry | Exit | Adjust | StopLoss | TakeProfit | TrailingStop | Custom string

fun signal_type_display :: "signal_type \<Rightarrow> string" where
  "signal_type_display Entry = ''Entry''"
| "signal_type_display Exit = ''Exit''"
| "signal_type_display Adjust = ''Adjust''"
| "signal_type_display StopLoss = ''StopLoss''"
| "signal_type_display TakeProfit = ''TakeProfit''"
| "signal_type_display TrailingStop = ''TrailingStop''"
| "signal_type_display (Custom s) = ''Custom('' @ s @ '')''"

record signal =
  sig_side :: side
  sig_strength :: f64
  sig_quantity :: "quantity option"
  sig_price :: "price option"
  sig_type :: signal_type
  sig_metadata :: "(string \<rightharpoonup> string) option"

text \<open>The constructor asserts the range of the strength, so it panics outside it.\<close>

definition signal_new :: "side \<Rightarrow> f64 \<Rightarrow> signal_type \<Rightarrow> (signal, 'e) res" where
  "signal_new side strength st =
     (if in_unit_range strength
      then Ok \<lparr>sig_side = side, sig_strength = strength, sig_quantity = None, sig_price = None,
               sig_type = st, sig_metadata = None\<rparr>
      else Panic)"

definition signal_with_quantity :: "signal \<Rightarrow> quantity \<Rightarrow> signal" where
  "signal_with_quantity s quantity = s\<lparr>sig_quantity := Some quantity\<rparr>"

definition signal_with_price :: "signal \<Rightarrow> price \<Rightarrow> signal" where
  "signal_with_price s price = s\<lparr>sig_price := Some price\<rparr>"

definition signal_with_metadata :: "signal \<Rightarrow> (string \<rightharpoonup> string) \<Rightarrow> signal" where
  "signal_with_metadata s metadata = s\<lparr>sig_metadata := Some metadata\<rparr>"

section \<open>Changes\<close>

datatype position_change = Opened | Increased | Decreased | Closed | Flipped

fun position_change_display :: "position_change \<Rightarrow> string" where
  "position_change_display Opened = ''Opened''"
| "position_change_display Increased = ''Increased''"
| "position_change_display Decreased = ''Decreased''"
| "position_change_display Closed = ''Closed''"
| "position_change_display Flipped = ''Flipped''"

datatype account_change =
    Change_Balance money money
  | Change_BuyingPower money money
  | Change_MarginUsed money money
  | Change_Currency currency
  | Change_Status string string

fun account_change_display :: "(money \<Rightarrow> string) \<Rightarrow> account_change \<Rightarrow> string" where
  "account_change_display mf (Change_Balance old new) =
     ''Balance changed from '' @ mf old @ '' to '' @ mf new"
| "account_change_display mf (Change_BuyingPower old new) =
     ''Buying power changed from '' @ mf old @ '' to '' @ mf new"
| "account_change_display mf (Change_MarginUsed old new) =
     ''Margin used changed from '' @ mf old @ '' to '' @ mf new"
| "account_change_display mf (Change_Currency currency) =
     ''Currency set to '' @ currency_as_str currency"
| "account_change_display mf (Change_Status old new) =
     ''Status changed from '' @ old @ '' to '' @ new"

section \<open>Trading events\<close>

datatype trading_event =
    Ev_BarReceived bar string timestamp
  | Ev_TickReceived tick string timestamp
  | Ev_OrderSubmitted order_id order timestamp
  | Ev_OrderFilled order_id fill timestamp
  | Ev_OrderRejected order_id string timestamp
  | Ev_OrderCancelled order_id string timestamp
  | Ev_PositionUpdated symbol position position_change timestamp
  | Ev_PositionClosed symbol closed_position money timestamp
  | Ev_SignalGenerated string signal timestamp
  | Ev_AccountUpdated entity_id "account_change list" timestamp

fun event_timestamp :: "trading_event \<Rightarrow> timestamp" where
  "event_timestamp (Ev_BarReceived _ _ moment) = moment"
| "event_timestamp (Ev_TickReceived _ _ moment) = moment"
| "event_timestamp (Ev_OrderSubmitted _ _ moment) = moment"
| "event_timestamp (Ev_OrderFilled _ _ moment) = moment"
| "event_timestamp (Ev_OrderRejected _ _ moment) = moment"
| "event_timestamp (Ev_OrderCancelled _ _ moment) = moment"
| "event_timestamp (Ev_PositionUpdated _ _ _ moment) = moment"
| "event_timestamp (Ev_PositionClosed _ _ _ moment) = moment"
| "event_timestamp (Ev_SignalGenerated _ _ moment) = moment"
| "event_timestamp (Ev_AccountUpdated _ _ moment) = moment"

fun event_type :: "trading_event \<Rightarrow> string" where
  "event_type (Ev_BarReceived _ _ _) = ''bar_received''"
| "event_type (Ev_TickReceived _ _ _) = ''tick_received''"
| "event_type (Ev_OrderSubmitted _ _ _) = ''order_submitted''"
| "event_type (Ev_OrderFilled _ _ _) = ''order_filled''"
| "event_type (Ev_OrderRejected _ _ _) = ''order_rejected''"
| "event_type (Ev_OrderCancelled _ _ _) = ''order_cancelled''"
| "event_type (Ev_PositionUpdated _ _ _ _) = ''position_updated''"
| "event_type (Ev_PositionClosed _ _ _ _) = ''position_closed''"
| "event_type (Ev_SignalGenerated _ _ _) = ''signal_generated''"
| "event_type (Ev_AccountUpdated _ _ _) = ''account_updated''"

fun is_market_data :: "trading_event \<Rightarrow> bool" where
  "is_market_data (Ev_BarReceived _ _ _) = True"
| "is_market_data (Ev_TickReceived _ _ _) = True"
| "is_market_data _ = False"

fun is_order_event :: "trading_event \<Rightarrow> bool" where
  "is_order_event (Ev_OrderSubmitted _ _ _) = True"
| "is_order_event (Ev_OrderFilled _ _ _) = True"
| "is_order_event (Ev_OrderRejected _ _ _) = True"
| "is_order_event (Ev_OrderCancelled _ _ _) = True"
| "is_order_event _ = False"

fun is_position_event :: "trading_event \<Rightarrow> bool" where
  "is_position_event (Ev_PositionUpdated _ _ _ _) = True"
| "is_position_event (Ev_PositionClosed _ _ _ _) = True"
| "is_position_event _ = False"

fun is_signal :: "trading_event \<Rightarrow> bool" where
  "is_signal (Ev_SignalGenerated _ _ _) = True"
| "is_signal _ = False"

definition event_from_bar :: "timestamp \<Rightarrow> bar \<Rightarrow> trading_event" where
  "event_from_bar now b = Ev_BarReceived b ''unknown'' now"

definition event_from_tick :: "timestamp \<Rightarrow> tick \<Rightarrow> trading_event" where
  "event_from_tick now t = Ev_TickReceived t ''unknown'' now"

definition event_from_signal :: "timestamp \<Rightarrow> signal \<Rightarrow> trading_event" where
  "event_from_signal now s = Ev_SignalGenerated ''unknown'' s now"

lemma event_categories_exclusive:
  "\<not> (is_market_data e \<and> is_order_event e)" "\<not> (is_market_data e \<and> is_position_event e)"
  "\<not> (is_order_event e \<and> is_position_event e)" "is_signal e \<Longrightarrow> \<not> is_market_data e"
  "is_signal e \<Longrightarrow> \<not> is_order_event e" "is_signal e \<Longrightarrow> \<not> is_position_event e"
  by (cases e; simp)+

text \<open>The type tag determines every classification.\<close>

lemma event_type_determines:
  assumes "event_type e = event_type e'"
  shows "is_market_data e = is_market_data e'" and "is_order_event e = is_order_event e'"
    and "is_position_event e = is_position_event e'" and "is_signal e = is_signal e'"
  using assms by (cases e; cases e'; simp)+

end
