(* ===== verification/Domain_Services.thy ===== *)
theory Domain_Services
  imports Trading_Events
begin

text \<open>
  The stateless services of \<open>crates/domain/src/services.rs\<close>: each operation acts on an entity and
  returns the event that reports it.  \<open>&mut\<close> arguments are returned updated.
\<close>

section \<open>OrderService\<close>

definition create_order ::
    "uuid \<Rightarrow> uuid \<Rightarrow> timestamp \<Rightarrow> timestamp \<Rightarrow> entity_id \<Rightarrow> symbol \<Rightarrow> side \<Rightarrow> quantity \<Rightarrow>
     (order \<times> order_created_event, domain_error) res" where
  "create_order fresh1 fresh2 now1 now2 account_id symbol side quantity =
     bind (order_new fresh1 now1 account_id symbol side Market quantity None None) (\<lambda>ord.
     Ok (ord, order_created_new fresh2 now2 (ord_id ord) account_id symbol side quantity))"

definition service_cancel_order ::
    "uuid \<Rightarrow> timestamp \<Rightarrow> timestamp \<Rightarrow> timestamp \<Rightarrow> order \<Rightarrow> string option \<Rightarrow>
     (order \<times> order_cancelled_event, domain_error) res" where
  "service_cancel_order fresh now1 now2 now3 ord reason =
     (let reason_str = (case reason of Some r \<Rightarrow> r | None \<Rightarrow> ''user_request'') in
      bind (order_cancel now1 now2 ord reason_str) (\<lambda>ord'.
      Ok (ord', order_cancelled_new fresh now3 (ord_id ord') (ord_account_id ord') (Some reason_str))))"

definition service_fill_order ::
    "dec_ops \<Rightarrow> uuid \<Rightarrow> timestamp \<Rightarrow> timestamp \<Rightarrow> timestamp \<Rightarrow> order \<Rightarrow> quantity \<Rightarrow> price \<Rightarrow>
     (order \<times> order_filled_event, domain_error) res" where
  "service_fill_order D fresh now1 now2 now3 ord fill_qty fill_price =
     bind (order_fill D now1 now2 ord fill_qty fill_price) (\<lambda>ord'.
     Ok (ord', order_filled_new fresh now3 (ord_id ord') (ord_account_id ord') (ord_symbol ord')
                 fill_qty fill_price (ord_filled_quantity ord') (status_is_filled (ord_status ord'))))"

section \<open>PositionService\<close>

definition open_position ::
    "uuid \<Rightarrow> uuid \<Rightarrow> timestamp \<Rightarrow> timestamp \<Rightarrow> entity_id \<Rightarrow> symbol \<Rightarrow> side \<Rightarrow> quantity \<Rightarrow> price \<Rightarrow>
     currency \<Rightarrow> (position \<times> position_opened_event, domain_error) res" where
  "open_position fresh1 fresh2 now1 now2 account_id symbol side quantity entry_price currency =
     (let direction = (case side of Buy \<Rightarrow> Long | Sell \<Rightarrow> Short);
          p = position_new fresh1 now1 account_id symbol direction quantity entry_price currency
      in Ok (p, position_opened_new fresh2 now2 (pos_id p) account_id symbol direction quantity entry_price))"

definition increase_position ::
    "dec_ops \<Rightarrow> uuid \<Rightarrow> timestamp \<Rightarrow> position \<Rightarrow> quantity \<Rightarrow> price \<Rightarrow>
     (position \<times> position_updated_event, domain_error) res" where
  "increase_position D fresh now p additional_qty price =
     (let current_qty = qty_inner (pos_quantity p) in
      bind (or_panic (d_add D current_qty (qty_inner additional_qty))) (\<lambda>new_qty.
      bind (or_panic (d_mul D (price_inner (pos_avg_entry_price p)) current_qty)) (\<lambda>a.
      bind (or_panic (d_mul D (price_inner price) (qty_inner additional_qty))) (\<lambda>b.
      bind (or_panic (d_add D a b)) (\<lambda>n.
      bind (or_panic (d_div D n new_qty)) (\<lambda>avg_price.
      Ok (p, position_updated_new fresh now (pos_id p) (pos_account_id p)
               (quantity_new_unchecked new_qty) (price_new_unchecked avg_price))))))))"

definition close_position ::
    "dec_ops \<Rightarrow> uuid \<Rightarrow> uuid \<Rightarrow> timestamp \<Rightarrow> timestamp \<Rightarrow> timestamp \<Rightarrow> position \<Rightarrow> quantity \<Rightarrow> price \<Rightarrow>
     (position \<times> position_closed_event option \<times> position_updated_event, domain_error) res" where
  "close_position D fresh1 fresh2 now1 now2 now3 p close_qty exit_price =
     (if qty_inner (pos_quantity p) < qty_inner close_qty
      then Err (domain_error_invalid_quantity ''Close quantity exceeds position size'')
      else
        bind (or_panic (case position_direction_of p of
                Long \<Rightarrow> d_sub D (price_inner exit_price) (price_inner (pos_avg_entry_price p))
              | Short \<Rightarrow> d_sub D (price_inner (pos_avg_entry_price p)) (price_inner exit_price)))
          (\<lambda>pnl_per_unit.
        bind (or_panic (d_mul D pnl_per_unit (qty_inner close_qty))) (\<lambda>realized_pnl.
        bind (add_realized_pnl D now1 p
                (money_new_unchecked realized_pnl (m_currency (pos_realized_pnl p)))) (\<lambda>p'.
        bind (or_panic (d_sub D (qty_inner (pos_quantity p')) (qty_inner close_qty))) (\<lambda>new_qty.
        if new_qty = 0
        then Ok (p', Some (position_closed_new fresh1 now2 (pos_id p') (pos_account_id p')
                             (pos_symbol p') close_qty exit_price realized_pnl),
                 position_updated_new fresh2 now3 (pos_id p') (pos_account_id p')
                   (quantity_new_unchecked 0) (pos_avg_entry_price p'))
        else Ok (p', None,
                 position_updated_new fresh2 now3 (pos_id p') (pos_account_id p')
                   (quantity_new_unchecked new_qty) (pos_avg_entry_price p')))))))"

section \<open>AccountService\<close>

definition create_account ::
    "uuid \<Rightarrow> timestamp \<Rightarrow> string \<Rightarrow> currency \<Rightarrow> decimal \<Rightarrow> (account, domain_error) res" where
  "create_account fresh now name currency initial_balance =
     account_new fresh now name currency initial_balance"

definition service_update_balance :: "timestamp \<Rightarrow> account \<Rightarrow> decimal \<Rightarrow> account" where
  "service_update_balance now a new_balance = update_balance now a new_balance"

definition has_sufficient_funds :: "account \<Rightarrow> decimal \<Rightarrow> bool" where
  "has_sufficient_funds a required = (required \<le> m_amount (acc_balance a))"

section \<open>Lemmas\<close>

lemma add_realized_pnl_frame:
  assumes "add_realized_pnl D now p m = (Ok p' :: (position, 'e) res)"
  shows "pos_quantity p' = pos_quantity p" and "pos_avg_entry_price p' = pos_avg_entry_price p"
    and "pos_side p' = pos_side p" and "pos_id p' = pos_id p" and "pos_symbol p' = pos_symbol p"
    and "m_currency (pos_realized_pnl p') = m_currency (pos_realized_pnl p)"
    and "d_add D (m_amount (pos_realized_pnl p)) (m_amount m) = Some (m_amount (pos_realized_pnl p'))"
  using assms by (auto simp: add_realized_pnl_def res_simps)

text \<open>What an accepted close computes.\<close>

lemma close_position_Ok:
  assumes "close_position D f1 f2 t1 t2 t3 p q x = Ok (p', cev, updated)"
  obtains u r n where "qty_inner q \<le> qty_inner (pos_quantity p)"
    and "(case position_direction_of p of
            Long \<Rightarrow> d_sub D (price_inner x) (price_inner (pos_avg_entry_price p))
          | Short \<Rightarrow> d_sub D (price_inner (pos_avg_entry_price p)) (price_inner x)) = Some u"
    and "d_mul D u (qty_inner q) = Some r"
    and "add_realized_pnl D t1 p (money_new_unchecked r (m_currency (pos_realized_pnl p))) =
           (Ok p' :: (position, domain_error) res)"
    and "d_sub D (qty_inner (pos_quantity p)) (qty_inner q) = Some n"
    and "cev \<noteq> None \<longleftrightarrow> n = 0" and "pu_new_quantity updated = Quantity n"
proof -
  have le: "qty_inner q \<le> qty_inner (pos_quantity p)"
    using assms by (simp add: close_position_def split: if_splits)
  from assms obtain u r n where
      s: "(case position_direction_of p of
            Long \<Rightarrow> d_sub D (price_inner x) (price_inner (pos_avg_entry_price p))
          | Short \<Rightarrow> d_sub D (price_inner (pos_avg_entry_price p)) (price_inner x)) = Some u"
      "d_mul D u (qty_inner q) = Some r"
    and a: "add_realized_pnl D t1 p (money_new_unchecked r (m_currency (pos_realized_pnl p))) =
           (Ok p' :: (position, domain_error) res)"
    and n: "d_sub D (qty_inner (pos_quantity p')) (qty_inner q) = Some n"
      "cev \<noteq> None \<longleftrightarrow> n = 0" "pu_new_quantity updated = Quantity n"
    using le
    by (auto simp: close_position_def res_simps not_less position_updated_new_def
        quantity_new_unchecked_def split: if_splits)
  show ?thesis using that [OF le s a] n add_realized_pnl_frame(1) [OF a] by simp
qed

section \<open>Properties\<close>

lemma close_position_again:
  assumes D: "dec_ok D" and full: "qty_inner q = qty_inner (pos_quantity p)"
    and first: "close_position D f1 f2 t1 t2 t3 p q x = Ok (p', cev, updated)"
    and second: "close_position D g1 g2 u1 u2 u3 p' q x = Ok (p'', cev', updated')"
    and gain: "d_add D (m_amount (pos_realized_pnl p)) r = Some (m_amount (pos_realized_pnl p'))"
      "(case position_direction_of p of
            Long \<Rightarrow> d_sub D (price_inner x) (price_inner (pos_avg_entry_price p))
          | Short \<Rightarrow> d_sub D (price_inner (pos_avg_entry_price p)) (price_inner x)) = Some u"
      "d_mul D u (qty_inner q) = Some r"
  shows "cev' \<noteq> None \<and> pos_quantity p'' = pos_quantity p \<and>
    d_add D (m_amount (pos_realized_pnl p')) r = Some (m_amount (pos_realized_pnl p''))"
proof -
  obtain r0 where "add_realized_pnl D t1 p (money_new_unchecked r0 (m_currency (pos_realized_pnl p))) =
      (Ok p' :: (position, domain_error) res)"
    using first by (rule close_position_Ok)
  note fr = add_realized_pnl_frame [OF this]
  obtain u' r' n' where d:
    "(case position_direction_of p' of
          Long \<Rightarrow> d_sub D (price_inner x) (price_inner (pos_avg_entry_price p'))
        | Short \<Rightarrow> d_sub D (price_inner (pos_avg_entry_price p')) (price_inner x)) = Some u'"
    "d_mul D u' (qty_inner q) = Some r'"
    "add_realized_pnl D u1 p' (money_new_unchecked r' (m_currency (pos_realized_pnl p'))) =
         (Ok p'' :: (position, domain_error) res)"
    "d_sub D (qty_inner (pos_quantity p')) (qty_inner q) = Some n'" "cev' \<noteq> None \<longleftrightarrow> n' = 0"
    using second by (rule close_position_Ok)
  have "u' = u" using d(1) gain(2) fr(2,3) by (auto simp: position_direction_of_def split: side.splits position_direction.splits)
  then have "r' = r" using d(2) gain(3) by simp
  moreover have "n' = 0" using d(4) full fr(1) d_sub_self [OF D] by simp
  ultimately show ?thesis using d(5) add_realized_pnl_frame(1,7) [OF d(3)] fr(1)
    by (simp add: money_new_unchecked_def)
qed

text \<open>
  \<open>PositionService::close_position\<close> accepts exactly a quantity the position covers and books
  the profit of that quantity, but it does not reduce the position: the quantity stays what it
  was although the returned update announces the reduced one.  A close of the whole position
  can therefore be repeated, and each repetition books the same profit again.
\<close>

theorem close_position_leaves_quantity:
  assumes D: "dec_ok D"
    and first: "close_position D f1 f2 t1 t2 t3 p q x = Ok (p', cev, updated)"
  shows "pos_quantity p' = pos_quantity p \<and> qty_inner q \<le> qty_inner (pos_quantity p) \<and>
    d_sub D (qty_inner (pos_quantity p)) (qty_inner q) = Some (qty_inner (pu_new_quantity updated)) \<and>
    (qty_inner q = qty_inner (pos_quantity p) \<longrightarrow> cev \<noteq> None \<and>
       (\<exists>r. d_add D (m_amount (pos_realized_pnl p)) r = Some (m_amount (pos_realized_pnl p')) \<and>
        (\<forall>g1 g2 u1 u2 u3 p'' cev' updated'.
           close_position D g1 g2 u1 u2 u3 p' q x = Ok (p'', cev', updated') \<longrightarrow>
             cev' \<noteq> None \<and> pos_quantity p'' = pos_quantity p \<and>
             d_add D (m_amount (pos_realized_pnl p')) r = Some (m_amount (pos_realized_pnl p'')))))"
proof -
  obtain u r n where c: "qty_inner q \<le> qty_inner (pos_quantity p)"
      "(case position_direction_of p of
            Long \<Rightarrow> d_sub D (price_inner x) (price_inner (pos_avg_entry_price p))
          | Short \<Rightarrow> d_sub D (price_inner (pos_avg_entry_price p)) (price_inner x)) = Some u"
      "d_mul D u (qty_inner q) = Some r"
      "add_realized_pnl D t1 p (money_new_unchecked r (m_currency (pos_realized_pnl p))) =
           (Ok p' :: (position, domain_error) res)"
      "d_sub D (qty_inner (pos_quantity p)) (qty_inner q) = Some n"
      "cev \<noteq> None \<longleftrightarrow> n = 0" "pu_new_quantity updated = Quantity n"
    using first by (rule close_position_Ok)
  note fr = add_realized_pnl_frame [OF c(4)]
  have r: "d_add D (m_amount (pos_realized_pnl p)) r = Some (m_amount (pos_realized_pnl p'))"
    using fr(7) by (simp add: money_new_unchecked_def)
  have full: "cev \<noteq> None" if "qty_inner q = qty_inner (pos_quantity p)"
    using c(5,6) that d_sub_self [OF D] by simp
  show ?thesis
  proof (intro conjI impI)
    assume q: "qty_inner q = qty_inner (pos_quantity p)"
    show "cev \<noteq> None" by (rule full [OF q])
    show "\<exists>r. d_add D (m_amount (pos_realized_pnl p)) r = Some (m_amount (pos_realized_pnl p')) \<and>
        (\<forall>g1 g2 u1 u2 u3 p'' cev' updated'.
           close_position D g1 g2 u1 u2 u3 p' q x = Ok (p'', cev', updated') \<longrightarrow>
             cev' \<noteq> None \<and> pos_quantity p'' = pos_quantity p \<and>
             d_add D (m_amount (pos_realized_pnl p')) r = Some (m_amount (pos_realized_pnl p'')))"
      using r close_position_again [OF D q first _ r c(2,3)] by blast
  qed (use fr(1) c(1,5,7) in simp_all)
qed

theorem close_position_leaves_quantity_witness:
  "\<exists>p' cev updated. close_position exact_dec 1 2 3 3 3 (sample_position 10 100) (Quantity 10) (Price 105) =
       Ok (p', cev, updated) \<and>
     pos_quantity p' = Quantity 10 \<and> m_amount (pos_realized_pnl p') = 50 \<and> cev \<noteq> None"
proof -
  obtain p' cev updated where c: "close_position exact_dec 1 2 3 3 3 (sample_position 10 100)
      (Quantity 10) (Price 105) = Ok (p', cev, updated)" "m_amount (pos_realized_pnl p') = 50"
    by (simp add: close_position_def sample_position_def position_new_def position_direction_of_def
        add_realized_pnl_def money_new_unchecked_def)
  have s: "pos_quantity (sample_position 10 100) = Quantity 10" by (simp add: sample_position_def)
  from close_position_leaves_quantity [OF dec_ok_exact c(1)] c s show ?thesis by auto
qed

end
