(* ===== verification/Risk_Engine.thy ===== *)
theory Risk_Engine
  imports Trading_Events
begin

text \<open>
  The pre-trade risk engine of \<open>crates/application/src/risk/engine.rs\<close>: its configuration, the
  state behind its lock, the pre-trade check with its five limit checks, the kill switch and the
  circuit breaker.  The state of the \<open>RwLock\<close> is \<open>re_poisoned\<close>; an operation on a poisoned lock
  returns an error.  An operation that returns an error has not changed the state, so it returns
  the engine only with \<open>Ok\<close>.  Log messages are left out.
\<close>

section \<open>Decisions, configuration and state\<close>

datatype risk_decision = Allow | Reject (reject_reason: string) | Reduce (reduce_max: quantity)

definition decision_is_allowed :: "risk_decision \<Rightarrow> bool" where
  "decision_is_allowed d = (d = Allow)"

fun decision_is_rejected :: "risk_decision \<Rightarrow> bool" where
  "decision_is_rejected (Reject _) = True"
| "decision_is_rejected _ = False"

fun decision_is_reduce :: "risk_decision \<Rightarrow> bool" where
  "decision_is_reduce (Reduce _) = True"
| "decision_is_reduce _ = False"

record risk_config =
  max_position_size :: "symbol \<rightharpoonup> quantity"
  max_total_exposure :: money
  daily_loss_limit :: money
  max_drawdown_pct :: decimal
  max_symbol_exposure :: "symbol \<rightharpoonup> money"
  kill_switch_enabled :: bool
  circuit_breaker_failures :: u32
  circuit_breaker_timeout_secs :: u64

definition risk_config_default :: risk_config where
  "risk_config_default =
     \<lparr>max_position_size = Map.empty,
      max_total_exposure = \<lparr>m_amount = 1000000, m_currency = USD\<rparr>,
      daily_loss_limit = \<lparr>m_amount = 50000, m_currency = USD\<rparr>,
      max_drawdown_pct = 1 / 10,
      max_symbol_exposure = Map.empty,
      kill_switch_enabled = True,
      circuit_breaker_failures = 5,
      circuit_breaker_timeout_secs = 300\<rparr>"

definition with_position_limit :: "risk_config \<Rightarrow> symbol \<Rightarrow> quantity \<Rightarrow> risk_config" where
  "with_position_limit c symbol max_qty =
     c\<lparr>max_position_size := (max_position_size c)(symbol \<mapsto> max_qty)\<rparr>"

definition with_symbol_exposure :: "risk_config \<Rightarrow> symbol \<Rightarrow> money \<Rightarrow> risk_config" where
  "with_symbol_exposure c symbol max_exp =
     c\<lparr>max_symbol_exposure := (max_symbol_exposure c)(symbol \<mapsto> max_exp)\<rparr>"

definition with_total_exposure :: "risk_config \<Rightarrow> money \<Rightarrow> risk_config" where
  "with_total_exposure c max_exp = c\<lparr>max_total_exposure := max_exp\<rparr>"

definition with_daily_loss_limit :: "risk_config \<Rightarrow> money \<Rightarrow> risk_config" where
  "with_daily_loss_limit c limit = c\<lparr>daily_loss_limit := limit\<rparr>"

definition with_max_drawdown :: "risk_config \<Rightarrow> decimal \<Rightarrow> risk_config" where
  "with_max_drawdown c pct = c\<lparr>max_drawdown_pct := pct\<rparr>"

datatype breaker = CB_Closed | CB_Open | CB_HalfOpen

fun breaker_display :: "breaker \<Rightarrow> string" where
  "breaker_display CB_Closed = ''CLOSED''"
| "breaker_display CB_Open = ''OPEN''"
| "breaker_display CB_HalfOpen = ''HALF_OPEN''"

definition is_trading_allowed :: "breaker \<Rightarrow> bool" where
  "is_trading_allowed b = (b = CB_Closed \<or> b = CB_HalfOpen)"

record risk_state =
  rs_current_date :: int
  rs_daily_realized_pnl :: money
  rs_daily_unrealized_pnl :: money
  rs_equity_peak :: money
  rs_current_equity :: money
  rs_kill_switch_triggered :: bool
  rs_circuit_breaker :: breaker
  rs_consecutive_failures :: u32
  rs_circuit_breaker_opened_at :: "timestamp option"
  rs_decision_history :: "(timestamp \<times> risk_decision) list"

definition risk_state_default :: "int \<Rightarrow> risk_state" where
  "risk_state_default today =
     (let initial_equity = \<lparr>m_amount = 100000, m_currency = USD\<rparr> in
      \<lparr>rs_current_date = today,
       rs_daily_realized_pnl = \<lparr>m_amount = 0, m_currency = USD\<rparr>,
       rs_daily_unrealized_pnl = \<lparr>m_amount = 0, m_currency = USD\<rparr>,
       rs_equity_peak = initial_equity,
       rs_current_equity = initial_equity,
       rs_kill_switch_triggered = False,
       rs_circuit_breaker = CB_Closed,
       rs_consecutive_failures = 0,
       rs_circuit_breaker_opened_at = None,
       rs_decision_history = []\<rparr>)"

definition total_daily_pnl :: "dec_ops \<Rightarrow> risk_state \<Rightarrow> (decimal, 'e) res" where
  "total_daily_pnl D s =
     or_panic (d_add D (m_amount (rs_daily_realized_pnl s)) (m_amount (rs_daily_unrealized_pnl s)))"

definition current_drawdown_pct :: "dec_ops \<Rightarrow> risk_state \<Rightarrow> (decimal, 'e) res" where
  "current_drawdown_pct D s =
     (if 0 < m_amount (rs_equity_peak s)
      then bind (or_panic (d_sub D (m_amount (rs_equity_peak s)) (m_amount (rs_current_equity s))))
             (\<lambda>diff. or_panic (d_div D diff (m_amount (rs_equity_peak s))))
      else Ok 0)"

record risk_engine =
  re_config :: risk_config
  re_state :: risk_state
  re_poisoned :: bool

definition risk_engine_new :: "int \<Rightarrow> risk_config \<Rightarrow> risk_engine" where
  "risk_engine_new today config =
     \<lparr>re_config = config, re_state = risk_state_default today, re_poisoned = False\<rparr>"

definition with_lock ::
    "timestamp \<Rightarrow> risk_engine \<Rightarrow> (risk_state \<Rightarrow> ('a, domain_error) res) \<Rightarrow> ('a, domain_error) res" where
  "with_lock now e k =
     (if re_poisoned e then Err (domain_error_unknown now ''Risk state lock poisoned'')
      else k (re_state e))"

section \<open>The limit checks\<close>

definition record_decision ::
    "timestamp \<Rightarrow> risk_engine \<Rightarrow> timestamp \<Rightarrow> risk_decision \<Rightarrow> (risk_engine, domain_error) res" where
  "record_decision now e timestamp decision =
     with_lock now e (\<lambda>s.
       Ok (e\<lparr>re_state := s\<lparr>rs_decision_history :=
                push_dropping 100 (timestamp, decision) (rs_decision_history s)\<rparr>\<rparr>))"

definition positions_in :: "symbol \<Rightarrow> position list \<Rightarrow> position list" where
  "positions_in symbol positions = filter (\<lambda>p. pos_symbol p = symbol) positions"

definition check_position_size ::
    "dec_ops \<Rightarrow> risk_engine \<Rightarrow> order \<Rightarrow> position list \<Rightarrow>
     (risk_decision option, domain_error) res" where
  "check_position_size D e ord positions =
     (case max_position_size (re_config e) (ord_symbol ord) of
        None \<Rightarrow> Ok None
      | Some max_size \<Rightarrow>
          bind (dec_sum D (map (\<lambda>p. qty_inner (pos_quantity p)) (positions_in (ord_symbol ord) positions)))
            (\<lambda>current_qty.
          bind (remaining_quantity D ord) (\<lambda>order_qty.
          bind (or_panic (d_add D current_qty (qty_inner order_qty))) (\<lambda>new_total.
          if qty_inner max_size < new_total
          then bind (or_panic (d_sub D (qty_inner max_size) current_qty)) (\<lambda>remaining.
               if remaining \<le> 0
               then Ok (Some (Reject (''Position size limit exceeded for '' @ symbol_str (ord_symbol ord) @
                      '': max '' @ d_fmt D (qty_inner max_size) @ '', current '' @ d_fmt D current_qty)))
               else bind (map_err (\<lambda>ve. domain_error_validation
                              (''Invalid quantity: '' @ value_error_display ve)) (quantity_new D remaining))
                      (\<lambda>max_allowed. Ok (Some (Reduce max_allowed))))
          else Ok None))))"

definition check_daily_loss_limit ::
    "dec_ops \<Rightarrow> timestamp \<Rightarrow> risk_engine \<Rightarrow> (risk_decision option, domain_error) res" where
  "check_daily_loss_limit D now e =
     with_lock now e (\<lambda>s.
       bind (total_daily_pnl D s) (\<lambda>total_pnl.
       if total_pnl < - m_amount (daily_loss_limit (re_config e))
       then Ok (Some (Reject (''Daily loss limit reached: '' @ d_fmt D total_pnl @ '' < -'' @
              d_fmt D (m_amount (daily_loss_limit (re_config e))))))
       else Ok None))"

definition check_drawdown_limit ::
    "dec_ops \<Rightarrow> timestamp \<Rightarrow> risk_engine \<Rightarrow> (risk_decision option, domain_error) res" where
  "check_drawdown_limit D now e =
     with_lock now e (\<lambda>s.
       bind (current_drawdown_pct D s) (\<lambda>drawdown_pct.
       if max_drawdown_pct (re_config e) < drawdown_pct
       then bind (or_panic (d_mul D drawdown_pct 100)) (\<lambda>a.
            bind (or_panic (d_mul D (max_drawdown_pct (re_config e)) 100)) (\<lambda>b.
            Ok (Some (Reject (''Max drawdown exceeded: '' @ d_fmt2 D a @ ''% > '' @ d_fmt2 D b @ ''%'')))))
       else bind (or_panic (d_mul D (max_drawdown_pct (re_config e)) (8 / 10))) (\<lambda>warning_threshold.
            Ok None)))"

definition exposure_of :: "dec_ops \<Rightarrow> position list \<Rightarrow> (money, domain_error) res" where
  "exposure_of D positions =
     bind (map_res (market_value D) positions) (\<lambda>values.
     bind (dec_sum D (map m_amount values)) (\<lambda>total.
     map_err (\<lambda>ve. domain_error_validation (''Invalid exposure: '' @ value_error_display ve))
       (money_new total USD)))"

definition calculate_total_exposure :: "dec_ops \<Rightarrow> position list \<Rightarrow> (money, domain_error) res" where
  "calculate_total_exposure D positions = exposure_of D positions"

definition calculate_symbol_exposure ::
    "dec_ops \<Rightarrow> symbol \<Rightarrow> position list \<Rightarrow> (money, domain_error) res" where
  "calculate_symbol_exposure D symbol positions = exposure_of D (positions_in symbol positions)"

definition check_total_exposure ::
    "dec_ops \<Rightarrow> risk_engine \<Rightarrow> order \<Rightarrow> position list \<Rightarrow> price \<Rightarrow>
     (risk_decision option, domain_error) res" where
  "check_total_exposure D e ord positions current_price =
     bind (calculate_total_exposure D positions) (\<lambda>total_exposure.
     bind (remaining_quantity D ord) (\<lambda>remaining.
     bind (or_panic (d_mul D (price_inner current_price) (qty_inner remaining))) (\<lambda>order_value.
     bind (or_panic (d_add D (m_amount total_exposure) \<bar>order_value\<bar>)) (\<lambda>new_exposure.
     if m_amount (max_total_exposure (re_config e)) < new_exposure
     then Ok (Some (Reject (''Total exposure limit exceeded: '' @ d_fmt D new_exposure @ '' > '' @
            d_fmt D (m_amount (max_total_exposure (re_config e))))))
     else Ok None))))"

definition check_symbol_exposure ::
    "dec_ops \<Rightarrow> risk_engine \<Rightarrow> order \<Rightarrow> position list \<Rightarrow> price \<Rightarrow>
     (risk_decision option, domain_error) res" where
  "check_symbol_exposure D e ord positions current_price =
     (case max_symbol_exposure (re_config e) (ord_symbol ord) of
        None \<Rightarrow> Ok None
      | Some max_symbol_exp \<Rightarrow>
          bind (calculate_symbol_exposure D (ord_symbol ord) positions) (\<lambda>symbol_exposure.
          bind (remaining_quantity D ord) (\<lambda>remaining.
          bind (or_panic (d_mul D (price_inner current_price) (qty_inner remaining))) (\<lambda>order_value.
          bind (or_panic (d_add D (m_amount symbol_exposure) \<bar>order_value\<bar>)) (\<lambda>new_symbol_exposure.
          if m_amount max_symbol_exp < new_symbol_exposure
          then Ok (Some (Reject (''Symbol exposure limit exceeded for '' @ symbol_str (ord_symbol ord) @
                 '': '' @ d_fmt D new_symbol_exposure @ '' > '' @ d_fmt D (m_amount max_symbol_exp))))
          else Ok None)))))"

section \<open>The pre-trade check\<close>

text \<open>The switch and the breaker are read first, in one critical section.\<close>

definition trading_halted :: "risk_state \<Rightarrow> risk_decision option" where
  "trading_halted s =
     (if rs_kill_switch_triggered s
      then Some (Reject ''KILL SWITCH ACTIVE - Trading disabled'')
      else if rs_circuit_breaker s = CB_Open
      then Some (Reject ''CIRCUIT BREAKER OPEN - Trading suspended'')
      else None)"

text \<open>Recording a decision and returning it.\<close>

definition decide ::
    "timestamp \<Rightarrow> risk_engine \<Rightarrow> risk_decision \<Rightarrow> (risk_engine \<times> risk_decision, domain_error) res" where
  "decide now e d = bind (record_decision now e now d) (\<lambda>e'. Ok (e', d))"

definition check_pre_trade ::
    "dec_ops \<Rightarrow> timestamp \<Rightarrow> risk_engine \<Rightarrow> order \<Rightarrow> position list \<Rightarrow> price \<Rightarrow>
     (risk_engine \<times> risk_decision, domain_error) res" where
  "check_pre_trade D now e ord positions current_price =
     bind (with_lock now e (\<lambda>s. Ok (trading_halted s))) (\<lambda>h.
     case h of Some d \<Rightarrow> decide now e d | None \<Rightarrow>
     bind (check_position_size D e ord positions) (\<lambda>c1.
     case c1 of Some d \<Rightarrow> decide now e d | None \<Rightarrow>
     bind (check_daily_loss_limit D now e) (\<lambda>c2.
     case c2 of Some d \<Rightarrow> decide now e d | None \<Rightarrow>
     bind (check_drawdown_limit D now e) (\<lambda>c3.
     case c3 of Some d \<Rightarrow> decide now e d | None \<Rightarrow>
     bind (check_total_exposure D e ord positions current_price) (\<lambda>c4.
     case c4 of Some d \<Rightarrow> decide now e d | None \<Rightarrow>
     bind (check_symbol_exposure D e ord positions current_price) (\<lambda>c5.
     case c5 of Some d \<Rightarrow> decide now e d | None \<Rightarrow> decide now e Allow))))))"

section \<open>Updates\<close>

definition update_on_fill ::
    "dec_ops \<Rightarrow> timestamp \<Rightarrow> risk_engine \<Rightarrow> money option \<Rightarrow> (risk_engine, domain_error) res" where
  "update_on_fill D now e realized_pnl =
     with_lock now e (\<lambda>s.
       bind (case realized_pnl of
               Some pnl \<Rightarrow>
                 bind (or_panic (d_add D (m_amount (rs_daily_realized_pnl s)) (m_amount pnl))) (\<lambda>new_pnl.
                 bind (map_err (\<lambda>ve. domain_error_validation (''Invalid P&L: '' @ value_error_display ve))
                         (money_new new_pnl USD)) (\<lambda>m.
                 Ok (s\<lparr>rs_daily_realized_pnl := m\<rparr>)))
             | None \<Rightarrow> Ok s) (\<lambda>s'.
       Ok (e\<lparr>re_state := (if 0 < rs_consecutive_failures s'
                          then s'\<lparr>rs_consecutive_failures := 0\<rparr> else s')\<rparr>)))"

definition update_equity ::
    "dec_ops \<Rightarrow> timestamp \<Rightarrow> risk_engine \<Rightarrow> money \<Rightarrow> (risk_engine, domain_error) res" where
  "update_equity D now e new_equity =
     with_lock now e (\<lambda>s.
       let s1 = s\<lparr>rs_current_equity := new_equity\<rparr>;
           s2 = (if m_amount (rs_equity_peak s1) < m_amount new_equity
                 then s1\<lparr>rs_equity_peak := new_equity\<rparr> else s1)
       in bind (current_drawdown_pct D s2) (\<lambda>drawdown_pct.
          if 0 < drawdown_pct
          then bind (or_panic (d_mul D (max_drawdown_pct (re_config e)) (8 / 10))) (\<lambda>warning_threshold.
               Ok (e\<lparr>re_state := s2\<rparr>))
          else Ok (e\<lparr>re_state := s2\<rparr>)))"

definition trigger_kill_switch ::
    "timestamp \<Rightarrow> risk_engine \<Rightarrow> (risk_engine, domain_error) res" where
  "trigger_kill_switch now e =
     (if \<not> kill_switch_enabled (re_config e) then Ok e
      else with_lock now e (\<lambda>s. Ok (e\<lparr>re_state := s\<lparr>rs_kill_switch_triggered := True\<rparr>\<rparr>)))"

definition reset_kill_switch :: "timestamp \<Rightarrow> risk_engine \<Rightarrow> (risk_engine, domain_error) res" where
  "reset_kill_switch now e =
     with_lock now e (\<lambda>s. Ok (e\<lparr>re_state := s\<lparr>rs_kill_switch_triggered := False\<rparr>\<rparr>))"

definition is_kill_switch_active :: "timestamp \<Rightarrow> risk_engine \<Rightarrow> (bool, domain_error) res" where
  "is_kill_switch_active now e = with_lock now e (\<lambda>s. Ok (rs_kill_switch_triggered s))"

text \<open>The failure counter is a \<open>u32\<close>; the release profile wraps it.\<close>

definition record_failure ::
    "timestamp \<Rightarrow> risk_engine \<Rightarrow> (risk_engine \<times> breaker, domain_error) res" where
  "record_failure now e =
     with_lock now e (\<lambda>s.
       let s1 = s\<lparr>rs_consecutive_failures := rs_consecutive_failures s + 1\<rparr>;
           s2 = (if circuit_breaker_failures (re_config e) \<le> rs_consecutive_failures s1
                 then if rs_circuit_breaker s1 = CB_Closed
                      then s1\<lparr>rs_circuit_breaker := CB_Open, rs_circuit_breaker_opened_at := Some now\<rparr>
                      else s1
                 else s1)
       in Ok (e\<lparr>re_state := s2\<rparr>, rs_circuit_breaker s2))"

text \<open>
  \<open>TimeDelta::num_seconds\<close> truncates toward zero; the cast of a negative \<open>i64\<close> to \<open>u64\<close> wraps.
\<close>

definition num_seconds :: "timestamp \<Rightarrow> timestamp \<Rightarrow> int" where
  "num_seconds now since =
     (let d = now - since in if 0 \<le> d then d div 10 ^ 9 else - (- d div 10 ^ 9))"

definition check_circuit_breaker_recovery ::
    "timestamp \<Rightarrow> risk_engine \<Rightarrow> (risk_engine \<times> breaker, domain_error) res" where
  "check_circuit_breaker_recovery now e =
     with_lock now e (\<lambda>s.
       let s' = (if rs_circuit_breaker s = CB_Open
                 then case rs_circuit_breaker_opened_at s of
                        Some opened_at \<Rightarrow>
                          if circuit_breaker_timeout_secs (re_config e) \<le>
                             (word_of_int (num_seconds now opened_at) :: u64)
                          then s\<lparr>rs_circuit_breaker := CB_HalfOpen\<rparr> else s
                      | None \<Rightarrow> s
                 else s)
       in Ok (e\<lparr>re_state := s'\<rparr>, rs_circuit_breaker s'))"

definition confirm_recovery :: "timestamp \<Rightarrow> risk_engine \<Rightarrow> (risk_engine, domain_error) res" where
  "confirm_recovery now e =
     with_lock now e (\<lambda>s.
       Ok (e\<lparr>re_state :=
              (if rs_circuit_breaker s = CB_HalfOpen
               then s\<lparr>rs_circuit_breaker := CB_Closed, rs_consecutive_failures := 0,
                      rs_circuit_breaker_opened_at := None\<rparr>
               else s)\<rparr>))"

definition circuit_breaker_state :: "timestamp \<Rightarrow> risk_engine \<Rightarrow> (breaker, domain_error) res" where
  "circuit_breaker_state now e = with_lock now e (\<lambda>s. Ok (rs_circuit_breaker s))"

definition get_state :: "timestamp \<Rightarrow> risk_engine \<Rightarrow> (risk_state, domain_error) res" where
  "get_state now e = with_lock now e Ok"

definition daily_reset ::
    "(timestamp \<Rightarrow> int) \<Rightarrow> timestamp \<Rightarrow> risk_engine \<Rightarrow> (risk_engine, domain_error) res" where
  "daily_reset date_naive now e =
     with_lock now e (\<lambda>s.
       bind (map_err (\<lambda>ve. domain_error_validation (''Invalid P&L: '' @ value_error_display ve))
               (money_new 0 USD)) (\<lambda>zero.
       Ok (e\<lparr>re_state := s\<lparr>rs_current_date := date_naive now, rs_daily_realized_pnl := zero,
                           rs_daily_unrealized_pnl := zero, rs_consecutive_failures := 0\<rparr>\<rparr>)))"

section \<open>The checks, one by one\<close>

text \<open>Unfolding of the operations to plain case distinctions.\<close>

lemmas engine_defs =
  with_lock_def record_decision_def update_on_fill_def update_equity_def trigger_kill_switch_def
  reset_kill_switch_def record_failure_def check_circuit_breaker_recovery_def confirm_recovery_def
  daily_reset_def Let_def

lemma decide_Ok:
  "decide now e d = Ok (e', d') \<longleftrightarrow>
     \<not> re_poisoned e \<and> d' = d \<and>
     e' = e\<lparr>re_state := (re_state e)\<lparr>rs_decision_history :=
              push_dropping 100 (now, d) (rs_decision_history (re_state e))\<rparr>\<rparr>"
  by (auto simp: decide_def record_decision_def with_lock_def)

text \<open>
  The outcome of the check is the first answer in the order of the code: the halts, the position
  size, the daily loss, the drawdown, the total exposure, the exposure in the symbol.
\<close>

definition passes ::
    "dec_ops \<Rightarrow> timestamp \<Rightarrow> risk_engine \<Rightarrow> order \<Rightarrow> position list \<Rightarrow> price \<Rightarrow> bool" where
  "passes D now e ord ps price =
     (trading_halted (re_state e) = None \<and>
      check_position_size D e ord ps = Ok None \<and>
      check_daily_loss_limit D now e = Ok None \<and>
      check_drawdown_limit D now e = Ok None \<and>
      check_total_exposure D e ord ps price = Ok None \<and>
      check_symbol_exposure D e ord ps price = Ok None)"

lemma ask_Ok:
  "bind c (\<lambda>x. case x of Some d \<Rightarrow> decide now e d | None \<Rightarrow> k) = Ok (e', d') \<longleftrightarrow>
     decide now e d' = Ok (e', d') \<and> c = Ok (Some d') \<or> c = Ok None \<and> k = Ok (e', d')"
  by (auto simp: res_simps decide_Ok split: option.splits)

lemma decide_same: "decide now e d = Ok (e', d') \<longleftrightarrow> d' = d \<and> decide now e d' = Ok (e', d')"
  by (auto simp: decide_Ok)

lemma check_pre_trade_Ok:
  assumes "check_pre_trade D now e ord ps price = Ok (e', d)"
  shows "decide now e d = Ok (e', d) \<and>
    (trading_halted (re_state e) = Some d \<or> trading_halted (re_state e) = None \<and>
     (check_position_size D e ord ps = Ok (Some d) \<or> check_position_size D e ord ps = Ok None \<and>
      (check_daily_loss_limit D now e = Ok (Some d) \<or> check_daily_loss_limit D now e = Ok None \<and>
       (check_drawdown_limit D now e = Ok (Some d) \<or> check_drawdown_limit D now e = Ok None \<and>
        (check_total_exposure D e ord ps price = Ok (Some d) \<or>
         check_total_exposure D e ord ps price = Ok None \<and>
         (check_symbol_exposure D e ord ps price = Ok (Some d) \<or>
          check_symbol_exposure D e ord ps price = Ok None \<and> d = Allow))))))"
proof -
  have h: "with_lock now e (\<lambda>s. Ok (trading_halted s)) = Ok x \<longleftrightarrow>
      \<not> re_poisoned e \<and> trading_halted (re_state e) = x" for x
    by (simp add: with_lock_def)
  have "decide now e d = Ok (e', d)"
    using assms unfolding check_pre_trade_def ask_Ok decide_same [of now e Allow] by blast
  moreover have "trading_halted (re_state e) = Some d \<or> trading_halted (re_state e) = None \<and>
     (check_position_size D e ord ps = Ok (Some d) \<or> check_position_size D e ord ps = Ok None \<and>
      (check_daily_loss_limit D now e = Ok (Some d) \<or> check_daily_loss_limit D now e = Ok None \<and>
       (check_drawdown_limit D now e = Ok (Some d) \<or> check_drawdown_limit D now e = Ok None \<and>
        (check_total_exposure D e ord ps price = Ok (Some d) \<or>
         check_total_exposure D e ord ps price = Ok None \<and>
         (check_symbol_exposure D e ord ps price = Ok (Some d) \<or>
          check_symbol_exposure D e ord ps price = Ok None \<and> d = Allow)))))"
    using assms unfolding check_pre_trade_def ask_Ok decide_same [of now e Allow] h by blast
  ultimately show ?thesis ..
qed

lemma check_pre_trade_records:
  assumes "check_pre_trade D now e ord ps price = Ok (e', d)"
  shows "decide now e d = Ok (e', d)"
  using check_pre_trade_Ok [OF assms] ..

lemma limit_checks_never_allow:
  "trading_halted s = Some d \<Longrightarrow> decision_is_rejected d"
  "check_daily_loss_limit D now e = Ok (Some d) \<Longrightarrow> decision_is_rejected d"
  "check_drawdown_limit D now e = Ok (Some d) \<Longrightarrow> decision_is_rejected d"
  "check_total_exposure D e ord ps price = Ok (Some d) \<Longrightarrow> decision_is_rejected d"
  "check_symbol_exposure D e ord ps price = Ok (Some d) \<Longrightarrow> decision_is_rejected d"
  by (auto simp: trading_halted_def check_daily_loss_limit_def check_drawdown_limit_def
      check_total_exposure_def check_symbol_exposure_def with_lock_def res_simps
      split: if_splits option.splits)

lemma position_size_answers:
  assumes "check_position_size D e ord ps = Ok (Some d)"
  obtains "decision_is_rejected d"
  | lim cur rem n max_allowed where "max_position_size (re_config e) (ord_symbol ord) = Some lim"
      "dec_sum D (map (\<lambda>p. qty_inner (pos_quantity p)) (positions_in (ord_symbol ord) ps)) =
         (Ok cur :: (decimal, domain_error) res)"
      "remaining_quantity D ord = (Ok rem :: (quantity, domain_error) res)"
      "d_add D cur (qty_inner rem) = Some n" "qty_inner lim < n"
      "d_sub D (qty_inner lim) cur = Some (qty_inner max_allowed)"
      "0 < qty_inner max_allowed" "d = Reduce max_allowed"
proof (cases "decision_is_rejected d")
  case False
  from assms obtain lim where lim: "max_position_size (re_config e) (ord_symbol ord) = Some lim"
    by (auto simp: check_position_size_def split: option.splits)
  from assms obtain cur rem n where "dec_sum D (map (\<lambda>p. qty_inner (pos_quantity p)) (positions_in (ord_symbol ord) ps)) =
         (Ok cur :: (decimal, domain_error) res)"
      "remaining_quantity D ord = (Ok rem :: (quantity, domain_error) res)"
      "d_add D cur (qty_inner rem) = Some n" and
    rest: "(if qty_inner lim < n
          then bind (or_panic (d_sub D (qty_inner lim) cur)) (\<lambda>remaining.
               if remaining \<le> 0
               then Ok (Some (Reject (''Position size limit exceeded for '' @ symbol_str (ord_symbol ord) @
                      '': max '' @ d_fmt D (qty_inner lim) @ '', current '' @ d_fmt D cur)))
               else bind (map_err (\<lambda>ve. domain_error_validation
                              (''Invalid quantity: '' @ value_error_display ve)) (quantity_new D remaining))
                      (\<lambda>max_allowed. Ok (Some (Reduce max_allowed))))
          else Ok None) = (Ok (Some d) :: (risk_decision option, domain_error) res)"
    unfolding check_position_size_def lim option.case
    by (simp only: bind_eq_Ok or_panic_eq_Ok) (elim exE conjE, rule that)
  moreover from rest False obtain x where "qty_inner lim < n"
      "d_sub D (qty_inner lim) cur = Some x" "0 < x" "d = Reduce (Quantity x)"
    by (auto simp: res_simps quantity_new_eq_Ok split: if_splits)
  ultimately show thesis using lim by (intro that(2) [of lim cur rem n "Quantity x"]) simp_all
qed (rule that(1))

lemma position_size_never_allows: "check_position_size D e ord ps \<noteq> Ok (Some Allow)"
  by (auto elim: position_size_answers)

lemma check_pre_trade_allow:
  "check_pre_trade D now e ord ps price = Ok (e', Allow) \<Longrightarrow> passes D now e ord ps price"
  using limit_checks_never_allow position_size_never_allows
  by (fastforce dest!: check_pre_trade_Ok simp: passes_def)

section \<open>Exact exposures\<close>

definition exact_exposure :: "position list \<Rightarrow> decimal" where
  "exact_exposure ps =
     sum_list (map (\<lambda>p. price_inner (pos_current_price p) * qty_inner (pos_quantity p)) ps)"

lemma market_values_exact:
  assumes D: "no_rounding D" and m: "map_res (market_value D) ps = (Ok vs :: (money list, 'e) res)"
  shows "map m_amount vs = map (\<lambda>p. price_inner (pos_current_price p) * qty_inner (pos_quantity p)) ps"
  using m
proof (induction ps arbitrary: vs)
  case (Cons p ps)
  then obtain v ws where "market_value D p = (Ok v :: (money, 'e) res)"
      "map_res (market_value D) ps = (Ok ws :: (money list, 'e) res)" "vs = v # ws"
    by (auto simp: res_simps)
  moreover from this(1) have "m_amount v = price_inner (pos_current_price p) * qty_inner (pos_quantity p)"
    using no_roundingD(3) [OF D] by (auto simp: market_value_def res_simps)
  ultimately show ?case using Cons.IH by simp
qed simp

lemma exposure_of_exact:
  assumes D: "no_rounding D" and x: "exposure_of D ps = Ok m"
  shows "m_amount m = exact_exposure ps" and "0 \<le> exact_exposure ps" and "m_currency m = USD"
proof -
  obtain vs total where vs: "map_res (market_value D) ps = (Ok vs :: (money list, domain_error) res)"
    and t: "dec_sum D (map m_amount vs) = (Ok total :: (decimal, domain_error) res)"
    and m: "money_new total USD = Ok m"
    using x by (auto simp: exposure_of_def res_simps)
  have "total = exact_exposure ps"
    using dec_sum_no_rounding [OF D t] market_values_exact [OF D vs] by (simp add: exact_exposure_def)
  then show "m_amount m = exact_exposure ps" and "0 \<le> exact_exposure ps" and "m_currency m = USD"
    using m by (auto simp: money_new_def split: if_splits)
qed

lemma remaining_quantity_exact:
  assumes "no_rounding D" and "remaining_quantity D ord = (Ok r :: (quantity, 'e) res)"
  shows "qty_inner r = qty_inner (ord_quantity ord) - qty_inner (ord_filled_quantity ord)"
proof -
  have "d_sub D (qty_inner (ord_quantity ord)) (qty_inner (ord_filled_quantity ord)) = Some (qty_inner r)"
    using assms(2) by (auto simp: remaining_quantity_def res_simps quantity_new_unchecked_def)
  then show ?thesis by (rule no_roundingD(2) [OF assms(1)])
qed

section \<open>Steps of the engine\<close>

text \<open>Every operation that writes to the state, labelled; the inputs are arbitrary.\<close>

datatype risk_label =
    L_check | L_fill | L_equity | L_trigger | L_reset | L_failure | L_recovery | L_confirm | L_daily

inductive risk_step :: "dec_ops \<Rightarrow> (timestamp \<Rightarrow> int) \<Rightarrow> risk_label \<Rightarrow> risk_engine \<Rightarrow> risk_engine \<Rightarrow> bool"
  for D df where
  check: "check_pre_trade D now e ord ps price = Ok (e', d) \<Longrightarrow> risk_step D df L_check e e'"
| fill: "update_on_fill D now e pnl = Ok e' \<Longrightarrow> risk_step D df L_fill e e'"
| equity: "update_equity D now e m = Ok e' \<Longrightarrow> risk_step D df L_equity e e'"
| trigger: "trigger_kill_switch now e = Ok e' \<Longrightarrow> risk_step D df L_trigger e e'"
| reset: "reset_kill_switch now e = Ok e' \<Longrightarrow> risk_step D df L_reset e e'"
| failure: "record_failure now e = Ok (e', b) \<Longrightarrow> risk_step D df L_failure e e'"
| recovery: "check_circuit_breaker_recovery now e = Ok (e', b) \<Longrightarrow> risk_step D df L_recovery e e'"
| confirm: "confirm_recovery now e = Ok e' \<Longrightarrow> risk_step D df L_confirm e e'"
| daily: "daily_reset df now e = Ok e' \<Longrightarrow> risk_step D df L_daily e e'"

inductive_cases risk_step_checkE: "risk_step D df L_check e e'"
inductive_cases risk_step_resetE: "risk_step D df L_reset e e'"

definition risk_runs :: "dec_ops \<Rightarrow> (timestamp \<Rightarrow> int) \<Rightarrow> risk_label set \<Rightarrow> risk_engine \<Rightarrow> risk_engine \<Rightarrow> bool" where
  "risk_runs D df ls = (\<lambda>e e'. \<exists>l \<in> ls. risk_step D df l e e')\<^sup>*\<^sup>*"

text \<open>The effect of each step on the state, as one fact per operation.\<close>

lemma check_effect:
  "check_pre_trade D now e ord ps price = Ok (e', d) \<Longrightarrow>
     e' = e\<lparr>re_state := (re_state e)\<lparr>rs_decision_history :=
              push_dropping 100 (now, d) (rs_decision_history (re_state e))\<rparr>\<rparr>"
  by (drule check_pre_trade_records) (simp add: decide_Ok)

lemma fill_effect:
  assumes "update_on_fill D now e pnl = Ok e'"
  shows "\<exists>m. e' = e\<lparr>re_state := (re_state e)\<lparr>rs_daily_realized_pnl := m,
                   rs_consecutive_failures := 0\<rparr>\<rparr> \<and>
         (m = rs_daily_realized_pnl (re_state e) \<or> 0 \<le> m_amount m)"
proof -
  have clear: "(if 0 < rs_consecutive_failures s then s\<lparr>rs_consecutive_failures := 0\<rparr> else s) =
      s\<lparr>rs_consecutive_failures := 0\<rparr>" for s :: risk_state
    by (cases s) (auto simp: word_gt_0)
  show ?thesis
  proof (cases pnl)
    case None
    then have "e' = e\<lparr>re_state := (re_state e)\<lparr>rs_consecutive_failures := 0\<rparr>\<rparr>"
      using assms by (simp add: update_on_fill_def with_lock_def clear split: if_splits)
    then show ?thesis by (intro exI [of _ "rs_daily_realized_pnl (re_state e)"]) simp
  next
    case (Some v)
    then obtain n where "0 \<le> n" "e' = e\<lparr>re_state := ((re_state e)\<lparr>rs_daily_realized_pnl :=
        \<lparr>m_amount = n, m_currency = USD\<rparr>\<rparr>)\<lparr>rs_consecutive_failures := 0\<rparr>\<rparr>"
      using assms unfolding update_on_fill_def with_lock_def clear
      by (simp add: res_simps money_new_eq_Ok split: if_splits) blast
    then show ?thesis by (intro exI [of _ "\<lparr>m_amount = n, m_currency = USD\<rparr>"]) simp
  qed
qed

lemma equity_effect:
  assumes "update_equity D now e m = Ok e'"
  shows "e' = e\<lparr>re_state := (re_state e)\<lparr>rs_current_equity := m,
                   rs_equity_peak := (if m_amount (rs_equity_peak (re_state e)) < m_amount m then m
                                      else rs_equity_peak (re_state e))\<rparr>\<rparr>"
  using assms
  by (auto simp: update_equity_def with_lock_def Let_def res_simps split: if_splits)

lemma failure_effect:
  assumes "record_failure now e = Ok (e', b)"
  shows "e' = e\<lparr>re_state := (re_state e)\<lparr>rs_consecutive_failures := rs_consecutive_failures (re_state e) + 1,
        rs_circuit_breaker := b,
        rs_circuit_breaker_opened_at :=
          (if b \<noteq> rs_circuit_breaker (re_state e) then Some now
           else rs_circuit_breaker_opened_at (re_state e))\<rparr>\<rparr> \<and>
    (b = CB_Open \<and> rs_circuit_breaker (re_state e) = CB_Closed \<and>
       circuit_breaker_failures (re_config e) \<le> rs_consecutive_failures (re_state e) + 1 \<or>
     b = rs_circuit_breaker (re_state e) \<and>
       \<not> (rs_circuit_breaker (re_state e) = CB_Closed \<and>
          circuit_breaker_failures (re_config e) \<le> rs_consecutive_failures (re_state e) + 1))"
  using assms by (auto simp: record_failure_def with_lock_def Let_def split: if_splits)

lemma recovery_effect:
  assumes "check_circuit_breaker_recovery now e = Ok (e', b)"
  shows "e' = e\<lparr>re_state := (re_state e)\<lparr>rs_circuit_breaker := b\<rparr>\<rparr> \<and>
    (b = rs_circuit_breaker (re_state e) \<or> rs_circuit_breaker (re_state e) = CB_Open \<and> b = CB_HalfOpen)"
  using assms
  by (auto simp: check_circuit_breaker_recovery_def with_lock_def Let_def split: if_splits option.splits)

lemmas step_effects =
  check_effect fill_effect equity_effect failure_effect recovery_effect

section \<open>Invariant\<close>

definition risk_inv :: "risk_config \<Rightarrow> risk_engine \<Rightarrow> bool" where
  "risk_inv c e =
     (re_config e = c \<and> \<not> re_poisoned e \<and>
      length (rs_decision_history (re_state e)) \<le> 100 \<and>
      0 \<le> m_amount (rs_daily_realized_pnl (re_state e)) \<and>
      m_amount (rs_daily_unrealized_pnl (re_state e)) = 0 \<and>
      100000 \<le> m_amount (rs_equity_peak (re_state e)) \<and>
      m_amount (rs_current_equity (re_state e)) \<le> m_amount (rs_equity_peak (re_state e)) \<and>
      (rs_circuit_breaker (re_state e) = CB_Closed \<longleftrightarrow> rs_circuit_breaker_opened_at (re_state e) = None))"

lemma risk_inv_new: "risk_inv c (risk_engine_new today c)"
  by (simp add: risk_inv_def risk_engine_new_def risk_state_default_def Let_def)

lemma risk_inv_step:
  assumes "risk_step D df l e e'" and "risk_inv c e"
  shows "risk_inv c e'"
  using assms
proof (cases rule: risk_step.cases)
  case (check now ord ps price d)
  from check_effect [OF check(2)] assms(2) show ?thesis
    by (simp add: risk_inv_def length_push_dropping)
next
  case (fill now pnl)
  from fill_effect [OF fill(2)] assms(2) show ?thesis
    by (auto simp: risk_inv_def)
next
  case (equity now m)
  from equity_effect [OF equity(2)] assms(2) show ?thesis by (auto simp: risk_inv_def)
next
  case (trigger now)
  then show ?thesis using assms(2)
    by (auto simp: trigger_kill_switch_def with_lock_def risk_inv_def split: if_splits)
next
  case (reset now)
  then show ?thesis using assms(2) by (auto simp: reset_kill_switch_def with_lock_def risk_inv_def)
next
  case (failure now b)
  note f = failure_effect [OF failure(2)]
  have e': "e' = e\<lparr>re_state := (re_state e)\<lparr>rs_consecutive_failures := rs_consecutive_failures (re_state e) + 1,
        rs_circuit_breaker := b,
        rs_circuit_breaker_opened_at :=
          (if b \<noteq> rs_circuit_breaker (re_state e) then Some now
           else rs_circuit_breaker_opened_at (re_state e))\<rparr>\<rparr>"
    by (rule conjunct1 [OF f])
  have b: "b = CB_Open \<and> rs_circuit_breaker (re_state e) = CB_Closed \<or> b = rs_circuit_breaker (re_state e)"
    using conjunct2 [OF f] by blast
  from b assms(2) show ?thesis unfolding e' by (elim disjE) (simp_all add: risk_inv_def)
next
  case (recovery now b)
  note f = recovery_effect [OF recovery(2)]
  from conjunct2 [OF f] assms(2) show ?thesis
    unfolding conjunct1 [OF f] by (elim disjE) (simp_all add: risk_inv_def)
next
  case (confirm now)
  then show ?thesis using assms(2)
    by (auto simp: confirm_recovery_def with_lock_def risk_inv_def split: if_splits)
next
  case (daily now)
  then show ?thesis using assms(2)
    by (auto simp: daily_reset_def with_lock_def risk_inv_def res_simps money_new_eq_Ok split: if_splits)
qed

lemma risk_inv_runs:
  assumes "risk_runs D df ls e e'" and "risk_inv c e"
  shows "risk_inv c e'"
  using assms unfolding risk_runs_def
  by (induction rule: rtranclp_induct) (auto intro: risk_inv_step)

section \<open>The breaker as a state machine\<close>

text \<open>The breaker the engine promises: it opens, is probed after its timeout, and closes again.\<close>

inductive breaker_edge :: "breaker \<Rightarrow> breaker \<Rightarrow> bool" where
  opens: "breaker_edge CB_Closed CB_Open"
| probes: "breaker_edge CB_Open CB_HalfOpen"
| recovers: "breaker_edge CB_HalfOpen CB_Closed"

inductive_simps breaker_edge_simps [simp]:
  "breaker_edge CB_Closed b" "breaker_edge CB_Open b" "breaker_edge CB_HalfOpen b"

lemma breaker_step:
  assumes "risk_step D df l e e'"
  shows "rs_circuit_breaker (re_state e') = rs_circuit_breaker (re_state e) \<or>
         breaker_edge (rs_circuit_breaker (re_state e)) (rs_circuit_breaker (re_state e')) \<and>
         (l = L_failure \<and> rs_circuit_breaker (re_state e) = CB_Closed \<or>
          l = L_recovery \<and> rs_circuit_breaker (re_state e) = CB_Open \<or>
          l = L_confirm \<and> rs_circuit_breaker (re_state e) = CB_HalfOpen)"
  using assms
proof (cases rule: risk_step.cases)
  case (check now ord ps price d)
  from check_effect [OF check(2)] show ?thesis by simp
next
  case (fill now pnl)
  from fill_effect [OF fill(2)] show ?thesis by auto
next
  case (equity now m)
  from equity_effect [OF equity(2)] show ?thesis by simp
next
  case (failure now b)
  note f = failure_effect [OF failure(2)]
  from conjunct2 [OF f] failure(1) show ?thesis unfolding conjunct1 [OF f] by auto
next
  case (recovery now b)
  note f = recovery_effect [OF recovery(2)]
  from conjunct2 [OF f] recovery(1) show ?thesis unfolding conjunct1 [OF f] by auto
next
  case (confirm now)
  then show ?thesis by (auto simp: confirm_recovery_def with_lock_def split: if_splits)
qed (auto simp: trigger_kill_switch_def reset_kill_switch_def daily_reset_def with_lock_def res_simps
      split: if_splits)

lemma kill_switch_step:
  assumes "risk_step D df l e e'" and "l \<noteq> L_reset" and "rs_kill_switch_triggered (re_state e)"
  shows "rs_kill_switch_triggered (re_state e')"
  using assms(1)
proof (cases rule: risk_step.cases)
  case (check now ord ps price d)
  from check_effect [OF check(2)] assms(3) show ?thesis by simp
next
  case (fill now pnl)
  from fill_effect [OF fill(2)] assms(3) show ?thesis by auto
next
  case (equity now m)
  from equity_effect [OF equity(2)] assms(3) show ?thesis by simp
next
  case (failure now b)
  note f = conjunct1 [OF failure_effect [OF failure(2)]]
  show ?thesis unfolding f using assms(3) by simp
next
  case (recovery now b)
  note f = conjunct1 [OF recovery_effect [OF recovery(2)]]
  show ?thesis unfolding f using assms(3) by simp
qed (use assms(2,3) in \<open>auto simp: trigger_kill_switch_def reset_kill_switch_def daily_reset_def
      confirm_recovery_def with_lock_def res_simps split: if_splits\<close>)

lemma kill_switch_runs:
  assumes "risk_runs D df ls e e'" and "L_reset \<notin> ls" and "rs_kill_switch_triggered (re_state e)"
  shows "rs_kill_switch_triggered (re_state e')"
  using assms(1,3) unfolding risk_runs_def
  by (induction rule: rtranclp_induct) (use assms(2) in \<open>auto intro: kill_switch_step\<close>)

section \<open>What an order that passes keeps to\<close>

lemma passes_not_halted:
  assumes "passes D now e ord ps price"
  shows "\<not> rs_kill_switch_triggered (re_state e) \<and> is_trading_allowed (rs_circuit_breaker (re_state e))"
  using assms
  by (cases "rs_circuit_breaker (re_state e)")
    (auto simp: passes_def trading_halted_def is_trading_allowed_def split: if_splits)

lemma passes_position_limit:
  assumes "no_rounding D" and "passes D now e ord ps price" and "max_position_size (re_config e) (ord_symbol ord) = Some bound"
  shows "sum_list (map (\<lambda>p. qty_inner (pos_quantity p)) (positions_in (ord_symbol ord) ps)) +
    (qty_inner (ord_quantity ord) - qty_inner (ord_filled_quantity ord)) \<le> qty_inner bound"
proof -
  from assms(2,3) obtain cur rem n where c: "dec_sum D (map (\<lambda>p. qty_inner (pos_quantity p))
        (positions_in (ord_symbol ord) ps)) = (Ok cur :: (decimal, domain_error) res)"
      "remaining_quantity D ord = (Ok rem :: (quantity, domain_error) res)"
      "d_add D cur (qty_inner rem) = Some n" "\<not> qty_inner bound < n"
    by (auto simp: passes_def check_position_size_def res_simps split: if_splits)
  show ?thesis
    using c(4) no_roundingD(1) [OF assms(1) c(3)] dec_sum_no_rounding [OF assms(1) c(1)]
      remaining_quantity_exact [OF assms(1) c(2)] by simp
qed

lemma passes_drawdown_limit:
  assumes "no_rounding D" and "passes D now e ord ps price" and "0 < m_amount (rs_equity_peak (re_state e))"
  shows "(m_amount (rs_equity_peak (re_state e)) - m_amount (rs_current_equity (re_state e))) /
    m_amount (rs_equity_peak (re_state e)) \<le> max_drawdown_pct (re_config e)"
proof -
  from assms(2,3) obtain d r where c: "d_sub D (m_amount (rs_equity_peak (re_state e)))
        (m_amount (rs_current_equity (re_state e))) = Some d"
      "d_div D d (m_amount (rs_equity_peak (re_state e))) = Some r"
      "\<not> max_drawdown_pct (re_config e) < r"
    by (auto simp: passes_def check_drawdown_limit_def with_lock_def current_drawdown_pct_def
        res_simps split: if_splits)
  show ?thesis using c(3) no_roundingD(4) [OF assms(1) c(2)] no_roundingD(2) [OF assms(1) c(1)] by simp
qed

text \<open>The exposure that both limits bound: what is held, and the order at the price.\<close>

lemma exposure_with_order:
  assumes D: "no_rounding D" and c: "exposure_of D ps = Ok m"
      "remaining_quantity D ord = (Ok rem :: (quantity, domain_error) res)"
      "d_mul D (price_inner price) (qty_inner rem) = Some v" "d_add D (m_amount m) \<bar>v\<bar> = Some n"
  shows "n = exact_exposure ps +
    \<bar>price_inner price * (qty_inner (ord_quantity ord) - qty_inner (ord_filled_quantity ord))\<bar>"
  using no_roundingD(1) [OF D c(4)] no_roundingD(3) [OF D c(3)] exposure_of_exact(1) [OF D c(1)]
    remaining_quantity_exact [OF D c(2)] by simp

lemma passes_total_exposure:
  assumes "no_rounding D" and "passes D now e ord ps price"
  shows "exact_exposure ps + \<bar>price_inner price * (qty_inner (ord_quantity ord) - qty_inner (ord_filled_quantity ord))\<bar>
    \<le> m_amount (max_total_exposure (re_config e))"
proof -
  from assms(2) obtain m rem v n where c: "exposure_of D ps = Ok m"
      "remaining_quantity D ord = (Ok rem :: (quantity, domain_error) res)"
      "d_mul D (price_inner price) (qty_inner rem) = Some v"
      "d_add D (m_amount m) \<bar>v\<bar> = Some n" "\<not> m_amount (max_total_exposure (re_config e)) < n"
    by (auto simp: passes_def check_total_exposure_def calculate_total_exposure_def res_simps split: if_splits)
  with exposure_with_order [OF assms(1) c(1-4)] show ?thesis by simp
qed

lemma passes_symbol_exposure:
  assumes "no_rounding D" and "passes D now e ord ps price" and "max_symbol_exposure (re_config e) (ord_symbol ord) = Some bound"
  shows "exact_exposure (positions_in (ord_symbol ord) ps) +
    \<bar>price_inner price * (qty_inner (ord_quantity ord) - qty_inner (ord_filled_quantity ord))\<bar> \<le> m_amount bound"
proof -
  from assms(2,3) obtain m rem v n where c: "exposure_of D (positions_in (ord_symbol ord) ps) = Ok m"
      "remaining_quantity D ord = (Ok rem :: (quantity, domain_error) res)"
      "d_mul D (price_inner price) (qty_inner rem) = Some v"
      "d_add D (m_amount m) \<bar>v\<bar> = Some n" "\<not> m_amount bound < n"
    by (auto simp: passes_def check_symbol_exposure_def calculate_symbol_exposure_def res_simps split: if_splits)
  with exposure_with_order [OF assms(1) c(1-4)] show ?thesis by simp
qed

section \<open>Properties\<close>


text \<open>
  A reduction is a usable one.  When the check answers \<open>Reduce\<close>, the symbol has a position
  limit, the allowed quantity is positive, it is less than what the order asks for, and together
  with the open quantity it fills the limit exactly.
\<close>

theorem reduce_fills_the_limit:
  assumes D: "no_rounding D" and ok: "check_pre_trade D now e ord ps price = Ok (e', Reduce m)"
  shows "\<exists>lim. max_position_size (re_config e) (ord_symbol ord) = Some lim \<and> 0 < qty_inner m \<and>
    qty_inner m < qty_inner (ord_quantity ord) - qty_inner (ord_filled_quantity ord) \<and>
    sum_list (map (\<lambda>p. qty_inner (pos_quantity p)) (positions_in (ord_symbol ord) ps)) + qty_inner m =
      qty_inner lim"
proof -
  note nr = no_roundingD [OF D]
  have "check_position_size D e ord ps = Ok (Some (Reduce m))"
    using check_pre_trade_Ok [OF ok] limit_checks_never_allow by fastforce
  then show ?thesis
  proof (rule position_size_answers)
    fix lim cur rem n m'
    assume c: "max_position_size (re_config e) (ord_symbol ord) = Some lim"
      "dec_sum D (map (\<lambda>p. qty_inner (pos_quantity p)) (positions_in (ord_symbol ord) ps)) =
         (Ok cur :: (decimal, domain_error) res)"
      "remaining_quantity D ord = (Ok rem :: (quantity, domain_error) res)"
      "d_add D cur (qty_inner rem) = Some n" "qty_inner lim < n"
      "d_sub D (qty_inner lim) cur = Some (qty_inner m')"
      "0 < qty_inner m'" "Reduce m = Reduce m'"
    show ?thesis
      using c(1,5,7,8) nr(1) [OF c(4)] nr(2) [OF c(6)] dec_sum_no_rounding [OF D c(2)]
        remaining_quantity_exact [OF D c(3)]
      by (intro exI [of _ lim]) simp
  qed simp
qed

definition sample_engine :: "decimal \<Rightarrow> risk_engine" where
  "sample_engine limit =
     risk_engine_new 0 (with_position_limit risk_config_default (Symbol ''AAPL'') (Quantity limit))"

definition sample_risk_order :: order where
  "sample_risk_order = sample_order\<lparr>ord_symbol := Symbol ''AAPL''\<rparr>"

lemmas sample_engine_simps =
  sample_engine_def sample_risk_order_def sample_order_def risk_engine_new_def risk_state_default_def
  risk_config_default_def with_position_limit_def trading_halted_def Let_def

lemma sample_check:
  "check_pre_trade exact_dec 5 (sample_engine limit) sample_risk_order [sample_position 10 100] (Price 100) =
     decide 5 (sample_engine limit)
       (if 110 \<le> limit then Allow
        else if limit \<le> 10 then Reject (''Position size limit exceeded for AAPL: max , current '')
        else Reduce (Quantity (limit - 10)))"
proof -
  have size: "check_position_size exact_dec (sample_engine limit) sample_risk_order [sample_position 10 100] =
      Ok (if 110 \<le> limit then None
        else if limit \<le> 10 then Some (Reject (''Position size limit exceeded for AAPL: max , current ''))
        else Some (Reduce (Quantity (limit - 10))))"
    by (simp add: check_position_size_def sample_engine_simps positions_in_def sample_position_def
        dec_sum_exact_dec remaining_quantity_def quantity_new_def quantity_new_unchecked_def)
  have halted: "with_lock 5 (sample_engine limit) (\<lambda>s. Ok (trading_halted s)) = Ok None"
    by (simp add: with_lock_def sample_engine_simps)
  have loss: "check_daily_loss_limit exact_dec 5 (sample_engine limit) = Ok None"
    by (simp add: check_daily_loss_limit_def total_daily_pnl_def with_lock_def sample_engine_simps)
  have dd: "check_drawdown_limit exact_dec 5 (sample_engine limit) = Ok None"
    by (simp add: check_drawdown_limit_def current_drawdown_pct_def with_lock_def sample_engine_simps)
  have tot: "check_total_exposure exact_dec (sample_engine limit) sample_risk_order
      [sample_position 10 100] (Price 100) = Ok None"
    by (simp add: check_total_exposure_def calculate_total_exposure_def exposure_of_def market_value_def
        dec_sum_exact_dec sample_position_def money_new_def remaining_quantity_def sample_engine_simps
        quantity_new_unchecked_def)
  have sym: "check_symbol_exposure exact_dec (sample_engine limit) sample_risk_order
      [sample_position 10 100] (Price 100) = Ok None"
    by (simp add: check_symbol_exposure_def sample_engine_simps)
  show ?thesis
    unfolding check_pre_trade_def size halted loss dd tot sym by simp
qed

lemma sample_engine_ok [simp]: "\<not> re_poisoned (sample_engine limit)"
  by (simp add: sample_engine_simps)


theorem reduce_fills_the_limit_witness:
  "\<exists>e'. check_pre_trade exact_dec 5 (sample_engine 50) sample_risk_order [sample_position 10 100] (Price 100) =
       Ok (e', Reduce (Quantity 40)) \<and> (40::decimal) < 100"
proof -
  obtain e' where e': "check_pre_trade exact_dec 5 (sample_engine 50) sample_risk_order
      [sample_position 10 100] (Price 100) = Ok (e', Reduce (Quantity 40))"
    by (simp add: sample_check decide_def record_decision_def with_lock_def)
  from reduce_fills_the_limit [OF no_rounding_exact e'] e' show ?thesis
    by (auto simp: sample_engine_simps)
qed

text \<open>
  C10: what holds of every engine the program can reach, by any sequence of its operations: at most
  100 decisions are kept; the equity never exceeds its recorded peak, and the peak is positive, so
  the drawdown is well defined; the breaker has an opening time exactly when it is not closed; and
  the daily realized profit is never negative while the unrealized one stays zero -- so, for a
  non-negative configured limit, the daily loss check never stops an order, whatever was lost.
\<close>

theorem reachable_engine_invariant:
  assumes "risk_runs D df ls (risk_engine_new today c) e"
    and D: "dec_ok D" and limit: "0 \<le> m_amount (daily_loss_limit c)"
  shows "length (rs_decision_history (re_state e)) \<le> 100 \<and>
    m_amount (rs_current_equity (re_state e)) \<le> m_amount (rs_equity_peak (re_state e)) \<and>
    0 < m_amount (rs_equity_peak (re_state e)) \<and>
    (rs_circuit_breaker (re_state e) = CB_Closed \<longleftrightarrow> rs_circuit_breaker_opened_at (re_state e) = None) \<and>
    0 \<le> m_amount (rs_daily_realized_pnl (re_state e)) \<and>
    m_amount (rs_daily_unrealized_pnl (re_state e)) = 0 \<and>
    (\<forall>now d. check_daily_loss_limit D now e \<noteq> Ok (Some d))"
proof -
  have inv: "risk_inv c e" by (rule risk_inv_runs [OF assms(1) risk_inv_new])
  have "check_daily_loss_limit D now e \<noteq> Ok (Some d)" for now d
  proof
    assume "check_daily_loss_limit D now e = Ok (Some d)"
    then obtain t where t: "d_add D (m_amount (rs_daily_realized_pnl (re_state e)))
          (m_amount (rs_daily_unrealized_pnl (re_state e))) = Some t"
        "t < - m_amount (daily_loss_limit (re_config e))"
      by (auto simp: check_daily_loss_limit_def with_lock_def total_daily_pnl_def res_simps split: if_splits)
    have "0 \<le> t" using d_add_nonneg [OF D t(1)] inv by (simp add: risk_inv_def)
    then show False using t(2) limit inv by (simp add: risk_inv_def)
  qed
  then show ?thesis using inv by (auto simp: risk_inv_def)
qed

theorem reachable_engine_invariant_witness:
  "\<exists>e. risk_runs exact_dec (\<lambda>t. 0) UNIV (risk_engine_new 0 risk_config_default) e \<and>
     rs_equity_peak (re_state e) = \<lparr>m_amount = 120000, m_currency = USD\<rparr> \<and>
     m_amount (rs_current_equity (re_state e)) \<le> 120000"
proof -
  let ?e = "risk_engine_new 0 risk_config_default"
  obtain e where e: "update_equity exact_dec 3 ?e \<lparr>m_amount = 120000, m_currency = USD\<rparr> = Ok e"
      "rs_equity_peak (re_state e) = \<lparr>m_amount = 120000, m_currency = USD\<rparr>"
    by (simp add: update_equity_def with_lock_def current_drawdown_pct_def sample_engine_simps)
  then have r: "risk_runs exact_dec (\<lambda>t. 0) UNIV ?e e"
    unfolding risk_runs_def by (auto intro: risk_step.equity)
  have "0 \<le> m_amount (daily_loss_limit risk_config_default)" by (simp add: risk_config_default_def)
  from reachable_engine_invariant [OF r dec_ok_exact this] r e(2) show ?thesis by auto
qed

text \<open>
  C14: the kill switch holds.  Once it is triggered, no operation but \<open>reset_kill_switch\<close> releases
  it: after any sequence of the other operations every pre-trade check that returns a decision
  rejects the order, and the decision is the last entry of the history.
\<close>

theorem kill_switch_holds:
  assumes "trigger_kill_switch t e = Ok e1" and "kill_switch_enabled (re_config e)"
    and "risk_runs D df (UNIV - {L_reset}) e1 e2"
    and "check_pre_trade D now e2 ord ps price = Ok (e3, d)"
  shows "d = Reject ''KILL SWITCH ACTIVE - Trading disabled'' \<and>
    last (rs_decision_history (re_state e3)) = (now, d) \<and> rs_kill_switch_triggered (re_state e3)"
proof -
  have "rs_kill_switch_triggered (re_state e1)"
    using assms(1,2) by (auto simp: trigger_kill_switch_def with_lock_def split: if_splits)
  then have k: "rs_kill_switch_triggered (re_state e2)"
    by (rule kill_switch_runs [OF assms(3), rotated]) simp
  then have h: "trading_halted (re_state e2) = Some (Reject ''KILL SWITCH ACTIVE - Trading disabled'')"
    by (simp add: trading_halted_def)
  with check_pre_trade_Ok [OF assms(4)] have d: "d = Reject ''KILL SWITCH ACTIVE - Trading disabled''"
    by simp
  with check_effect [OF assms(4)] k show ?thesis by simp
qed

theorem kill_switch_holds_witness:
  "\<exists>e1 e2. trigger_kill_switch 1 (sample_engine 110) = Ok e1 \<and>
     check_pre_trade exact_dec 5 e1 sample_risk_order [] (Price 100) =
       Ok (e2, Reject ''KILL SWITCH ACTIVE - Trading disabled'')"
proof -
  obtain e1 where e1: "trigger_kill_switch 1 (sample_engine 110) = Ok e1"
      "trading_halted (re_state e1) \<noteq> None" "\<not> re_poisoned e1"
    by (simp add: trigger_kill_switch_def with_lock_def sample_engine_simps)
  then obtain e2 d where e2: "check_pre_trade exact_dec 5 e1 sample_risk_order [] (Price 100) = Ok (e2, d)"
    by (auto simp: check_pre_trade_def with_lock_def decide_def record_decision_def)
  have en: "kill_switch_enabled (re_config (sample_engine 110))" by (simp add: sample_engine_simps)
  have "risk_runs exact_dec (\<lambda>t. 0) (UNIV - {L_reset}) e1 e1" by (simp add: risk_runs_def)
  from kill_switch_holds [OF e1(1) en this e2] e1(1) e2 show ?thesis by blast
qed

text \<open>
  C13: the circuit breaker is a refinement of its state machine: whatever operation runs, the
  breaker either keeps its state or makes one of the three legal moves, each on its own operation
  only -- it opens on a recorded failure, is probed by a recovery check, closes by a confirmation.
  In particular a failure recorded while it is half open never opens it again, and confirming a
  recovery clears the failure counter and the opening time.
\<close>

theorem breaker_refines_lifecycle:
  assumes "risk_step D df l e e'"
  shows "(rs_circuit_breaker (re_state e') = rs_circuit_breaker (re_state e) \<or>
          breaker_edge (rs_circuit_breaker (re_state e)) (rs_circuit_breaker (re_state e')) \<and>
          (l = L_failure \<and> rs_circuit_breaker (re_state e) = CB_Closed \<or>
           l = L_recovery \<and> rs_circuit_breaker (re_state e) = CB_Open \<or>
           l = L_confirm \<and> rs_circuit_breaker (re_state e) = CB_HalfOpen)) \<and>
    (l = L_failure \<and> rs_circuit_breaker (re_state e) = CB_HalfOpen \<longrightarrow>
       rs_circuit_breaker (re_state e') = CB_HalfOpen) \<and>
    (l = L_confirm \<and> rs_circuit_breaker (re_state e) = CB_HalfOpen \<longrightarrow>
       rs_circuit_breaker (re_state e') = CB_Closed \<and> rs_consecutive_failures (re_state e') = 0 \<and>
       rs_circuit_breaker_opened_at (re_state e') = None)"
proof -
  note s = breaker_step [OF assms]
  have "rs_circuit_breaker (re_state e') = CB_HalfOpen"
    if "l = L_failure" "rs_circuit_breaker (re_state e) = CB_HalfOpen"
    using s that by auto
  moreover have "rs_circuit_breaker (re_state e') = CB_Closed \<and> rs_consecutive_failures (re_state e') = 0 \<and>
       rs_circuit_breaker_opened_at (re_state e') = None"
    if "l = L_confirm" "rs_circuit_breaker (re_state e) = CB_HalfOpen"
    using assms that by (cases rule: risk_step.cases)
      (auto simp: confirm_recovery_def with_lock_def split: if_splits)
  ultimately show ?thesis using s by blast
qed

definition half_open_engine :: risk_engine where
  "half_open_engine = (sample_engine 110)\<lparr>re_state := (re_state (sample_engine 110))
     \<lparr>rs_circuit_breaker := CB_HalfOpen, rs_consecutive_failures := 5,
      rs_circuit_breaker_opened_at := Some 0\<rparr>\<rparr>"

theorem breaker_refines_lifecycle_witness:
  "\<exists>e'. record_failure 7 half_open_engine = Ok (e', CB_HalfOpen) \<and>
     rs_consecutive_failures (re_state e') = 6 \<and> rs_circuit_breaker (re_state e') = CB_HalfOpen"
proof -
  obtain e' where e': "record_failure 7 half_open_engine = Ok (e', CB_HalfOpen)"
      "rs_consecutive_failures (re_state e') = 6"
    by (simp add: record_failure_def half_open_engine_def with_lock_def Let_def)
  from breaker_refines_lifecycle [OF risk_step.failure [OF e'(1), of exact_dec "\<lambda>t. 0"]] e'
  show ?thesis by (simp add: half_open_engine_def)
qed

text \<open>Failures recorded one after the other, at the given times.\<close>

definition record_failures :: "timestamp list \<Rightarrow> risk_engine \<Rightarrow> (risk_engine, domain_error) res" where
  "record_failures ts e = fold_res (\<lambda>t e. bind (record_failure t e) (\<lambda>(e', b). Ok e')) ts e"

definition failed_engine :: "risk_engine \<Rightarrow> timestamp list \<Rightarrow> risk_engine" where
  "failed_engine e ts =
     (let k = max 1 (unat (circuit_breaker_failures (re_config e)))
      in e\<lparr>re_state := (re_state e)\<lparr>rs_consecutive_failures := of_nat (length ts),
           rs_circuit_breaker := (if k \<le> length ts then CB_Open else CB_Closed),
           rs_circuit_breaker_opened_at := (if k \<le> length ts then Some (ts ! (k - 1)) else None)\<rparr>\<rparr>)"

definition fresh_breaker :: "risk_engine \<Rightarrow> bool" where
  "fresh_breaker e =
     (\<not> re_poisoned e \<and> rs_circuit_breaker (re_state e) = CB_Closed \<and>
      rs_consecutive_failures (re_state e) = 0 \<and> rs_circuit_breaker_opened_at (re_state e) = None)"

lemma record_failures_run:
  assumes "fresh_breaker e" and "length ts < 2 ^ 32"
  shows "record_failures ts e = Ok (failed_engine e ts)"
  using assms(2)
proof (induction ts rule: rev_induct)
  case Nil
  show ?case
    using assms(1)
    by (cases e; cases "re_state e")
      (auto simp: record_failures_def failed_engine_def fresh_breaker_def Let_def)
next
  case (snoc t ts)
  let ?f = "circuit_breaker_failures (re_config e)"
  have len: "unat (of_nat (length ts) + 1 :: u32) = length ts + 1"
  proof -
    have "(of_nat (length ts) + 1 :: u32) = of_nat (length ts + 1)" by simp
    then show ?thesis using snoc.prems by (simp only: unat_of_nat) simp
  qed
  define k where "k = max 1 (unat ?f)"
  have thr: "?f \<le> of_nat (length ts) + 1 \<longleftrightarrow> k \<le> length ts + 1"
    by (simp only: word_le_nat_alt len k_def) simp
  let ?s = "re_state e"
  have fe: "failed_engine e us = e\<lparr>re_state := ?s\<lparr>rs_consecutive_failures := of_nat (length us),
      rs_circuit_breaker := (if k \<le> length us then CB_Open else CB_Closed),
      rs_circuit_breaker_opened_at := (if k \<le> length us then Some (us ! (k - 1)) else None)\<rparr>\<rparr>" for us
    by (simp only: failed_engine_def Let_def k_def)
  have k: "0 < k" by (simp add: k_def)
  have p: "\<not> re_poisoned e" using assms(1) by (simp add: fresh_breaker_def)
  have step: "bind (record_failure t (failed_engine e ts)) (\<lambda>(e', b). Ok e') = Ok (failed_engine e (ts @ [t]))"
  proof (cases "k \<le> length ts")
    case True
    then show ?thesis
      using p k by (simp add: record_failure_def with_lock_def fe Let_def nth_append add.commute)
  next
    case False
    then show ?thesis
    proof (cases "k = length ts + 1")
      case True
      then show ?thesis
        using p thr by (simp add: record_failure_def with_lock_def fe Let_def add.commute)
    next
      case neq: False
      with False have "\<not> k \<le> length ts + 1" by simp
      with False show ?thesis
        using p thr by (simp add: record_failure_def with_lock_def fe Let_def add.commute)
    qed
  qed
  show ?case
    using snoc.IH snoc.prems step by (simp add: record_failures_def fold_res_snoc)
qed

lemma zle_div_iff:
  assumes d: "0 < (d :: int)"
  shows "a \<le> b div d \<longleftrightarrow> a * d \<le> b"
proof
  assume "a \<le> b div d"
  then have "a * d \<le> b div d * d" using d by simp
  also have "\<dots> \<le> b" using d pos_mod_sign [OF d, of b] div_mult_mod_eq [of b d] by linarith
  finally show "a * d \<le> b" .
next
  assume "a * d \<le> b"
  from zdiv_mono1 [OF this d] show "a \<le> b div d" using d by simp
qed

lemma elapsed_reaches_timeout:
  assumes "0 \<le> now - t" and "(now - t) div 10 ^ 9 < 2 ^ 63"
  shows "(timeout :: u64) \<le> word_of_int (num_seconds now t) \<longleftrightarrow> int (unat timeout) * 10 ^ 9 \<le> now - t"
proof -
  have n: "num_seconds now t = (now - t) div 10 ^ 9" using assms(1) by (simp add: num_seconds_def Let_def)
  have "0 \<le> (now - t) div 10 ^ 9" using assms(1) by (simp add: pos_imp_zdiv_nonneg_iff)
  then have "uint (word_of_int ((now - t) div 10 ^ 9) :: u64) = (now - t) div 10 ^ 9"
    unfolding uint_word_of_int by (rule mod_pos_pos_trivial) (use assms(2) in simp)
  then have "timeout \<le> word_of_int (num_seconds now t) \<longleftrightarrow> uint timeout \<le> (now - t) div 10 ^ 9"
    by (simp only: word_le_def n)
  also have "\<dots> \<longleftrightarrow> uint timeout * 10 ^ 9 \<le> now - t"
    by (rule zle_div_iff) simp
  finally show ?thesis by (simp only: uint_nat)
qed

text \<open>
  The breaker trips and recovers.  From a closed breaker without failures it opens exactly at
  the configured number of consecutive failures (at the first one when that number is zero).
  Until the timeout has passed since then it stays open and every pre-trade check rejects; once
  the timeout has passed a recovery check makes it half open, and a confirmation closes it with the
  failure counter cleared.
\<close>

theorem breaker_trips_and_recovers:
  assumes e: "fresh_breaker e" and few: "length ts < 2 ^ 32"
    and k: "k = max 1 (unat (circuit_breaker_failures (re_config e)))"
    and timeout: "timeout = int (unat (circuit_breaker_timeout_secs (re_config e))) * 10 ^ 9"
  shows "\<exists>e'. record_failures ts e = Ok e' \<and>
    (rs_circuit_breaker (re_state e') = CB_Open \<longleftrightarrow> k \<le> length ts) \<and>
    (k \<le> length ts \<longrightarrow>
      (\<forall>now. 0 \<le> now - ts ! (k - 1) \<and> now - ts ! (k - 1) < 2 ^ 63 * 10 ^ 9 \<longrightarrow>
        (if now - ts ! (k - 1) < timeout
         then check_circuit_breaker_recovery now e' = Ok (e', CB_Open) \<and>
              (\<forall>D ord ps price. \<exists>e'' r. check_pre_trade D now e' ord ps price = Ok (e'', Reject r))
         else \<exists>e2 e3. check_circuit_breaker_recovery now e' = Ok (e2, CB_HalfOpen) \<and>
              confirm_recovery now e2 = Ok e3 \<and> rs_circuit_breaker (re_state e3) = CB_Closed \<and>
              rs_consecutive_failures (re_state e3) = 0)))"
proof -
  let ?e = "failed_engine e ts"
  have run: "record_failures ts e = Ok ?e" by (rule record_failures_run [OF e few])
  have b: "rs_circuit_breaker (re_state ?e) = CB_Open \<longleftrightarrow> k \<le> length ts" and p: "\<not> re_poisoned ?e"
    and c: "re_config ?e = re_config e"
    using e by (auto simp: failed_engine_def Let_def k fresh_breaker_def)
  have main: "if now - ts ! (k - 1) < timeout
         then check_circuit_breaker_recovery now ?e = Ok (?e, CB_Open) \<and>
              (\<forall>D ord ps price. \<exists>e'' r. check_pre_trade D now ?e ord ps price = Ok (e'', Reject r))
         else \<exists>e2 e3. check_circuit_breaker_recovery now ?e = Ok (e2, CB_HalfOpen) \<and>
              confirm_recovery now e2 = Ok e3 \<and> rs_circuit_breaker (re_state e3) = CB_Closed \<and>
              rs_consecutive_failures (re_state e3) = 0"
    if tripped: "k \<le> length ts" and now: "0 \<le> now - ts ! (k - 1)" "now - ts ! (k - 1) < 2 ^ 63 * 10 ^ 9"
    for now
  proof -
    have o: "rs_circuit_breaker (re_state ?e) = CB_Open"
        "rs_circuit_breaker_opened_at (re_state ?e) = Some (ts ! (k - 1))"
      using tripped by (auto simp: failed_engine_def Let_def k)
    have reached: "circuit_breaker_timeout_secs (re_config e) \<le>
        (word_of_int (num_seconds now (ts ! (k - 1))) :: u64) \<longleftrightarrow> timeout \<le> now - ts ! (k - 1)"
      unfolding timeout by (rule elapsed_reaches_timeout) (use now in \<open>auto simp: div_less_iff_less_mult\<close>)
    have stays: "check_circuit_breaker_recovery now ?e = Ok (?e, CB_Open)"
      if "now - ts ! (k - 1) < timeout"
      using that reached o p by (simp add: check_circuit_breaker_recovery_def with_lock_def c)
    have rejects: "\<exists>e'' r. check_pre_trade D now ?e ord ps price = Ok (e'', Reject r)" for D ord ps price
      using o(1) p by (auto simp: check_pre_trade_def with_lock_def trading_halted_def decide_Ok decide_def
          record_decision_def)
    have "\<exists>e2 e3. check_circuit_breaker_recovery now ?e = Ok (e2, CB_HalfOpen) \<and>
              confirm_recovery now e2 = Ok e3 \<and> rs_circuit_breaker (re_state e3) = CB_Closed \<and>
              rs_consecutive_failures (re_state e3) = 0"
      if "\<not> now - ts ! (k - 1) < timeout"
      using that reached o p
      by (simp add: check_circuit_breaker_recovery_def confirm_recovery_def with_lock_def c Let_def)
    with stays rejects show ?thesis by simp
  qed
  show ?thesis
  proof (intro exI [of _ ?e] conjI impI allI)
    show "record_failures ts e = Ok ?e" by (rule run)
    show "rs_circuit_breaker (re_state ?e) = CB_Open \<longleftrightarrow> k \<le> length ts" by (rule b)
  qed (rule main; simp)
qed

theorem breaker_trips_and_recovers_witness:
  "\<exists>e'. record_failures [1, 2, 3, 4, 5] (sample_engine 110) = Ok e' \<and>
     rs_circuit_breaker (re_state e') = CB_Open \<and>
     check_circuit_breaker_recovery 6 e' = Ok (e', CB_Open)"
proof -
  have e: "fresh_breaker (sample_engine 110)" by (simp add: fresh_breaker_def sample_engine_simps)
  have k: "5 = max 1 (unat (circuit_breaker_failures (re_config (sample_engine 110))))"
    and t: "300 * 10 ^ 9 = int (unat (circuit_breaker_timeout_secs (re_config (sample_engine 110)))) * 10 ^ 9"
    by (simp_all add: sample_engine_simps)
  from breaker_trips_and_recovers [OF e _ k t, of "[1, 2, 3, 4, 5]"] obtain e' where
    "record_failures [1, 2, 3, 4, 5] (sample_engine 110) = Ok e'" "rs_circuit_breaker (re_state e') = CB_Open"
    "\<forall>now. 0 \<le> now - 5 \<and> now - 5 < 2 ^ 63 * 10 ^ 9 \<longrightarrow>
       (if now - 5 < 300 * 10 ^ 9 then check_circuit_breaker_recovery now e' = Ok (e', CB_Open) else True)"
    by (auto split: if_splits)
  then show ?thesis by (intro exI [of _ e']) auto
qed

end
