(* ===== verification/Ports.thy ===== *)
theory Ports
  imports Risk_Engine
begin

text \<open>
  The ports through which the application layer reaches the outside: the traits
  \<open>ExecutionGateway\<close>, \<open>OrderRepository\<close>, \<open>PositionRepository\<close>, \<open>FillRepository\<close>
  (\<open>crates/domain/src/execution.rs\<close>, \<open>repositories.rs\<close>) and \<open>EventBusPort\<close>
  (\<open>crates/application/src/trading_service.rs\<close>), with the operations the services call, as
  records of state-passing functions over a world \<open>'w\<close> that the implementation chooses; the laws a
  store promises its clients are locales.  An \<open>async\<close> call runs to its end before the caller goes on.
\<close>

section \<open>Effects\<close>

type_synonym ('w, 'a, 'e) io = "'w \<Rightarrow> ('a, 'e) res \<times> 'w"

definition io_return :: "'a \<Rightarrow> ('w, 'a, 'e) io" where
  "io_return x w = (Ok x, w)"

definition io_lift :: "('a, 'e) res \<Rightarrow> ('w, 'a, 'e) io" where
  "io_lift r w = (r, w)"

definition io_bind :: "('w, 'a, 'e) io \<Rightarrow> ('a \<Rightarrow> ('w, 'b, 'e) io) \<Rightarrow> ('w, 'b, 'e) io" where
  "io_bind m k w =
     (case m w of (Ok x, w') \<Rightarrow> k x w' | (Err e, w') \<Rightarrow> (Err e, w') | (Panic, w') \<Rightarrow> (Panic, w'))"

definition io_map_err :: "('e \<Rightarrow> 'f) \<Rightarrow> ('w, 'a, 'e) io \<Rightarrow> ('w, 'a, 'f) io" where
  "io_map_err g m w = (case m w of (r, w') \<Rightarrow> (map_err g r, w'))"

text \<open>\<open>match m { Ok(x) => ..., Err(e) => ... }\<close>.\<close>

definition io_match ::
    "('w, 'a, 'e) io \<Rightarrow> ('a \<Rightarrow> ('w, 'b, 'f) io) \<Rightarrow> ('e \<Rightarrow> ('w, 'b, 'f) io) \<Rightarrow> ('w, 'b, 'f) io" where
  "io_match m k h w =
     (case m w of (Ok x, w') \<Rightarrow> k x w' | (Err e, w') \<Rightarrow> h e w' | (Panic, w') \<Rightarrow> (Panic, w'))"

lemma io_bind_Ok:
  "io_bind m k w = (Ok y, w2) \<longleftrightarrow> (\<exists>x w1. m w = (Ok x, w1) \<and> k x w1 = (Ok y, w2))"
  by (auto simp: io_bind_def split: prod.splits res.splits)

lemma io_bind_eq:
  "m w = (Ok x, w1) \<Longrightarrow> io_bind m k w = k x w1"
  "m w = (Err e, w1) \<Longrightarrow> io_bind m k w = (Err e, w1)"
  "m w = (Panic, w1) \<Longrightarrow> io_bind m k w = (Panic, w1)"
  by (simp_all add: io_bind_def)

lemma io_match_eq:
  "m w = (Ok x, w1) \<Longrightarrow> io_match m k h w = k x w1"
  "m w = (Err e, w1) \<Longrightarrow> io_match m k h w = h e w1"
  "m w = (Panic, w1) \<Longrightarrow> io_match m k h w = (Panic, w1)"
  by (simp_all add: io_match_def)

lemma io_map_err_eq: "m w = (r, w1) \<Longrightarrow> io_map_err g m w = (map_err g r, w1)"
  by (simp add: io_map_err_def)

text \<open>A property of the world that a computation keeps.\<close>

definition keeps :: "('w \<Rightarrow> 'x) \<Rightarrow> ('w, 'a, 'e) io \<Rightarrow> bool" where
  "keeps f m = (\<forall>w. f (snd (m w)) = f w)"

lemma keepsD: "keeps f m \<Longrightarrow> m w = (r, w') \<Longrightarrow> f w' = f w"
  by (metis keeps_def snd_conv)

lemma keeps_return [intro]: "keeps f (io_return x)"
  and keeps_lift [intro]: "keeps f (io_lift r)"
  by (simp_all add: keeps_def io_return_def io_lift_def)

lemma keeps_bind [intro]: "keeps f m \<Longrightarrow> (\<And>x. keeps f (k x)) \<Longrightarrow> keeps f (io_bind m k)"
  by (auto simp: keeps_def io_bind_def split: prod.splits res.splits) (metis snd_conv)+

lemma keeps_match [intro]:
  "keeps f m \<Longrightarrow> (\<And>x. keeps f (k x)) \<Longrightarrow> (\<And>e. keeps f (h e)) \<Longrightarrow> keeps f (io_match m k h)"
  by (auto simp: keeps_def io_match_def split: prod.splits res.splits) (metis snd_conv)+

lemma keeps_map_err [intro]: "keeps f m \<Longrightarrow> keeps f (io_map_err g m)"
  by (auto simp: keeps_def io_map_err_def split: prod.splits) (metis snd_conv)

lemma keeps_option [intro]:
  "keeps f a \<Longrightarrow> (\<And>x. keeps f (b x)) \<Longrightarrow> keeps f (case found of None \<Rightarrow> a | Some x \<Rightarrow> b x)"
  by (cases found) simp_all

lemma keeps_if [intro]: "keeps f a \<Longrightarrow> keeps f b \<Longrightarrow> keeps f (if c then a else b)"
  by simp

lemmas keeps_intros =
  keeps_bind keeps_match keeps_map_err keeps_return keeps_lift keeps_option keeps_if

text \<open>An assertion on the world that a computation maintains.\<close>

definition stays :: "('w \<Rightarrow> bool) \<Rightarrow> ('w, 'a, 'e) io \<Rightarrow> bool" where
  "stays I m = (\<forall>w. I w \<longrightarrow> I (snd (m w)))"

lemma staysD: "stays I m \<Longrightarrow> m w = (r, w') \<Longrightarrow> I w \<Longrightarrow> I w'"
  unfolding stays_def by (metis snd_conv)

lemma stays_return [intro]: "stays I (io_return x)"
  and stays_lift [intro]: "stays I (io_lift r)"
  by (simp_all add: stays_def io_return_def io_lift_def)

lemma stays_bind [intro]: "stays I m \<Longrightarrow> (\<And>x. stays I (k x)) \<Longrightarrow> stays I (io_bind m k)"
  by (auto simp: stays_def io_bind_def split: prod.splits res.splits)

lemma stays_match [intro]:
  "stays I m \<Longrightarrow> (\<And>x. stays I (k x)) \<Longrightarrow> (\<And>e. stays I (h e)) \<Longrightarrow> stays I (io_match m k h)"
  by (auto simp: stays_def io_match_def split: prod.splits res.splits)

lemma stays_map_err [intro]: "stays I m \<Longrightarrow> stays I (io_map_err g m)"
  by (auto simp: stays_def io_map_err_def split: prod.splits)

lemma stays_keeps: "keeps f m \<Longrightarrow> stays (\<lambda>w. Q (f w)) m"
  by (simp add: keeps_def stays_def)

section \<open>Port records\<close>

record 'w execution_gateway =
  gw_place_order :: "order \<Rightarrow> ('w, order_id, execution_error) io"
  gw_cancel_order :: "order_id \<Rightarrow> ('w, unit, execution_error) io"

record 'w order_repository =
  or_save :: "order \<Rightarrow> ('w, unit, domain_error) io"
  or_update :: "order \<Rightarrow> ('w, unit, repository_error) io"
  or_get :: "order_id \<Rightarrow> ('w, order option, repository_error) io"
  or_get_open :: "('w, order list, repository_error) io"

record 'w position_repository =
  pr_find_open_positions :: "('w, position list, domain_error) io"
  pr_get_by_symbol :: "symbol \<Rightarrow> ('w, position option, repository_error) io"
  pr_upsert :: "position \<Rightarrow> ('w, unit, repository_error) io"
  pr_close :: "symbol \<Rightarrow> ('w, unit, repository_error) io"

record 'w fill_repository =
  fr_save :: "fill \<Rightarrow> ('w, unit, repository_error) io"

record 'w event_bus_port =
  eb_publish :: "trading_event \<Rightarrow> 'w \<Rightarrow> nat \<times> 'w"

definition io_publish :: "'w event_bus_port \<Rightarrow> trading_event \<Rightarrow> ('w, nat, 'e) io" where
  "io_publish eb ev w = (case eb_publish eb ev w of (n, w') \<Rightarrow> (Ok n, w'))"

section \<open>The order store\<close>

text \<open>
  What a client may rely on: a successful write is what the next read returns, a failed one
  changes nothing, and reading changes nothing.
\<close>

locale order_store =
  fixes repo :: "'w order_repository" and content :: "'w \<Rightarrow> order_id \<Rightarrow> order option"
  assumes save_Ok: "or_save repo ord w = (Ok u, w') \<Longrightarrow> content w' = (content w)(OrderId (ord_id ord) \<mapsto> ord)"
    and save_Err: "or_save repo ord w = (Err e, w') \<Longrightarrow> content w' = content w"
    and update_Ok: "or_update repo ord w = (Ok u, w') \<Longrightarrow> content w' = (content w)(OrderId (ord_id ord) \<mapsto> ord)"
    and update_Err: "or_update repo ord w = (Err e', w') \<Longrightarrow> content w' = content w"
    and get_Ok: "or_get repo i w = (Ok x, w') \<Longrightarrow> x = content w i \<and> content w' = content w"
    and get_Err: "or_get repo i w = (Err e', w') \<Longrightarrow> content w' = content w"
    and get_open_Ok: "or_get_open repo w = (Ok xs, w') \<Longrightarrow>
      content w' = content w \<and> set xs = {ord \<in> ran (content w). status_is_active (ord_status ord)}"
begin

lemma read_after_save:
  assumes "or_save repo ord w = (Ok u, w1)" and "or_get repo (OrderId (ord_id ord)) w1 = (Ok x, w2)"
  shows "x = Some ord"
  using save_Ok [OF assms(1)] get_Ok [OF assms(2)] by simp

lemma read_after_update:
  assumes "or_update repo ord w = (Ok u, w1)" and "or_get repo (OrderId (ord_id ord)) w1 = (Ok x, w2)"
  shows "x = Some ord"
  using update_Ok [OF assms(1)] get_Ok [OF assms(2)] by simp

lemma other_orders_kept:
  assumes "or_save repo ord w = (Ok u, w1)" and "i \<noteq> OrderId (ord_id ord)"
  shows "content w1 i = content w i"
  using save_Ok [OF assms(1)] assms(2) by simp

text \<open>An order that reaches a terminal status leaves the open orders.\<close>

lemma terminal_not_open:
  assumes "or_update repo ord w = (Ok u, w1)" and "status_is_terminal (ord_status ord)"
    and "or_get_open repo w1 = (Ok xs, w2)"
  shows "ord \<notin> set xs"
  using get_open_Ok [OF assms(3)] assms(2) by (auto simp: active_iff_not_terminal)

end

section \<open>The position store\<close>

locale position_store =
  fixes repo :: "'w position_repository" and held :: "'w \<Rightarrow> symbol \<Rightarrow> position option"
  assumes upsert_Ok: "pr_upsert repo p w = (Ok u, w') \<Longrightarrow> held w' = (held w)(pos_symbol p \<mapsto> p)"
    and upsert_Err: "pr_upsert repo p w = (Err e, w') \<Longrightarrow> held w' = held w"
    and get_by_symbol_Ok: "pr_get_by_symbol repo s w = (Ok x, w') \<Longrightarrow> x = held w s"
    and get_by_symbol_frame: "keeps held (pr_get_by_symbol repo s)"
    and find_open_Ok: "pr_find_open_positions repo w = (Ok ps, w') \<Longrightarrow> set ps = ran (held w)"
    and find_open_frame: "keeps held (pr_find_open_positions repo)"
begin

lemma read_after_upsert:
  assumes "pr_upsert repo p w = (Ok u, w1)" and "pr_get_by_symbol repo (pos_symbol p) w1 = (Ok x, w2)"
  shows "x = Some p"
  using upsert_Ok [OF assms(1)] get_by_symbol_Ok [OF assms(2)] by simp

lemma open_after_upsert:
  assumes "pr_upsert repo p w = (Ok u, w1)" and "pr_find_open_positions repo w1 = (Ok ps, w2)"
  shows "p \<in> set ps"
  using upsert_Ok [OF assms(1)] find_open_Ok [OF assms(2)] by (auto simp: ran_def)

end

end
