(* ===== verification/Mem_Repos.thy ===== *)
theory Mem_Repos
  imports Ports
begin

text \<open>
  The in-memory repositories of \<open>crates/cli/src/commands/trading.rs\<close>, which the command line wires
  into the trading service.  A \<open>HashMap\<close> is an association list with distinct keys, whose order is
  the iteration order of the map.  They provide the order store and the position store that the
  services rely on.
\<close>

section \<open>Hash maps\<close>

primrec hm_insert :: "'k \<Rightarrow> 'v \<Rightarrow> ('k \<times> 'v) list \<Rightarrow> ('k \<times> 'v) list" where
  "hm_insert k v [] = [(k, v)]"
| "hm_insert k v (x # m) = (if fst x = k then (k, v) # m else x # hm_insert k v m)"

definition hm_remove :: "'k \<Rightarrow> ('k \<times> 'v) list \<Rightarrow> ('k \<times> 'v) list" where
  "hm_remove k m = filter (\<lambda>x. fst x \<noteq> k) m"

definition hm_values :: "('k \<times> 'v) list \<Rightarrow> 'v list" where
  "hm_values m = map snd m"

definition hm_wf :: "('k \<times> 'v) list \<Rightarrow> bool" where
  "hm_wf m = distinct (map fst m)"

lemma map_of_hm_insert [simp]: "map_of (hm_insert k v m) = (map_of m)(k \<mapsto> v)"
  by (induction m) (auto simp: fun_eq_iff)

lemma keys_hm_insert: "fst ` set (hm_insert k v m) = insert k (fst ` set m)"
  by (induction m) auto

lemma hm_wf_insert [simp]: "hm_wf m \<Longrightarrow> hm_wf (hm_insert k v m)"
proof (induction m)
  case (Cons x m)
  then have "fst x \<notin> fst ` set (hm_insert k v m)" if "fst x \<noteq> k"
    using that by (auto simp: keys_hm_insert hm_wf_def)
  with Cons show ?case by (auto simp: hm_wf_def)
qed (simp add: hm_wf_def)

lemma hm_wf_remove [simp]: "hm_wf m \<Longrightarrow> hm_wf (hm_remove k m)"
  by (induction m) (auto simp: hm_wf_def hm_remove_def)

lemma map_of_hm_remove [simp]: "map_of (hm_remove k m) = (map_of m)(k := None)"
  by (induction m) (auto simp: hm_remove_def fun_eq_iff)

lemma set_hm_values: "hm_wf m \<Longrightarrow> set (hm_values m) = ran (map_of m)"
  by (auto simp: hm_values_def hm_wf_def ran_distinct)

text \<open>A map whose keys are distinct, as the invariant of a type.\<close>

typedef ('k, 'v) hash_map = "{m :: ('k \<times> 'v) list. hm_wf m}"
  by (intro exI [of _ "[]"]) (simp add: hm_wf_def)

setup_lifting type_definition_hash_map

lift_definition hash_empty :: "('k, 'v) hash_map" is "[]"
  by (simp add: hm_wf_def)

lift_definition hash_insert :: "'k \<Rightarrow> 'v \<Rightarrow> ('k, 'v) hash_map \<Rightarrow> ('k, 'v) hash_map" is hm_insert
  by simp

lift_definition hash_remove :: "'k \<Rightarrow> ('k, 'v) hash_map \<Rightarrow> ('k, 'v) hash_map" is hm_remove
  by simp

lift_definition hash_get :: "('k, 'v) hash_map \<Rightarrow> 'k \<Rightarrow> 'v option" is "\<lambda>m k. map_of m k" .

lift_definition hash_values :: "('k, 'v) hash_map \<Rightarrow> 'v list" is hm_values .

lift_definition hash_entries :: "('k, 'v) hash_map \<Rightarrow> ('k \<times> 'v) list" is "\<lambda>m. m" .

text \<open>Collecting a map again with every value changed; \<open>*entry(k).or_insert(d) = v\<close> is an insertion.\<close>

lift_definition hash_map_values :: "('v \<Rightarrow> 'w) \<Rightarrow> ('k, 'v) hash_map \<Rightarrow> ('k, 'w) hash_map" is
  "\<lambda>f. map (\<lambda>(k, v). (k, f v))"
  by (simp add: hm_wf_def case_prod_unfold comp_def)

lemma map_of_hash_entries: "map_of (hash_entries m) = hash_get m" and distinct_hash_entries: "distinct (map fst (hash_entries m))"
  by (transfer, simp add: hm_wf_def)+

lemma hash_entries_empty [simp]: "hash_entries hash_empty = []"
  by transfer simp

lemma hash_get_empty [simp]: "hash_get hash_empty = Map.empty"
  by transfer (simp add: fun_eq_iff)

lemma hash_get_insert [simp]: "hash_get (hash_insert k v m) = (hash_get m)(k \<mapsto> v)"
  by transfer (simp add: fun_eq_iff)

lemma hash_get_remove [simp]: "hash_get (hash_remove k m) = (hash_get m)(k := None)"
  by transfer (simp add: fun_eq_iff)

lemma set_hash_values: "set (hash_values m) = ran (hash_get m)"
  by transfer (rule set_hm_values)

lemma hash_values_empty [simp]: "hash_values hash_empty = []"
  by transfer (simp add: hm_values_def)

lemma hash_get_map_values [simp]: "hash_get (hash_map_values f m) k = map_option f (hash_get m k)"
  by transfer (simp add: map_of_map)

lemma hash_values_map_values [simp]: "hash_values (hash_map_values f m) = map f (hash_values m)"
  by transfer (simp add: hm_values_def case_prod_unfold comp_def)

text \<open>What inserting does to a sum over the values.\<close>

lemma sum_hm_insert:
  fixes f :: "'v \<Rightarrow> 'a :: ab_group_add"
  assumes "hm_wf m"
  shows "sum_list (map f (hm_values (hm_insert k v m))) =
    sum_list (map f (hm_values m)) - (case map_of m k of None \<Rightarrow> 0 | Some w \<Rightarrow> f w) + f v"
  using assms by (induction m) (auto simp: hm_values_def hm_wf_def split: option.splits)

lemma sum_hash_insert:
  "sum_list (map f (hash_values (hash_insert k v m))) =
     sum_list (map f (hash_values m)) - (case hash_get m k of None \<Rightarrow> 0 | Some w \<Rightarrow> f w) +
     (f v :: 'a :: ab_group_add)"
  by transfer (rule sum_hm_insert)

section \<open>MockOrderRepository\<close>

type_synonym mock_orders = "(order_id, order) hash_map"

definition mock_order_save :: "order \<Rightarrow> (mock_orders, unit, 'e) io" where
  "mock_order_save ord m = (Ok (), hash_insert (OrderId (ord_id ord)) ord m)"

definition mock_order_update :: "order \<Rightarrow> (mock_orders, unit, 'e) io" where
  "mock_order_update ord m = (Ok (), hash_insert (OrderId (ord_id ord)) ord m)"

definition mock_order_get :: "order_id \<Rightarrow> (mock_orders, order option, 'e) io" where
  "mock_order_get i m = (Ok (hash_get m i), m)"

definition mock_order_get_open :: "(mock_orders, order list, 'e) io" where
  "mock_order_get_open m =
     (Ok (filter (\<lambda>ord. status_is_active (ord_status ord)) (hash_values m)), m)"

definition mock_order_get_by_symbol :: "symbol \<Rightarrow> (mock_orders, order list, 'e) io" where
  "mock_order_get_by_symbol s m = (Ok (filter (\<lambda>ord. ord_symbol ord = s) (hash_values m)), m)"

definition mock_order_get_by_account :: "entity_id \<Rightarrow> (mock_orders, order list, 'e) io" where
  "mock_order_get_by_account a m = (Ok (filter (\<lambda>ord. ord_account_id ord = a) (hash_values m)), m)"

definition mock_order_get_history :: "timestamp \<Rightarrow> timestamp \<Rightarrow> (mock_orders, order list, 'e) io" where
  "mock_order_get_history start finish m = (Ok (hash_values m), m)"

definition mock_order_delete :: "order_id \<Rightarrow> (mock_orders, unit, 'e) io" where
  "mock_order_delete i m = (Ok (), hash_remove i m)"

definition mock_order_repository :: "mock_orders order_repository" where
  "mock_order_repository =
     \<lparr>or_save = mock_order_save, or_update = mock_order_update, or_get = mock_order_get,
      or_get_open = mock_order_get_open\<rparr>"

interpretation mock_orders: order_store mock_order_repository hash_get
  by unfold_locales
    (auto simp: mock_order_repository_def mock_order_save_def mock_order_update_def mock_order_get_def
      mock_order_get_open_def set_hash_values)

section \<open>MockPositionRepository\<close>

type_synonym mock_positions = "(symbol, position) hash_map"

definition mock_position_save :: "position \<Rightarrow> (mock_positions, unit, 'e) io" where
  "mock_position_save p m = (Ok (), hash_insert (pos_symbol p) p m)"

definition mock_position_upsert :: "position \<Rightarrow> (mock_positions, unit, 'e) io" where
  "mock_position_upsert p m = (Ok (), hash_insert (pos_symbol p) p m)"

definition mock_position_find_by_symbol :: "symbol \<Rightarrow> (mock_positions, position option, 'e) io" where
  "mock_position_find_by_symbol s m = (Ok (hash_get m s), m)"

definition mock_position_find_open_positions :: "(mock_positions, position list, 'e) io" where
  "mock_position_find_open_positions m = (Ok (hash_values m), m)"

definition mock_position_find_by_account_and_symbol ::
    "entity_id \<Rightarrow> symbol \<Rightarrow> (mock_positions, position option, 'e) io" where
  "mock_position_find_by_account_and_symbol a s m = (Ok (hash_get m s), m)"

definition mock_position_close :: "symbol \<Rightarrow> (mock_positions, unit, 'e) io" where
  "mock_position_close s m = (Ok (), m)"

definition mock_position_total_pnl :: "(mock_positions, money, repository_error) io" where
  "mock_position_total_pnl m = (Err (repository_error_query ''Not implemented''), m)"

definition mock_position_repository :: "mock_positions position_repository" where
  "mock_position_repository =
     \<lparr>pr_find_open_positions = mock_position_find_open_positions,
      pr_get_by_symbol = mock_position_find_by_symbol, pr_upsert = mock_position_upsert,
      pr_close = mock_position_close\<rparr>"

interpretation mock_positions: position_store mock_position_repository hash_get
  by unfold_locales
    (auto simp: keeps_def mock_position_repository_def mock_position_upsert_def mock_position_find_by_symbol_def
      mock_position_find_open_positions_def set_hash_values)

end
