(* ===== verification/Trading_Service.thy ===== *)
theory Trading_Service
  imports Mem_Repos
begin

text \<open>
  The order workflow of \<open>crates/application/src/trading_service.rs\<close>: placement (validation, risk
  check, persistence, execution, event, with a rollback when execution fails), cancellation and
  the queries.  The ports are arguments; the risk engine, which the service shares, is part of its
  state.  The readings of the clock during one call are \<open>clk 0\<close>, \<open>clk 1\<close>, and so on.
\<close>

section \<open>Errors\<close>

datatype trading_error =
    Tr_Validation string
  | Tr_RiskRejected string
  | Tr_Execution string
  | Tr_Repository string
  | Tr_OrderNotFound string
  | Tr_InvalidState string
  | Tr_CancellationFailed string

fun trading_error_display :: "trading_error \<Rightarrow> string" where
  "trading_error_display (Tr_Validation message) = ''Order validation failed: '' @ message"
| "trading_error_display (Tr_RiskRejected reason) = ''Risk check rejected: '' @ reason"
| "trading_error_display (Tr_Execution message) = ''Execution failed: '' @ message"
| "trading_error_display (Tr_Repository message) = ''Repository error: '' @ message"
| "trading_error_display (Tr_OrderNotFound order_id) = ''Order not found: '' @ order_id"
| "trading_error_display (Tr_InvalidState message) = ''Invalid order state: '' @ message"
| "trading_error_display (Tr_CancellationFailed message) = ''Cancellation failed: '' @ message"

fun is_risk_rejection :: "trading_error \<Rightarrow> bool" where
  "is_risk_rejection (Tr_RiskRejected _) = True"
| "is_risk_rejection _ = False"

fun is_retryable :: "trading_error \<Rightarrow> bool" where
  "is_retryable (Tr_Execution _) = True"
| "is_retryable (Tr_Repository _) = True"
| "is_retryable _ = False"

fun trading_error_from_domain :: "(timestamp \<Rightarrow> string) \<Rightarrow> domain_error \<Rightarrow> trading_error" where
  "trading_error_from_domain tf (Dom_Validation e) = Tr_Validation (validation_error_display tf e)"
| "trading_error_from_domain tf (Dom_Repository e) = Tr_Repository (repository_error_display e)"
| "trading_error_from_domain tf (Dom_Execution e) = Tr_Execution (execution_error_display e)"
| "trading_error_from_domain tf (Dom_InvalidStateTransition old new) =
     Tr_InvalidState (''Cannot transition from '' @ old @ '' to '' @ new)"
| "trading_error_from_domain tf (Dom_OrderValidation msg) = Tr_Validation msg"
| "trading_error_from_domain tf (Dom_InvalidPrice msg) = Tr_Validation (''Invalid price: '' @ msg)"
| "trading_error_from_domain tf (Dom_InvalidQuantity msg) = Tr_Validation (''Invalid quantity: '' @ msg)"
| "trading_error_from_domain tf (Dom_PositionNotFound i) = Tr_OrderNotFound i"
| "trading_error_from_domain tf (Dom_SymbolNotFound s) = Tr_Validation (''Symbol not found: '' @ s)"
| "trading_error_from_domain tf e = Tr_Execution (domain_error_display tf e)"

fun trading_error_from_repository :: "repository_error \<Rightarrow> trading_error" where
  "trading_error_from_repository (Repo_NotFound entity i) = Tr_OrderNotFound (entity @ '' '' @ i)"
| "trading_error_from_repository e = Tr_Repository (repository_error_display e)"

fun trading_error_from_execution :: "execution_error \<Rightarrow> trading_error" where
  "trading_error_from_execution (Exec_OrderRejected order_id reason) =
     Tr_Execution (''Order '' @ order_id @ '' rejected: '' @ reason)"
| "trading_error_from_execution (Exec_OrderNotFound order_id) = Tr_OrderNotFound order_id"
| "trading_error_from_execution (Exec_InvalidOrderState order_id state operation) =
     Tr_InvalidState (''Order '' @ order_id @ '' in state '' @ state @ '' cannot perform '' @ operation)"
| "trading_error_from_execution e = Tr_Execution (execution_error_display e)"

section \<open>The service\<close>

record 'w trading_ports =
  tp_execution :: "'w execution_gateway"
  tp_order_repo :: "'w order_repository"
  tp_position_repo :: "'w position_repository"
  tp_event_bus :: "'w event_bus_port"

record 'w trading_state =
  ts_world :: 'w
  ts_risk :: risk_engine

text \<open>A call of a port, and the call of the risk check; a failed check leaves the engine.\<close>

definition on_world :: "('w, 'a, 'e) io \<Rightarrow> ('w trading_state, 'a, 'e) io" where
  "on_world m st = (case m (ts_world st) of (r, w) \<Rightarrow> (r, st\<lparr>ts_world := w\<rparr>))"

definition check_risk ::
    "dec_ops \<Rightarrow> timestamp \<Rightarrow> order \<Rightarrow> position list \<Rightarrow> price \<Rightarrow>
     ('w trading_state, risk_decision, domain_error) io" where
  "check_risk D now ord positions price st =
     (case check_pre_trade D now (ts_risk st) ord positions price of
        Ok (e, d) \<Rightarrow> (Ok d, st\<lparr>ts_risk := e\<rparr>)
      | Err err \<Rightarrow> (Err err, st)
      | Panic \<Rightarrow> (Panic, st))"

text \<open>Texts that belong to other crates: timestamps, order identifiers, the debug form of a status.\<close>

record texts =
  tx_time :: "timestamp \<Rightarrow> string"
  tx_uuid :: uuid_ops
  tx_status_debug :: "order_status \<Rightarrow> string"

definition rollback_order_submission ::
    "'w trading_ports \<Rightarrow> (nat \<Rightarrow> timestamp) \<Rightarrow> entity_id \<Rightarrow> string \<Rightarrow>
     ('w trading_state, unit, trading_error) io" where
  "rollback_order_submission P clk i reason =
     io_match (on_world (or_get (tp_order_repo P) (OrderId i)))
       (\<lambda>found. case found of
          Some ord \<Rightarrow>
            io_match (io_lift (order_reject (clk 3) (clk 4) ord reason))
              (\<lambda>ord'. io_match (on_world (or_update (tp_order_repo P) ord'))
                (\<lambda>_. io_return ()) (\<lambda>_. io_return ()))
              (\<lambda>_. io_return ())
        | None \<Rightarrow> io_return ())
       (\<lambda>_. io_return ())"

definition MARKET_PRICE_PLACEHOLDER :: price where
  "MARKET_PRICE_PLACEHOLDER = price_new_unchecked 1"

text \<open>Steps 4 and 5: the gateway call with its rollback, and the event.\<close>

definition execute_and_announce ::
    "'w trading_ports \<Rightarrow> (nat \<Rightarrow> timestamp) \<Rightarrow> order \<Rightarrow> ('w trading_state, order_id, trading_error) io" where
  "execute_and_announce P clk ord =
     io_match (on_world (gw_place_order (tp_execution P) ord))
       (\<lambda>order_id.
          io_bind (on_world (io_publish (tp_event_bus P) (Ev_OrderSubmitted order_id ord (clk 3))))
            (\<lambda>_. io_return order_id))
       (\<lambda>e. io_match (rollback_order_submission P clk (ord_id ord)
                         (''Execution failed: '' @ execution_error_display e))
              (\<lambda>_. io_lift (Err (trading_error_from_execution e)))
              (\<lambda>_. io_lift (Err (trading_error_from_execution e))))"

definition place_order ::
    "dec_ops \<Rightarrow> texts \<Rightarrow> 'w trading_ports \<Rightarrow> (nat \<Rightarrow> timestamp) \<Rightarrow> order \<Rightarrow>
     ('w trading_state, order_id, trading_error) io" where
  "place_order D tx P clk ord =
     io_bind (io_map_err (trading_error_from_domain (tx_time tx)) (io_lift (validate_for_submission ord))) (\<lambda>_.
     io_bind (io_map_err (trading_error_from_domain (tx_time tx))
                (on_world (pr_find_open_positions (tp_position_repo P)))) (\<lambda>positions.
     let current_price = (case ord_limit_price ord of Some p \<Rightarrow> p | None \<Rightarrow> MARKET_PRICE_PLACEHOLDER) in
     io_match (check_risk D (clk 0) ord positions current_price)
       (\<lambda>decision. case decision of
          Allow \<Rightarrow>
            io_bind (io_map_err (trading_error_from_domain (tx_time tx))
                       (io_lift (update_status (clk 2) ord (Submitted (clk 1))))) (\<lambda>ord'.
            io_bind (io_map_err (trading_error_from_domain (tx_time tx))
                       (on_world (or_save (tp_order_repo P) ord'))) (\<lambda>_.
            execute_and_announce P clk ord'))
        | Reject reason \<Rightarrow>
            io_bind (on_world (io_publish (tp_event_bus P)
                       (Ev_OrderRejected (OrderId (ord_id ord)) (''Risk rejection: '' @ reason) (clk 1))))
              (\<lambda>_. io_lift (Err (Tr_RiskRejected reason)))
        | Reduce max_allowed \<Rightarrow>
            (let reason = ''Order quantity exceeds risk limits. Max allowed: '' @ d_fmt D (qty_inner max_allowed) in
             io_bind (on_world (io_publish (tp_event_bus P)
                        (Ev_OrderRejected (OrderId (ord_id ord)) reason (clk 1))))
               (\<lambda>_. io_lift (Err (Tr_RiskRejected reason)))))
       (\<lambda>e. io_lift (Err (trading_error_from_domain (tx_time tx) e)))))"

definition cancel_order ::
    "texts \<Rightarrow> 'w trading_ports \<Rightarrow> (nat \<Rightarrow> timestamp) \<Rightarrow> order_id \<Rightarrow>
     ('w trading_state, unit, trading_error) io" where
  "cancel_order tx P clk order_id =
     io_bind (io_map_err trading_error_from_repository (on_world (or_get (tp_order_repo P) order_id))) (\<lambda>found.
     case found of
       None \<Rightarrow> io_lift (Err (Tr_OrderNotFound (order_id_display (tx_uuid tx) order_id)))
     | Some ord \<Rightarrow>
         if \<not> order_can_cancel ord
         then io_lift (Err (Tr_InvalidState
                (''Order cannot be cancelled in state: '' @ tx_status_debug tx (ord_status ord))))
         else
           io_bind (io_map_err (\<lambda>e. Tr_CancellationFailed (execution_error_display e))
                      (on_world (gw_cancel_order (tp_execution P) order_id))) (\<lambda>_.
           io_bind (io_map_err (trading_error_from_domain (tx_time tx))
                      (io_lift (order_cancel (clk 0) (clk 1) ord ''User request''))) (\<lambda>ord'.
           io_bind (io_map_err trading_error_from_repository
                      (on_world (or_update (tp_order_repo P) ord'))) (\<lambda>_.
           io_bind (on_world (io_publish (tp_event_bus P)
                      (Ev_OrderCancelled order_id ''User request'' (clk 2)))) (\<lambda>_.
           io_return ())))))"

definition get_order ::
    "'w trading_ports \<Rightarrow> order_id \<Rightarrow> ('w trading_state, order option, trading_error) io" where
  "get_order P order_id =
     io_map_err trading_error_from_repository (on_world (or_get (tp_order_repo P) order_id))"

definition get_open_orders :: "'w trading_ports \<Rightarrow> ('w trading_state, order list, trading_error) io" where
  "get_open_orders P =
     io_map_err trading_error_from_repository (on_world (or_get_open (tp_order_repo P)))"

definition get_positions ::
    "texts \<Rightarrow> 'w trading_ports \<Rightarrow> ('w trading_state, position list, trading_error) io" where
  "get_positions tx P =
     io_map_err (trading_error_from_domain (tx_time tx))
       (on_world (pr_find_open_positions (tp_position_repo P)))"

section \<open>The wiring of the command line\<close>

text \<open>
  \<open>init_trading_service\<close> of \<open>crates/cli/src/commands/trading.rs\<close> gives the service the two in-memory
  repositories; its gateway and its bus are arguments here.  Each port works on its own part of the
  world.
\<close>

record ('g, 'b) cli_world =
  cw_orders :: mock_orders
  cw_positions :: mock_positions
  cw_gateway :: 'g
  cw_bus :: 'b

definition on_orders :: "(mock_orders, 'a, 'e) io \<Rightarrow> (('g, 'b) cli_world, 'a, 'e) io" where
  "on_orders m w = (case m (cw_orders w) of (r, x) \<Rightarrow> (r, w\<lparr>cw_orders := x\<rparr>))"

definition on_positions :: "(mock_positions, 'a, 'e) io \<Rightarrow> (('g, 'b) cli_world, 'a, 'e) io" where
  "on_positions m w = (case m (cw_positions w) of (r, x) \<Rightarrow> (r, w\<lparr>cw_positions := x\<rparr>))"

definition on_gateway :: "('g, 'a, 'e) io \<Rightarrow> (('g, 'b) cli_world, 'a, 'e) io" where
  "on_gateway m w = (case m (cw_gateway w) of (r, x) \<Rightarrow> (r, w\<lparr>cw_gateway := x\<rparr>))"

definition cli_ports ::
    "'g execution_gateway \<Rightarrow> 'b event_bus_port \<Rightarrow> ('g, 'b) cli_world trading_ports" where
  "cli_ports G B =
     \<lparr>tp_execution = \<lparr>gw_place_order = (\<lambda>ord. on_gateway (gw_place_order G ord)),
                      gw_cancel_order = (\<lambda>i. on_gateway (gw_cancel_order G i))\<rparr>,
      tp_order_repo = \<lparr>or_save = (\<lambda>ord. on_orders (mock_order_save ord)),
                       or_update = (\<lambda>ord. on_orders (mock_order_update ord)),
                       or_get = (\<lambda>i. on_orders (mock_order_get i)),
                       or_get_open = on_orders mock_order_get_open\<rparr>,
      tp_position_repo = \<lparr>pr_find_open_positions = on_positions mock_position_find_open_positions,
                          pr_get_by_symbol = (\<lambda>s. on_positions (mock_position_find_by_symbol s)),
                          pr_upsert = (\<lambda>p. on_positions (mock_position_upsert p)),
                          pr_close = (\<lambda>s. on_positions (mock_position_close s))\<rparr>,
      tp_event_bus = \<lparr>eb_publish = (\<lambda>ev w. case eb_publish B ev (cw_bus w) of (n, x) \<Rightarrow> (n, w\<lparr>cw_bus := x\<rparr>))\<rparr>\<rparr>"

definition cli_orders :: "('g, 'b) cli_world \<Rightarrow> order_id \<Rightarrow> order option" where
  "cli_orders w = hash_get (cw_orders w)"

section \<open>The service over an order store\<close>

lemma on_world_eq:
  "m (ts_world st) = (r, w) \<Longrightarrow> on_world m st = (r, st\<lparr>ts_world := w\<rparr>)"
  by (simp add: on_world_def)

lemma on_world_eq_iff:
  "on_world m st = (r, st') \<longleftrightarrow> (\<exists>w. m (ts_world st) = (r, w) \<and> st' = st\<lparr>ts_world := w\<rparr>)"
  by (auto simp: on_world_def split: prod.splits)

text \<open>What a run of a composed computation consists of.\<close>

lemma io_match_run:
  "io_match m k h st = (r, st') \<longleftrightarrow>
     (\<exists>x w. m st = (Ok x, w) \<and> k x w = (r, st')) \<or> (\<exists>e w. m st = (Err e, w) \<and> h e w = (r, st')) \<or>
     m st = (Panic, st') \<and> r = Panic"
  by (auto simp: io_match_def split: prod.splits res.splits)

lemma io_bind_run:
  "io_bind m k st = (r, st') \<longleftrightarrow>
     (\<exists>x w. m st = (Ok x, w) \<and> k x w = (r, st')) \<or> (\<exists>e. m st = (Err e, st') \<and> r = Err e) \<or>
     m st = (Panic, st') \<and> r = Panic"
  by (auto simp: io_bind_def split: prod.splits res.splits)

lemma io_map_err_run: "io_map_err g m st = (r, st') \<longleftrightarrow> (\<exists>q. m st = (q, st') \<and> r = map_err g q)"
  by (auto simp: io_map_err_def split: prod.splits)

lemma map_err_eq:
  "map_err g q = Ok x \<longleftrightarrow> q = Ok x" "Ok x = map_err g q \<longleftrightarrow> q = Ok x"
  "Err e = map_err g q \<longleftrightarrow> (\<exists>e'. q = Err e' \<and> e = g e')" "map_err g q = Err e \<longleftrightarrow> (\<exists>e'. q = Err e' \<and> e = g e')"
  "map_err g q = Panic \<longleftrightarrow> q = Panic" "Panic = map_err g q \<longleftrightarrow> q = Panic"
  by (cases q; auto)+

lemmas io_runs = io_match_run io_bind_run io_map_err_run map_err_eq on_world_eq_iff io_return_def io_lift_def

lemma keeps_on_world: "keeps f m \<Longrightarrow> keeps (f \<circ> ts_world) (on_world m)"
  by (auto simp: keeps_def on_world_def split: prod.splits) (metis snd_conv)

lemma keeps_check_risk: "keeps (f \<circ> ts_world) (check_risk D now ord ps price)"
  by (auto simp: keeps_def check_risk_def split: res.splits)

text \<open>
  The ports a service works with: an order store, beside which the other ports leave the stored
  orders alone.
\<close>

locale order_service = order_store "tp_order_repo P" content
  for P :: "'w trading_ports" and content :: "'w \<Rightarrow> order_id \<Rightarrow> order option" +
  assumes positions_frame: "keeps content (pr_find_open_positions (tp_position_repo P))"
    and place_frame: "keeps content (gw_place_order (tp_execution P) ord)"
    and cancel_frame: "keeps content (gw_cancel_order (tp_execution P) i)"
    and publish_frame: "content (snd (eb_publish (tp_event_bus P) ev w)) = content w"
begin

lemma publish_keeps: "keeps content (io_publish (tp_event_bus P) ev)"
  using publish_frame by (auto simp: keeps_def io_publish_def split: prod.splits) (metis snd_conv)

text \<open>A rollback touches the one order it is about, and only to reject it.\<close>

lemma rejection_effect:
  assumes "io_match (io_lift (order_reject now1 now2 ord reason))
      (\<lambda>ord'. io_match (on_world (or_update (tp_order_repo P) ord')) (\<lambda>_. io_return ()) (\<lambda>_. io_return ()))
      (\<lambda>_. io_return ()) st = (r, st')" and "r \<noteq> Panic"
  shows "r = Ok () \<and> (content (ts_world st') = content (ts_world st) \<or>
    (\<exists>ord'. order_reject now1 now2 ord reason = Ok ord' \<and>
       content (ts_world st') = (content (ts_world st))(OrderId (ord_id ord) \<mapsto> ord')))"
proof (cases "order_reject now1 now2 ord reason")
  case (Ok ord')
  then have "ord_id ord' = ord_id ord" by (auto simp: order_reject_def split: if_splits)
  with assms Ok show ?thesis by (auto simp: io_runs dest: update_Ok update_Err)
qed (use assms in \<open>auto simp: io_runs order_reject_def split: if_splits\<close>)

lemma rollback_effect:
  assumes "rollback_order_submission P clk i reason st = (r, st')" and "r \<noteq> Panic"
  shows "r = Ok () \<and> (content (ts_world st') = content (ts_world st) \<or>
    (\<exists>ord ord'. content (ts_world st) (OrderId i) = Some ord \<and>
       order_reject (clk 3) (clk 4) ord reason = Ok ord' \<and>
       content (ts_world st') = (content (ts_world st))(OrderId (ord_id ord) \<mapsto> ord')))"
proof -
  obtain g w where g: "or_get (tp_order_repo P) (OrderId i) (ts_world st) = (g, w)" by fastforce
  note run = assms(1) [unfolded rollback_order_submission_def]
  show ?thesis
  proof (cases g)
    case (Ok found)
    note c = get_Ok [OF g [unfolded Ok]]
    show ?thesis
    proof (cases found)
      case None
      with run g Ok c show ?thesis by (auto simp: io_match_def on_world_def io_return_def)
    next
      case (Some ord)
      with run g Ok have "io_match (io_lift (order_reject (clk 3) (clk 4) ord reason))
          (\<lambda>ord'. io_match (on_world (or_update (tp_order_repo P) ord')) (\<lambda>_. io_return ()) (\<lambda>_. io_return ()))
          (\<lambda>_. io_return ()) (st\<lparr>ts_world := w\<rparr>) = (r, st')"
        by (simp add: io_match_eq(1) [OF on_world_eq])
      moreover have "content (ts_world st) (OrderId i) = Some ord" using c Some by simp
      ultimately show ?thesis using rejection_effect [OF _ assms(2)] c by fastforce
    qed
  next
    case (Err e)
    with run g get_Err [OF g [unfolded Err]] show ?thesis by (auto simp: io_match_def on_world_def io_return_def)
  qed (use run g assms(2) in \<open>simp add: io_match_def on_world_def\<close>)
qed

end

interpretation cli: order_service "cli_ports G B" cli_orders
  for G :: "'g execution_gateway" and B :: "'b event_bus_port"
  by unfold_locales
    (auto simp: cli_ports_def cli_orders_def keeps_def on_orders_def on_positions_def on_gateway_def
      mock_order_save_def mock_order_update_def mock_order_get_def mock_order_get_open_def
      mock_position_find_open_positions_def set_hash_values split: prod.splits)

section \<open>The stages of a placement\<close>

lemma io_lift_map_err: "io_map_err g (io_lift r) = io_lift (map_err g r)"
  by (rule ext) (simp add: io_map_err_def io_lift_def)

lemma on_world_map_err: "io_map_err g (on_world m) = on_world (io_map_err g m)"
  by (rule ext) (auto simp: io_map_err_def on_world_def split: prod.splits)

lemma io_bind_lift:
  "io_bind (io_lift (Ok x)) k = k x" "io_bind (io_lift (Err e)) k st = (Err e, st)"
  "io_bind (io_lift Panic) k st = (Panic, st)"
  by (auto simp: io_bind_def io_lift_def fun_eq_iff)

lemma validate_not_Panic [simp]: "validate_for_submission ord \<noteq> Panic"
  by (simp add: validate_for_submission_def)

lemma update_status_not_Panic [simp]: "update_status now ord s \<noteq> Panic"
  by (simp add: update_status_def)

text \<open>The order as it is stored and sent.\<close>

definition submitted :: "(nat \<Rightarrow> timestamp) \<Rightarrow> order \<Rightarrow> order" where
  "submitted clk ord = ord\<lparr>ord_status := Submitted (clk 1), ord_updated_at := clk 2\<rparr>"

lemma submitted_simps [simp]:
  "ord_id (submitted clk ord) = ord_id ord" "ord_status (submitted clk ord) = Submitted (clk 1)"
  by (simp_all add: submitted_def)

text \<open>The price the risk check is given.\<close>

definition check_price :: "order \<Rightarrow> price" where
  "check_price ord = (case ord_limit_price ord of Some p \<Rightarrow> p | None \<Rightarrow> MARKET_PRICE_PLACEHOLDER)"

text \<open>
  The service got as far as the repository: the order is valid, the open positions were read, and
  the risk check allowed the order.
\<close>

definition approved ::
    "dec_ops \<Rightarrow> 'w trading_ports \<Rightarrow> (nat \<Rightarrow> timestamp) \<Rightarrow> order \<Rightarrow> 'w trading_state \<Rightarrow>
     position list \<Rightarrow> 'w \<Rightarrow> risk_engine \<Rightarrow> bool" where
  "approved D P clk ord st ps w1 e =
     (validate_for_submission ord = Ok () \<and>
      pr_find_open_positions (tp_position_repo P) (ts_world st) = (Ok ps, w1) \<and>
      check_pre_trade D (clk 0) (ts_risk st) ord ps (check_price ord) = Ok (e, Allow))"

lemma validated_created: "validate_for_submission ord = Ok () \<Longrightarrow> ord_status ord = Created"
  by (auto simp: validate_for_submission_def split: if_splits)

lemma validated_update:
  "validate_for_submission ord = Ok () \<Longrightarrow>
     update_status (clk 2) ord (Submitted (clk 1)) = Ok (submitted clk ord)"
  by (simp add: update_status_def is_valid_transition_def validated_created submitted_def)

text \<open>The placement after its checks, as the engine decided.\<close>

definition proceed ::
    "dec_ops \<Rightarrow> texts \<Rightarrow> 'w trading_ports \<Rightarrow> (nat \<Rightarrow> timestamp) \<Rightarrow> order \<Rightarrow> risk_decision \<Rightarrow>
     ('w trading_state, order_id, trading_error) io" where
  "proceed D tx P clk ord decision =
     (case decision of
        Allow \<Rightarrow>
          io_bind (io_map_err (trading_error_from_domain (tx_time tx))
                     (on_world (or_save (tp_order_repo P) (submitted clk ord)))) (\<lambda>_.
          execute_and_announce P clk (submitted clk ord))
      | Reject reason \<Rightarrow>
          io_bind (on_world (io_publish (tp_event_bus P)
                     (Ev_OrderRejected (OrderId (ord_id ord)) (''Risk rejection: '' @ reason) (clk 1))))
            (\<lambda>_. io_lift (Err (Tr_RiskRejected reason)))
      | Reduce max_allowed \<Rightarrow>
          (let reason = ''Order quantity exceeds risk limits. Max allowed: '' @ d_fmt D (qty_inner max_allowed) in
           io_bind (on_world (io_publish (tp_event_bus P) (Ev_OrderRejected (OrderId (ord_id ord)) reason (clk 1))))
             (\<lambda>_. io_lift (Err (Tr_RiskRejected reason)))))"

lemma place_order_checked:
  assumes "validate_for_submission ord = Ok ()"
    and "pr_find_open_positions (tp_position_repo P) (ts_world st) = (Ok ps, w1)"
    and "check_pre_trade D (clk 0) (ts_risk st) ord ps (check_price ord) = Ok (e, d)"
  shows "place_order D tx P clk ord st = proceed D tx P clk ord d (st\<lparr>ts_world := w1, ts_risk := e\<rparr>)"
proof -
  let ?g = "trading_error_from_domain (tx_time tx)"
  have p: "io_map_err ?g (on_world (pr_find_open_positions (tp_position_repo P))) st = (Ok ps, st\<lparr>ts_world := w1\<rparr>)"
    using assms(2) by (simp add: io_map_err_def on_world_def)
  have c: "check_risk D (clk 0) ord ps (check_price ord) (st\<lparr>ts_world := w1\<rparr>) = (Ok d, st\<lparr>ts_world := w1, ts_risk := e\<rparr>)"
    using assms(3) by (simp add: check_risk_def)
  have u: "update_status (clk 2) ord (Submitted (clk 1)) = Ok (submitted clk ord)"
    by (rule validated_update [OF assms(1)])
  show ?thesis
    unfolding place_order_def io_lift_map_err assms(1) map_err.simps io_bind_lift
      io_bind_eq(1) [of "io_map_err ?g (on_world (pr_find_open_positions (tp_position_repo P)))" st, OF p] Let_def
      check_price_def [symmetric]
      io_match_eq(1) [of "check_risk D (clk 0) ord ps (check_price ord)" "st\<lparr>ts_world := w1\<rparr>", OF c] proceed_def u ..
qed

text \<open>A placement that a check stops, without an answer of the engine.\<close>

lemma place_order_unchecked:
  assumes "place_order D tx P clk ord st = (r, st')"
    and no: "\<And>ps w1 e d. validate_for_submission ord = Ok () \<Longrightarrow>
      pr_find_open_positions (tp_position_repo P) (ts_world st) = (Ok ps, w1) \<Longrightarrow>
      check_pre_trade D (clk 0) (ts_risk st) ord ps (check_price ord) \<noteq> Ok (e, d)"
  shows "\<not> is_ok r \<and> ts_world st' \<in> {ts_world st, snd (pr_find_open_positions (tp_position_repo P) (ts_world st))}"
proof (cases "validate_for_submission ord")
  case valid: (Ok u)
  obtain q w1 where q: "pr_find_open_positions (tp_position_repo P) (ts_world st) = (q, w1)" by fastforce
  note run = assms(1) [unfolded place_order_def io_lift_map_err valid map_err.simps io_bind_lift Let_def
      check_price_def [symmetric]]
  show ?thesis
  proof (cases q)
    case (Ok ps)
    have "\<not> is_ok (check_pre_trade D (clk 0) (ts_risk st) ord ps (check_price ord))"
      using no [of ps w1] valid q Ok by (auto simp: is_ok_iff)
    with run q Ok show ?thesis
      by (cases "check_pre_trade D (clk 0) (ts_risk st) ord ps (check_price ord)")
        (auto simp: io_bind_def io_map_err_def on_world_def check_risk_def io_match_def io_lift_def)
  qed (use run q in \<open>auto simp: io_bind_def io_map_err_def on_world_def\<close>)
qed (use assms(1) in \<open>auto simp: place_order_def io_lift_map_err io_bind_lift\<close>)

text \<open>An order the engine refuses is announced and nothing else.\<close>

lemma announced:
  fixes st :: "'w trading_state"
  assumes "io_bind (on_world (io_publish B ev)) (\<lambda>_. io_lift (Err e)) st = (r, st')"
  shows "\<not> is_ok r \<and> ts_world st' = snd (io_publish B ev (ts_world st) :: (nat, trading_error) res \<times> 'w)"
  using assms by (auto simp: io_bind_def on_world_def io_lift_def io_publish_def split: prod.splits)

lemma proceed_refused:
  fixes st :: "'w trading_state"
  assumes "proceed D tx P clk ord d st = (r, st')" and "d \<noteq> Allow"
  shows "\<exists>ev. \<not> is_ok r \<and> ts_world st' = snd (io_publish (tp_event_bus P) ev (ts_world st) :: (nat, trading_error) res \<times> 'w)"
  using assms by (cases d) (simp_all only: proceed_def risk_decision.case Let_def, (blast dest: announced)+)

lemma proceed_allowed:
  assumes "proceed D tx P clk ord Allow st = (r, st')"
  obtains (saved) w2 where "or_save (tp_order_repo P) (submitted clk ord) (ts_world st) = (Ok (), w2)"
      "execute_and_announce P clk (submitted clk ord) (st\<lparr>ts_world := w2\<rparr>) = (r, st')"
  | (save_failed) x where "or_save (tp_order_repo P) (submitted clk ord) (ts_world st) = (x, ts_world st')"
      "\<not> is_ok x" "\<not> is_ok r" "x = Panic \<longleftrightarrow> r = Panic"
proof -
  obtain x w2 where "or_save (tp_order_repo P) (submitted clk ord) (ts_world st) = (x, w2)" by fastforce
  with assms saved save_failed show thesis
    by (cases x) (fastforce simp: proceed_def io_bind_def io_map_err_def on_world_def)+
qed

lemma place_order_cases:
  assumes run: "place_order D tx P clk ord st = (r, st')"
  obtains
    (early) "\<And>i. r \<noteq> Ok i"
      "\<And>f :: 'w \<Rightarrow> 'z. keeps f (pr_find_open_positions (tp_position_repo P)) \<Longrightarrow>
         (\<And>ev. keeps f (io_publish (tp_event_bus P) ev :: ('w, nat, trading_error) io)) \<Longrightarrow>
         f (ts_world st') = f (ts_world st)"
  | (save_failed) ps w1 e x where "approved D P clk ord st ps w1 e" "\<And>i. r \<noteq> Ok i" "\<And>u. x \<noteq> Ok u"
      "or_save (tp_order_repo P) (submitted clk ord) w1 = (x, ts_world st')" "x = Panic \<longleftrightarrow> r = Panic"
  | (reached) ps w1 e w2 where "approved D P clk ord st ps w1 e"
      "or_save (tp_order_repo P) (submitted clk ord) w1 = (Ok (), w2)"
      "execute_and_announce P clk (submitted clk ord) (st\<lparr>ts_risk := e, ts_world := w2\<rparr>) = (r, st')"
proof (cases "\<exists>ps w1 e d. validate_for_submission ord = Ok () \<and>
    pr_find_open_positions (tp_position_repo P) (ts_world st) = (Ok ps, w1) \<and>
    check_pre_trade D (clk 0) (ts_risk st) ord ps (check_price ord) = Ok (e, d)")
  case False
  show thesis
  proof (rule early)
    show "r \<noteq> Ok i" for i using place_order_unchecked [OF run] False by (fastforce simp: is_ok_iff)
    show "f (ts_world st') = f (ts_world st)"
      if "keeps f (pr_find_open_positions (tp_position_repo P))" for f :: "'w \<Rightarrow> 'z"
      using place_order_unchecked [OF run] False that by (fastforce simp: keeps_def)
  qed
next
  case True
  then obtain ps w1 e d where c: "validate_for_submission ord = Ok ()"
      "pr_find_open_positions (tp_position_repo P) (ts_world st) = (Ok ps, w1)"
      "check_pre_trade D (clk 0) (ts_risk st) ord ps (check_price ord) = Ok (e, d)" by blast
  from run have go: "proceed D tx P clk ord d (st\<lparr>ts_world := w1, ts_risk := e\<rparr>) = (r, st')"
    unfolding place_order_checked [where clk = clk, OF c] .
  show thesis
  proof (cases "d = Allow")
    case True
    have app: "approved D P clk ord st ps w1 e" using c True by (simp add: approved_def)
    from go [unfolded True] show thesis
      by (cases rule: proceed_allowed) (use reached [OF app] save_failed [OF app] in \<open>auto simp: is_ok_iff\<close>)
  next
    case False
    have w1: "w1 = snd (pr_find_open_positions (tp_position_repo P) (ts_world st))" using c(2) by simp
    from proceed_refused [OF go False] obtain ev where ev: "\<not> is_ok r"
      "ts_world st' = snd (io_publish (tp_event_bus P) ev w1 :: (nat, trading_error) res \<times> 'w)" by auto
    show thesis
      by (rule early) (use ev w1 in \<open>auto simp: is_ok_iff keeps_def\<close>)
  qed
qed

section \<open>The fate of the stored order\<close>

text \<open>The cancellation of an order that was found and may be cancelled.\<close>

definition withdraw_order ::
    "texts \<Rightarrow> 'w trading_ports \<Rightarrow> (nat \<Rightarrow> timestamp) \<Rightarrow> order_id \<Rightarrow> order \<Rightarrow>
     ('w trading_state, unit, trading_error) io" where
  "withdraw_order tx P clk order_id ord =
     io_bind (io_map_err (\<lambda>e. Tr_CancellationFailed (execution_error_display e))
                (on_world (gw_cancel_order (tp_execution P) order_id))) (\<lambda>_.
     io_bind (io_map_err trading_error_from_repository
                (on_world (or_update (tp_order_repo P)
                   (ord\<lparr>ord_status := Cancelled (clk 0) ''User request'', ord_updated_at := clk 1\<rparr>)))) (\<lambda>_.
     io_bind (on_world (io_publish (tp_event_bus P)
                (Ev_OrderCancelled order_id ''User request'' (clk 2)))) (\<lambda>_.
     io_return ())))"

lemma cancel_order_found:
  assumes "or_get (tp_order_repo P) i (ts_world st) = (Ok (Some ord), w1)" and "order_can_cancel ord"
  shows "cancel_order tx P clk i st = withdraw_order tx P clk i ord (st\<lparr>ts_world := w1\<rparr>)"
proof -
  have "order_cancel (clk 0) (clk 1) ord ''User request'' =
      Ok (ord\<lparr>ord_status := Cancelled (clk 0) ''User request'', ord_updated_at := clk 1\<rparr>)"
    using assms(2) by (simp add: order_cancel_def)
  moreover have "io_map_err trading_error_from_repository (on_world (or_get (tp_order_repo P) i)) st =
      (Ok (Some ord), st\<lparr>ts_world := w1\<rparr>)"
    using assms(1) by (simp add: io_map_err_def on_world_def)
  ultimately show ?thesis
    using assms(2) by (simp add: cancel_order_def withdraw_order_def io_bind_eq(1) io_lift_map_err io_bind_lift)
qed

lemma cancel_order_not_found:
  assumes "cancel_order tx P clk i st = (r, st')"
    and "or_get (tp_order_repo P) i (ts_world st) = (g, w1)" and "\<And>ord. g = Ok (Some ord) \<Longrightarrow> \<not> order_can_cancel ord"
  shows "\<not> is_ok r \<and> ts_world st' = w1 \<and> (r = Panic \<longleftrightarrow> g = Panic)"
  using assms
  by (cases g) (auto simp: cancel_order_def io_bind_def io_map_err_def on_world_def io_lift_def split: option.splits if_splits)

context order_service
begin

lemma publish_run:
  assumes "io_publish (tp_event_bus P) ev w = (r, w')"
  shows "content w' = content w" and "\<exists>n. r = Ok n"
  using assms publish_frame [of ev w] by (auto simp: io_publish_def split: prod.splits)

lemma execute_effect:
  assumes run: "execute_and_announce P clk ord st = (r, st')" and "r \<noteq> Panic"
    and stored: "content (ts_world st) (OrderId (ord_id ord)) = Some ord"
    and active: "\<not> status_is_terminal (ord_status ord)"
  shows "(\<exists>i. r = Ok i) \<and> content (ts_world st') = content (ts_world st) \<or>
    (\<exists>e. r = Err (trading_error_from_execution e) \<and>
       (content (ts_world st') = content (ts_world st) \<or>
        content (ts_world st') = (content (ts_world st))(OrderId (ord_id ord) \<mapsto>
          ord\<lparr>ord_status := Rejected (clk 3) (''Execution failed: '' @ execution_error_display e),
              ord_updated_at := clk 4\<rparr>)))"
proof -
  obtain g w1 where g: "gw_place_order (tp_execution P) ord (ts_world st) = (g, w1)" by fastforce
  have c1: "content w1 = content (ts_world st)"
    using place_frame [of ord] g unfolding keeps_def by (metis snd_conv)
  show ?thesis
  proof (cases g)
    case (Ok i)
    obtain n w2 where p: "io_publish (tp_event_bus P) (Ev_OrderSubmitted i ord (clk 3)) w1 =
        ((n :: (nat, trading_error) res), w2)" by fastforce
    have "(r, st') = (Ok i, st\<lparr>ts_world := w2\<rparr>)"
      using run g Ok p publish_run(2) [OF p]
      by (auto simp: execute_and_announce_def io_match_def io_bind_def on_world_def io_return_def)
    with publish_run(1) [OF p] c1 show ?thesis by simp
  next
    case (Err e)
    let ?reason = "''Execution failed: '' @ execution_error_display e"
    obtain b st2 where b: "rollback_order_submission P clk (ord_id ord) ?reason (st\<lparr>ts_world := w1\<rparr>) = (b, st2)"
      by fastforce
    have nb: "b \<noteq> Panic" and o: "r = Err (trading_error_from_execution e)" "st' = st2"
      using run g Err b assms(2)
      by (cases b; auto simp: execute_and_announce_def io_match_def on_world_def io_lift_def)+
    from rollback_effect [OF b nb] consider
      "content (ts_world st2) = content w1"
      | ord1 ord2 where "content w1 (OrderId (ord_id ord)) = Some ord1"
        "order_reject (clk 3) (clk 4) ord1 ?reason = Ok ord2"
        "content (ts_world st2) = (content w1)(OrderId (ord_id ord1) \<mapsto> ord2)"
      by auto
    then show ?thesis
    proof cases
      case 1
      with o c1 have "r = Err (trading_error_from_execution e) \<and> content (ts_world st') = content (ts_world st)"
        by simp
      then show ?thesis by blast
    next
      case 2
      then have "ord1 = ord" using stored c1 by simp
      then have "ord2 = ord\<lparr>ord_status := Rejected (clk 3) ?reason, ord_updated_at := clk 4\<rparr>"
        using 2(2) active by (simp add: order_reject_def)
      with o c1 2(3) \<open>ord1 = ord\<close> show ?thesis by auto
    qed
  next
    case Panic
    with run g assms(2) show ?thesis
      by (simp add: execute_and_announce_def io_match_def on_world_def)
  qed
qed

text \<open>What a placement leaves in the store, on every branch.\<close>

lemma place_order_store:
  assumes run: "place_order D tx P clk ord st = (r, st')" and "r \<noteq> Panic"
  shows "(\<forall>i. r = Ok i \<longrightarrow>
      content (ts_world st') = (content (ts_world st))(OrderId (ord_id ord) \<mapsto> submitted clk ord)) \<and>
    (\<forall>e. r = Err e \<longrightarrow> content (ts_world st') = content (ts_world st) \<or>
      (\<exists>x. e = trading_error_from_execution x \<and>
        (content (ts_world st') = (content (ts_world st))(OrderId (ord_id ord) \<mapsto> submitted clk ord) \<or>
         content (ts_world st') = (content (ts_world st))(OrderId (ord_id ord) \<mapsto>
           (submitted clk ord)\<lparr>ord_status := Rejected (clk 3) (''Execution failed: '' @ execution_error_display x),
                               ord_updated_at := clk 4\<rparr>))))"
  using run
proof (cases rule: place_order_cases [where 'z = "order_id \<Rightarrow> order option", consumes 1, case_names early save_failed reached])
  case early
  have "content (ts_world st') = content (ts_world st)"
    by (rule early(2)) (auto intro: positions_frame publish_keeps)
  with early(1) assms(2) show ?thesis by auto
next
  case (save_failed ps w1 e x)
  have "content w1 = content (ts_world st)"
    using save_failed(1) positions_frame unfolding approved_def keeps_def by (metis snd_conv)
  moreover from save_failed obtain y where "x = Err y" using assms(2) by (cases x) auto
  then have "content (ts_world st') = content w1" using save_Err save_failed(4) by blast
  ultimately show ?thesis using save_failed(2) assms(2) by auto
next
  case (reached ps w1 e w2)
  have c1: "content w1 = content (ts_world st)"
    using reached(1) positions_frame unfolding approved_def keeps_def by (metis snd_conv)
  have c2: "content w2 = (content w1)(OrderId (ord_id ord) \<mapsto> submitted clk ord)"
    using save_Ok [OF reached(2)] by simp
  from execute_effect [OF reached(3) assms(2)] c1 c2 show ?thesis by auto
qed

text \<open>What a cancellation leaves in the store.\<close>

lemma withdraw_store:
  assumes "withdraw_order tx P clk i ord st = (r, st')" and "r \<noteq> Panic"
  shows "content (ts_world st') = (if is_ok r then (content (ts_world st))(OrderId (ord_id ord) \<mapsto>
      ord\<lparr>ord_status := Cancelled (clk 0) ''User request'', ord_updated_at := clk 1\<rparr>) else content (ts_world st))"
proof -
  let ?ord' = "ord\<lparr>ord_status := Cancelled (clk 0) ''User request'', ord_updated_at := clk 1\<rparr>"
  obtain h w2 where h: "gw_cancel_order (tp_execution P) i (ts_world st) = (h, w2)" by fastforce
  have c2: "content w2 = content (ts_world st)"
    using cancel_frame [of i] h unfolding keeps_def by (metis snd_conv)
  obtain u w3 where up: "or_update (tp_order_repo P) ?ord' w2 = (u, w3)" by fastforce
  obtain k w4 where p: "io_publish (tp_event_bus P) (Ev_OrderCancelled i ''User request'' (clk 2)) w3 =
      ((Ok k :: (nat, trading_error) res), w4)"
    by (cases "eb_publish (tp_event_bus P) (Ev_OrderCancelled i ''User request'' (clk 2)) w3") (simp add: io_publish_def)
  note unf = withdraw_order_def io_bind_def io_map_err_def on_world_def io_return_def
  show ?thesis
  proof (cases h)
    case (Ok x)
    note run = assms(1) [unfolded unf h Ok]
    show ?thesis
    proof (cases u)
      case (Ok y)
      with run up p have "r = Ok ()" "ts_world st' = w4" by (auto simp del: One_nat_def)
      with update_Ok [OF up [unfolded Ok]] publish_run(1) [OF p] c2 show ?thesis by simp
    next
      case (Err e)
      with run up update_Err [OF up [unfolded Err]] c2 show ?thesis by auto
    qed (use run up assms(2) in simp)
  qed (use assms h c2 in \<open>auto simp: unf\<close>)
qed

lemma cancel_order_store:
  assumes run: "cancel_order tx P clk i st = (r, st')" and "r \<noteq> Panic"
  shows "(r = Ok () \<longrightarrow> (\<exists>ord. content (ts_world st) i = Some ord \<and> order_can_cancel ord \<and>
       content (ts_world st') = (content (ts_world st))(OrderId (ord_id ord) \<mapsto>
         ord\<lparr>ord_status := Cancelled (clk 0) ''User request'', ord_updated_at := clk 1\<rparr>))) \<and>
    (\<forall>e. r = Err e \<longrightarrow> content (ts_world st') = content (ts_world st)) \<and>
    (content (ts_world st) i = None \<longrightarrow> r \<noteq> Ok ())"
proof -
  obtain g w1 where g: "or_get (tp_order_repo P) i (ts_world st) = (g, w1)" by fastforce
  show ?thesis
  proof (cases "\<exists>ord. g = Ok (Some ord) \<and> order_can_cancel ord")
    case True
    then obtain ord where ord: "g = Ok (Some ord)" "order_can_cancel ord" by blast
    note c = get_Ok [OF g [unfolded ord(1)]]
    have run': "withdraw_order tx P clk i ord (st\<lparr>ts_world := w1\<rparr>) = (r, st')"
      using cancel_order_found [OF g [unfolded ord(1)] ord(2), of tx clk] run by simp
    have "content (ts_world st) i = Some ord" using c by simp
    with withdraw_store [OF run' assms(2)] c ord(2) show ?thesis by (cases r) auto
  next
    case False
    then have o: "\<not> is_ok r" "ts_world st' = w1" "g \<noteq> Panic"
      using cancel_order_not_found [OF run g] assms(2) by blast+
    have "content w1 = content (ts_world st)"
      using g o(3) get_Ok get_Err by (cases g) blast+
    with o show ?thesis by (auto simp: is_ok_iff)
  qed
qed

end

section \<open>A sample service\<close>

definition sample_gateway :: "order list execution_gateway" where
  "sample_gateway = \<lparr>gw_place_order = (\<lambda>ord w. (Ok (OrderId (ord_id ord)), ord # w)),
     gw_cancel_order = (\<lambda>i w. (Ok (), w))\<rparr>"

definition sample_bus :: "trading_event list event_bus_port" where
  "sample_bus = \<lparr>eb_publish = (\<lambda>ev w. (1, ev # w))\<rparr>"

definition sample_world :: "(order list, trading_event list) cli_world" where
  "sample_world = \<lparr>cw_orders = hash_empty, cw_positions = hash_empty, cw_gateway = [], cw_bus = []\<rparr>"

definition sample_state :: "(order list, trading_event list) cli_world trading_state" where
  "sample_state = \<lparr>ts_world = sample_world, ts_risk = risk_engine_new 0 risk_config_default\<rparr>"

definition sample_texts :: texts where
  "sample_texts = \<lparr>tx_time = (\<lambda>_. ''''), tx_uuid = \<lparr>u_parse = (\<lambda>s. Err ''''), u_fmt = (\<lambda>u. '''')\<rparr>,
     tx_status_debug = (\<lambda>_. '''')\<rparr>"

lemma sample_check_empty:
  "check_pre_trade exact_dec t (risk_engine_new 0 risk_config_default) sample_risk_order [] (Price 150) =
     decide t (risk_engine_new 0 risk_config_default) Allow"
  by (simp add: check_pre_trade_def with_lock_def trading_halted_def check_position_size_def
      check_daily_loss_limit_def total_daily_pnl_def check_drawdown_limit_def current_drawdown_pct_def
      check_total_exposure_def calculate_total_exposure_def exposure_of_def dec_sum_exact_dec
      money_new_def remaining_quantity_def quantity_new_unchecked_def check_symbol_exposure_def
      risk_engine_new_def risk_config_default_def risk_state_default_def Let_def sample_risk_order_def
      sample_order_def)

lemma sample_valid: "validate_for_submission sample_risk_order = Ok ()"
  by (simp add: validate_for_submission_def sample_risk_order_def sample_order_def)

lemma sample_place:
  "\<exists>st'. place_order exact_dec sample_texts (cli_ports sample_gateway sample_bus) int sample_risk_order sample_state =
     (Ok (OrderId 7), st') \<and> length (cw_gateway (ts_world st')) = 1"
  using validated_update [OF sample_valid, of int] sample_check_empty [of 0] sample_valid
  by (simp add: place_order_def cli_ports_def io_bind_def io_match_def io_map_err_def io_lift_def
      on_world_def on_positions_def on_orders_def on_gateway_def mock_position_find_open_positions_def
      mock_order_save_def sample_state_def sample_world_def sample_gateway_def sample_bus_def
      check_risk_def decide_def record_decision_def with_lock_def execute_and_announce_def
      io_publish_def io_return_def risk_engine_new_def sample_risk_order_def sample_order_def
      del: One_nat_def)

section \<open>Properties\<close>

text \<open>
  C6: no order reaches the gateway without approval.  If a placement changes anything at the
  gateway, or succeeds, then the order passed the submission check, and the risk engine of the
  service, given exactly the open positions of the repository, answered \<open>Allow\<close>; and a placement
  that reports a risk rejection has neither touched the gateway nor stored anything.
\<close>

theorem gateway_reached_only_after_approval:
  assumes "place_order D tx (cli_ports G B) clk ord st = (r, st')"
  shows "(cw_gateway (ts_world st') \<noteq> cw_gateway (ts_world st) \<or> is_ok r \<longrightarrow>
      validate_for_submission ord = Ok () \<and>
      (\<exists>e. check_pre_trade D (clk 0) (ts_risk st) ord (hash_values (cw_positions (ts_world st)))
             (check_price ord) = Ok (e, Allow))) \<and>
    ((\<exists>reason. r = Err (Tr_RiskRejected reason)) \<longrightarrow>
      cw_gateway (ts_world st') = cw_gateway (ts_world st) \<and>
      cli_orders (ts_world st') = cli_orders (ts_world st))"
proof -
  have keep: "keeps (\<lambda>w. (cw_gateway w, cw_orders w)) (pr_find_open_positions (tp_position_repo (cli_ports G B)))"
    "keeps (\<lambda>w. (cw_gateway w, cw_orders w))
       (io_publish (tp_event_bus (cli_ports G B)) ev :: (_, nat, trading_error) io)" for ev
    by (auto simp: keeps_def cli_ports_def on_positions_def io_publish_def split: prod.splits)
  have exec_err: "trading_error_from_execution x \<noteq> Tr_RiskRejected reason" for x reason
    by (cases x) auto
  have open_pos: "ps = hash_values (cw_positions (ts_world st))" if "approved D (cli_ports G B) clk ord st ps w1 e"
    for ps w1 e
    using that by (auto simp: approved_def cli_ports_def on_positions_def mock_position_find_open_positions_def)
  show ?thesis
    using assms
  proof (cases rule: place_order_cases [where 'z = "'a \<times> mock_orders", consumes 1, case_names early save_failed reached])
    case early
    have "(cw_gateway (ts_world st'), cw_orders (ts_world st')) = (cw_gateway (ts_world st), cw_orders (ts_world st))"
      by (rule early(2)) (rule keep)+
    with early(1) show ?thesis by (auto simp: is_ok_iff cli_orders_def)
  next
    case (save_failed ps w1 e x)
    then show ?thesis by (simp add: cli_ports_def on_orders_def mock_order_save_def)
  next
    case (reached ps w1 e w2)
    have ok: "validate_for_submission ord = Ok () \<and>
      (\<exists>e. check_pre_trade D (clk 0) (ts_risk st) ord (hash_values (cw_positions (ts_world st)))
             (check_price ord) = Ok (e, Allow))"
      using reached(1) open_pos [OF reached(1)] by (auto simp: approved_def)
    have "r \<noteq> Err (Tr_RiskRejected reason)" for reason
      using reached(3) exec_err
      by (auto simp: execute_and_announce_def io_match_def io_bind_def io_lift_def io_return_def
          on_world_def io_publish_def split: prod.splits res.splits)
    with ok show ?thesis by blast
  qed
qed

theorem gateway_reached_only_after_approval_witness:
  "\<exists>st' e. place_order exact_dec sample_texts (cli_ports sample_gateway sample_bus) int sample_risk_order
        sample_state = (Ok (OrderId 7), st') \<and>
     check_pre_trade exact_dec 0 (ts_risk sample_state) sample_risk_order [] (Price 150) = Ok (e, Allow)"
proof -
  obtain st' where p: "place_order exact_dec sample_texts (cli_ports sample_gateway sample_bus) int
      sample_risk_order sample_state = (Ok (OrderId 7), st')"
    using sample_place by blast
  have "hash_values (cw_positions (ts_world sample_state)) = []" "check_price sample_risk_order = Price 150"
    by (simp_all add: sample_state_def sample_world_def check_price_def sample_risk_order_def sample_order_def)
  with gateway_reached_only_after_approval [OF p] p show ?thesis by auto
qed



text \<open>
  C15: what a cancellation does.  It succeeds only for a stored order that can be cancelled, and
  then exactly that order is stored as cancelled, is what a later read of its identifier returns,
  and is not among the open orders; on any error the stored orders are unchanged.
\<close>

theorem cancellation_outcome:
  assumes "cancel_order tx (cli_ports G B) clk i st = (r, st')" and "r \<noteq> Panic"
    and "\<And>j ord. cli_orders (ts_world st) j = Some ord \<Longrightarrow> OrderId (ord_id ord) = j"
  shows "(r = Ok () \<longrightarrow> (\<exists>ord ord'. cli_orders (ts_world st) i = Some ord \<and> order_can_cancel ord \<and>
       order_cancel (clk 0) (clk 1) ord ''User request'' = Ok ord' \<and>
       cli_orders (ts_world st') = (cli_orders (ts_world st))(i \<mapsto> ord') \<and>
       fst (get_order (cli_ports G B) i st') = Ok (Some ord') \<and>
       (\<forall>ords st''. get_open_orders (cli_ports G B) st' = (Ok ords, st'') \<longrightarrow> ord' \<notin> set ords))) \<and>
    ((\<exists>e. r = Err e) \<longrightarrow> cli_orders (ts_world st') = cli_orders (ts_world st))"
proof -
  have "\<exists>ord ord'. cli_orders (ts_world st) i = Some ord \<and> order_can_cancel ord \<and>
       order_cancel (clk 0) (clk 1) ord ''User request'' = Ok ord' \<and>
       cli_orders (ts_world st') = (cli_orders (ts_world st))(i \<mapsto> ord') \<and>
       fst (get_order (cli_ports G B) i st') = Ok (Some ord') \<and>
       (\<forall>ords st''. get_open_orders (cli_ports G B) st' = (Ok ords, st'') \<longrightarrow> ord' \<notin> set ords)" if "r = Ok ()"
  proof -
    from cli.cancel_order_store [OF assms(1,2)] that obtain ord where ord:
      "cli_orders (ts_world st) i = Some ord" "order_can_cancel ord"
      "cli_orders (ts_world st') = (cli_orders (ts_world st))(OrderId (ord_id ord) \<mapsto>
         ord\<lparr>ord_status := Cancelled (clk 0) ''User request'', ord_updated_at := clk 1\<rparr>)" by blast
    let ?ord' = "ord\<lparr>ord_status := Cancelled (clk 0) ''User request'', ord_updated_at := clk 1\<rparr>"
    have i: "OrderId (ord_id ord) = i" using assms(3) ord(1) .
    have c: "order_cancel (clk 0) (clk 1) ord ''User request'' = Ok ?ord'"
      using ord(2) by (simp add: order_cancel_def)
    have rd: "fst (get_order (cli_ports G B) i st') = Ok (Some ?ord')"
      using ord(3) i by (simp add: get_order_def io_map_err_def on_world_def cli_ports_def on_orders_def
          mock_order_get_def cli_orders_def)
    have op: "?ord' \<notin> set ords" if "get_open_orders (cli_ports G B) st' = (Ok ords, st'')" for ords st''
      using that by (auto simp: get_open_orders_def io_map_err_def on_world_def cli_ports_def on_orders_def
          mock_order_get_open_def)
    from ord c i rd op show ?thesis by (intro exI [of _ ord] exI [of _ ?ord']) simp
  qed
  with cli.cancel_order_store [OF assms(1,2)] show ?thesis by blast
qed

definition sample_cancel_state :: "(order list, trading_event list) cli_world trading_state" where
  "sample_cancel_state = sample_state\<lparr>ts_world := sample_world\<lparr>cw_orders :=
     hash_insert (OrderId 7) sample_risk_order hash_empty\<rparr>\<rparr>"

theorem cancellation_outcome_witness:
  "\<exists>st' ord'. cancel_order sample_texts (cli_ports sample_gateway sample_bus) int (OrderId 7) sample_cancel_state =
       (Ok (), st') \<and> cli_orders (ts_world st') (OrderId 7) = Some ord' \<and>
     order_cancel 0 1 sample_risk_order ''User request'' = Ok ord'"
proof -
  have o: "ord_id sample_risk_order = 7" "order_can_cancel sample_risk_order"
    by (simp_all add: sample_risk_order_def sample_order_def order_can_cancel_def)
  obtain st' where p: "cancel_order sample_texts (cli_ports sample_gateway sample_bus) int (OrderId 7)
      sample_cancel_state = (Ok (), st')"
    by (simp add: cancel_order_def cli_ports_def io_bind_def io_map_err_def io_lift_def on_world_def
        on_orders_def on_gateway_def mock_order_get_def mock_order_update_def sample_cancel_state_def
        sample_state_def sample_world_def sample_gateway_def sample_bus_def io_publish_def io_return_def
        o order_cancel_def)
  have s: "cli_orders (ts_world sample_cancel_state) = [OrderId 7 \<mapsto> sample_risk_order]"
    by (simp add: cli_orders_def sample_cancel_state_def)
  have k: "OrderId (ord_id ord) = j" if "cli_orders (ts_world sample_cancel_state) j = Some ord" for j ord
    using that o by (auto simp: s split: if_splits)
  from cancellation_outcome [OF p _ k] s p show ?thesis by auto
qed

text \<open>
  An order made by \<open>Order::new\<close>, the constructor the command line calls, can
  never be placed: it starts as \<open>Pending\<close>, which the submission check refuses, so the placement
  returns a validation error and touches no port.
\<close>

theorem new_orders_cannot_be_placed:
  assumes "order_new fresh now account s sd ty q lp sp = Ok ord"
  shows "\<exists>msg. place_order D tx P clk ord st = (Err (Tr_Validation msg), st)"
proof -
  have "ord_status ord = Pending now" "check_prices ty lp sp = Ok ()" and o: "ord_symbol ord = s" "ord_quantity ord = q"
      "ord_type ord = ty" "ord_limit_price ord = lp" "ord_stop_price ord = sp"
    using assms by (auto simp: order_new_def res_simps)
  then have "\<exists>e msg. validate_for_submission ord = Err e \<and> trading_error_from_domain (tx_time tx) e = Tr_Validation msg"
    by (auto simp: validate_for_submission_def check_prices_def domain_error_invalid_quantity_def)
  then show ?thesis
    by (auto simp: place_order_def io_lift_map_err io_bind_lift)
qed

theorem new_orders_cannot_be_placed_witness:
  "\<exists>ord msg. order_new 3 0 1 (Symbol ''AAPL'') Buy Market (Quantity 10) None None = Ok ord \<and>
     place_order exact_dec sample_texts (cli_ports sample_gateway sample_bus) int ord sample_state =
       (Err (Tr_Validation msg), sample_state)"
proof -
  obtain ord where o: "order_new 3 0 1 (Symbol ''AAPL'') Buy Market (Quantity 10) None None = Ok ord"
    by (simp add: order_new_def check_prices_def)
  from new_orders_cannot_be_placed [OF o] o show ?thesis by blast
qed

end
