(* ===== verification/Execution.thy ===== *)
theory Execution
  imports Position_Entity
begin

text \<open>
  The messages between the services and an execution gateway: \<open>OrderModifications\<close> and
  \<open>OrderUpdate\<close> of \<open>crates/domain/src/execution.rs\<close>, with their builders.
\<close>

section \<open>Modifications\<close>

record order_modifications =
  om_quantity :: "quantity option"
  om_limit_price :: "price option"
  om_stop_price :: "price option"
  om_time_in_force :: "time_in_force option"

definition order_modifications_is_empty :: "order_modifications \<Rightarrow> bool" where
  "order_modifications_is_empty m =
     (om_quantity m = None \<and> om_limit_price m = None \<and> om_stop_price m = None \<and> om_time_in_force m = None)"

definition order_modifications_new :: order_modifications where
  "order_modifications_new =
     \<lparr>om_quantity = None, om_limit_price = None, om_stop_price = None, om_time_in_force = None\<rparr>"

definition modify_quantity :: "quantity \<Rightarrow> order_modifications \<Rightarrow> order_modifications" where
  "modify_quantity q m = m\<lparr>om_quantity := Some q\<rparr>"

definition modify_limit_price :: "price \<Rightarrow> order_modifications \<Rightarrow> order_modifications" where
  "modify_limit_price p m = m\<lparr>om_limit_price := Some p\<rparr>"

definition modify_stop_price :: "price \<Rightarrow> order_modifications \<Rightarrow> order_modifications" where
  "modify_stop_price p m = m\<lparr>om_stop_price := Some p\<rparr>"

definition modify_time_in_force :: "time_in_force \<Rightarrow> order_modifications \<Rightarrow> order_modifications" where
  "modify_time_in_force tif m = m\<lparr>om_time_in_force := Some tif\<rparr>"

lemma modifications_is_empty_iff: "order_modifications_is_empty m \<longleftrightarrow> m = order_modifications_new"
  by (cases m) (auto simp: order_modifications_is_empty_def order_modifications_new_def)

section \<open>Updates\<close>

record order_update =
  ou_order_id :: order_id
  ou_timestamp :: timestamp
  ou_status :: order_status
  ou_filled_quantity :: quantity
  ou_remaining_quantity :: quantity
  ou_avg_fill_price :: "price option"
  ou_last_fill_price :: "price option"
  ou_last_fill_quantity :: "quantity option"
  ou_commission :: "money option"
  ou_reason :: "string option"

definition order_update_new ::
    "timestamp \<Rightarrow> order_id \<Rightarrow> order_status \<Rightarrow> quantity \<Rightarrow> quantity \<Rightarrow> order_update" where
  "order_update_new now order_id status filled remaining =
     \<lparr>ou_order_id = order_id, ou_timestamp = now, ou_status = status,
      ou_filled_quantity = filled, ou_remaining_quantity = remaining,
      ou_avg_fill_price = None, ou_last_fill_price = None, ou_last_fill_quantity = None,
      ou_commission = None, ou_reason = None\<rparr>"

definition with_avg_fill_price :: "price \<Rightarrow> order_update \<Rightarrow> order_update" where
  "with_avg_fill_price p u = u\<lparr>ou_avg_fill_price := Some p\<rparr>"

definition with_last_fill :: "price \<Rightarrow> quantity \<Rightarrow> order_update \<Rightarrow> order_update" where
  "with_last_fill p q u = u\<lparr>ou_last_fill_price := Some p, ou_last_fill_quantity := Some q\<rparr>"

definition with_commission :: "money \<Rightarrow> order_update \<Rightarrow> order_update" where
  "with_commission c u = u\<lparr>ou_commission := Some c\<rparr>"

definition with_reason :: "string \<Rightarrow> order_update \<Rightarrow> order_update" where
  "with_reason r u = u\<lparr>ou_reason := Some r\<rparr>"

definition update_is_filled :: "order_update \<Rightarrow> bool" where
  "update_is_filled u = (case ou_status u of Filled _ \<Rightarrow> True | _ \<Rightarrow> False)"

definition update_is_terminal :: "order_update \<Rightarrow> bool" where
  "update_is_terminal u = status_is_terminal (ou_status u)"

lemma filled_update_terminal: "update_is_filled u \<Longrightarrow> update_is_terminal u"
  by (auto simp: update_is_filled_def update_is_terminal_def split: order_status.splits)

end
