(* ===== verification/Order_Lifecycle.thy ===== *)
theory Order_Lifecycle
  imports Trading_Service Execution "HOL-Library.List_Lexorder" "HOL-Library.Char_ord"
begin

text \<open>
  The order lifecycle manager of \<open>crates/application/src/order_lifecycle.rs\<close>: it applies the
  status updates and the fills that the gateway reports, with deduplication of fills, retries with
  a growing delay, and a dead letter queue.  Clock readings and fresh identifiers are drawn in
  order from the streams \<open>ls_now\<close> and \<open>ls_fresh\<close>, so that a retry sees later ones.  The two tasks
  that \<open>start\<close> spawns call \<open>process_order_update\<close> and \<open>process_fill\<close> for each message; each call
  is one atomic step here.
\<close>

section \<open>Errors and configuration\<close>

datatype lifecycle_error =
    Lc_OrderUpdate string
  | Lc_FillProcessing string
  | Lc_Repository string
  | Lc_EventPublish string
  | Lc_Timeout string
  | Lc_DuplicateFill string

fun lifecycle_error_display :: "lifecycle_error \<Rightarrow> string" where
  "lifecycle_error_display (Lc_OrderUpdate message) = ''Order update failed: '' @ message"
| "lifecycle_error_display (Lc_FillProcessing message) = ''Fill processing failed: '' @ message"
| "lifecycle_error_display (Lc_Repository message) = ''Repository error: '' @ message"
| "lifecycle_error_display (Lc_EventPublish message) = ''Event publishing failed: '' @ message"
| "lifecycle_error_display (Lc_Timeout message) = ''Operation timed out: '' @ message"
| "lifecycle_error_display (Lc_DuplicateFill fill_id) = ''Duplicate fill: '' @ fill_id"

fun lifecycle_is_retryable :: "lifecycle_error \<Rightarrow> bool" where
  "lifecycle_is_retryable (Lc_Repository _) = True"
| "lifecycle_is_retryable (Lc_EventPublish _) = True"
| "lifecycle_is_retryable (Lc_Timeout _) = True"
| "lifecycle_is_retryable _ = False"

definition lifecycle_from_repository :: "repository_error \<Rightarrow> lifecycle_error" where
  "lifecycle_from_repository e = Lc_Repository (repository_error_display e)"

record dead_letter_entry =
  dle_id :: uuid
  dle_correlation_id :: uuid
  dle_timestamp :: timestamp
  dle_event_type :: string
  dle_error :: string
  dle_payload :: string

record lifecycle_config =
  lcc_shutdown_timeout_secs :: u64
  lcc_max_retries :: u32
  lcc_retry_delay_ms :: u64
  lcc_max_retry_delay_ms :: u64
  lcc_operation_timeout_secs :: u64

definition lifecycle_config_default :: lifecycle_config where
  "lifecycle_config_default =
     \<lparr>lcc_shutdown_timeout_secs = 30, lcc_max_retries = 3, lcc_retry_delay_ms = 100,
      lcc_max_retry_delay_ms = 5000, lcc_operation_timeout_secs = 10\<rparr>"

section \<open>The manager\<close>

record 'w lifecycle_ports =
  lp_order_repo :: "'w order_repository"
  lp_position_repo :: "'w position_repository"
  lp_fill_repo :: "'w fill_repository"
  lp_event_bus :: "'w event_bus_port"
  lp_dead_letter_queue :: "(dead_letter_entry \<Rightarrow> ('w, unit, lifecycle_error) io) option"
  lp_config :: lifecycle_config

text \<open>
  The state: the world behind the ports, the identifiers of the processed fills, the sleeps of the
  retries in milliseconds (latest first), and the number of clock readings so far.
\<close>

record 'w lifecycle_state =
  ls_world :: 'w
  ls_processed_fills :: "string set"
  ls_slept :: "nat list"
  ls_ticks :: nat

text \<open>
  What belongs to other crates: texts, the clock, fresh identifiers, and the iteration order of a
  \<open>HashSet\<close>.
\<close>

record outside =
  os_time :: "timestamp \<Rightarrow> string"
  os_uuid :: uuid_ops
  os_quantity_debug :: "quantity \<Rightarrow> string"
  os_now :: "nat \<Rightarrow> timestamp"
  os_fresh :: "nat \<Rightarrow> uuid"
  os_iter :: "string set \<Rightarrow> string list"

definition iterates :: "outside \<Rightarrow> bool" where
  "iterates X = (\<forall>S. finite S \<longrightarrow> set (os_iter X S) = S \<and> distinct (os_iter X S))"

definition in_world :: "('w, 'a, 'e) io \<Rightarrow> ('w lifecycle_state, 'a, 'e) io" where
  "in_world m st = (case m (ls_world st) of (r, w) \<Rightarrow> (r, st\<lparr>ls_world := w\<rparr>))"

definition now_io :: "outside \<Rightarrow> ('w lifecycle_state, timestamp, 'e) io" where
  "now_io X st = (Ok (os_now X (ls_ticks st)), st\<lparr>ls_ticks := ls_ticks st + 1\<rparr>)"

definition fresh_io :: "outside \<Rightarrow> ('w lifecycle_state, uuid, 'e) io" where
  "fresh_io X st = (Ok (os_fresh X (ls_ticks st)), st\<lparr>ls_ticks := ls_ticks st + 1\<rparr>)"

definition sleep_io :: "nat \<Rightarrow> ('w lifecycle_state, unit, 'e) io" where
  "sleep_io ms st = (Ok (), st\<lparr>ls_slept := ms # ls_slept st\<rparr>)"

section \<open>Status updates\<close>

definition create_fill_from_update :: "order_update \<Rightarrow> order \<Rightarrow> fill" where
  "create_fill_from_update update ord =
     fill_new (ou_order_id update) (ord_symbol ord) (ou_filled_quantity update)
       (case ou_avg_fill_price update of Some p \<Rightarrow> p | None \<Rightarrow> price_new_unchecked 1)
       (ord_side ord) (ou_timestamp update)"

definition publish_at ::
    "outside \<Rightarrow> 'w lifecycle_ports \<Rightarrow> (timestamp \<Rightarrow> trading_event) \<Rightarrow> ('w lifecycle_state, unit, 'e) io" where
  "publish_at X P ev =
     io_bind (now_io X) (\<lambda>t. io_bind (in_world (io_publish (lp_event_bus P) (ev t))) (\<lambda>_. io_return ()))"

definition handle_order_update ::
    "outside \<Rightarrow> 'w lifecycle_ports \<Rightarrow> order_update \<Rightarrow> ('w lifecycle_state, unit, lifecycle_error) io" where
  "handle_order_update X P update =
     (let order_id = ou_order_id update in
      io_bind (io_map_err lifecycle_from_repository (in_world (or_get (lp_order_repo P) order_id))) (\<lambda>found.
      case found of
        None \<Rightarrow> io_lift (Err (Lc_OrderUpdate (''Order not found: '' @ order_id_display (os_uuid X) order_id)))
      | Some ord \<Rightarrow>
          io_bind (now_io X) (\<lambda>now.
          io_bind (io_map_err (\<lambda>e. Lc_OrderUpdate (''Invalid status transition: '' @ domain_error_display (os_time X) e))
                     (io_lift (update_status now ord (ou_status update)))) (\<lambda>ord'.
          io_bind (io_map_err lifecycle_from_repository (in_world (or_update (lp_order_repo P) ord'))) (\<lambda>_.
          case ou_status update of
            Filled _ \<Rightarrow> publish_at X P (Ev_OrderFilled order_id (create_fill_from_update update ord'))
          | Cancelled _ reason \<Rightarrow> publish_at X P (Ev_OrderCancelled order_id reason)
          | Rejected _ reason \<Rightarrow> publish_at X P (Ev_OrderRejected order_id reason)
          | _ \<Rightarrow> io_return ())))))"

section \<open>Positions\<close>

definition calculate_realized_pnl :: "dec_ops \<Rightarrow> position \<Rightarrow> fill \<Rightarrow> (money, 'e) res" where
  "calculate_realized_pnl D p f =
     bind (or_panic (if position_is_long p
                     then d_sub D (price_inner (fl_price f)) (price_inner (pos_avg_entry_price p))
                     else d_sub D (price_inner (pos_avg_entry_price p)) (price_inner (fl_price f)))) (\<lambda>d.
     bind (or_panic (d_mul D d (qty_inner (pos_quantity p)))) (\<lambda>pnl.
     Ok (money_new_unchecked pnl (pos_currency p))))"

definition calculate_partial_pnl :: "dec_ops \<Rightarrow> position \<Rightarrow> fill \<Rightarrow> (money, 'e) res" where
  "calculate_partial_pnl D p f =
     bind (or_panic (if position_is_long p
                     then d_sub D (price_inner (fl_price f)) (price_inner (pos_avg_entry_price p))
                     else d_sub D (price_inner (pos_avg_entry_price p)) (price_inner (fl_price f)))) (\<lambda>d.
     bind (or_panic (d_mul D d (qty_inner (fl_quantity f)))) (\<lambda>pnl.
     Ok (money_new_unchecked pnl (pos_currency p))))"

definition lc_quantity :: "dec_ops \<Rightarrow> decimal \<Rightarrow> (quantity, lifecycle_error) res" where
  "lc_quantity D v =
     map_err (\<lambda>e. Lc_Repository (''Invalid quantity: '' @ value_error_display e)) (quantity_new D v)"

text \<open>The change that a fill means for a position, from what the position is before it.\<close>

definition classify_change :: "position \<Rightarrow> fill \<Rightarrow> position_change" where
  "classify_change p f =
     (if qty_inner (pos_quantity p) = 0 then Opened
      else if pos_side p = fl_side f then Increased
      else if qty_inner (pos_quantity p) \<le> qty_inner (fl_quantity f) then Flipped
      else Decreased)"

text \<open>
  The new position: the part of \<open>update_position\<close> between reading and writing the repository.
  The times and identifiers it may draw are arguments.
\<close>

definition position_after_fill ::
    "dec_ops \<Rightarrow> (timestamp \<Rightarrow> string) \<Rightarrow> uuid \<Rightarrow> timestamp \<Rightarrow> timestamp \<Rightarrow> fill \<Rightarrow> order \<Rightarrow> position \<Rightarrow>
     (position, lifecycle_error) res" where
  "position_after_fill D tf fresh now1 now2 f ord p =
     (if pos_side p = fl_side f
      then map_err (\<lambda>e. Lc_FillProcessing (''Failed to add fill: '' @ domain_error_display tf e))
             (position_add_fill D now1 p f)
      else
        bind (or_panic (d_sub D (qty_inner (pos_quantity p)) (qty_inner (fl_quantity f)))) (\<lambda>remaining_qty.
        if remaining_qty \<le> 0
        then
          bind (calculate_realized_pnl D p f) (\<lambda>realized_pnl.
          bind (add_realized_pnl D now1 p realized_pnl) (\<lambda>_.
          if remaining_qty < 0
          then bind (lc_quantity D (- remaining_qty)) (\<lambda>q.
               Ok (position_new fresh now2 (ord_account_id ord) (fl_symbol f)
                     (if fl_side f = Buy then Long else Short) q (fl_price f) USD))
          else bind (lc_quantity D 0) (\<lambda>q.
               Ok (position_new fresh now2 (ord_account_id ord) (fl_symbol f)
                     (position_direction_of p) q (fl_price f) USD))))
        else
          bind (calculate_partial_pnl D p f) (\<lambda>realized_pnl.
          bind (add_realized_pnl D now1 p realized_pnl) (\<lambda>p'.
          bind (lc_quantity D remaining_qty) (\<lambda>new_quantity.
          Ok p')))))"

definition update_position ::
    "dec_ops \<Rightarrow> outside \<Rightarrow> 'w lifecycle_ports \<Rightarrow> fill \<Rightarrow> order \<Rightarrow>
     ('w lifecycle_state, position_change, lifecycle_error) io" where
  "update_position D X P f ord =
     io_bind (io_map_err lifecycle_from_repository
                (in_world (pr_get_by_symbol (lp_position_repo P) (fl_symbol f)))) (\<lambda>found.
     io_bind (case found of
                Some p \<Rightarrow> io_return p
              | None \<Rightarrow>
                  io_bind (io_lift (lc_quantity D 0)) (\<lambda>q.
                  io_bind (fresh_io X) (\<lambda>i. io_bind (now_io X) (\<lambda>now.
                  io_return (position_new i now (ord_account_id ord) (fl_symbol f)
                    (case fl_side f of Buy \<Rightarrow> Long | Sell \<Rightarrow> Short) q (fl_price f) USD))))) (\<lambda>p.
     io_bind (fresh_io X) (\<lambda>i. io_bind (now_io X) (\<lambda>now1. io_bind (now_io X) (\<lambda>now2.
     io_bind (io_lift (position_after_fill D (os_time X) i now1 now2 f ord p)) (\<lambda>p'.
     io_bind (io_map_err lifecycle_from_repository (in_world (pr_upsert (lp_position_repo P) p'))) (\<lambda>_.
     io_return (classify_change p f))))))))"

section \<open>Fills\<close>

definition handle_fill ::
    "dec_ops \<Rightarrow> outside \<Rightarrow> 'w lifecycle_ports \<Rightarrow> fill \<Rightarrow> ('w lifecycle_state, unit, lifecycle_error) io" where
  "handle_fill D X P f =
     (let order_id = fl_order_id f in
      io_bind (io_map_err (\<lambda>e. case e of Repo_DuplicateKey _ _ \<Rightarrow>
                             Lc_DuplicateFill (order_id_display (os_uuid X) order_id)
                           | _ \<Rightarrow> lifecycle_from_repository e)
                 (in_world (fr_save (lp_fill_repo P) f))) (\<lambda>_.
      io_bind (io_map_err lifecycle_from_repository (in_world (or_get (lp_order_repo P) order_id))) (\<lambda>found.
      case found of
        None \<Rightarrow> io_lift (Err (Lc_OrderUpdate
                  (''Order not found for fill: '' @ order_id_display (os_uuid X) order_id)))
      | Some ord \<Rightarrow>
          io_bind (now_io X) (\<lambda>now1. io_bind (now_io X) (\<lambda>now2.
          io_bind (io_map_err (\<lambda>e. Lc_FillProcessing (''Failed to fill order: '' @ domain_error_display (os_time X) e))
                     (io_lift (order_fill D now1 now2 ord (fl_quantity f) (fl_price f)))) (\<lambda>ord'.
          io_bind (io_map_err lifecycle_from_repository (in_world (or_update (lp_order_repo P) ord'))) (\<lambda>_.
          io_bind (update_position D X P f ord') (\<lambda>position_change.
          io_bind (io_map_err lifecycle_from_repository
                     (in_world (pr_get_by_symbol (lp_position_repo P) (fl_symbol f)))) (\<lambda>held.
          io_bind (case held of
                     Some p \<Rightarrow> publish_at X P (Ev_PositionUpdated (fl_symbol f) p position_change)
                   | None \<Rightarrow> io_return ()) (\<lambda>_.
          publish_at X P (Ev_OrderFilled order_id f)))))))))))"

section \<open>Retries\<close>

definition give_up ::
    "outside \<Rightarrow> 'w lifecycle_ports \<Rightarrow> string \<Rightarrow> uuid \<Rightarrow> lifecycle_error \<Rightarrow>
     ('w lifecycle_state, unit, lifecycle_error) io" where
  "give_up X P operation_name correlation_id e =
     (case lp_dead_letter_queue P of
        None \<Rightarrow> io_lift (Err e)
      | Some send \<Rightarrow>
          io_bind (fresh_io X) (\<lambda>i. io_bind (now_io X) (\<lambda>now.
          io_match (in_world (send \<lparr>dle_id = i, dle_correlation_id = correlation_id, dle_timestamp = now,
                      dle_event_type = operation_name, dle_error = lifecycle_error_display e,
                      dle_payload = [CHR 0x22] @ operation_name @ [CHR 0x22]\<rparr>))
            (\<lambda>_. io_lift (Err e)) (\<lambda>_. io_lift (Err e)))))"

text \<open>
  The loop, by the number of retries left.  A delay in milliseconds is a \<open>Duration\<close>, whose doubling
  from a \<open>u64\<close> never overflows before the minimum is taken.
\<close>

primrec retry_loop ::
    "outside \<Rightarrow> 'w lifecycle_ports \<Rightarrow> string \<Rightarrow> uuid \<Rightarrow> ('w lifecycle_state, unit, lifecycle_error) io \<Rightarrow>
     nat \<Rightarrow> nat \<Rightarrow> ('w lifecycle_state, unit, lifecycle_error) io" where
  "retry_loop X P name cid operation 0 delay =
     io_match operation io_return (give_up X P name cid)"
| "retry_loop X P name cid operation (Suc n) delay =
     io_match operation io_return
       (\<lambda>e. if lifecycle_is_retryable e
            then io_bind (sleep_io delay) (\<lambda>_.
                 retry_loop X P name cid operation n
                   (min (delay * 2) (unat (lcc_max_retry_delay_ms (lp_config P)))))
            else give_up X P name cid e)"

definition execute_with_retry ::
    "outside \<Rightarrow> 'w lifecycle_ports \<Rightarrow> ('w lifecycle_state, unit, lifecycle_error) io \<Rightarrow> string \<Rightarrow> uuid \<Rightarrow>
     ('w lifecycle_state, unit, lifecycle_error) io" where
  "execute_with_retry X P operation name cid =
     retry_loop X P name cid operation (unat (lcc_max_retries (lp_config P)))
       (unat (lcc_retry_delay_ms (lp_config P)))"

definition process_order_update ::
    "outside \<Rightarrow> 'w lifecycle_ports \<Rightarrow> order_update \<Rightarrow> uuid \<Rightarrow>
     ('w lifecycle_state, unit, lifecycle_error) io" where
  "process_order_update X P update cid =
     execute_with_retry X P (handle_order_update X P update) ''order_update'' cid"

definition fill_id :: "outside \<Rightarrow> fill \<Rightarrow> string" where
  "fill_id X f =
     order_id_display (os_uuid X) (fl_order_id f) @ ''-'' @ os_time X (fl_timestamp f) @ ''-'' @
     os_quantity_debug X (fl_quantity f)"

text \<open>The processed identifiers, with the eviction of the first 5000 in iteration order.\<close>

definition remember_fill :: "outside \<Rightarrow> string \<Rightarrow> string set \<Rightarrow> string set" where
  "remember_fill X i S =
     (let S' = insert i S in
      if 10000 < card S' then S' - set (take 5000 (os_iter X S')) else S')"

definition process_fill ::
    "dec_ops \<Rightarrow> outside \<Rightarrow> 'w lifecycle_ports \<Rightarrow> fill \<Rightarrow> uuid \<Rightarrow>
     ('w lifecycle_state, unit, lifecycle_error) io" where
  "process_fill D X P f cid st =
     (if fill_id X f \<in> ls_processed_fills st
      then (Err (Lc_DuplicateFill (fill_id X f)), st)
      else
        (case execute_with_retry X P (handle_fill D X P f) ''fill'' cid st of
           (Ok u, st') \<Rightarrow>
             (Ok u, st'\<lparr>ls_processed_fills := remember_fill X (fill_id X f) (ls_processed_fills st')\<rparr>)
         | (Err e, st') \<Rightarrow> (Err e, st')
         | (Panic, st') \<Rightarrow> (Panic, st')))"

section \<open>The wiring over the in-memory repositories\<close>

text \<open>
  The order and position repositories are those of the command line; the fill repository, the bus
  and the dead letter queue are arguments.
\<close>

definition lifecycle_wiring ::
    "'g fill_repository \<Rightarrow> 'b event_bus_port \<Rightarrow> (dead_letter_entry \<Rightarrow> ('g, unit, lifecycle_error) io) option \<Rightarrow>
     lifecycle_config \<Rightarrow> ('g, 'b) cli_world lifecycle_ports" where
  "lifecycle_wiring F B Q cfg =
     (let T = cli_ports \<lparr>gw_place_order = (\<lambda>_. io_lift Panic), gw_cancel_order = (\<lambda>_. io_lift Panic)\<rparr> B in
      \<lparr>lp_order_repo = tp_order_repo T, lp_position_repo = tp_position_repo T,
       lp_fill_repo = \<lparr>fr_save = (\<lambda>f. on_gateway (fr_save F f))\<rparr>,
       lp_event_bus = tp_event_bus T,
       lp_dead_letter_queue = map_option (\<lambda>send e. on_gateway (send e)) Q,
       lp_config = cfg\<rparr>)"

definition cli_positions :: "('g, 'b) cli_world \<Rightarrow> symbol \<Rightarrow> position option" where
  "cli_positions w = hash_get (cw_positions w)"

section \<open>A manager over stores\<close>

locale lifecycle_service =
  orders: order_store "lp_order_repo P" content + positions: position_store "lp_position_repo P" held
  for P :: "'w lifecycle_ports" and content :: "'w \<Rightarrow> order_id \<Rightarrow> order option"
    and held :: "'w \<Rightarrow> symbol \<Rightarrow> position option" +
  assumes order_frames: "keeps held (or_get (lp_order_repo P) i)" "keeps held (or_update (lp_order_repo P) ord)"
    and fill_frame: "keeps held (fr_save (lp_fill_repo P) f)"
    and publish_frame: "held (snd (eb_publish (lp_event_bus P) ev w)) = held w"
      "content (snd (eb_publish (lp_event_bus P) ev w)) = content w"
    and dlq_frame: "lp_dead_letter_queue P = Some send \<Longrightarrow> keeps held (send entry)"
begin

text \<open>The computation keeps every world without open positions without open positions.\<close>

abbreviation flat :: "'w lifecycle_state \<Rightarrow> bool" where
  "flat st \<equiv> held (ls_world st) = Map.empty"

lemma flat_in_world: "keeps held m \<Longrightarrow> stays flat (in_world m)"
  by (auto simp: keeps_def stays_def in_world_def split: prod.splits) (metis snd_conv)

lemma flat_now: "stays flat (now_io X)" and flat_fresh: "stays flat (fresh_io X)"
  and flat_sleep: "stays flat (sleep_io d)"
  by (simp_all add: stays_def now_io_def fresh_io_def sleep_io_def)

lemma flat_publish: "stays flat (publish_at X P ev)"
proof -
  have "keeps held (io_publish (lp_event_bus P) e)" for e
    using publish_frame(1) by (auto simp: keeps_def io_publish_def split: prod.splits) (metis snd_conv)
  then show ?thesis unfolding publish_at_def by (blast intro: flat_now flat_in_world)
qed

lemma no_position_no_update:
  assumes "flat st" and "update_position D X P f ord st = (r, st')"
  shows "flat st' \<and> (\<forall>c. r \<noteq> Ok c)"
proof -
  obtain g w1 where g: "pr_get_by_symbol (lp_position_repo P) (fl_symbol f) (ls_world st) = (g, w1)" by fastforce
  have c: "held w1 = Map.empty"
    using positions.get_by_symbol_frame [of "fl_symbol f"] g assms(1) unfolding keeps_def by (metis snd_conv)
  show ?thesis
  proof (cases g)
    case (Ok found)
    then have "found = None" using positions.get_by_symbol_Ok g assms(1) by fastforce
    moreover have "lc_quantity D 0 = Err (Lc_Repository (''Invalid quantity: '' @
        value_error_display (Value_InvalidQuantity (''Quantity must be positive, got '' @ d_fmt D 0))))"
      by (simp add: lc_quantity_def quantity_new_zero)
    ultimately show ?thesis
      using assms(2) g Ok c
      by (auto simp: update_position_def io_bind_def io_map_err_def in_world_def io_lift_def)
  qed (use assms(2) g c in \<open>auto simp: update_position_def io_bind_def io_map_err_def in_world_def\<close>)
qed

lemma flat_update_position: "stays flat (update_position D X P f ord)"
  unfolding stays_def using no_position_no_update by (metis prod.collapse)

lemma flat_handle_fill: "stays flat (handle_fill D X P f)"
  unfolding handle_fill_def Let_def
  by (intro stays_bind stays_map_err flat_in_world fill_frame order_frames)
    (auto split: option.splits intro!: stays_bind stays_map_err flat_in_world order_frames flat_now
      flat_update_position positions.get_by_symbol_frame flat_publish)

lemma flat_give_up: "stays flat (give_up X P name cid e)"
  unfolding give_up_def
  by (auto split: option.splits intro!: stays_bind stays_match flat_now flat_fresh flat_in_world
      intro: dlq_frame)

lemma flat_retry: "stays flat op \<Longrightarrow> stays flat (retry_loop X P name cid op n d)"
  by (induction n arbitrary: d) (auto intro!: stays_match stays_bind flat_sleep flat_give_up)

lemma flat_process_fill: "stays flat (process_fill D X P f cid)"
proof -
  have "stays flat (execute_with_retry X P (handle_fill D X P f) ''fill'' cid)"
    unfolding execute_with_retry_def by (rule flat_retry [OF flat_handle_fill])
  then show ?thesis
    by (auto simp: stays_def process_fill_def split: prod.splits res.splits)
qed

text \<open>A status update changes the status of the one order, along the lifecycle.\<close>

lemma handle_order_update_Ok:
  assumes "handle_order_update X P u st = (Ok (), st')"
  obtains ord where "content (ls_world st) (ou_order_id u) = Some ord"
    and "is_valid_transition (ord_status ord) (ou_status u)"
    and "content (ls_world st') = (content (ls_world st))(OrderId (ord_id ord) \<mapsto>
           ord\<lparr>ord_status := ou_status u, ord_updated_at := os_now X (ls_ticks st)\<rparr>)"
proof -
  obtain g w1 where g: "or_get (lp_order_repo P) (ou_order_id u) (ls_world st) = (g, w1)" by fastforce
  note unf = handle_order_update_def Let_def io_bind_def io_map_err_def in_world_def io_lift_def now_io_def
  from assms obtain found where f: "g = Ok found" by (cases g) (auto simp: unf g)
  then have found: "found = content (ls_world st) (ou_order_id u)" "content w1 = content (ls_world st)"
    using orders.get_Ok g by blast+
  from assms f obtain ord where o: "found = Some ord" by (cases found) (auto simp: unf g)
  let ?now = "os_now X (ls_ticks st)"
  let ?ord' = "ord\<lparr>ord_status := ou_status u, ord_updated_at := ?now\<rparr>"
  have v: "is_valid_transition (ord_status ord) (ou_status u)"
    using assms f o by (cases "is_valid_transition (ord_status ord) (ou_status u)")
      (auto simp: unf g update_status_def)
  obtain h w2 where h: "or_update (lp_order_repo P) ?ord' w1 = (h, w2)" by fastforce
  from assms f o v obtain y where y: "h = Ok y" by (cases h) (auto simp: unf g update_status_def h)
  have c2: "content w2 = (content w1)(OrderId (ord_id ord) \<mapsto> ?ord')"
    using orders.update_Ok h y by fastforce
  have pub: "content (ls_world (snd (publish_at X P ev s))) = content (ls_world s)" for ev s
    using publish_frame(2)
    by (auto simp: publish_at_def unf io_publish_def io_return_def split: prod.splits) (metis snd_conv)
  have "(case ou_status u of
            Filled _ \<Rightarrow> publish_at X P (Ev_OrderFilled (ou_order_id u) (create_fill_from_update u ?ord'))
          | Cancelled _ reason \<Rightarrow> publish_at X P (Ev_OrderCancelled (ou_order_id u) reason)
          | Rejected _ reason \<Rightarrow> publish_at X P (Ev_OrderRejected (ou_order_id u) reason)
          | _ \<Rightarrow> io_return ()) (st\<lparr>ls_ticks := ls_ticks st + 1, ls_world := w2\<rparr>) =
      ((Ok () :: (unit, lifecycle_error) res), st')"
    using assms f o v y by (simp add: unf g update_status_def h cong: order_status.case_cong)
  then have "content (ls_world st') = content w2"
    by (cases "ou_status u")
      (auto simp: io_return_def pub dest!: arg_cong [where f = "\<lambda>x. content (ls_world (snd x))"])
  moreover have "content (ls_world st) (ou_order_id u) = Some ord" using found(1) o by simp
  ultimately show thesis using that [of ord] c2 found(2) v by simp
qed

end

interpretation lifecycle_mem: lifecycle_service "lifecycle_wiring F B Q cfg" cli_orders cli_positions
  for F :: "'g fill_repository" and B :: "'b event_bus_port"
    and Q :: "(dead_letter_entry \<Rightarrow> ('g, unit, lifecycle_error) io) option" and cfg :: lifecycle_config
  by unfold_locales
    (auto simp: lifecycle_wiring_def cli_ports_def cli_orders_def cli_positions_def keeps_def Let_def
      on_orders_def on_positions_def on_gateway_def mock_order_save_def mock_order_update_def
      mock_order_get_def mock_order_get_open_def mock_position_find_open_positions_def
      mock_position_upsert_def mock_position_find_by_symbol_def set_hash_values split: prod.splits)

section \<open>The retry loop\<close>

text \<open>The delay before the \<open>k\<close>-th retry, counted from zero.\<close>

definition backoff :: "nat \<Rightarrow> nat \<Rightarrow> nat \<Rightarrow> nat" where
  "backoff first most k = (if k = 0 then first else min (first * 2 ^ k) most)"

lemma backoff_Suc: "backoff first most (Suc k) = backoff (min (first * 2) most) most k"
proof (cases k)
  case (Suc j)
  have "min (min (first * 2) most * 2 ^ Suc j) most = min (first * 2 ^ Suc (Suc j)) most"
  proof (cases "first * 2 \<le> most")
    case False
    have "most \<le> most * 2 ^ Suc j" by simp
    moreover have "most * 2 ^ Suc j \<le> first * 2 * 2 ^ Suc j" using False by (intro mult_le_mono1) simp
    then have "most * 2 ^ Suc j \<le> first * 2 ^ Suc (Suc j)" by (simp only: power_Suc ac_simps)
    ultimately have "most \<le> first * 2 ^ Suc (Suc j)" by (rule order_trans)
    then have "min (first * 2 ^ Suc (Suc j)) most = most" by (rule min_absorb2)
    moreover have "min (first * 2) most = most" using False by simp
    moreover have "min (most * 2 ^ Suc j) most = most" by (rule min_absorb2) simp
    ultimately show ?thesis by (simp only:)
  qed (simp add: min_def ac_simps)
  with Suc show ?thesis by (simp add: backoff_def)
qed (simp add: backoff_def)

lemma backoff_le: "backoff first most k \<le> max first most"
  by (auto simp: backoff_def intro: min.coboundedI2 max.coboundedI2)

lemma slept_give_up:
  assumes "give_up X P name cid e st = (r, st')"
  shows "ls_slept st' = ls_slept st" and "r = Err e \<or> r = Panic"
  using assms
  by (auto simp: give_up_def io_bind_def io_match_def io_lift_def fresh_io_def now_io_def in_world_def
      split: option.splits prod.splits res.splits)

lemma retry_loop_sleeps:
  assumes "keeps ls_slept operation"
    and "retry_loop X P name cid operation n d st = (r, st')"
  shows "\<exists>k \<le> n. ls_slept st' =
      rev (map (backoff d (unat (lcc_max_retry_delay_ms (lp_config P)))) [0..<k]) @ ls_slept st \<and>
      (\<forall>e. r = Err e \<and> lifecycle_is_retryable e \<longrightarrow> k = n)"
  using assms(2)
proof (induction n arbitrary: d st)
  case 0
  obtain g st1 where g: "operation st = (g, st1)" by fastforce
  have s: "ls_slept st1 = ls_slept st" using keepsD [OF assms(1) g] .
  with 0 g show ?case
    by (cases g) (auto simp: io_match_def io_return_def dest: slept_give_up)
next
  case (Suc n)
  let ?m = "unat (lcc_max_retry_delay_ms (lp_config P))"
  obtain g st1 where g: "operation st = (g, st1)" by fastforce
  have s: "ls_slept st1 = ls_slept st" using keepsD [OF assms(1) g] .
  show ?case
  proof (cases "\<exists>e. g = Err e \<and> lifecycle_is_retryable e")
    case True
    let ?st2 = "st1\<lparr>ls_slept := d # ls_slept st1\<rparr>"
    have "retry_loop X P name cid operation n (min (d * 2) ?m) ?st2 = (r, st')"
      using Suc.prems g True by (auto simp: io_match_def io_bind_def sleep_io_def)
    from Suc.IH [OF this] obtain k where k: "k \<le> n"
      "ls_slept st' = rev (map (backoff (min (d * 2) ?m) ?m) [0..<k]) @ d # ls_slept st1"
      "\<forall>e. r = Err e \<and> lifecycle_is_retryable e \<longrightarrow> k = n" by auto
    have "[0..<Suc k] = 0 # map Suc [0..<k]"
      by (simp add: map_Suc_upt upt_conv_Cons del: upt_Suc)
    then have "map (backoff d ?m) [0..<Suc k] = d # map (backoff (min (d * 2) ?m) ?m) [0..<k]"
      by (simp add: backoff_Suc backoff_def [of d ?m 0] comp_def del: upt_Suc)
    with k s show ?thesis by (intro exI [of _ "Suc k"]) (simp del: upt_Suc)
  next
    case False
    then have "r = Err e \<longrightarrow> \<not> lifecycle_is_retryable e" for e
      using Suc.prems g by (cases g) (auto simp: io_match_def io_return_def dest: slept_give_up)
    moreover have "ls_slept st' = ls_slept st"
      using Suc.prems g False s by (cases g) (auto simp: io_match_def io_return_def dest: slept_give_up)
    ultimately show ?thesis by (intro exI [of _ 0]) auto
  qed
qed

lemma slept_in_world [intro]: "keeps ls_slept (in_world m)"
  and slept_now [intro]: "keeps ls_slept (now_io X)"
  and slept_fresh [intro]: "keeps ls_slept (fresh_io X)"
  by (auto simp: keeps_def in_world_def now_io_def fresh_io_def split: prod.splits)

lemma slept_publish [intro]: "keeps ls_slept (publish_at X P ev)"
  unfolding publish_at_def by blast

lemma slept_update_position [intro]: "keeps ls_slept (update_position D X P f ord)"
  unfolding update_position_def
  by (intro keeps_intros slept_in_world slept_now slept_fresh)

lemma slept_handle_order_update: "keeps ls_slept (handle_order_update X P u)"
  unfolding handle_order_update_def Let_def
  by (cases "ou_status u"; simp; intro keeps_intros slept_in_world slept_now slept_publish)

lemma slept_handle_fill: "keeps ls_slept (handle_fill D X P f)"
  unfolding handle_fill_def Let_def
  by (intro keeps_intros slept_in_world slept_now slept_publish slept_update_position)

section \<open>Deduplication\<close>

lemma remember_fill_bound:
  assumes X: "iterates X" and S: "finite S" "card S \<le> 10000"
  shows "finite (remember_fill X i S)" and "card (remember_fill X i S) \<le> 10000"
proof -
  let ?S = "insert i S"
  show "finite (remember_fill X i S)" using S(1) by (simp add: remember_fill_def Let_def)
  have it: "set (os_iter X ?S) = ?S" "distinct (os_iter X ?S)" using X S(1) by (auto simp: iterates_def)
  have c: "card ?S \<le> 10001" using S card_insert_le_m1 [of 10001 S i] by simp
  show "card (remember_fill X i S) \<le> 10000"
  proof (cases "10000 < card ?S")
    case True
    have sub: "set (take 5000 (os_iter X ?S)) \<subseteq> ?S" using it(1) set_take_subset by metis
    have "length (os_iter X ?S) = card ?S" using it distinct_card by fastforce
    then have "card (set (take 5000 (os_iter X ?S))) = 5000"
      using True it(2) by (simp add: distinct_card)
    then show ?thesis
      using True c card_Diff_subset [OF finite_set sub] by (simp add: remember_fill_def Let_def)
  qed (simp add: remember_fill_def Let_def)
qed

lemma processed_kept:
  assumes "retry_loop X P name cid operation n d st = (r, st')" and "keeps ls_processed_fills operation"
  shows "ls_processed_fills st' = ls_processed_fills st"
proof -
  have g: "keeps ls_processed_fills (give_up X P name cid e)" for e
    unfolding give_up_def
    by (auto simp: keeps_def io_bind_def io_match_def io_lift_def fresh_io_def now_io_def in_world_def
        split: option.splits prod.splits res.splits)
  have "keeps ls_processed_fills (retry_loop X P name cid operation n d)"
  proof (induction n arbitrary: d)
    case (Suc n)
    then show ?case
      using assms(2) g
      by (auto intro!: keeps_match keeps_bind simp: sleep_io_def keeps_def [of _ "sleep_io d"])
  qed (use assms(2) g in \<open>auto intro!: keeps_match\<close>)
  with assms(1) show ?thesis by (metis keeps_def snd_conv)
qed

lemma processed_in_world [intro]: "keeps ls_processed_fills (in_world m)"
  and processed_now [intro]: "keeps ls_processed_fills (now_io X)"
  and processed_fresh [intro]: "keeps ls_processed_fills (fresh_io X)"
  by (auto simp: keeps_def in_world_def now_io_def fresh_io_def split: prod.splits)

lemma processed_publish [intro]: "keeps ls_processed_fills (publish_at X P ev)"
  unfolding publish_at_def by blast

lemma processed_update_position [intro]: "keeps ls_processed_fills (update_position D X P f ord)"
  unfolding update_position_def
  by (intro keeps_intros processed_in_world processed_now processed_fresh)

lemma processed_handle_fill: "keeps ls_processed_fills (handle_fill D X P f)"
  unfolding handle_fill_def Let_def
  by (intro keeps_intros processed_in_world processed_now processed_publish processed_update_position)

section \<open>Fills on a symbol without a position\<close>

lemma order_fill_fits:
  assumes D: "dec_ok D" "k \<le> 28" "sound_at k ord" "on_grid k (qty_inner q)" "0 \<le> qty_inner q"
    and act: "status_is_active (ord_status ord)" and fits: "qty_inner q \<le> open_quantity ord"
    and np: "order_fill D t1 t2 ord q p \<noteq> Panic"
  obtains ord' where "order_fill D t1 t2 ord q p = Ok ord'" and "sound_at k ord'"
    and "open_quantity ord' = open_quantity ord - qty_inner q" and "ord_id ord' = ord_id ord"
    and "qty_inner (ord_filled_quantity ord') = qty_inner (ord_filled_quantity ord) + qty_inner q"
    and "0 < open_quantity ord' \<longrightarrow> status_is_active (ord_status ord')"
proof (cases "order_fill D t1 t2 ord q p")
  case (Ok ord')
  note s = order_fill_sound_Ok [OF D Ok]
  have i: "ord_id ord' = ord_id ord"
    using Ok by (auto simp: order_fill_def res_simps Let_def split: if_splits)
  have "open_quantity ord' = open_quantity ord - qty_inner q"
    using s(2,3) by (simp add: open_quantity_def)
  with that Ok s i show thesis by auto
next
  case (Err e)
  have "calculate_avg_fill_price D x q p \<noteq> Err e" for x
    by (auto simp: calculate_avg_fill_price_def Let_def res_simps or_panic_neq_Err split: if_splits)
  then show thesis
    using Err act fits unfolding order_fill_sound(1) [OF D] by (auto simp: res_simps)
qed (use np in simp)

text \<open>One attempt to handle a fill whose symbol has no position.\<close>

lemma handle_fill_without_position:
  assumes P: "P = lifecycle_wiring F B Q cfg"
    and flat: "cli_positions (ls_world st) = Map.empty"
    and ord: "cli_orders (ls_world st) (fl_order_id f) = Some ord"
    and saved: "\<And>g. \<exists>g'. fr_save F f g = (Ok (), g')"
    and filled: "order_fill D (os_now X (ls_ticks st)) (os_now X (ls_ticks st + 1)) ord (fl_quantity f)
          (fl_price f) = x"
  shows "(\<exists>ord' msg st'. x = Ok ord' \<and> handle_fill D X P f st = (Err (Lc_Repository msg), st') \<and>
      cli_positions (ls_world st') = Map.empty \<and>
      cli_orders (ls_world st') = (cli_orders (ls_world st))(OrderId (ord_id ord') \<mapsto> ord')) \<or>
    (\<exists>e st'. x = Err e \<and> handle_fill D X P f st = (Err (Lc_FillProcessing
        (''Failed to fill order: '' @ domain_error_display (os_time X) e)), st')) \<or>
    x = Panic \<and> fst (handle_fill D X P f st) = Panic"
proof -
  obtain g' where g': "fr_save F f (cw_gateway (ls_world st)) = (Ok (), g')" using saved by blast
  have o: "hash_get (cw_orders (ls_world st)) (fl_order_id f) = Some ord" using ord by (simp add: cli_orders_def)
  have p: "hash_get (cw_positions (ls_world st)) = Map.empty" using flat by (simp add: cli_positions_def)
  note unf = handle_fill_def Let_def P lifecycle_wiring_def cli_ports_def io_bind_def io_map_err_def
    in_world_def io_lift_def now_io_def on_gateway_def on_orders_def on_positions_def mock_order_get_def
    mock_order_update_def g' o
  show ?thesis
  proof (cases x)
    case (Ok ord')
    then show ?thesis
      using filled p
      by (simp add: unf update_position_def mock_position_find_by_symbol_def lc_quantity_def
          quantity_new_zero cli_orders_def cli_positions_def)
  qed (use filled in \<open>simp_all add: unf\<close>)
qed

text \<open>Every retry of such a fill applies it to the stored order once more.\<close>

text \<open>
  One attempt of a fill on a desk without positions: it fails after the order was updated, with an error
  that is tried again.
\<close>

lemma refill_attempt:
  assumes P: "P = lifecycle_wiring F B Q cfg"
    and D: "dec_ok D" "k \<le> 28" "on_grid k (qty_inner (fl_quantity f))" "0 < qty_inner (fl_quantity f)"
    and saved: "\<And>g. \<exists>g'. fr_save F f g = (Ok (), g')"
    and flat: "cli_positions (ls_world st) = Map.empty"
    and ord: "cli_orders (ls_world st) (fl_order_id f) = Some ord" "OrderId (ord_id ord) = fl_order_id f"
      "sound_at k ord" "status_is_active (ord_status ord)"
    and fits: "qty_inner (fl_quantity f) \<le> open_quantity ord"
    and np: "fst (handle_fill D X P f st) \<noteq> Panic"
  obtains ord' msg st1 where "handle_fill D X P f st = (Err (Lc_Repository msg), st1)"
    "cli_positions (ls_world st1) = Map.empty"
    "cli_orders (ls_world st1) (fl_order_id f) = Some ord'" "OrderId (ord_id ord') = fl_order_id f"
    "sound_at k ord'" "open_quantity ord' = open_quantity ord - qty_inner (fl_quantity f)"
    "qty_inner (ord_filled_quantity ord') = qty_inner (ord_filled_quantity ord) + qty_inner (fl_quantity f)"
    "0 < open_quantity ord' \<longrightarrow> status_is_active (ord_status ord')"
proof -
  let ?x = "order_fill D (os_now X (ls_ticks st)) (os_now X (ls_ticks st + 1)) ord (fl_quantity f) (fl_price f)"
  note h = handle_fill_without_position [OF P flat ord(1) saved refl, where D = D and X = X]
  have "?x \<noteq> Panic" using h np by auto
  moreover have "0 \<le> qty_inner (fl_quantity f)" using D(4) by simp
  ultimately obtain ord' where ord': "?x = Ok ord'" "sound_at k ord'"
      "open_quantity ord' = open_quantity ord - qty_inner (fl_quantity f)" "ord_id ord' = ord_id ord"
      "qty_inner (ord_filled_quantity ord') = qty_inner (ord_filled_quantity ord) + qty_inner (fl_quantity f)"
      "0 < open_quantity ord' \<longrightarrow> status_is_active (ord_status ord')"
    using order_fill_fits [OF D(1,2) ord(3) D(3) _ ord(4) fits] by metis
  obtain msg st1 where "handle_fill D X P f st = (Err (Lc_Repository msg), st1)"
      "cli_positions (ls_world st1) = Map.empty"
      "cli_orders (ls_world st1) = (cli_orders (ls_world st))(OrderId (ord_id ord') \<mapsto> ord')"
    using h ord'(1) by auto
  with ord' ord(2) that show thesis by auto
qed

lemma give_up_keeps_orders:
  assumes "give_up X (lifecycle_wiring F B Q cfg) name cid e st = (r, st')"
  shows "cli_orders (ls_world st') = cli_orders (ls_world st)"
  using assms
  by (auto simp: give_up_def lifecycle_wiring_def Let_def io_bind_def io_match_def io_lift_def
      fresh_io_def now_io_def in_world_def on_gateway_def cli_orders_def split: option.splits prod.splits res.splits)

lemma retries_refill:
  assumes P: "P = lifecycle_wiring F B Q cfg"
    and D: "dec_ok D" "k \<le> 28" "on_grid k (qty_inner (fl_quantity f))" "0 < qty_inner (fl_quantity f)"
    and saved: "\<And>g. \<exists>g'. fr_save F f g = (Ok (), g')"
    and flat: "cli_positions (ls_world st) = Map.empty"
    and ord: "cli_orders (ls_world st) (fl_order_id f) = Some ord" "OrderId (ord_id ord) = fl_order_id f"
      "sound_at k ord" "status_is_active (ord_status ord)"
    and fits: "of_nat (n + 1) * qty_inner (fl_quantity f) \<le> open_quantity ord"
    and run: "retry_loop X P name cid (handle_fill D X P f) n d st = (r, st')" and np: "r \<noteq> Panic"
  shows "(\<exists>msg. r = Err (Lc_Repository msg)) \<and>
    (\<exists>ord'. cli_orders (ls_world st') (fl_order_id f) = Some ord' \<and>
       qty_inner (ord_filled_quantity ord') =
         qty_inner (ord_filled_quantity ord) + of_nat (n + 1) * qty_inner (fl_quantity f))"
  using flat ord fits run
proof (induction n arbitrary: st ord d)
  let ?q = "qty_inner (fl_quantity f)"
  note attempt = refill_attempt [OF P D saved]
  {
    case 0
    have np0: "fst (handle_fill D X P f st) \<noteq> Panic"
      using 0 np by (cases "handle_fill D X P f st") (auto simp: io_match_def)
    have fit0: "?q \<le> open_quantity ord" using 0(6) by simp
    obtain ord' msg st1 where a: "handle_fill D X P f st = (Err (Lc_Repository msg), st1)"
        "cli_orders (ls_world st1) (fl_order_id f) = Some ord'"
        "qty_inner (ord_filled_quantity ord') = qty_inner (ord_filled_quantity ord) + ?q"
      by (rule attempt [OF 0(1-5) fit0 np0])
    have g: "give_up X P name cid (Lc_Repository msg) st1 = (r, st')"
      using 0(7) a(1) by (simp add: io_match_def)
    with slept_give_up(2) [OF g] np a give_up_keeps_orders [OF g [unfolded P]] show ?case by auto
  next
    case (Suc n)
    let ?m = "unat (lcc_max_retry_delay_ms (lp_config P))"
    have np1: "fst (handle_fill D X P f st) \<noteq> Panic"
      using Suc.prems np by (cases "handle_fill D X P f st") (auto simp: io_match_def)
    have "?q \<le> of_nat (Suc n + 1) * ?q" using D(4) by (simp add: algebra_simps)
    with Suc.prems(6) have fit1: "?q \<le> open_quantity ord" by simp
    obtain ord' msg st1 where a: "handle_fill D X P f st = (Err (Lc_Repository msg), st1)"
        "cli_positions (ls_world st1) = Map.empty"
        "cli_orders (ls_world st1) (fl_order_id f) = Some ord'" "OrderId (ord_id ord') = fl_order_id f"
        "sound_at k ord'" "open_quantity ord' = open_quantity ord - ?q"
        "qty_inner (ord_filled_quantity ord') = qty_inner (ord_filled_quantity ord) + ?q"
        "0 < open_quantity ord' \<longrightarrow> status_is_active (ord_status ord')"
      by (rule attempt [OF Suc.prems(1-5) fit1 np1])
    let ?st2 = "st1\<lparr>ls_slept := d # ls_slept st1\<rparr>"
    have fit2: "of_nat (n + 1) * ?q \<le> open_quantity ord'"
      using Suc.prems(6) a(6) by (simp add: algebra_simps)
    have "0 < of_nat (n + 1) * ?q" using D(4) by simp
    with fit2 a(8) have act: "status_is_active (ord_status ord')" by linarith
    have run2: "retry_loop X P name cid (handle_fill D X P f) n (min (d * 2) ?m) ?st2 = (r, st')"
      using Suc.prems(7) a(1) by (simp add: io_match_def io_bind_def sleep_io_def)
    from Suc.IH [of ?st2 ord', OF _ _ a(4,5) act fit2 run2] a show ?case
      by (auto simp: algebra_simps)
  }
qed

section \<open>Properties\<close>

text \<open>The fill task: the messages of its channel, one after the other.\<close>

definition process_fills ::
    "dec_ops \<Rightarrow> outside \<Rightarrow> 'w lifecycle_ports \<Rightarrow> (fill \<times> uuid) list \<Rightarrow> 'w lifecycle_state \<Rightarrow> 'w lifecycle_state" where
  "process_fills D X P fs st = fold (\<lambda>(f, cid) st. snd (process_fill D X P f cid st)) fs st"

text \<open>
  Fills never open a position.  Starting without positions, no sequence of fills makes the
  manager store one: the position of a first fill is built with \<open>Quantity::new(Decimal::ZERO)\<close>,
  which the constructor refuses.
\<close>

theorem fills_never_open_positions:
  assumes "cli_positions (ls_world st) = Map.empty"
  shows "cli_positions (ls_world (process_fills D X (lifecycle_wiring F B Q cfg) fs st)) = Map.empty"
  using assms
proof (induction fs arbitrary: st)
  case (Cons x fs)
  have "cli_positions (ls_world (snd (process_fill D X (lifecycle_wiring F B Q cfg) (fst x) (snd x) st))) = Map.empty"
    using lifecycle_mem.flat_process_fill [where f = "fst x"] Cons.prems unfolding stays_def by blast
  with Cons.IH show ?case by (simp add: process_fills_def split_beta)
qed (simp add: process_fills_def)



text \<open>
  C18: retries are bounded and back off.  Processing a status update or a fill sleeps at most
  \<open>max_retries\<close> times; the delays are \<open>retry_delay_ms\<close>, then twice as long each time up to
  \<open>max_retry_delay_ms\<close>; and when a retryable error is returned, every permitted retry was used.
\<close>

theorem retries_bounded_and_backed_off:
  assumes "process_order_update X P u cid st = (r, st') \<or> process_fill D X P f cid st = (r, st')"
  shows "\<exists>k \<le> unat (lcc_max_retries (lp_config P)).
    ls_slept st' = rev (map (backoff (unat (lcc_retry_delay_ms (lp_config P)))
        (unat (lcc_max_retry_delay_ms (lp_config P)))) [0..<k]) @ ls_slept st \<and>
    (\<forall>e. r = Err e \<and> lifecycle_is_retryable e \<longrightarrow> k = unat (lcc_max_retries (lp_config P)))"
  using assms
proof
  assume "process_order_update X P u cid st = (r, st')"
  then show ?thesis
    unfolding process_order_update_def execute_with_retry_def
    by (rule retry_loop_sleeps [OF slept_handle_order_update])
next
  assume p: "process_fill D X P f cid st = (r, st')"
  show ?thesis
  proof (cases "fill_id X f \<in> ls_processed_fills st")
    case True
    with p show ?thesis by (intro exI [of _ 0]) (auto simp: process_fill_def)
  next
    case False
    obtain r1 st1 where run: "execute_with_retry X P (handle_fill D X P f) ''fill'' cid st = (r1, st1)" by fastforce
    have "r = r1" "ls_slept st' = ls_slept st1"
      using p False run by (cases r1; auto simp: process_fill_def)+
    then show ?thesis
      using retry_loop_sleeps [OF slept_handle_fill run [unfolded execute_with_retry_def]] by simp
  qed
qed

section \<open>A sample manager\<close>

definition sample_outside :: outside where
  "sample_outside = \<lparr>os_time = (\<lambda>_. ''''), os_uuid = \<lparr>u_parse = (\<lambda>s. Err ''''), u_fmt = (\<lambda>u. '''')\<rparr>,
     os_quantity_debug = (\<lambda>_. ''''), os_now = int, os_fresh = id, os_iter = sorted_list_of_set\<rparr>"

definition sample_wiring :: "(fill list, trading_event list) cli_world lifecycle_ports" where
  "sample_wiring = lifecycle_wiring \<lparr>fr_save = (\<lambda>f w. (Ok (), f # w))\<rparr> sample_bus None
     (lifecycle_config_default\<lparr>lcc_max_retries := 1\<rparr>)"

definition resting_order :: order where
  "resting_order = sample_risk_order\<lparr>ord_status := Pending 1\<rparr>"

definition sample_desk :: "(fill list, trading_event list) cli_world lifecycle_state" where
  "sample_desk =
     \<lparr>ls_world = \<lparr>cw_orders = hash_insert (OrderId 7) resting_order hash_empty, cw_positions = hash_empty,
        cw_gateway = [], cw_bus = []\<rparr>,
      ls_processed_fills = {}, ls_slept = [], ls_ticks = 0\<rparr>"

lemma sample_desk_orders: "cli_orders (ls_world sample_desk) = [OrderId 7 \<mapsto> resting_order]"
  by (simp add: cli_orders_def sample_desk_def)

lemma sample_desk_flat: "cli_positions (ls_world sample_desk) = Map.empty"
  by (simp add: cli_positions_def sample_desk_def)

lemmas sample_desk_run =
  process_fill_def process_order_update_def sample_outside_def sample_desk_def sample_wiring_def
  lifecycle_wiring_def fill_id_def execute_with_retry_def lifecycle_config_default_def Let_def
  handle_fill_def handle_order_update_def io_match_def io_bind_def io_map_err_def io_return_def sleep_io_def
  give_up_def in_world_def io_lift_def now_io_def fresh_io_def publish_at_def io_publish_def sample_bus_def
  on_gateway_def on_orders_def on_positions_def mock_order_get_def mock_order_update_def
  mock_position_find_by_symbol_def mock_position_upsert_def cli_ports_def sample_fill_def fill_new_def
  resting_order_def sample_risk_order_def sample_order_def update_position_def order_fill_def
  remaining_quantity_def quantity_new_unchecked_def calculate_avg_fill_price_def lc_quantity_def
  quantity_new_def lifecycle_from_repository_def

lemma sample_refill:
  "\<exists>msg st'. process_fill exact_dec sample_outside sample_wiring (sample_fill 10 150) 1 sample_desk =
       (Err (Lc_Repository msg), st') \<and> ls_slept st' = [100]"
  by (simp add: sample_desk_run)

theorem retries_bounded_and_backed_off_witness:
  "\<exists>r st'. process_fill exact_dec sample_outside sample_wiring (sample_fill 10 150) 1 sample_desk = (r, st') \<and>
     (\<exists>k \<le> 1. ls_slept st' = rev (map (backoff 100 5000) [0..<k]) \<and>
       (\<forall>e. r = Err e \<and> lifecycle_is_retryable e \<longrightarrow> k = 1))"
proof -
  obtain r st' where p: "process_fill exact_dec sample_outside sample_wiring (sample_fill 10 150) 1 sample_desk = (r, st')"
    by fastforce
  have c: "lcc_max_retries (lp_config sample_wiring) = 1" "lcc_retry_delay_ms (lp_config sample_wiring) = 100"
    "lcc_max_retry_delay_ms (lp_config sample_wiring) = 5000" "ls_slept sample_desk = []"
    by (simp_all add: sample_wiring_def lifecycle_wiring_def lifecycle_config_default_def Let_def sample_desk_def)
  from retries_bounded_and_backed_off [OF disjI2 [OF p]] p c show ?thesis by simp
qed

theorem fills_never_open_positions_witness:
  "cli_positions (ls_world (process_fills exact_dec sample_outside sample_wiring [(sample_fill 10 150, 1)] sample_desk)) =
     Map.empty"
  unfolding sample_wiring_def by (rule fills_never_open_positions [OF sample_desk_flat])


section \<open>Deduplication, status updates, opposite fills\<close>

text \<open>Processing any messages keeps the set of processed identifiers within its bound.\<close>

lemma process_fill_processed:
  assumes "process_fill D X P f cid st = (r, st')"
  shows "ls_processed_fills st' =
    (if fill_id X f \<in> ls_processed_fills st \<or> r \<noteq> Ok () then ls_processed_fills st
     else remember_fill X (fill_id X f) (ls_processed_fills st))"
proof (cases "fill_id X f \<in> ls_processed_fills st")
  case False
  obtain r1 st1 where run: "execute_with_retry X P (handle_fill D X P f) ''fill'' cid st = (r1, st1)" by fastforce
  have "ls_processed_fills st1 = ls_processed_fills st"
    by (rule processed_kept [OF run [unfolded execute_with_retry_def] processed_handle_fill])
  with assms False run show ?thesis by (cases r1) (auto simp: process_fill_def)
qed (use assms in \<open>auto simp: process_fill_def\<close>)

text \<open>
  A processed fill is refused the second time.  When a fill is processed while fewer
  than 10000 are remembered, every later processing of it, whatever happened to the world in
  between, is a duplicate error that changes nothing.
\<close>

theorem processed_fill_is_refused:
  assumes "process_fill D X P f cid st = (Ok (), st1)" and "finite (ls_processed_fills st)"
    and "card (ls_processed_fills st) < 10000"
    and "ls_processed_fills st1 \<subseteq> ls_processed_fills st2"
  shows "process_fill D X P f cid' st2 = (Err (Lc_DuplicateFill (fill_id X f)), st2)"
proof -
  have "fill_id X f \<notin> ls_processed_fills st" using assms(1) by (auto simp: process_fill_def)
  then have "ls_processed_fills st1 = remember_fill X (fill_id X f) (ls_processed_fills st)"
    using process_fill_processed [OF assms(1)] by simp
  moreover have "card (insert (fill_id X f) (ls_processed_fills st)) \<le> 10000"
    using assms(2,3) by (intro card_insert_le_m1) auto
  ultimately have "fill_id X f \<in> ls_processed_fills st2"
    using assms(4) by (auto simp: remember_fill_def Let_def not_less)
  then show ?thesis by (simp add: process_fill_def)
qed

text \<open>
  The memory of processed fills is bounded: over any sequence of fills it stays finite
  and never holds more than 10000 identifiers, because the insertion of the 10001st evicts 5000.
\<close>

theorem processed_fills_bounded:
  assumes "iterates X" and "finite (ls_processed_fills st)" and "card (ls_processed_fills st) \<le> 10000"
  shows "finite (ls_processed_fills (process_fills D X P fs st)) \<and>
    card (ls_processed_fills (process_fills D X P fs st)) \<le> 10000"
  using assms(2,3)
proof (induction fs arbitrary: st)
  case (Cons x fs)
  obtain r st1 where p: "process_fill D X P (fst x) (snd x) st = (r, st1)" by fastforce
  have "finite (ls_processed_fills st1) \<and> card (ls_processed_fills st1) \<le> 10000"
    using process_fill_processed [OF p] Cons.prems remember_fill_bound [OF assms(1) Cons.prems] by simp
  with Cons.IH p show ?case by (simp add: process_fills_def split_beta)
qed (simp add: process_fills_def)

lemma retry_loop_success:
  assumes "retry_loop X P name cid operation n d st = (Ok (), st')"
    and "keeps c operation \<or> (\<forall>s e s'. operation s = (Err e, s') \<longrightarrow> c s' = c s)"
    and "\<And>s t. c (s\<lparr>ls_slept := t # ls_slept s\<rparr>) = c s"
  shows "\<exists>s. c s = c st \<and> operation s = (Ok (), st')"
  using assms(1)
proof (induction n arbitrary: st d)
  case 0
  then show ?case
    by (cases "operation st"; cases "fst (operation st)")
      (auto simp: io_match_def io_return_def dest: slept_give_up(2))
next
  case (Suc n)
  obtain g st1 where g: "operation st = (g, st1)" by fastforce
  show ?case
  proof (cases g)
    case (Err e)
    have c1: "c st1 = c st" using assms(2) g Err keepsD [of c operation st] by blast
    have "lifecycle_is_retryable e"
      using Suc.prems g Err by (auto simp: io_match_def dest: slept_give_up(2) split: if_splits)
    then have "retry_loop X P name cid operation n (min (d * 2) (unat (lcc_max_retry_delay_ms (lp_config P))))
        (st1\<lparr>ls_slept := d # ls_slept st1\<rparr>) = (Ok (), st')"
      using Suc.prems g Err by (simp add: io_match_def io_bind_def sleep_io_def)
    from Suc.IH [OF this] c1 assms(3) show ?thesis by metis
  qed (use Suc.prems g in \<open>auto simp: io_match_def io_return_def\<close>)
qed

context lifecycle_service
begin

text \<open>An update that fails has not touched the orders.\<close>

text \<open>Nothing fails any more once the order is stored.\<close>

lemma publish_at_not_Err: "publish_at X P ev s \<noteq> (Err (e :: lifecycle_error), s')"
  by (auto simp: publish_at_def io_bind_def io_return_def now_io_def in_world_def io_publish_def split: prod.splits)

lemma handle_order_update_saved:
  assumes "or_get (lp_order_repo P) (ou_order_id u) (ls_world st) = (Ok (Some ord), w1)"
    and "is_valid_transition (ord_status ord) (ou_status u)"
    and "or_update (lp_order_repo P)
      (ord\<lparr>ord_status := ou_status u, ord_updated_at := os_now X (ls_ticks st)\<rparr>) w1 = (Ok y, w2)"
  shows "handle_order_update X P u st \<noteq> (Err e, st')"
proof -
  have "handle_order_update X P u st =
     (case ou_status u of
        Filled _ \<Rightarrow> publish_at X P (Ev_OrderFilled (ou_order_id u) (create_fill_from_update u
          (ord\<lparr>ord_status := ou_status u, ord_updated_at := os_now X (ls_ticks st)\<rparr>)))
      | Cancelled _ reason \<Rightarrow> publish_at X P (Ev_OrderCancelled (ou_order_id u) reason)
      | Rejected _ reason \<Rightarrow> publish_at X P (Ev_OrderRejected (ou_order_id u) reason)
      | _ \<Rightarrow> io_return ()) (st\<lparr>ls_ticks := ls_ticks st + 1, ls_world := w2\<rparr>)"
    using assms
    by (simp add: handle_order_update_def Let_def io_bind_def io_map_err_def in_world_def io_lift_def now_io_def
        update_status_def cong: order_status.case_cong)
  also have "\<dots> \<noteq> (Err e, st')"
    by (cases "ou_status u") (simp_all add: publish_at_not_Err io_return_def)
  finally show ?thesis .
qed

lemma handle_order_update_Err:
  assumes "handle_order_update X P u st = (Err e, st')"
  shows "content (ls_world st') = content (ls_world st)"
proof -
  obtain g w1 where g: "or_get (lp_order_repo P) (ou_order_id u) (ls_world st) = (g, w1)" by fastforce
  note unf = handle_order_update_def Let_def io_bind_def io_map_err_def in_world_def io_lift_def now_io_def
  show ?thesis
  proof (cases "\<exists>ord. g = Ok (Some ord) \<and> is_valid_transition (ord_status ord) (ou_status u)")
    case False
    then have "ls_world st' = w1 \<and> g \<noteq> Panic"
      using assms g by (cases g) (auto simp: unf update_status_def split: option.splits)
    then show ?thesis using g orders.get_Ok orders.get_Err by (cases g) (fastforce, blast, simp)
  next
    case True
    then obtain ord where Ok: "g = Ok (Some ord)" "is_valid_transition (ord_status ord) (ou_status u)" by blast
    let ?ord' = "ord\<lparr>ord_status := ou_status u, ord_updated_at := os_now X (ls_ticks st)\<rparr>"
    obtain h w2 where h: "or_update (lp_order_repo P) ?ord' w1 = (h, w2)" by fastforce
    have "\<not> is_ok h" using handle_order_update_saved [OF _ Ok(2)] g h Ok(1) assms by (fastforce simp: is_ok_iff)
    then have "ls_world st' = w2 \<and> is_err h" using assms g h Ok by (cases h) (auto simp: unf update_status_def)
    with g h Ok orders.get_Ok orders.update_Err show ?thesis by (cases h) fastforce+
  qed
qed

lemma process_order_update_Ok:
  assumes "process_order_update X P u cid st = (Ok (), st')"
  obtains ord t where "content (ls_world st) (ou_order_id u) = Some ord"
    and "is_valid_transition (ord_status ord) (ou_status u)"
    and "content (ls_world st') = (content (ls_world st))(OrderId (ord_id ord) \<mapsto>
           ord\<lparr>ord_status := ou_status u, ord_updated_at := t\<rparr>)"
proof -
  obtain s where s: "content (ls_world s) = content (ls_world st)" "handle_order_update X P u s = (Ok (), st')"
    using retry_loop_success [OF assms [unfolded process_order_update_def execute_with_retry_def],
        where c = "\<lambda>s. content (ls_world s)"] handle_order_update_Err by fastforce
  from handle_order_update_Ok [OF s(2)] show thesis unfolding s(1) by (metis that)
qed

end

text \<open>
  C17: a status report moves the stored order along the lifecycle.  When processing a report
  succeeds, the stored order was in a phase from which the lifecycle leads to the reported one (or
  already in that phase), and the store differs in that order's status and time of change alone:
  even a report of \<open>Filled\<close> leaves the filled quantity as it was.
\<close>

theorem status_report_follows_lifecycle:
  assumes "process_order_update X (lifecycle_wiring F B Q cfg) u cid st = (Ok (), st')"
  shows "\<exists>ord t. cli_orders (ls_world st) (ou_order_id u) = Some ord \<and>
    (phase_of (ord_status ord) = phase_of (ou_status u) \<or>
     lifecycle_edge (phase_of (ord_status ord)) (phase_of (ou_status u))) \<and>
    cli_orders (ls_world st') = (cli_orders (ls_world st))(OrderId (ord_id ord) \<mapsto>
      ord\<lparr>ord_status := ou_status u, ord_updated_at := t\<rparr>)"
  using lifecycle_mem.process_order_update_Ok [OF assms] unfolding is_valid_transition_iff by blast

definition sample_report :: order_update where
  "sample_report = order_update_new 3 (OrderId 7) (Filled 3) (Quantity 100) (Quantity 0)"

theorem status_report_follows_lifecycle_witness:
  "\<exists>st' t. process_order_update sample_outside sample_wiring sample_report 1 sample_desk = (Ok (), st') \<and>
     cli_orders (ls_world st') = [OrderId 7 \<mapsto> resting_order\<lparr>ord_status := Filled 3, ord_updated_at := t\<rparr>] \<and>
     ord_filled_quantity resting_order = Quantity 0"
proof -
  obtain st' where p: "process_order_update sample_outside sample_wiring sample_report 1 sample_desk = (Ok (), st')"
    by (simp add: sample_desk_run sample_report_def order_update_new_def update_status_def is_valid_transition_iff
        create_fill_from_update_def)
  from status_report_follows_lifecycle [OF p [unfolded sample_wiring_def]] p
  have "\<exists>t. cli_orders (ls_world st') = [OrderId 7 \<mapsto> resting_order\<lparr>ord_status := Filled 3, ord_updated_at := t\<rparr>]"
    by (auto simp: sample_desk_orders sample_report_def order_update_new_def resting_order_def
        sample_risk_order_def sample_order_def)
  with p show ?thesis by (simp add: resting_order_def sample_risk_order_def sample_order_def)
qed

text \<open>A desk that already holds a position in the symbol.\<close>

definition held_desk :: "(fill list, trading_event list) cli_world lifecycle_state" where
  "held_desk = sample_desk\<lparr>ls_world := (ls_world sample_desk)
     \<lparr>cw_positions := hash_insert (Symbol ''AAPL'') (sample_position 10 100) hash_empty\<rparr>\<rparr>"

theorem processed_fill_is_refused_witness:
  "\<exists>st1 m. process_fill exact_dec sample_outside sample_wiring (sample_fill 10 150) 1 held_desk = (Ok (), st1) \<and>
     process_fill exact_dec sample_outside sample_wiring (sample_fill 10 150) 2 st1 = (Err (Lc_DuplicateFill m), st1)"
proof -
  obtain st1 where p: "process_fill exact_dec sample_outside sample_wiring (sample_fill 10 150) 1 held_desk = (Ok (), st1)"
    by (simp add: sample_desk_run held_desk_def position_after_fill_def position_add_fill_def sample_position_def
        position_new_def update_price_def position_pnl_at_def)
  have "finite (ls_processed_fills held_desk)" "card (ls_processed_fills held_desk) < 10000"
    by (simp_all add: held_desk_def sample_desk_def)
  from processed_fill_is_refused [OF p this order_refl] p show ?thesis by blast
qed

theorem processed_fills_bounded_witness:
  "card (ls_processed_fills (process_fills exact_dec sample_outside sample_wiring
     [(sample_fill 10 150, 1), (sample_fill 10 150, 2)] held_desk)) \<le> 10000"
proof -
  have "iterates sample_outside" by (simp add: iterates_def sample_outside_def)
  from processed_fills_bounded [OF this, of held_desk] show ?thesis
    by (simp add: held_desk_def sample_desk_def)
qed

text \<open>
  What a fill against the position does.  While no operator rounds, a fill of the
  opposite side never closes a position exactly (that is always an error); a smaller one books its
  profit but leaves the quantity as it was; a larger one replaces the position by a new one of the
  fill's side for the excess, entered at the fill's price, whose realized profit restarts at zero.
\<close>

theorem opposite_fill_bookkeeping:
  assumes "no_rounding D" and "pos_side p \<noteq> fl_side f"
    and "position_after_fill D tf fresh now1 now2 f ord p = Ok p'"
  shows "qty_inner (fl_quantity f) \<noteq> qty_inner (pos_quantity p) \<and>
    (qty_inner (fl_quantity f) < qty_inner (pos_quantity p) \<longrightarrow>
       pos_quantity p' = pos_quantity p \<and> pos_side p' = pos_side p \<and>
       m_amount (pos_realized_pnl p') = m_amount (pos_realized_pnl p) +
         (if position_is_long p then 1 else -1) *
         (price_inner (fl_price f) - price_inner (pos_avg_entry_price p)) * qty_inner (fl_quantity f)) \<and>
    (qty_inner (pos_quantity p) < qty_inner (fl_quantity f) \<longrightarrow>
       pos_quantity p' = Quantity (qty_inner (fl_quantity f) - qty_inner (pos_quantity p)) \<and>
       pos_side p' = fl_side f \<and> pos_avg_entry_price p' = fl_price f \<and>
       m_amount (pos_realized_pnl p') = 0)"
proof -
  note nr = no_roundingD [OF assms(1)]
  obtain left where sub: "d_sub D (qty_inner (pos_quantity p)) (qty_inner (fl_quantity f)) = Some left"
    using assms(2,3) by (auto simp: position_after_fill_def bind_eq_Ok or_panic_eq_Ok)
  then have left: "left = qty_inner (pos_quantity p) - qty_inner (fl_quantity f)" by (rule nr(2))
  have q: "lc_quantity D v = Ok x \<longleftrightarrow> 0 < v \<and> x = Quantity v" for v x
    by (auto simp: lc_quantity_def quantity_new_def)
  show ?thesis
  proof (cases "left \<le> 0")
    case True
    with assms(2,3) sub have "left < 0 \<and> p' = position_new fresh now2 (ord_account_id ord) (fl_symbol f)
        (if fl_side f = Buy then Long else Short) (Quantity (- left)) (fl_price f) USD"
      by (auto simp: position_after_fill_def bind_eq_Ok q split: if_splits)
    with left show ?thesis
      by (cases "fl_side f") (auto simp: position_new_def money_new_unchecked_def)
  next
    case False
    with assms(2,3) sub obtain pnl where pnl: "calculate_partial_pnl D p f = (Ok pnl :: (money, lifecycle_error) res)"
        "add_realized_pnl D now1 p pnl = (Ok p' :: (position, lifecycle_error) res)"
      by (auto simp: position_after_fill_def bind_eq_Ok)
    then have "m_amount pnl = (if position_is_long p then 1 else -1) *
        (price_inner (fl_price f) - price_inner (pos_avg_entry_price p)) * qty_inner (fl_quantity f)"
      by (auto simp: calculate_partial_pnl_def bind_eq_Ok or_panic_eq_Ok money_new_unchecked_def
          dest!: nr(2,3) split: if_splits)
    with pnl(2) left False show ?thesis
      by (auto simp: add_realized_pnl_def bind_eq_Ok or_panic_eq_Ok money_new_unchecked_def dest!: nr(1))
  qed
qed

theorem opposite_fill_bookkeeping_witness:
  "\<exists>p'. position_after_fill exact_dec (\<lambda>_. '''') 9 5 6 (sample_fill 4 120 \<lparr>fl_side := Sell\<rparr>) sample_order
       (sample_position 10 100) = Ok p' \<and>
     pos_quantity p' = Quantity 10 \<and> m_amount (pos_realized_pnl p') = 80"
proof -
  let ?f = "sample_fill 4 120 \<lparr>fl_side := Sell\<rparr>"
  let ?p = "sample_position 10 100"
  obtain p' where p': "position_after_fill exact_dec (\<lambda>_. '''') 9 5 6 ?f sample_order ?p = Ok p'"
    by (simp add: position_after_fill_def calculate_partial_pnl_def add_realized_pnl_def lc_quantity_def
        quantity_new_def sample_position_def position_new_def position_is_long_def side_is_buy_def sample_fill_def fill_new_def
        money_new_unchecked_def)
  have "pos_side ?p \<noteq> fl_side ?f" by (simp add: sample_position_def position_new_def)
  from opposite_fill_bookkeeping [OF no_rounding_exact this p'] p' show ?thesis
    by (simp add: sample_position_def position_new_def position_is_long_def side_is_buy_def money_new_unchecked_def
        sample_fill_def fill_new_def)
qed

section \<open>Starting and stopping\<close>

text \<open>
  The \<open>running\<close> flag and the two task handles; the answers of the gateway's two subscriptions are
  arguments.  An aborted task has ended when \<open>stop\<close> returns or its timeout has passed; either way
  its handle is gone.
\<close>

record manager_tasks =
  mt_running :: bool
  mt_order_handle :: bool
  mt_fill_handle :: bool

definition manager_new :: manager_tasks where
  "manager_new = \<lparr>mt_running = False, mt_order_handle = False, mt_fill_handle = False\<rparr>"

definition manager_start ::
    "(unit, execution_error) res \<Rightarrow> (unit, execution_error) res \<Rightarrow> manager_tasks \<Rightarrow>
     (unit, lifecycle_error) res \<times> manager_tasks" where
  "manager_start order_updates fill_updates m =
     (if mt_running m then (Err (Lc_OrderUpdate ''Already running''), m)
      else
        let m1 = m\<lparr>mt_running := True\<rparr> in
        case order_updates of
          Err e \<Rightarrow> (Err (Lc_OrderUpdate (''Failed to subscribe: '' @ execution_error_display e)), m1)
        | Panic \<Rightarrow> (Panic, m1)
        | Ok _ \<Rightarrow>
            (case fill_updates of
               Err e \<Rightarrow> (Err (Lc_FillProcessing (''Failed to subscribe: '' @ execution_error_display e)), m1)
             | Panic \<Rightarrow> (Panic, m1)
             | Ok _ \<Rightarrow> (Ok (), m1\<lparr>mt_order_handle := True, mt_fill_handle := True\<rparr>)))"

definition manager_stop :: "manager_tasks \<Rightarrow> (unit, lifecycle_error) res \<times> manager_tasks" where
  "manager_stop m =
     (if \<not> mt_running m then (Ok (), m)
      else (Ok (), m\<lparr>mt_running := False, mt_order_handle := False, mt_fill_handle := False\<rparr>))"

datatype manager_call =
    CallStart "(unit, execution_error) res" "(unit, execution_error) res"
  | CallStop

fun manager_call_step :: "manager_call \<Rightarrow> manager_tasks \<Rightarrow> manager_tasks" where
  "manager_call_step (CallStart a b) m = snd (manager_start a b m)"
| "manager_call_step CallStop m = snd (manager_stop m)"

lemma tasks_only_while_running:
  "fold manager_call_step calls manager_new = m \<Longrightarrow>
   mt_order_handle m = mt_fill_handle m \<and> (mt_order_handle m \<longrightarrow> mt_running m)"
proof (induction calls arbitrary: m rule: rev_induct)
  case (snoc c calls)
  then show ?case
    by (cases c)
      (auto simp: manager_start_def manager_stop_def Let_def split: res.splits if_splits)
qed (auto simp: manager_new_def)

text \<open>
  A failed start locks the manager.  When a subscription fails, \<open>start\<close> returns an error with
  no task spawned, yet it leaves the manager marked as running: every further \<open>start\<close> is refused
  as already running, however the gateway would answer, until \<open>stop\<close> is called.
\<close>

theorem failed_start_locks_manager:
  assumes "manager_start a b (fold manager_call_step calls manager_new) = (Err e, m)"
    and "\<not> mt_running (fold manager_call_step calls manager_new)"
  shows "\<not> mt_order_handle m \<and> \<not> mt_fill_handle m \<and>
    manager_start a' b' m = (Err (Lc_OrderUpdate ''Already running''), m) \<and>
    fst (manager_start (Ok ()) (Ok ()) (snd (manager_stop m))) = Ok ()"
proof -
  have "\<not> mt_order_handle (fold manager_call_step calls manager_new) \<and>
      \<not> mt_fill_handle (fold manager_call_step calls manager_new)"
    using tasks_only_while_running [OF refl, of calls] assms(2) by blast
  with assms show ?thesis
    by (auto simp: manager_start_def manager_stop_def Let_def split: res.splits)
qed

theorem failed_start_locks_manager_witness:
  "\<exists>e m. manager_start (Ok ()) (Err (Exec_MarketClosed ''AAPL'')) manager_new = (Err e, m) \<and>
     fst (manager_start (Ok ()) (Ok ()) m) = Err (Lc_OrderUpdate ''Already running'')"
proof -
  obtain e m where s: "manager_start (Ok ()) (Err (Exec_MarketClosed ''AAPL'')) manager_new = (Err e, m)"
    by (simp add: manager_start_def manager_new_def)
  have n: "\<not> mt_running manager_new" by (simp add: manager_new_def)
  from failed_start_locks_manager [of _ _ "[]", simplified, OF s n, of "Ok ()" "Ok ()"] s
  show ?thesis by auto
qed

end
