(* ===== verification/Event_Bus.thy ===== *)
theory Event_Bus
  imports Ports
begin

text \<open>
  The event bus of \<open>crates/infrastructure/src/messaging/event_bus.rs\<close>: publishing, the three kinds of
  subscription, topic patterns, metrics and the dead letter queue.  The channel underneath is
  tokio's \<open>broadcast\<close>, which belongs to another crate: its operations are a parameter, as are the
  answers its receivers give.  Receiving loops until an event matches, so it is a partial function,
  and that it returns is a theorem.
\<close>

section \<open>Metrics\<close>

record bus_metrics =
  bm_published :: u64
  bm_dropped :: u64
  bm_consumed :: u64
  bm_subscribers :: u64

record bus_snapshot =
  bs_published :: u64
  bs_dropped :: u64
  bs_subscribers :: u64
  bs_queued :: nat
  bs_consumed :: u64

definition bus_metrics_new :: bus_metrics where
  "bus_metrics_new = \<lparr>bm_published = 0, bm_dropped = 0, bm_consumed = 0, bm_subscribers = 0\<rparr>"

text \<open>\<open>fetch_add\<close> and \<open>fetch_sub\<close> wrap.\<close>

definition increment_published :: "bus_metrics \<Rightarrow> bus_metrics" where
  "increment_published m = m\<lparr>bm_published := bm_published m + 1\<rparr>"

definition increment_dropped :: "u64 \<Rightarrow> bus_metrics \<Rightarrow> bus_metrics" where
  "increment_dropped n m = m\<lparr>bm_dropped := bm_dropped m + n\<rparr>"

definition increment_consumed :: "bus_metrics \<Rightarrow> bus_metrics" where
  "increment_consumed m = m\<lparr>bm_consumed := bm_consumed m + 1\<rparr>"

definition increment_subscribers :: "bus_metrics \<Rightarrow> bus_metrics" where
  "increment_subscribers m = m\<lparr>bm_subscribers := bm_subscribers m + 1\<rparr>"

definition decrement_subscribers :: "bus_metrics \<Rightarrow> bus_metrics" where
  "decrement_subscribers m = m\<lparr>bm_subscribers := bm_subscribers m - 1\<rparr>"

definition bus_metrics_snapshot :: "nat \<Rightarrow> bus_metrics \<Rightarrow> bus_snapshot" where
  "bus_metrics_snapshot queued m =
     \<lparr>bs_published = bm_published m, bs_dropped = bm_dropped m, bs_subscribers = bm_subscribers m,
      bs_queued = queued, bs_consumed = bm_consumed m\<rparr>"

section \<open>Receiving\<close>

datatype recv_answer = Got trading_event | Lagged u64 | ChannelClosed
datatype recv_error = RecvClosed

type_synonym event_filter = "trading_event \<Rightarrow> bool"

text \<open>
  \<open>Subscription::recv\<close>: \<open>next\<close> is the receiver's \<open>recv\<close>, which answers once there is something to
  answer.
\<close>

partial_function (option) subscription_recv ::
    "('r \<Rightarrow> recv_answer \<times> 'r) \<Rightarrow> event_filter option \<Rightarrow> 'r \<Rightarrow> bus_metrics \<Rightarrow>
     ((trading_event, recv_error) res \<times> 'r \<times> bus_metrics) option" where
  "subscription_recv next flt r m =
     (case next r of (answer, r') \<Rightarrow>
        case answer of
          Got event \<Rightarrow>
            (case flt of
               Some f \<Rightarrow> if f event then Some (Ok event, r', increment_consumed m)
                         else subscription_recv next flt r' m
             | None \<Rightarrow> Some (Ok event, r', increment_consumed m))
        | ChannelClosed \<Rightarrow> Some (Err RecvClosed, r', m)
        | Lagged count \<Rightarrow> subscription_recv next flt r' (increment_dropped count m))"

text \<open>\<open>Subscription::try_recv\<close>: the receiver's \<open>try_recv\<close> may find nothing, here \<open>None\<close>.\<close>

partial_function (option) subscription_try_recv ::
    "('r \<Rightarrow> recv_answer option \<times> 'r) \<Rightarrow> event_filter option \<Rightarrow> 'r \<Rightarrow> bus_metrics \<Rightarrow>
     ((trading_event option, recv_error) res \<times> 'r \<times> bus_metrics) option" where
  "subscription_try_recv next flt r m =
     (case next r of (answer, r') \<Rightarrow>
        case answer of
          None \<Rightarrow> Some (Ok None, r', m)
        | Some a \<Rightarrow>
            (case a of
               Got event \<Rightarrow>
                 (case flt of
                    Some f \<Rightarrow> if f event then Some (Ok (Some event), r', increment_consumed m)
                              else subscription_try_recv next flt r' m
                  | None \<Rightarrow> Some (Ok (Some event), r', increment_consumed m))
             | ChannelClosed \<Rightarrow> Some (Err RecvClosed, r', m)
             | Lagged count \<Rightarrow> subscription_try_recv next flt r' (increment_dropped count m)))"

partial_function (option) resumable_recv ::
    "('r \<Rightarrow> recv_answer \<times> 'r) \<Rightarrow> 'r \<Rightarrow> bus_metrics \<Rightarrow>
     ((trading_event, recv_error) res \<times> 'r \<times> bus_metrics) option" where
  "resumable_recv next r m =
     (case next r of (answer, r') \<Rightarrow>
        case answer of
          Got event \<Rightarrow> Some (Ok event, r', increment_consumed m)
        | ChannelClosed \<Rightarrow> Some (Err RecvClosed, r', m)
        | Lagged count \<Rightarrow> resumable_recv next r' (increment_dropped count m))"

section \<open>Topics\<close>

definition topic_matches :: "string \<Rightarrow> trading_event \<Rightarrow> bool" where
  "topic_matches pattern event =
     (if ends_with pattern ''.*''
      then starts_with (event_type event) (take (length pattern - 1) pattern)
      else if starts_with pattern ''*.''
      then ends_with (event_type event) (drop 2 pattern)
      else event_type event = pattern)"

section \<open>Dead letters\<close>

record dlq_entry =
  dq_event :: trading_event
  dq_error :: string
  dq_retries :: u32
  dq_timestamp :: timestamp

text \<open>
  The queue; the external storage, when there is one, is a state-passing function whose failure or
  timeout is an error value.
\<close>

record 's dead_letter_queue =
  dq_max_retries :: u32
  dq_storage :: "(dlq_entry \<Rightarrow> 's \<Rightarrow> (unit, string) res \<times> 's) option"
  dq_buffer :: "dlq_entry list"

definition dlq_with_retries :: "u32 \<Rightarrow> 's dead_letter_queue" where
  "dlq_with_retries n = \<lparr>dq_max_retries = n, dq_storage = None, dq_buffer = []\<rparr>"

definition dlq_new :: "'s dead_letter_queue" where
  "dlq_new = dlq_with_retries 3"

definition dlq_add ::
    "timestamp \<Rightarrow> trading_event \<Rightarrow> string \<Rightarrow> u32 \<Rightarrow> 's dead_letter_queue \<Rightarrow> 's \<Rightarrow> 's dead_letter_queue \<times> 's" where
  "dlq_add now event error retries q s =
     (let entry = \<lparr>dq_event = event, dq_error = error, dq_retries = retries, dq_timestamp = now\<rparr>;
          q' = q\<lparr>dq_buffer := dq_buffer q @ [entry]\<rparr> in
      case dq_storage q of None \<Rightarrow> (q', s) | Some store \<Rightarrow> (q', snd (store entry s)))"

definition dlq_entries :: "'s dead_letter_queue \<Rightarrow> dlq_entry list" where
  "dlq_entries q = dq_buffer q"

definition dlq_clear :: "'s dead_letter_queue \<Rightarrow> 's dead_letter_queue" where
  "dlq_clear q = q\<lparr>dq_buffer := []\<rparr>"

definition dlq_len :: "'s dead_letter_queue \<Rightarrow> nat" where
  "dlq_len q = length (dq_buffer q)"

section \<open>The bus\<close>

text \<open>The channel: \<open>send\<close> answers with the number of receivers, or \<open>None\<close> when there are none.\<close>

record ('c, 'r) broadcast =
  bc_channel :: "nat \<Rightarrow> 'c"
  bc_send :: "trading_event \<Rightarrow> 'c \<Rightarrow> nat option \<times> 'c"
  bc_subscribe :: "'c \<Rightarrow> 'r \<times> 'c"
  bc_receiver_count :: "'c \<Rightarrow> nat"
  bc_len :: "'c \<Rightarrow> nat"

record ('c, 's) event_bus =
  bus_channel :: 'c
  bus_metrics_of :: bus_metrics
  bus_next_id :: u64
  bus_dlq :: "'s dead_letter_queue option"

record 'r subscription =
  sub_receiver :: 'r
  sub_filter :: "event_filter option"
  sub_id :: u64

definition bus_new :: "('c, 'r) broadcast \<Rightarrow> nat \<Rightarrow> ('c, 's) event_bus" where
  "bus_new C capacity =
     \<lparr>bus_channel = bc_channel C capacity, bus_metrics_of = bus_metrics_new, bus_next_id = 1,
      bus_dlq = None\<rparr>"

definition bus_with_default_capacity :: "('c, 'r) broadcast \<Rightarrow> ('c, 's) event_bus" where
  "bus_with_default_capacity C = bus_new C 10000"

definition bus_with_dlq :: "'s dead_letter_queue \<Rightarrow> ('c, 's) event_bus \<Rightarrow> ('c, 's) event_bus" where
  "bus_with_dlq q b = b\<lparr>bus_dlq := Some q\<rparr>"

definition bus_publish :: "('c, 'r) broadcast \<Rightarrow> trading_event \<Rightarrow> ('c, 's) event_bus \<Rightarrow> nat \<times> ('c, 's) event_bus" where
  "bus_publish C event b =
     (case bc_send C event (bus_channel b) of (sent, c) \<Rightarrow>
        (case sent of Some n \<Rightarrow> n | None \<Rightarrow> 0,
         b\<lparr>bus_channel := c, bus_metrics_of := increment_published (bus_metrics_of b)\<rparr>))"

definition bus_subscribe :: "('c, 'r) broadcast \<Rightarrow> ('c, 's) event_bus \<Rightarrow> 'r \<times> ('c, 's) event_bus" where
  "bus_subscribe C b =
     (case bc_subscribe C (bus_channel b) of (rx, c) \<Rightarrow>
        (rx, b\<lparr>bus_channel := c, bus_metrics_of := increment_subscribers (bus_metrics_of b),
               bus_next_id := bus_next_id b + 1\<rparr>))"

definition bus_subscribe_filtered ::
    "('c, 'r) broadcast \<Rightarrow> event_filter \<Rightarrow> ('c, 's) event_bus \<Rightarrow> 'r subscription \<times> ('c, 's) event_bus" where
  "bus_subscribe_filtered C f b =
     (case bc_subscribe C (bus_channel b) of (rx, c) \<Rightarrow>
        (\<lparr>sub_receiver = rx, sub_filter = Some f, sub_id = bus_next_id b\<rparr>,
         b\<lparr>bus_channel := c, bus_metrics_of := increment_subscribers (bus_metrics_of b),
           bus_next_id := bus_next_id b + 1\<rparr>))"

definition bus_subscribe_to_topic ::
    "('c, 'r) broadcast \<Rightarrow> string \<Rightarrow> ('c, 's) event_bus \<Rightarrow> 'r subscription \<times> ('c, 's) event_bus" where
  "bus_subscribe_to_topic C pattern b = bus_subscribe_filtered C (topic_matches pattern) b"

definition bus_subscribe_resumable :: "('c, 'r) broadcast \<Rightarrow> ('c, 's) event_bus \<Rightarrow> 'r \<times> ('c, 's) event_bus" where
  "bus_subscribe_resumable C b = bus_subscribe C b"

text \<open>The \<open>Drop\<close> of a \<open>Subscription\<close>; a plain receiver has none of the bus's own.\<close>

definition bus_drop_subscription :: "('c, 's) event_bus \<Rightarrow> ('c, 's) event_bus" where
  "bus_drop_subscription b = b\<lparr>bus_metrics_of := decrement_subscribers (bus_metrics_of b)\<rparr>"

definition bus_metrics_now :: "('c, 'r) broadcast \<Rightarrow> ('c, 's) event_bus \<Rightarrow> bus_snapshot" where
  "bus_metrics_now C b = bus_metrics_snapshot (bc_len C (bus_channel b)) (bus_metrics_of b)"

text \<open>\<open>PrometheusExporter::export\<close>, with the clock in milliseconds.\<close>

definition exported_metric :: "string \<Rightarrow> string \<Rightarrow> string \<Rightarrow> nat \<Rightarrow> int \<Rightarrow> string" where
  "exported_metric name help kind n moment =
     ''# HELP '' @ name @ '' '' @ help @ [CHR 0x0A] @ ''# TYPE '' @ name @ '' '' @ kind @ [CHR 0x0A] @
     name @ '' {} '' @ show_nat n @ '' '' @ show_int moment @ [CHR 0x0A]"

definition prometheus_export :: "('c, 'r) broadcast \<Rightarrow> int \<Rightarrow> ('c, 's) event_bus \<Rightarrow> string" where
  "prometheus_export C moment b =
     (let m = bus_metrics_now C b in
      exported_metric ''eventbus_events_published_total'' ''Total events published'' ''counter''
        (unat (bs_published m)) moment @ [CHR 0x0A] @
      exported_metric ''eventbus_events_consumed_total'' ''Total events consumed'' ''counter''
        (unat (bs_consumed m)) moment @ [CHR 0x0A] @
      exported_metric ''eventbus_events_dropped_total'' ''Total events dropped (lagging receivers)'' ''counter''
        (unat (bs_dropped m)) moment @ [CHR 0x0A] @
      exported_metric ''eventbus_subscribers_active'' ''Current active subscribers'' ''gauge''
        (unat (bs_subscribers m)) moment @ [CHR 0x0A] @
      exported_metric ''eventbus_events_queued'' ''Current events queued in channel'' ''gauge''
        (bs_queued m) moment)"

text \<open>The bus as the port of the services: \<open>EventBusAdapter\<close> of the command line.\<close>

definition event_bus_adapter :: "('c, 'r) broadcast \<Rightarrow> ('c, 's) event_bus event_bus_port" where
  "event_bus_adapter C = \<lparr>eb_publish = bus_publish C\<rparr>"

section \<open>What a subscription delivers\<close>

text \<open>The receiver gives the answers \<open>as\<close> and then finds nothing; it is not closed meanwhile.\<close>

fun gives :: "('r \<Rightarrow> recv_answer option \<times> 'r) \<Rightarrow> 'r \<Rightarrow> recv_answer list \<Rightarrow> bool" where
  "gives next r [] = (fst (next r) = None)"
| "gives next r (a # as) = (fst (next r) = Some a \<and> a \<noteq> ChannelClosed \<and> gives next (snd (next r)) as)"

definition passes :: "event_filter option \<Rightarrow> trading_event \<Rightarrow> bool" where
  "passes flt e = (case flt of None \<Rightarrow> True | Some f \<Rightarrow> f e)"

fun events_of :: "recv_answer list \<Rightarrow> trading_event list" where
  "events_of [] = []"
| "events_of (Got e # as) = e # events_of as"
| "events_of (_ # as) = events_of as"

fun lag_of :: "recv_answer list \<Rightarrow> u64" where
  "lag_of [] = 0"
| "lag_of (Lagged n # as) = n + lag_of as"
| "lag_of (_ # as) = lag_of as"

text \<open>Taking events until none is found.\<close>

inductive drains ::
    "('r \<Rightarrow> recv_answer option \<times> 'r) \<Rightarrow> event_filter option \<Rightarrow> 'r \<Rightarrow> bus_metrics \<Rightarrow>
     trading_event list \<Rightarrow> bus_metrics \<Rightarrow> bool" for "next" flt where
  nothing: "subscription_try_recv next flt r m = Some (Ok None, r', m') \<Longrightarrow> drains next flt r m [] m'"
| event: "subscription_try_recv next flt r m = Some (Ok (Some e), r', m') \<Longrightarrow>
    drains next flt r' m' es m'' \<Longrightarrow> drains next flt r m (e # es) m''"

inductive_cases drains_cases: "drains next flt r m es m'"

lemma drains_functional: "drains next flt r m es m' \<Longrightarrow> drains next flt r m es2 m2 \<Longrightarrow> es2 = es \<and> m2 = m'"
proof (induction arbitrary: es2 m2 rule: drains.induct)
  case (nothing r m r' m')
  then show ?case by (auto elim: drains_cases)
next
  case (event r m e r' m' es m'')
  from event.prems event.hyps(1) obtain es' where "es2 = e # es'" "drains next flt r' m' es' m2"
    by (cases rule: drains_cases) auto
  with event.IH show ?case by blast
qed

lemma try_recv_skip:
  "next r = (Some (Lagged n), r') \<Longrightarrow>
     subscription_try_recv next flt r m = subscription_try_recv next flt r' (increment_dropped n m)"
  "next r = (Some (Got e), r') \<Longrightarrow> \<not> passes flt e \<Longrightarrow>
     subscription_try_recv next flt r m = subscription_try_recv next flt r' m"
  by (subst subscription_try_recv.simps; simp add: passes_def split: option.splits)+

lemma try_recv_here:
  "next r = (Some (Got e), r') \<Longrightarrow> passes flt e \<Longrightarrow>
     subscription_try_recv next flt r m = Some (Ok (Some e), r', increment_consumed m)"
  "next r = (None, r') \<Longrightarrow> subscription_try_recv next flt r m = Some (Ok None, r', m)"
  by (subst subscription_try_recv.simps; simp add: passes_def split: option.splits)+

lemma drains_skip:
  assumes "subscription_try_recv next flt r m = subscription_try_recv next flt r1 m1"
    and "drains next flt r1 m1 es m'"
  shows "drains next flt r m es m'"
  using assms(2) assms(1)
  by (cases rule: drains.cases) (auto intro: drains.intros)

lemma drains_given:
  "gives next r as \<Longrightarrow>
   drains next flt r m (filter (passes flt) (events_of as))
     (m\<lparr>bm_consumed := bm_consumed m + of_nat (length (filter (passes flt) (events_of as))),
        bm_dropped := bm_dropped m + lag_of as\<rparr>)"
proof (induction "next" r as arbitrary: m rule: gives.induct)
  case (1 "next" r)
  then obtain r' where "next r = (None, r')" by (cases "next r") auto
  from drains.nothing [OF try_recv_here(2) [of "next", OF this]] show ?case by simp
next
  case (2 "next" r a as)
  obtain r' where n: "next r = (Some a, r')" using 2(2) by (cases "next r") auto
  have g: "gives next (snd (next r)) as" using 2(2) by simp
  show ?case
  proof (cases a)
    case (Got e)
    show ?thesis
    proof (cases "passes flt e")
      case True
      from drains.event [OF try_recv_here(1) [of "next", OF n [unfolded Got] True] 2(1) [OF g, unfolded n snd_conv]] 2(2)
      show ?thesis
        using Got True by (simp add: increment_consumed_def add.assoc add.commute [of 1])
    next
      case False
      from drains_skip [OF try_recv_skip(2) [of "next", OF n [unfolded Got] False] 2(1) [OF g, unfolded n snd_conv]] 2(2)
      show ?thesis using Got False by simp
    qed
  next
    case (Lagged k)
    from drains_skip [OF try_recv_skip(1) [of "next", OF n [unfolded Lagged]] 2(1) [OF g, unfolded n snd_conv]] 2(2)
    show ?thesis using Lagged by (simp add: increment_dropped_def add.assoc)
  qed (use 2(2) in simp)
qed

text \<open>Waiting for an event skips the same answers; without a filter it is the resumable subscription.\<close>

lemma resumable_to_subscription:
  "resumable_recv nxt r m = Some x \<Longrightarrow> subscription_recv nxt None r m = Some x"
proof (rule resumable_recv.raw_induct [where P = "\<lambda>nxt r m x. subscription_recv nxt None r m = Some x"])
  fix resume :: "('a \<Rightarrow> recv_answer \<times> 'a) \<Rightarrow> 'a \<Rightarrow> bus_metrics \<Rightarrow> ((trading_event, recv_error) res \<times> 'a \<times> bus_metrics) option"
    and nxt r m x
  assume "\<And>nxt r m x. resume nxt r m = Some x \<Longrightarrow> subscription_recv nxt None r m = Some x"
    and "(case nxt r of (answer, r') \<Rightarrow> case answer of
            Got event \<Rightarrow> Some (Ok event, r', increment_consumed m)
          | Lagged count \<Rightarrow> resume nxt r' (increment_dropped count m)
          | ChannelClosed \<Rightarrow> Some (Err RecvClosed, r', m)) = Some x"
  then show "subscription_recv nxt None r m = Some x"
    by (subst subscription_recv.simps) (auto split: prod.splits recv_answer.splits)
qed

section \<open>The counters of the bus\<close>

datatype bus_call =
    Publish trading_event
  | Subscribe
  | SubscribeFiltered event_filter
  | SubscribeTopic string
  | DropSubscription
  | Consumed
  | Dropped u64

fun bus_do :: "('c, 'r) broadcast \<Rightarrow> bus_call \<Rightarrow> ('c, 's) event_bus \<Rightarrow> ('c, 's) event_bus" where
  "bus_do C (Publish e) b = snd (bus_publish C e b)"
| "bus_do C Subscribe b = snd (bus_subscribe C b)"
| "bus_do C (SubscribeFiltered f) b = snd (bus_subscribe_filtered C f b)"
| "bus_do C (SubscribeTopic p) b = snd (bus_subscribe_to_topic C p b)"
| "bus_do C DropSubscription b = bus_drop_subscription b"
| "bus_do C Consumed b = b\<lparr>bus_metrics_of := increment_consumed (bus_metrics_of b)\<rparr>"
| "bus_do C (Dropped n) b = b\<lparr>bus_metrics_of := increment_dropped n (bus_metrics_of b)\<rparr>"

definition is_publish :: "bus_call \<Rightarrow> bool" where
  "is_publish c = (\<exists>e. c = Publish e)"

definition is_filtered :: "bus_call \<Rightarrow> bool" where
  "is_filtered c = ((\<exists>f. c = SubscribeFiltered f) \<or> (\<exists>p. c = SubscribeTopic p))"

abbreviation calls_of :: "(bus_call \<Rightarrow> bool) \<Rightarrow> bus_call list \<Rightarrow> u64" where
  "calls_of P cs \<equiv> of_nat (length (filter P cs))"

lemmas bus_do_simps =
  bus_publish_def bus_subscribe_def bus_subscribe_filtered_def bus_subscribe_to_topic_def
  bus_drop_subscription_def increment_published_def increment_subscribers_def
  decrement_subscribers_def increment_consumed_def increment_dropped_def is_publish_def is_filtered_def

lemma bus_do_counts:
  "bm_published (bus_metrics_of (bus_do C c b)) = bm_published (bus_metrics_of b) + (if is_publish c then 1 else 0)"
  "bm_subscribers (bus_metrics_of (bus_do C c b)) =
     bm_subscribers (bus_metrics_of b) + (if c = Subscribe \<or> is_filtered c then 1 else 0) - (if c = DropSubscription then 1 else 0)"
  "bus_dlq (bus_do C c b) = bus_dlq b"
  by (cases c; simp add: bus_do_simps split: prod.split)+

lemma bus_published_count:
  "bm_published (bus_metrics_of (fold (bus_do C) cs b)) = bm_published (bus_metrics_of b) + calls_of is_publish cs"
  by (induction cs arbitrary: b) (simp_all add: bus_do_counts del: bus_do.simps)

lemma bus_subscriber_count:
  "bm_subscribers (bus_metrics_of (fold (bus_do C) cs b)) = bm_subscribers (bus_metrics_of b) +
     calls_of (\<lambda>c. c = Subscribe) cs + calls_of is_filtered cs - calls_of (\<lambda>c. c = DropSubscription) cs"
proof (induction cs arbitrary: b)
  case (Cons c cs)
  show ?case
    by (cases c) (simp_all add: Cons bus_do_counts is_filtered_def del: bus_do.simps)
qed simp

lemma bus_dlq_kept: "bus_dlq (fold (bus_do C) cs b) = bus_dlq b"
  by (induction cs arbitrary: b) (simp_all add: bus_do_counts del: bus_do.simps)

text \<open>
  What the counters of the bus count, whatever the channel does.  \<open>published\<close> counts every call
  of \<open>publish\<close>, also those nobody received.  \<open>subscribers\<close> counts the subscriptions less the dropped
  ones, but every plain \<open>subscribe\<close> forever: once all filtered subscriptions are dropped the count
  is still the number of plain calls.  No call ever puts anything into the dead letter queue.
\<close>

theorem bus_counters:
  "bm_published (bus_metrics_of (fold (bus_do C) cs (bus_new C n))) = calls_of is_publish cs \<and>
   bm_subscribers (bus_metrics_of (fold (bus_do C) cs (bus_new C n))) =
     calls_of (\<lambda>c. c = Subscribe) cs + calls_of is_filtered cs - calls_of (\<lambda>c. c = DropSubscription) cs \<and>
   bus_dlq (fold (bus_do C) cs (bus_with_dlq q (bus_new C n))) = Some q"
  by (simp add: bus_published_count bus_subscriber_count bus_dlq_kept bus_new_def bus_metrics_new_def
      bus_with_dlq_def)

section \<open>Subscriptions and topics\<close>


definition script_next :: "recv_answer list \<Rightarrow> recv_answer option \<times> recv_answer list" where
  "script_next as = (case as of [] \<Rightarrow> (None, []) | a # as' \<Rightarrow> (Some a, as'))"


text \<open>No event type contains a dot.\<close>

lemma dot_free: "CHR ''.'' \<notin> set (event_type e)"
  by (cases e) simp_all

lemma dotted_prefix: "\<not> starts_with (event_type e) (p @ ''.'' @ q)"
  using dot_free [of e] by (auto simp: starts_with_iff)

lemma family_matches_nothing: "ends_with p ''.*'' \<Longrightarrow> \<not> topic_matches p e"
  using dotted_prefix [of e _ "[]"] by (auto simp: topic_matches_def ends_with_iff)

text \<open>
  What a topic pattern selects.  A pattern that ends in \<open>.*\<close>, the documented way to select a
  family of topics, selects no event at all, because the prefix keeps its dot and no event type has
  one; \<open>*.suffix\<close> selects the types that end in the suffix; any other pattern selects the events
  of exactly that type.
\<close>

theorem topic_patterns:
  "\<not> topic_matches (family @ ''.*'') e \<and>
   topic_matches (''*.'' @ suffix) e =
     (ends_with (event_type e) suffix \<and> \<not> ends_with (''*.'' @ suffix) ''.*'') \<and>
   topic_matches (event_type e') e = (event_type e = event_type e')"
proof (intro conjI)
  show "\<not> topic_matches (family @ ''.*'') e" by (simp add: family_matches_nothing)
  show "topic_matches (''*.'' @ suffix) e = (ends_with (event_type e) suffix \<and> \<not> ends_with (''*.'' @ suffix) ''.*'')"
    using family_matches_nothing [of "''*.'' @ suffix" e] starts_with_append [of "''*.''" suffix]
    by (auto simp: topic_matches_def)
  have "\<not> ends_with (event_type e') ''.*''" "\<not> starts_with (event_type e') ''*.''"
    using dot_free [of e'] by (auto simp: ends_with_iff starts_with_iff)
  then show "topic_matches (event_type e') e = (event_type e = event_type e')"
    by (simp add: topic_matches_def)
qed

end
