(* ===== verification/Data_Pipeline.thy ===== *)
theory Data_Pipeline
  imports Ports "HOL-Library.Sublist"
begin

text \<open>
  The data pipeline of \<open>crates/application/src/data_pipeline.rs\<close>.  Ingestion tasks publish the bars
  of the provider on the event bus, the distribution task buffers the bars it gets from the bus, and
  the persistence task writes the buffer to the repository in batches, behind a circuit breaker.
  The tasks share the buffer and the breaker through locks: a flush is split where it waits for the
  repository, so that bars may arrive in between.  Instants and durations are in nanoseconds.
\<close>

section \<open>States\<close>

datatype pipeline_state = PL_Starting | PL_Running | PL_Paused | PL_ShuttingDown | PL_Stopped | PL_Error

fun pipeline_state_display :: "pipeline_state \<Rightarrow> string" where
  "pipeline_state_display PL_Starting = ''starting''"
| "pipeline_state_display PL_Running = ''running''"
| "pipeline_state_display PL_Paused = ''paused''"
| "pipeline_state_display PL_ShuttingDown = ''shutting_down''"
| "pipeline_state_display PL_Stopped = ''stopped''"
| "pipeline_state_display PL_Error = ''error''"

datatype circuit_state = CS_Closed | CS_Open | CS_HalfOpen

fun circuit_state_display :: "circuit_state \<Rightarrow> string" where
  "circuit_state_display CS_Closed = ''closed''"
| "circuit_state_display CS_Open = ''open''"
| "circuit_state_display CS_HalfOpen = ''half_open''"

section \<open>The circuit breaker\<close>

record circuit_breaker =
  pb_state :: circuit_state
  pb_failure_count :: u32
  pb_last_failure :: "instant option"
  pb_threshold :: u32
  pb_timeout :: int
  pb_half_open_interval :: int

definition seconds :: "u64 \<Rightarrow> int" where
  "seconds s = int (unat s) * 10 ^ 9"

definition circuit_new :: "u32 \<Rightarrow> u64 \<Rightarrow> circuit_breaker" where
  "circuit_new threshold timeout_secs =
     \<lparr>pb_state = CS_Closed, pb_failure_count = 0, pb_last_failure = None, pb_threshold = threshold,
      pb_timeout = seconds timeout_secs, pb_half_open_interval = seconds 10\<rparr>"

definition circuit_record_success :: "circuit_breaker \<Rightarrow> circuit_breaker" where
  "circuit_record_success c =
     (if pb_state c = CS_HalfOpen then c\<lparr>pb_state := CS_Closed\<rparr> else c)
       \<lparr>pb_failure_count := 0, pb_last_failure := None\<rparr>"

definition circuit_record_failure :: "instant \<Rightarrow> circuit_breaker \<Rightarrow> circuit_state \<times> circuit_breaker" where
  "circuit_record_failure now c =
     (let c1 = c\<lparr>pb_failure_count := pb_failure_count c + 1, pb_last_failure := Some now\<rparr>;
          c2 = (if pb_state c1 = CS_HalfOpen then c1\<lparr>pb_state := CS_Open\<rparr>
                else if pb_threshold c1 \<le> pb_failure_count c1 \<and> pb_state c1 = CS_Closed
                then c1\<lparr>pb_state := CS_Open\<rparr>
                else c1)
      in (pb_state c2, c2))"

definition circuit_can_execute :: "instant \<Rightarrow> circuit_breaker \<Rightarrow> bool" where
  "circuit_can_execute now c =
     (case pb_state c of
        CS_Closed \<Rightarrow> True
      | CS_Open \<Rightarrow> (case pb_last_failure c of Some t \<Rightarrow> pb_timeout c \<le> elapsed now t | None \<Rightarrow> True)
      | CS_HalfOpen \<Rightarrow> True)"

definition circuit_attempt_reset :: "instant \<Rightarrow> circuit_breaker \<Rightarrow> bool \<times> circuit_breaker" where
  "circuit_attempt_reset now c =
     (if pb_state c = CS_Open
      then case pb_last_failure c of
             Some t \<Rightarrow> if pb_timeout c \<le> elapsed now t then (True, c\<lparr>pb_state := CS_HalfOpen\<rparr>) else (False, c)
           | None \<Rightarrow> (False, c)
      else (False, c))"

section \<open>Configuration, errors, metrics\<close>

record pipeline_config =
  pc_buffer_size :: nat
  pc_batch_size :: nat
  pc_flush_interval_secs :: u64
  pc_circuit_breaker_threshold :: u32
  pc_circuit_breaker_timeout_secs :: u64
  pc_symbols :: "symbol list"
  pc_timeframe :: time_frame

definition pipeline_config_default :: pipeline_config where
  "pipeline_config_default =
     \<lparr>pc_buffer_size = 1000, pc_batch_size = 100, pc_flush_interval_secs = 5,
      pc_circuit_breaker_threshold = 5, pc_circuit_breaker_timeout_secs = 30,
      pc_symbols = [Symbol ''ES''], pc_timeframe = M1\<rparr>"

datatype pipeline_error =
    Pipe_Provider string
  | Pipe_Repository string
  | Pipe_CircuitOpen
  | Pipe_ShutdownTimeout
  | Pipe_InvalidConfig string
  | Pipe_ChannelClosed string

fun pipeline_error_display :: "pipeline_error \<Rightarrow> string" where
  "pipeline_error_display (Pipe_Provider m) = ''Provider error: '' @ m"
| "pipeline_error_display (Pipe_Repository m) = ''Repository error: '' @ m"
| "pipeline_error_display Pipe_CircuitOpen = ''Circuit breaker open''"
| "pipeline_error_display Pipe_ShutdownTimeout = ''Shutdown timeout''"
| "pipeline_error_display (Pipe_InvalidConfig m) = ''Invalid configuration: '' @ m"
| "pipeline_error_display (Pipe_ChannelClosed m) = ''Channel closed: '' @ m"

record pipeline_metrics =
  pm_bars_ingested :: u64
  pm_bars_persisted :: u64
  pm_batches_written :: u64
  pm_error_count :: u64
  pm_start_time :: "instant option"

definition pipeline_metrics_new :: "instant \<Rightarrow> pipeline_metrics" where
  "pipeline_metrics_new now =
     \<lparr>pm_bars_ingested = 0, pm_bars_persisted = 0, pm_batches_written = 0, pm_error_count = 0,
      pm_start_time = Some now\<rparr>"

definition record_ingested :: "pipeline_metrics \<Rightarrow> pipeline_metrics" where
  "record_ingested m = m\<lparr>pm_bars_ingested := pm_bars_ingested m + 1\<rparr>"

definition record_persisted :: "u64 \<Rightarrow> pipeline_metrics \<Rightarrow> pipeline_metrics" where
  "record_persisted n m = m\<lparr>pm_bars_persisted := pm_bars_persisted m + n\<rparr>"

definition record_batch :: "pipeline_metrics \<Rightarrow> pipeline_metrics" where
  "record_batch m = m\<lparr>pm_batches_written := pm_batches_written m + 1\<rparr>"

definition record_error :: "pipeline_metrics \<Rightarrow> pipeline_metrics" where
  "record_error m = m\<lparr>pm_error_count := pm_error_count m + 1\<rparr>"

definition uptime_secs :: "instant \<Rightarrow> pipeline_metrics \<Rightarrow> nat" where
  "uptime_secs now m = (case pm_start_time m of Some s \<Rightarrow> nat (elapsed now s div 10 ^ 9) | None \<Rightarrow> 0)"

section \<open>The pipeline\<close>

record data_pipeline =
  dp_state :: pipeline_state
  dp_config :: pipeline_config
  dp_circuit :: circuit_breaker
  dp_buffer :: "bar list"
  dp_metrics :: pipeline_metrics
  dp_last_error :: "string option"
  dp_symbol_counters :: "symbol \<rightharpoonup> u64"

text \<open>The constructor takes the breaker's threshold and timeout from constants, not from the configuration.\<close>

definition pipeline_new :: "instant \<Rightarrow> pipeline_config \<Rightarrow> data_pipeline" where
  "pipeline_new now config =
     \<lparr>dp_state = PL_Stopped, dp_config = config, dp_circuit = circuit_new 5 30, dp_buffer = [],
      dp_metrics = pipeline_metrics_new now, dp_last_error = None, dp_symbol_counters = Map.empty\<rparr>"

text \<open>\<open>run\<close> up to the point where it spawns the tasks.\<close>

definition pipeline_start :: "data_pipeline \<Rightarrow> (unit, pipeline_error) res \<times> data_pipeline" where
  "pipeline_start p =
     (let p1 = p\<lparr>dp_state := PL_Starting\<rparr> in
      if pc_symbols (dp_config p1) = [] then (Err (Pipe_InvalidConfig ''No symbols configured''), p1)
      else (Ok (), p1\<lparr>dp_symbol_counters :=
                        fold (\<lambda>s m. m(s \<mapsto> 0)) (pc_symbols (dp_config p1)) (dp_symbol_counters p1),
                      dp_state := PL_Running\<rparr>))"

definition pipeline_pause :: "data_pipeline \<Rightarrow> data_pipeline" where
  "pipeline_pause p = (if dp_state p = PL_Running then p\<lparr>dp_state := PL_Paused\<rparr> else p)"

definition pipeline_resume :: "data_pipeline \<Rightarrow> data_pipeline" where
  "pipeline_resume p = (if dp_state p = PL_Paused then p\<lparr>dp_state := PL_Running\<rparr> else p)"

text \<open>What the pipeline uses of the bus and of the repository of bars.\<close>

record 'w pipeline_ports =
  pp_publish :: "trading_event \<Rightarrow> ('w, unit, string) io"
  pp_save_batch :: "bar list \<Rightarrow> ('w, unit, domain_error) io"

text \<open>One turn of the ingestion loop for a received bar; a failed publication is only logged.\<close>

definition ingest_bar ::
    "'w pipeline_ports \<Rightarrow> timestamp \<Rightarrow> bar \<Rightarrow> data_pipeline \<Rightarrow> 'w \<Rightarrow> data_pipeline \<times> 'w" where
  "ingest_bar P now b p w =
     (p\<lparr>dp_metrics := record_ingested (dp_metrics p)\<rparr>,
      snd (pp_publish P (Ev_BarReceived b ''ingestion_task'' now) w))"

text \<open>One turn of the distribution loop: the oldest bar gives way when 1000 are buffered.\<close>

definition distribute_event :: "trading_event \<Rightarrow> data_pipeline \<Rightarrow> data_pipeline" where
  "distribute_event ev p =
     (case ev of
        Ev_BarReceived b _ _ \<Rightarrow> p\<lparr>dp_buffer := push_dropping 1000 b (dp_buffer p)\<rparr>
      | _ \<Rightarrow> p)"

text \<open>\<open>flush_to_repository\<close> up to the call of the repository: the batch to write, if any.\<close>

definition flush_begin ::
    "instant \<Rightarrow> data_pipeline \<Rightarrow> (bar list option, pipeline_error) res \<times> data_pipeline" where
  "flush_begin now p =
     (if \<not> circuit_can_execute now (dp_circuit p) \<and> pb_state (dp_circuit p) = CS_Open
      then (Err Pipe_CircuitOpen, p)
      else if length (dp_buffer p) < pc_batch_size (dp_config p) then (Ok None, p)
      else
        let count = min (pc_batch_size (dp_config p)) (length (dp_buffer p));
            batch = take count (dp_buffer p);
            p' = p\<lparr>dp_buffer := drop count (dp_buffer p)\<rparr>
        in if batch = [] then (Ok None, p') else (Ok (Some batch), p'))"

text \<open>The rest, from the answer of the repository; the buffer may have grown meanwhile.\<close>

definition flush_end ::
    "(timestamp \<Rightarrow> string) \<Rightarrow> instant \<Rightarrow> bar list \<Rightarrow> (unit, domain_error) res \<Rightarrow> data_pipeline \<Rightarrow>
     (unit, pipeline_error) res \<times> data_pipeline" where
  "flush_end tf now batch answer p =
     (case answer of
        Ok _ \<Rightarrow>
          (Ok (), p\<lparr>dp_metrics := record_batch (record_persisted (of_nat (length batch)) (dp_metrics p)),
                    dp_circuit := circuit_record_success (dp_circuit p), dp_last_error := None\<rparr>)
      | Err e \<Rightarrow>
          (let msg = ''Database error: '' @ domain_error_display tf e in
           (Err (Pipe_Repository msg),
            p\<lparr>dp_metrics := record_error (dp_metrics p), dp_last_error := Some msg,
              dp_circuit := snd (circuit_record_failure now (dp_circuit p)),
              dp_buffer := take (pc_buffer_size (dp_config p)) (batch @ dp_buffer p)\<rparr>))
      | Panic \<Rightarrow> (Panic, p))"

definition flush_to_repository ::
    "(timestamp \<Rightarrow> string) \<Rightarrow> 'w pipeline_ports \<Rightarrow> instant \<Rightarrow> instant \<Rightarrow> data_pipeline \<Rightarrow> 'w \<Rightarrow>
     ((unit, pipeline_error) res \<times> data_pipeline) \<times> 'w" where
  "flush_to_repository tf P now1 now2 p w =
     (case flush_begin now1 p of
        (Err e, p1) \<Rightarrow> ((Err e, p1), w)
      | (Panic, p1) \<Rightarrow> ((Panic, p1), w)
      | (Ok None, p1) \<Rightarrow> ((Ok (), p1), w)
      | (Ok (Some batch), p1) \<Rightarrow>
          (case pp_save_batch P batch w of (answer, w') \<Rightarrow> (flush_end tf now2 batch answer p1, w')))"

text \<open>The half-open timer of the persistence task.\<close>

definition half_open_tick :: "instant \<Rightarrow> data_pipeline \<Rightarrow> data_pipeline" where
  "half_open_tick now p =
     (if pb_state (dp_circuit p) = CS_Open
      then p\<lparr>dp_circuit := snd (circuit_attempt_reset now (dp_circuit p))\<rparr> else p)"

definition flush_buffer ::
    "(timestamp \<Rightarrow> string) \<Rightarrow> 'w pipeline_ports \<Rightarrow> data_pipeline \<Rightarrow> 'w \<Rightarrow>
     ((unit, pipeline_error) res \<times> data_pipeline) \<times> 'w" where
  "flush_buffer tf P p w =
     (if dp_buffer p = [] then ((Ok (), p), w)
      else
        let bars = dp_buffer p; p1 = p\<lparr>dp_buffer := []\<rparr> in
        case pp_save_batch P bars w of
          (Ok _, w') \<Rightarrow> ((Ok (), p1\<lparr>dp_metrics := record_persisted (of_nat (length bars)) (dp_metrics p1)\<rparr>), w')
        | (Err e, w') \<Rightarrow> ((Err (Pipe_Repository (''Failed to flush buffer: '' @ domain_error_display tf e)), p1), w')
        | (Panic, w') \<Rightarrow> ((Panic, p1), w'))"

text \<open>
  \<open>shutdown\<close>; \<open>late\<close> says that the flush did not end within its 30 seconds: it is abandoned after it
  emptied the buffer, and the answer of the repository is not seen.
\<close>

definition pipeline_shutdown ::
    "(timestamp \<Rightarrow> string) \<Rightarrow> 'w pipeline_ports \<Rightarrow> bool \<Rightarrow> data_pipeline \<Rightarrow> 'w \<Rightarrow>
     ((unit, pipeline_error) res \<times> data_pipeline) \<times> 'w" where
  "pipeline_shutdown tf P late p w =
     (let p0 = p\<lparr>dp_state := PL_ShuttingDown\<rparr> in
      case flush_buffer tf P p0 w of
        ((r, p1), w') \<Rightarrow>
          if late then ((Err Pipe_ShutdownTimeout, p0\<lparr>dp_buffer := []\<rparr>), w')
          else case r of Panic \<Rightarrow> ((Panic, p1), w')
               | _ \<Rightarrow> ((Ok (), p1\<lparr>dp_state := PL_Stopped\<rparr>), w'))"

section \<open>Health\<close>

record health_status =
  hs_state :: pipeline_state
  hs_circuit_state :: circuit_state
  hs_last_error :: "string option"
  hs_queue_depth :: nat
  hs_processing_rate :: f64
  hs_uptime_secs :: nat
  hs_total_bars_processed :: u64
  hs_total_bars_persisted :: u64

text \<open>The rate is a floating-point quotient by the elapsed time; it is an argument.\<close>

definition pipeline_health :: "f64 \<Rightarrow> instant \<Rightarrow> data_pipeline \<Rightarrow> health_status" where
  "pipeline_health rate now p =
     \<lparr>hs_state = dp_state p, hs_circuit_state = pb_state (dp_circuit p), hs_last_error = dp_last_error p,
      hs_queue_depth = length (dp_buffer p), hs_processing_rate = rate,
      hs_uptime_secs = uptime_secs now (dp_metrics p),
      hs_total_bars_processed = pm_bars_ingested (dp_metrics p),
      hs_total_bars_persisted = pm_bars_persisted (dp_metrics p)\<rparr>"

definition is_healthy :: "health_status \<Rightarrow> bool" where
  "is_healthy h = (hs_state h = PL_Running \<and> hs_circuit_state h = CS_Closed)"

definition is_degraded :: "health_status \<Rightarrow> bool" where
  "is_degraded h = (hs_state h = PL_Running \<and> hs_circuit_state h = CS_Open)"

definition overall_status :: "health_status \<Rightarrow> string" where
  "overall_status h =
     (if is_healthy h then ''healthy'' else if is_degraded h then ''degraded'' else ''unhealthy'')"

section \<open>Runs of the tasks\<close>

text \<open>
  A run: the pipeline, the batch that waits for the repository, the bars that arrived at the
  distribution task and those the repository accepted, each in order.
\<close>

record pipeline_run =
  run_pipeline :: data_pipeline
  run_in_flight :: "bar list"
  run_arrived :: "bar list"
  run_saved :: "bar list"
  run_batches :: nat
  run_failures :: nat

definition run_new :: "instant \<Rightarrow> pipeline_config \<Rightarrow> pipeline_run" where
  "run_new now cfg =
     \<lparr>run_pipeline = pipeline_new now cfg, run_in_flight = [], run_arrived = [], run_saved = [],
      run_batches = 0, run_failures = 0\<rparr>"

fun bars_of_event :: "trading_event \<Rightarrow> bar list" where
  "bars_of_event (Ev_BarReceived b _ _) = [b]"
| "bars_of_event _ = []"

inductive pipeline_step :: "pipeline_run \<Rightarrow> pipeline_run \<Rightarrow> bool" where
  arrive: "pipeline_step x (x\<lparr>run_pipeline := distribute_event ev (run_pipeline x),
             run_arrived := run_arrived x @ bars_of_event ev\<rparr>)"
| begin_flush: "run_in_flight x = [] \<Longrightarrow> flush_begin now (run_pipeline x) = (Ok (Some batch), p) \<Longrightarrow>
    pipeline_step x (x\<lparr>run_pipeline := p, run_in_flight := batch\<rparr>)"
| skip_flush: "run_in_flight x = [] \<Longrightarrow> flush_begin now (run_pipeline x) = (Ok None, p) \<Longrightarrow>
    pipeline_step x (x\<lparr>run_pipeline := p\<rparr>)"
| saved: "run_in_flight x \<noteq> [] \<Longrightarrow> flush_end tf now (run_in_flight x) (Ok ()) (run_pipeline x) = (r, p) \<Longrightarrow>
    pipeline_step x (x\<lparr>run_pipeline := p, run_in_flight := [], run_saved := run_saved x @ run_in_flight x,
      run_batches := run_batches x + 1\<rparr>)"
| failed: "run_in_flight x \<noteq> [] \<Longrightarrow> flush_end tf now (run_in_flight x) (Err e) (run_pipeline x) = (r, p) \<Longrightarrow>
    pipeline_step x (x\<lparr>run_pipeline := p, run_in_flight := [], run_failures := run_failures x + 1\<rparr>)"
| tick: "run_in_flight x = [] \<Longrightarrow> pipeline_step x (x\<lparr>run_pipeline := half_open_tick now (run_pipeline x)\<rparr>)"
| pause: "pipeline_step x (x\<lparr>run_pipeline := pipeline_pause (run_pipeline x)\<rparr>)"
| resume: "pipeline_step x (x\<lparr>run_pipeline := pipeline_resume (run_pipeline x)\<rparr>)"
| ingest: "pipeline_step x (x\<lparr>run_pipeline :=
    (run_pipeline x)\<lparr>dp_metrics := record_ingested (dp_metrics (run_pipeline x))\<rparr>\<rparr>)"

lemma subseq_front: "subseq (xs @ ys) zs \<Longrightarrow> subseq ys' ys \<Longrightarrow> subseq (xs @ ys') zs"
  by (meson list_emb_append_mono subseq_order.order_refl subseq_order.order_trans)

lemma subseq_push: "subseq (push_dropping n x xs) (xs @ [x])"
proof (cases xs)
  case (Cons y ys)
  then show ?thesis by (auto simp: push_dropping_def intro: subseq_order.order_refl list_emb_Cons)
qed (simp add: push_dropping_def)

lemma subseq_take: "subseq (take n xs) xs"
  by (metis append_take_drop_id list_emb_append2 subseq_order.order_refl list_emb_prefix)

text \<open>What holds of every run.\<close>

definition run_inv :: "pipeline_config \<Rightarrow> pipeline_run \<Rightarrow> bool" where
  "run_inv cfg x =
     (dp_config (run_pipeline x) = cfg \<and>
      subseq (run_saved x @ run_in_flight x @ dp_buffer (run_pipeline x)) (run_arrived x) \<and>
      length (dp_buffer (run_pipeline x)) \<le> max 1000 (pc_buffer_size cfg) \<and>
      length (run_in_flight x) \<le> pc_batch_size cfg \<and>
      pm_bars_persisted (dp_metrics (run_pipeline x)) = of_nat (length (run_saved x)) \<and>
      pm_batches_written (dp_metrics (run_pipeline x)) = of_nat (run_batches x) \<and>
      pm_error_count (dp_metrics (run_pipeline x)) = of_nat (run_failures x))"

lemma run_inv_new: "run_inv cfg (run_new now cfg)"
  by (simp add: run_inv_def run_new_def pipeline_new_def pipeline_metrics_new_def)

lemma flush_begin_batch:
  assumes "flush_begin now p = (Ok (Some batch), p')"
  shows "dp_buffer p = batch @ dp_buffer p'" and "length batch = pc_batch_size (dp_config p)"
    and "p' = p\<lparr>dp_buffer := dp_buffer p'\<rparr>" and "batch \<noteq> []"
  using assms by (auto simp: flush_begin_def Let_def split: if_splits)

lemma flush_begin_none:
  assumes "flush_begin now p = (Ok None, p')"
  shows "p' = p"
  using assms by (auto simp: flush_begin_def Let_def split: if_splits)

lemma run_inv_step:
  assumes "pipeline_step x y" and "run_inv cfg x"
  shows "run_inv cfg y"
  using assms
proof cases
  case (arrive ev)
  show ?thesis
  proof (cases "\<exists>b s t. ev = Ev_BarReceived b s t")
    case True
    then obtain b s t where ev: "ev = Ev_BarReceived b s t" by blast
    let ?B = "dp_buffer (run_pipeline x)"
    have "subseq (run_saved x @ run_in_flight x @ push_dropping 1000 b ?B) (run_arrived x @ [b])"
    proof -
      have "subseq ((run_saved x @ run_in_flight x @ ?B) @ [b]) (run_arrived x @ [b])"
        using assms(2) by (intro list_emb_append_mono) (simp_all add: run_inv_def)
      then have "subseq ((run_saved x @ run_in_flight x) @ ?B @ [b]) (run_arrived x @ [b])" by simp
      from subseq_front [OF this subseq_push] show ?thesis by simp
    qed
    moreover have "length (push_dropping 1000 b ?B) \<le> max 1000 (pc_buffer_size cfg)"
      using assms(2) by (auto simp: run_inv_def push_dropping_def)
    ultimately show ?thesis
      using assms(2) arrive ev by (simp add: run_inv_def distribute_event_def)
  next
    case False
    then have "distribute_event ev (run_pipeline x) = run_pipeline x" "bars_of_event ev = []"
      by (cases ev; simp add: distribute_event_def)+
    with arrive assms(2) show ?thesis by (simp add: run_inv_def)
  qed
next
  case (begin_flush now batch p)
  note b = flush_begin_batch [OF begin_flush(3)]
  have "dp_config p = dp_config (run_pipeline x)" "dp_metrics p = dp_metrics (run_pipeline x)"
    by (subst b(3), simp)+
  with begin_flush b(1,2) assms(2) show ?thesis by (simp add: run_inv_def)
next
  case (skip_flush now p)
  with flush_begin_none [OF skip_flush(3)] assms(2) show ?thesis by (simp add: run_inv_def)
next
  case (saved tf now r p)
  with assms(2) show ?thesis
    by (auto simp: run_inv_def flush_end_def record_batch_def record_persisted_def)
next
  case (failed tf now e r p)
  let ?B = "dp_buffer (run_pipeline x)"
  have "subseq (run_saved x @ take n (run_in_flight x @ ?B)) (run_arrived x)" for n
    using subseq_front [OF _ subseq_take, of "run_saved x" "run_in_flight x @ ?B" "run_arrived x" n] assms(2)
    by (simp add: run_inv_def)
  with failed assms(2) show ?thesis
    by (auto simp: run_inv_def flush_end_def Let_def record_error_def)
qed (auto simp: run_inv_def half_open_tick_def pipeline_pause_def pipeline_resume_def record_ingested_def)


definition tiny_config :: pipeline_config where
  "tiny_config = pipeline_config_default\<lparr>pc_batch_size := 1\<rparr>"


section \<open>Draining\<close>

text \<open>Consecutive flushes, one at each instant.\<close>

fun flush_times ::
    "(timestamp \<Rightarrow> string) \<Rightarrow> 'w pipeline_ports \<Rightarrow> instant list \<Rightarrow> data_pipeline \<Rightarrow> 'w \<Rightarrow> data_pipeline \<times> 'w" where
  "flush_times tf P [] p w = (p, w)"
| "flush_times tf P (t # ts) p w =
     (case flush_to_repository tf P t t p w of ((r, p'), w') \<Rightarrow> flush_times tf P ts p' w')"

lemma flush_closed:
  assumes "pb_state (dp_circuit p) = CS_Closed" and "0 < pc_batch_size (dp_config p)"
    and "pp_save_batch P (take (pc_batch_size (dp_config p)) (dp_buffer p)) w = (Ok (), w1)"
  shows "flush_to_repository tf P t t' p w =
    (if length (dp_buffer p) < pc_batch_size (dp_config p) then ((Ok (), p), w)
     else ((Ok (), p\<lparr>dp_buffer := drop (pc_batch_size (dp_config p)) (dp_buffer p),
             dp_metrics := record_batch (record_persisted (of_nat (pc_batch_size (dp_config p))) (dp_metrics p)),
             dp_circuit := (dp_circuit p)\<lparr>pb_failure_count := 0, pb_last_failure := None\<rparr>,
             dp_last_error := None\<rparr>), w1))"
  using assms
  by (auto simp: flush_to_repository_def flush_begin_def flush_end_def circuit_can_execute_def Let_def
      circuit_record_success_def min_absorb1)

lemma drain_step:
  assumes "0 < (b::nat)" and "b \<le> n"
  shows "n div b * b = b + (n - b) div b * b" and "n div b = Suc ((n - b) div b)"
  using assms by (simp_all add: le_div_geq)

text \<open>
  The buffer drains.  While the breaker is closed and the repository accepts every batch, as
  many flushes as there are full batches in the buffer write exactly those bars, in their order,
  and leave less than one batch, which no further flush writes before more bars arrive.
\<close>

theorem buffer_drains:
  assumes "\<And>bars w. \<exists>w'. pp_save_batch P bars w = (Ok (), w') \<and> stored w' = stored w @ bars"
    and "pb_state (dp_circuit p) = CS_Closed" and "0 < pc_batch_size (dp_config p)"
    and "length (dp_buffer p) div pc_batch_size (dp_config p) \<le> length ts"
    and "flush_times tf P ts p w = (p', w')"
  defines "full \<equiv> length (dp_buffer p) div pc_batch_size (dp_config p) * pc_batch_size (dp_config p)"
  shows "dp_buffer p' = drop full (dp_buffer p) \<and> stored w' = stored w @ take full (dp_buffer p) \<and>
    length (dp_buffer p') < pc_batch_size (dp_config p) \<and>
    pm_bars_persisted (dp_metrics p') = pm_bars_persisted (dp_metrics p) + of_nat full \<and>
    pb_state (dp_circuit p') = CS_Closed"
  unfolding full_def using assms(2-5)
proof (induction ts arbitrary: p w)
  case Nil
  then show ?case by (auto simp: div_eq_0_iff)
next
  case (Cons t ts)
  let ?b = "pc_batch_size (dp_config p)" and ?n = "length (dp_buffer p)"
  obtain w1 where w1: "pp_save_batch P (take ?b (dp_buffer p)) w = (Ok (), w1)"
      "stored w1 = stored w @ take ?b (dp_buffer p)"
    using assms(1) by blast
  note f = flush_closed [OF Cons.prems(1,2) w1(1), of tf t t]
  show ?case
  proof (cases "?n < ?b")
    case True
    with f Cons.prems have "flush_times tf P ts p w = (p', w')" by simp
    from Cons.IH [OF Cons.prems(1,2) _ this] True show ?thesis by simp
  next
    case False
    let ?p1 = "p\<lparr>dp_buffer := drop ?b (dp_buffer p),
             dp_metrics := record_batch (record_persisted (of_nat ?b) (dp_metrics p)),
             dp_circuit := (dp_circuit p)\<lparr>pb_failure_count := 0, pb_last_failure := None\<rparr>,
             dp_last_error := None\<rparr>"
    note d = drain_step [OF Cons.prems(2) leI [OF False]]
    have run: "flush_times tf P ts ?p1 w1 = (p', w')" using f Cons.prems(4) False by simp
    have "length (dp_buffer ?p1) div pc_batch_size (dp_config ?p1) \<le> length ts"
      using Cons.prems(3) d(2) by simp
    note all = Cons.IH [OF _ _ this run]
    have short: "length (dp_buffer p') < ?b"
      using conjunct1 [OF conjunct2 [OF conjunct2 [OF all]]] Cons.prems(1,2) by simp
    from all Cons.prems(1,2) have ih:
      "dp_buffer p' = drop ((?n - ?b) div ?b * ?b) (drop ?b (dp_buffer p))"
      "stored w' = stored w1 @ take ((?n - ?b) div ?b * ?b) (drop ?b (dp_buffer p))"
      "pb_state (dp_circuit p') = CS_Closed"
      "pm_bars_persisted (dp_metrics p') = pm_bars_persisted (dp_metrics p) + of_nat ?b + of_nat ((?n - ?b) div ?b * ?b)"
      by (simp_all add: record_batch_def record_persisted_def)
    have "take (?n div ?b * ?b) (dp_buffer p) =
        take ?b (dp_buffer p) @ take ((?n - ?b) div ?b * ?b) (drop ?b (dp_buffer p))"
      unfolding d(1) by (rule take_add)
    then have "stored w' = stored w @ take (?n div ?b * ?b) (dp_buffer p)" using ih(2) w1(2) by simp
    moreover have "dp_buffer p' = drop (?n div ?b * ?b) (dp_buffer p)"
      unfolding d(1) using ih(1) by (simp add: add.commute)
    moreover have "pm_bars_persisted (dp_metrics p') = pm_bars_persisted (dp_metrics p) + of_nat (?n div ?b * ?b)"
      unfolding d(1) using ih(4) by simp
    ultimately show ?thesis using short ih(3) by blast
  qed
qed

definition log_ports :: "bar list pipeline_ports" where
  "log_ports = \<lparr>pp_publish = (\<lambda>ev w. (Ok (), w)), pp_save_batch = (\<lambda>bars w. (Ok (), w @ bars))\<rparr>"

theorem buffer_drains_witness:
  "\<exists>p'. flush_times (\<lambda>_. '''') log_ports [1, 2]
      ((pipeline_new 0 (tiny_config\<lparr>pc_batch_size := 2\<rparr>))\<lparr>dp_buffer := [sample_bar, sample_bar, sample_bar]\<rparr>) [] =
      (p', [sample_bar, sample_bar]) \<and> dp_buffer p' = [sample_bar]"
proof -
  let ?p = "(pipeline_new 0 (tiny_config\<lparr>pc_batch_size := 2\<rparr>))\<lparr>dp_buffer := [sample_bar, sample_bar, sample_bar]\<rparr>"
  obtain p' w' where run: "flush_times (\<lambda>_. '''') log_ports [1, 2] ?p [] = (p', w')" by fastforce
  have "dp_buffer p' = drop 2 (dp_buffer ?p) \<and> id w' = id [] @ take 2 (dp_buffer ?p)"
    using buffer_drains [of log_ports id ?p "[1, 2]" "\<lambda>_. ''''" "[]" p' w'] run
    by (simp add: log_ports_def pipeline_new_def circuit_new_def tiny_config_def)
  with run show ?thesis by simp
qed

section \<open>The breaker of the pipeline\<close>

datatype circuit_op = CallSuccess | CallFailure instant | CallReset instant

fun circuit_do :: "circuit_op \<Rightarrow> circuit_breaker \<Rightarrow> circuit_breaker" where
  "circuit_do CallSuccess c = circuit_record_success c"
| "circuit_do (CallFailure t) c = snd (circuit_record_failure t c)"
| "circuit_do (CallReset t) c = snd (circuit_attempt_reset t c)"

lemmas circuit_defs =
  circuit_record_success_def circuit_record_failure_def circuit_attempt_reset_def
  circuit_can_execute_def Let_def

text \<open>The moves the operations make.\<close>

lemma circuit_moves:
  "pb_state (circuit_do op c) = pb_state c \<or>
   (op = CallSuccess \<and> pb_state c = CS_HalfOpen \<and> pb_state (circuit_do op c) = CS_Closed) \<or>
   ((\<exists>t. op = CallFailure t) \<and> pb_state c \<noteq> CS_Open \<and> pb_state (circuit_do op c) = CS_Open) \<or>
   ((\<exists>t. op = CallReset t) \<and> pb_state c = CS_Open \<and> pb_state (circuit_do op c) = CS_HalfOpen)"
  by (cases op; cases "pb_state c") (auto simp: circuit_defs split: option.splits)

lemma open_without_failure:
  assumes "pb_state c = CS_Open" and "pb_last_failure c = None" and "\<forall>op \<in> set ops. \<forall>t. op \<noteq> CallFailure t"
  shows "pb_state (fold circuit_do ops c) = CS_Open \<and> pb_last_failure (fold circuit_do ops c) = None"
  using assms
proof (induction ops arbitrary: c)
  case (Cons op ops)
  then have "pb_state (circuit_do op c) = CS_Open \<and> pb_last_failure (circuit_do op c) = None"
    by (cases op) (auto simp: circuit_defs)
  with Cons show ?case by simp
qed simp

text \<open>
  When an open breaker recovers.  Once its timeout has passed since the last failure, a reset
  makes it half open and the next success closes it.  But a success recorded while it is still open
  -- which a flush after the timeout and before the reset timer does -- forgets the last failure:
  from then on no sequence of successes and resets ever leaves the open state, although the breaker
  lets every call through.
\<close>

theorem open_breaker_recovers_or_sticks:
  assumes "pb_state c = CS_Open"
  shows "(\<forall>t now. pb_last_failure c = Some t \<and> 0 \<le> pb_timeout c \<and> t + pb_timeout c \<le> now \<longrightarrow>
      circuit_can_execute now c \<and> fst (circuit_attempt_reset now c) \<and>
      pb_state (circuit_do (CallReset now) c) = CS_HalfOpen \<and>
      pb_state (fold circuit_do [CallReset now, CallSuccess] c) = CS_Closed \<and>
      pb_failure_count (fold circuit_do [CallReset now, CallSuccess] c) = 0) \<and>
    (\<forall>ops now. (\<forall>op \<in> set ops. \<forall>t. op \<noteq> CallFailure t) \<longrightarrow>
      pb_state (fold circuit_do (CallSuccess # ops) c) = CS_Open \<and>
      circuit_can_execute now (fold circuit_do (CallSuccess # ops) c) \<and>
      \<not> fst (circuit_attempt_reset now (fold circuit_do (CallSuccess # ops) c)))"
proof (intro conjI allI impI)
  fix t now
  assume "pb_last_failure c = Some t \<and> 0 \<le> pb_timeout c \<and> t + pb_timeout c \<le> now"
  then show "circuit_can_execute now c" "fst (circuit_attempt_reset now c)"
    "pb_state (circuit_do (CallReset now) c) = CS_HalfOpen"
    "pb_state (fold circuit_do [CallReset now, CallSuccess] c) = CS_Closed"
    "pb_failure_count (fold circuit_do [CallReset now, CallSuccess] c) = 0"
    using assms by (simp_all add: circuit_defs elapsed_def)
next
  fix ops now
  assume ops: "\<forall>op \<in> set ops. \<forall>t. op \<noteq> CallFailure t"
  have "pb_state (circuit_record_success c) = CS_Open" "pb_last_failure (circuit_record_success c) = None"
    using assms by (simp_all add: circuit_defs)
  from open_without_failure [OF this ops]
  show "pb_state (fold circuit_do (CallSuccess # ops) c) = CS_Open"
    "circuit_can_execute now (fold circuit_do (CallSuccess # ops) c)"
    "\<not> fst (circuit_attempt_reset now (fold circuit_do (CallSuccess # ops) c))"
    by (simp_all add: circuit_can_execute_def circuit_attempt_reset_def)
qed

theorem open_breaker_recovers_or_sticks_witness:
  "pb_state (fold circuit_do [CallReset (40 * 10 ^ 9), CallSuccess] (snd (circuit_record_failure 0 (circuit_new 1 30)))) = CS_Closed \<and>
   pb_state (fold circuit_do [CallSuccess, CallReset (100 * 10 ^ 9)] (snd (circuit_record_failure 0 (circuit_new 1 30)))) = CS_Open"
proof -
  let ?c = "snd (circuit_record_failure 0 (circuit_new 1 30))"
  have c: "pb_state ?c = CS_Open" "pb_last_failure ?c = Some 0" "pb_timeout ?c = 30 * 10 ^ 9"
    by (simp_all add: circuit_record_failure_def circuit_new_def seconds_def Let_def)
  have "0 \<le> (30 * 10 ^ 9 :: int)" "0 + 30 * 10 ^ 9 \<le> (40 * 10 ^ 9 :: int)" by simp_all
  with conjunct1 [OF open_breaker_recovers_or_sticks [OF c(1)]] c(2,3)
  have "pb_state (fold circuit_do [CallReset (40 * 10 ^ 9), CallSuccess] ?c) = CS_Closed" by metis
  moreover have "\<forall>op \<in> set [CallReset (100 * 10 ^ 9)]. \<forall>t. op \<noteq> CallFailure t" by simp
  with conjunct2 [OF open_breaker_recovers_or_sticks [OF c(1)]]
  have "pb_state (fold circuit_do [CallSuccess, CallReset (100 * 10 ^ 9)] ?c) = CS_Open" by metis
  ultimately show ?thesis ..
qed

text \<open>
  The pipeline ignores the configured breaker.  Whatever threshold and timeout the
  configuration asks for, the breaker of a new pipeline opens exactly at the fifth flush in a row
  that fails, and every flush within the next 30 seconds is refused with \<open>CircuitOpen\<close>.
\<close>

theorem breaker_ignores_configuration:
  assumes "length ts < 2 ^ 32" and "p = fold (\<lambda>t p. snd (flush_end tf t batch (Err e) p)) ts (pipeline_new now cfg)"
  shows "(pb_state (dp_circuit p) = CS_Open \<longleftrightarrow> 5 \<le> length ts) \<and>
    (5 \<le> length ts \<and> last ts \<le> t \<and> t < last ts + 30 * 10 ^ 9 \<longrightarrow> fst (flush_begin t p) = Err Pipe_CircuitOpen)"
proof -
  let ?f = "\<lambda>t p. snd (flush_end tf t batch (Err e) p)"
  have inv: "pb_failure_count (dp_circuit (fold ?f ts (pipeline_new now cfg))) = of_nat (length ts) \<and>
      pb_threshold (dp_circuit (fold ?f ts (pipeline_new now cfg))) = 5 \<and>
      pb_timeout (dp_circuit (fold ?f ts (pipeline_new now cfg))) = 30 * 10 ^ 9 \<and>
      pb_state (dp_circuit (fold ?f ts (pipeline_new now cfg))) = (if length ts < 5 then CS_Closed else CS_Open) \<and>
      (ts \<noteq> [] \<longrightarrow> pb_last_failure (dp_circuit (fold ?f ts (pipeline_new now cfg))) = Some (last ts))"
    using assms(1)
  proof (induction ts rule: rev_induct)
    case (snoc t ts)
    let ?p = "fold ?f ts (pipeline_new now cfg)"
    have ih: "pb_failure_count (dp_circuit ?p) = of_nat (length ts)" "pb_threshold (dp_circuit ?p) = 5"
      "pb_timeout (dp_circuit ?p) = 30 * 10 ^ 9"
      "pb_state (dp_circuit ?p) = (if length ts < 5 then CS_Closed else CS_Open)"
      using snoc by simp_all
    have "(5 :: u32) \<le> of_nat (length ts) + 1 \<longleftrightarrow> 5 \<le> Suc (length ts)"
    proof -
      have "(of_nat (length ts) + 1 :: u32) = of_nat (Suc (length ts))" by simp
      moreover have "unat (of_nat (Suc (length ts)) :: u32) = Suc (length ts)"
        using snoc.prems by (simp only: unat_of_nat) simp
      ultimately have "unat (of_nat (length ts) + 1 :: u32) = Suc (length ts)" by (simp only:)
      then show ?thesis by (simp add: word_le_nat_alt)
    qed
    then show ?case
      using ih by (simp add: flush_end_def circuit_record_failure_def Let_def)
  qed (simp add: pipeline_new_def circuit_new_def seconds_def)
  then show ?thesis
    unfolding assms(2) [symmetric]
    by (auto simp: flush_begin_def circuit_can_execute_def elapsed_def not_less split: if_splits)
qed

theorem breaker_ignores_configuration_witness:
  "\<exists>p. p = fold (\<lambda>t p. snd (flush_end (\<lambda>_. '''') t [sample_bar] (Err (Dom_OrderValidation '''')) p)) [1, 2, 3, 4, 5]
      (pipeline_new 0 (pipeline_config_default\<lparr>pc_circuit_breaker_threshold := 50\<rparr>)) \<and>
    pb_state (dp_circuit p) = CS_Open"
  using breaker_ignores_configuration [of "[1, 2, 3, 4, 5]" _ "\<lambda>_. ''''" "[sample_bar]" "Dom_OrderValidation ''''" 0
      "pipeline_config_default\<lparr>pc_circuit_breaker_threshold := 50\<rparr>"]
  by simp

section \<open>Shutting down\<close>

text \<open>
  What a shutdown leaves behind.  It always empties the buffer; unless it times out it
  answers \<open>Ok\<close> and the pipeline is stopped -- also when the repository refused the buffered bars,
  which are then lost: only the bars of an accepted write are counted as persisted.
\<close>

theorem shutdown_outcome:
  assumes "pipeline_shutdown tf P late p w = ((r, p'), w')" and "pp_save_batch P (dp_buffer p) w = (answer, w1)"
    and "answer \<noteq> Panic"
  shows "dp_buffer p' = [] \<and>
    (if late then r = Err Pipe_ShutdownTimeout \<and> dp_state p' = PL_ShuttingDown
     else r = Ok () \<and> dp_state p' = PL_Stopped) \<and>
    pm_bars_persisted (dp_metrics p') = pm_bars_persisted (dp_metrics p) +
      (if \<not> late \<and> is_ok answer then of_nat (length (dp_buffer p)) else 0) \<and>
    w' = (if dp_buffer p = [] then w else w1)"
  using assms
  by (cases answer)
    (auto simp: pipeline_shutdown_def flush_buffer_def Let_def record_persisted_def split: if_splits)

theorem shutdown_outcome_witness:
  "\<exists>p'. pipeline_shutdown (\<lambda>_. '''') \<lparr>pp_publish = (\<lambda>ev w. (Ok (), w)), pp_save_batch = (\<lambda>bars w. (Err (Dom_OrderValidation ''''), w))\<rparr>
      False ((pipeline_new 0 tiny_config)\<lparr>dp_buffer := [sample_bar]\<rparr>) () = ((Ok (), p'), ()) \<and>
    dp_buffer p' = [] \<and> pm_bars_persisted (dp_metrics p') = 0"
proof -
  let ?P = "\<lparr>pp_publish = (\<lambda>ev w. (Ok (), w)), pp_save_batch = (\<lambda>bars w. (Err (Dom_OrderValidation ''''), w))\<rparr> :: unit pipeline_ports"
  let ?p = "(pipeline_new 0 tiny_config)\<lparr>dp_buffer := [sample_bar]\<rparr>"
  obtain r p' w' where s: "pipeline_shutdown (\<lambda>_. '''') ?P False ?p () = ((r, p'), w')" by (metis prod.collapse)
  have "pp_save_batch ?P (dp_buffer ?p) () = (Err (Dom_OrderValidation ''''), ())" by simp
  from shutdown_outcome [OF s this] s show ?thesis
    by (simp add: pipeline_new_def pipeline_metrics_new_def)
qed

end
