(* ===== verification/Paper_Trading.thy ===== *)
theory Paper_Trading
  imports Execution Mem_Repos
begin

text \<open>
  The paper trading gateway of \<open>crates/infrastructure/src/providers/paper_trading.rs\<close>: simulated
  prices with spread, slippage and tick rounding, immediate execution, positions, profit and the
  summary of the performance.  The state sits behind standard locks; a poisoned lock is an error
  of every operation that takes it.  Clock readings are numbered within an operation, identifiers
  and texts of other crates are arguments; the simulated latency is left out.
\<close>

section \<open>Configuration and records\<close>

record paper_config =
  ppc_slippage_ticks :: decimal
  ppc_latency_ms :: u64
  ppc_commission_per_trade :: money
  ppc_tick_sizes :: "symbol \<rightharpoonup> decimal"
  ppc_initial_positions :: "position list"
  ppc_initial_capital :: money

definition paper_config_default :: paper_config where
  "paper_config_default =
     \<lparr>ppc_slippage_ticks = 25 / 100, ppc_latency_ms = 50,
      ppc_commission_per_trade = \<lparr>m_amount = 250 / 100, m_currency = USD\<rparr>,
      ppc_tick_sizes = Map.empty, ppc_initial_positions = [],
      ppc_initial_capital = \<lparr>m_amount = 100000, m_currency = USD\<rparr>\<rparr>"

record paper_order =
  po_order :: order
  po_status :: order_status
  po_fills :: "fill list"
  po_created_at :: timestamp
  po_updated_at :: timestamp

definition paper_order_new :: "timestamp \<Rightarrow> order \<Rightarrow> paper_order" where
  "paper_order_new now ord =
     \<lparr>po_order = ord, po_status = Created, po_fills = [], po_created_at = now, po_updated_at = now\<rparr>"

definition paper_order_avg_fill_price :: "dec_ops \<Rightarrow> paper_order \<Rightarrow> (price, 'e) res" where
  "paper_order_avg_fill_price D po =
     (if po_fills po = []
      then Ok (case ord_limit_price (po_order po) of Some p \<Rightarrow> p | None \<Rightarrow> price_new_unchecked 0)
      else
        bind (dec_sum D (map (\<lambda>f. qty_inner (fl_quantity f)) (po_fills po))) (\<lambda>total_qty.
        bind (map_res (\<lambda>f. or_panic (d_mul D (price_inner (fl_price f)) (qty_inner (fl_quantity f)))) (po_fills po))
          (\<lambda>notionals.
        bind (dec_sum D notionals) (\<lambda>total_notional.
        bind (or_panic (d_div D total_notional total_qty)) (\<lambda>avg.
        unwrap (price_new D avg))))))"

definition paper_order_add_fill ::
    "dec_ops \<Rightarrow> timestamp \<Rightarrow> timestamp \<Rightarrow> fill \<Rightarrow> paper_order \<Rightarrow> (paper_order, 'e) res" where
  "paper_order_add_fill D now1 now2 f po =
     (let po1 = po\<lparr>po_fills := po_fills po @ [f], po_updated_at := now1\<rparr> in
      bind (dec_sum D (map (\<lambda>f. qty_inner (fl_quantity f)) (po_fills po1))) (\<lambda>total_filled.
      let order_qty = qty_inner (ord_quantity (po_order po1)) in
      if order_qty \<le> total_filled then Ok (po1\<lparr>po_status := Filled now2\<rparr>)
      else
        bind (or_panic (d_sub D order_qty total_filled)) (\<lambda>remaining.
        bind (paper_order_avg_fill_price D po1) (\<lambda>avg_price.
        bind (unwrap (quantity_new D total_filled)) (\<lambda>filled.
        bind (unwrap (quantity_new D remaining)) (\<lambda>left.
        Ok (po1\<lparr>po_status := PartiallyFilled filled left avg_price\<rparr>)))))))"

record trade_record =
  tr_symbol :: symbol
  tr_entry_price :: price
  tr_exit_price :: "price option"
  tr_quantity :: quantity
  tr_side :: side
  tr_realized_pnl :: money
  tr_commission :: money
  tr_entry_at :: timestamp
  tr_exit_at :: "timestamp option"

section \<open>The gateway\<close>

datatype paper_lock = OrdersLock | PositionsLock | PnlLock | HistoryLock | CapitalLock

text \<open>
  A sender, once there is a subscriber, is the list of what was sent; that a full channel makes its
  sender wait is left out.
\<close>

record paper_gateway =
  pg_config :: paper_config
  pg_orders :: "(order_id, paper_order) hash_map"
  pg_positions :: "(symbol, position) hash_map"
  pg_trade_history :: "trade_record list"
  pg_order_updates :: "order_update list option"
  pg_fill_updates :: "fill list option"
  pg_available_capital :: money
  pg_total_realized_pnl :: money
  pg_poisoned :: "paper_lock \<Rightarrow> bool"

type_synonym 'a paper = "(paper_gateway, 'a, execution_error) io"

definition paper_gateway_new :: "paper_config \<Rightarrow> paper_gateway" where
  "paper_gateway_new config =
     \<lparr>pg_config = config, pg_orders = hash_empty,
      pg_positions = fold (\<lambda>p. hash_insert (pos_symbol p) p) (ppc_initial_positions config) hash_empty,
      pg_trade_history = [], pg_order_updates = None, pg_fill_updates = None,
      pg_available_capital = ppc_initial_capital config,
      pg_total_realized_pnl = \<lparr>m_amount = 0, m_currency = USD\<rparr>, pg_poisoned = (\<lambda>_. False)\<rparr>"

fun lock_message :: "paper_lock \<Rightarrow> string" where
  "lock_message OrdersLock = ''Order lock poisoned''"
| "lock_message PositionsLock = ''Position lock poisoned''"
| "lock_message PnlLock = ''PnL lock poisoned''"
| "lock_message HistoryLock = ''History lock poisoned''"
| "lock_message CapitalLock = ''Capital lock poisoned''"

definition with_paper_lock :: "paper_lock \<Rightarrow> 'a paper \<Rightarrow> 'a paper" where
  "with_paper_lock l m g =
     (if pg_poisoned g l
      then (Err (Exec_ExchangeError ''PaperTrading'' ''LOCK_ERROR'' (lock_message l)), g)
      else m g)"

definition modify :: "(paper_gateway \<Rightarrow> paper_gateway) \<Rightarrow> unit paper" where
  "modify h g = (Ok (), h g)"

definition get_tick_size :: "paper_config \<Rightarrow> symbol \<Rightarrow> decimal" where
  "get_tick_size c s = (case ppc_tick_sizes c s of Some t \<Rightarrow> t | None \<Rightarrow> 1 / 100)"

definition calculate_fill_price ::
    "dec_ops \<Rightarrow> paper_config \<Rightarrow> symbol \<Rightarrow> side \<Rightarrow> price \<Rightarrow> (price, 'e) res" where
  "calculate_fill_price D c symbol side market_price =
     (let tick_size = get_tick_size c symbol in
      bind (or_panic (d_mul D tick_size (ppc_slippage_ticks c))) (\<lambda>slippage.
      bind (case side of
              Buy \<Rightarrow> or_panic (d_add D (price_inner market_price) slippage)
            | Sell \<Rightarrow> or_panic (d_sub D (price_inner market_price) slippage)) (\<lambda>fill_price.
      bind (or_panic (d_div D fill_price tick_size)) (\<lambda>ratio.
      bind (or_panic (d_mul D (d_round D ratio) tick_size)) (\<lambda>rounded.
      Ok (price_new_unchecked rounded))))))"

definition default_market_price :: "symbol \<Rightarrow> decimal" where
  "default_market_price s =
     (if symbol_str s = ''ES'' then 520000 / 100
      else if symbol_str s = ''NQ'' then 1823450 / 100
      else if symbol_str s = ''AAPL'' then 18550 / 100
      else if symbol_str s = ''MSFT'' then 42000 / 100
      else 10000 / 100)"

definition get_market_price :: "dec_ops \<Rightarrow> symbol \<Rightarrow> side \<Rightarrow> (price, 'e) res" where
  "get_market_price D s side =
     bind (case side of
             Buy \<Rightarrow> or_panic (d_add D (default_market_price s) (1 / 100))
           | Sell \<Rightarrow> or_panic (d_sub D (default_market_price s) (1 / 100))) (\<lambda>p.
     Ok (price_new_unchecked p))"

definition execute_market_order ::
    "dec_ops \<Rightarrow> paper_config \<Rightarrow> timestamp \<Rightarrow> order \<Rightarrow> (fill, execution_error) res" where
  "execute_market_order D c now ord =
     bind (get_market_price D (ord_symbol ord) (ord_side ord)) (\<lambda>market_price.
     bind (calculate_fill_price D c (ord_symbol ord) (ord_side ord) market_price) (\<lambda>fill_price.
     Ok (fill_with_commission (OrderId (ord_id ord)) (ord_symbol ord) (ord_quantity ord) fill_price
           (ord_side ord) now (ppc_commission_per_trade c))))"

definition execute_limit_order ::
    "dec_ops \<Rightarrow> uuid_ops \<Rightarrow> paper_config \<Rightarrow> timestamp \<Rightarrow> order \<Rightarrow> (fill option, execution_error) res" where
  "execute_limit_order D U c now ord =
     bind (ok_or (ord_limit_price ord)
             (Exec_InvalidOrderState (u_fmt U (ord_id ord)) ''Missing limit price'' ''execute_limit_order''))
       (\<lambda>limit_price.
     bind (get_market_price D (ord_symbol ord) (ord_side ord)) (\<lambda>market_price.
     let should_fill = (case ord_side ord of
           Buy \<Rightarrow> price_inner market_price \<le> price_inner limit_price
         | Sell \<Rightarrow> price_inner limit_price \<le> price_inner market_price) in
     if should_fill
     then
       bind (calculate_fill_price D c (ord_symbol ord) (ord_side ord) market_price) (\<lambda>fill_price.
       let final_price = (case ord_side ord of
             Buy \<Rightarrow> if price_inner limit_price < price_inner fill_price then limit_price else fill_price
           | Sell \<Rightarrow> if price_inner fill_price < price_inner limit_price then limit_price else fill_price) in
       Ok (Some (fill_with_commission (OrderId (ord_id ord)) (ord_symbol ord) (ord_quantity ord) final_price
                   (ord_side ord) now (ppc_commission_per_trade c))))
     else Ok None))"

definition calculate_partial_close_pnl :: "dec_ops \<Rightarrow> position \<Rightarrow> quantity \<Rightarrow> price \<Rightarrow> (money, 'e) res" where
  "calculate_partial_close_pnl D p closed_qty exit_price =
     bind (or_panic (d_sub D (price_inner exit_price) (price_inner (pos_avg_entry_price p)))) (\<lambda>price_diff.
     bind (or_panic (d_mul D price_diff (qty_inner closed_qty))) (\<lambda>a.
     bind (or_panic (d_mul D a (case pos_side p of Buy \<Rightarrow> 1 | Sell \<Rightarrow> -1))) (\<lambda>pnl.
     Ok (money_new_unchecked pnl USD))))"

definition direction_of_side :: "side \<Rightarrow> position_direction" where
  "direction_of_side s = (case s of Buy \<Rightarrow> Long | Sell \<Rightarrow> Short)"

text \<open>The texts that belong to other crates: timestamps, identifiers, the debug form of a status.\<close>

record paper_texts =
  pt_time :: "timestamp \<Rightarrow> string"
  pt_uuid :: uuid_ops
  pt_status_debug :: "order_status \<Rightarrow> string"

definition update_position_from_fill ::
    "dec_ops \<Rightarrow> paper_texts \<Rightarrow> uuid \<Rightarrow> (nat \<Rightarrow> timestamp) \<Rightarrow> fill \<Rightarrow> money option paper" where
  "update_position_from_fill D T fresh clk f =
     with_paper_lock PositionsLock (\<lambda>g.
       let symbol = fl_symbol f;
           failed = (\<lambda>what e. Exec_InvalidOrderState (order_id_display (pt_uuid T) (fl_order_id f))
                       (what @ domain_error_display (pt_time T) e) ''update_position'');
           opened = (\<lambda>q. position_new fresh (clk 0) 0 symbol (direction_of_side (fl_side f)) q (fl_price f) USD)
       in case hash_get (pg_positions g) symbol of
         Some p \<Rightarrow>
           if fl_side f = pos_side p
           then (case map_err (failed ''add_fill failed: '') (position_add_fill D (clk 1) p f) of
                   Ok p' \<Rightarrow> (Ok None, g\<lparr>pg_positions := hash_insert symbol p' (pg_positions g)\<rparr>)
                 | Err e \<Rightarrow> (Err e, g)
                 | Panic \<Rightarrow> (Panic, g))
           else if qty_inner (pos_quantity p) \<le> qty_inner (fl_quantity f)
           then (case bind (map_err (failed ''close failed: '') (position_close D (clk 1) (clk 2) p (fl_price f))) (\<lambda>closed.
                      bind (or_panic (d_sub D (qty_inner (fl_quantity f)) (qty_inner (pos_quantity p)))) (\<lambda>remaining_qty.
                      if 0 < remaining_qty
                      then bind (unwrap (quantity_new D remaining_qty)) (\<lambda>q.
                           Ok (cp_realized_pnl (fst closed), hash_insert symbol (opened q) (pg_positions g)))
                      else Ok (cp_realized_pnl (fst closed), hash_remove symbol (pg_positions g)))) of
                   Ok (pnl, ps) \<Rightarrow> (Ok (Some pnl), g\<lparr>pg_positions := ps\<rparr>)
                 | Err e \<Rightarrow> (Err e, g)
                 | Panic \<Rightarrow> (Panic, g))
           else (case bind (calculate_partial_close_pnl D p (fl_quantity f) (fl_price f)) (\<lambda>pnl.
                      bind (or_panic (d_sub D (qty_inner (pos_quantity p)) (qty_inner (fl_quantity f)))) (\<lambda>new_qty.
                      Ok pnl)) of
                   Ok pnl \<Rightarrow> (Ok (Some pnl), g)
                 | Err e \<Rightarrow> (Err e, g)
                 | Panic \<Rightarrow> (Panic, g))
       | None \<Rightarrow> (Ok None, g\<lparr>pg_positions := hash_insert symbol (opened (fl_quantity f)) (pg_positions g)\<rparr>))"

definition send_order_update :: "order_update \<Rightarrow> unit paper" where
  "send_order_update u = modify (\<lambda>g. g\<lparr>pg_order_updates := map_option (\<lambda>sent. sent @ [u]) (pg_order_updates g)\<rparr>)"

definition send_fill :: "fill \<Rightarrow> unit paper" where
  "send_fill f = modify (\<lambda>g. g\<lparr>pg_fill_updates := map_option (\<lambda>sent. sent @ [f]) (pg_fill_updates g)\<rparr>)"

section \<open>Placing an order\<close>

text \<open>What follows the execution: the profit, the trade, the order's own fill.\<close>

definition commission_of :: "fill \<Rightarrow> money" where
  "commission_of f = (case fl_commission f of Some m \<Rightarrow> m | None \<Rightarrow> \<lparr>m_amount = 0, m_currency = USD\<rparr>)"

definition book_profit :: "dec_ops \<Rightarrow> (nat \<Rightarrow> timestamp) \<Rightarrow> fill \<Rightarrow> money \<Rightarrow> unit paper" where
  "book_profit D clk f pnl =
     io_bind (with_paper_lock PnlLock (\<lambda>g.
       case or_panic (d_add D (m_amount (pg_total_realized_pnl g)) (m_amount pnl)) of
         Ok sum_pnl \<Rightarrow> (Ok (), g\<lparr>pg_total_realized_pnl := money_new_unchecked sum_pnl USD\<rparr>)
       | Err e \<Rightarrow> (Err e, g)
       | Panic \<Rightarrow> (Panic, g))) (\<lambda>_.
     with_paper_lock HistoryLock (modify (\<lambda>g. g\<lparr>pg_trade_history := pg_trade_history g @
       [\<lparr>tr_symbol = fl_symbol f, tr_entry_price = fl_price f, tr_exit_price = Some (fl_price f),
         tr_quantity = fl_quantity f, tr_side = fl_side f, tr_realized_pnl = pnl,
         tr_commission = commission_of f, tr_entry_at = clk 5, tr_exit_at = Some (clk 6)\<rparr>]\<rparr>)))"

definition record_order_fill :: "dec_ops \<Rightarrow> (nat \<Rightarrow> timestamp) \<Rightarrow> order_id \<Rightarrow> fill \<Rightarrow> unit paper" where
  "record_order_fill D clk i f =
     with_paper_lock OrdersLock (\<lambda>g.
       case hash_get (pg_orders g) i of
         None \<Rightarrow> (Ok (), g)
       | Some po \<Rightarrow>
           (case paper_order_add_fill D (clk 7) (clk 8) f po of
              Ok po' \<Rightarrow> (Ok (), g\<lparr>pg_orders := hash_insert i po' (pg_orders g)\<rparr>)
            | Err e \<Rightarrow> (Err e, g)
            | Panic \<Rightarrow> (Panic, g)))"

definition paper_place_order ::
    "dec_ops \<Rightarrow> paper_texts \<Rightarrow> uuid \<Rightarrow> uuid \<Rightarrow> (nat \<Rightarrow> timestamp) \<Rightarrow> order \<Rightarrow> order_id paper" where
  "paper_place_order D T fresh fresh_position clk ord =
     (let order_id = OrderId fresh; po = (paper_order_new (clk 0) ord)\<lparr>po_status := Submitted (clk 1)\<rparr> in
      io_bind (with_paper_lock OrdersLock (modify (\<lambda>g. g\<lparr>pg_orders := hash_insert order_id po (pg_orders g)\<rparr>))) (\<lambda>_.
      io_bind (io_lift (unwrap (quantity_new D 0))) (\<lambda>zero.
      io_bind (send_order_update (with_reason ''Order submitted''
                 (order_update_new (clk 2) order_id (po_status po) zero (ord_quantity ord)))) (\<lambda>_ g.
      io_bind (io_lift (case ord_type ord of
                 Limit \<Rightarrow> execute_limit_order D (pt_uuid T) (pg_config g) (clk 3) ord
               | _ \<Rightarrow> bind (execute_market_order D (pg_config g) (clk 3) ord) (\<lambda>f. Ok (Some f)))) (\<lambda>fill_result.
      io_bind (case fill_result of
          None \<Rightarrow> io_return ()
        | Some f \<Rightarrow>
            io_bind (update_position_from_fill D T fresh_position clk f) (\<lambda>realized_pnl.
            io_bind (case realized_pnl of Some pnl \<Rightarrow> book_profit D clk f pnl | None \<Rightarrow> io_return ()) (\<lambda>_.
            io_bind (record_order_fill D clk order_id f) (\<lambda>_.
            io_bind (io_lift (or_panic (d_sub D (qty_inner (ord_quantity ord)) (qty_inner (fl_quantity f))))) (\<lambda>remaining_qty.
            io_bind (io_lift (unwrap (quantity_new D (qty_inner (fl_quantity f))))) (\<lambda>filled.
            io_bind (io_lift (unwrap (quantity_new D (max remaining_qty 0)))) (\<lambda>left.
            io_bind (send_fill f) (\<lambda>_.
            send_order_update (with_commission (commission_of f) (with_last_fill (fl_price f) (fl_quantity f)
              (with_avg_fill_price (fl_price f)
                (order_update_new (clk 9) order_id (Filled (clk 4)) filled left)))))))))))) (\<lambda>_.
      io_return order_id)) g))))"

section \<open>The other operations\<close>

definition paper_cancel_order ::
    "dec_ops \<Rightarrow> paper_texts \<Rightarrow> (nat \<Rightarrow> timestamp) \<Rightarrow> order_id \<Rightarrow> unit paper" where
  "paper_cancel_order D T clk i =
     io_bind (with_paper_lock OrdersLock (\<lambda>g.
       case hash_get (pg_orders g) i of
         None \<Rightarrow> (Err (Exec_OrderNotFound (order_id_display (pt_uuid T) i)), g)
       | Some po \<Rightarrow>
           if status_can_cancel (po_status po)
           then
             let po' = po\<lparr>po_status := Cancelled (clk 0) ''User cancelled'', po_updated_at := clk 1\<rparr>;
                 g' = g\<lparr>pg_orders := hash_insert i po' (pg_orders g)\<rparr> in
             (case remaining_quantity D (po_order po) of
                Ok left \<Rightarrow>
                  (Ok (with_reason ''Order cancelled by user'' (order_update_new (clk 2) i (po_status po')
                         (ord_filled_quantity (po_order po)) left)), g')
              | Err e \<Rightarrow> (Err e, g')
              | Panic \<Rightarrow> (Panic, g'))
           else
             (Err (Exec_InvalidOrderState (order_id_display (pt_uuid T) i)
                     (pt_status_debug T (po_status po)) ''cancel''), g))) (\<lambda>update.
     send_order_update update)"

definition paper_get_order :: "order_id \<Rightarrow> order option paper" where
  "paper_get_order i =
     with_paper_lock OrdersLock (\<lambda>g. (Ok (map_option po_order (hash_get (pg_orders g) i)), g))"

text \<open>The modifications are read, combined with the order, and dropped.\<close>

definition paper_modify_order ::
    "dec_ops \<Rightarrow> paper_texts \<Rightarrow> (nat \<Rightarrow> timestamp) \<Rightarrow> order_id \<Rightarrow> order_modifications \<Rightarrow> unit paper" where
  "paper_modify_order D T clk i modifications =
     io_bind (paper_get_order i) (\<lambda>found.
     case found of
       None \<Rightarrow> io_lift (Err (Exec_OrderNotFound (order_id_display (pt_uuid T) i)))
     | Some existing \<Rightarrow>
         io_bind (paper_cancel_order D T clk i) (\<lambda>_.
         let new_qty = (case om_quantity modifications of Some q \<Rightarrow> q | None \<Rightarrow> ord_quantity existing);
             new_limit = (if om_limit_price modifications = None then ord_limit_price existing
                          else om_limit_price modifications);
             new_stop = (if om_stop_price modifications = None then ord_stop_price existing
                         else om_stop_price modifications);
             new_tif = (case om_time_in_force modifications of Some t \<Rightarrow> t | None \<Rightarrow> ord_time_in_force existing)
         in io_return ()))"

definition paper_get_open_orders :: "order list paper" where
  "paper_get_open_orders =
     with_paper_lock OrdersLock (\<lambda>g.
       (Ok (map po_order (filter (\<lambda>po. status_is_active (po_status po)) (hash_values (pg_orders g)))), g))"

definition paper_get_positions :: "position list paper" where
  "paper_get_positions = with_paper_lock PositionsLock (\<lambda>g. (Ok (hash_values (pg_positions g)), g))"

definition paper_available_capital :: "money paper" where
  "paper_available_capital = with_paper_lock CapitalLock (\<lambda>g. (Ok (pg_available_capital g), g))"

definition paper_subscribe_order_updates :: "unit paper" where
  "paper_subscribe_order_updates = modify (\<lambda>g. g\<lparr>pg_order_updates := Some []\<rparr>)"

definition paper_subscribe_fill_updates :: "unit paper" where
  "paper_subscribe_fill_updates = modify (\<lambda>g. g\<lparr>pg_fill_updates := Some []\<rparr>)"

section \<open>Performance\<close>

text \<open>Floating point is a parameter.\<close>

record float_ops =
  fo_of_nat :: "nat \<Rightarrow> f64"
  fo_div :: "f64 \<Rightarrow> f64 \<Rightarrow> f64"
  fo_mul :: "f64 \<Rightarrow> f64 \<Rightarrow> f64"
  fo_of_dec :: "decimal \<Rightarrow> f64 option"

record paper_performance =
  pf_initial_capital :: money
  pf_current_equity :: money
  pf_total_return_pct :: f64
  pf_total_trades :: u32
  pf_winning_trades :: u32
  pf_losing_trades :: u32
  pf_win_rate :: f64
  pf_avg_win :: money
  pf_avg_loss :: money
  pf_profit_factor :: f64
  pf_max_drawdown_pct :: f64
  pf_sharpe_ratio :: f64

definition pnls_of :: "(decimal \<Rightarrow> bool) \<Rightarrow> trade_record list \<Rightarrow> decimal list" where
  "pnls_of P ts = filter P (map (\<lambda>t. m_amount (tr_realized_pnl t)) ts)"

definition average_pnl :: "dec_ops \<Rightarrow> decimal list \<Rightarrow> (money, 'e) res" where
  "average_pnl D xs =
     (let n = of_nat (length xs) :: u32 in
      if 0 < n
      then bind (dec_sum D xs) (\<lambda>sum_pnl.
           bind (or_panic (d_div D sum_pnl (of_nat (unat n)))) (\<lambda>avg. unwrap (money_new avg USD)))
      else unwrap (money_new 0 USD))"

definition performance_summary ::
    "dec_ops \<Rightarrow> float_ops \<Rightarrow> paper_gateway \<Rightarrow> (paper_performance, 'e) res" where
  "performance_summary D F g =
     (if pg_poisoned g HistoryLock
      then bind (unwrap (money_new 0 USD)) (\<lambda>zero.
           Ok \<lparr>pf_initial_capital = ppc_initial_capital (pg_config g),
               pf_current_equity = ppc_initial_capital (pg_config g), pf_total_return_pct = Finite 0,
               pf_total_trades = 0, pf_winning_trades = 0, pf_losing_trades = 0, pf_win_rate = Finite 0,
               pf_avg_win = zero, pf_avg_loss = zero, pf_profit_factor = Finite 0,
               pf_max_drawdown_pct = Finite 0, pf_sharpe_ratio = Finite 0\<rparr>)
      else
        let history = pg_trade_history g; initial_capital = ppc_initial_capital (pg_config g);
            wins = pnls_of (\<lambda>x. 0 < x) history; losses = pnls_of (\<lambda>x. x < 0) history;
            total_trades = of_nat (length history) :: u32; winning_trades = of_nat (length wins) :: u32
        in
        bind (if pg_poisoned g PnlLock then unwrap (money_new 0 USD) else Ok (pg_total_realized_pnl g)) (\<lambda>realized_pnl.
        bind (if 0 < m_amount initial_capital
              then bind (or_panic (d_div D (m_amount realized_pnl) (m_amount initial_capital))) (\<lambda>r.
                   bind (or_panic (d_mul D r 100)) (\<lambda>pct.
                   Ok (case fo_of_dec F pct of Some x \<Rightarrow> x | None \<Rightarrow> Finite 0)))
              else Ok (Finite 0)) (\<lambda>total_return_pct.
        bind (average_pnl D wins) (\<lambda>avg_win.
        bind (average_pnl D losses) (\<lambda>avg_loss.
        bind (dec_sum D wins) (\<lambda>total_wins.
        bind (dec_sum D (map abs losses)) (\<lambda>total_losses.
        bind (if 0 < total_losses
              then bind (or_panic (d_div D total_wins total_losses)) (\<lambda>r.
                   Ok (case fo_of_dec F r of Some x \<Rightarrow> x | None \<Rightarrow> Finite 0))
              else Ok (if 0 < total_wins then PosInf else Finite 0)) (\<lambda>profit_factor.
        bind (or_panic (d_add D (m_amount initial_capital) (m_amount realized_pnl))) (\<lambda>equity.
        bind (unwrap (money_new equity USD)) (\<lambda>current_equity.
        Ok \<lparr>pf_initial_capital = initial_capital, pf_current_equity = current_equity,
            pf_total_return_pct = total_return_pct, pf_total_trades = total_trades,
            pf_winning_trades = winning_trades, pf_losing_trades = of_nat (length losses),
            pf_win_rate = (if 0 < total_trades
              then fo_mul F (fo_div F (fo_of_nat F (unat winning_trades)) (fo_of_nat F (unat total_trades))) (Finite 100)
              else Finite 0),
            pf_avg_win = avg_win, pf_avg_loss = avg_loss, pf_profit_factor = profit_factor,
            pf_max_drawdown_pct = Finite 0, pf_sharpe_ratio = Finite 0\<rparr>))))))))))"

section \<open>Placing an order aborts\<close>

lemma unwrap_zero_quantity [simp]: "unwrap (quantity_new D 0) = Panic"
  by (simp add: quantity_new_def)

text \<open>
  Placing an order never gives back an identifier.  The order is stored as submitted, and then
  the first order update is built with \<open>Quantity::new(Decimal::ZERO).unwrap()\<close>, which panics
  because a quantity must be positive: no update is sent, nothing is executed, no position or
  profit changes.  Only a poisoned order lock gives an error instead, and then nothing changes.
\<close>

theorem place_order_aborts:
  "paper_place_order D T fresh fresh_position clk ord g =
     (if pg_poisoned g OrdersLock
      then (Err (Exec_ExchangeError ''PaperTrading'' ''LOCK_ERROR'' ''Order lock poisoned''), g)
      else (Panic, g\<lparr>pg_orders := hash_insert (OrderId fresh)
              ((paper_order_new (clk 0) ord)\<lparr>po_status := Submitted (clk 1)\<rparr>) (pg_orders g)\<rparr>))"
  by (simp add: paper_place_order_def Let_def io_bind_def with_paper_lock_def modify_def io_lift_def)

section \<open>A limit order is protected\<close>

text \<open>At least as good for the trader.\<close>

definition no_worse :: "side \<Rightarrow> price \<Rightarrow> price \<Rightarrow> bool" where
  "no_worse side p l =
     (case side of Buy \<Rightarrow> price_inner p \<le> price_inner l | Sell \<Rightarrow> price_inner l \<le> price_inner p)"

lemma no_worse_refl [simp]: "no_worse s p p"
  by (simp add: no_worse_def split: side.split)

lemma execute_limit_order_Ok:
  assumes "ord_limit_price ord = Some l"
    and "get_market_price D (ord_symbol ord) (ord_side ord) = (Ok m :: (price, execution_error) res)"
    and "execute_limit_order D U c now ord = Ok r"
  shows "(r \<noteq> None) = no_worse (ord_side ord) m l"
    and "r = Some f \<Longrightarrow> \<exists>p. calculate_fill_price D c (ord_symbol ord) (ord_side ord) m =
             (Ok p :: (price, execution_error) res) \<and>
           f = fill_with_commission (OrderId (ord_id ord)) (ord_symbol ord) (ord_quantity ord)
                 (if no_worse (ord_side ord) p l then p else l) (ord_side ord) now (ppc_commission_per_trade c)"
  using assms
  by (cases "ord_side ord";
      auto simp: execute_limit_order_def no_worse_def Let_def res_simps not_le split: if_splits)+

text \<open>
  C22: a limit order is filled exactly when the simulated market is at or better than its limit, and
  then completely, for its own order, symbol and side, with the configured commission, at the
  market price after slippage or at the limit, whichever is better for the trader: never at a price
  beyond the limit.
\<close>

theorem limit_order_protected:
  assumes "ord_limit_price ord = Some l"
    and "get_market_price D (ord_symbol ord) (ord_side ord) = (Ok m :: (price, execution_error) res)"
    and "execute_limit_order D U c now ord = Ok r"
  shows "(r \<noteq> None) = no_worse (ord_side ord) m l \<and>
         (\<forall>f. r = Some f \<longrightarrow>
           no_worse (ord_side ord) (fl_price f) l \<and> fl_quantity f = ord_quantity ord \<and>
           fl_order_id f = OrderId (ord_id ord) \<and> fl_symbol f = ord_symbol ord \<and>
           fl_side f = ord_side ord \<and> fl_commission f = Some (ppc_commission_per_trade c) \<and>
           (fl_price f = l \<or> calculate_fill_price D c (ord_symbol ord) (ord_side ord) m =
             (Ok (fl_price f) :: (price, execution_error) res)))"
  using execute_limit_order_Ok [OF assms] by (auto simp: fill_with_commission_def)

definition sample_uuid_ops :: uuid_ops where
  "sample_uuid_ops = \<lparr>u_parse = (\<lambda>_. Err ''''), u_fmt = (\<lambda>_. '''')\<rparr>"

text \<open>A sell at a limit of 418 in a market at 419.99, with the default slippage.\<close>

definition sample_limit_order :: "decimal \<Rightarrow> order" where
  "sample_limit_order l = sample_order\<lparr>ord_symbol := Symbol ''MSFT'', ord_side := Sell,
     ord_limit_price := Some (Price l)\<rparr>"

theorem limit_order_protected_witness:
  "execute_limit_order exact_dec sample_uuid_ops paper_config_default 5 (sample_limit_order 418) =
     Ok (Some (fill_with_commission (OrderId 7) (Symbol ''MSFT'') (Quantity 100) (Price (41999 / 100)) Sell 5
          (ppc_commission_per_trade paper_config_default))) \<and>
   no_worse Sell (Price (41999 / 100)) (Price 418)"
proof -
  let ?f = "fill_with_commission (OrderId 7) (Symbol ''MSFT'') (Quantity 100) (Price (41999 / 100)) Sell 5
          (ppc_commission_per_trade paper_config_default)"
  let ?m = "Price (41999 / 100)"
  have l: "ord_limit_price (sample_limit_order 418) = Some (Price 418)"
    by (simp add: sample_limit_order_def)
  have m: "get_market_price exact_dec (ord_symbol (sample_limit_order 418)) (ord_side (sample_limit_order 418)) =
      (Ok ?m :: (price, execution_error) res)"
    by (simp add: get_market_price_def default_market_price_def sample_limit_order_def price_new_unchecked_def)
  have c: "calculate_fill_price exact_dec paper_config_default (Symbol ''MSFT'') Sell ?m =
      (Ok ?m :: (price, execution_error) res)"
    by (simp add: calculate_fill_price_def get_tick_size_def paper_config_default_def price_new_unchecked_def
        Let_def round_def floor_eq_iff)
  have r: "execute_limit_order exact_dec sample_uuid_ops paper_config_default 5 (sample_limit_order 418) = Ok (Some ?f)"
    using l m c by (simp add: execute_limit_order_def sample_limit_order_def sample_order_def)
  from r limit_order_protected [OF l m r] show ?thesis
    by (simp add: sample_limit_order_def fill_with_commission_def)
qed

section \<open>Modifying an order\<close>

text \<open>
  Modifying an order is cancelling it.  For every modification the two operations have the same
  result and the same effect, errors included: the values of the modification are read and
  dropped, and no replacement is ever placed.
\<close>

theorem modify_is_cancel:
  "paper_modify_order D T clk i modifications = paper_cancel_order D T clk i"
proof
  fix g
  show "paper_modify_order D T clk i modifications g = paper_cancel_order D T clk i g"
    by (cases "pg_poisoned g OrdersLock"; cases "hash_get (pg_orders g) i")
      (auto simp: paper_modify_order_def paper_cancel_order_def paper_get_order_def with_paper_lock_def
        io_bind_def io_lift_def io_return_def send_order_update_def modify_def Let_def
        split: res.splits prod.splits)
qed

section \<open>Positions\<close>

text \<open>The signed quantity held, and what a fill should add to it.\<close>

definition signed :: "side \<Rightarrow> decimal \<Rightarrow> decimal" where
  "signed s q = of_int (side_sign s) * q"

definition net_position :: "paper_gateway \<Rightarrow> symbol \<Rightarrow> decimal" where
  "net_position g s =
     (case hash_get (pg_positions g) s of None \<Rightarrow> 0 | Some p \<Rightarrow> signed (pos_side p) (qty_inner (pos_quantity p)))"

definition fill_delta :: "fill \<Rightarrow> decimal" where
  "fill_delta f = signed (fl_side f) (qty_inner (fl_quantity f))"

definition reduces_partly :: "paper_gateway \<Rightarrow> fill \<Rightarrow> bool" where
  "reduces_partly g f =
     (case hash_get (pg_positions g) (fl_symbol f) of None \<Rightarrow> False
      | Some p \<Rightarrow> fl_side f \<noteq> pos_side p \<and> qty_inner (fl_quantity f) < qty_inner (pos_quantity p))"

text \<open>The profit a fill realizes: on what it closes, from the average entry price.\<close>

definition profit_of :: "paper_gateway \<Rightarrow> fill \<Rightarrow> decimal option" where
  "profit_of g f =
     (case hash_get (pg_positions g) (fl_symbol f) of None \<Rightarrow> None
      | Some p \<Rightarrow>
          if fl_side f = pos_side p then None
          else Some ((price_inner (fl_price f) - price_inner (pos_avg_entry_price p)) *
                 min (qty_inner (fl_quantity f)) (qty_inner (pos_quantity p)) * of_int (side_sign (pos_side p))))"

lemma signed_simps [simp]: "signed Buy q = q" "signed Sell q = - q"
  by (simp_all add: signed_def)

lemma direction_to_side_of_side [simp]: "direction_to_side (direction_of_side s) = s"
  by (cases s) (simp_all add: direction_of_side_def)

lemma side_neq_iff: "(a :: side) \<noteq> b \<longleftrightarrow> (a = Buy \<and> b = Sell \<or> a = Sell \<and> b = Buy)"
  by (cases a; cases b) simp_all

lemma partial_close_pnl_exact:
  assumes "no_rounding D" and "calculate_partial_close_pnl D p q x = (Ok m :: (money, 'e) res)"
  shows "m = \<lparr>m_amount = (price_inner x - price_inner (pos_avg_entry_price p)) * qty_inner q *
            of_int (side_sign (pos_side p)), m_currency = USD\<rparr>"
  using assms(2)
  by (cases "pos_side p") (auto simp: calculate_partial_close_pnl_def money_new_unchecked_def res_simps
      dest!: no_roundingD(2,3) [OF assms(1)])

lemma position_close_profit:
  assumes "no_rounding D" and "position_close D t1 t2 p x = (Ok (cp, p') :: (closed_position \<times> position, domain_error) res)"
  shows "m_amount (cp_realized_pnl cp) = (price_inner x - price_inner (pos_avg_entry_price p)) *
           qty_inner (pos_quantity p) * of_int (side_sign (pos_side p))"
  using assms(2) position_pnl_at_exact [OF assms(1)]
  by (auto simp: position_close_def money_new_unchecked_def res_simps)

text \<open>The three ways a fill meets a position, each in exact arithmetic.\<close>

lemma update_position_cases:
  assumes D: "no_rounding D" and run: "update_position_from_fill D T fresh clk f g = (Ok r, g')"
  obtains
    (opened) q where "hash_get (pg_positions g) (fl_symbol f) = None" and "r = None"
      and "hash_get (pg_positions g') = (hash_get (pg_positions g))(fl_symbol f \<mapsto> q)"
      and "pos_side q = fl_side f" and "pos_quantity q = fl_quantity f"
  | (added) p q where "hash_get (pg_positions g) (fl_symbol f) = Some p" and "fl_side f = pos_side p"
      and "r = None"
      and "hash_get (pg_positions g') = (hash_get (pg_positions g))(fl_symbol f \<mapsto> q)"
      and "pos_side q = pos_side p"
      and "qty_inner (pos_quantity q) = qty_inner (pos_quantity p) + qty_inner (fl_quantity f)"
  | (reversed) p q m where "hash_get (pg_positions g) (fl_symbol f) = Some p" and "fl_side f \<noteq> pos_side p"
      and "qty_inner (pos_quantity p) < qty_inner (fl_quantity f)" and "r = Some m"
      and "hash_get (pg_positions g') = (hash_get (pg_positions g))(fl_symbol f \<mapsto> q)"
      and "pos_side q = fl_side f"
      and "qty_inner (pos_quantity q) = qty_inner (fl_quantity f) - qty_inner (pos_quantity p)"
      and "m_amount m = (price_inner (fl_price f) - price_inner (pos_avg_entry_price p)) *
             qty_inner (pos_quantity p) * of_int (side_sign (pos_side p))"
  | (closed) p m where "hash_get (pg_positions g) (fl_symbol f) = Some p" and "fl_side f \<noteq> pos_side p"
      and "qty_inner (pos_quantity p) = qty_inner (fl_quantity f)" and "r = Some m"
      and "hash_get (pg_positions g') = (hash_get (pg_positions g))(fl_symbol f := None)"
      and "m_amount m = (price_inner (fl_price f) - price_inner (pos_avg_entry_price p)) *
             qty_inner (pos_quantity p) * of_int (side_sign (pos_side p))"
  | (reduced) p m where "hash_get (pg_positions g) (fl_symbol f) = Some p" and "fl_side f \<noteq> pos_side p"
      and "qty_inner (fl_quantity f) < qty_inner (pos_quantity p)" and "r = Some m" and "g' = g"
      and "m_amount m = (price_inner (fl_price f) - price_inner (pos_avg_entry_price p)) *
             qty_inner (fl_quantity f) * of_int (side_sign (pos_side p))"
proof (cases "hash_get (pg_positions g) (fl_symbol f)")
  case None
  with run show thesis
    by (intro opened) (auto simp: update_position_from_fill_def with_paper_lock_def Let_def split: if_splits)
next
  case (Some p)
  note run' = run [unfolded update_position_from_fill_def with_paper_lock_def Let_def Some option.case]
  consider "fl_side f = pos_side p"
    | "fl_side f \<noteq> pos_side p" "qty_inner (pos_quantity p) \<le> qty_inner (fl_quantity f)"
    | "fl_side f \<noteq> pos_side p" "qty_inner (fl_quantity f) < qty_inner (pos_quantity p)"
    by fastforce
  then show thesis
  proof cases
    case 1
    then obtain p' where p': "position_add_fill D (clk 1) p f = Ok p'" and r: "r = None"
        and g': "hash_get (pg_positions g') = (hash_get (pg_positions g))(fl_symbol f \<mapsto> p')"
      using run' by (cases "position_add_fill D (clk 1) p f") (auto split: if_splits)
    from p' obtain q where "d_add D (qty_inner (pos_quantity p)) (qty_inner (fl_quantity f)) = Some q"
        and "pos_quantity p' = Quantity q" and "pos_side p' = pos_side p"
      by (rule position_add_fill_Ok)
    then show thesis using added [OF Some 1 r g'] no_roundingD(1) [OF D] by auto
  next
    case 2
    obtain cp p' d where c: "position_close D (clk 1) (clk 2) p (fl_price f) = Ok (cp, p')"
        and d: "d_sub D (qty_inner (fl_quantity f)) (qty_inner (pos_quantity p)) = Some d"
        and r: "r = Some (cp_realized_pnl cp)"
        and g': "hash_get (pg_positions g') = (if 0 < d
            then (hash_get (pg_positions g))(fl_symbol f \<mapsto> position_new fresh (clk 0) 0 (fl_symbol f)
                   (direction_of_side (fl_side f)) (Quantity d) (fl_price f) USD)
            else (hash_get (pg_positions g))(fl_symbol f := None))"
      using run' 2
      by (cases "position_close D (clk 1) (clk 2) p (fl_price f)";
          cases "d_sub D (qty_inner (fl_quantity f)) (qty_inner (pos_quantity p))")
         (auto simp: quantity_new_def split: if_splits)
    note profit = position_close_profit [OF D c] and dd = no_roundingD(2) [OF D d]
    show thesis
    proof (cases "qty_inner (pos_quantity p) = qty_inner (fl_quantity f)")
      case True
      then show thesis using closed [OF Some 2(1) True r] g' dd profit by simp
    next
      case False
      with 2(2) have lt: "qty_inner (pos_quantity p) < qty_inner (fl_quantity f)" by simp
      show thesis using reversed [OF Some 2(1) lt r] g' dd profit lt by simp
    qed
  next
    case 3
    then obtain m where m: "calculate_partial_close_pnl D p (fl_quantity f) (fl_price f) =
        (Ok m :: (money, execution_error) res)" and "r = Some m" "g' = g"
      using run' by (cases "calculate_partial_close_pnl D p (fl_quantity f) (fl_price f) :: (money, execution_error) res";
          cases "d_sub D (qty_inner (pos_quantity p)) (qty_inner (fl_quantity f))") (auto split: if_splits)
    then show thesis using reduced [OF Some 3] partial_close_pnl_exact [OF D m] by simp
  qed
qed

text \<open>
  C21: in exact arithmetic the positions follow the fills, with one exception.  A fill adds its
  signed quantity to the net position of its symbol (opening, adding, closing or reversing) and
  leaves every other symbol alone; but a fill that only reduces a position leaves the position as
  it was, although its profit is given back.  The profit is that of the closed quantity from the
  average entry price, and there is one exactly when the fill is against the position.
\<close>

theorem positions_follow_fills_unless_reduced:
  assumes "no_rounding D" and "update_position_from_fill D T fresh clk f g = (Ok r, g')"
  shows "net_position g' (fl_symbol f) =
           net_position g (fl_symbol f) + (if reduces_partly g f then 0 else fill_delta f) \<and>
         map_option m_amount r = profit_of g f \<and>
         (\<forall>s. s \<noteq> fl_symbol f \<longrightarrow> net_position g' s = net_position g s)"
  using assms
proof (cases rule: update_position_cases)
  case (added p q)
  then show ?thesis
    by (cases "pos_side p") (simp_all add: net_position_def fill_delta_def reduces_partly_def profit_of_def)
next
  case (reversed p q m)
  then show ?thesis
    by (cases "pos_side p"; cases "fl_side f")
      (simp_all add: net_position_def fill_delta_def reduces_partly_def profit_of_def)
next
  case (closed p m)
  then show ?thesis
    by (cases "pos_side p"; cases "fl_side f")
      (simp_all add: net_position_def fill_delta_def reduces_partly_def profit_of_def)
qed (simp_all add: net_position_def fill_delta_def reduces_partly_def profit_of_def)

text \<open>Selling 4 of 10 held leaves all 10 in the books.\<close>

definition sample_sell :: "decimal \<Rightarrow> decimal \<Rightarrow> fill" where
  "sample_sell q p = (sample_fill q p)\<lparr>fl_side := Sell\<rparr>"

definition sample_paper_gateway :: paper_gateway where
  "sample_paper_gateway =
     paper_gateway_new (paper_config_default\<lparr>ppc_initial_positions := [sample_position 10 100]\<rparr>)"

definition sample_paper_texts :: paper_texts where
  "sample_paper_texts =
     \<lparr>pt_time = (\<lambda>_. ''''), pt_uuid = sample_uuid_ops, pt_status_debug = (\<lambda>_. '''')\<rparr>"

theorem positions_follow_fills_unless_reduced_witness:
  "update_position_from_fill exact_dec sample_paper_texts 1 (\<lambda>_. 0) (sample_sell 4 110) sample_paper_gateway =
     (Ok (Some \<lparr>m_amount = 40, m_currency = USD\<rparr>), sample_paper_gateway) \<and>
   net_position sample_paper_gateway (Symbol ''AAPL'') = 10 \<and>
   profit_of sample_paper_gateway (sample_sell 4 110) = Some 40"
proof -
  have p: "hash_get (pg_positions sample_paper_gateway) = [Symbol ''AAPL'' \<mapsto> sample_position 10 100]"
    by (simp add: sample_paper_gateway_def paper_gateway_new_def sample_position_def)
  have f: "fl_symbol (sample_sell 4 110) = Symbol ''AAPL''" "fl_side (sample_sell 4 110) = Sell"
      "fl_quantity (sample_sell 4 110) = Quantity 4" "fl_price (sample_sell 4 110) = Price 110"
    by (simp_all add: sample_sell_def)
  have run: "update_position_from_fill exact_dec sample_paper_texts 1 (\<lambda>_. 0) (sample_sell 4 110) sample_paper_gateway =
     (Ok (Some \<lparr>m_amount = 40, m_currency = USD\<rparr>), sample_paper_gateway)"
    using p f
    by (simp add: update_position_from_fill_def with_paper_lock_def Let_def sample_position_def
        calculate_partial_close_pnl_def money_new_unchecked_def sample_paper_gateway_def paper_gateway_new_def)
  show ?thesis
    using run p f positions_follow_fills_unless_reduced [OF no_rounding_exact run]
    by (simp add: net_position_def sample_position_def)
qed

section \<open>A losing trade\<close>

lemma sum_list_neg:
  fixes xs :: "decimal list"
  assumes "xs \<noteq> []" and "\<And>x. x \<in> set xs \<Longrightarrow> x < 0"
  shows "sum_list xs < 0"
  using assms
proof (induction xs rule: list_nonempty_induct)
  case (cons x xs)
  then have "x < 0" and "sum_list xs < 0" by simp_all
  then show ?case by simp
qed simp

lemma average_of_losses:
  assumes D: "no_rounding D" and ne: "xs \<noteq> []" and neg: "\<And>x. x \<in> set xs \<Longrightarrow> x < 0"
    and len: "length xs < 2 ^ 32"
  shows "average_pnl D xs = (Panic :: (money, 'e) res)"
proof -
  have n: "0 < (of_nat (length xs) :: u32)" "unat (of_nat (length xs) :: u32) = length xs"
    using ne len by (simp_all add: word_less_nat_alt unat_of_nat take_bit_nat_eq_self)
  have "(average_pnl D xs :: (money, 'e) res) \<noteq> Err e" for e
    using n by (simp add: average_pnl_def Let_def res_simps)
  moreover have "(average_pnl D xs :: (money, 'e) res) \<noteq> Ok m" for m
  proof
    assume "(average_pnl D xs :: (money, 'e) res) = Ok m"
    with n obtain s a where s: "dec_sum D xs = (Ok s :: (decimal, 'e) res)"
        and a: "d_div D s (of_nat (length xs)) = Some a" "0 \<le> a"
      by (auto simp: average_pnl_def Let_def res_simps money_new_def not_less split: if_splits)
    have "s < 0" using dec_sum_no_rounding [OF D s] sum_list_neg [OF ne neg] by simp
    then have "a < 0" using no_roundingD(4) [OF D a(1)] ne by (simp add: divide_less_0_iff)
    with a(2) show False by simp
  qed
  ultimately show ?thesis by (cases "average_pnl D xs :: (money, 'e) res") auto
qed

lemma pnls_of_iff: "x \<in> set (pnls_of P ts) \<longleftrightarrow> (\<exists>t \<in> set ts. x = m_amount (tr_realized_pnl t)) \<and> P x"
  by (auto simp: pnls_of_def)

lemma bind_PanicI: "(\<And>e. m \<noteq> Err e) \<Longrightarrow> (\<And>x. k x = Panic) \<Longrightarrow> bind m k = Panic"
  by (metis bind.simps res.exhaust)

lemma average_pnl_not_Err: "(average_pnl D xs :: (money, 'e) res) \<noteq> Err e"
  by (simp add: average_pnl_def Let_def res_simps)

text \<open>
  The performance summary panics as soon as the history has a losing trade, in exact
  arithmetic: the average loss is a negative amount and \<open>Money::new\<close> of it is unwrapped.
\<close>

theorem summary_panics_on_a_loss:
  assumes "no_rounding D" and "t \<in> set (pg_trade_history g)" and "m_amount (tr_realized_pnl t) < 0"
    and "length (pg_trade_history g) < 2 ^ 32" and "\<not> pg_poisoned g HistoryLock"
  shows "performance_summary D F g = (Panic :: (paper_performance, 'e) res)"
proof -
  let ?losses = "pnls_of (\<lambda>x. x < 0) (pg_trade_history g)"
  have "m_amount (tr_realized_pnl t) \<in> set ?losses"
    using assms(2,3) unfolding pnls_of_iff by blast
  then have ne: "?losses \<noteq> []" by auto
  have "length ?losses \<le> length (pg_trade_history g)"
    using length_filter_le [of "\<lambda>x. x < 0" "map (\<lambda>t. m_amount (tr_realized_pnl t)) (pg_trade_history g)"]
    by (simp add: pnls_of_def)
  then have len: "length ?losses < 2 ^ 32" using assms(4) by simp
  have loss: "average_pnl D ?losses = (Panic :: (money, 'e) res)"
    by (rule average_of_losses [OF assms(1) ne _ len]) (simp add: pnls_of_iff)
  show ?thesis
    unfolding performance_summary_def Let_def loss bind.simps(3) if_not_P [OF assms(5)]
    by (intro bind_PanicI) (simp_all add: res_simps average_pnl_not_Err)
qed

text \<open>After one trade of each outcome, and after a winning trade only.\<close>

definition sample_trade :: "decimal \<Rightarrow> trade_record" where
  "sample_trade pnl =
     \<lparr>tr_symbol = Symbol ''AAPL'', tr_entry_price = Price 100, tr_exit_price = Some (Price 100),
      tr_quantity = Quantity 1, tr_side = Sell, tr_realized_pnl = \<lparr>m_amount = pnl, m_currency = USD\<rparr>,
      tr_commission = \<lparr>m_amount = 0, m_currency = USD\<rparr>, tr_entry_at = 0, tr_exit_at = None\<rparr>"

definition sample_float_ops :: float_ops where
  "sample_float_ops =
     \<lparr>fo_of_nat = (\<lambda>n. Finite (of_nat n)), fo_div = (\<lambda>_ _. Finite 0), fo_mul = (\<lambda>_ _. Finite 0),
      fo_of_dec = (\<lambda>x. Some (Finite x))\<rparr>"

theorem summary_panics_on_a_loss_witness:
  "performance_summary exact_dec sample_float_ops (sample_paper_gateway\<lparr>pg_trade_history := [sample_trade 5, sample_trade (- 3)]\<rparr>) =
     (Panic :: (paper_performance, unit) res)"
proof (rule summary_panics_on_a_loss [OF no_rounding_exact])
  show "sample_trade (- 3) \<in>
      set (pg_trade_history (sample_paper_gateway\<lparr>pg_trade_history := [sample_trade 5, sample_trade (- 3)]\<rparr>))"
    by simp
qed (simp_all add: sample_trade_def sample_paper_gateway_def paper_gateway_new_def)

lemma summary_of_winning_trades:
  "is_ok (performance_summary exact_dec F (sample_paper_gateway\<lparr>pg_trade_history := [sample_trade 5]\<rparr>))"
  by (simp add: performance_summary_def sample_trade_def sample_paper_gateway_def paper_gateway_new_def
      pnls_of_def average_pnl_def dec_sum_exact_dec money_new_def Let_def paper_config_default_def)

end
