(* ===== verification/Risk_Metrics.thy ===== *)
theory Risk_Metrics
  imports Risk_Engine Mem_Repos
begin

text \<open>
  Risk metrics, \<open>crates/application/src/risk/metrics.rs\<close>: exposures, profit, concentration, margin,
  drawdown, the Sharpe ratio with its own square root, exposure by sector and value at risk.  The
  printed summary is left out.
\<close>

section \<open>RiskMetrics\<close>

record risk_metrics =
  rm_timestamp :: timestamp
  rm_total_long_exposure :: money
  rm_total_short_exposure :: money
  rm_net_exposure :: money
  rm_gross_exposure :: money
  rm_daily_realized_pnl :: money
  rm_unrealized_pnl :: money
  rm_total_pnl :: money
  rm_open_positions_count :: nat
  rm_long_positions_count :: nat
  rm_short_positions_count :: nat
  rm_max_concentration_pct :: decimal
  rm_beta_adjusted_exposure :: "money option"
  rm_var_95 :: "money option"
  rm_cvar_95 :: "money option"
  rm_total_margin_required :: money
  rm_available_buying_power :: money
  rm_margin_utilization_pct :: decimal

abbreviation usd :: "decimal \<Rightarrow> money" where
  "usd x \<equiv> money_new_unchecked x USD"

definition risk_metrics_empty :: "timestamp \<Rightarrow> risk_metrics" where
  "risk_metrics_empty now =
     \<lparr>rm_timestamp = now, rm_total_long_exposure = usd 0, rm_total_short_exposure = usd 0,
      rm_net_exposure = usd 0, rm_gross_exposure = usd 0, rm_daily_realized_pnl = usd 0,
      rm_unrealized_pnl = usd 0, rm_total_pnl = usd 0, rm_open_positions_count = 0,
      rm_long_positions_count = 0, rm_short_positions_count = 0, rm_max_concentration_pct = 0,
      rm_beta_adjusted_exposure = None, rm_var_95 = None, rm_cvar_95 = None,
      rm_total_margin_required = usd 0, rm_available_buying_power = usd 0, rm_margin_utilization_pct = 0\<rparr>"

definition is_within_limits :: "risk_metrics \<Rightarrow> money \<Rightarrow> bool" where
  "is_within_limits m max_exposure = (m_amount (rm_gross_exposure m) \<le> m_amount max_exposure)"

section \<open>RiskMetricsCalculator\<close>

record risk_calculator =
  rc_available_capital :: money
  rc_margin_requirement_pct :: decimal

definition risk_calculator_new :: "money \<Rightarrow> decimal \<Rightarrow> risk_calculator" where
  "risk_calculator_new capital pct = \<lparr>rc_available_capital = capital, rc_margin_requirement_pct = pct\<rparr>"

definition market_amounts :: "dec_ops \<Rightarrow> position list \<Rightarrow> (decimal list, 'e) res" where
  "market_amounts D ps = bind (map_res (market_value D) ps) (\<lambda>vs. Ok (map m_amount vs))"

definition long_short_exposure :: "dec_ops \<Rightarrow> position list \<Rightarrow> (money \<times> money, 'e) res" where
  "long_short_exposure D ps =
     bind (market_amounts D (filter position_is_long ps)) (\<lambda>ls.
     bind (dec_sum D ls) (\<lambda>long_exposure.
     bind (market_amounts D (filter position_is_short ps)) (\<lambda>ss.
     bind (dec_sum D (map abs ss)) (\<lambda>short_exposure.
     Ok (usd long_exposure, usd short_exposure)))))"

definition calculate_unrealized_pnl :: "dec_ops \<Rightarrow> position list \<Rightarrow> (money, 'e) res" where
  "calculate_unrealized_pnl D ps =
     bind (dec_sum D (map (\<lambda>p. m_amount (pos_unrealized_pnl p)) ps)) (\<lambda>x. Ok (usd x))"

text \<open>\<open>Iterator::max\<close> with a default.\<close>

definition max_or :: "decimal \<Rightarrow> decimal list \<Rightarrow> decimal" where
  "max_or d xs = (case xs of [] \<Rightarrow> d | x # xs' \<Rightarrow> fold max xs' x)"

definition metrics_calculate ::
    "dec_ops \<Rightarrow> timestamp \<Rightarrow> risk_calculator \<Rightarrow> position list \<Rightarrow> (risk_metrics, domain_error) res" where
  "metrics_calculate D now c ps =
     (let capital = m_amount (rc_available_capital c) in
      bind (long_short_exposure D ps) (\<lambda>(total_long, total_short).
      bind (or_panic (d_sub D (m_amount total_long) (m_amount total_short))) (\<lambda>net_amount.
      bind (or_panic (d_add D (m_amount total_long) (m_amount total_short))) (\<lambda>gross_amount.
      bind (calculate_unrealized_pnl D ps) (\<lambda>unrealized_pnl.
      bind (if 0 < gross_amount
            then bind (market_amounts D ps) (\<lambda>vs. or_panic (d_div D (max_or 0 (map abs vs)) gross_amount))
            else Ok 0) (\<lambda>max_concentration_pct.
      bind (or_panic (d_mul D gross_amount (rc_margin_requirement_pct c))) (\<lambda>margin_required_amount.
      bind (or_panic (d_sub D capital margin_required_amount)) (\<lambda>buying_power_amount.
      bind (if 0 < capital then or_panic (d_div D margin_required_amount capital) else Ok 0)
        (\<lambda>margin_utilization_pct.
      Ok \<lparr>rm_timestamp = now, rm_total_long_exposure = total_long, rm_total_short_exposure = total_short,
          rm_net_exposure = usd net_amount, rm_gross_exposure = usd gross_amount,
          rm_daily_realized_pnl = usd 0, rm_unrealized_pnl = unrealized_pnl, rm_total_pnl = unrealized_pnl,
          rm_open_positions_count = length ps,
          rm_long_positions_count = length (filter position_is_long ps),
          rm_short_positions_count = length (filter position_is_short ps),
          rm_max_concentration_pct = max_concentration_pct, rm_beta_adjusted_exposure = None,
          rm_var_95 = None, rm_cvar_95 = None, rm_total_margin_required = usd margin_required_amount,
          rm_available_buying_power = usd buying_power_amount,
          rm_margin_utilization_pct = margin_utilization_pct\<rparr>)))))))))"

definition calculate_daily_pnl :: "dec_ops \<Rightarrow> fill list \<Rightarrow> (symbol \<rightharpoonup> price) \<Rightarrow> (money, 'e) res" where
  "calculate_daily_pnl D fills entry_prices =
     bind (map_res (\<lambda>f. fill_pnl D f (the (entry_prices (fl_symbol f))))
             (filter (\<lambda>f. entry_prices (fl_symbol f) \<noteq> None) fills)) (\<lambda>pnls.
     bind (dec_sum D (map m_amount pnls)) (\<lambda>total_pnl.
     Ok (usd total_pnl)))"

definition calculate_drawdown :: "dec_ops \<Rightarrow> money \<Rightarrow> money \<Rightarrow> (decimal, 'e) res" where
  "calculate_drawdown D current_equity equity_peak =
     (if 0 < m_amount equity_peak
      then bind (or_panic (d_sub D (m_amount equity_peak) (m_amount current_equity))) (\<lambda>d.
           bind (or_panic (d_div D d (m_amount equity_peak))) (\<lambda>drawdown. Ok (max drawdown 0)))
      else Ok 0)"

text \<open>The square root: at most ten iterations of Newton's method.\<close>

primrec sqrt_loop :: "dec_ops \<Rightarrow> decimal \<Rightarrow> nat \<Rightarrow> decimal \<Rightarrow> (decimal, 'e) res" where
  "sqrt_loop D v 0 x = Ok x"
| "sqrt_loop D v (Suc n) x =
     bind (or_panic (d_div D v x)) (\<lambda>q.
     bind (or_panic (d_add D x q)) (\<lambda>a.
     bind (or_panic (d_div D a 2)) (\<lambda>next_x.
     bind (or_panic (d_sub D next_x x)) (\<lambda>change.
     if \<bar>change\<bar> < 1 / 10 ^ 10 then Ok next_x else sqrt_loop D v n next_x))))"

definition decimal_sqrt :: "dec_ops \<Rightarrow> decimal \<Rightarrow> (decimal option, 'e) res" where
  "decimal_sqrt D v =
     (if v < 0 then Ok None
      else if v = 0 then Ok (Some 0)
      else bind (or_panic (d_div D v 2)) (\<lambda>x. bind (sqrt_loop D v 10 x) (\<lambda>r. Ok (Some r))))"

definition calculate_sharpe_ratio :: "dec_ops \<Rightarrow> decimal list \<Rightarrow> decimal \<Rightarrow> (decimal option, 'e) res" where
  "calculate_sharpe_ratio D returns risk_free_rate =
     (if returns = [] then Ok None
      else
        bind (dec_sum D returns) (\<lambda>s.
        bind (or_panic (d_div D s (of_nat (length returns)))) (\<lambda>avg_return.
        bind (or_panic (d_sub D avg_return risk_free_rate)) (\<lambda>excess_return.
        bind (map_res (\<lambda>r. bind (or_panic (d_sub D r avg_return)) (\<lambda>diff. or_panic (d_mul D diff diff))) returns)
          (\<lambda>squares.
        bind (dec_sum D squares) (\<lambda>ss.
        bind (or_panic (d_div D ss (of_nat (length returns)))) (\<lambda>variance.
        bind (decimal_sqrt D variance) (\<lambda>std.
        case std of
          None \<Rightarrow> Ok None
        | Some std_dev \<Rightarrow>
            if 0 < std_dev
            then bind (or_panic (d_div D excess_return std_dev)) (\<lambda>r. Ok (Some r))
            else Ok None))))))))"

definition add_to_sector ::
    "dec_ops \<Rightarrow> (symbol \<rightharpoonup> string) \<Rightarrow> position \<Rightarrow> (string, decimal) hash_map \<Rightarrow>
     ((string, decimal) hash_map, 'e) res" where
  "add_to_sector D symbol_to_sector p sectors =
     (let sector = (case symbol_to_sector (pos_symbol p) of Some s \<Rightarrow> s | None \<Rightarrow> ''Unknown'');
          so_far = (case hash_get sectors sector of Some x \<Rightarrow> x | None \<Rightarrow> 0) in
      bind (market_value D p) (\<lambda>v.
      bind (or_panic (d_add D so_far \<bar>m_amount v\<bar>)) (\<lambda>x. Ok (hash_insert sector x sectors))))"

definition calculate_sector_exposure ::
    "dec_ops \<Rightarrow> position list \<Rightarrow> (symbol \<rightharpoonup> string) \<Rightarrow> ((string, money) hash_map, 'e) res" where
  "calculate_sector_exposure D ps symbol_to_sector =
     bind (fold_res (add_to_sector D symbol_to_sector) ps hash_empty) (\<lambda>sectors.
     Ok (hash_map_values usd sectors))"

definition calculate_var_95 :: "dec_ops \<Rightarrow> money \<Rightarrow> decimal \<Rightarrow> (money, 'e) res" where
  "calculate_var_95 D portfolio_value returns_std =
     bind (or_panic (d_mul D (1645 / 1000) returns_std)) (\<lambda>a.
     bind (or_panic (d_mul D a (m_amount portfolio_value))) (\<lambda>var_amount. Ok (usd var_amount)))"

section \<open>The square root\<close>

text \<open>Newton's iteration for the root of \<open>v\<close>, in exact arithmetic.\<close>

fun newton :: "decimal \<Rightarrow> nat \<Rightarrow> decimal" where
  "newton v 0 = v / 2"
| "newton v (Suc k) = (newton v k + v / newton v k) / 2"

lemma newton_pos: "0 < v \<Longrightarrow> 0 < newton v k"
  by (induction k) (auto intro!: divide_pos_pos add_pos_pos)

lemma newton_square:
  assumes "0 < v"
  shows "(newton v (Suc k))\<^sup>2 - v = (newton v (Suc k) - newton v k)\<^sup>2"
proof -
  have "newton v k \<noteq> 0" using newton_pos [OF assms, of k] by simp
  then show ?thesis by (simp add: power2_eq_square field_simps)
qed

lemma newton_halves: "0 < v \<Longrightarrow> newton v k / 2 \<le> newton v (Suc k)"
  using newton_pos [of v k] by simp

lemma newton_from:
  assumes "0 < v"
  shows "newton v k / 2 ^ i \<le> newton v (k + i)"
proof (induction i)
  case (Suc i)
  have "newton v k / 2 ^ Suc i \<le> newton v (k + i) / 2" using Suc by simp
  also have "\<dots> \<le> newton v (k + Suc i)" using newton_halves [OF assms, of "k + i"] by simp
  finally show ?case .
qed simp

text \<open>The loop stops at the first iterate that moves by less than the tolerance, or at the last.\<close>

lemma sqrt_loop_newton:
  assumes D: "no_rounding D" and v: "0 < v"
    and run: "sqrt_loop D v n (newton v k) = (Ok r :: (decimal, 'e) res)"
  shows "\<exists>j. k \<le> j \<and> j \<le> k + n \<and> r = newton v j \<and>
           (j = k + n \<or> (\<exists>i. j = Suc i \<and> \<bar>newton v j - newton v i\<bar> < 1 / 10 ^ 10)) \<and> (0 < n \<longrightarrow> k < j)"
  using run
proof (induction n arbitrary: k)
  case (Suc n)
  from Suc.prems obtain q a x d where ops: "d_div D v (newton v k) = Some q"
      "d_add D (newton v k) q = Some a" "d_div D a 2 = Some x" "d_sub D x (newton v k) = Some d"
    and rest: "(if \<bar>d\<bar> < 1 / 10 ^ 10 then Ok x else sqrt_loop D v n x) = (Ok r :: (decimal, 'e) res)"
    by (auto simp: res_simps simp del: newton.simps)
  have x: "x = newton v (Suc k)" and d: "d = newton v (Suc k) - newton v k"
    using no_roundingD [OF D] ops by force+
  show ?case
  proof (cases "\<bar>d\<bar> < 1 / 10 ^ 10")
    case True
    with rest have "r = newton v (Suc k)" by (simp add: x)
    with True show ?thesis unfolding d by (intro exI [of _ "Suc k"]) (auto simp del: newton.simps)
  next
    case False
    with rest have "sqrt_loop D v n (newton v (Suc k)) = (Ok r :: (decimal, 'e) res)" by (simp add: x)
    from Suc.IH [OF this] obtain j where "Suc k \<le> j" "j \<le> Suc k + n" "r = newton v j"
        "j = Suc k + n \<or> (\<exists>i. j = Suc i \<and> \<bar>newton v j - newton v i\<bar> < 1 / 10 ^ 10)" by blast
    then show ?thesis by (intro exI [of _ j]) auto
  qed
next
  case 0
  then show ?case by (intro exI [of _ k]) simp
qed

lemma decimal_sqrt_newton:
  assumes D: "no_rounding D" and v: "0 < v" and run: "decimal_sqrt D v = (Ok s :: (decimal option, 'e) res)"
  obtains i where "s = Some (newton v (Suc i))" and "i < 10"
    and "i = 9 \<or> \<bar>newton v (Suc i) - newton v i\<bar> < 1 / 10 ^ 10"
proof -
  from run v obtain x r where "d_div D v 2 = Some x" and r: "sqrt_loop D v 10 x = (Ok r :: (decimal, 'e) res)"
      and s: "s = Some r"
    by (auto simp: decimal_sqrt_def res_simps)
  then have "x = newton v 0" using no_roundingD(4) [OF D] by fastforce
  with r sqrt_loop_newton [OF D v, of 10 0 r] obtain j where "0 < j" "j \<le> 10" "r = newton v j"
      "j = 10 \<or> (\<exists>i. j = Suc i \<and> \<bar>newton v j - newton v i\<bar> < 1 / 10 ^ 10)" by auto
  then show thesis using that [of "j - 1"] s by (cases j) auto
qed


text \<open>The root of 4 is found at once; that of 16,777,216 is missed by a factor of two or more.\<close>

lemma sqrt_loop_exact_dec: "0 < v \<Longrightarrow> 0 < x \<Longrightarrow> is_ok (sqrt_loop exact_dec v n x)"
  by (induction n arbitrary: x) (auto simp: divide_simps add_pos_pos)


section \<open>Exposures\<close>

abbreviation position_value :: "position \<Rightarrow> decimal" where
  "position_value p \<equiv> price_inner (pos_current_price p) * qty_inner (pos_quantity p)"

lemma market_amounts_exact:
  "no_rounding D \<Longrightarrow> market_amounts D ps = (Ok vs :: (decimal list, 'e) res) \<Longrightarrow> vs = map position_value ps"
  by (auto simp: market_amounts_def res_simps dest: market_values_exact)

lemma not_long_iff: "(\<not> position_is_long p) = position_is_short p"
  by (cases "pos_side p")
    (simp_all add: position_is_long_def position_is_short_def side_is_buy_def side_is_sell_def)

lemma exposure_partition:
  "exact_exposure (filter position_is_long ps) + exact_exposure (filter position_is_short ps) = exact_exposure ps"
  and count_partition: "length (filter position_is_long ps) + length (filter position_is_short ps) = length ps"
  by (induction ps) (auto simp: exact_exposure_def not_long_iff [symmetric])

lemma max_or_bounds:
  fixes xs :: "decimal list"
  assumes "\<And>x. x \<in> set xs \<Longrightarrow> 0 \<le> x"
  shows "0 \<le> max_or 0 xs \<and> max_or 0 xs \<le> sum_list xs"
proof -
  have "x \<le> fold max ys x \<and> fold max ys x \<le> x + sum_list ys"
    if "0 \<le> x" "\<And>y. y \<in> set ys \<Longrightarrow> 0 \<le> y" for x :: decimal and ys
    using that
  proof (induction ys arbitrary: x)
    case (Cons y ys)
    from Cons.prems have "0 \<le> y" and "0 \<le> max x y" and "max x y \<le> x + y" by auto
    with Cons.IH [of "max y x"] Cons.prems(2) show ?case by (fastforce simp: max.commute)
  qed simp
  note bounds = this
  show ?thesis
  proof (cases xs)
    case (Cons a ys)
    then have "0 \<le> a" using assms by simp
    moreover have "a \<le> fold max ys a \<and> fold max ys a \<le> a + sum_list ys"
      using assms Cons by (intro bounds) simp_all
    ultimately show ?thesis using Cons by (simp add: max_or_def)
  qed (simp add: max_or_def)
qed

lemma abs_values:
  "(\<And>p. p \<in> set qs \<Longrightarrow> 0 \<le> position_value p) \<Longrightarrow>
     map abs (map position_value qs) = map position_value qs"
  by simp

lemma long_short_exposure_exact:
  assumes D: "no_rounding D" and pos: "\<forall>p \<in> set ps. 0 \<le> position_value p"
    and run: "long_short_exposure D ps = (Ok (l, s) :: (money \<times> money, 'e) res)"
  shows "m_amount l = exact_exposure (filter position_is_long ps)"
    and "m_amount s = exact_exposure (filter position_is_short ps)"
proof -
  obtain ls ss le se where ls: "market_amounts D (filter position_is_long ps) = (Ok ls :: (decimal list, 'e) res)"
    and ss: "market_amounts D (filter position_is_short ps) = (Ok ss :: (decimal list, 'e) res)"
    and le: "dec_sum D ls = (Ok le :: (decimal, 'e) res)"
    and se: "dec_sum D (map abs ss) = (Ok se :: (decimal, 'e) res)"
    and "l = usd le" and "s = usd se"
    using run by (auto simp: long_short_exposure_def res_simps)
  moreover have "map abs ss = ss"
    unfolding market_amounts_exact [OF D ss] by (rule abs_values) (use pos in simp)
  ultimately show "m_amount l = exact_exposure (filter position_is_long ps)"
    and "m_amount s = exact_exposure (filter position_is_short ps)"
    using dec_sum_no_rounding [OF D le] dec_sum_no_rounding [OF D se]
      market_amounts_exact [OF D ls] market_amounts_exact [OF D ss]
    by (simp_all add: exact_exposure_def money_new_unchecked_def del: map_map)
qed

text \<open>
  The metrics agree with each other and with the risk engine.  In exact arithmetic, for
  positions of non-negative value, the gross exposure is the long plus the short one and is the
  total exposure that the risk engine compares with its limit; the net exposure is their
  difference; long and short positions are all the positions; the concentration is a fraction; the
  margin is the configured share of the gross exposure and what is left of the capital is the buying
  power, which is negative when the margin exceeds the capital.
\<close>

theorem metrics_agree_with_engine:
  assumes "no_rounding D" and "\<forall>p \<in> set ps. 0 \<le> position_value p"
    and "metrics_calculate D now c ps = Ok m" and "calculate_total_exposure D ps = Ok e"
  shows "rm_gross_exposure m = e \<and>
         m_amount e = m_amount (rm_total_long_exposure m) + m_amount (rm_total_short_exposure m) \<and>
         m_amount (rm_net_exposure m) =
           m_amount (rm_total_long_exposure m) - m_amount (rm_total_short_exposure m) \<and>
         rm_long_positions_count m + rm_short_positions_count m = length ps \<and>
         0 \<le> rm_max_concentration_pct m \<and> rm_max_concentration_pct m \<le> 1 \<and>
         m_amount (rm_total_margin_required m) = m_amount e * rc_margin_requirement_pct c \<and>
         m_amount (rm_available_buying_power m) =
           m_amount (rc_available_capital c) - m_amount (rm_total_margin_required m)"
proof -
  note D = assms(1)
  obtain l s net gross un conc req buy ut
    where ls: "long_short_exposure D ps = (Ok (l, s) :: (money \<times> money, domain_error) res)"
      and net: "d_sub D (m_amount l) (m_amount s) = Some net"
      and gross: "d_add D (m_amount l) (m_amount s) = Some gross"
      and conc: "(if 0 < gross then bind (market_amounts D ps) (\<lambda>vs. or_panic (d_div D (max_or 0 (map abs vs)) gross))
                  else Ok 0) = (Ok conc :: (decimal, domain_error) res)"
      and req: "d_mul D gross (rc_margin_requirement_pct c) = Some req"
      and buy: "d_sub D (m_amount (rc_available_capital c)) req = Some buy"
      and m: "rm_total_long_exposure m = l" "rm_total_short_exposure m = s" "rm_net_exposure m = usd net"
        "rm_gross_exposure m = usd gross" "rm_max_concentration_pct m = conc"
        "rm_long_positions_count m = length (filter position_is_long ps)"
        "rm_short_positions_count m = length (filter position_is_short ps)"
        "rm_total_margin_required m = usd req" "rm_available_buying_power m = usd buy"
    using assms(3) unfolding metrics_calculate_def Let_def
    by (fastforce simp: bind_eq_Ok or_panic_eq_Ok)
  note parts = long_short_exposure_exact [OF D assms(2) ls]
  have g: "gross = exact_exposure ps"
    using no_roundingD(1) [OF D gross] parts exposure_partition [of ps] by simp
  have e: "m_amount e = exact_exposure ps" "m_currency e = USD"
    using exposure_of_exact [OF D, of ps e] assms(4) by (simp_all add: calculate_total_exposure_def)
  have "0 \<le> conc \<and> conc \<le> 1"
  proof (cases "0 < gross")
    case True
    then obtain vs where vs: "market_amounts D ps = (Ok vs :: (decimal list, domain_error) res)"
        and q: "d_div D (max_or 0 (map abs vs)) gross = Some conc"
      using conc by (auto simp: res_simps)
    have av: "map abs vs = vs"
      unfolding market_amounts_exact [OF D vs] by (rule abs_values) (use assms(2) in simp)
    have "0 \<le> max_or 0 vs \<and> max_or 0 vs \<le> sum_list vs"
      using market_amounts_exact [OF D vs] assms(2) by (intro max_or_bounds) auto
    then have "0 \<le> max_or 0 (map abs vs) \<and> max_or 0 (map abs vs) \<le> gross"
      unfolding av g exact_exposure_def market_amounts_exact [OF D vs, symmetric] .
    moreover have "conc = max_or 0 (map abs vs) / gross" using no_roundingD(4) [OF D q] by blast
    ultimately show ?thesis using True by (simp del: map_map)
  qed (use conc in simp)
  moreover have "usd gross = e" using e g by (simp add: money_new_unchecked_def)
  ultimately show ?thesis
    using m parts g e(1) no_roundingD(2) [OF D net] no_roundingD(3) [OF D req] no_roundingD(2) [OF D buy]
      exposure_partition [of ps] count_partition [of ps] by (simp add: money_new_unchecked_def)
qed

text \<open>A long position of 1000 and a short one of 500.\<close>

definition sample_short :: position where
  "sample_short = position_new 2 0 2 (Symbol ''TSLA'') Short (Quantity 5) (Price 100) USD"

theorem metrics_agree_with_engine_witness:
  "\<exists>m. metrics_calculate exact_dec 0 (risk_calculator_new (usd 10000) (1 / 5)) [sample_position 10 100, sample_short] =
         Ok m \<and> m_amount (rm_gross_exposure m) = 1500 \<and> m_amount (rm_net_exposure m) = 500"
proof -
  let ?ps = "[sample_position 10 100, sample_short]"
  obtain m where m: "metrics_calculate exact_dec 0 (risk_calculator_new (usd 10000) (1 / 5)) ?ps = Ok m"
      and l: "rm_total_long_exposure m = usd 1000" "rm_total_short_exposure m = usd 500"
    by (simp add: metrics_calculate_def long_short_exposure_def market_amounts_def market_value_def
        sample_position_def sample_short_def position_is_long_def position_is_short_def side_is_buy_def
        side_is_sell_def money_new_unchecked_def calculate_unrealized_pnl_def dec_sum_exact_dec Let_def
        risk_calculator_new_def)
  have e: "calculate_total_exposure exact_dec ?ps = Ok (usd 1500)"
    by (simp add: calculate_total_exposure_def exposure_of_def market_value_def sample_position_def
        sample_short_def dec_sum_exact_dec money_new_def money_new_unchecked_def)
  have pos: "\<forall>p \<in> set ?ps. 0 \<le> position_value p"
    by (simp add: sample_position_def sample_short_def)
  from m l metrics_agree_with_engine [OF no_rounding_exact pos m e] show ?thesis
    by (auto simp: money_new_unchecked_def)
qed

section \<open>Sectors\<close>

lemma add_to_sector_sum:
  assumes D: "no_rounding D" and p: "0 \<le> position_value p"
    and run: "add_to_sector D f p m = (Ok m' :: ((string, decimal) hash_map, 'e) res)"
  shows "sum_list (hash_values m') = sum_list (hash_values m) + position_value p"
proof -
  obtain k x v where v: "market_value D p = (Ok v :: (money, 'e) res)"
      and x: "d_add D (case hash_get m k of Some x \<Rightarrow> x | None \<Rightarrow> 0) \<bar>m_amount v\<bar> = Some x"
      and m': "m' = hash_insert k x m"
    using run by (auto simp: add_to_sector_def Let_def res_simps)
  have "m_amount v = position_value p"
    using v no_roundingD(3) [OF D] by (auto simp: market_value_def money_new_unchecked_def res_simps)
  with p no_roundingD(1) [OF D x]
  have "x = (case hash_get m k of Some x \<Rightarrow> x | None \<Rightarrow> 0) + position_value p" by simp
  then show ?thesis
    using sum_hash_insert [of "\<lambda>x. x" k x m] by (simp add: m' split: option.splits)
qed

text \<open>
  Exposure by sector loses nothing: whatever the assignment of symbols to sectors, the exposures
  of the sectors add up to the exposure of all positions, those of unassigned symbols included.
\<close>

theorem sectors_partition_exposure:
  assumes "no_rounding D" and "\<forall>p \<in> set ps. 0 \<le> position_value p"
    and "calculate_sector_exposure D ps symbol_to_sector = (Ok m :: ((string, money) hash_map, 'e) res)"
  shows "sum_list (map m_amount (hash_values m)) = exact_exposure ps"
proof -
  have step: "sum_list (hash_values b) = sum_list (hash_values a) + exact_exposure qs"
    if "\<forall>p \<in> set qs. 0 \<le> position_value p"
      and "fold_res (add_to_sector D symbol_to_sector) qs a = (Ok b :: ((string, decimal) hash_map, 'e) res)"
    for a b qs
    using that
  proof (induction qs arbitrary: a)
    case (Cons p qs)
    then obtain a' where "add_to_sector D symbol_to_sector p a = (Ok a' :: ((string, decimal) hash_map, 'e) res)"
        and "fold_res (add_to_sector D symbol_to_sector) qs a' = (Ok b :: ((string, decimal) hash_map, 'e) res)"
      by (auto simp: res_simps)
    with Cons.IH [of a'] Cons.prems(1) add_to_sector_sum [OF assms(1), of p _ a a'] show ?case
      by (simp add: exact_exposure_def)
  qed (simp add: exact_exposure_def)
  from assms(3) obtain sectors where
      "fold_res (add_to_sector D symbol_to_sector) ps hash_empty = (Ok sectors :: ((string, decimal) hash_map, 'e) res)"
      and "m = hash_map_values usd sectors"
    by (auto simp: calculate_sector_exposure_def res_simps)
  with step [OF assms(2), of hash_empty sectors] show ?thesis
    by (simp add: comp_def money_new_unchecked_def)
qed

theorem sectors_partition_exposure_witness:
  "\<exists>m. calculate_sector_exposure exact_dec [sample_position 10 100, sample_short] [Symbol ''AAPL'' \<mapsto> ''Tech''] =
         (Ok m :: ((string, money) hash_map, unit) res) \<and> hash_get m ''Unknown'' = Some (usd 500) \<and>
       sum_list (map m_amount (hash_values m)) = 1500"
proof -
  let ?ps = "[sample_position 10 100, sample_short]"
  have pos: "\<forall>p \<in> set ?ps. 0 \<le> position_value p"
    by (simp add: sample_position_def sample_short_def)
  obtain m where m: "calculate_sector_exposure exact_dec ?ps [Symbol ''AAPL'' \<mapsto> ''Tech''] =
         (Ok m :: ((string, money) hash_map, unit) res)" and "hash_get m ''Unknown'' = Some (usd 500)"
    by (simp add: calculate_sector_exposure_def add_to_sector_def market_value_def sample_position_def
        sample_short_def Let_def money_new_unchecked_def)
  with sectors_partition_exposure [OF no_rounding_exact pos m] show ?thesis
    by (auto simp: exact_exposure_def sample_position_def sample_short_def)
qed

end
