(* ===== verification/IB_Client.thy ===== *)
theory IB_Client
  imports Domain_Errors
begin

text \<open>
  The client of Interactive Brokers, \<open>crates/infrastructure/src/external/ib/client.rs\<close>: connection
  states, retries with back-off, and the connection manager that sends heartbeats and reconnects.
  The calls of the broker's own library are placeholders in the code that always succeed; their
  answers are arguments here, so that the error paths around them are covered.  Events go to the
  application over a channel and are the list of what was sent.
\<close>

section \<open>Configuration\<close>

record ib_config =
  ibc_host :: string
  ibc_port :: "16 word"
  ibc_client_id :: i32
  ibc_connect_timeout_ms :: u64
  ibc_auto_reconnect :: bool
  ibc_max_reconnect_attempts :: u32
  ibc_initial_retry_delay_ms :: u64
  ibc_max_retry_delay_ms :: u64
  ibc_heartbeat_interval_ms :: u64
  ibc_connection_dead_timeout_ms :: u64

definition ib_config_default :: ib_config where
  "ib_config_default =
     \<lparr>ibc_host = ''127.0.0.1'', ibc_port = 7497, ibc_client_id = 1, ibc_connect_timeout_ms = 5000,
      ibc_auto_reconnect = True, ibc_max_reconnect_attempts = 10, ibc_initial_retry_delay_ms = 100,
      ibc_max_retry_delay_ms = 5000, ibc_heartbeat_interval_ms = 30000,
      ibc_connection_dead_timeout_ms = 60000\<rparr>"

definition ib_config_live_trading :: ib_config where
  "ib_config_live_trading = ib_config_default\<lparr>ibc_port := 7496\<rparr>"

definition ib_config_paper_trading :: ib_config where
  "ib_config_paper_trading = ib_config_default\<lparr>ibc_port := 7497\<rparr>"

definition connection_string :: "ib_config \<Rightarrow> string" where
  "connection_string c = ibc_host c @ '':'' @ show_nat (unat (ibc_port c))"

text \<open>The checks the derived \<open>Validate\<close> performs.\<close>

definition in_range :: "nat \<Rightarrow> nat \<Rightarrow> 'a::len word \<Rightarrow> bool" where
  "in_range lo hi x = (lo \<le> unat x \<and> unat x \<le> hi)"

definition ib_config_valid :: "ib_config \<Rightarrow> bool" where
  "ib_config_valid c =
     (ibc_host c \<noteq> [] \<and> in_range 1 65535 (ibc_port c) \<and>
      0 \<le> sint (ibc_client_id c) \<and> sint (ibc_client_id c) \<le> 999999 \<and>
      in_range 1000 60000 (ibc_connect_timeout_ms c) \<and> in_range 0 100 (ibc_max_reconnect_attempts c) \<and>
      in_range 100 5000 (ibc_initial_retry_delay_ms c) \<and> in_range 1000 60000 (ibc_max_retry_delay_ms c) \<and>
      in_range 5000 300000 (ibc_heartbeat_interval_ms c) \<and>
      in_range 10000 300000 (ibc_connection_dead_timeout_ms c))"

section \<open>Connection states and events\<close>

datatype connection_state = CN_Disconnected | CN_Connecting | CN_Connected | CN_Reconnecting | CN_Failed

fun connection_state_display :: "connection_state \<Rightarrow> string" where
  "connection_state_display CN_Disconnected = ''disconnected''"
| "connection_state_display CN_Connecting = ''connecting''"
| "connection_state_display CN_Connected = ''connected''"
| "connection_state_display CN_Reconnecting = ''reconnecting''"
| "connection_state_display CN_Failed = ''failed''"

record market_data_update =
  md_symbol :: symbol
  md_bid :: "price option"
  md_ask :: "price option"
  md_last :: "price option"
  md_bid_size :: "quantity option"
  md_ask_size :: "quantity option"
  md_last_size :: "quantity option"
  md_volume :: "i64 option"
  md_timestamp :: timestamp

definition market_data_update_default :: "timestamp \<Rightarrow> market_data_update" where
  "market_data_update_default now =
     \<lparr>md_symbol = Symbol ''UNKNOWN'', md_bid = None, md_ask = None, md_last = None, md_bid_size = None,
      md_ask_size = None, md_last_size = None, md_volume = None, md_timestamp = now\<rparr>"

datatype ib_event =
    IBE_Connected i32 timestamp
  | IBE_Disconnected string
  | IBE_Error i32 string
  | IBE_NextValidId i32
  | IBE_MarketData i32 market_data_update
  | IBE_StateChanged connection_state connection_state
  | IBE_Heartbeat timestamp
  | IBE_ConnectionDead u64

section \<open>Back-off\<close>

text \<open>
  The delay is computed in floating point, which is exact for the delays a valid configuration has
  (a product with a power of two, capped); the conversion back saturates.
\<close>

record ib_backoff =
  bo_initial_delay_ms :: u64
  bo_max_delay_ms :: u64
  bo_attempt :: u32

definition backoff_new :: "u64 \<Rightarrow> u64 \<Rightarrow> ib_backoff" where
  "backoff_new initial_ms max_ms =
     \<lparr>bo_initial_delay_ms = initial_ms, bo_max_delay_ms = max_ms, bo_attempt = 0\<rparr>"

definition next_delay :: "ib_backoff \<Rightarrow> nat \<times> ib_backoff" where
  "next_delay b =
     (if bo_attempt b = 0 then unat (bo_initial_delay_ms b)
      else min (unat (bo_initial_delay_ms b) * 2 ^ unat (bo_attempt b)) (unat (bo_max_delay_ms b)),
      b\<lparr>bo_attempt := bo_attempt b + 1\<rparr>)"

definition backoff_reset :: "ib_backoff \<Rightarrow> ib_backoff" where
  "backoff_reset b = b\<lparr>bo_attempt := 0\<rparr>"

section \<open>The client\<close>

text \<open>\<open>ic_manager\<close> is the back-off of the running connection manager, if one runs.\<close>

record ib_client =
  ic_state :: connection_state
  ic_config :: ib_config
  ic_events :: "ib_event list"
  ic_manager :: "ib_backoff option"
  ic_last_activity :: instant
  ic_next_valid_id :: i32
  ic_shutdown_signal :: bool
  ic_connected :: bool

definition ib_client_new :: "instant \<Rightarrow> ib_config \<Rightarrow> ib_client" where
  "ib_client_new now config =
     \<lparr>ic_state = CN_Disconnected, ic_config = config, ic_events = [], ic_manager = None,
      ic_last_activity = now, ic_next_valid_id = 0, ic_shutdown_signal = False, ic_connected = False\<rparr>"

definition emit :: "ib_event \<Rightarrow> ib_client \<Rightarrow> ib_client" where
  "emit e c = c\<lparr>ic_events := ic_events c @ [e]\<rparr>"

definition client_is_connected :: "ib_client \<Rightarrow> bool" where
  "client_is_connected c = (ic_connected c \<and> ic_state c = CN_Connected)"

definition set_state :: "connection_state \<Rightarrow> ib_client \<Rightarrow> ib_client" where
  "set_state s c =
     (if ic_state c = s then c else emit (IBE_StateChanged (ic_state c) s) (c\<lparr>ic_state := s\<rparr>))"

definition update_activity :: "instant \<Rightarrow> ib_client \<Rightarrow> ib_client" where
  "update_activity now c = c\<lparr>ic_last_activity := now\<rparr>"

text \<open>The answer of the broker's library within the timeout, or none.\<close>

datatype connect_answer = Answered "(unit, provider_error) res" | NoAnswer

definition attempt_connection ::
    "connect_answer \<Rightarrow> instant \<Rightarrow> timestamp \<Rightarrow> ib_client \<Rightarrow> (unit, provider_error) res \<times> ib_client" where
  "attempt_connection answer now wall c =
     (case answer of
        Answered (Ok _) \<Rightarrow>
          (Ok (), emit (IBE_Connected 0 wall)
                    (set_state CN_Connected (update_activity now (c\<lparr>ic_connected := True\<rparr>))))
      | Answered (Err e) \<Rightarrow> (Err e, set_state CN_Failed c)
      | Answered Panic \<Rightarrow> (Panic, c)
      | NoAnswer \<Rightarrow> (Err (Prov_Timeout ''connect'' (ibc_connect_timeout_ms (ic_config c))), set_state CN_Failed c))"

definition start_connection_manager :: "ib_client \<Rightarrow> ib_client" where
  "start_connection_manager c = c\<lparr>ic_manager := Some (backoff_new 100 5000)\<rparr>"

text \<open>
  The retry loop: \<open>broker n\<close> is the answer to attempt \<open>n\<close>, with the clocks then; the delays slept are
  collected.  With no limit on the attempts it need not end.
\<close>

record broker =
  br_answer :: "nat \<Rightarrow> connect_answer"
  br_instant :: "nat \<Rightarrow> instant"
  br_wall :: "nat \<Rightarrow> timestamp"

partial_function (option) connect_loop ::
    "broker \<Rightarrow> nat \<Rightarrow> ib_backoff \<Rightarrow> nat list \<Rightarrow> ib_client \<Rightarrow>
     ((unit, provider_error) res \<times> nat list \<times> ib_client) option" where
  "connect_loop B n b slept c =
     (case attempt_connection (br_answer B n) (br_instant B n) (br_wall B n) c of (r, c1) \<Rightarrow>
        case r of
          Ok _ \<Rightarrow> Some (Ok (), slept, start_connection_manager c1)
        | Panic \<Rightarrow> Some (Panic, slept, c1)
        | Err e \<Rightarrow>
            let max_attempts = ibc_max_reconnect_attempts (ic_config c1) in
            if 0 < max_attempts \<and> max_attempts \<le> bo_attempt b
            then Some (Err (Prov_ConnectionFailed ''InteractiveBrokers''
                         (''Max retries exceeded: '' @ provider_error_display e)), slept, set_state CN_Failed c1)
            else (case next_delay b of (d, b') \<Rightarrow> connect_loop B (Suc n) b' (slept @ [d]) c1))"

definition client_connect ::
    "broker \<Rightarrow> ib_client \<Rightarrow> ((unit, provider_error) res \<times> nat list \<times> ib_client) option" where
  "client_connect B c =
     (if client_is_connected c then Some (Ok (), [], c)
      else connect_loop B 0
             (backoff_new (ibc_initial_retry_delay_ms (ic_config c)) (ibc_max_retry_delay_ms (ic_config c))) []
             (set_state CN_Connecting c))"

definition ensure_connected ::
    "broker \<Rightarrow> ib_client \<Rightarrow> ((unit, provider_error) res \<times> nat list \<times> ib_client) option" where
  "ensure_connected B c = (if client_is_connected c then Some (Ok (), [], c) else client_connect B c)"

definition client_disconnect ::
    "(unit, provider_error) res \<Rightarrow> ib_client \<Rightarrow> (unit, provider_error) res \<times> ib_client" where
  "client_disconnect answer c =
     (let c1 = c\<lparr>ic_shutdown_signal := True, ic_manager := None\<rparr> in
      case answer of
        Ok _ \<Rightarrow>
          (Ok (), emit (IBE_Disconnected ''Client initiated disconnect'')
                    (set_state CN_Disconnected (c1\<lparr>ic_connected := False\<rparr>)))
      | Err e \<Rightarrow> (Err e, c1)
      | Panic \<Rightarrow> (Panic, c1))"

definition request_next_order_id ::
    "broker \<Rightarrow> ib_client \<Rightarrow> ((i32, provider_error) res \<times> ib_client) option" where
  "request_next_order_id B c =
     map_option (\<lambda>(r, slept, c1).
       case r of
         Ok _ \<Rightarrow>
           if ic_next_valid_id c1 = 0
           then (Ok 1000, emit (IBE_NextValidId 1000) (c1\<lparr>ic_next_valid_id := 1000\<rparr>))
           else (Ok (ic_next_valid_id c1), c1)
       | Err e \<Rightarrow> (Err e, c1)
       | Panic \<Rightarrow> (Panic, c1)) (ensure_connected B c)"

definition set_next_valid_id :: "i32 \<Rightarrow> ib_client \<Rightarrow> ib_client" where
  "set_next_valid_id i c = c\<lparr>ic_next_valid_id := i\<rparr>"

section \<open>The connection manager\<close>

definition check_connection_health ::
    "instant \<Rightarrow> timestamp \<Rightarrow> ib_client \<Rightarrow> (unit, provider_error) res \<times> ib_client" where
  "check_connection_health now wall c =
     (if \<not> ic_connected c then (Err (Prov_Disconnected ''InteractiveBrokers''), c)
      else
        let e = elapsed now (ic_last_activity c) in
        if millis (ibc_connection_dead_timeout_ms (ic_config c)) < e
        then
          let elapsed_ms = word_of_int (e div 10 ^ 6) in
          (Err (Prov_Timeout ''heartbeat'' elapsed_ms), emit (IBE_ConnectionDead elapsed_ms) c)
        else (Ok (), emit (IBE_Heartbeat wall) c))"

text \<open>\<open>answer\<close> is that of \<open>do_reconnect\<close>, \<open>b\<close> the back-off of the manager.\<close>

definition attempt_reconnect ::
    "(unit, provider_error) res \<Rightarrow> instant \<Rightarrow> timestamp \<Rightarrow> ib_backoff \<Rightarrow> ib_client \<Rightarrow>
     (unit, provider_error) res \<times> ib_backoff \<times> ib_client" where
  "attempt_reconnect answer now wall b c =
     (if ic_state c = CN_Reconnecting \<or> ic_state c = CN_Connecting then (Ok (), b, c)
      else
        let c1 = emit (IBE_StateChanged (ic_state c) CN_Reconnecting) (c\<lparr>ic_state := CN_Reconnecting\<rparr>);
            max_attempts = ibc_max_reconnect_attempts (ic_config c) in
        if 0 < max_attempts \<and> max_attempts \<le> bo_attempt b
        then (Err (Prov_ConnectionFailed ''InteractiveBrokers'' ''Max reconnection attempts exceeded''), b,
              c1\<lparr>ic_state := CN_Failed\<rparr>)
        else
          (case next_delay b of (_, b1) \<Rightarrow>
           case answer of
             Ok _ \<Rightarrow>
               (Ok (), backoff_reset b1,
                emit (IBE_Connected 0 wall)
                  (c1\<lparr>ic_connected := True, ic_last_activity := now, ic_state := CN_Connected\<rparr>))
           | Err e \<Rightarrow> (Err e, b1, c1)
           | Panic \<Rightarrow> (Panic, b1, c1)))"

text \<open>One tick of the heartbeat interval.\<close>

definition manager_tick ::
    "(unit, provider_error) res \<Rightarrow> instant \<Rightarrow> instant \<Rightarrow> timestamp \<Rightarrow> ib_client \<Rightarrow> ib_client" where
  "manager_tick answer now now' wall c =
     (case ic_manager c of
        None \<Rightarrow> c
      | Some b \<Rightarrow>
          if ic_shutdown_signal c then c\<lparr>ic_manager := None\<rparr>
          else
            (case check_connection_health now wall c of
               (Err _, c1) \<Rightarrow>
                 if ibc_auto_reconnect (ic_config c1)
                 then (case attempt_reconnect answer now' wall b c1 of (_, b', c2) \<Rightarrow> c2\<lparr>ic_manager := Some b'\<rparr>)
                 else c1
             | (_, c1) \<Rightarrow> c1))"

section \<open>Error codes\<close>

definition client_map_ib_error :: "i32 \<Rightarrow> string \<Rightarrow> provider_error" where
  "client_map_ib_error error_code message =
     (let n = sint error_code in
      if n = 502 \<or> n = 503 \<or> n = 504
      then Prov_ConnectionFailed ''InteractiveBrokers'' (''Connection error ('' @ show_int n @ ''): '' @ message)
      else if n = 506 then Prov_Disconnected ''InteractiveBrokers''
      else if n = 507 then Prov_AuthenticationFailed ''InteractiveBrokers''
      else if 2100 \<le> n \<and> n \<le> 2199 then Prov_NotSupported message ''InteractiveBrokers''
      else Prov_InvalidResponse ''InteractiveBrokers'' (''Error '' @ show_int n @ '': '' @ message))"

section \<open>Lemmas on the client\<close>

lemma emit_simps [simp]:
  "ic_state (emit e c) = ic_state c" "ic_config (emit e c) = ic_config c" "ic_manager (emit e c) = ic_manager c"
  "ic_last_activity (emit e c) = ic_last_activity c" "ic_next_valid_id (emit e c) = ic_next_valid_id c"
  "ic_shutdown_signal (emit e c) = ic_shutdown_signal c" "ic_connected (emit e c) = ic_connected c"
  "ic_events (emit e c) = ic_events c @ [e]"
  by (simp_all add: emit_def)

lemma set_state_simps [simp]:
  "ic_state (set_state s c) = s" "ic_config (set_state s c) = ic_config c"
  "ic_manager (set_state s c) = ic_manager c" "ic_last_activity (set_state s c) = ic_last_activity c"
  "ic_next_valid_id (set_state s c) = ic_next_valid_id c"
  "ic_shutdown_signal (set_state s c) = ic_shutdown_signal c" "ic_connected (set_state s c) = ic_connected c"
  by (simp_all add: set_state_def)

lemma update_activity_simps [simp]:
  "ic_state (update_activity t c) = ic_state c" "ic_config (update_activity t c) = ic_config c"
  "ic_manager (update_activity t c) = ic_manager c" "ic_last_activity (update_activity t c) = t"
  "ic_next_valid_id (update_activity t c) = ic_next_valid_id c"
  "ic_shutdown_signal (update_activity t c) = ic_shutdown_signal c"
  "ic_connected (update_activity t c) = ic_connected c"
  by (simp_all add: update_activity_def)

lemma start_manager_simps [simp]:
  "ic_state (start_connection_manager c) = ic_state c" "ic_connected (start_connection_manager c) = ic_connected c"
  "ic_shutdown_signal (start_connection_manager c) = ic_shutdown_signal c"
  "ic_next_valid_id (start_connection_manager c) = ic_next_valid_id c"
  "ic_manager (start_connection_manager c) = Some (backoff_new 100 5000)"
  by (simp_all add: start_connection_manager_def)

section \<open>Retries\<close>

definition answered_ok :: "connect_answer \<Rightarrow> bool" where
  "answered_ok a = (case a of Answered r \<Rightarrow> is_ok r | NoAnswer \<Rightarrow> False)"

text \<open>The delay after attempt \<open>k\<close>.\<close>

definition delay_after :: "ib_config \<Rightarrow> nat \<Rightarrow> nat" where
  "delay_after cfg k =
     (if k = 0 then unat (ibc_initial_retry_delay_ms cfg)
      else min (unat (ibc_initial_retry_delay_ms cfg) * 2 ^ k) (unat (ibc_max_retry_delay_ms cfg)))"

lemma attempt_ok:
  assumes "answered_ok a"
  obtains c' where "attempt_connection a t w c = (Ok (), c')" and "client_is_connected c'"
    and "ic_config c' = ic_config c"
  using assms
  by (auto simp: answered_ok_def is_ok_iff attempt_connection_def client_is_connected_def
      split: connect_answer.splits)

lemma attempt_not_ok:
  assumes "\<not> answered_ok a" and "a \<noteq> Answered Panic"
  obtains e where "attempt_connection a t w c = (Err e, set_state CN_Failed c)"
proof (cases a)
  case (Answered r)
  with assms that show ?thesis by (cases r) (auto simp: answered_ok_def attempt_connection_def)
qed (simp add: attempt_connection_def that)

lemma unat_of_nat_below: "n < 2 ^ 32 \<Longrightarrow> unat (of_nat n :: u32) = n"
  by (simp add: unat_of_nat take_bit_nat_eq_self)

text \<open>One turn of the loop: it connects, gives up at the limit, or waits and goes on.\<close>

lemma connect_loop_connects:
  assumes "answered_ok (br_answer B n)"
  shows "\<exists>c'. connect_loop B n b slept c = Some (Ok (), slept, c') \<and> client_is_connected c' \<and> ic_manager c' \<noteq> None"
proof -
  obtain c' where "attempt_connection (br_answer B n) (br_instant B n) (br_wall B n) c = (Ok (), c')"
      "client_is_connected c'" using assms by (rule attempt_ok)
  with assms show ?thesis
    by (subst connect_loop.simps) (auto simp: client_is_connected_def)
qed

lemma connect_loop_gives_up:
  assumes "\<not> answered_ok (br_answer B n)" and "br_answer B n \<noteq> Answered Panic"
    and "0 < ibc_max_reconnect_attempts (ic_config c)" and "ibc_max_reconnect_attempts (ic_config c) \<le> bo_attempt b"
  shows "\<exists>r c'. connect_loop B n b slept c = Some (r, slept, c') \<and> is_err r \<and> ic_state c' = CN_Failed"
proof -
  obtain e where "attempt_connection (br_answer B n) (br_instant B n) (br_wall B n) c = (Err e, set_state CN_Failed c)"
    using assms(1,2) by (rule attempt_not_ok)
  with assms show ?thesis by (subst connect_loop.simps) (auto simp: Let_def)
qed

lemma connect_loop_goes_on:
  assumes "\<not> answered_ok (br_answer B n)" and "br_answer B n \<noteq> Answered Panic"
    and "\<not> ibc_max_reconnect_attempts (ic_config c) \<le> bo_attempt b"
  shows "connect_loop B n b slept c =
    connect_loop B (Suc n) (snd (next_delay b)) (slept @ [fst (next_delay b)]) (set_state CN_Failed c)"
proof -
  obtain e where "attempt_connection (br_answer B n) (br_instant B n) (br_wall B n) c = (Err e, set_state CN_Failed c)"
    using assms(1,2) by (rule attempt_not_ok)
  with assms show ?thesis by (subst connect_loop.simps) (simp add: Let_def split: prod.split)
qed

lemma connect_loop_returns:
  assumes "bo_attempt b = of_nat n" and "n \<le> m" and "m = unat (ibc_max_reconnect_attempts (ic_config c))"
    and "0 < m" and "\<And>k. br_answer B k \<noteq> Answered Panic"
    and "bo_initial_delay_ms b = ibc_initial_retry_delay_ms (ic_config c)"
    and "bo_max_delay_ms b = ibc_max_retry_delay_ms (ic_config c)"
  shows "\<exists>r ds c'. connect_loop B n b slept c = Some (r, slept @ ds, c') \<and> length ds \<le> m - n \<and>
           (\<forall>i < length ds. ds ! i = delay_after (ic_config c) (n + i)) \<and>
           (\<forall>i < length ds. \<not> answered_ok (br_answer B (n + i))) \<and>
           (if answered_ok (br_answer B (n + length ds))
            then r = Ok () \<and> client_is_connected c' \<and> ic_manager c' \<noteq> None
            else is_err r \<and> ic_state c' = CN_Failed \<and> length ds = m - n)"
  using assms
proof (induction "m - n" arbitrary: n b slept c)
  case less: (0)
  then have nm: "n = m" by simp
  let ?max = "ibc_max_reconnect_attempts (ic_config c)"
  have at: "bo_attempt b = ?max" using less.prems(1,3) nm by simp
  have pos: "0 < ?max" using less.prems(3,4) by (simp add: word_less_nat_alt)
  show ?case
    using connect_loop_connects [of B n b slept c] connect_loop_gives_up [of B n c b slept] less.prems(3,5) at pos nm
    by (cases "answered_ok (br_answer B n)") (fastforce intro!: exI [of _ "[]"])+
next
  case (Suc k)
  then have lt: "n < m" by simp
  let ?max = "ibc_max_reconnect_attempts (ic_config c)"
  have m32: "m < 2 ^ 32" using Suc.prems(3) unsigned_less [of ?max] by simp
  have un: "unat (bo_attempt b) = n" using Suc.prems(1) lt m32 by (simp add: unat_of_nat_below)
  have not_yet: "\<not> ?max \<le> bo_attempt b" using lt Suc.prems(3) un by (simp add: word_le_nat_alt)
  show ?case
  proof (cases "answered_ok (br_answer B n)")
    case True
    from connect_loop_connects [OF this, of b slept c] True show ?thesis by (fastforce intro!: exI [of _ "[]"])
  next
    case False
    obtain d b' where nd: "next_delay b = (d, b')" by (cases "next_delay b")
    have d: "d = delay_after (ic_config c) n" and b': "bo_attempt b' = of_nat (Suc n)"
        "bo_initial_delay_ms b' = bo_initial_delay_ms b" "bo_max_delay_ms b' = bo_max_delay_ms b"
      using nd un Suc.prems(1,6,7) by (auto simp: next_delay_def delay_after_def unat_eq_zero)
    have "k = m - Suc n" using Suc.hyps(2) by simp
    from Suc.hyps(1) [OF this, of b' "set_state CN_Failed c" "slept @ [d]"] Suc.prems lt b'
    obtain r ds c' where ih: "connect_loop B (Suc n) b' (slept @ [d]) (set_state CN_Failed c) = Some (r, slept @ d # ds, c')"
        "length ds \<le> m - Suc n" "\<And>i. i < length ds \<Longrightarrow> ds ! i = delay_after (ic_config c) (Suc n + i)"
        "\<And>i. i < length ds \<Longrightarrow> \<not> answered_ok (br_answer B (Suc n + i))"
        "if answered_ok (br_answer B (Suc n + length ds))
         then r = Ok () \<and> client_is_connected c' \<and> ic_manager c' \<noteq> None
         else is_err r \<and> ic_state c' = CN_Failed \<and> length ds = m - Suc n"
      by auto
    have "connect_loop B n b slept c = Some (r, slept @ d # ds, c')"
      using ih(1) nd connect_loop_goes_on [OF False Suc.prems(5) not_yet, of slept] by simp
    moreover have "\<forall>i < length (d # ds). (d # ds) ! i = delay_after (ic_config c) (n + i)"
      using ih(3) d by (auto simp: nth_Cons split: nat.split)
    moreover have "\<forall>i < length (d # ds). \<not> answered_ok (br_answer B (n + i))"
      using ih(4) False by (auto simp: less_Suc_eq_0_disj)
    moreover have "n + length (d # ds) = Suc n + length ds" "length (d # ds) \<le> m - n"
        "(length (d # ds) = m - n) = (length ds = m - Suc n)"
      using ih(2) lt by auto
    ultimately show ?thesis using ih(5) by (metis (no_types, lifting))
  qed
qed

text \<open>
  With a limit on the attempts, connecting ends: after attempt number \<open>n\<close> it is the first
  success, or all \<open>max + 1\<close> attempts failed.  It succeeds exactly in the first case, connected and
  with a manager started; otherwise it is an error and the client is in the failed state.  Before each
  further attempt it sleeps the initial delay, doubled each time and capped.
\<close>

theorem connect_retries:
  assumes "\<not> client_is_connected c" and "m = unat (ibc_max_reconnect_attempts (ic_config c))" and "0 < m"
    and "\<And>k. br_answer B k \<noteq> Answered Panic"
  shows "\<exists>r slept c'. client_connect B c = Some (r, slept, c') \<and> length slept \<le> m \<and>
           (\<forall>i < length slept. slept ! i = delay_after (ic_config c) i \<and> \<not> answered_ok (br_answer B i)) \<and>
           (if answered_ok (br_answer B (length slept))
            then r = Ok () \<and> client_is_connected c' \<and> ic_manager c' \<noteq> None
            else is_err r \<and> ic_state c' = CN_Failed \<and> length slept = m)"
proof -
  let ?b = "backoff_new (ibc_initial_retry_delay_ms (ic_config c)) (ibc_max_retry_delay_ms (ic_config c))"
  obtain r ds c' where "connect_loop B 0 ?b [] (set_state CN_Connecting c) = Some (r, ds, c')"
      and "length ds \<le> m" "\<forall>i < length ds. ds ! i = delay_after (ic_config c) i"
      and "\<forall>i < length ds. \<not> answered_ok (br_answer B i)"
      and "if answered_ok (br_answer B (length ds)) then r = Ok () \<and> client_is_connected c' \<and> ic_manager c' \<noteq> None
           else is_err r \<and> ic_state c' = CN_Failed \<and> length ds = m"
    using connect_loop_returns [of ?b 0 m "set_state CN_Connecting c" B "[]",
        unfolded diff_zero add_0 append_Nil set_state_simps] assms(2-4)
    by (auto simp: backoff_new_def)
  then show ?thesis using assms(1) by (intro exI [of _ r] exI [of _ ds] exI [of _ c']) (simp add: client_connect_def)
qed

text \<open>A broker that answers at the third attempt only.\<close>

definition third_time_lucky :: broker where
  "third_time_lucky =
     \<lparr>br_answer = (\<lambda>n. if n < 2 then NoAnswer else Answered (Ok ())), br_instant = int, br_wall = int\<rparr>"

theorem connect_retries_witness:
  "\<exists>c'. client_connect third_time_lucky (ib_client_new 0 ib_config_default) = Some (Ok (), [100, 200], c') \<and>
     client_is_connected c'"
proof -
  have new: "\<not> client_is_connected (ib_client_new 0 ib_config_default)"
    by (simp add: client_is_connected_def ib_client_new_def)
  have ok: "answered_ok (br_answer third_time_lucky n) \<longleftrightarrow> 2 \<le> n" for n
    by (simp add: third_time_lucky_def answered_ok_def)
  have np: "br_answer third_time_lucky k \<noteq> Answered Panic" for k
    by (simp add: third_time_lucky_def)
  have cfg: "ic_config (ib_client_new 0 ib_config_default) = ib_config_default"
    by (simp add: ib_client_new_def)
  have ten: "10 = unat (ibc_max_reconnect_attempts (ic_config (ib_client_new 0 ib_config_default)))" "0 < (10::nat)"
    unfolding cfg by (simp_all add: ib_config_default_def)
  obtain r slept c' where run: "client_connect third_time_lucky (ib_client_new 0 ib_config_default) = Some (r, slept, c')"
      and sl: "\<forall>i < length slept. slept ! i = delay_after ib_config_default i \<and> \<not> 2 \<le> i"
      and res: "if 2 \<le> length slept then r = Ok () \<and> client_is_connected c' \<and> ic_manager c' \<noteq> None
                else is_err r \<and> ic_state c' = CN_Failed \<and> length slept = 10"
    using connect_retries [OF new ten np] unfolding ok cfg by blast
  have len: "length slept = 2"
  proof -
    have "\<not> 2 < length slept" using sl by auto
    moreover have "2 \<le> length slept" using res by (auto split: if_splits)
    ultimately show ?thesis by simp
  qed
  then have "slept = [slept ! 0, slept ! 1]" by (simp add: list_eq_iff_nth_eq less_Suc_eq numeral_2_eq_2)
  also have "\<dots> = [100, 200]" using sl len by (simp add: delay_after_def ib_config_default_def)
  finally show ?thesis using run res len by auto
qed

section \<open>Supervision\<close>

text \<open>The arguments of a tick of the manager.\<close>

record supervision_tick =
  tk_answer :: "(unit, provider_error) res"
  tk_now :: instant
  tk_then :: instant
  tk_wall :: timestamp

definition tick_client :: "supervision_tick \<Rightarrow> ib_client \<Rightarrow> ib_client" where
  "tick_client t c = manager_tick (tk_answer t) (tk_now t) (tk_then t) (tk_wall t) c"

lemma check_health_simps [simp]:
  "ic_state (snd (check_connection_health now wall c)) = ic_state c"
  "ic_config (snd (check_connection_health now wall c)) = ic_config c"
  "ic_shutdown_signal (snd (check_connection_health now wall c)) = ic_shutdown_signal c"
  "ic_connected (snd (check_connection_health now wall c)) = ic_connected c"
  "ic_last_activity (snd (check_connection_health now wall c)) = ic_last_activity c"
  "ic_manager (snd (check_connection_health now wall c)) = ic_manager c"
  by (simp_all add: check_connection_health_def Let_def)

lemma attempt_reconnect_simps [simp]:
  "ic_config (snd (snd (attempt_reconnect answer now wall b c))) = ic_config c"
  "ic_shutdown_signal (snd (snd (attempt_reconnect answer now wall b c))) = ic_shutdown_signal c"
  by (simp_all add: attempt_reconnect_def Let_def split: prod.split res.split)

lemma reconnect_while_reconnecting [simp]:
  "ic_state c = CN_Reconnecting \<Longrightarrow> attempt_reconnect answer now wall b c = (Ok (), b, c)"
  by (simp add: attempt_reconnect_def)

text \<open>A tick without the pattern matching.\<close>

lemma tick_client_alt:
  "tick_client t c =
     (case ic_manager c of None \<Rightarrow> c
      | Some b \<Rightarrow>
          if ic_shutdown_signal c then c\<lparr>ic_manager := None\<rparr>
          else
            let h = check_connection_health (tk_now t) (tk_wall t) c;
                a = attempt_reconnect (tk_answer t) (tk_then t) (tk_wall t) b (snd h) in
            if is_err (fst h) \<and> ibc_auto_reconnect (ic_config c)
            then (snd (snd a))\<lparr>ic_manager := Some (fst (snd a))\<rparr> else snd h)"
  unfolding tick_client_def manager_tick_def Let_def
  using check_health_simps(2) [of "tk_now t" "tk_wall t" c]
  by (cases "check_connection_health (tk_now t) (tk_wall t) c"; cases "fst (check_connection_health (tk_now t) (tk_wall t) c)")
    (simp_all add: case_prod_beta split: option.split)

lemma tick_frame [simp]:
  "ic_config (tick_client t c) = ic_config c" "ic_shutdown_signal (tick_client t c) = ic_shutdown_signal c"
  by (simp_all add: tick_client_alt Let_def split: option.split)

lemma tick_reconnecting: "ic_state c = CN_Reconnecting \<Longrightarrow> ic_state (tick_client t c) = CN_Reconnecting"
  by (simp add: tick_client_alt Let_def split: option.split)

lemma ticks_reconnecting:
  "ic_state c = CN_Reconnecting \<Longrightarrow> ic_state (fold tick_client ts c) = CN_Reconnecting"
  by (induction ts arbitrary: c) (simp_all add: tick_reconnecting)

text \<open>
  A reconnection that fails is never tried again by the manager.  When a supervised connection is
  found dead and the attempt to reconnect fails, the client is left in the state \<open>Reconnecting\<close>, in
  which every later tick of the manager takes the attempt to be already under way: however many
  ticks follow and whatever the broker would answer, the client stays there, although only one of
  the configured attempts was used.
\<close>

theorem failed_reconnect_is_final:
  assumes "ic_manager c = Some b" and "\<not> ic_shutdown_signal c" and "ic_state c = CN_Connected"
    and "ibc_auto_reconnect (ic_config c)"
    and "\<not> ic_connected c \<or> millis (ibc_connection_dead_timeout_ms (ic_config c)) < elapsed (tk_now t) (ic_last_activity c)"
    and "tk_answer t = Err e" and "bo_attempt b < ibc_max_reconnect_attempts (ic_config c)"
  shows "ic_state (fold tick_client ts (tick_client t c)) = CN_Reconnecting \<and>
         \<not> client_is_connected (fold tick_client ts (tick_client t c))"
proof -
  have h: "is_err (fst (check_connection_health (tk_now t) (tk_wall t) c))"
    using assms(5) by (cases "ic_connected c") (simp_all add: check_connection_health_def Let_def)
  have "ic_state (tick_client t c) = CN_Reconnecting"
    using h assms(1-4,6,7)
    by (simp add: tick_client_alt attempt_reconnect_def next_delay_def Let_def not_le)
  from ticks_reconnecting [OF this] show ?thesis by (simp add: client_is_connected_def)
qed

text \<open>A fresh connection, two minutes without an answer to the reconnection, then a broker that would answer.\<close>

definition dead_tick :: "(unit, provider_error) res \<Rightarrow> supervision_tick" where
  "dead_tick r = \<lparr>tk_answer = r, tk_now = 120 * 10 ^ 9, tk_then = 121 * 10 ^ 9, tk_wall = 0\<rparr>"

definition connected_client :: ib_client where
  "connected_client = (ib_client_new 0 ib_config_default)
     \<lparr>ic_state := CN_Connected, ic_connected := True, ic_manager := Some (backoff_new 100 5000)\<rparr>"

theorem failed_reconnect_is_final_witness:
  "ic_state (fold tick_client [dead_tick (Ok ())]
      (tick_client (dead_tick (Err (Prov_Disconnected ''InteractiveBrokers''))) connected_client)) = CN_Reconnecting"
proof -
  have "ic_manager connected_client = Some (backoff_new 100 5000)" "\<not> ic_shutdown_signal connected_client"
      "ic_state connected_client = CN_Connected" "ic_config connected_client = ib_config_default"
      "ic_last_activity connected_client = 0"
    by (simp_all add: connected_client_def ib_client_new_def)
  then show ?thesis
    using failed_reconnect_is_final [of connected_client "backoff_new 100 5000"
        "dead_tick (Err (Prov_Disconnected ''InteractiveBrokers''))" "Prov_Disconnected ''InteractiveBrokers''"
        "[dead_tick (Ok ())]"]
    by (simp add: ib_config_default_def millis_def elapsed_def dead_tick_def backoff_new_def)
qed

text \<open>
  Heartbeats keep nothing alive: as only a connection sets the time of the last activity, ticks that
  find the connection healthy leave it as it was, and the first tick after the dead timeout reports the
  connection dead whatever passed before.
\<close>

theorem heartbeats_do_not_count:
  assumes "ic_manager c = Some b" and "\<not> ic_shutdown_signal c" and "ic_connected c"
    and "\<forall>t \<in> set ts. elapsed (tk_now t) (ic_last_activity c) \<le> millis (ibc_connection_dead_timeout_ms (ic_config c))"
    and "millis (ibc_connection_dead_timeout_ms (ic_config c)) < elapsed now (ic_last_activity c)"
  shows "ic_events (fold tick_client ts c) = ic_events c @ map (\<lambda>t. IBE_Heartbeat (tk_wall t)) ts \<and>
         ic_state (fold tick_client ts c) = ic_state c \<and>
         is_err (fst (check_connection_health now wall (fold tick_client ts c)))"
  using assms
proof (induction ts arbitrary: c)
  case Nil
  then show ?case by (simp add: check_connection_health_def Let_def)
next
  case (Cons t ts)
  have "tick_client t c = emit (IBE_Heartbeat (tk_wall t)) c"
    using Cons.prems by (simp add: tick_client_alt check_connection_health_def Let_def)
  with Cons.IH [of "emit (IBE_Heartbeat (tk_wall t)) c"] Cons.prems show ?case by simp
qed

section \<open>After a disconnection\<close>

text \<open>Every operation of the client and every tick, in any order.\<close>

inductive client_step :: "ib_client \<Rightarrow> ib_client \<Rightarrow> bool" where
  connect: "client_connect B c = Some (r, ds, c') \<Longrightarrow> client_step c c'"
| disconnect: "client_disconnect answer c = (r, c') \<Longrightarrow> client_step c c'"
| next_id: "request_next_order_id B c = Some (r, c') \<Longrightarrow> client_step c c'"
| set_id: "client_step c (set_next_valid_id i c)"
| tick: "client_step c (tick_client t c)"

lemma attempt_frame:
  "attempt_connection a t w c = (r, c') \<Longrightarrow>
     ic_shutdown_signal c' = ic_shutdown_signal c \<and> ic_config c' = ic_config c \<and>
     ic_next_valid_id c' = ic_next_valid_id c \<and>
     ((ic_state c = CN_Connected \<longrightarrow> ic_connected c) \<longrightarrow> ic_state c' = CN_Connected \<longrightarrow> ic_connected c')"
  by (auto simp: attempt_connection_def split: connect_answer.splits res.splits)

lemma connect_loop_frame:
  assumes "connect_loop B n b slept c = Some out"
  shows "ic_shutdown_signal (snd (snd out)) = ic_shutdown_signal c \<and>
         ic_next_valid_id (snd (snd out)) = ic_next_valid_id c \<and>
         ((ic_state c = CN_Connected \<longrightarrow> ic_connected c) \<longrightarrow>
            ic_state (snd (snd out)) = CN_Connected \<longrightarrow> ic_connected (snd (snd out)))"
proof (induction B n b slept c out rule: connect_loop.raw_induct)
  case (1 loop B n b slept c out)
  obtain r c1 where a: "attempt_connection (br_answer B n) (br_instant B n) (br_wall B n) c = (r, c1)"
    by fastforce
  note f = attempt_frame [OF a]
  show ?case
  proof (cases r)
    case (Err e)
    show ?thesis
    proof (cases "0 < ibc_max_reconnect_attempts (ic_config c1) \<and> ibc_max_reconnect_attempts (ic_config c1) \<le> bo_attempt b")
      case True
      with 1(2) a Err f show ?thesis by (auto simp: Let_def)
    next
      case False
      obtain d b' where "next_delay b = (d, b')" by fastforce
      with 1(2) a Err False have "loop B (Suc n) b' (slept @ [d]) c1 = Some out" by (auto simp: Let_def)
      from 1(1) [OF this] f show ?thesis by simp
    qed
  qed (use 1(2) a f in auto)
next
  case 2
  show ?case by (rule assms)
qed

lemma client_connect_frame:
  assumes "client_connect B c = Some (r, ds, c')"
  shows "ic_shutdown_signal c' = ic_shutdown_signal c \<and> ic_next_valid_id c' = ic_next_valid_id c \<and>
         ((ic_state c = CN_Connected \<longrightarrow> ic_connected c) \<longrightarrow> ic_state c' = CN_Connected \<longrightarrow> ic_connected c')"
  using assms connect_loop_frame [of B 0 _ "[]" "set_state CN_Connecting c" "(r, ds, c')"]
  by (auto simp: client_connect_def split: if_splits)

lemma request_id_frame:
  assumes "request_next_order_id B c = Some (r, c')"
  shows "ic_shutdown_signal c' = ic_shutdown_signal c \<and>
         ((ic_state c = CN_Connected \<longrightarrow> ic_connected c) \<longrightarrow> ic_state c' = CN_Connected \<longrightarrow> ic_connected c')"
proof -
  obtain r1 ds c1 where e: "ensure_connected B c = Some (r1, ds, c1)"
    using assms by (auto simp: request_next_order_id_def)
  have "ic_shutdown_signal c1 = ic_shutdown_signal c \<and>
         ((ic_state c = CN_Connected \<longrightarrow> ic_connected c) \<longrightarrow> ic_state c1 = CN_Connected \<longrightarrow> ic_connected c1)"
    using e client_connect_frame [of B c r1 ds c1] by (auto simp: ensure_connected_def split: if_splits)
  with assms e show ?thesis
    by (cases r1) (auto simp: request_next_order_id_def split: if_splits)
qed

lemma attempt_reconnect_connected:
  "(ic_state c = CN_Connected \<longrightarrow> ic_connected c) \<Longrightarrow>
     ic_state (snd (snd (attempt_reconnect answer now wall b c))) = CN_Connected \<longrightarrow>
     ic_connected (snd (snd (attempt_reconnect answer now wall b c)))"
  by (auto simp: attempt_reconnect_def Let_def split: prod.split res.split)

lemma tick_connected:
  "(ic_state c = CN_Connected \<longrightarrow> ic_connected c) \<Longrightarrow>
     ic_state (tick_client t c) = CN_Connected \<longrightarrow> ic_connected (tick_client t c)"
  using attempt_reconnect_connected
    [of "snd (check_connection_health (tk_now t) (tk_wall t) c)" "tk_answer t" "tk_then t" "tk_wall t"]
  by (auto simp: tick_client_alt Let_def split: option.split)

lemma client_step_inv:
  assumes "client_step c c'"
  shows "(ic_state c = CN_Connected \<longrightarrow> ic_connected c) \<Longrightarrow> ic_state c' = CN_Connected \<longrightarrow> ic_connected c'"
    and "ic_shutdown_signal c \<Longrightarrow> ic_shutdown_signal c'"
proof -
  have "((ic_state c = CN_Connected \<longrightarrow> ic_connected c) \<longrightarrow> ic_state c' = CN_Connected \<longrightarrow> ic_connected c') \<and>
        (ic_shutdown_signal c \<longrightarrow> ic_shutdown_signal c')"
    using assms
  proof cases
    case connect
    with client_connect_frame show ?thesis by blast
  next
    case disconnect
    then show ?thesis by (auto simp: client_disconnect_def Let_def split: res.splits)
  next
    case next_id
    with request_id_frame show ?thesis by blast
  next
    case tick
    with tick_connected [of c] show ?thesis by auto
  qed (simp add: set_next_valid_id_def)
  then show "(ic_state c = CN_Connected \<longrightarrow> ic_connected c) \<Longrightarrow> ic_state c' = CN_Connected \<longrightarrow> ic_connected c'"
    and "ic_shutdown_signal c \<Longrightarrow> ic_shutdown_signal c'" by blast+
qed

text \<open>
  In every reachable state of the client, being connected and being in the state \<open>Connected\<close> are
  the same; and once \<open>disconnect\<close> has been called the shutdown signal is never cleared, so that
  whatever happens afterwards, a new connection included, the first tick of a manager ends it without
  a heartbeat: the connection is not supervised any more.
\<close>

theorem supervision_ends_with_disconnect:
  assumes "client_step\<^sup>*\<^sup>* (ib_client_new now cfg) c" and "client_disconnect answer c = (r, c1)"
    and "client_step\<^sup>*\<^sup>* c1 c2"
  shows "client_is_connected c2 = (ic_state c2 = CN_Connected) \<and>
         ic_manager (tick_client t c2) = None \<and> ic_events (tick_client t c2) = ic_events c2 \<and>
         ic_state (tick_client t c2) = ic_state c2"
proof -
  have start: "ic_state c = CN_Connected \<longrightarrow> ic_connected c"
    using assms(1) by (induction rule: rtranclp_induct) (auto simp: ib_client_new_def dest: client_step_inv)
  moreover have "client_step c c1" using assms(2) by (rule client_step.disconnect)
  ultimately have c1: "ic_state c1 = CN_Connected \<longrightarrow> ic_connected c1"
    by (rule client_step_inv(1) [rotated])
  have sh1: "ic_shutdown_signal c1"
    using assms(2) by (auto simp: client_disconnect_def Let_def split: res.splits)
  from assms(3) have "(ic_state c2 = CN_Connected \<longrightarrow> ic_connected c2) \<and> ic_shutdown_signal c2"
    by (induction rule: rtranclp_induct) (use c1 sh1 in \<open>auto dest: client_step_inv\<close>)
  then show ?thesis by (auto simp: client_is_connected_def tick_client_alt split: option.split)
qed

text \<open>Disconnecting and connecting again.\<close>

definition willing_broker :: broker where
  "willing_broker = \<lparr>br_answer = (\<lambda>_. Answered (Ok ())), br_instant = int, br_wall = int\<rparr>"

theorem supervision_ends_with_disconnect_witness:
  "\<exists>c2 r ds. client_connect willing_broker (snd (client_disconnect (Ok ()) (ib_client_new 0 ib_config_default))) =
       Some (r, ds, c2) \<and> client_is_connected c2 \<and> ic_manager c2 \<noteq> None \<and>
     ic_manager (tick_client (dead_tick (Ok ())) c2) = None"
proof -
  let ?c = "ib_client_new 0 ib_config_default" let ?c1 = "snd (client_disconnect (Ok ()) ?c)"
  have "answered_ok (br_answer willing_broker 0)" by (simp add: willing_broker_def answered_ok_def)
  then obtain c2 where a: "attempt_connection (br_answer willing_broker 0) (br_instant willing_broker 0)
      (br_wall willing_broker 0) (set_state CN_Connecting ?c1) = (Ok (), c2)" "client_is_connected c2"
    by (rule attempt_ok)
  have "\<not> client_is_connected ?c1"
    by (simp add: client_disconnect_def client_is_connected_def Let_def)
  then have con: "client_connect willing_broker ?c1 = Some (Ok (), [], start_connection_manager c2)"
    using a by (simp add: client_connect_def connect_loop.simps)
  have 1: "client_step\<^sup>*\<^sup>* ?c ?c" by simp
  have 2: "client_disconnect (Ok ()) ?c = (fst (client_disconnect (Ok ()) ?c), ?c1)" by simp
  have 3: "client_step\<^sup>*\<^sup>* ?c1 (start_connection_manager c2)"
    using con by (intro r_into_rtranclp client_step.connect)
  from supervision_ends_with_disconnect [OF 1 2 3, of "dead_tick (Ok ())"] con a(2)
  show ?thesis by (auto simp: client_is_connected_def)
qed

end
