(* ===== verification/IB_Execution.thy ===== *)
theory IB_Execution
  imports Execution Mem_Repos IB_Client
begin

text \<open>
  The execution gateway of Interactive Brokers, \<open>crates/infrastructure/src/external/ib/execution.rs\<close>:
  the two-way map of order identifiers, the conversion of orders, statuses and executions, and the
  processor of the broker's reports.  An operation that first has to connect may not return when the
  attempts are not limited, which is \<open>None\<close>.  The call that would hand an order to the broker is a
  placeholder that succeeds; its answer is an argument.  The conversion of floating-point numbers and
  the parsing of the broker's timestamps are parameters.
\<close>

section \<open>The broker's own types\<close>

record ib_order =
  ibo_order_id :: i32
  ibo_action :: string
  ibo_total_quantity :: f64
  ibo_order_type :: string
  ibo_lmt_price :: "f64 option"
  ibo_aux_price :: "f64 option"
  ibo_tif :: string

definition ib_order_new :: "i32 \<Rightarrow> string \<Rightarrow> f64 \<Rightarrow> string \<Rightarrow> string \<Rightarrow> ib_order" where
  "ib_order_new i action quantity order_type tif =
     \<lparr>ibo_order_id = i, ibo_action = action, ibo_total_quantity = quantity, ibo_order_type = order_type,
      ibo_lmt_price = None, ibo_aux_price = None, ibo_tif = tif\<rparr>"

record ib_contract =
  ibk_symbol :: string
  ibk_sec_type :: string
  ibk_exchange :: string
  ibk_currency :: string

definition ib_contract_stock :: "string \<Rightarrow> ib_contract" where
  "ib_contract_stock symbol =
     \<lparr>ibk_symbol = symbol, ibk_sec_type = ''STK'', ibk_exchange = ''SMART'', ibk_currency = ''USD''\<rparr>"

record ib_execution =
  ibx_order_id :: i32
  ibx_exec_id :: string
  ibx_symbol :: string
  ibx_side :: string
  ibx_shares :: f64
  ibx_price :: f64
  ibx_time :: string
  ibx_commission :: "f64 option"

record ib_order_state =
  ibs_status :: string
  ibs_init_margin :: string
  ibs_maint_margin :: string
  ibs_equity_with_loan :: string
  ibs_commission :: f64
  ibs_min_commission :: f64
  ibs_max_commission :: f64
  ibs_commission_currency :: string
  ibs_warning_text :: string

datatype ib_order_event =
    IBO_OrderStatus i32 string f64 f64 f64 f64 f64 "string option"
  | IBO_ExecutionDetails i32 ib_execution
  | IBO_OpenOrder i32 ib_order_state

record order_tracking =
  ot_order_id :: order_id
  ot_ib_order_id :: i32
  ot_status :: order_status
  ot_filled_quantity :: quantity
  ot_remaining_quantity :: quantity
  ot_avg_fill_price :: "price option"
  ot_last_fill_price :: "price option"
  ot_last_fill_quantity :: "quantity option"

definition order_tracking_new :: "timestamp \<Rightarrow> order_id \<Rightarrow> i32 \<Rightarrow> quantity \<Rightarrow> order_tracking" where
  "order_tracking_new now d i q =
     \<lparr>ot_order_id = d, ot_ib_order_id = i, ot_status = Pending now, ot_filled_quantity = quantity_new_unchecked 0,
      ot_remaining_quantity = q, ot_avg_fill_price = None, ot_last_fill_price = None,
      ot_last_fill_quantity = None\<rparr>"

section \<open>Conversions\<close>

text \<open>\<open>to_f64\<close>, \<open>Decimal::try_from\<close>, and the broker's format of timestamps.\<close>

record ib_formats =
  ff_to_f64 :: "decimal \<Rightarrow> f64 option"
  ff_to_dec :: "f64 \<Rightarrow> decimal option"
  ff_parse_time :: "string \<Rightarrow> timestamp option"
  ff_uuid :: uuid_ops

definition f64_or_zero :: "ib_formats \<Rightarrow> decimal \<Rightarrow> f64" where
  "f64_or_zero F x = (case ff_to_f64 F x of Some y \<Rightarrow> y | None \<Rightarrow> Finite 0)"

definition dec_or_zero :: "ib_formats \<Rightarrow> f64 \<Rightarrow> decimal" where
  "dec_or_zero F x = (case ff_to_dec F x of Some y \<Rightarrow> y | None \<Rightarrow> 0)"

fun ib_action :: "side \<Rightarrow> string" where
  "ib_action Buy = ''BUY''"
| "ib_action Sell = ''SELL''"

fun ib_tif :: "time_in_force \<Rightarrow> string" where
  "ib_tif Day = ''DAY''"
| "ib_tif GTC = ''GTC''"
| "ib_tif IOC = ''IOC''"
| "ib_tif FOK = ''FOK''"

text \<open>The type of the broker's order with its limit and its stop price.\<close>

definition ib_order_terms ::
    "ib_formats \<Rightarrow> order \<Rightarrow> (string \<times> f64 option \<times> f64 option, execution_error) res" where
  "ib_order_terms F ord =
     (let rejected = (\<lambda>reason. Exec_OrderRejected (u_fmt (ff_uuid F) (ord_id ord)) reason);
          f64_of = (\<lambda>p. f64_or_zero F (price_inner p)) in
      case ord_type ord of
        Market \<Rightarrow> Ok (''MKT'', None, None)
      | Limit \<Rightarrow>
          bind (ok_or (ord_limit_price ord) (rejected ''Limit order requires limit price'')) (\<lambda>p.
          Ok (''LMT'', Some (f64_of p), None))
      | Stop \<Rightarrow>
          bind (ok_or (ord_stop_price ord) (rejected ''Stop order requires stop price'')) (\<lambda>p.
          Ok (''STP'', None, Some (f64_of p)))
      | StopLimit \<Rightarrow>
          bind (ok_or (ord_limit_price ord) (rejected ''Stop-limit order requires limit price'')) (\<lambda>l.
          bind (ok_or (ord_stop_price ord) (rejected ''Stop-limit order requires stop price'')) (\<lambda>s.
          Ok (''STP LMT'', Some (f64_of l), Some (f64_of s)))))"

definition convert_to_ib_order ::
    "ib_formats \<Rightarrow> order \<Rightarrow> i32 \<Rightarrow> (ib_order, execution_error) res" where
  "convert_to_ib_order F ord i =
     bind (ib_order_terms F ord) (\<lambda>(order_type, lmt_price, aux_price).
     Ok ((ib_order_new i (ib_action (ord_side ord)) (f64_or_zero F (qty_inner (ord_quantity ord))) order_type
            (ib_tif (ord_time_in_force ord)))\<lparr>ibo_lmt_price := lmt_price, ibo_aux_price := aux_price\<rparr>))"

definition f64_nonpositive :: "f64 \<Rightarrow> bool" where
  "f64_nonpositive x = (case x of Finite r \<Rightarrow> r \<le> 0 | PosInf \<Rightarrow> False | NegInf \<Rightarrow> True | NotANumber \<Rightarrow> False)"

text \<open>
  The status the processor makes of a report.  The code writes the reason of a cancellation as an
  option, which \<open>OrderStatus\<close> does not have; the text is kept.
\<close>

definition convert_order_status_internal ::
    "ib_formats \<Rightarrow> timestamp \<Rightarrow> string \<Rightarrow> f64 \<Rightarrow> f64 \<Rightarrow> f64 \<Rightarrow> order_status" where
  "convert_order_status_internal F now status filled remaining avg_fill_price =
     (if status = ''Submitted'' \<or> status = ''PreSubmitted'' then Submitted now
      else if status = ''PendingSubmit'' then Pending now
      else if status = ''Filled'' \<and> f64_nonpositive remaining then Filled now
      else if status = ''PartiallyFilled'' \<or> status = ''ApiPending''
      then PartiallyFilled (quantity_new_unchecked (dec_or_zero F filled))
             (quantity_new_unchecked (dec_or_zero F remaining)) (price_new_unchecked (dec_or_zero F avg_fill_price))
      else if status = ''Cancelled'' \<or> status = ''ApiCancelled'' then Cancelled now ''Cancelled''
      else if status = ''Inactive'' then Rejected now ''Inactive''
      else Pending now)"

text \<open>The variant of the other conversion, with longer texts, which the processor does not use.\<close>

definition convert_order_status ::
    "ib_formats \<Rightarrow> timestamp \<Rightarrow> string \<Rightarrow> f64 \<Rightarrow> f64 \<Rightarrow> f64 \<Rightarrow> order_status" where
  "convert_order_status F now status filled remaining avg_fill_price =
     (if status = ''Submitted'' \<or> status = ''PreSubmitted'' then Submitted now
      else if status = ''PendingSubmit'' then Pending now
      else if status = ''Filled'' \<and> f64_nonpositive remaining then Filled now
      else if status = ''PartiallyFilled'' \<or> status = ''ApiPending''
      then PartiallyFilled (quantity_new_unchecked (dec_or_zero F filled))
             (quantity_new_unchecked (dec_or_zero F remaining)) (price_new_unchecked (dec_or_zero F avg_fill_price))
      else if status = ''Cancelled'' \<or> status = ''ApiCancelled'' then Cancelled now ''Cancelled by user or system''
      else if status = ''Inactive'' then Rejected now ''Order inactive''
      else Pending now)"

definition convert_exec_to_fill_internal ::
    "ib_formats \<Rightarrow> timestamp \<Rightarrow> ib_execution \<Rightarrow> order_id \<Rightarrow> (fill, execution_error) res" where
  "convert_exec_to_fill_internal F now x order_id =
     bind (if ibx_side x = ''BOT'' then Ok Buy
           else if ibx_side x = ''SLD'' then Ok Sell
           else Err (Exec_ExchangeError ''InteractiveBrokers'' ''INVALID_SIDE'' (''Unknown IB side: '' @ ibx_side x)))
       (\<lambda>side.
     let quantity = quantity_new_unchecked (dec_or_zero F (ibx_shares x));
         price = price_new_unchecked (dec_or_zero F (ibx_price x));
         timestamp = (case ff_parse_time F (ibx_time x) of Some t \<Rightarrow> t | None \<Rightarrow> now) in
     bind (map_err (\<lambda>e. Exec_ExchangeError ''InteractiveBrokers'' ''INVALID_SYMBOL''
             (''Failed to parse symbol: '' @ value_error_display e)) (symbol_new (ibx_symbol x))) (\<lambda>symbol.
     Ok (fill_new order_id symbol quantity price side timestamp)))"

text \<open>The variant that keeps a commission, which the processor does not use.\<close>

definition convert_exec_to_fill ::
    "ib_formats \<Rightarrow> timestamp \<Rightarrow> ib_execution \<Rightarrow> order_id \<Rightarrow> (fill, execution_error) res" where
  "convert_exec_to_fill F now x order_id =
     bind (convert_exec_to_fill_internal F now x order_id) (\<lambda>f.
     Ok (case ibx_commission x of
           None \<Rightarrow> f
         | Some c \<Rightarrow>
             fill_with_commission order_id (fl_symbol f) (fl_quantity f) (fl_price f) (fl_side f) (fl_timestamp f)
               (money_new_unchecked (dec_or_zero F c) USD)))"

definition gateway_map_ib_error :: "i32 \<Rightarrow> string \<Rightarrow> string option \<Rightarrow> execution_error" where
  "gateway_map_ib_error error_code message order_id =
     (let n = sint error_code; i = (case order_id of Some s \<Rightarrow> s | None \<Rightarrow> ''unknown'') in
      if n = 200 then Exec_OrderNotFound i
      else if n = 201 then Exec_OrderRejected i message
      else if n = 202 then Exec_InvalidOrderState i ''Cancelled'' ''cancel''
      else if n = 103 then Exec_InsufficientFunds ''unknown'' ''unknown''
      else if n = 321 then Exec_MarketClosed i
      else Exec_ExchangeError ''InteractiveBrokers'' (show_int n) message)"

section \<open>The gateway\<close>

text \<open>
  Subscribers' channels are the lists of what was sent to them, once there is one.  \<open>ig_processor\<close> is
  what waits in the channel of the running event processor, if one was started.
\<close>

record ib_gateway =
  ig_client :: ib_client
  ig_order_id_map :: "(order_id, i32) hash_map"
  ig_reverse_order_id_map :: "(i32, order_id) hash_map"
  ig_next_valid_id :: i32
  ig_order_updates :: "order_update list option"
  ig_fill_updates :: "fill list option"
  ig_config :: ib_config
  ig_order_tracking :: "(i32, order_tracking) hash_map"
  ig_processor :: "ib_order_event list option"

definition ib_gateway_new :: "ib_client \<Rightarrow> ib_config \<Rightarrow> ib_gateway" where
  "ib_gateway_new client config =
     \<lparr>ig_client = client, ig_order_id_map = hash_empty, ig_reverse_order_id_map = hash_empty,
      ig_next_valid_id = 0, ig_order_updates = None, ig_fill_updates = None, ig_config = config,
      ig_order_tracking = hash_empty, ig_processor = None\<rparr>"

type_synonym 'a ibg = "ib_gateway \<Rightarrow> (('a, execution_error) res \<times> ib_gateway) option"

definition exchange_error :: "string \<Rightarrow> string \<Rightarrow> execution_error" where
  "exchange_error error_code message = Exec_ExchangeError ''InteractiveBrokers'' error_code message"

text \<open>The guard every operation starts with.\<close>

definition when_connected :: "broker \<Rightarrow> 'a ibg \<Rightarrow> 'a ibg" where
  "when_connected B k g =
     (case ensure_connected B (ig_client g) of
        None \<Rightarrow> None
      | Some (r, _, c) \<Rightarrow>
          let g1 = g\<lparr>ig_client := c\<rparr> in
          (case r of
             Ok _ \<Rightarrow> k g1
           | Err e \<Rightarrow> Some (Err (exchange_error ''CONNECTION'' (''Not connected: '' @ provider_error_display e)), g1)
           | Panic \<Rightarrow> Some (Panic, g1)))"

definition allocate_order_id :: "broker \<Rightarrow> i32 ibg" where
  "allocate_order_id B g =
     (let take_id = (\<lambda>g. Some (Ok (ig_next_valid_id g), g\<lparr>ig_next_valid_id := ig_next_valid_id g + 1\<rparr>)) in
      if ig_next_valid_id g = 0
      then (case request_next_order_id B (ig_client g) of
              None \<Rightarrow> None
            | Some (r, c) \<Rightarrow>
                let g1 = g\<lparr>ig_client := c\<rparr> in
                (case r of
                   Ok i \<Rightarrow> take_id (g1\<lparr>ig_next_valid_id := i\<rparr>)
                 | Err e \<Rightarrow>
                     Some (Err (exchange_error ''INIT_ERROR''
                             (''Failed to get next valid ID: '' @ provider_error_display e)), g1)
                 | Panic \<Rightarrow> Some (Panic, g1)))
      else take_id g)"

definition get_order_id :: "i32 \<Rightarrow> ib_gateway \<Rightarrow> order_id option" where
  "get_order_id i g = hash_get (ig_reverse_order_id_map g) i"

definition get_ib_order_id :: "order_id \<Rightarrow> ib_gateway \<Rightarrow> i32 option" where
  "get_ib_order_id d g = hash_get (ig_order_id_map g) d"

text \<open>The answer of the broker within 30 seconds, or none.\<close>

datatype place_answer = Accepted | Refused execution_error | TimedOut

definition forget_ids :: "order_id \<Rightarrow> i32 \<Rightarrow> ib_gateway \<Rightarrow> ib_gateway" where
  "forget_ids d i g =
     g\<lparr>ig_order_id_map := hash_remove d (ig_order_id_map g),
       ig_reverse_order_id_map := hash_remove i (ig_reverse_order_id_map g)\<rparr>"

definition ib_place_order :: "broker \<Rightarrow> ib_formats \<Rightarrow> place_answer \<Rightarrow> timestamp \<Rightarrow> order \<Rightarrow> order_id ibg" where
  "ib_place_order B F answer now ord =
     when_connected B (\<lambda>g.
       let d = OrderId (ord_id ord) in
       case allocate_order_id B g of
         None \<Rightarrow> None
       | Some (Err e, g1) \<Rightarrow> Some (Err e, g1)
       | Some (Panic, g1) \<Rightarrow> Some (Panic, g1)
       | Some (Ok i, g1) \<Rightarrow>
           let g2 = g1\<lparr>ig_order_id_map := hash_insert d i (ig_order_id_map g1),
                       ig_reverse_order_id_map := hash_insert i d (ig_reverse_order_id_map g1)\<rparr> in
           (case convert_to_ib_order F ord i of
              Err e \<Rightarrow> Some (Err e, g2)
            | Panic \<Rightarrow> Some (Panic, g2)
            | Ok ib_order \<Rightarrow>
                let contract = ib_contract_stock (symbol_str (ord_symbol ord));
                    g3 = g2\<lparr>ig_order_tracking :=
                              hash_insert i (order_tracking_new now d i (ord_quantity ord)) (ig_order_tracking g2)\<rparr> in
                (case answer of
                   Accepted \<Rightarrow> Some (Ok d, g3)
                 | Refused e \<Rightarrow> Some (Err e, forget_ids d i g3)
                 | TimedOut \<Rightarrow>
                     Some (Err (exchange_error ''TIMEOUT'' ''Place order timed out after 30s''), forget_ids d i g3))))"

definition ib_cancel_order :: "broker \<Rightarrow> ib_formats \<Rightarrow> place_answer \<Rightarrow> order_id \<Rightarrow> unit ibg" where
  "ib_cancel_order B F answer d g =
     (case get_ib_order_id d g of
        None \<Rightarrow> Some (Err (Exec_OrderNotFound (order_id_display (ff_uuid F) d)), g)
      | Some i \<Rightarrow>
          when_connected B (\<lambda>g.
            case answer of
              Accepted \<Rightarrow> Some (Ok (), g)
            | Refused e \<Rightarrow> Some (Err e, g)
            | TimedOut \<Rightarrow> Some (Err (exchange_error ''TIMEOUT'' ''Cancel order timed out after 30s''), g)) g)"

definition ib_modify_order ::
    "broker \<Rightarrow> ib_formats \<Rightarrow> place_answer \<Rightarrow> order_id \<Rightarrow> order_modifications \<Rightarrow> unit ibg" where
  "ib_modify_order B F answer d modifications g =
     (case ib_cancel_order B F answer d g of
        Some (Ok _, g1) \<Rightarrow>
          Some (Err (exchange_error ''NOT_IMPLEMENTED''
                  ''Modify order requires cancel+replace with new order creation''), g1)
      | other \<Rightarrow> other)"

definition ib_get_order :: "order_id \<Rightarrow> order option ibg" where
  "ib_get_order d g = Some (Ok None, g)"

definition ib_get_open_orders :: "broker \<Rightarrow> order list ibg" where
  "ib_get_open_orders B = when_connected B (\<lambda>g. Some (Ok [], g))"

definition ib_get_positions :: "broker \<Rightarrow> position list ibg" where
  "ib_get_positions B = when_connected B (\<lambda>g. Some (Ok [], g))"

text \<open>
  The processor's channel is made here; its sender is a local variable that is dropped when the
  function returns, so nothing ever enters the channel.
\<close>

definition start_event_processor :: "ib_gateway \<Rightarrow> ib_gateway" where
  "start_event_processor g = g\<lparr>ig_processor := Some []\<rparr>"

definition ib_subscribe_order_updates :: "broker \<Rightarrow> unit ibg" where
  "ib_subscribe_order_updates B =
     when_connected B (\<lambda>g. Some (Ok (), start_event_processor (g\<lparr>ig_order_updates := Some []\<rparr>)))"

definition ib_subscribe_fill_updates :: "broker \<Rightarrow> unit ibg" where
  "ib_subscribe_fill_updates B =
     when_connected B (\<lambda>g. Some (Ok (), start_event_processor (g\<lparr>ig_fill_updates := Some []\<rparr>)))"

section \<open>The event processor\<close>

definition track_status ::
    "ib_formats \<Rightarrow> timestamp \<Rightarrow> string \<Rightarrow> f64 \<Rightarrow> f64 \<Rightarrow> f64 \<Rightarrow> f64 \<Rightarrow> f64 \<Rightarrow> order_tracking \<Rightarrow> order_tracking" where
  "track_status F now status filled remaining avg_price last_price last_qty t =
     (let upd = (\<lambda>x set t. case ff_to_dec F x of Some y \<Rightarrow> set y t | None \<Rightarrow> t) in
      upd last_qty (\<lambda>y t. t\<lparr>ot_last_fill_quantity := Some (quantity_new_unchecked y)\<rparr>)
        (upd last_price (\<lambda>y t. t\<lparr>ot_last_fill_price := Some (price_new_unchecked y)\<rparr>)
          (upd avg_price (\<lambda>y t. t\<lparr>ot_avg_fill_price := Some (price_new_unchecked y)\<rparr>)
            (upd remaining (\<lambda>y t. t\<lparr>ot_remaining_quantity := quantity_new_unchecked y\<rparr>)
              (upd filled (\<lambda>y t. t\<lparr>ot_filled_quantity := quantity_new_unchecked y\<rparr>)
                (t\<lparr>ot_status := convert_order_status_internal F now status filled remaining avg_price\<rparr>))))))"

definition tracked_update :: "timestamp \<Rightarrow> string option \<Rightarrow> order_tracking \<Rightarrow> order_update" where
  "tracked_update now why_held t =
     (order_update_new now (ot_order_id t) (ot_status t) (ot_filled_quantity t) (ot_remaining_quantity t))
       \<lparr>ou_avg_fill_price := ot_avg_fill_price t, ou_last_fill_price := ot_last_fill_price t,
        ou_last_fill_quantity := ot_last_fill_quantity t, ou_commission := None, ou_reason := why_held\<rparr>"

definition process_ib_event :: "ib_formats \<Rightarrow> timestamp \<Rightarrow> timestamp \<Rightarrow> ib_order_event \<Rightarrow> ib_gateway \<Rightarrow> ib_gateway" where
  "process_ib_event F now now' ev g =
     (case ev of
        IBO_OrderStatus i status filled remaining avg_price last_price last_qty why_held \<Rightarrow>
          (case hash_get (ig_order_tracking g) i of
             None \<Rightarrow> g
           | Some t \<Rightarrow>
               let t' = track_status F now status filled remaining avg_price last_price last_qty t in
               g\<lparr>ig_order_tracking := hash_insert i t' (ig_order_tracking g),
                 ig_order_updates := map_option (\<lambda>sent. sent @ [tracked_update now' why_held t']) (ig_order_updates g)\<rparr>)
      | IBO_ExecutionDetails i x \<Rightarrow>
          (case get_order_id i g of
             None \<Rightarrow> g
           | Some d \<Rightarrow>
               (case convert_exec_to_fill_internal F now x d of
                  Ok f \<Rightarrow> g\<lparr>ig_fill_updates := map_option (\<lambda>sent. sent @ [f]) (ig_fill_updates g)\<rparr>
                | _ \<Rightarrow> g))
      | IBO_OpenOrder i s \<Rightarrow> g)"

text \<open>One turn of the processor: the first event that waits.\<close>

definition processor_turn :: "ib_formats \<Rightarrow> timestamp \<Rightarrow> timestamp \<Rightarrow> ib_gateway \<Rightarrow> ib_gateway" where
  "processor_turn F now now' g =
     (case ig_processor g of
        Some (ev # evs) \<Rightarrow> process_ib_event F now now' ev (g\<lparr>ig_processor := Some evs\<rparr>)
      | _ \<Rightarrow> g)"

section \<open>What the broker's reports do to an order\<close>

text \<open>The texts after which a report counts as partially or completely filled.\<close>

definition reports_partial :: "string \<Rightarrow> bool" where
  "reports_partial s = (s = ''PartiallyFilled'' \<or> s = ''ApiPending'')"

definition reports_filled :: "string \<Rightarrow> f64 \<Rightarrow> bool" where
  "reports_filled s remaining = (s = ''Filled'' \<and> f64_nonpositive remaining)"

definition reports_end :: "string \<Rightarrow> bool" where
  "reports_end s = (s = ''Cancelled'' \<or> s = ''ApiCancelled'' \<or> s = ''Inactive'')"

definition reports_submitted :: "string \<Rightarrow> bool" where
  "reports_submitted s = (s = ''Submitted'' \<or> s = ''PreSubmitted'')"

lemma convert_status_variant:
  "variant_name (convert_order_status_internal F now s f r p) =
     (if reports_submitted s then ''Submitted'' else if reports_filled s r then ''Filled''
      else if reports_partial s then ''PartiallyFilled''
      else if s = ''Inactive'' then ''Rejected'' else if reports_end s then ''Cancelled'' else ''Pending'')"
  by (simp add: convert_order_status_internal_def reports_submitted_def reports_filled_def reports_partial_def
      reports_end_def)

lemma convert_order_status_eq:
  "convert_order_status F now s f r p =
     (case convert_order_status_internal F now s f r p of
        Cancelled t _ \<Rightarrow> Cancelled t ''Cancelled by user or system''
      | Rejected t _ \<Rightarrow> Rejected t ''Order inactive''
      | other \<Rightarrow> other)"
  by (simp add: convert_order_status_internal_def convert_order_status_def)

lemma reports_exclusive:
  "reports_submitted s \<Longrightarrow> \<not> reports_filled s r \<and> \<not> reports_partial s \<and> \<not> reports_end s"
  "reports_filled s r \<Longrightarrow> \<not> reports_partial s \<and> \<not> reports_end s"
  "reports_partial s \<Longrightarrow> \<not> reports_end s"
  "s = ''Inactive'' \<Longrightarrow> reports_end s"
  by (auto simp: reports_submitted_def reports_filled_def reports_partial_def reports_end_def)

text \<open>The lifecycle by the names of the states.\<close>

lemma transition_by_name:
  "is_valid_transition (Submitted t) new = (variant_name new \<notin> {''Created'', ''PartiallyFilled'', ''Filled''})"
  "is_valid_transition (Pending t) new = (variant_name new \<notin> {''Created'', ''Submitted''})"
  "is_valid_transition (PartiallyFilled a b c) new =
     (variant_name new \<in> {''PartiallyFilled'', ''Filled'', ''Cancelled'', ''Rejected''})"
  by (cases new; simp add: is_valid_transition_def)+

text \<open>
  Which of the broker's reports move an order.  An order the platform holds as submitted accepts
  every report but those of a fill, partial or complete: the ordinary sequence of the broker
  (\<open>PreSubmitted\<close>, \<open>Submitted\<close>, \<open>Filled\<close>) is refused at its end, whatever the quantities, and the order
  stays submitted.  A pending order accepts every report but that it is submitted; a partially filled
  one only a further fill or its end.
\<close>

theorem reports_against_lifecycle:
  "is_valid_transition (Submitted t) (convert_order_status_internal F now s f r p) =
     (\<not> reports_filled s r \<and> \<not> reports_partial s) \<and>
   is_valid_transition (Pending t) (convert_order_status_internal F now s f r p) = (\<not> reports_submitted s) \<and>
   is_valid_transition (PartiallyFilled a b c) (convert_order_status_internal F now s f r p) =
     (reports_filled s r \<or> reports_partial s \<or> reports_end s)"
  unfolding transition_by_name convert_status_variant
  by (simp add: reports_exclusive)

section \<open>Orders for the broker\<close>

definition prices_present :: "order \<Rightarrow> bool" where
  "prices_present ord =
     ((ord_type ord = Limit \<or> ord_type ord = StopLimit \<longrightarrow> ord_limit_price ord \<noteq> None) \<and>
      (ord_type ord = Stop \<or> ord_type ord = StopLimit \<longrightarrow> ord_stop_price ord \<noteq> None))"

lemma is_ok_bind_Ok [simp]: "is_ok (bind m (\<lambda>x. Ok (f x))) = is_ok m"
  by (cases m) simp_all

lemma convert_to_ib_order_Ok_iff: "is_ok (convert_to_ib_order F ord i) = prices_present ord"
proof -
  have "is_ok (ib_order_terms F ord) = prices_present ord"
    by (cases "ord_type ord"; cases "ord_limit_price ord"; cases "ord_stop_price ord")
      (simp_all add: ib_order_terms_def prices_present_def)
  then show ?thesis by (simp add: convert_to_ib_order_def case_prod_unfold)
qed

text \<open>What the broker's order says of the platform's.\<close>

lemma ib_order_terms_Ok:
  assumes "ib_order_terms F ord = Ok (t, l, a)"
  shows "t = (case ord_type ord of Market \<Rightarrow> ''MKT'' | Limit \<Rightarrow> ''LMT'' | Stop \<Rightarrow> ''STP'' | StopLimit \<Rightarrow> ''STP LMT'')"
    and "l = (if ord_type ord = Limit \<or> ord_type ord = StopLimit
           then map_option (\<lambda>p. f64_or_zero F (price_inner p)) (ord_limit_price ord) else None)"
    and "a = (if ord_type ord = Stop \<or> ord_type ord = StopLimit
           then map_option (\<lambda>p. f64_or_zero F (price_inner p)) (ord_stop_price ord) else None)"
  using assms
  by (cases "ord_type ord"; cases "ord_limit_price ord"; cases "ord_stop_price ord"; simp add: ib_order_terms_def)+

lemma convert_to_ib_order_Ok:
  assumes "convert_to_ib_order F ord i = Ok x"
  obtains t l a where "ib_order_terms F ord = Ok (t, l, a)"
    and "x = \<lparr>ibo_order_id = i, ibo_action = ib_action (ord_side ord),
               ibo_total_quantity = f64_or_zero F (qty_inner (ord_quantity ord)), ibo_order_type = t,
               ibo_lmt_price = l, ibo_aux_price = a, ibo_tif = ib_tif (ord_time_in_force ord)\<rparr>"
  using assms by (cases "ib_order_terms F ord") (auto simp: convert_to_ib_order_def ib_order_new_def)

definition order_amounts :: "order \<Rightarrow> decimal set" where
  "order_amounts ord =
     insert (qty_inner (ord_quantity ord))
       (price_inner ` (set_option (ord_limit_price ord) \<union> set_option (ord_stop_price ord)))"

text \<open>
  An order is translated for the broker exactly when it has the prices its type needs, and the
  translation loses nothing the broker acts on: two orders with the same translation have the same
  side, type and time in force, and, where the conversion to floating point keeps their amounts apart, the
  same quantity and the same prices of their type.
\<close>

theorem ib_order_faithful:
  assumes "\<And>x y. {x, y} \<subseteq> order_amounts ord \<union> order_amounts ord' \<Longrightarrow>
             ff_to_f64 F x \<noteq> None \<and> (ff_to_f64 F x = ff_to_f64 F y \<longrightarrow> x = y)"
    and "convert_to_ib_order F ord i = Ok x" and "convert_to_ib_order F ord' i' = Ok x"
  shows "prices_present ord \<and> ord_side ord' = ord_side ord \<and> ord_type ord' = ord_type ord \<and>
         ord_time_in_force ord' = ord_time_in_force ord \<and> ord_quantity ord' = ord_quantity ord \<and>
         (ord_type ord = Limit \<or> ord_type ord = StopLimit \<longrightarrow> ord_limit_price ord' = ord_limit_price ord) \<and>
         (ord_type ord = Stop \<or> ord_type ord = StopLimit \<longrightarrow> ord_stop_price ord' = ord_stop_price ord)"
proof -
  have inj: "f64_or_zero F x = f64_or_zero F y \<Longrightarrow> x = y"
    if "x \<in> order_amounts ord'" "y \<in> order_amounts ord" for x y
    using assms(1) [of x y] assms(1) [of y x] that by (auto simp: f64_or_zero_def)
  have injp: "map_option (\<lambda>p. f64_or_zero F (price_inner p)) a = map_option (\<lambda>p. f64_or_zero F (price_inner p)) b
      \<Longrightarrow> a = b"
    if "price_inner ` set_option a \<subseteq> order_amounts ord'" "price_inner ` set_option b \<subseteq> order_amounts ord" for a b
    using that by (cases a; cases b) (auto dest!: inj intro: price.expand)
  obtain t l a where tla: "ib_order_terms F ord = Ok (t, l, a)" "ib_order_terms F ord' = Ok (t, l, a)"
      and eqs: "ib_action (ord_side ord') = ib_action (ord_side ord)"
        "ib_tif (ord_time_in_force ord') = ib_tif (ord_time_in_force ord)"
        "f64_or_zero F (qty_inner (ord_quantity ord')) = f64_or_zero F (qty_inner (ord_quantity ord))"
    using convert_to_ib_order_Ok [OF assms(2)] convert_to_ib_order_Ok [OF assms(3)] by (metis ib_order.iffs)
  have amounts: "price_inner ` set_option (ord_limit_price o') \<subseteq> order_amounts o'"
      "price_inner ` set_option (ord_stop_price o') \<subseteq> order_amounts o'"
      "qty_inner (ord_quantity o') \<in> order_amounts o'" for o'
    by (auto simp: order_amounts_def)
  note f = ib_order_terms_Ok [OF tla(1)] and f' = ib_order_terms_Ok [OF tla(2)]
  have "prices_present ord" using convert_to_ib_order_Ok_iff [of F ord i] assms(2) by simp
  moreover have "ord_side ord' = ord_side ord"
    using eqs(1) by (cases "ord_side ord"; cases "ord_side ord'") simp_all
  moreover have "ord_time_in_force ord' = ord_time_in_force ord"
    using eqs(2) by (cases "ord_time_in_force ord"; cases "ord_time_in_force ord'") simp_all
  moreover have type: "ord_type ord' = ord_type ord"
    using f(1) f'(1) by (cases "ord_type ord"; cases "ord_type ord'") simp_all
  moreover have "ord_quantity ord' = ord_quantity ord"
    using inj [OF amounts(3,3) eqs(3)] by (intro quantity.expand) simp
  moreover have "ord_type ord = Limit \<or> ord_type ord = StopLimit \<longrightarrow> ord_limit_price ord' = ord_limit_price ord"
    using f(2) f'(2) type injp [OF amounts(1,1)] by auto
  moreover have "ord_type ord = Stop \<or> ord_type ord = StopLimit \<longrightarrow> ord_stop_price ord' = ord_stop_price ord"
    using f(3) f'(3) type injp [OF amounts(2,2)] by auto
  ultimately show ?thesis by blast
qed

text \<open>Exact conversions, for the witnesses.\<close>

definition sample_formats :: ib_formats where
  "sample_formats =
     \<lparr>ff_to_f64 = (\<lambda>x. Some (Finite x)), ff_to_dec = (\<lambda>x. case x of Finite y \<Rightarrow> Some y | _ \<Rightarrow> None),
      ff_parse_time = (\<lambda>_. None), ff_uuid = \<lparr>u_parse = (\<lambda>_. Err ''''), u_fmt = (\<lambda>_. '''')\<rparr>\<rparr>"

theorem ib_order_faithful_witness:
  "\<exists>x. convert_to_ib_order sample_formats sample_order 1000 = Ok x \<and>
       convert_to_ib_order sample_formats (sample_order\<lparr>ord_id := 8\<rparr>) 1000 = Ok x \<and>
       ibo_lmt_price x = Some (Finite 150) \<and> prices_present sample_order"
proof -
  obtain x where x: "convert_to_ib_order sample_formats sample_order 1000 = Ok x"
      "convert_to_ib_order sample_formats (sample_order\<lparr>ord_id := 8\<rparr>) 1000 = Ok x"
      "ibo_lmt_price x = Some (Finite 150)"
    by (simp add: convert_to_ib_order_def ib_order_terms_def sample_order_def f64_or_zero_def sample_formats_def)
  have "ff_to_f64 sample_formats a \<noteq> None \<and> (ff_to_f64 sample_formats a = ff_to_f64 sample_formats b \<longrightarrow> a = b)"
    for a b by (simp add: sample_formats_def)
  from ib_order_faithful [OF this x(1,2)] x show ?thesis by blast
qed

section \<open>Identifiers and updates over a session\<close>

text \<open>
  Every operation of the gateway, the turns of its processor, and what the client does meanwhile, in
  any order; the 32-bit counter does not overflow.
\<close>

inductive ib_step :: "ib_gateway \<Rightarrow> ib_gateway \<Rightarrow> bool" where
  place: "ib_place_order B F a now ord g = Some (r, g') \<Longrightarrow> sint (ig_next_valid_id g) < 2 ^ 31 - 1 \<Longrightarrow> ib_step g g'"
| cancel: "ib_cancel_order B F a d g = Some (r, g') \<Longrightarrow> ib_step g g'"
| modify: "ib_modify_order B F a d ms g = Some (r, g') \<Longrightarrow> ib_step g g'"
| open_orders: "ib_get_open_orders B g = Some (r, g') \<Longrightarrow> ib_step g g'"
| positions: "ib_get_positions B g = Some (r, g') \<Longrightarrow> ib_step g g'"
| updates: "ib_subscribe_order_updates B g = Some (r, g') \<Longrightarrow> ib_step g g'"
| fills: "ib_subscribe_fill_updates B g = Some (r, g') \<Longrightarrow> ib_step g g'"
| processor: "ib_step g (processor_turn F now now' g)"
| client_tick: "ib_step g (g\<lparr>ig_client := tick_client t (ig_client g)\<rparr>)"
| client_disconnect: "ib_step g (g\<lparr>ig_client := snd (client_disconnect answer (ig_client g))\<rparr>)"

definition fresh_ids :: "ib_gateway \<Rightarrow> bool" where
  "fresh_ids g =
     ((ig_next_valid_id g = 0 \<or> 1000 \<le> sint (ig_next_valid_id g)) \<and>
      (\<forall>i \<in> dom (hash_get (ig_reverse_order_id_map g)). 1000 \<le> sint i \<and> sint i < sint (ig_next_valid_id g)) \<and>
      (\<forall>d i. get_ib_order_id d g = Some i \<longrightarrow> get_order_id i g = Some d))"

definition nothing_sent :: "ib_gateway \<Rightarrow> bool" where
  "nothing_sent g =
     (ig_processor g \<in> {None, Some []} \<and> ig_order_updates g \<in> {None, Some []} \<and> ig_fill_updates g \<in> {None, Some []})"

definition client_fresh :: "ib_gateway \<Rightarrow> bool" where
  "client_fresh g = (ic_next_valid_id (ig_client g) \<in> {0, 1000})"

definition gateway_inv :: "ib_gateway \<Rightarrow> bool" where
  "gateway_inv g = (fresh_ids g \<and> nothing_sent g \<and> client_fresh g)"

lemma ensure_connected_next_id:
  "ensure_connected B c = Some (r, ds, c') \<Longrightarrow> ic_next_valid_id c' = ic_next_valid_id c"
  by (auto simp: ensure_connected_def dest: client_connect_frame split: if_splits)

lemma request_next_id:
  assumes "request_next_order_id B c = Some (r, c')" and "ic_next_valid_id c \<in> {0, 1000}"
  shows "ic_next_valid_id c' \<in> {0, 1000} \<and> (\<forall>i. r = Ok i \<longrightarrow> i = 1000)"
proof -
  obtain r1 ds c1 where e: "ensure_connected B c = Some (r1, ds, c1)"
    using assms(1) by (auto simp: request_next_order_id_def)
  from ensure_connected_next_id [OF e] assms e show ?thesis
    by (cases r1) (auto simp: request_next_order_id_def split: if_splits)
qed

text \<open>The parts of the invariant that a change of the client alone keeps.\<close>

lemma client_only [simp]:
  "fresh_ids (g\<lparr>ig_client := c\<rparr>) = fresh_ids g" "nothing_sent (g\<lparr>ig_client := c\<rparr>) = nothing_sent g"
  by (simp_all add: fresh_ids_def nothing_sent_def get_ib_order_id_def get_order_id_def)

lemma when_connected_inv:
  assumes "when_connected B k g = Some (r, g')" and "gateway_inv g"
    and "\<And>c. gateway_inv (g\<lparr>ig_client := c\<rparr>) \<Longrightarrow> k (g\<lparr>ig_client := c\<rparr>) = Some (r, g') \<Longrightarrow> gateway_inv g'"
  shows "gateway_inv g'"
proof -
  obtain r1 ds c where e: "ensure_connected B (ig_client g) = Some (r1, ds, c)"
    using assms(1) by (auto simp: when_connected_def split: option.splits prod.splits)
  have inv: "gateway_inv (g\<lparr>ig_client := c\<rparr>)"
    using assms(2) ensure_connected_next_id [OF e] by (simp add: gateway_inv_def client_fresh_def)
  show ?thesis
  proof (cases r1)
    case (Ok u)
    then show ?thesis using assms(1) e assms(3) [OF inv] by (simp add: when_connected_def)
  qed (use assms(1) e inv in \<open>auto simp: when_connected_def Let_def\<close>)
qed

lemma next_id_fresh:
  assumes "fresh_ids g" and "1000 \<le> sint (ig_next_valid_id g)" and "sint (ig_next_valid_id g) \<le> sint n"
  shows "fresh_ids (g\<lparr>ig_next_valid_id := n\<rparr>)"
  unfolding fresh_ids_def
proof (intro conjI ballI)
  fix i assume "i \<in> dom (hash_get (ig_reverse_order_id_map (g\<lparr>ig_next_valid_id := n\<rparr>)))"
  then have "1000 \<le> sint i \<and> sint i < sint (ig_next_valid_id g)" using assms(1) by (simp add: fresh_ids_def)
  with assms(3) show "1000 \<le> sint i" and "sint i < sint (ig_next_valid_id (g\<lparr>ig_next_valid_id := n\<rparr>))"
    by simp_all
qed (use assms in \<open>simp_all add: fresh_ids_def get_ib_order_id_def get_order_id_def\<close>)

lemma allocate_inv:
  assumes "allocate_order_id B g = Some (r, g')" and "gateway_inv g" and "sint (ig_next_valid_id g) < 2 ^ 31 - 1"
  shows "gateway_inv g' \<and>
         (\<forall>i. r = Ok i \<longrightarrow> 1000 \<le> sint i \<and> sint i < sint (ig_next_valid_id g') \<and> get_order_id i g' = None)"
proof -
  have take: "gateway_inv (g1\<lparr>ig_next_valid_id := ig_next_valid_id g1 + 1\<rparr>) \<and>
      sint (ig_next_valid_id g1) < sint (ig_next_valid_id g1 + 1) \<and>
      get_order_id (ig_next_valid_id g1) (g1\<lparr>ig_next_valid_id := ig_next_valid_id g1 + 1\<rparr>) = None"
    if "gateway_inv g1" "1000 \<le> sint (ig_next_valid_id g1)" "sint (ig_next_valid_id g1) < 2 ^ 31 - 1" for g1
  proof -
    have s: "sint (ig_next_valid_id g1 + 1) = sint (ig_next_valid_id g1) + 1" by (rule sint_plus_1 [OF that(3)])
    have "ig_next_valid_id g1 \<notin> dom (hash_get (ig_reverse_order_id_map g1))"
      using that(1) by (auto simp: gateway_inv_def fresh_ids_def)
    then have "get_order_id (ig_next_valid_id g1) (g1\<lparr>ig_next_valid_id := ig_next_valid_id g1 + 1\<rparr>) = None"
      by (auto simp: get_order_id_def)
    moreover have "gateway_inv (g1\<lparr>ig_next_valid_id := ig_next_valid_id g1 + 1\<rparr>)"
      using that(1) next_id_fresh [OF _ that(2), of "ig_next_valid_id g1 + 1"] s
      by (simp add: gateway_inv_def nothing_sent_def client_fresh_def)
    ultimately show ?thesis using s by simp
  qed
  show ?thesis
  proof (cases "ig_next_valid_id g = 0")
    case False
    then have "1000 \<le> sint (ig_next_valid_id g)" using assms(2) by (simp add: gateway_inv_def fresh_ids_def)
    from take [OF assms(2) this assms(3)] this False assms(1) show ?thesis
      by (auto simp: allocate_order_id_def)
  next
    case True
    obtain r1 c where q: "request_next_order_id B (ig_client g) = Some (r1, c)"
      using assms(1) True by (auto simp: allocate_order_id_def split: option.splits)
    note c = request_next_id [OF q]
    have inv: "gateway_inv (g\<lparr>ig_client := c\<rparr>)"
      using assms(2) c by (simp add: gateway_inv_def client_fresh_def)
    show ?thesis
    proof (cases r1)
      case (Ok i)
      then have i: "i = 1000" using c assms(2) by (simp add: gateway_inv_def client_fresh_def)
      let ?g = "g\<lparr>ig_client := c, ig_next_valid_id := 1000\<rparr>"
      have "dom (hash_get (ig_reverse_order_id_map g)) = {}"
        using assms(2) True by (fastforce simp: gateway_inv_def fresh_ids_def)
      then have "gateway_inv ?g"
        using inv by (auto simp: gateway_inv_def fresh_ids_def nothing_sent_def client_fresh_def
            get_ib_order_id_def get_order_id_def)
      from take [OF this] assms(1) True q Ok i show ?thesis
        by (auto simp: allocate_order_id_def Let_def)
    qed (use assms(1) True q inv in \<open>auto simp: allocate_order_id_def Let_def\<close>)
  qed
qed

lemma insert_ids_inv:
  assumes "gateway_inv g" and "1000 \<le> sint i" and "sint i < sint (ig_next_valid_id g)" and "get_order_id i g = None"
  shows "gateway_inv (g\<lparr>ig_order_id_map := hash_insert d i (ig_order_id_map g),
                       ig_reverse_order_id_map := hash_insert i d (ig_reverse_order_id_map g)\<rparr>)"
proof -
  have "get_order_id j g \<noteq> None" if "get_ib_order_id e g = Some j" for e j
    using assms(1) that by (auto simp: gateway_inv_def fresh_ids_def)
  with assms show ?thesis
    by (auto simp: gateway_inv_def fresh_ids_def nothing_sent_def client_fresh_def get_ib_order_id_def
        get_order_id_def split: if_splits)
qed

lemma ids_agree: "gateway_inv g \<Longrightarrow> get_ib_order_id d g = Some i \<Longrightarrow> get_order_id i g = Some d"
  unfolding gateway_inv_def fresh_ids_def by blast

lemma forget_ids_inv:
  assumes "gateway_inv g" and "get_ib_order_id d g = Some i"
  shows "gateway_inv (forget_ids d i g)"
proof -
  have "e = d" if "get_ib_order_id e g = Some i" for e
    using ids_agree [OF assms] ids_agree [OF assms(1) that] by simp
  then have other: "e \<noteq> d \<Longrightarrow> get_ib_order_id e g \<noteq> Some i" for e by blast
  have maps: "get_ib_order_id e (forget_ids d i g) = (if e = d then None else get_ib_order_id e g)"
    "get_order_id j (forget_ids d i g) = (if j = i then None else get_order_id j g)" for e j
    by (simp_all add: get_ib_order_id_def get_order_id_def forget_ids_def)
  have "fresh_ids (forget_ids d i g)"
    unfolding fresh_ids_def
  proof (intro conjI ballI allI impI)
    fix j assume "j \<in> dom (hash_get (ig_reverse_order_id_map (forget_ids d i g)))"
    then have "j \<in> dom (hash_get (ig_reverse_order_id_map g))" by (simp add: forget_ids_def)
    then show "1000 \<le> sint j" and "sint j < sint (ig_next_valid_id (forget_ids d i g))"
      using assms(1) by (auto simp: gateway_inv_def fresh_ids_def forget_ids_def)
  next
    fix e j assume "get_ib_order_id e (forget_ids d i g) = Some j"
    then have e: "e \<noteq> d" "get_ib_order_id e g = Some j" by (simp_all add: maps split: if_splits)
    with other have "j \<noteq> i" by blast
    with e assms(1) show "get_order_id j (forget_ids d i g) = Some e"
      by (simp add: maps gateway_inv_def fresh_ids_def)
  qed (use assms(1) in \<open>simp add: gateway_inv_def fresh_ids_def forget_ids_def\<close>)
  with assms(1) show ?thesis
    by (simp add: gateway_inv_def nothing_sent_def client_fresh_def forget_ids_def)
qed

lemma tracking_only [simp]: "gateway_inv (g\<lparr>ig_order_tracking := t\<rparr>) = gateway_inv g"
  by (simp add: gateway_inv_def fresh_ids_def nothing_sent_def client_fresh_def get_ib_order_id_def get_order_id_def)

lemma place_inv:
  assumes "ib_place_order B F a now ord g = Some (r, g')" and "gateway_inv g"
    and lt: "sint (ig_next_valid_id g) < 2 ^ 31 - 1"
  shows "gateway_inv g'"
  using assms(1) unfolding ib_place_order_def
proof (rule when_connected_inv [OF _ assms(2)])
  fix c
  let ?d = "OrderId (ord_id ord)"
  let ?ids = "\<lambda>g i. g\<lparr>ig_order_id_map := hash_insert ?d i (ig_order_id_map g),
                       ig_reverse_order_id_map := hash_insert i ?d (ig_reverse_order_id_map g)\<rparr>"
  assume inv: "gateway_inv (g\<lparr>ig_client := c\<rparr>)"
    and run: "(let d = ?d in case allocate_order_id B (g\<lparr>ig_client := c\<rparr>) of
         None \<Rightarrow> None
       | Some (Err e, g1) \<Rightarrow> Some (Err e, g1)
       | Some (Panic, g1) \<Rightarrow> Some (Panic, g1)
       | Some (Ok i, g1) \<Rightarrow>
           let g2 = g1\<lparr>ig_order_id_map := hash_insert d i (ig_order_id_map g1),
                       ig_reverse_order_id_map := hash_insert i d (ig_reverse_order_id_map g1)\<rparr> in
           (case convert_to_ib_order F ord i of
              Err e \<Rightarrow> Some (Err e, g2)
            | Panic \<Rightarrow> Some (Panic, g2)
            | Ok ib_order \<Rightarrow>
                let contract = ib_contract_stock (symbol_str (ord_symbol ord));
                    g3 = g2\<lparr>ig_order_tracking :=
                              hash_insert i (order_tracking_new now d i (ord_quantity ord)) (ig_order_tracking g2)\<rparr> in
                (case a of
                   Accepted \<Rightarrow> Some (Ok d, g3)
                 | Refused e \<Rightarrow> Some (Err e, forget_ids d i g3)
                 | TimedOut \<Rightarrow>
                     Some (Err (exchange_error ''TIMEOUT'' ''Place order timed out after 30s''), forget_ids d i g3)))) =
       Some (r, g')"
  obtain r1 g1 where al: "allocate_order_id B (g\<lparr>ig_client := c\<rparr>) = Some (r1, g1)"
    using run by (cases "allocate_order_id B (g\<lparr>ig_client := c\<rparr>)") (auto simp: Let_def)
  note inv1 = allocate_inv [OF al inv]
  show "gateway_inv g'"
  proof (cases r1)
    case (Ok i)
    have ids: "gateway_inv (?ids g1 i)"
      using inv1 lt Ok by (intro insert_ids_inv) simp_all
    have fg: "gateway_inv (forget_ids ?d i ((?ids g1 i)\<lparr>ig_order_tracking := t\<rparr>))" for t
      using ids by (intro forget_ids_inv) (simp_all add: get_ib_order_id_def)
    from run al Ok ids fg show ?thesis
      by (auto simp: Let_def split: res.splits place_answer.splits)
  qed (use run al inv1 lt in \<open>simp_all add: Let_def\<close>)
qed

lemma cancel_inv:
  assumes "ib_cancel_order B F a d g = Some (r, g')" and "gateway_inv g"
  shows "gateway_inv g'"
proof (cases "get_ib_order_id d g")
  case (Some i)
  have "when_connected B (\<lambda>g. case a of Accepted \<Rightarrow> Some (Ok (), g) | Refused e \<Rightarrow> Some (Err e, g)
            | TimedOut \<Rightarrow> Some (Err (exchange_error ''TIMEOUT'' ''Cancel order timed out after 30s''), g)) g =
          Some (r, g')"
    using assms(1) Some by (simp add: ib_cancel_order_def)
  then show ?thesis by (rule when_connected_inv [OF _ assms(2)]) (auto split: place_answer.splits)
qed (use assms in \<open>simp add: ib_cancel_order_def\<close>)

lemma gateway_inv_new: "gateway_inv (ib_gateway_new (ib_client_new now cfg) cfg')"
  by (simp add: gateway_inv_def fresh_ids_def nothing_sent_def client_fresh_def ib_gateway_new_def ib_client_new_def
      get_ib_order_id_def)

lemma tick_next_id [simp]: "ic_next_valid_id (tick_client t c) = ic_next_valid_id c"
  by (auto simp: tick_client_alt attempt_reconnect_def check_connection_health_def Let_def
      split: option.split prod.split res.split)

lemma disconnect_next_id [simp]: "ic_next_valid_id (snd (client_disconnect answer c)) = ic_next_valid_id c"
  by (simp add: client_disconnect_def Let_def split: res.split)

lemma processor_idle: "nothing_sent g \<Longrightarrow> processor_turn F now now' g = g"
  by (auto simp: nothing_sent_def processor_turn_def split: option.split)

lemma subscribers_only [simp]:
  "fresh_ids (g\<lparr>ig_order_updates := u, ig_processor := p\<rparr>) = fresh_ids g"
  "fresh_ids (g\<lparr>ig_fill_updates := f, ig_processor := p\<rparr>) = fresh_ids g"
  by (simp_all add: fresh_ids_def get_ib_order_id_def get_order_id_def)

lemma subscribe_inv:
  assumes "gateway_inv g"
  shows "gateway_inv (start_event_processor (g\<lparr>ig_order_updates := Some []\<rparr>))"
    and "gateway_inv (start_event_processor (g\<lparr>ig_fill_updates := Some []\<rparr>))"
  using assms by (simp_all add: start_event_processor_def gateway_inv_def nothing_sent_def client_fresh_def)

lemma gateway_inv_step: "ib_step g g' \<Longrightarrow> gateway_inv g \<Longrightarrow> gateway_inv g'"
proof (induction rule: ib_step.induct)
  case (place B F a now ord g r g')
  show ?case by (rule place_inv [OF place.hyps(1) place.prems place.hyps(2)])
next
  case (cancel B F a d g r g')
  then show ?case by (rule cancel_inv)
next
  case (modify B F a d ms g r g')
  then obtain r1 where "ib_cancel_order B F a d g = Some (r1, g')"
    by (auto simp: ib_modify_order_def split: option.splits prod.splits res.splits)
  from this modify.prems show ?case by (rule cancel_inv)
next
  case (open_orders B g r g')
  from open_orders.hyps [unfolded ib_get_open_orders_def] open_orders.prems show ?case
    by (rule when_connected_inv) simp
next
  case (positions B g r g')
  from positions.hyps [unfolded ib_get_positions_def] positions.prems show ?case
    by (rule when_connected_inv) simp
next
  case (updates B g r g')
  from updates.hyps [unfolded ib_subscribe_order_updates_def] updates.prems show ?case
    by (rule when_connected_inv) (auto intro: subscribe_inv)
next
  case (fills B g r g')
  from fills.hyps [unfolded ib_subscribe_fill_updates_def] fills.prems show ?case
    by (rule when_connected_inv) (auto intro: subscribe_inv)
next
  case (processor g F now now')
  then have "processor_turn F now now' g = g" by (intro processor_idle) (simp add: gateway_inv_def)
  with processor.prems show ?case by metis
next
  case (client_tick g t)
  then show ?case by (simp add: gateway_inv_def client_fresh_def)
next
  case (client_disconnect g answer)
  then show ?case by (simp add: gateway_inv_def client_fresh_def)
qed



text \<open>
  A limit order without its price is refused, but keeps the broker identifier it was given: the
  order was never sent nor tracked, and a cancellation of it succeeds.
\<close>

theorem refused_order_can_be_cancelled:
  assumes "client_is_connected (ig_client g)" and "ig_next_valid_id g \<noteq> 0"
    and "ord_type ord = Limit" and "ord_limit_price ord = None"
  shows "\<exists>g'. ib_place_order B F a now ord g =
             Some (Err (Exec_OrderRejected (u_fmt (ff_uuid F) (ord_id ord)) ''Limit order requires limit price''), g') \<and>
           ig_order_tracking g' = ig_order_tracking g \<and>
           get_ib_order_id (OrderId (ord_id ord)) g' = Some (ig_next_valid_id g) \<and>
           ib_cancel_order B F Accepted (OrderId (ord_id ord)) g' = Some (Ok (), g')"
  using assms
  by (simp add: ib_place_order_def ib_cancel_order_def when_connected_def ensure_connected_def
      allocate_order_id_def convert_to_ib_order_def ib_order_terms_def get_ib_order_id_def Let_def)

theorem refused_order_can_be_cancelled_witness:
  "\<exists>g'. ib_place_order willing_broker sample_formats Accepted 0 (sample_order\<lparr>ord_limit_price := None\<rparr>)
           (ib_gateway_new connected_client ib_config_default\<lparr>ig_next_valid_id := 1000\<rparr>) =
         Some (Err (Exec_OrderRejected '''' ''Limit order requires limit price''), g') \<and>
       ib_cancel_order willing_broker sample_formats Accepted (OrderId (ord_id sample_order)) g' = Some (Ok (), g')"
  using refused_order_can_be_cancelled
      [of "ib_gateway_new connected_client ib_config_default\<lparr>ig_next_valid_id := 1000\<rparr>"
         "sample_order\<lparr>ord_limit_price := None\<rparr>" willing_broker sample_formats Accepted 0]
  by (auto simp: ib_gateway_new_def connected_client_def client_is_connected_def ib_client_new_def sample_order_def
      sample_formats_def)

end
