(* ===== verification/IB_Market_Data.thy ===== *)
theory IB_Market_Data
  imports IB_Client Market_Data Mem_Repos
begin

text \<open>
  The market data provider of Interactive Brokers,
  \<open>crates/infrastructure/src/external/ib/market_data.rs\<close>: subscriptions by symbol, the contracts and
  bars exchanged with the broker, and the processing of its events.  The requests to the broker are
  placeholders in the code that do nothing.  The conversion of floating-point numbers and of Unix
  times is a parameter.
\<close>

section \<open>Channels\<close>

text \<open>
  A bounded channel is what waits in it and whether its receiver is gone; \<open>try_send\<close> on a full or a
  closed channel drops the message.
\<close>

record 'a channel =
  ch_queue :: "'a list"
  ch_closed :: bool

definition channel_new :: "'a channel" where
  "channel_new = \<lparr>ch_queue = [], ch_closed = False\<rparr>"

definition try_send :: "nat \<Rightarrow> 'a \<Rightarrow> 'a channel \<Rightarrow> 'a channel" where
  "try_send capacity x c =
     (if ch_closed c \<or> capacity \<le> length (ch_queue c) then c else c\<lparr>ch_queue := ch_queue c @ [x]\<rparr>)"

section \<open>Subscriptions\<close>

record subscription_info =
  si_symbol :: symbol
  si_timeframe :: "time_frame option"
  si_req_id :: i32
  si_bar_tx :: "bar channel option"
  si_tick_tx :: "tick channel option"

definition subscription_new_bar :: "symbol \<Rightarrow> time_frame \<Rightarrow> i32 \<Rightarrow> subscription_info" where
  "subscription_new_bar symbol timeframe req_id =
     \<lparr>si_symbol = symbol, si_timeframe = Some timeframe, si_req_id = req_id,
      si_bar_tx = Some channel_new, si_tick_tx = None\<rparr>"

definition subscription_new_tick :: "symbol \<Rightarrow> i32 \<Rightarrow> subscription_info" where
  "subscription_new_tick symbol req_id =
     \<lparr>si_symbol = symbol, si_timeframe = None, si_req_id = req_id,
      si_bar_tx = None, si_tick_tx = Some channel_new\<rparr>"

definition is_bar_subscription :: "subscription_info \<Rightarrow> bool" where
  "is_bar_subscription s = (si_timeframe s \<noteq> None)"

definition is_tick_subscription :: "subscription_info \<Rightarrow> bool" where
  "is_tick_subscription s = (si_timeframe s = None)"

type_synonym subscriptions = "(string, subscription_info) hash_map"

section \<open>Conversions\<close>

definition PROVIDER_NAME :: string where
  "PROVIDER_NAME = ''InteractiveBrokers''"

definition invalid_response :: "string \<Rightarrow> provider_error" where
  "invalid_response details = Prov_InvalidResponse PROVIDER_NAME details"

text \<open>
  \<open>Decimal::from_f64_retain\<close>, the \<open>Display\<close> of a float, \<open>Utc.timestamp_opt(t, 0).single()\<close>,
  \<open>i64::try_from\<close> of a decimal, and the text of a timestamp.
\<close>

record feed_ops =
  fe_retain :: "f64 \<Rightarrow> decimal option"
  fe_show :: "f64 \<Rightarrow> string"
  fe_timestamp :: "i64 \<Rightarrow> timestamp option"
  fe_to_i64 :: "decimal \<Rightarrow> i64 option"
  fe_time :: "timestamp \<Rightarrow> string"

text \<open>The price of an update: the last one, else the midpoint of bid and ask, else the one there is.\<close>

definition update_price_of :: "dec_ops \<Rightarrow> market_data_update \<Rightarrow> (price, provider_error) res" where
  "update_price_of D u =
     bind (case md_last u of
             Some p \<Rightarrow> Ok (Some p)
           | None \<Rightarrow>
               (case (md_bid u, md_ask u) of
                  (Some b, Some a) \<Rightarrow>
                    bind (or_panic (d_add D (price_inner b) (price_inner a))) (\<lambda>s.
                    bind (or_panic (d_div D s 2)) (\<lambda>mid.
                    Ok (case price_new D mid of Ok p \<Rightarrow> Some p | _ \<Rightarrow> None)))
                | (Some b, None) \<Rightarrow> Ok (Some b)
                | (None, a) \<Rightarrow> Ok a))
       (\<lambda>p. ok_or p (invalid_response ''No price available in market data update''))"

definition convert_ib_tick ::
    "dec_ops \<Rightarrow> feed_ops \<Rightarrow> symbol \<Rightarrow> market_data_update \<Rightarrow> (tick, provider_error) res" where
  "convert_ib_tick D E symbol u =
     bind (update_price_of D u) (\<lambda>price.
     let sz = (case md_last_size u of
                 None \<Rightarrow> volume_zero
               | Some q \<Rightarrow>
                   (case volume_new (case fe_to_i64 E (qty_inner q) of Some n \<Rightarrow> n | None \<Rightarrow> 0) of
                      Ok v \<Rightarrow> v | _ \<Rightarrow> volume_zero)) in
     map_err (\<lambda>e. invalid_response (''Failed to create tick: '' @ domain_error_display (fe_time E) e))
       (tick_new (md_timestamp u) symbol price sz None PROVIDER_NAME))"

text \<open>One price of a bar: \<open>retained\<close>, then validated.\<close>

definition retained :: "feed_ops \<Rightarrow> string \<Rightarrow> f64 \<Rightarrow> (decimal, provider_error) res" where
  "retained E name x =
     ok_or (fe_retain E x) (invalid_response (''Invalid '' @ name @ '' price: '' @ fe_show E x))"

definition validated :: "dec_ops \<Rightarrow> string \<Rightarrow> decimal \<Rightarrow> (price, provider_error) res" where
  "validated D name x =
     map_err (\<lambda>e. invalid_response (''Invalid '' @ name @ '' price: '' @ value_error_display e)) (price_new D x)"

definition convert_ib_bar ::
    "dec_ops \<Rightarrow> feed_ops \<Rightarrow> symbol \<Rightarrow> i64 \<Rightarrow> f64 \<Rightarrow> f64 \<Rightarrow> f64 \<Rightarrow> f64 \<Rightarrow> i64 \<Rightarrow> time_frame \<Rightarrow>
     (bar, provider_error) res" where
  "convert_ib_bar D E symbol time open_price high low close_price volume timeframe =
     bind (ok_or (fe_timestamp E time) (invalid_response (''Invalid timestamp: '' @ show_int (sint time)))) (\<lambda>timestamp.
     bind (retained E ''open'' open_price) (\<lambda>open_dec.
     bind (retained E ''high'' high) (\<lambda>high_dec.
     bind (retained E ''low'' low) (\<lambda>low_dec.
     bind (retained E ''close'' close_price) (\<lambda>close_dec.
     bind (validated D ''open'' open_dec) (\<lambda>p.
     bind (validated D ''high'' high_dec) (\<lambda>h.
     bind (validated D ''low'' low_dec) (\<lambda>l.
     bind (validated D ''close'' close_dec) (\<lambda>c.
     bind (map_err (\<lambda>e. invalid_response (''Invalid volume: '' @ value_error_display e)) (volume_new volume)) (\<lambda>v.
     map_err (\<lambda>e. invalid_response (''Failed to create bar: '' @ domain_error_display (fe_time E) e))
       (bar_new D timestamp symbol p h l c v timeframe PROVIDER_NAME)))))))))))"

fun timeframe_to_ib_duration :: "time_frame \<Rightarrow> (string, provider_error) res" where
  "timeframe_to_ib_duration M1 = Ok ''1 min''"
| "timeframe_to_ib_duration M5 = Ok ''5 min''"
| "timeframe_to_ib_duration M15 = Ok ''15 min''"
| "timeframe_to_ib_duration M30 = Ok ''30 min''"
| "timeframe_to_ib_duration H1 = Ok ''1 hour''"
| "timeframe_to_ib_duration H4 = Err (Prov_NotSupported ''TimeFrame H4'' PROVIDER_NAME)"
| "timeframe_to_ib_duration D1 = Err (Prov_NotSupported ''TimeFrame D1'' PROVIDER_NAME)"
| "timeframe_to_ib_duration W1 = Err (Prov_NotSupported ''TimeFrame W1'' PROVIDER_NAME)"

record feed_contract =
  fc_symbol :: string
  fc_sec_type :: string
  fc_exchange :: string
  fc_currency :: string
  fc_expiry :: "string option"

text \<open>\<open>str::split\<close> at a character.\<close>

fun split_at_char :: "char \<Rightarrow> string \<Rightarrow> string list" where
  "split_at_char c [] = [[]]"
| "split_at_char c (x # xs) =
     (if x = c then [] # split_at_char c xs
      else case split_at_char c xs of [] \<Rightarrow> [[x]] | p # ps \<Rightarrow> (x # p) # ps)"

definition create_contract :: "symbol \<Rightarrow> feed_contract" where
  "create_contract symbol =
     (let s = symbol_str symbol;
          contract = (\<lambda>name sec_type exchange expiry.
            \<lparr>fc_symbol = name, fc_sec_type = sec_type, fc_exchange = exchange, fc_currency = ''USD'',
             fc_expiry = expiry\<rparr>) in
      if symbol_is_futures symbol
      then (let parts = split_at_char (CHR ''/'') s in
            if length parts = 2 then contract (parts ! 0) ''FUT'' ''GLOBEX'' (Some (parts ! 1))
            else contract s ''FUT'' ''GLOBEX'' None)
      else if symbol_is_option symbol then contract s ''OPT'' ''SMART'' None
      else contract s ''STK'' ''SMART'' None)"

section \<open>The provider\<close>

record ib_provider =
  mp_client :: ib_client
  mp_subscriptions :: subscriptions
  mp_next_req_id :: i32
  mp_channel_size :: nat
  mp_event_processor :: bool

definition ib_provider_new :: "ib_client \<Rightarrow> nat \<Rightarrow> ib_provider" where
  "ib_provider_new client channel_size =
     \<lparr>mp_client = client, mp_subscriptions = hash_empty, mp_next_req_id = 1000,
      mp_channel_size = (if channel_size = 0 then 1000 else channel_size), mp_event_processor = False\<rparr>"

definition generate_req_id :: "ib_provider \<Rightarrow> i32 \<times> ib_provider" where
  "generate_req_id p = (mp_next_req_id p, p\<lparr>mp_next_req_id := mp_next_req_id p + 1\<rparr>)"

text \<open>
  The processing of the broker's events.  The subscription of a request is the first in the order of
  the map; \<open>Panic\<close> is an overflow in the midpoint.
\<close>

definition process_market_data ::
    "dec_ops \<Rightarrow> feed_ops \<Rightarrow> nat \<Rightarrow> i32 \<Rightarrow> market_data_update \<Rightarrow> subscriptions \<Rightarrow> (subscriptions, unit) res" where
  "process_market_data D E channel_size req_id u subs =
     (case find (\<lambda>s. si_req_id s = req_id) (hash_values subs) of
        None \<Rightarrow> Ok subs
      | Some sub \<Rightarrow>
          if is_bar_subscription sub
          then (case si_tick_tx sub of
                  None \<Rightarrow> Ok subs
                | Some tx \<Rightarrow>
                    (case convert_ib_tick D E (si_symbol sub) u of
                       Ok t \<Rightarrow>
                         Ok (hash_insert (symbol_str (si_symbol sub))
                               (sub\<lparr>si_tick_tx := Some (try_send channel_size t tx)\<rparr>) subs)
                     | Err e \<Rightarrow> Ok subs
                     | Panic \<Rightarrow> Panic))
          else Ok subs)"

definition process_feed_event ::
    "dec_ops \<Rightarrow> feed_ops \<Rightarrow> ib_event \<Rightarrow> ib_provider \<Rightarrow> (ib_provider, unit) res" where
  "process_feed_event D E ev p =
     (case ev of
        IBE_MarketData req_id u \<Rightarrow>
          bind (process_market_data D E (mp_channel_size p) req_id u (mp_subscriptions p)) (\<lambda>subs.
          Ok (p\<lparr>mp_subscriptions := subs\<rparr>))
      | IBE_Disconnected reason \<Rightarrow> Ok (p\<lparr>mp_subscriptions := hash_empty\<rparr>)
      | _ \<Rightarrow> Ok p)"

definition start_feed_processor :: "ib_provider \<Rightarrow> ib_provider" where
  "start_feed_processor p = p\<lparr>mp_event_processor := True\<rparr>"

definition unsubscribe_all :: "ib_provider \<Rightarrow> (unit, provider_error) res \<times> ib_provider" where
  "unsubscribe_all p = (Ok (), p\<lparr>mp_subscriptions := hash_empty\<rparr>)"

definition provider_connect ::
    "broker \<Rightarrow> ib_provider \<Rightarrow> ((unit, provider_error) res \<times> ib_provider) option" where
  "provider_connect B p =
     map_option (\<lambda>(r, _, c). (r, p\<lparr>mp_client := c\<rparr>)) (ensure_connected B (mp_client p))"

definition provider_disconnect ::
    "(unit, provider_error) res \<Rightarrow> ib_provider \<Rightarrow> (unit, provider_error) res \<times> ib_provider" where
  "provider_disconnect answer p =
     (case unsubscribe_all p of
        (Ok _, p1) \<Rightarrow>
          (case client_disconnect answer (mp_client p1) of
             (r, c) \<Rightarrow> (r, p1\<lparr>mp_event_processor := False, mp_client := c\<rparr>))
      | other \<Rightarrow> other)"

definition provider_is_connected :: "ib_provider \<Rightarrow> bool" where
  "provider_is_connected p = client_is_connected (mp_client p)"

definition subscription_failed :: "symbol \<Rightarrow> string \<Rightarrow> provider_error" where
  "subscription_failed symbol reason = Prov_SubscriptionFailed (symbol_str symbol) PROVIDER_NAME reason"

definition subscribe_bars ::
    "symbol \<Rightarrow> time_frame \<Rightarrow> ib_provider \<Rightarrow> (unit, provider_error) res \<times> ib_provider" where
  "subscribe_bars symbol timeframe p =
     (if \<not> provider_is_connected p then (Err (subscription_failed symbol ''Not connected''), p)
      else if hash_get (mp_subscriptions p) (symbol_str symbol) \<noteq> None
      then (Err (subscription_failed symbol ''Already subscribed''), p)
      else
        (case timeframe_to_ib_duration timeframe of
           Ok duration \<Rightarrow>
             (case generate_req_id p of
                (req_id, p1) \<Rightarrow>
                  (Ok (), p1\<lparr>mp_subscriptions :=
                            hash_insert (symbol_str symbol) (subscription_new_bar symbol timeframe req_id)
                              (mp_subscriptions p1)\<rparr>))
         | Err e \<Rightarrow> (Err e, p)
         | Panic \<Rightarrow> (Panic, p)))"

definition subscribe_ticks :: "symbol \<Rightarrow> ib_provider \<Rightarrow> (unit, provider_error) res \<times> ib_provider" where
  "subscribe_ticks symbol p =
     (if \<not> provider_is_connected p then (Err (subscription_failed symbol ''Not connected''), p)
      else if hash_get (mp_subscriptions p) (symbol_str symbol) \<noteq> None
      then (Err (subscription_failed symbol ''Already subscribed''), p)
      else
        (case generate_req_id p of
           (req_id, p1) \<Rightarrow>
             (Ok (), p1\<lparr>mp_subscriptions :=
                       hash_insert (symbol_str symbol) (subscription_new_tick symbol req_id) (mp_subscriptions p1)\<rparr>)))"

definition provider_unsubscribe :: "symbol \<Rightarrow> ib_provider \<Rightarrow> (unit, provider_error) res \<times> ib_provider" where
  "provider_unsubscribe symbol p =
     (Ok (), p\<lparr>mp_subscriptions := hash_remove (symbol_str symbol) (mp_subscriptions p)\<rparr>)"

section \<open>Contracts\<close>

lemma split_at_char_ne [simp]: "split_at_char c s \<noteq> []"
  by (cases s) (auto split: list.split)

lemma split_at_char_single: "split_at_char c s = [a] \<Longrightarrow> s = a"
  by (induction c s arbitrary: a rule: split_at_char.induct) (auto split: if_splits list.splits)

lemma split_at_char_pair: "split_at_char c s = [a, b] \<Longrightarrow> s = a @ c # b"
  by (induction c s arbitrary: a b rule: split_at_char.induct)
    (auto split: if_splits list.splits dest: split_at_char_single)

lemma split_at_char_two:
  "length (split_at_char c s) = 2 \<Longrightarrow> s = split_at_char c s ! 0 @ c # split_at_char c s ! 1"
  using split_at_char_pair by (cases "split_at_char c s"; cases "tl (split_at_char c s)") fastforce+

text \<open>
  A contract determines the symbol it was made for: the expiry a futures symbol carries is
  split off without loss, and every other symbol is kept whole; the security type is that of the
  symbol.
\<close>

theorem contract_determines_symbol:
  "symbol_str s =
     fc_symbol (create_contract s) @ (case fc_expiry (create_contract s) of None \<Rightarrow> [] | Some e \<Rightarrow> CHR ''/'' # e) \<and>
   fc_sec_type (create_contract s) =
     (if symbol_is_futures s then ''FUT'' else if symbol_is_option s then ''OPT'' else ''STK'')"
  using split_at_char_two [of "CHR ''/''" "symbol_str s"] by (simp add: create_contract_def Let_def)

section \<open>Bars\<close>

text \<open>
  Which bars of the broker become bars of the platform, and with what contents: those whose time
  is a time, whose four prices are positive decimals with open and close between low and high, and
  whose volume is not negative; every other one is an error, never a panic.
\<close>

theorem ib_bar_exact:
  "(convert_ib_bar D E s time x_open x_high x_low x_close volume tf = Ok b \<longleftrightarrow>
      (\<exists>t p h l c.
         fe_timestamp E time = Some t \<and> fe_retain E x_open = Some p \<and> fe_retain E x_high = Some h \<and>
         fe_retain E x_low = Some l \<and> fe_retain E x_close = Some c \<and>
         0 < l \<and> l \<le> p \<and> p \<le> h \<and> l \<le> c \<and> c \<le> h \<and> 0 \<le> sint volume \<and>
         b = \<lparr>bar_timestamp = t, bar_symbol = s, bar_open = Price p, bar_high = Price h, bar_low = Price l,
              bar_close = Price c, bar_volume = Volume volume, bar_timeframe = tf,
              bar_provider = ''InteractiveBrokers''\<rparr>)) \<and>
   convert_ib_bar D E s time x_open x_high x_low x_close volume tf \<noteq> Panic"
proof -
  have v: "validated D n x = Ok p \<longleftrightarrow> 0 < x \<and> p = Price x" "validated D n x \<noteq> Panic" for n x p
    by (auto simp: validated_def price_new_def)
  have r: "retained E n x = Ok y \<longleftrightarrow> fe_retain E x = Some y" "retained E n x \<noteq> Panic" for n x y
    by (simp_all add: retained_def res_simps split: option.split, cases "fe_retain E x", simp_all)
  have vol: "volume_new volume = Ok w \<longleftrightarrow> 0 \<le> sint volume \<and> w = Volume volume" "volume_new volume \<noteq> Panic" for w
    by (auto simp: volume_new_def)
  have n: "ok_or a e \<noteq> Panic" for a :: "timestamp option" and e :: provider_error
    by (cases a) simp_all
  have b: "bar_new D t s p h l c w tf q \<noteq> Panic" for t p h l c w q
    by (simp add: bar_new_def)
  have new: "bar_new D t s p h l c w tf q = Ok b \<longleftrightarrow>
      (price_inner l \<le> price_inner p \<and> price_inner p \<le> price_inner h \<and> price_inner l \<le> price_inner c \<and>
       price_inner c \<le> price_inner h \<and>
       b = \<lparr>bar_timestamp = t, bar_symbol = s, bar_open = p, bar_high = h, bar_low = l, bar_close = c,
            bar_volume = w, bar_timeframe = tf, bar_provider = q\<rparr>)" for t p h l c w q
    by (auto simp: bar_new_def)
  have "convert_ib_bar D E s time x_open x_high x_low x_close volume tf \<noteq> Panic"
    by (simp add: convert_ib_bar_def res_simps v r vol n b)
  moreover have "convert_ib_bar D E s time x_open x_high x_low x_close volume tf = Ok b \<longleftrightarrow>
      (\<exists>t p h l c.
         fe_timestamp E time = Some t \<and> fe_retain E x_open = Some p \<and> fe_retain E x_high = Some h \<and>
         fe_retain E x_low = Some l \<and> fe_retain E x_close = Some c \<and>
         0 < l \<and> l \<le> p \<and> p \<le> h \<and> l \<le> c \<and> c \<le> h \<and> 0 \<le> sint volume \<and>
         b = \<lparr>bar_timestamp = t, bar_symbol = s, bar_open = Price p, bar_high = Price h, bar_low = Price l,
              bar_close = Price c, bar_volume = Volume volume, bar_timeframe = tf,
              bar_provider = ''InteractiveBrokers''\<rparr>)"
    by (auto simp: convert_ib_bar_def res_simps v r vol new PROVIDER_NAME_def)
  ultimately show ?thesis by blast
qed

section \<open>Ticks\<close>

text \<open>
  Without a last trade, the price of a tick is the midpoint of bid and ask, which lies between
  them; it is computed without overflow when twice the ask is a decimal.
\<close>

theorem midpoint_between_quotes:
  assumes "dec_ok D" and "md_last u = None" and "md_bid u = Some (Price b)" and "md_ask u = Some (Price a)"
    and "0 < b" and "b \<le> a" and "\<forall>x \<in> {b, a, 2 * b, 2 * a}. representable x"
  shows "\<exists>t. convert_ib_tick D E s u = Ok t \<and> b \<le> price_inner (tick_price t) \<and> price_inner (tick_price t) \<le> a \<and>
           tick_symbol t = s \<and> tick_side t = None"
proof -
  obtain m where m: "d_add D b a = Some m" "2 * b \<le> m" "m \<le> 2 * a"
    using rounded_between [OF dec_ok_addD [OF assms(1), of b a], of "2 * b" "2 * a"] assms(6,7) by auto
  then obtain p where p: "d_div D m 2 = Some p" "b \<le> p" "p \<le> a"
    using rounded_between [OF dec_ok_divD [OF assms(1), of 2 m], of b a] assms(7) by auto
  with assms(2-5) m(1) show ?thesis
    by (auto simp: convert_ib_tick_def update_price_of_def price_new_def tick_new_def Let_def)
qed

text \<open>Arithmetic without rounding, conversions that are exact.\<close>

definition sample_feed :: feed_ops where
  "sample_feed =
     \<lparr>fe_retain = (\<lambda>x. case x of Finite y \<Rightarrow> Some y | _ \<Rightarrow> None), fe_show = (\<lambda>_. ''''),
      fe_timestamp = (\<lambda>t. Some (sint t * 10 ^ 9)), fe_to_i64 = (\<lambda>x. Some (word_of_int \<lfloor>x\<rfloor>)), fe_time = (\<lambda>_. '''')\<rparr>"

definition sample_quote :: market_data_update where
  "sample_quote = (market_data_update_default 0)\<lparr>md_bid := Some (Price 99), md_ask := Some (Price 101)\<rparr>"

theorem midpoint_between_quotes_witness:
  "\<exists>t. convert_ib_tick exact_dec sample_feed (Symbol ''AAPL'') sample_quote = Ok t \<and>
     99 \<le> price_inner (tick_price t) \<and> price_inner (tick_price t) \<le> 101"
proof -
  have "\<forall>x \<in> {99, 101, 2 * 99, 2 * 101}. representable x"
    using representable_of_int [of 99] representable_of_int [of 101] representable_of_int [of 198]
      representable_of_int [of 202] by simp
  from midpoint_between_quotes [OF dec_ok_exact _ _ _ _ _ this, of sample_quote sample_feed "Symbol ''AAPL''"]
  show ?thesis by (auto simp: sample_quote_def market_data_update_default_def)
qed

section \<open>What subscribers receive\<close>

text \<open>
  Every operation of the provider, what the client does meanwhile, any event of the broker given to
  the processing of events, and receivers that are dropped, in any order; the 32-bit counter of the
  requests does not overflow.
\<close>

definition hang_up :: "string \<Rightarrow> ib_provider \<Rightarrow> ib_provider" where
  "hang_up k p =
     (case hash_get (mp_subscriptions p) k of
        None \<Rightarrow> p
      | Some s \<Rightarrow>
          p\<lparr>mp_subscriptions := hash_insert k
              (s\<lparr>si_bar_tx := map_option (\<lambda>c. c\<lparr>ch_closed := True\<rparr>) (si_bar_tx s),
                 si_tick_tx := map_option (\<lambda>c. c\<lparr>ch_closed := True\<rparr>) (si_tick_tx s)\<rparr>) (mp_subscriptions p)\<rparr>)"

inductive feed_step :: "dec_ops \<Rightarrow> feed_ops \<Rightarrow> ib_provider \<Rightarrow> ib_provider \<Rightarrow> bool" for D E where
  connect: "provider_connect B p = Some (r, p') \<Longrightarrow> feed_step D E p p'"
| disconnect: "provider_disconnect answer p = (r, p') \<Longrightarrow> feed_step D E p p'"
| bars: "subscribe_bars s tf p = (r, p') \<Longrightarrow> sint (mp_next_req_id p) < 2 ^ 31 - 1 \<Longrightarrow> feed_step D E p p'"
| ticks: "subscribe_ticks s p = (r, p') \<Longrightarrow> sint (mp_next_req_id p) < 2 ^ 31 - 1 \<Longrightarrow> feed_step D E p p'"
| unsubscribe: "provider_unsubscribe s p = (r, p') \<Longrightarrow> feed_step D E p p'"
| event: "process_feed_event D E ev p = Ok p' \<Longrightarrow> feed_step D E p p'"
| client: "feed_step D E p (p\<lparr>mp_client := c\<rparr>)"
| receiver: "feed_step D E p (hang_up k p)"

definition nothing_queued :: "subscription_info \<Rightarrow> bool" where
  "nothing_queued s =
     ((case si_bar_tx s of None \<Rightarrow> True | Some c \<Rightarrow> ch_queue c = []) \<and>
      (case si_tick_tx s of None \<Rightarrow> True | Some c \<Rightarrow> ch_queue c = []) \<and>
      (is_bar_subscription s = (si_tick_tx s = None)) \<and> (is_bar_subscription s = (si_bar_tx s \<noteq> None)))"

definition entry_ok :: "i32 \<Rightarrow> string \<Rightarrow> subscription_info \<Rightarrow> bool" where
  "entry_ok next_id k s =
     (nothing_queued s \<and> symbol_str (si_symbol s) = k \<and> 1000 \<le> sint (si_req_id s) \<and>
      sint (si_req_id s) < sint next_id)"

definition subs_ok :: "i32 \<Rightarrow> subscriptions \<Rightarrow> bool" where
  "subs_ok next_id subs =
     ((\<forall>k s. hash_get subs k = Some s \<longrightarrow> entry_ok next_id k s) \<and>
      (\<forall>k k' s s'. hash_get subs k = Some s \<longrightarrow> hash_get subs k' = Some s' \<longrightarrow> si_req_id s = si_req_id s' \<longrightarrow>
         k = k'))"

definition provider_inv :: "ib_provider \<Rightarrow> bool" where
  "provider_inv p = (1000 \<le> sint (mp_next_req_id p) \<and> subs_ok (mp_next_req_id p) (mp_subscriptions p))"

lemma subs_ok_empty [simp]: "subs_ok n hash_empty"
  by (simp add: subs_ok_def)

lemma subs_ok_remove: "subs_ok n subs \<Longrightarrow> subs_ok n (hash_remove k subs)"
  by (auto simp: subs_ok_def split: if_splits)

lemma subs_ok_insert:
  assumes "subs_ok n subs" and "entry_ok m k s" and "sint n \<le> sint m"
    and "\<And>k' s'. hash_get subs k' = Some s' \<Longrightarrow> si_req_id s' = si_req_id s \<Longrightarrow> k' = k"
  shows "subs_ok m (hash_insert k s subs)"
proof -
  have "entry_ok m k' s'" if "hash_get subs k' = Some s'" for k' s'
    using assms(1,3) that by (fastforce simp: subs_ok_def entry_ok_def)
  moreover have "k' = k''" if "hash_get subs k' = Some s'" "hash_get subs k'' = Some s''" "si_req_id s' = si_req_id s''"
    for k' k'' s' s'' using assms(1) that by (auto simp: subs_ok_def)
  ultimately show ?thesis
    using assms(2,4) unfolding subs_ok_def by (simp add: eq_commute [of "si_req_id s"])
qed

lemma new_subscription_queues [simp]:
  "nothing_queued (subscription_new_bar s tf i)" "nothing_queued (subscription_new_tick s i)"
  by (simp_all add: nothing_queued_def subscription_new_bar_def subscription_new_tick_def channel_new_def
      is_bar_subscription_def)

text \<open>The heart of it: only a tick subscription has a channel for ticks, and only a bar subscription is served.\<close>

lemma market_data_ignored:
  assumes "subs_ok n subs"
  shows "process_market_data D E sz i u subs = Ok subs"
proof (cases "find (\<lambda>s. si_req_id s = i) (hash_values subs)")
  case (Some s)
  then have "s \<in> ran (hash_get subs)"
    by (auto simp: set_hash_values [symmetric] find_Some_iff)
  with assms have "is_bar_subscription s \<longrightarrow> si_tick_tx s = None"
    by (auto simp: ran_def subs_ok_def entry_ok_def nothing_queued_def)
  with Some show ?thesis by (auto simp: process_market_data_def split: option.split)
qed (simp add: process_market_data_def)

lemma subscribed_inv:
  assumes "provider_inv p" and "sint (mp_next_req_id p) < 2 ^ 31 - 1" and "si_req_id s = mp_next_req_id p"
    and "symbol_str (si_symbol s) = k" and "nothing_queued s"
  shows "provider_inv (p\<lparr>mp_next_req_id := mp_next_req_id p + 1,
           mp_subscriptions := hash_insert k s (mp_subscriptions p)\<rparr>)"
proof -
  have "subs_ok (mp_next_req_id p + 1) (hash_insert k s (mp_subscriptions p))"
  proof (rule subs_ok_insert)
    show "subs_ok (mp_next_req_id p) (mp_subscriptions p)" using assms(1) by (simp add: provider_inv_def)
    show "entry_ok (mp_next_req_id p + 1) k s"
      using assms sint_plus_1 [OF assms(2)] by (simp add: entry_ok_def provider_inv_def)
  next
    fix k' s' assume g: "hash_get (mp_subscriptions p) k' = Some s'" and eq: "si_req_id s' = si_req_id s"
    have "sint (si_req_id s') < sint (mp_next_req_id p)"
      using assms(1) g unfolding provider_inv_def subs_ok_def entry_ok_def by blast
    then show "k' = k" using eq assms(3) by simp
  qed (simp add: sint_plus_1 [OF assms(2)])
  with assms(1) sint_plus_1 [OF assms(2)] show ?thesis by (simp add: provider_inv_def)
qed

lemma hang_up_inv:
  assumes "provider_inv p"
  shows "provider_inv (hang_up k p)"
proof (cases "hash_get (mp_subscriptions p) k")
  case (Some s)
  let ?s = "s\<lparr>si_bar_tx := map_option (\<lambda>c. c\<lparr>ch_closed := True\<rparr>) (si_bar_tx s),
              si_tick_tx := map_option (\<lambda>c. c\<lparr>ch_closed := True\<rparr>) (si_tick_tx s)\<rparr>"
  have ok: "subs_ok (mp_next_req_id p) (mp_subscriptions p)" using assms by (simp add: provider_inv_def)
  have "nothing_queued ?s = nothing_queued s"
    by (cases "si_bar_tx s"; cases "si_tick_tx s") (simp_all add: nothing_queued_def is_bar_subscription_def)
  with ok Some have "entry_ok (mp_next_req_id p) k ?s" by (auto simp: subs_ok_def entry_ok_def)
  then have "subs_ok (mp_next_req_id p) (hash_insert k ?s (mp_subscriptions p))"
    by (rule subs_ok_insert [OF ok]) (use ok Some in \<open>auto simp: subs_ok_def\<close>)
  with assms Some show ?thesis by (simp add: hang_up_def provider_inv_def)
qed (use assms in \<open>simp add: hang_up_def\<close>)

lemma feed_step_inv: "feed_step D E p p' \<Longrightarrow> provider_inv p \<Longrightarrow> provider_inv p'"
proof (induction rule: feed_step.induct)
  case (connect B p r p')
  then show ?case by (auto simp: provider_connect_def provider_inv_def)
next
  case (disconnect answer p r p')
  then show ?case by (auto simp: provider_disconnect_def unsubscribe_all_def provider_inv_def split: prod.splits)
next
  case (bars s tf p r p')
  then show ?case
    by (auto simp: subscribe_bars_def generate_req_id_def split: if_splits res.splits
        intro!: subscribed_inv) (simp add: subscription_new_bar_def)+
next
  case (ticks s p r p')
  then show ?case
    by (auto simp: subscribe_ticks_def generate_req_id_def split: if_splits
        intro!: subscribed_inv) (simp add: subscription_new_tick_def)+
next
  case (unsubscribe s p r p')
  then show ?case by (auto simp: provider_unsubscribe_def provider_inv_def subs_ok_remove)
next
  case (event ev p p')
  then show ?case
    by (cases ev) (auto simp: process_feed_event_def provider_inv_def market_data_ignored)
next
  case (receiver p k)
  then show ?case by (simp add: hang_up_inv)
qed (simp add: provider_inv_def)

text \<open>
  However the provider is used and whatever the broker sends, no subscriber of bars or of ticks
  ever finds anything in its channel: market data serves bar subscriptions only, through a channel for
  ticks that they do not have.  The subscriptions themselves stay consistent: each under its symbol,
  no two with the same request, each request from below the counter.
\<close>

theorem feed_delivers_nothing:
  assumes "(feed_step D E)\<^sup>*\<^sup>* (ib_provider_new client sz) p" and "hash_get (mp_subscriptions p) k = Some s"
  shows "(\<forall>c. si_bar_tx s = Some c \<longrightarrow> ch_queue c = []) \<and> (\<forall>c. si_tick_tx s = Some c \<longrightarrow> ch_queue c = []) \<and>
         process_feed_event D E (IBE_MarketData i u) p = Ok p \<and>
         symbol_str (si_symbol s) = k \<and> sint (si_req_id s) < sint (mp_next_req_id p) \<and>
         (\<forall>k' s'. hash_get (mp_subscriptions p) k' = Some s' \<and> si_req_id s' = si_req_id s \<longrightarrow> k' = k)"
proof -
  have inv: "provider_inv p"
    using assms(1) by (induction rule: rtranclp_induct) (auto simp: ib_provider_new_def provider_inv_def dest: feed_step_inv)
  then have "subs_ok (mp_next_req_id p) (mp_subscriptions p)" by (simp add: provider_inv_def)
  then have "process_feed_event D E (IBE_MarketData i u) p = Ok p"
    by (simp add: process_feed_event_def market_data_ignored)
  moreover have "nothing_queued s \<and> symbol_str (si_symbol s) = k \<and> sint (si_req_id s) < sint (mp_next_req_id p) \<and>
         (\<forall>k' s'. hash_get (mp_subscriptions p) k' = Some s' \<and> si_req_id s' = si_req_id s \<longrightarrow> k' = k)"
    using inv assms(2) unfolding provider_inv_def subs_ok_def entry_ok_def by blast
  ultimately show ?thesis by (simp add: nothing_queued_def split: option.splits)
qed

theorem feed_delivers_nothing_witness:
  "process_feed_event exact_dec sample_feed (IBE_MarketData 1000 sample_quote)
     (snd (subscribe_ticks (Symbol ''AAPL'') (ib_provider_new connected_client 10))) =
   Ok (snd (subscribe_ticks (Symbol ''AAPL'') (ib_provider_new connected_client 10)))"
proof -
  let ?p = "ib_provider_new connected_client 10" let ?q = "snd (subscribe_ticks (Symbol ''AAPL'') ?p)"
  have "feed_step exact_dec sample_feed ?p ?q"
    by (rule feed_step.ticks [of "Symbol ''AAPL''" _ "fst (subscribe_ticks (Symbol ''AAPL'') ?p)"])
      (simp_all add: ib_provider_new_def)
  then have 1: "(feed_step exact_dec sample_feed)\<^sup>*\<^sup>* ?p ?q" by (rule r_into_rtranclp)
  have "hash_get (mp_subscriptions ?q) ''AAPL'' = Some (subscription_new_tick (Symbol ''AAPL'') 1000)"
    by (simp add: subscribe_ticks_def provider_is_connected_def ib_provider_new_def connected_client_def
        client_is_connected_def generate_req_id_def)
  from feed_delivers_nothing [OF 1 this] show ?thesis by blast
qed

end
