(* ===== verification/Redis_Cache.thy ===== *)
theory Redis_Cache
  imports Ports
begin

text \<open>
  The cache of \<open>crates/infrastructure/src/cache/redis.rs\<close>, with the errors of
  \<open>crates/infrastructure/src/errors.rs\<close>: operations on the keys of a Redis server behind a circuit
  breaker.  The server and the MessagePack encoding are parameters; what is used of them is stated by
  \<open>redis_ok\<close> and \<open>codec_ok\<close>.  A call of the breaker is one step.
\<close>

section \<open>Errors\<close>

datatype infrastructure_error =
    Infra_Database string
  | Infra_Connection string
  | Infra_Query string
  | Infra_Serialization string
  | Infra_ExternalApi string
  | Infra_Cache string
  | Infra_Configuration string
  | Infra_NotFound string
  | Infra_Timeout string

fun infrastructure_error_display :: "infrastructure_error \<Rightarrow> string" where
  "infrastructure_error_display (Infra_Database m) = ''Database error: '' @ m"
| "infrastructure_error_display (Infra_Connection m) = ''Connection error: '' @ m"
| "infrastructure_error_display (Infra_Query m) = ''Query error: '' @ m"
| "infrastructure_error_display (Infra_Serialization m) = ''Serialization error: '' @ m"
| "infrastructure_error_display (Infra_ExternalApi m) = ''External API error: '' @ m"
| "infrastructure_error_display (Infra_Cache m) = ''Cache error: '' @ m"
| "infrastructure_error_display (Infra_Configuration m) = ''Configuration error: '' @ m"
| "infrastructure_error_display (Infra_NotFound m) = ''Not found: '' @ m"
| "infrastructure_error_display (Infra_Timeout m) = ''Timeout: '' @ m"

section \<open>The circuit breaker\<close>

datatype redis_circuit_state = RC_Closed | RC_Open | RC_HalfOpen

fun redis_circuit_state_display :: "redis_circuit_state \<Rightarrow> string" where
  "redis_circuit_state_display RC_Closed = ''closed''"
| "redis_circuit_state_display RC_Open = ''open''"
| "redis_circuit_state_display RC_HalfOpen = ''half-open''"

record redis_circuit_config =
  rcc_failure_threshold :: u32
  rcc_timeout_duration :: int \<comment> \<open>nanoseconds\<close>
  rcc_success_threshold :: u32

definition redis_circuit_config_default :: redis_circuit_config where
  "redis_circuit_config_default =
     \<lparr>rcc_failure_threshold = 5, rcc_timeout_duration = 30 * 10 ^ 9, rcc_success_threshold = 3\<rparr>"

record redis_breaker =
  rb_state :: redis_circuit_state
  rb_config :: redis_circuit_config
  rb_failure_count :: u64
  rb_success_count :: u64
  rb_last_failure_time :: "instant option"

definition redis_breaker_with_config :: "redis_circuit_config \<Rightarrow> redis_breaker" where
  "redis_breaker_with_config config =
     \<lparr>rb_state = RC_Closed, rb_config = config, rb_failure_count = 0, rb_success_count = 0,
      rb_last_failure_time = None\<rparr>"

definition redis_breaker_new :: redis_breaker where
  "redis_breaker_new = redis_breaker_with_config redis_circuit_config_default"

fun transition_to :: "instant \<Rightarrow> redis_circuit_state \<Rightarrow> redis_breaker \<Rightarrow> redis_breaker" where
  "transition_to now RC_Closed b = b\<lparr>rb_state := RC_Closed, rb_failure_count := 0, rb_success_count := 0\<rparr>"
| "transition_to now RC_Open b =
     b\<lparr>rb_state := RC_Open, rb_last_failure_time := Some now, rb_success_count := 0\<rparr>"
| "transition_to now RC_HalfOpen b = b\<lparr>rb_state := RC_HalfOpen, rb_success_count := 0\<rparr>"

text \<open>The counters are compared with thresholds of 32 bits as 64-bit numbers.\<close>

definition rb_record_success :: "instant \<Rightarrow> redis_breaker \<Rightarrow> redis_breaker" where
  "rb_record_success now b =
     (case rb_state b of
        RC_HalfOpen \<Rightarrow>
          let b1 = b\<lparr>rb_success_count := rb_success_count b + 1\<rparr> in
          if unat (rcc_success_threshold (rb_config b)) \<le> unat (rb_success_count b1)
          then transition_to now RC_Closed b1 else b1
      | RC_Closed \<Rightarrow> b\<lparr>rb_failure_count := 0\<rparr>
      | RC_Open \<Rightarrow> b)"

definition rb_record_failure :: "instant \<Rightarrow> redis_breaker \<Rightarrow> redis_breaker" where
  "rb_record_failure now b =
     (case rb_state b of
        RC_Closed \<Rightarrow>
          let b1 = b\<lparr>rb_failure_count := rb_failure_count b + 1\<rparr> in
          if unat (rcc_failure_threshold (rb_config b)) \<le> unat (rb_failure_count b1)
          then transition_to now RC_Open b1 else b1
      | RC_HalfOpen \<Rightarrow> transition_to now RC_Open b
      | RC_Open \<Rightarrow> b\<lparr>rb_last_failure_time := Some now\<rparr>)"

definition rb_can_execute :: "instant \<Rightarrow> redis_breaker \<Rightarrow> bool \<times> redis_breaker" where
  "rb_can_execute now b =
     (case rb_state b of
        RC_Closed \<Rightarrow> (True, b)
      | RC_Open \<Rightarrow>
          (case rb_last_failure_time b of
             None \<Rightarrow> (False, b)
           | Some t \<Rightarrow>
               if rcc_timeout_duration (rb_config b) \<le> elapsed now t
               then (True, transition_to now RC_HalfOpen b) else (False, b))
      | RC_HalfOpen \<Rightarrow> (True, b))"

section \<open>Server and encoding\<close>

type_synonym bytes = "8 word list"

text \<open>The five commands; errors carry their text.  \<open>'w\<close> is whatever the server keeps.\<close>

record 'w redis_server =
  rs_get :: "string \<Rightarrow> ('w, bytes option, string) io"
  rs_set :: "string \<Rightarrow> bytes \<Rightarrow> ('w, unit, string) io"
  rs_setex :: "string \<Rightarrow> u64 \<Rightarrow> bytes \<Rightarrow> ('w, unit, string) io"
  rs_del :: "string \<Rightarrow> ('w, unit, string) io"
  rs_exists :: "string \<Rightarrow> ('w, bool, string) io"

record 'v codec =
  cd_encode :: "'v \<Rightarrow> (bytes, string) res"
  cd_decode :: "bytes \<Rightarrow> ('v, string) res"

section \<open>The cache\<close>

record redis_cache_config =
  rca_key_prefix :: string
  rca_default_ttl_secs :: u64
  rca_circuit_breaker :: redis_circuit_config
  rca_timeout :: int

definition redis_cache_config_default :: redis_cache_config where
  "redis_cache_config_default =
     \<lparr>rca_key_prefix = ''trading'', rca_default_ttl_secs = 3600,
      rca_circuit_breaker = redis_circuit_config_default, rca_timeout = 5 * 10 ^ 9\<rparr>"

record 'w redis_cache =
  rc_connection :: 'w
  rc_config :: redis_cache_config
  rc_circuit_breaker :: redis_breaker

text \<open>The answers of opening the client, connecting, and the first ping.\<close>

definition redis_cache_open ::
    "(unit, string) res \<Rightarrow> (unit, string) res \<Rightarrow> (unit, string) res \<Rightarrow> redis_cache_config \<Rightarrow> 'w \<Rightarrow>
     ('w redis_cache, infrastructure_error) res" where
  "redis_cache_open opened joined ping config w =
     bind (map_err (\<lambda>e. Infra_Cache (''Failed to create client: '' @ e)) opened) (\<lambda>_.
     bind (map_err (\<lambda>e. Infra_Connection (''Failed to connect: '' @ e)) joined) (\<lambda>_.
     bind (map_err (\<lambda>e. Infra_Connection (''Redis ping failed: '' @ e)) ping) (\<lambda>_.
     Ok \<lparr>rc_connection = w, rc_config = config,
         rc_circuit_breaker = redis_breaker_with_config (rca_circuit_breaker config)\<rparr>)))"

definition prefixed_key :: "redis_cache_config \<Rightarrow> string \<Rightarrow> string" where
  "prefixed_key config key = rca_key_prefix config @ '':'' @ key"

type_synonym ('w, 'a) cached = "'w redis_cache \<Rightarrow> ('a, infrastructure_error) res \<times> 'w redis_cache"

text \<open>The guard every operation starts with.\<close>

definition when_available :: "instant \<Rightarrow> ('w, 'a) cached \<Rightarrow> ('w, 'a) cached" where
  "when_available now k c =
     (case rb_can_execute now (rc_circuit_breaker c) of
        (ok, b) \<Rightarrow>
          let c1 = c\<lparr>rc_circuit_breaker := b\<rparr> in
          if ok then k c1 else (Err (Infra_Cache ''Circuit breaker open - Redis unavailable''), c1))"

definition on_breaker :: "(redis_breaker \<Rightarrow> redis_breaker) \<Rightarrow> 'w redis_cache \<Rightarrow> 'w redis_cache" where
  "on_breaker f c = c\<lparr>rc_circuit_breaker := f (rc_circuit_breaker c)\<rparr>"

text \<open>A command whose outcome is recorded; \<open>now\<close> is the time when it comes back.\<close>

definition recorded_command :: "instant \<Rightarrow> string \<Rightarrow> ('w, 'a, string) io \<Rightarrow> ('w, 'a) cached" where
  "recorded_command now name command c =
     (case command (rc_connection c) of
        (r, w) \<Rightarrow>
          let c1 = c\<lparr>rc_connection := w\<rparr> in
          (case r of
             Ok x \<Rightarrow> (Ok x, on_breaker (rb_record_success now) c1)
           | Err e \<Rightarrow> (Err (Infra_Cache (name @ '' error: '' @ e)), on_breaker (rb_record_failure now) c1)
           | Panic \<Rightarrow> (Panic, c1)))"

definition cache_get ::
    "'w redis_server \<Rightarrow> 'v codec \<Rightarrow> instant \<Rightarrow> instant \<Rightarrow> string \<Rightarrow> ('w, 'v option) cached" where
  "cache_get R C now now' key =
     when_available now (\<lambda>c.
       case rs_get R (prefixed_key (rc_config c) key) (rc_connection c) of
         (r, w) \<Rightarrow>
           let c1 = c\<lparr>rc_connection := w\<rparr> in
           (case r of
              Err e \<Rightarrow> (Err (Infra_Cache (''GET error: '' @ e)), c1)
            | Panic \<Rightarrow> (Panic, c1)
            | Ok (Some data) \<Rightarrow>
                (case cd_decode C data of
                   Ok v \<Rightarrow> (Ok (Some v), on_breaker (rb_record_success now') c1)
                 | Err e \<Rightarrow> (Err (Infra_Serialization (''Deserialization error: '' @ e)), c1)
                 | Panic \<Rightarrow> (Panic, c1))
            | Ok None \<Rightarrow> (Ok None, on_breaker (rb_record_success now') c1)))"

definition with_encoded :: "'v codec \<Rightarrow> 'v \<Rightarrow> (bytes \<Rightarrow> ('w, 'a) cached) \<Rightarrow> ('w, 'a) cached" where
  "with_encoded C v k c =
     (case cd_encode C v of
        Ok data \<Rightarrow> k data c
      | Err e \<Rightarrow> (Err (Infra_Serialization (''Serialization error: '' @ e)), c)
      | Panic \<Rightarrow> (Panic, c))"

definition cache_set ::
    "'w redis_server \<Rightarrow> 'v codec \<Rightarrow> instant \<Rightarrow> instant \<Rightarrow> string \<Rightarrow> 'v \<Rightarrow> ('w, unit) cached" where
  "cache_set R C now now' key v =
     when_available now (\<lambda>c.
       with_encoded C v (\<lambda>data.
         recorded_command now' ''SET'' (rs_set R (prefixed_key (rc_config c) key) data)) c)"

definition cache_setex ::
    "'w redis_server \<Rightarrow> 'v codec \<Rightarrow> instant \<Rightarrow> instant \<Rightarrow> string \<Rightarrow> 'v \<Rightarrow> u64 \<Rightarrow> ('w, unit) cached" where
  "cache_setex R C now now' key v ttl_secs =
     when_available now (\<lambda>c.
       with_encoded C v (\<lambda>data.
         recorded_command now' ''SETEX'' (rs_setex R (prefixed_key (rc_config c) key) ttl_secs data)) c)"

definition cache_delete :: "'w redis_server \<Rightarrow> instant \<Rightarrow> instant \<Rightarrow> string \<Rightarrow> ('w, unit) cached" where
  "cache_delete R now now' key =
     when_available now (\<lambda>c. recorded_command now' ''DEL'' (rs_del R (prefixed_key (rc_config c) key)) c)"

definition cache_exists :: "'w redis_server \<Rightarrow> instant \<Rightarrow> instant \<Rightarrow> string \<Rightarrow> ('w, bool) cached" where
  "cache_exists R now now' key =
     when_available now (\<lambda>c. recorded_command now' ''EXISTS'' (rs_exists R (prefixed_key (rc_config c) key)) c)"

definition cache_circuit_state :: "'w redis_cache \<Rightarrow> redis_circuit_state" where
  "cache_circuit_state c = rb_state (rc_circuit_breaker c)"

section \<open>What is used of the server and the encoding\<close>

text \<open>
  \<open>contents\<close> is what the server holds.  A reply means that the command was carried out; after an
  error a writing command may have been carried out or not.
\<close>

definition wrote :: "('a, 'e) res \<Rightarrow> (string \<Rightarrow> bytes option) \<Rightarrow> (string \<Rightarrow> bytes option) \<Rightarrow> string \<Rightarrow> bytes option \<Rightarrow> bool" where
  "wrote r m m' k d = (m' = m(k := d) \<or> \<not> is_ok r \<and> m' = m)"

definition redis_ok :: "'w redis_server \<Rightarrow> ('w \<Rightarrow> string \<Rightarrow> bytes option) \<Rightarrow> bool" where
  "redis_ok R contents =
     ((\<forall>k w. contents (snd (rs_get R k w)) = contents w \<and> (\<forall>x. fst (rs_get R k w) = Ok x \<longrightarrow> x = contents w k)) \<and>
      (\<forall>k d w. wrote (fst (rs_set R k d w)) (contents w) (contents (snd (rs_set R k d w))) k (Some d)) \<and>
      (\<forall>k t d w. wrote (fst (rs_setex R k t d w)) (contents w) (contents (snd (rs_setex R k t d w))) k (Some d)) \<and>
      (\<forall>k w. wrote (fst (rs_del R k w)) (contents w) (contents (snd (rs_del R k w))) k None) \<and>
      (\<forall>k w. contents (snd (rs_exists R k w)) = contents w \<and>
         (\<forall>x. fst (rs_exists R k w) = Ok x \<longrightarrow> x = (contents w k \<noteq> None))))"

definition codec_ok :: "'v codec \<Rightarrow> bool" where
  "codec_ok C = (\<forall>v d. cd_encode C v = Ok d \<longrightarrow> cd_decode C d = Ok v)"

text \<open>The cache as a map from its own keys.\<close>

definition cache_map :: "('w \<Rightarrow> string \<Rightarrow> bytes option) \<Rightarrow> 'w redis_cache \<Rightarrow> string \<Rightarrow> bytes option" where
  "cache_map contents c = (\<lambda>key. contents (rc_connection c) (prefixed_key (rc_config c) key))"

lemma redis_ok_get:
  "redis_ok R contents \<Longrightarrow>
     contents (snd (rs_get R k w)) = contents w \<and> (\<forall>x. fst (rs_get R k w) = Ok x \<longrightarrow> x = contents w k)"
  unfolding redis_ok_def by blast

lemma redis_ok_exists:
  "redis_ok R contents \<Longrightarrow>
     contents (snd (rs_exists R k w)) = contents w \<and>
     (\<forall>x. fst (rs_exists R k w) = Ok x \<longrightarrow> x = (contents w k \<noteq> None))"
  unfolding redis_ok_def by blast

lemma redis_ok_writes:
  assumes "redis_ok R contents"
  shows "wrote (fst (rs_set R k d w)) (contents w) (contents (snd (rs_set R k d w))) k (Some d)"
    and "wrote (fst (rs_setex R k t d w)) (contents w) (contents (snd (rs_setex R k t d w))) k (Some d)"
    and "wrote (fst (rs_del R k w)) (contents w) (contents (snd (rs_del R k w))) k None"
  using assms unfolding redis_ok_def by blast+

lemma wrote_Err [simp]: "wrote (Err e) m m k d"
  by (simp add: wrote_def)

text \<open>What reading a key returns for what is stored.\<close>

definition read_as :: "'v codec \<Rightarrow> bytes option \<Rightarrow> 'v option \<Rightarrow> bool" where
  "read_as C d x = (case d of None \<Rightarrow> x = None | Some b \<Rightarrow> (\<exists>v. x = Some v \<and> cd_decode C b = Ok v))"

lemma prefixed_key_inj [simp]: "prefixed_key config k = prefixed_key config k' \<longleftrightarrow> k = k'"
  by (simp add: prefixed_key_def)

lemma breaker_only [simp]:
  "cache_map contents (on_breaker f c) = cache_map contents c" "rc_config (on_breaker f c) = rc_config c"
  "cache_map contents (c\<lparr>rc_circuit_breaker := b\<rparr>) = cache_map contents c"
  "rc_connection (on_breaker f c) = rc_connection c"
  by (simp_all add: cache_map_def on_breaker_def)

text \<open>What a call does to the map: \<open>acts c r c' change\<close> relates it before, the result, and after.\<close>

definition acts ::
    "('w \<Rightarrow> string \<Rightarrow> bytes option) \<Rightarrow> ((string \<Rightarrow> bytes option) \<Rightarrow> ('a, infrastructure_error) res \<Rightarrow>
       (string \<Rightarrow> bytes option) \<Rightarrow> bool) \<Rightarrow> ('w, 'a) cached \<Rightarrow> bool" where
  "acts contents Q f =
     (\<forall>c. Q (cache_map contents c) (fst (f c)) (cache_map contents (snd (f c))) \<and>
          rc_config (snd (f c)) = rc_config c)"

lemma acts_available:
  fixes contents :: "'w \<Rightarrow> string \<Rightarrow> bytes option"
  assumes "acts contents Q f" and "\<And>m e. Q m (Err e) m"
  shows "acts contents Q (when_available now f)"
  unfolding acts_def
proof (intro allI)
  fix c :: "'w redis_cache"
  obtain ok b where b: "rb_can_execute now (rc_circuit_breaker c) = (ok, b)" by fastforce
  have "Q (cache_map contents (c\<lparr>rc_circuit_breaker := b\<rparr>)) (fst (f (c\<lparr>rc_circuit_breaker := b\<rparr>)))
      (cache_map contents (snd (f (c\<lparr>rc_circuit_breaker := b\<rparr>)))) \<and>
      rc_config (snd (f (c\<lparr>rc_circuit_breaker := b\<rparr>))) = rc_config (c\<lparr>rc_circuit_breaker := b\<rparr>)"
    using assms(1) unfolding acts_def by blast
  with b assms(2) show "Q (cache_map contents c) (fst (when_available now f c))
      (cache_map contents (snd (when_available now f c))) \<and> rc_config (snd (when_available now f c)) = rc_config c"
    by (simp add: when_available_def Let_def)
qed

lemma acts_write:
  fixes contents :: "'w \<Rightarrow> string \<Rightarrow> bytes option"
  assumes "\<And>c. wrote (fst (command c (rc_connection c))) (contents (rc_connection c))
      (contents (snd (command c (rc_connection c)))) (prefixed_key (rc_config c) k) d"
  shows "acts contents (\<lambda>m r m'. wrote r m m' k d) (\<lambda>c. recorded_command now name (command c) c)"
  unfolding acts_def
proof (intro allI)
  fix c :: "'w redis_cache"
  obtain r w where c: "command c (rc_connection c) = (r, w)" by fastforce
  have "wrote r (cache_map contents c) (cache_map contents (c\<lparr>rc_connection := w\<rparr>)) k d"
    using assms [of c] unfolding c by (auto simp: wrote_def cache_map_def fun_eq_iff)
  then show "wrote (fst (recorded_command now name (command c) c)) (cache_map contents c)
      (cache_map contents (snd (recorded_command now name (command c) c))) k d \<and>
      rc_config (snd (recorded_command now name (command c) c)) = rc_config c"
    by (cases r) (auto simp: recorded_command_def c Let_def wrote_def)
qed

definition stored :: "'v codec \<Rightarrow> 'v \<Rightarrow> string \<Rightarrow> (string \<Rightarrow> bytes option) \<Rightarrow> ('a, 'e) res \<Rightarrow> (string \<Rightarrow> bytes option) \<Rightarrow> bool" where
  "stored C v k m r m' = (case cd_encode C v of Ok d \<Rightarrow> wrote r m m' k (Some d) | _ \<Rightarrow> \<not> is_ok r \<and> m' = m)"

lemma stored_Err [simp]: "stored C v k m (Err e) m"
  by (simp add: stored_def wrote_def split: res.split)

lemma acts_encoded:
  assumes "\<And>d. acts contents (\<lambda>m r m'. wrote r m m' k (Some d)) (\<lambda>c. g c d c)"
  shows "acts contents (stored C v k) (\<lambda>c. with_encoded C v (g c) c)"
  using assms by (cases "cd_encode C v") (simp_all add: acts_def with_encoded_def stored_def)

lemma cache_set_acts:
  assumes "redis_ok R contents"
  shows "acts contents (stored C v k) (cache_set R C now now' k v)"
    and "acts contents (stored C v k) (cache_setex R C now now' k v ttl)"
  unfolding cache_set_def cache_setex_def
  by (intro acts_available acts_encoded acts_write; simp add: redis_ok_writes [OF assms])+

lemma cache_delete_acts:
  assumes "redis_ok R contents"
  shows "acts contents (\<lambda>m r m'. wrote r m m' k None) (cache_delete R now now' k)"
  unfolding cache_delete_def
  by (intro acts_available acts_write) (simp_all add: redis_ok_writes [OF assms])

lemma cache_exists_acts:
  fixes contents :: "'w \<Rightarrow> string \<Rightarrow> bytes option"
  assumes "redis_ok R contents"
  shows "acts contents (\<lambda>m r m'. m' = m \<and> (\<forall>x. r = Ok x \<longrightarrow> x = (m k \<noteq> None))) (cache_exists R now now' k)"
  unfolding cache_exists_def
proof (rule acts_available)
  show "acts contents (\<lambda>m r m'. m' = m \<and> (\<forall>x. r = Ok x \<longrightarrow> x = (m k \<noteq> None)))
     (\<lambda>c. recorded_command now' ''EXISTS'' (rs_exists R (prefixed_key (rc_config c) k)) c)"
    unfolding acts_def
  proof (intro allI)
    fix c :: "'w redis_cache"
    obtain r w where c: "rs_exists R (prefixed_key (rc_config c) k) (rc_connection c) = (r, w)" by fastforce
    have "contents w = contents (rc_connection c)"
        "\<And>x. r = Ok x \<Longrightarrow> x = (contents (rc_connection c) (prefixed_key (rc_config c) k) \<noteq> None)"
      using redis_ok_exists [OF assms, of "prefixed_key (rc_config c) k" "rc_connection c"] c by simp_all
    with c show "(cache_map contents (snd (recorded_command now' ''EXISTS'' (rs_exists R (prefixed_key (rc_config c) k)) c)) =
         cache_map contents c \<and>
         (\<forall>x. fst (recorded_command now' ''EXISTS'' (rs_exists R (prefixed_key (rc_config c) k)) c) = Ok x \<longrightarrow>
           x = (cache_map contents c k \<noteq> None))) \<and>
         rc_config (snd (recorded_command now' ''EXISTS'' (rs_exists R (prefixed_key (rc_config c) k)) c)) = rc_config c"
      by (cases r) (simp_all add: recorded_command_def Let_def cache_map_def on_breaker_def)
  qed
qed simp

lemma cache_get_acts:
  fixes contents :: "'w \<Rightarrow> string \<Rightarrow> bytes option"
  assumes "redis_ok R contents"
  shows "acts contents (\<lambda>m r m'. m' = m \<and> (\<forall>x. r = Ok x \<longrightarrow> read_as C (m k) x)) (cache_get R C now now' k)"
  unfolding cache_get_def
proof (rule acts_available, unfold acts_def, intro allI)
  fix c :: "'w redis_cache"
  obtain r w where c: "rs_get R (prefixed_key (rc_config c) k) (rc_connection c) = (r, w)" by fastforce
  have w: "contents w = contents (rc_connection c)"
      "\<And>x. r = Ok x \<Longrightarrow> x = contents (rc_connection c) (prefixed_key (rc_config c) k)"
    using redis_ok_get [OF assms, of "prefixed_key (rc_config c) k" "rc_connection c"] c by simp_all
  let ?f = "\<lambda>c. case rs_get R (prefixed_key (rc_config c) k) (rc_connection c) of
         (r, w) \<Rightarrow>
           let c1 = c\<lparr>rc_connection := w\<rparr> in
           (case r of
              Err e \<Rightarrow> (Err (Infra_Cache (''GET error: '' @ e)), c1)
            | Panic \<Rightarrow> (Panic, c1)
            | Ok (Some data) \<Rightarrow>
                (case cd_decode C data of
                   Ok v \<Rightarrow> (Ok (Some v), on_breaker (rb_record_success now') c1)
                 | Err e \<Rightarrow> (Err (Infra_Serialization (''Deserialization error: '' @ e)), c1)
                 | Panic \<Rightarrow> (Panic, c1))
            | Ok None \<Rightarrow> (Ok None, on_breaker (rb_record_success now') c1))"
  show "(cache_map contents (snd (?f c)) = cache_map contents c \<and>
          (\<forall>x. fst (?f c) = Ok x \<longrightarrow> read_as C (cache_map contents c k) x)) \<and> rc_config (snd (?f c)) = rc_config c"
    using w by (cases r; auto simp: c Let_def cache_map_def read_as_def on_breaker_def split: option.split res.split)
qed simp

section \<open>The cache as a map\<close>


text \<open>A server that always answers, over an association list.\<close>

type_synonym sample_store = "(string \<times> bytes) list"

definition sample_redis :: "sample_store redis_server" where
  "sample_redis =
     \<lparr>rs_get = (\<lambda>k w. (Ok (map_of w k), w)), rs_set = (\<lambda>k d w. (Ok (), (k, d) # w)),
      rs_setex = (\<lambda>k t d w. (Ok (), (k, d) # w)),
      rs_del = (\<lambda>k w. (Ok (), filter (\<lambda>x. fst x \<noteq> k) w)), rs_exists = (\<lambda>k w. (Ok (map_of w k \<noteq> None), w))\<rparr>"

definition sample_codec :: "8 word codec" where
  "sample_codec =
     \<lparr>cd_encode = (\<lambda>v. Ok [v]), cd_decode = (\<lambda>b. case b of [x] \<Rightarrow> Ok x | _ \<Rightarrow> Err ''length'')\<rparr>"

lemma sample_redis_ok: "redis_ok sample_redis map_of"
proof -
  have "map_of (filter (\<lambda>x. fst x \<noteq> k) w) = (map_of w)(k := None)" for k and w :: sample_store
    by (induction w) (auto simp: fun_eq_iff)
  then show ?thesis by (simp add: redis_ok_def sample_redis_def wrote_def)
qed

definition sample_cache :: "sample_store redis_cache" where
  "sample_cache = \<lparr>rc_connection = [], rc_config = redis_cache_config_default, rc_circuit_breaker = redis_breaker_new\<rparr>"


text \<open>One call of any kind, with the key it may change.\<close>

inductive cache_step ::
    "'w redis_server \<Rightarrow> 'v codec \<Rightarrow> 'w redis_cache \<Rightarrow> string option \<Rightarrow> 'w redis_cache \<Rightarrow> bool" for R C where
  get: "cache_step R C c None (snd (cache_get R C now now' k c))"
| set: "cache_step R C c (Some k) (snd (cache_set R C now now' k v c))"
| setex: "cache_step R C c (Some k) (snd (cache_setex R C now now' k v ttl c))"
| delete: "cache_step R C c (Some k) (snd (cache_delete R now now' k c))"
| exist: "cache_step R C c None (snd (cache_exists R now now' k c))"

lemma wrote_other: "wrote r m m' k d \<Longrightarrow> k' \<noteq> k \<Longrightarrow> m' k' = m k'"
  by (auto simp: wrote_def)

lemma stored_other: "stored C v k m r m' \<Longrightarrow> k' \<noteq> k \<Longrightarrow> m' k' = m k'"
  by (auto simp: stored_def wrote_def split: res.splits)

lemma cache_step_other:
  assumes "redis_ok R contents" and "cache_step R C c x c'" and "x \<noteq> Some key"
  shows "cache_map contents c' key = cache_map contents c key"
  using assms(2,3)
proof cases
  case (get now now' k)
  then show ?thesis using cache_get_acts [OF assms(1), of C k now now'] by (simp add: acts_def)
next
  case (set k now now' v)
  then show ?thesis
    using cache_set_acts(1) [OF assms(1), of C v k now now'] assms(3) stored_other unfolding acts_def by metis
next
  case (setex k now now' v ttl)
  then show ?thesis
    using cache_set_acts(2) [OF assms(1), of C v k now now' ttl] assms(3) stored_other unfolding acts_def by metis
next
  case (delete k now now')
  then show ?thesis
    using cache_delete_acts [OF assms(1), of k now now'] assms(3) wrote_other unfolding acts_def by metis
next
  case (exist now now' k)
  then show ?thesis using cache_exists_acts [OF assms(1), of k now now'] by (simp add: acts_def)
qed

text \<open>
  What was stored is read back.  After a \<open>set\<close> or \<open>setex\<close> that succeeded, and any further calls
  that do not write to its key, whatever their outcome, a read of the key that succeeds returns the
  value; only the expiry of a \<open>setex\<close> and other clients of the server are left out.
\<close>

theorem cached_value_read_back:
  fixes contents :: "'w \<Rightarrow> string \<Rightarrow> bytes option"
  assumes "redis_ok R contents" and "codec_ok C"
    and "cache_set R C now now' k v c = (Ok (), c1) \<or> cache_setex R C now now' k v ttl c = (Ok (), c1)"
    and "(\<lambda>c c'. \<exists>x. cache_step R C c x c' \<and> x \<noteq> Some k)\<^sup>*\<^sup>* c1 c2"
    and "cache_get R C t t' k c2 = (Ok r, c3)"
  shows "r = Some v"
proof -
  have "stored C v k (cache_map contents c) (Ok () :: (unit, infrastructure_error) res) (cache_map contents c1)"
    using assms(3)
  proof
    assume "cache_set R C now now' k v c = (Ok (), c1)"
    with cache_set_acts(1) [OF assms(1), of C v k now now'] show ?thesis unfolding acts_def by (metis fst_conv snd_conv)
  next
    assume "cache_setex R C now now' k v ttl c = (Ok (), c1)"
    with cache_set_acts(2) [OF assms(1), of C v k now now' ttl] show ?thesis unfolding acts_def by (metis fst_conv snd_conv)
  qed
  then obtain d where d: "cd_encode C v = Ok d" "cache_map contents c1 k = Some d"
    by (auto simp: stored_def wrote_def split: res.splits)
  have "cache_map contents c2 k = cache_map contents c1 k"
    using assms(4) by (induction rule: rtranclp_induct) (auto dest: cache_step_other [OF assms(1)])
  moreover have "read_as C (cache_map contents c2 k) r"
    using cache_get_acts [OF assms(1), of C k t t'] assms(5) unfolding acts_def by (metis fst_conv)
  ultimately show ?thesis using d assms(2) by (auto simp: read_as_def codec_ok_def)
qed

theorem cached_value_read_back_witness:
  "\<exists>c1 c2 r c3. cache_set sample_redis sample_codec 0 1 ''AAPL'' 7 sample_cache = (Ok (), c1) \<and>
     cache_delete sample_redis 2 3 ''MSFT'' c1 = (Ok (), c2) \<and>
     cache_get sample_redis sample_codec 4 5 ''AAPL'' c2 = (Ok r, c3) \<and> r = Some 7"
proof -
  note defs = cache_set_def cache_delete_def cache_get_def when_available_def rb_can_execute_def with_encoded_def
    recorded_command_def on_breaker_def rb_record_success_def sample_redis_def sample_codec_def sample_cache_def
    redis_breaker_new_def redis_breaker_with_config_def
  obtain c1 where 1: "cache_set sample_redis sample_codec 0 1 ''AAPL'' 7 sample_cache = (Ok (), c1)"
    by (simp add: defs)
  obtain c2 where 2: "cache_delete sample_redis 2 3 ''MSFT'' c1 = (Ok (), c2)"
    using 1 by (auto simp: defs)
  obtain r c3 where 3: "cache_get sample_redis sample_codec 4 5 ''AAPL'' c2 = (Ok r, c3)"
    using 1 2 by (auto simp: defs prefixed_key_def)
  have "cache_step sample_redis sample_codec c1 (Some ''MSFT'') c2"
    using cache_step.delete [of sample_redis sample_codec c1 "''MSFT''" 2 3] 2 by simp
  then have s: "(\<lambda>c c'. \<exists>x. cache_step sample_redis sample_codec c x c' \<and> x \<noteq> Some ''AAPL'')\<^sup>*\<^sup>* c1 c2"
    by (intro r_into_rtranclp exI [of _ "Some ''MSFT''"]) simp
  have "codec_ok sample_codec" by (simp add: codec_ok_def sample_codec_def)
  from cached_value_read_back [OF sample_redis_ok this disjI1 [OF 1] s 3] 1 2 3 show ?thesis by blast
qed

section \<open>The life of the breaker\<close>

inductive redis_breaker_step :: "redis_breaker \<Rightarrow> redis_breaker \<Rightarrow> bool" where
  success: "redis_breaker_step b (rb_record_success now b)"
| failure: "redis_breaker_step b (rb_record_failure now b)"
| asked: "redis_breaker_step b (snd (rb_can_execute now b))"

definition threshold :: "u32 \<Rightarrow> nat" where
  "threshold n = max 1 (unat n)"

lemma unat_count_plus_1: "unat (x :: u64) < threshold (n :: u32) \<Longrightarrow> unat (x + 1) = unat x + 1"
  using unsigned_less [of n, where ?'a = nat]
  by (subst unat_add_lem [THEN iffD1]) (simp_all add: threshold_def max_def split: if_splits)

lemma closed_successes: "rb_state b = RC_Closed \<Longrightarrow> rb_state (fold rb_record_success ts b) = RC_Closed"
  by (induction ts arbitrary: b) (simp_all add: rb_record_success_def)

lemma half_open_successes:
  assumes "rb_state b = RC_HalfOpen" and "unat (rb_success_count b) < threshold (rcc_success_threshold (rb_config b))"
  shows "rb_state (fold rb_record_success ts b) =
    (if unat (rb_success_count b) + length ts < threshold (rcc_success_threshold (rb_config b))
     then RC_HalfOpen else RC_Closed)"
  using assms
proof (induction ts arbitrary: b)
  case (Cons t ts)
  let ?b = "b\<lparr>rb_success_count := rb_success_count b + 1\<rparr>"
  let ?n = "threshold (rcc_success_threshold (rb_config b))"
  note 1 = unat_count_plus_1 [OF Cons.prems(2)]
  show ?case
  proof (cases "unat (rcc_success_threshold (rb_config b)) \<le> unat (rb_success_count b) + 1")
    case True
    then have "rb_record_success t b = transition_to t RC_Closed ?b" using Cons.prems 1
      by (simp add: rb_record_success_def)
    moreover have "\<not> unat (rb_success_count b) + length (t # ts) < ?n" using True by (simp add: threshold_def)
    ultimately show ?thesis using closed_successes [of "transition_to t RC_Closed ?b" ts] by simp
  next
    case False
    then have "rb_record_success t b = ?b" using Cons.prems 1 by (simp add: rb_record_success_def)
    moreover have "unat (rb_success_count ?b) < threshold (rcc_success_threshold (rb_config ?b))"
      using False 1 by (simp add: threshold_def)
    ultimately show ?thesis using Cons.IH [of ?b] Cons.prems 1 by simp
  qed
qed simp

lemma open_failures: "rb_state b = RC_Open \<Longrightarrow> rb_state (fold rb_record_failure ts b) = RC_Open"
  by (induction ts arbitrary: b) (simp_all add: rb_record_failure_def)

lemma closed_failures:
  assumes "rb_state b = RC_Closed" and "unat (rb_failure_count b) < threshold (rcc_failure_threshold (rb_config b))"
  shows "rb_state (fold rb_record_failure ts b) =
    (if unat (rb_failure_count b) + length ts < threshold (rcc_failure_threshold (rb_config b))
     then RC_Closed else RC_Open)"
  using assms
proof (induction ts arbitrary: b)
  case (Cons t ts)
  let ?b = "b\<lparr>rb_failure_count := rb_failure_count b + 1\<rparr>"
  let ?n = "threshold (rcc_failure_threshold (rb_config b))"
  note 1 = unat_count_plus_1 [OF Cons.prems(2)]
  show ?case
  proof (cases "unat (rcc_failure_threshold (rb_config b)) \<le> unat (rb_failure_count b) + 1")
    case True
    then have "rb_record_failure t b = transition_to t RC_Open ?b" using Cons.prems 1
      by (simp add: rb_record_failure_def)
    moreover have "\<not> unat (rb_failure_count b) + length (t # ts) < ?n" using True by (simp add: threshold_def)
    ultimately show ?thesis using open_failures [of "transition_to t RC_Open ?b" ts] by simp
  next
    case False
    then have "rb_record_failure t b = ?b" using Cons.prems 1 by (simp add: rb_record_failure_def)
    moreover have "unat (rb_failure_count ?b) < threshold (rcc_failure_threshold (rb_config ?b))"
      using False 1 by (simp add: threshold_def)
    ultimately show ?thesis using Cons.IH [of ?b] Cons.prems 1 by simp
  qed
qed simp

text \<open>
  What every reachable breaker keeps: its configuration, counters below their thresholds, and a time
  of failure while it is open.
\<close>

definition breaker_inv :: "redis_circuit_config \<Rightarrow> redis_breaker \<Rightarrow> bool" where
  "breaker_inv config b =
     (rb_config b = config \<and>
      (rb_state b = RC_Closed \<longrightarrow> unat (rb_failure_count b) < threshold (rcc_failure_threshold config)) \<and>
      (rb_state b = RC_HalfOpen \<longrightarrow> unat (rb_success_count b) < threshold (rcc_success_threshold config)) \<and>
      (rb_state b = RC_Open \<longrightarrow> rb_last_failure_time b \<noteq> None))"

lemma threshold_pos [simp]: "0 < threshold n"
  by (simp add: threshold_def)

lemma breaker_inv_step: "redis_breaker_step b b' \<Longrightarrow> breaker_inv config b \<Longrightarrow> breaker_inv config b'"
proof (induction rule: redis_breaker_step.induct)
  case (success b now)
  then show ?case
    by (cases "rb_state b")
      (auto simp: breaker_inv_def rb_record_success_def Let_def unat_count_plus_1 not_le threshold_def)
next
  case (failure b now)
  then show ?case
    by (cases "rb_state b")
      (auto simp: breaker_inv_def rb_record_failure_def Let_def unat_count_plus_1 not_le threshold_def)
next
  case (asked b now)
  then show ?case by (cases "rb_state b") (auto simp: breaker_inv_def rb_can_execute_def split: option.split)
qed

lemma breaker_inv_reachable:
  "redis_breaker_step\<^sup>*\<^sup>* (redis_breaker_with_config config) b \<Longrightarrow> breaker_inv config b"
proof (induction rule: rtranclp_induct)
  case base
  then show ?case by (simp add: breaker_inv_def redis_breaker_with_config_def)
qed (rule breaker_inv_step)

text \<open>
  C25: an open breaker always recovers.  Whatever happened before, it knows when the last failure was,
  refuses calls exactly until the timeout has passed since then, lets the next one through, and is
  closed again by the configured number of successes; a failure before that opens it again, and its
  timeout starts anew.
\<close>

theorem redis_breaker_recovers:
  assumes "redis_breaker_step\<^sup>*\<^sup>* (redis_breaker_with_config config) b" and "rb_state b = RC_Open"
  shows "\<exists>t. rb_last_failure_time b = Some t \<and>
    (\<forall>now. fst (rb_can_execute now b) = (rcc_timeout_duration config \<le> elapsed now t)) \<and>
    (\<forall>now ts. rcc_timeout_duration config \<le> elapsed now t \<longrightarrow>
       rb_state (fold rb_record_success ts (snd (rb_can_execute now b))) =
         (if length ts < threshold (rcc_success_threshold config) then RC_HalfOpen else RC_Closed)) \<and>
    (\<forall>now now' ts. rcc_timeout_duration config \<le> elapsed now t \<and> length ts < threshold (rcc_success_threshold config) \<longrightarrow>
       (let b' = rb_record_failure now' (fold rb_record_success ts (snd (rb_can_execute now b))) in
        rb_state b' = RC_Open \<and> rb_last_failure_time b' = Some now'))"
proof -
  from breaker_inv_reachable [OF assms(1)] assms(2) obtain t
    where t: "rb_last_failure_time b = Some t" and cfg: "rb_config b = config"
    by (auto simp: breaker_inv_def)
  have half: "rb_state (snd (rb_can_execute now b)) = RC_HalfOpen" "rb_success_count (snd (rb_can_execute now b)) = 0"
      "rb_config (snd (rb_can_execute now b)) = config"
    if "rcc_timeout_duration config \<le> elapsed now t" for now
    using that t cfg assms(2) by (simp_all add: rb_can_execute_def)
  have run: "rb_state (fold rb_record_success ts (snd (rb_can_execute now b))) =
         (if length ts < threshold (rcc_success_threshold config) then RC_HalfOpen else RC_Closed)"
    if "rcc_timeout_duration config \<le> elapsed now t" for now ts
    using half_open_successes [of "snd (rb_can_execute now b)" ts] half [OF that] by simp
  show ?thesis
  proof (intro exI conjI allI impI)
    show "fst (rb_can_execute now b) = (rcc_timeout_duration config \<le> elapsed now t)" for now
      using t cfg assms(2) by (simp add: rb_can_execute_def)
  next
    fix now now' :: instant and ts :: "instant list"
    assume a: "rcc_timeout_duration config \<le> elapsed now t \<and> length ts < threshold (rcc_success_threshold config)"
    with run [of now ts] have "rb_state (fold rb_record_success ts (snd (rb_can_execute now b))) = RC_HalfOpen"
      by simp
    then show "let b' = rb_record_failure now' (fold rb_record_success ts (snd (rb_can_execute now b))) in
        rb_state b' = RC_Open \<and> rb_last_failure_time b' = Some now'"
      by (simp add: rb_record_failure_def)
  qed (use t run in auto)
qed

theorem redis_breaker_recovers_witness:
  "let b = fold rb_record_failure [1, 2, 3, 4, 5] redis_breaker_new in
   rb_state (fold rb_record_success [7, 8, 9] (snd (rb_can_execute (31 * 10 ^ 9) b))) = RC_Closed"
proof -
  let ?b = "fold rb_record_failure [1, 2, 3, 4, 5] redis_breaker_new"
  have steps: "redis_breaker_step\<^sup>*\<^sup>* b (fold rb_record_failure ts b)" for ts :: "instant list" and b
    by (induction ts arbitrary: b) (auto intro: converse_rtranclp_into_rtranclp redis_breaker_step.failure)
  have o: "rb_state ?b = RC_Open"
    by (subst closed_failures)
      (simp_all add: redis_breaker_new_def redis_breaker_with_config_def redis_circuit_config_default_def threshold_def)
  from redis_breaker_recovers [OF steps [of redis_breaker_new, unfolded redis_breaker_new_def] this [unfolded redis_breaker_new_def]]
  obtain t where t: "rb_last_failure_time ?b = Some t"
      and r: "\<And>now ts. rcc_timeout_duration redis_circuit_config_default \<le> elapsed now t \<Longrightarrow>
       rb_state (fold rb_record_success ts (snd (rb_can_execute now ?b))) =
         (if length ts < threshold (rcc_success_threshold redis_circuit_config_default) then RC_HalfOpen else RC_Closed)"
    unfolding redis_breaker_new_def by blast
  have "t = 5"
    using t by (simp add: rb_record_failure_def redis_breaker_new_def redis_breaker_with_config_def
        redis_circuit_config_default_def Let_def)
  with r [of "31 * 10 ^ 9" "[7, 8, 9]"] show ?thesis
    by (simp add: redis_circuit_config_default_def threshold_def elapsed_def)
qed

section \<open>Failing reads\<close>

definition run_get :: "'w redis_server \<Rightarrow> 'v codec \<Rightarrow> instant \<times> instant \<times> string \<Rightarrow> 'w redis_cache \<Rightarrow> 'w redis_cache" where
  "run_get R C call c = (case call of (now, now', k) \<Rightarrow> snd (cache_get R C now now' k c))"

text \<open>
  Reads do not protect the server.  A read that fails, at the server or in the decoding, leaves the
  breaker as it was unless it was open: a closed breaker stays closed through any number of failing
  reads, and a half-open one stays half-open, letting every call through.
\<close>

theorem failing_reads_never_trip:
  assumes "rb_state (rc_circuit_breaker c) \<noteq> RC_Open"
    and "\<And>k w. fst (rs_get R k w) \<noteq> Ok None"
    and "\<And>k w d. fst (rs_get R k w) = Ok (Some d) \<Longrightarrow> \<not> is_ok (cd_decode C d)"
  shows "rc_circuit_breaker (fold (run_get R C) calls c) = rc_circuit_breaker c"
  using assms(1)
proof (induction calls arbitrary: c)
  case (Cons call calls)
  obtain now now' k where call: "call = (now, now', k)" by (cases call)
  obtain r w where g: "rs_get R (prefixed_key (rc_config c) k) (rc_connection c) = (r, w)" by fastforce
  have fail: "r \<noteq> Ok None" "\<And>d. r = Ok (Some d) \<Longrightarrow> \<not> is_ok (cd_decode C d)"
    using assms(2,3) [of "prefixed_key (rc_config c) k" "rc_connection c"] g by simp_all
  have "rb_can_execute now (rc_circuit_breaker c) = (True, rc_circuit_breaker c)"
    using Cons.prems by (cases "rb_state (rc_circuit_breaker c)") (simp_all add: rb_can_execute_def)
  then have "rc_circuit_breaker (run_get R C call c) = rc_circuit_breaker c"
    using fail by (auto simp: run_get_def call cache_get_def when_available_def g Let_def is_ok_iff
        split: res.split option.split)
  with Cons show ?case by simp
qed simp

definition silent_redis :: "sample_store redis_server" where
  "silent_redis = sample_redis\<lparr>rs_get := (\<lambda>k w. (Err ''timed out'', w))\<rparr>"

theorem failing_reads_never_trip_witness:
  "rb_state (rc_circuit_breaker (fold (run_get silent_redis sample_codec) (replicate 100 (0, 1, ''AAPL'')) sample_cache)) =
     RC_Closed"
  using failing_reads_never_trip [of sample_cache silent_redis sample_codec "replicate 100 (0, 1, ''AAPL'')"]
  by (simp add: sample_cache_def redis_breaker_new_def redis_breaker_with_config_def silent_redis_def)

end
