(* ===== verification/Health.thy ===== *)
theory Health
  imports Mem_Repos
begin

text \<open>
  Health checks, \<open>crates/infrastructure/src/health.rs\<close>: the status of components, the checker with its
  registered checks, the predefined checks, the answers of the health server, and the builder.  A
  check is a function of the outside world \<open>'w\<close>, which also tells how long it took; texts of times
  are an argument.
\<close>

section \<open>Status\<close>

datatype overall_health = OH_Healthy | OH_Degraded | OH_Unhealthy | OH_Unknown

fun overall_health_display :: "overall_health \<Rightarrow> string" where
  "overall_health_display OH_Healthy = ''healthy''"
| "overall_health_display OH_Degraded = ''degraded''"
| "overall_health_display OH_Unhealthy = ''unhealthy''"
| "overall_health_display OH_Unknown = ''unknown''"

datatype component_status = Up | Down | Unknown

fun component_status_display :: "component_status \<Rightarrow> string" where
  "component_status_display Up = ''up''"
| "component_status_display Down = ''down''"
| "component_status_display Unknown = ''unknown''"

record component_health =
  ch_status :: component_status
  ch_error :: "string option"
  ch_response_time_ms :: "u64 option"
  ch_last_check :: "string option"

record health_report =
  hs_status :: overall_health
  hs_timestamp :: string
  hs_version :: string
  hs_components :: "(string, component_health) hash_map"

text \<open>\<open>now\<close> is the current time in RFC 3339.\<close>

definition component_health_new :: "string \<Rightarrow> component_status \<Rightarrow> component_health" where
  "component_health_new now status =
     \<lparr>ch_status = status, ch_error = None, ch_response_time_ms = None, ch_last_check = Some now\<rparr>"

definition component_up :: "string \<Rightarrow> component_health" where
  "component_up now = component_health_new now Up"

definition component_down :: "string \<Rightarrow> string \<Rightarrow> component_health" where
  "component_down now error =
     \<lparr>ch_status = Down, ch_error = Some error, ch_response_time_ms = None, ch_last_check = Some now\<rparr>"

definition with_response_time :: "u64 \<Rightarrow> component_health \<Rightarrow> component_health" where
  "with_response_time ms h = h\<lparr>ch_response_time_ms := Some ms\<rparr>"

section \<open>The checker\<close>

text \<open>A check, with the milliseconds that passed.\<close>

type_synonym 'w health_check = "'w \<Rightarrow> component_health \<times> u64 \<times> 'w"

record 'w health_checker =
  hc_components :: "(string, component_health) hash_map"
  hc_check_functions :: "(string, 'w health_check) hash_map"
  hc_start_time :: instant
  hc_version :: string

definition health_checker_new :: "instant \<Rightarrow> string \<Rightarrow> 'w health_checker" where
  "health_checker_new now version =
     \<lparr>hc_components = hash_empty, hc_check_functions = hash_empty, hc_start_time = now, hc_version = version\<rparr>"

definition register_component :: "string \<Rightarrow> component_health \<Rightarrow> 'w health_checker \<Rightarrow> 'w health_checker" where
  "register_component name h c = c\<lparr>hc_components := hash_insert name h (hc_components c)\<rparr>"

definition register_check :: "string \<Rightarrow> 'w health_check \<Rightarrow> 'w health_checker \<Rightarrow> 'w health_checker" where
  "register_check name check c = c\<lparr>hc_check_functions := hash_insert name check (hc_check_functions c)\<rparr>"

definition update_component :: "string \<Rightarrow> component_health \<Rightarrow> 'w health_checker \<Rightarrow> 'w health_checker" where
  "update_component name h c = c\<lparr>hc_components := hash_insert name h (hc_components c)\<rparr>"

definition get_component :: "string \<Rightarrow> string \<Rightarrow> 'w health_checker \<Rightarrow> component_health" where
  "get_component now name c =
     (case hash_get (hc_components c) name of Some h \<Rightarrow> h | None \<Rightarrow> component_health_new now Unknown)"

definition calculate_overall_health :: "(string, component_health) hash_map \<Rightarrow> overall_health" where
  "calculate_overall_health components =
     (let statuses = map ch_status (hash_values components) in
      if statuses = [] then OH_Unknown
      else
        let up_count = length (filter (\<lambda>s. s = Up) statuses);
            down_count = length (filter (\<lambda>s. s = Down) statuses) in
        if down_count = 0 then OH_Healthy else if 0 < up_count then OH_Degraded else OH_Unhealthy)"

text \<open>The checks run one after another, in the order of the map.\<close>

primrec run_checks :: "(string \<times> 'w health_check) list \<Rightarrow> 'w health_checker \<Rightarrow> 'w \<Rightarrow> 'w health_checker \<times> 'w" where
  "run_checks [] c w = (c, w)"
| "run_checks (entry # entries) c w =
     (case snd entry w of
        (h, ms, w') \<Rightarrow> run_checks entries (update_component (fst entry) (with_response_time ms h) c) w')"

definition check_health :: "string \<Rightarrow> 'w health_checker \<Rightarrow> 'w \<Rightarrow> health_report \<times> 'w health_checker \<times> 'w" where
  "check_health now c w =
     (case run_checks (hash_entries (hc_check_functions c)) c w of
        (c', w') \<Rightarrow>
          (\<lparr>hs_status = calculate_overall_health (hc_components c'), hs_timestamp = now,
            hs_version = hc_version c', hs_components = hc_components c'\<rparr>, c', w'))"

definition is_ready :: "string \<Rightarrow> 'w health_checker \<Rightarrow> 'w \<Rightarrow> bool \<times> 'w health_checker \<times> 'w" where
  "is_ready now c w = (case check_health now c w of (r, c', w') \<Rightarrow> (hs_status r = OH_Healthy, c', w'))"

definition is_alive :: "instant \<Rightarrow> 'w health_checker \<Rightarrow> bool" where
  "is_alive now c = (elapsed now (hc_start_time c) < 300 * 10 ^ 9)"

definition health_uptime_secs :: "instant \<Rightarrow> 'w health_checker \<Rightarrow> u64" where
  "health_uptime_secs now c = word_of_int (elapsed now (hc_start_time c) div 10 ^ 9)"

section \<open>Predefined checks\<close>

text \<open>
  What the attempt to reach a service gave, or that it did not end in time.  The attempts of the
  database and the Redis check are placeholders that succeed; the third opens a connection.
\<close>

datatype reached = Reached | NotReached string | TookTooLong

definition service_check :: "string \<Rightarrow> string \<Rightarrow> string \<Rightarrow> reached \<Rightarrow> u64 \<Rightarrow> component_health" where
  "service_check error_text timeout_text now answer ms =
     (case answer of
        Reached \<Rightarrow> with_response_time ms (component_up now)
      | NotReached e \<Rightarrow> component_down now (error_text @ e)
      | TookTooLong \<Rightarrow> component_down now timeout_text)"

definition database_health_check :: "string \<Rightarrow> reached \<Rightarrow> u64 \<Rightarrow> component_health" where
  "database_health_check = service_check ''Database error: '' ''Database connection timeout''"

definition redis_health_check :: "string \<Rightarrow> reached \<Rightarrow> u64 \<Rightarrow> component_health" where
  "redis_health_check = service_check ''Redis error: '' ''Redis connection timeout''"

definition ib_health_check :: "string \<Rightarrow> reached \<Rightarrow> u64 \<Rightarrow> component_health" where
  "ib_health_check = service_check ''IB connection error: '' ''IB connection timeout''"

section \<open>The health server\<close>

definition HTTP_OK :: nat where "HTTP_OK = 200"
definition HTTP_SERVICE_UNAVAILABLE :: nat where "HTTP_SERVICE_UNAVAILABLE = 503"

definition health_handler :: "string \<Rightarrow> 'w health_checker \<Rightarrow> 'w \<Rightarrow> (nat \<times> health_report) \<times> 'w health_checker \<times> 'w" where
  "health_handler now c w =
     (case check_health now c w of
        (r, c', w') \<Rightarrow>
          ((case hs_status r of
              OH_Healthy \<Rightarrow> HTTP_OK
            | OH_Degraded \<Rightarrow> HTTP_OK
            | OH_Unhealthy \<Rightarrow> HTTP_SERVICE_UNAVAILABLE
            | OH_Unknown \<Rightarrow> HTTP_OK, r), c', w'))"

text \<open>The body of the answer is the fields of the JSON object.\<close>

definition readiness_handler ::
    "string \<Rightarrow> 'w health_checker \<Rightarrow> 'w \<Rightarrow> (nat \<times> bool \<times> string \<times> string) \<times> 'w health_checker \<times> 'w" where
  "readiness_handler now c w =
     (case check_health now c w of
        (r, c', w') \<Rightarrow>
          let ready = (hs_status r = OH_Healthy \<or> hs_status r = OH_Degraded \<or> hs_status r = OH_Unknown) in
          ((if ready then HTTP_OK else HTTP_SERVICE_UNAVAILABLE,
            ready, overall_health_display (hs_status r), hs_timestamp r), c', w'))"

definition liveness_handler :: "instant \<Rightarrow> instant \<Rightarrow> string \<Rightarrow> 'w health_checker \<Rightarrow> bool \<times> u64 \<times> string" where
  "liveness_handler now now' stamp c = (is_alive now c, health_uptime_secs now' c, stamp)"

section \<open>The builder\<close>

record health_checker_builder =
  hb_components :: "(string, component_health) hash_map"

definition builder_new :: health_checker_builder where
  "builder_new = \<lparr>hb_components = hash_empty\<rparr>"

definition with_component_up :: "string \<Rightarrow> string \<Rightarrow> health_checker_builder \<Rightarrow> health_checker_builder" where
  "with_component_up now name b = b\<lparr>hb_components := hash_insert name (component_up now) (hb_components b)\<rparr>"

definition with_component_down ::
    "string \<Rightarrow> string \<Rightarrow> string \<Rightarrow> health_checker_builder \<Rightarrow> health_checker_builder" where
  "with_component_down now name error b =
     b\<lparr>hb_components := hash_insert name (component_down now error) (hb_components b)\<rparr>"

text \<open>The loop over the components does nothing with them.\<close>

definition builder_build :: "instant \<Rightarrow> string \<Rightarrow> health_checker_builder \<Rightarrow> 'w health_checker" where
  "builder_build now version b = health_checker_new now version"

section \<open>What a report says\<close>

lemma overall_unknown_iff: "calculate_overall_health m = OH_Unknown \<longleftrightarrow> hash_values m = []"
  by (simp add: calculate_overall_health_def Let_def)

lemma overall_by_statuses:
  "calculate_overall_health m = OH_Healthy \<longleftrightarrow> hash_values m \<noteq> [] \<and> (\<forall>h \<in> set (hash_values m). ch_status h \<noteq> Down)"
  "calculate_overall_health m = OH_Degraded \<longleftrightarrow>
     (\<exists>h \<in> set (hash_values m). ch_status h = Down) \<and> (\<exists>h \<in> set (hash_values m). ch_status h = Up)"
  by (auto simp: calculate_overall_health_def Let_def filter_empty_conv filter_map comp_def)

text \<open>What running the checks leaves: each component with a check has its result, with the time it took.\<close>

primrec check_answers :: "(string \<times> 'w health_check) list \<Rightarrow> 'w \<Rightarrow> (string \<rightharpoonup> component_health)" where
  "check_answers [] w = Map.empty"
| "check_answers (entry # entries) w =
     (case snd entry w of (h, ms, w') \<Rightarrow> [fst entry \<mapsto> with_response_time ms h] ++ check_answers entries w')"

lemma run_checks_components:
  "hash_get (hc_components (fst (run_checks es c w))) = hash_get (hc_components c) ++ check_answers es w"
proof (induction es arbitrary: c w)
  case (Cons e es)
  obtain h ms w' where "snd e w = (h, ms, w')" by (cases "snd e w")
  with Cons show ?case by (simp add: update_component_def fun_eq_iff map_add_def split: option.split)
qed simp

text \<open>
  A health report is that of the checks.  After \<open>check_health\<close> every component with a registered
  check has the status the check gave just now, the others keep theirs, and the overall status is
  read off those: healthy when there are components and none is down, degraded when some are down
  and some up, unhealthy when some are down and none is up, unknown when there are none.
\<close>

theorem report_reflects_checks:
  "hash_get (hs_components (fst (check_health now c w))) =
     hash_get (hc_components c) ++ check_answers (hash_entries (hc_check_functions c)) w \<and>
   hs_status (fst (check_health now c w)) =
     (let hs = ran (hash_get (hs_components (fst (check_health now c w)))) in
      if hs = {} then OH_Unknown
      else if \<forall>h \<in> hs. ch_status h \<noteq> Down then OH_Healthy
      else if \<exists>h \<in> hs. ch_status h = Up then OH_Degraded else OH_Unhealthy)"
proof -
  obtain c' w' where run: "run_checks (hash_entries (hc_check_functions c)) c w = (c', w')"
    by fastforce
  have overall: "calculate_overall_health m =
      (if ran (hash_get m) = {} then OH_Unknown
       else if \<forall>h \<in> ran (hash_get m). ch_status h \<noteq> Down then OH_Healthy
       else if \<exists>h \<in> ran (hash_get m). ch_status h = Up then OH_Degraded else OH_Unhealthy)" for m
    unfolding set_hash_values [symmetric]
    by (auto simp: calculate_overall_health_def Let_def filter_empty_conv filter_map comp_def)
  show ?thesis
    using run_checks_components [of "hash_entries (hc_check_functions c)" c w] run
    by (simp add: check_health_def overall Let_def)
qed

text \<open>
  The two notions of readiness differ, and liveness expires.  The readiness endpoint answers that
  the service is ready exactly when \<open>is_ready\<close> does or the service is degraded or nothing is known of
  it; and from five minutes after the start on the liveness endpoint answers that it is dead.
\<close>

theorem probes_answer:
  "fst (snd (fst (readiness_handler now c w))) =
     (fst (is_ready now c w) \<or> hs_status (fst (check_health now c w)) \<in> {OH_Degraded, OH_Unknown}) \<and>
   fst (fst (health_handler now c w)) = fst (fst (readiness_handler now c w)) \<and>
   fst (liveness_handler t t' now c) = (elapsed t (hc_start_time c) < 300 * 10 ^ 9)"
proof -
  obtain r c' w' where "check_health now c w = (r, c', w')" by (cases "check_health now c w")
  then show ?thesis
    by (cases "hs_status r")
      (simp_all add: readiness_handler_def is_ready_def health_handler_def liveness_handler_def is_alive_def Let_def)
qed

text \<open>
  Whatever components a builder was given, the checker it builds has none of them, and reports
  that nothing is known, with success.
\<close>

theorem builder_forgets_components:
  "hs_status (fst (check_health now (builder_build t v b) w)) = OH_Unknown \<and>
   fst (fst (health_handler now (builder_build t v b) w)) = HTTP_OK \<and>
   ch_status (get_component now name (builder_build t v b)) = Unknown"
  by (simp add: builder_build_def health_checker_new_def check_health_def health_handler_def get_component_def
      component_health_new_def calculate_overall_health_def)

end
