(* ===== verification/Db_Connection.thy ===== *)
theory Db_Connection
  imports Ports
begin

text \<open>
  What the repositories of \<open>crates/infrastructure/src/database\<close> share: the connection, the errors of
  the driver, and the retries.  A table is the list of its rows and each SQL statement a function on it.
  Whether the connection carries a statement is not up to the program: a script gives the error of each
  statement to come, or none; a statement that fails has not run.
\<close>

section \<open>The connection\<close>

datatype db_error_kind = Unique_Violation | Foreign_Key_Violation | Other_Violation

datatype sqlx_error =
    Sqlx_RowNotFound
  | Sqlx_Database db_error_kind string
  | Sqlx_PoolTimedOut
  | Sqlx_PoolClosed
  | Sqlx_Io string
  | Sqlx_Tls string
  | Sqlx_Other string

record 't db =
  db_table :: "'t list"
  db_script :: "sqlx_error option list"
  db_slept :: "int list" \<comment> \<open>milliseconds\<close>
  db_clock :: "nat \<Rightarrow> timestamp"
  db_reads :: nat \<comment> \<open>clock readings so far\<close>

definition utc_now :: "('t db, timestamp, 'e) io" where
  "utc_now w = (Ok (db_clock w (db_reads w)), w\<lparr>db_reads := db_reads w + 1\<rparr>)"

definition run_stmt :: "('t list \<Rightarrow> 'a \<times> 't list) \<Rightarrow> ('t db, 'a, sqlx_error) io" where
  "run_stmt stmt w =
     (let w' = w\<lparr>db_script := tl (db_script w)\<rparr> in
      case (case db_script w of [] \<Rightarrow> None | outcome # _ \<Rightarrow> outcome) of
        Some e \<Rightarrow> (Err e, w')
      | None \<Rightarrow> (case stmt (db_table w) of (x, t) \<Rightarrow> (Ok x, w'\<lparr>db_table := t\<rparr>)))"

text \<open>A statement that the database refuses leaves the table as it is.\<close>

definition run_checked :: "('t list \<Rightarrow> ('t list, sqlx_error) res) \<Rightarrow> ('t db, unit, sqlx_error) io" where
  "run_checked stmt =
     io_bind (run_stmt (\<lambda>t. case stmt t of Ok t' \<Rightarrow> (Ok (), t') | Err e \<Rightarrow> (Err e, t) | Panic \<Rightarrow> (Panic, t)))
       io_lift"

text \<open>A query leaves the table as it is.\<close>

definition run_query :: "('t list \<Rightarrow> 'a) \<Rightarrow> ('t db, 'a, sqlx_error) io" where
  "run_query q = run_stmt (\<lambda>t. (q t, t))"

definition repository_error_connection :: "string \<Rightarrow> repository_error" where
  "repository_error_connection reason = Repo_ConnectionFailed"

definition repository_error_serialization :: "string \<Rightarrow> repository_error" where
  "repository_error_serialization reason = Repo_SerializationFailed reason"

text \<open>The text of an error of the driver is an argument.\<close>

definition map_sqlx_error_for :: "string \<Rightarrow> (sqlx_error \<Rightarrow> string) \<Rightarrow> sqlx_error \<Rightarrow> repository_error" where
  "map_sqlx_error_for entity txt e =
     (case e of
        Sqlx_RowNotFound \<Rightarrow> repository_error_not_found entity
      | Sqlx_Database kind msg \<Rightarrow>
          if kind = Unique_Violation then repository_error_duplicate_key msg
          else if kind = Foreign_Key_Violation
          then repository_error_constraint_violation (''Foreign key violation: '' @ msg)
          else repository_error_query (''Database error: '' @ msg)
      | Sqlx_PoolTimedOut \<Rightarrow> repository_error_connection ''Database pool unavailable''
      | Sqlx_PoolClosed \<Rightarrow> repository_error_connection ''Database pool unavailable''
      | Sqlx_Io _ \<Rightarrow> repository_error_query (''Unexpected database error: '' @ txt e)
      | Sqlx_Tls _ \<Rightarrow> repository_error_query (''Unexpected database error: '' @ txt e)
      | Sqlx_Other _ \<Rightarrow> repository_error_query (''Unexpected database error: '' @ txt e))"

definition map_sqlx_error :: "(sqlx_error \<Rightarrow> string) \<Rightarrow> sqlx_error \<Rightarrow> repository_error" where
  "map_sqlx_error = map_sqlx_error_for ''Order''"

fun is_transient :: "sqlx_error \<Rightarrow> bool" where
  "is_transient Sqlx_PoolTimedOut = True"
| "is_transient Sqlx_PoolClosed = True"
| "is_transient (Sqlx_Io _) = True"
| "is_transient _ = False"

definition MAX_RETRIES :: nat where
  "MAX_RETRIES = 5"

definition INITIAL_RETRY_DELAY_MS :: int where
  "INITIAL_RETRY_DELAY_MS = 100"

definition MAX_RETRY_DELAY_MS :: int where
  "MAX_RETRY_DELAY_MS = 5000"

text \<open>
  The attempts that are left when the loop reaches attempt \<open>MAX_RETRIES - left + 1\<close>; \<open>transient\<close> and
  \<open>mapped\<close> are the classification and the mapping of errors by the repository.
\<close>

primrec retry_when ::
    "(sqlx_error \<Rightarrow> bool) \<Rightarrow> (sqlx_error \<Rightarrow> 'e) \<Rightarrow> 'e \<Rightarrow> ('t db, 'a, sqlx_error) io \<Rightarrow> nat \<Rightarrow> int \<Rightarrow>
     ('t db, 'a, 'e) io" where
  "retry_when transient mapped exceeded f 0 delay w = (Err exceeded, w)"
| "retry_when transient mapped exceeded f (Suc left) delay w =
     (case f w of
        (Ok x, w') \<Rightarrow> (Ok x, w')
      | (Panic, w') \<Rightarrow> (Panic, w')
      | (Err e, w') \<Rightarrow>
          if \<not> transient e \<or> left = 0 then (Err (mapped e), w')
          else retry_when transient mapped exceeded f left (min (delay * 2) MAX_RETRY_DELAY_MS)
                 (w'\<lparr>db_slept := db_slept w' @ [delay]\<rparr>))"

abbreviation retry_from ::
    "(sqlx_error \<Rightarrow> 'e) \<Rightarrow> 'e \<Rightarrow> ('t db, 'a, sqlx_error) io \<Rightarrow> nat \<Rightarrow> int \<Rightarrow> ('t db, 'a, 'e) io" where
  "retry_from \<equiv> retry_when is_transient"

definition with_retry ::
    "(sqlx_error \<Rightarrow> string) \<Rightarrow> ('t db, 'a, sqlx_error) io \<Rightarrow> ('t db, 'a, repository_error) io" where
  "with_retry txt f =
     retry_from (map_sqlx_error txt) (repository_error_connection ''Max retries exceeded'') f
       MAX_RETRIES INITIAL_RETRY_DELAY_MS"

section \<open>Statements and retries\<close>

lemma run_stmt_cases:
  assumes "run_stmt stmt w = (r, w')"
  shows "(\<exists>x t. stmt (db_table w) = (x, t) \<and> r = Ok x \<and> db_table w' = t) \<or>
    (\<exists>e. r = Err e \<and> db_table w' = db_table w)"
  using assms by (auto simp: run_stmt_def Let_def split: option.splits prod.splits list.splits)

lemma run_stmt_script:
  "db_script w = Some e # rest \<Longrightarrow> run_stmt stmt w = (Err e, w\<lparr>db_script := rest\<rparr>)"
  "db_script w = None # rest \<Longrightarrow> run_stmt stmt w =
     (Ok (fst (stmt (db_table w))), w\<lparr>db_script := rest, db_table := snd (stmt (db_table w))\<rparr>)"
  "db_script w = [] \<Longrightarrow> run_stmt stmt w =
     (Ok (fst (stmt (db_table w))), w\<lparr>db_table := snd (stmt (db_table w))\<rparr>)"
  by (simp_all add: run_stmt_def Let_def case_prod_unfold)

lemma run_checked_cases:
  assumes "run_checked stmt w = (r, w')"
  shows "(r = Ok () \<and> stmt (db_table w) = Ok (db_table w')) \<or> (r = Panic \<and> stmt (db_table w) = Panic) \<or>
    (\<exists>e. r = Err e \<and> db_table w' = db_table w)"
proof -
  obtain r1 w1 where run: "run_stmt (\<lambda>t. case stmt t of Ok t' \<Rightarrow> (Ok (), t') | Err e \<Rightarrow> (Err e, t) | Panic \<Rightarrow> (Panic, t))
      w = (r1, w1)" by force
  with assms run_stmt_cases [OF run] show ?thesis
    by (auto simp: run_checked_def io_bind_def io_lift_def split: res.splits)
qed

lemma run_checked_good:
  "db_script w = [] \<Longrightarrow> run_checked stmt w = (case stmt (db_table w) of
     Ok t \<Rightarrow> (Ok (), w\<lparr>db_table := t\<rparr>) | Err e \<Rightarrow> (Err e, w) | Panic \<Rightarrow> (Panic, w))"
  by (simp add: run_checked_def io_bind_def io_lift_def run_stmt_script split: res.split)

text \<open>
  However often a computation is tried whose errors leave the table alone: what a success of it says
  of the table holds of a success of the loop, and an error leaves the table alone.
\<close>

lemma retry_when_cases:
  assumes "\<And>w r w'. f w = (r, w') \<Longrightarrow>
      (\<exists>x. r = Ok x \<and> Q x (db_table w) (db_table w')) \<or> (\<exists>e. r = Err e \<and> db_table w' = db_table w)"
    and "retry_when transient mapped exceeded f left delay w = (r, w')"
  shows "(\<exists>x. r = Ok x \<and> Q x (db_table w) (db_table w')) \<or> (\<exists>e. r = Err e \<and> db_table w' = db_table w)"
  using assms(2)
proof (induction left arbitrary: delay w)
  case (Suc left)
  obtain res w1 where run: "f w = (res, w1)" by (cases "f w")
  show ?case
  proof (cases res)
    case (Err e)
    then have t: "db_table w1 = db_table w" using assms(1) [OF run] by auto
    show ?thesis
    proof (cases "\<not> transient e \<or> left = 0")
      case True
      with Suc.prems run Err t show ?thesis by auto
    next
      case False
      with Suc.prems run Err have "retry_when transient mapped exceeded f left
          (min (delay * 2) MAX_RETRY_DELAY_MS) (w1\<lparr>db_slept := db_slept w1 @ [delay]\<rparr>) = (r, w')"
        by simp
      from Suc.IH [OF this] t show ?thesis by simp
    qed
  qed (use Suc.prems run assms(1) [OF run] in auto)
qed auto

lemma retry_from_cases:
  assumes "retry_when transient mapped exceeded (run_stmt stmt) left delay w = (r, w')"
  shows "(\<exists>x t. stmt (db_table w) = (x, t) \<and> r = Ok x \<and> db_table w' = t) \<or>
    (\<exists>e. r = Err e \<and> db_table w' = db_table w)"
  using retry_when_cases [OF _ assms, of "\<lambda>x t t'. stmt t = (x, t')"] run_stmt_cases by blast

text \<open>What is put first in a connection without faults is not tried again.\<close>

lemma retry_when_first:
  "f w = (Ok x, w') \<Longrightarrow> retry_when transient mapped exceeded f (Suc left) delay w = (Ok x, w')"
  "f w = (Err e, w') \<Longrightarrow> \<not> transient e \<Longrightarrow>
     retry_when transient mapped exceeded f (Suc left) delay w = (Err (mapped e), w')"
  by simp_all

lemma with_retry_cases:
  assumes "with_retry txt (run_stmt stmt) w = (r, w')"
  shows "(\<exists>x t. stmt (db_table w) = (x, t) \<and> r = Ok x \<and> db_table w' = t) \<or>
    (\<exists>e. r = Err e \<and> db_table w' = db_table w)"
  using assms unfolding with_retry_def by (rule retry_from_cases)

lemma run_query_frame: "keeps db_table (run_query q)"
  by (auto simp: keeps_def run_query_def run_stmt_def Let_def split: option.splits list.splits)

lemma utc_now_frame: "keeps db_table utc_now"
  by (simp add: keeps_def utc_now_def)

lemma retry_from_good:
  "db_script w = [] \<Longrightarrow> retry_from mapped exceeded (run_stmt stmt) (Suc left) delay w =
     (Ok (fst (stmt (db_table w))), w\<lparr>db_table := snd (stmt (db_table w))\<rparr>)"
  by (simp add: run_stmt_script)

text \<open>The pauses between attempts: each twice the one before, up to the maximum.\<close>

primrec delays :: "nat \<Rightarrow> int \<Rightarrow> int list" where
  "delays 0 delay = []"
| "delays (Suc n) delay = delay # delays n (min (delay * 2) MAX_RETRY_DELAY_MS)"

lemma retry_from_script:
  assumes "list_all is_transient es" and "db_script w = map Some es @ None # rest" and "0 < left"
  shows "retry_from mapped exceeded (run_stmt stmt) left delay w =
    (if length es < left
     then (Ok (fst (stmt (db_table w))),
           w\<lparr>db_script := rest, db_table := snd (stmt (db_table w)),
             db_slept := db_slept w @ delays (length es) delay\<rparr>)
     else (Err (mapped (es ! (left - 1))),
           w\<lparr>db_script := map Some (drop left es) @ None # rest,
             db_slept := db_slept w @ delays (left - 1) delay\<rparr>))"
  using assms
proof (induction left arbitrary: es w delay)
  case (Suc left)
  show ?case
  proof (cases es)
    case Nil
    with Suc.prems show ?thesis by (simp add: run_stmt_script)
  next
    case (Cons e es')
    let ?w = "w\<lparr>db_script := map Some es' @ None # rest\<rparr>"
    from Cons Suc.prems have run: "run_stmt stmt w = (Err e, ?w)" and e: "is_transient e"
      and es': "list_all is_transient es'" by (simp_all add: run_stmt_script)
    show ?thesis
    proof (cases left)
      case 0
      then show ?thesis using run Cons by simp
    next
      case (Suc l)
      have "retry_from mapped exceeded (run_stmt stmt) (Suc left) delay w =
          retry_from mapped exceeded (run_stmt stmt) left (min (delay * 2) MAX_RETRY_DELAY_MS)
            (?w\<lparr>db_slept := db_slept w @ [delay]\<rparr>)"
        using run e Suc by simp
      also have "\<dots> = (if length es' < left
          then (Ok (fst (stmt (db_table w))),
                w\<lparr>db_script := rest, db_table := snd (stmt (db_table w)),
                  db_slept := (db_slept w @ [delay]) @ delays (length es') (min (delay * 2) MAX_RETRY_DELAY_MS)\<rparr>)
          else (Err (mapped (es' ! (left - 1))),
                w\<lparr>db_script := map Some (drop left es') @ None # rest,
                  db_slept := (db_slept w @ [delay]) @ delays (left - 1) (min (delay * 2) MAX_RETRY_DELAY_MS)\<rparr>))"
        using Suc.IH [OF es', of "?w\<lparr>db_slept := db_slept w @ [delay]\<rparr>" "min (delay * 2) MAX_RETRY_DELAY_MS"] \<open>left = Suc l\<close>
        by simp
      finally show ?thesis using Cons Suc by simp
    qed
  qed
qed simp

text \<open>Reading the rows of a query that selects by \<open>c\<close> and orders by \<open>k\<close>, row by row.\<close>

lemma list_all2_restrict:
  "list_all2 R xs ys \<Longrightarrow> list_all P ys \<Longrightarrow> (\<And>x y. R x y \<Longrightarrow> P y \<Longrightarrow> Q x y) \<Longrightarrow> list_all2 Q xs ys"
  by (induction rule: list_all2_induct) auto

lemma map_res_commute:
  assumes "list_all2 (\<lambda>row f. r row = Ok (h f) \<and> c row = d f \<and> (k row :: int) = l f) t fs"
  shows "map_res r (sort_key k (filter c t)) = Ok (map h (sort_key l (filter d fs)))"
proof -
  have ins: "list_all2 (\<lambda>row f. r row = Ok (h f) \<and> k row = l f) (insort_key k row rows) (insort_key l f gs)"
    if "list_all2 (\<lambda>row f. r row = Ok (h f) \<and> k row = l f) rows gs" and "r row = Ok (h f) \<and> k row = l f" for row f rows gs
    using that by (induction rule: list_all2_induct) auto
  from assms have "list_all2 (\<lambda>row f. r row = Ok (h f) \<and> k row = l f) (sort_key k (filter c t)) (sort_key l (filter d fs))"
    by (induction rule: list_all2_induct) (auto intro: ins)
  then show ?thesis by (auto simp: map_res_Ok_iff list_all2_map2 elim: list_all2_mono)
qed


end
