(* ===== verification/Use_Cases.thy ===== *)
theory Use_Cases
  imports Ports Domain_Services
begin

text \<open>
  The use cases of the application crate: the transfer objects of \<open>dto.rs\<close>, the errors of
  \<open>errors.rs\<close>, the ports of \<open>ports.rs\<close>, and \<open>order_use_cases.rs\<close>, \<open>position_use_cases.rs\<close>,
  \<open>account_use_cases.rs\<close> and \<open>services.rs\<close>.  The world is a pair: the first part is what the
  repository keeps, the second belongs to the other ports.  Logging is left out.
\<close>

section \<open>Errors\<close>

datatype application_error =
    App_Domain string
  | App_NotFound string
  | App_Validation string
  | App_Repository string
  | App_Infrastructure string
  | App_Unauthorized string
  | App_Conflict string
  | App_NotImplemented string

fun application_error_display :: "application_error \<Rightarrow> string" where
  "application_error_display (App_Domain m) = ''Domain error: '' @ m"
| "application_error_display (App_NotFound m) = ''Entity not found: '' @ m"
| "application_error_display (App_Validation m) = ''Validation error: '' @ m"
| "application_error_display (App_Repository m) = ''Repository error: '' @ m"
| "application_error_display (App_Infrastructure m) = ''Infrastructure error: '' @ m"
| "application_error_display (App_Unauthorized m) = ''Unauthorized: '' @ m"
| "application_error_display (App_Conflict m) = ''Conflict: '' @ m"
| "application_error_display (App_NotImplemented m) = ''Not implemented: '' @ m"

definition application_error_from_domain :: "(timestamp \<Rightarrow> string) \<Rightarrow> domain_error \<Rightarrow> application_error" where
  "application_error_from_domain tf e = App_Domain (domain_error_display tf e)"

section \<open>Transfer objects\<close>

datatype order_side_dto = Dto_Buy | Dto_Sell

datatype order_type_dto = Dto_Market | Dto_Limit | Dto_Stop | Dto_StopLimit

datatype order_status_dto =
    Dto_Created | Dto_Submitted | Dto_Pending | Dto_PartiallyFilled | Dto_Filled | Dto_Cancelled | Dto_Rejected

datatype position_direction_dto = Dto_Long | Dto_Short

record create_order_dto =
  cod_account_id :: uuid
  cod_symbol :: string
  cod_side :: order_side_dto
  cod_order_type :: order_type_dto
  cod_quantity :: decimal
  cod_limit_price :: "decimal option"
  cod_stop_price :: "decimal option"

record order_dto =
  od_id :: uuid
  od_account_id :: uuid
  od_symbol :: string
  od_side :: order_side_dto
  od_order_type :: order_type_dto
  od_quantity :: decimal
  od_filled_quantity :: decimal
  od_limit_price :: "decimal option"
  od_stop_price :: "decimal option"
  od_status :: order_status_dto
  od_created_at :: timestamp
  od_updated_at :: timestamp

record account_dto =
  ad_id :: uuid
  ad_name :: string
  ad_currency :: string
  ad_balance :: decimal
  ad_created_at :: timestamp

record create_account_dto =
  cad_name :: string
  cad_currency :: string
  cad_initial_balance :: decimal

record position_dto =
  pd_id :: uuid
  pd_account_id :: uuid
  pd_symbol :: string
  pd_direction :: position_direction_dto
  pd_quantity :: decimal
  pd_avg_entry_price :: decimal
  pd_current_price :: "decimal option"
  pd_unrealized_pnl :: "decimal option"
  pd_realized_pnl :: decimal
  pd_opened_at :: timestamp

record order_fill_dto =
  ofd_order_id :: uuid
  ofd_fill_quantity :: decimal
  ofd_fill_price :: decimal

fun side_to_dto :: "side \<Rightarrow> order_side_dto" where
  "side_to_dto Buy = Dto_Buy"
| "side_to_dto Sell = Dto_Sell"

fun side_from_dto :: "order_side_dto \<Rightarrow> side" where
  "side_from_dto Dto_Buy = Buy"
| "side_from_dto Dto_Sell = Sell"

fun order_type_to_dto :: "order_type \<Rightarrow> order_type_dto" where
  "order_type_to_dto Market = Dto_Market"
| "order_type_to_dto Limit = Dto_Limit"
| "order_type_to_dto Stop = Dto_Stop"
| "order_type_to_dto StopLimit = Dto_StopLimit"

fun order_status_to_dto :: "order_status \<Rightarrow> order_status_dto" where
  "order_status_to_dto Created = Dto_Created"
| "order_status_to_dto (Submitted _) = Dto_Submitted"
| "order_status_to_dto (Pending _) = Dto_Pending"
| "order_status_to_dto (PartiallyFilled _ _ _) = Dto_PartiallyFilled"
| "order_status_to_dto (Filled _) = Dto_Filled"
| "order_status_to_dto (Cancelled _ _) = Dto_Cancelled"
| "order_status_to_dto (Rejected _ _) = Dto_Rejected"

fun direction_to_dto :: "position_direction \<Rightarrow> position_direction_dto" where
  "direction_to_dto Long = Dto_Long"
| "direction_to_dto Short = Dto_Short"

definition order_to_dto :: "order \<Rightarrow> order_dto" where
  "order_to_dto ord =
     \<lparr>od_id = ord_id ord, od_account_id = ord_account_id ord, od_symbol = symbol_str (ord_symbol ord),
      od_side = side_to_dto (ord_side ord), od_order_type = order_type_to_dto (ord_type ord),
      od_quantity = qty_inner (ord_quantity ord), od_filled_quantity = qty_inner (ord_filled_quantity ord),
      od_limit_price = map_option price_inner (ord_limit_price ord),
      od_stop_price = map_option price_inner (ord_stop_price ord),
      od_status = order_status_to_dto (ord_status ord), od_created_at = ord_created_at ord,
      od_updated_at = ord_updated_at ord\<rparr>"

definition position_to_dto :: "position \<Rightarrow> position_dto" where
  "position_to_dto p =
     \<lparr>pd_id = pos_id p, pd_account_id = pos_account_id p, pd_symbol = symbol_str (pos_symbol p),
      pd_direction = direction_to_dto (position_direction_of p), pd_quantity = qty_inner (pos_quantity p),
      pd_avg_entry_price = price_inner (pos_avg_entry_price p),
      pd_current_price = Some (price_inner (pos_current_price p)),
      pd_unrealized_pnl = Some (m_amount (pos_unrealized_pnl p)),
      pd_realized_pnl = m_amount (pos_realized_pnl p), pd_opened_at = pos_opened_at p\<rparr>"

definition account_to_dto :: "account \<Rightarrow> account_dto" where
  "account_to_dto a =
     \<lparr>ad_id = acc_id a, ad_name = acc_name a, ad_currency = currency_as_str (acc_currency a),
      ad_balance = m_amount (acc_balance a), ad_created_at = acc_created_at a\<rparr>"

section \<open>Ports\<close>

datatype notification_level = Level_Info | Level_Warning | Level_Error | Level_Critical

text \<open>The part of a repository that the use cases call, for entities of any type.\<close>

record ('d, 'e) entity_repository =
  er_find_by_id :: "uuid \<Rightarrow> ('d, 'e option, domain_error) io"
  er_save :: "'e \<Rightarrow> ('d, unit, domain_error) io"

record 'o order_execution_port =
  xp_submit_order :: "uuid \<Rightarrow> ('o, unit, application_error) io"
  xp_cancel_order :: "uuid \<Rightarrow> ('o, unit, application_error) io"
  xp_is_market_open :: "string \<Rightarrow> ('o, bool, application_error) io"

record 'o market_data_port =
  dp_get_current_price :: "string \<Rightarrow> ('o, decimal, application_error) io"
  dp_is_market_open :: "string \<Rightarrow> ('o, bool, application_error) io"
  dp_get_historical_prices ::
    "string \<Rightarrow> timestamp \<Rightarrow> timestamp \<Rightarrow> ('o, (timestamp \<times> decimal) list, application_error) io"

record 'o notification_port =
  np_notify :: "string \<Rightarrow> notification_level \<Rightarrow> ('o, unit, application_error) io"

definition on_store :: "('d, 'a, 'e) io \<Rightarrow> ('d \<times> 'o, 'a, 'e) io" where
  "on_store m w = (case m (fst w) of (r, d) \<Rightarrow> (r, (d, snd w)))"

definition on_ports :: "('o, 'a, 'e) io \<Rightarrow> ('d \<times> 'o, 'a, 'e) io" where
  "on_ports m w = (case m (snd w) of (r, x) \<Rightarrow> (r, (fst w, x)))"

text \<open>Texts of other crates: timestamps, identities, and the debug form of an optional reason.\<close>

record uc_texts =
  ut_time :: "timestamp \<Rightarrow> string"
  ut_uuid :: "uuid \<Rightarrow> string"
  ut_reason :: "string option \<Rightarrow> string"

text \<open>A repository call and a call of another port, with their errors turned into those of the use case.\<close>

definition repo_call :: "uc_texts \<Rightarrow> ('d, 'a, domain_error) io \<Rightarrow> ('d \<times> 'o, 'a, application_error) io" where
  "repo_call T m = io_map_err (\<lambda>e. App_Repository (domain_error_display (ut_time T) e)) (on_store m)"

definition port_call :: "('o, 'a, application_error) io \<Rightarrow> ('d \<times> 'o, 'a, application_error) io" where
  "port_call m = io_map_err (\<lambda>e. App_Infrastructure (application_error_display e)) (on_ports m)"

definition domain_call :: "uc_texts \<Rightarrow> ('a, domain_error) res \<Rightarrow> ('w, 'a, application_error) io" where
  "domain_call T r = io_lift (map_err (application_error_from_domain (ut_time T)) r)"

definition validated :: "('a, value_error) res \<Rightarrow> ('w, 'a, application_error) io" where
  "validated r = io_lift (map_err (\<lambda>e. App_Validation (value_error_display e)) r)"

definition found_or :: "string \<Rightarrow> 'e option \<Rightarrow> ('w, 'e, application_error) io" where
  "found_or what found = io_lift (ok_or found (App_NotFound what))"

section \<open>Order use cases\<close>

text \<open>The steps every writing use case ends with: persist, then notify.\<close>

definition save_and_notify ::
    "uc_texts \<Rightarrow> ('d, 'e) entity_repository \<Rightarrow> 'o notification_port \<Rightarrow> 'e \<Rightarrow> string \<Rightarrow>
     notification_level \<Rightarrow> ('d \<times> 'o, unit, application_error) io" where
  "save_and_notify T repo NP e message level =
     io_bind (repo_call T (er_save repo e)) (\<lambda>_. port_call (np_notify NP message level))"

definition create_order_execute ::
    "dec_ops \<Rightarrow> uc_texts \<Rightarrow> ('d, order) entity_repository \<Rightarrow> 'o order_execution_port \<Rightarrow>
     'o market_data_port \<Rightarrow> 'o notification_port \<Rightarrow> uuid \<Rightarrow> uuid \<Rightarrow> timestamp \<Rightarrow> timestamp \<Rightarrow>
     create_order_dto \<Rightarrow> ('d \<times> 'o, order_dto, application_error) io" where
  "create_order_execute D T repo XP DP NP fresh1 fresh2 now1 now2 dto =
     io_bind (port_call (dp_is_market_open DP (cod_symbol dto))) (\<lambda>is_open.
     if \<not> is_open then io_lift (Err (App_Validation ''Market is closed''))
     else
       io_bind (validated (symbol_new (cod_symbol dto))) (\<lambda>symbol.
       io_bind (validated (quantity_new D (cod_quantity dto))) (\<lambda>quantity.
       io_bind (domain_call T (create_order fresh1 fresh2 now1 now2 (cod_account_id dto) symbol
                                 (side_from_dto (cod_side dto)) quantity)) (\<lambda>(ord, event).
       io_bind (repo_call T (er_save repo ord)) (\<lambda>_.
       io_bind (port_call (xp_submit_order XP (ord_id ord))) (\<lambda>_.
       io_bind (port_call (np_notify NP
                  (''Order '' @ ut_uuid T (ord_id ord) @ '' created for '' @ cod_symbol dto) Level_Info)) (\<lambda>_.
       io_return (order_to_dto ord))))))))"

text \<open>Both branches of the notification level are \<open>Info\<close>.\<close>

definition fill_order_execute ::
    "dec_ops \<Rightarrow> uc_texts \<Rightarrow> ('d, order) entity_repository \<Rightarrow> 'o notification_port \<Rightarrow>
     uuid \<Rightarrow> timestamp \<Rightarrow> timestamp \<Rightarrow> timestamp \<Rightarrow> order_fill_dto \<Rightarrow>
     ('d \<times> 'o, order_dto, application_error) io" where
  "fill_order_execute D T repo NP fresh now1 now2 now3 dto =
     io_bind (repo_call T (er_find_by_id repo (ofd_order_id dto))) (\<lambda>found.
     io_bind (found_or (''Order '' @ ut_uuid T (ofd_order_id dto)) found) (\<lambda>ord.
     io_bind (validated (quantity_new D (ofd_fill_quantity dto))) (\<lambda>fill_qty.
     io_bind (validated (price_new D (ofd_fill_price dto))) (\<lambda>fill_price.
     io_bind (domain_call T (service_fill_order D fresh now1 now2 now3 ord fill_qty fill_price)) (\<lambda>(ord', event).
     io_bind (save_and_notify T repo NP ord'
                (''Order '' @ ut_uuid T (ord_id ord') @ '' filled: '' @ d_fmt D (ofd_fill_quantity dto) @
                 '' @ '' @ d_fmt D (ofd_fill_price dto)) Level_Info) (\<lambda>_.
     io_return (order_to_dto ord')))))))"

definition cancel_order_execute ::
    "uc_texts \<Rightarrow> ('d, order) entity_repository \<Rightarrow> 'o order_execution_port \<Rightarrow> 'o notification_port \<Rightarrow>
     uuid \<Rightarrow> timestamp \<Rightarrow> timestamp \<Rightarrow> timestamp \<Rightarrow> uuid \<Rightarrow> string option \<Rightarrow>
     ('d \<times> 'o, order_dto, application_error) io" where
  "cancel_order_execute T repo XP NP fresh now1 now2 now3 order_id reason =
     io_bind (repo_call T (er_find_by_id repo order_id)) (\<lambda>found.
     io_bind (found_or (''Order '' @ ut_uuid T order_id) found) (\<lambda>ord.
     if \<not> order_is_active ord
     then io_lift (Err (App_Validation ''Order is not active and cannot be cancelled''))
     else
       io_bind (port_call (xp_cancel_order XP order_id)) (\<lambda>_.
       io_bind (domain_call T (service_cancel_order fresh now1 now2 now3 ord reason)) (\<lambda>(ord', event).
       io_bind (save_and_notify T repo NP ord'
                  (''Order '' @ ut_uuid T order_id @ '' cancelled: '' @ ut_reason T reason) Level_Warning) (\<lambda>_.
       io_return (order_to_dto ord'))))))"

section \<open>Position use cases\<close>

text \<open>The position with the market price in place of its own, when the market gives one.\<close>

definition enrich :: "'o market_data_port \<Rightarrow> position \<Rightarrow> ('d \<times> 'o, position_dto, application_error) io" where
  "enrich DP p =
     (let dto = position_to_dto p in
      io_match (on_ports (dp_get_current_price DP (pd_symbol dto)))
        (\<lambda>price. io_return (dto\<lparr>pd_current_price := Some price\<rparr>)) (\<lambda>_. io_return dto))"

primrec enrich_all ::
    "'o market_data_port \<Rightarrow> position list \<Rightarrow> ('d \<times> 'o, position_dto list, application_error) io" where
  "enrich_all DP [] = io_return []"
| "enrich_all DP (p # ps) =
     io_bind (enrich DP p) (\<lambda>dto. io_bind (enrich_all DP ps) (\<lambda>dtos. io_return (dto # dtos)))"

definition get_positions_by_account ::
    "uc_texts \<Rightarrow> (uuid \<Rightarrow> ('d, position list, domain_error) io) \<Rightarrow> 'o market_data_port \<Rightarrow> uuid \<Rightarrow>
     ('d \<times> 'o, position_dto list, application_error) io" where
  "get_positions_by_account T find_by_account DP account_id =
     io_bind (repo_call T (find_by_account account_id)) (enrich_all DP)"

definition get_position_by_id ::
    "uc_texts \<Rightarrow> ('d, position) entity_repository \<Rightarrow> 'o market_data_port \<Rightarrow> uuid \<Rightarrow>
     ('d \<times> 'o, position_dto, application_error) io" where
  "get_position_by_id T repo DP position_id =
     io_bind (repo_call T (er_find_by_id repo position_id)) (\<lambda>found.
     io_bind (found_or (''Position '' @ ut_uuid T position_id) found) (enrich DP))"

definition get_open_position_dtos ::
    "uc_texts \<Rightarrow> ('d, position list, domain_error) io \<Rightarrow> 'o market_data_port \<Rightarrow>
     ('d \<times> 'o, position_dto list, application_error) io" where
  "get_open_position_dtos T find_open_positions DP =
     io_bind (repo_call T find_open_positions) (enrich_all DP)"

text \<open>
  The warning for a partial close subtracts the closed quantity, which may panic; the log level is
  enabled.
\<close>

definition close_position_execute ::
    "dec_ops \<Rightarrow> uc_texts \<Rightarrow> ('d, position) entity_repository \<Rightarrow> 'o market_data_port \<Rightarrow>
     'o notification_port \<Rightarrow> uuid \<Rightarrow> uuid \<Rightarrow> timestamp \<Rightarrow> timestamp \<Rightarrow> timestamp \<Rightarrow> uuid \<Rightarrow>
     quantity option \<Rightarrow> ('d \<times> 'o, position_dto, application_error) io" where
  "close_position_execute D T repo DP NP fresh1 fresh2 now1 now2 now3 position_id close_qty =
     io_bind (repo_call T (er_find_by_id repo position_id)) (\<lambda>found.
     io_bind (found_or (''Position '' @ ut_uuid T position_id) found) (\<lambda>p.
     let quantity_to_close = (case close_qty of Some q \<Rightarrow> q | None \<Rightarrow> pos_quantity p) in
     io_bind (port_call (dp_get_current_price DP (symbol_str (pos_symbol p)))) (\<lambda>current_price.
     io_bind (validated (price_new D current_price)) (\<lambda>exit_price.
     io_bind (domain_call T (close_position D fresh1 fresh2 now1 now2 now3 p quantity_to_close exit_price))
       (\<lambda>(p', closed_event, updated_event).
     io_bind (save_and_notify T repo NP p'
                (''Position '' @ ut_uuid T position_id @ '' closed: '' @
                 d_fmt D (qty_inner quantity_to_close) @ '' shares @ '' @ d_fmt D current_price) Level_Info) (\<lambda>_.
     io_bind (if closed_event \<noteq> None then io_return ()
              else io_bind (io_lift (or_panic (d_sub D (qty_inner (pos_quantity p')) (qty_inner quantity_to_close))))
                     (\<lambda>remaining. io_return ())) (\<lambda>_.
     io_return (position_to_dto p'))))))))"

section \<open>Account use cases\<close>

text \<open>\<open>up\<close> is \<open>str::to_uppercase\<close>.\<close>

definition parse_currency :: "(string \<Rightarrow> string) \<Rightarrow> string \<Rightarrow> (currency, application_error) res" where
  "parse_currency up currency =
     (let u = up currency in
      if u = ''USD'' then Ok USD else if u = ''EUR'' then Ok EUR else if u = ''GBP'' then Ok GBP
      else if u = ''JPY'' then Ok JPY else if u = ''CHF'' then Ok CHF
      else Err (App_Validation (''Unsupported currency: '' @ currency)))"

definition create_account_execute ::
    "(string \<Rightarrow> string) \<Rightarrow> uc_texts \<Rightarrow> ('d, account) entity_repository \<Rightarrow> 'o notification_port \<Rightarrow>
     uuid \<Rightarrow> timestamp \<Rightarrow> create_account_dto \<Rightarrow> ('d \<times> 'o, account_dto, application_error) io" where
  "create_account_execute up T repo NP fresh now dto =
     io_bind (io_lift (parse_currency up (cad_currency dto))) (\<lambda>currency.
     io_bind (domain_call T (create_account fresh now (cad_name dto) currency (cad_initial_balance dto))) (\<lambda>a.
     io_bind (save_and_notify T repo NP a
                (''Account '' @ ut_uuid T (acc_id a) @ '' created for '' @ cad_name dto) Level_Info) (\<lambda>_.
     io_return (account_to_dto a))))"

definition get_all_accounts ::
    "uc_texts \<Rightarrow> ('d, account list, domain_error) io \<Rightarrow> ('d \<times> 'o, account_dto list, application_error) io" where
  "get_all_accounts T find_all =
     io_bind (repo_call T find_all) (\<lambda>accounts. io_return (map account_to_dto accounts))"

definition get_account_by_id ::
    "uc_texts \<Rightarrow> ('d, account) entity_repository \<Rightarrow> uuid \<Rightarrow> ('d \<times> 'o, account_dto, application_error) io" where
  "get_account_by_id T repo account_id =
     io_bind (repo_call T (er_find_by_id repo account_id)) (\<lambda>found.
     io_bind (found_or (''Account '' @ ut_uuid T account_id) found) (\<lambda>a.
     io_return (account_to_dto a)))"

definition update_balance_execute ::
    "dec_ops \<Rightarrow> uc_texts \<Rightarrow> ('d, account) entity_repository \<Rightarrow> 'o notification_port \<Rightarrow> timestamp \<Rightarrow>
     uuid \<Rightarrow> decimal \<Rightarrow> ('d \<times> 'o, account_dto, application_error) io" where
  "update_balance_execute D T repo NP now account_id new_balance =
     io_bind (repo_call T (er_find_by_id repo account_id)) (\<lambda>found.
     io_bind (found_or (''Account '' @ ut_uuid T account_id) found) (\<lambda>a.
     let a' = service_update_balance now a new_balance in
     io_bind (save_and_notify T repo NP a'
                (''Account '' @ ut_uuid T account_id @ '' balance updated to '' @ d_fmt D new_balance) Level_Info) (\<lambda>_.
     io_return (account_to_dto a'))))"

section \<open>Services\<close>

text \<open>The trading service notifies nobody and knows no price.\<close>

definition mock_notification_port :: "'o notification_port" where
  "mock_notification_port = \<lparr>np_notify = (\<lambda>_ _. io_return ())\<rparr>"

definition mock_market_data_port :: "'o market_data_port" where
  "mock_market_data_port =
     \<lparr>dp_get_current_price = (\<lambda>_. io_lift (Err (App_NotImplemented ''Mock''))),
      dp_is_market_open = (\<lambda>_. io_return True),
      dp_get_historical_prices = (\<lambda>_ _ _. io_lift (Err (App_NotImplemented ''Mock'')))\<rparr>"

definition handle_order_fill ::
    "dec_ops \<Rightarrow> uc_texts \<Rightarrow> ('d, order) entity_repository \<Rightarrow> uuid \<Rightarrow> timestamp \<Rightarrow> timestamp \<Rightarrow>
     timestamp \<Rightarrow> order_fill_dto \<Rightarrow> ('d \<times> 'o, unit, application_error) io" where
  "handle_order_fill D T repo fresh now1 now2 now3 fill =
     io_bind (fill_order_execute D T repo mock_notification_port fresh now1 now2 now3 fill) (\<lambda>_. io_return ())"

definition event_handle_fill ::
    "dec_ops \<Rightarrow> uc_texts \<Rightarrow> ('d, order) entity_repository \<Rightarrow> 'o notification_port \<Rightarrow> uuid \<Rightarrow> timestamp \<Rightarrow>
     timestamp \<Rightarrow> timestamp \<Rightarrow> order_fill_dto \<Rightarrow> ('d \<times> 'o, unit, application_error) io" where
  "event_handle_fill D T repo NP fresh now1 now2 now3 fill =
     io_bind (fill_order_execute D T repo NP fresh now1 now2 now3 fill) (\<lambda>_. io_return ())"
section \<open>Calls in the world of a use case\<close>

lemma map_err_Ok_rev [simp]: "Ok x = map_err g m \<longleftrightarrow> m = Ok x"
  by (cases m) auto

lemma repo_call_Ok:
  "repo_call T m w = (Ok x, w') \<longleftrightarrow> (\<exists>d. m (fst w) = (Ok x, d) \<and> w' = (d, snd w))"
  by (auto simp: repo_call_def io_map_err_def on_store_def res_simps split: prod.splits)

lemma port_call_Ok:
  "port_call m w = (Ok x, w') \<longleftrightarrow> (\<exists>p. m (snd w) = (Ok x, p) \<and> w' = (fst w, p))"
  by (auto simp: port_call_def io_map_err_def on_ports_def res_simps split: prod.splits)

lemma pure_call_Ok:
  "domain_call T r w = (Ok x, w') \<longleftrightarrow> r = Ok x \<and> w' = w"
  "validated v w = (Ok y, w') \<longleftrightarrow> v = Ok y \<and> w' = w"
  "found_or what found w = (Ok z, w') \<longleftrightarrow> found = Some z \<and> w' = w"
  by (auto simp: domain_call_def validated_def found_or_def io_lift_def res_simps)

lemma io_return_Ok: "io_return x w = (r, w') \<longleftrightarrow> r = Ok x \<and> w' = w"
  by (auto simp: io_return_def)

lemmas call_Ok = repo_call_Ok port_call_Ok pure_call_Ok

lemma keeps_repo_call [intro]: "keeps f m \<Longrightarrow> keeps (\<lambda>w. f (fst w)) (repo_call T m)"
  by (auto simp: keeps_def repo_call_def io_map_err_def on_store_def split: prod.splits) (metis snd_conv)

lemma keeps_port_call [intro]: "keeps (\<lambda>w. f (fst w)) (port_call m)"
  by (auto simp: keeps_def port_call_def io_map_err_def on_ports_def split: prod.splits)

lemma keeps_on_ports [intro]: "keeps (\<lambda>w. f (fst w)) (on_ports m)"
  by (auto simp: keeps_def on_ports_def split: prod.splits)

lemma keeps_pure_call [intro]:
  "keeps f (domain_call T r)" "keeps f (validated v)" "keeps f (found_or what found)"
  by (auto simp: domain_call_def validated_def found_or_def)

text \<open>
  A run has passed \<open>f\<close> when it succeeded or changed \<open>f\<close>: it got beyond every step that keeps \<open>f\<close>.
\<close>

lemma past_step:
  assumes "io_bind m k w = (r, w2)" and "keeps f m" and "is_ok r \<or> f w2 \<noteq> f w"
  obtains x w1 where "m w = (Ok x, w1)" and "f w1 = f w" and "k x w1 = (r, w2)"
    and "is_ok r \<or> f w2 \<noteq> f w1"
proof (cases "m w")
  case (Pair res w1)
  then have f: "f w1 = f w" using keepsD [OF assms(2)] by blast
  with Pair assms(1,3) have "\<exists>x. res = Ok x" by (cases res) (auto simp: io_bind_eq)
  then obtain x where "res = Ok x" ..
  with Pair f assms(1,3) show ?thesis using that [of x w1] by (simp add: io_bind_eq)
qed

text \<open>Steps that only compute.\<close>

lemma bind_pure:
  "io_bind (domain_call T r) k w =
     (case r of Ok x \<Rightarrow> k x w | Err e \<Rightarrow> (Err (application_error_from_domain (ut_time T) e), w) | Panic \<Rightarrow> (Panic, w))"
  "io_bind (validated v) k' w =
     (case v of Ok x \<Rightarrow> k' x w | Err e \<Rightarrow> (Err (App_Validation (value_error_display e)), w) | Panic \<Rightarrow> (Panic, w))"
  "io_bind (found_or what found) k'' w =
     (case found of Some x \<Rightarrow> k'' x w | None \<Rightarrow> (Err (App_NotFound what), w))"
  by (auto simp: io_bind_def domain_call_def validated_def found_or_def io_lift_def split: res.splits option.splits)

section \<open>The entity store\<close>

text \<open>
  What a use case relies on: a successful save writes one row under the identity of the entity, an
  unsuccessful one nothing; a lookup reads a row and changes nothing.  A row need not hold all of
  the entity: \<open>writes\<close> says which rows a save may leave, \<open>reads\<close> which entities a row is read as.
\<close>

locale entity_store =
  fixes repo :: "('d, 'e) entity_repository" and ident :: "'e \<Rightarrow> uuid"
    and table :: "'d \<Rightarrow> uuid \<Rightarrow> 'r option" and writes :: "'e \<Rightarrow> 'r \<Rightarrow> bool" and reads :: "'r \<Rightarrow> 'e \<Rightarrow> bool"
  assumes save_Ok: "er_save repo e d = (Ok u, d') \<Longrightarrow> \<exists>row. writes e row \<and> table d' = (table d)(ident e \<mapsto> row)"
    and save_fails: "er_save repo e d = (r, d') \<Longrightarrow> \<not> is_ok r \<Longrightarrow> table d' = table d"
    and find_Some: "er_find_by_id repo i d = (Ok (Some e), d') \<Longrightarrow>
      ident e = i \<and> (\<exists>row. table d i = Some row \<and> reads row e)"
    and find_None: "er_find_by_id repo i d = (Ok None, d') \<Longrightarrow> table d i = None"
    and find_frame: "keeps table (er_find_by_id repo i)"
begin

lemma lookup_frame: "keeps (\<lambda>w. table (fst w)) (repo_call T (er_find_by_id repo i))"
  using find_frame by (rule keeps_repo_call)

text \<open>A run that got past a save wrote a row, and the calls of other ports after it keep it.\<close>

lemma past_save:
  assumes run: "io_bind (repo_call T (er_save repo e)) k w = (r, w2)"
    and k: "\<And>x. keeps (\<lambda>w. table (fst w)) (k x)"
    and past: "is_ok r \<or> table (fst w2) \<noteq> table (fst w)"
  obtains d row where "er_save repo e (fst w) = (Ok (), d)" and "writes e row"
    and "table (fst w2) = (table (fst w))(ident e \<mapsto> row)" and "k () (d, snd w) = (r, w2)"
proof (cases "er_save repo e (fst w)")
  case (Pair res d)
  then have call: "repo_call T (er_save repo e) w =
      (map_err (\<lambda>e. App_Repository (domain_error_display (ut_time T) e)) res, (d, snd w))"
    by (simp add: repo_call_def io_map_err_def on_store_def)
  have "is_ok res"
    using run past call save_fails [OF Pair] by (cases res) (auto simp: io_bind_def)
  then have res: "res = Ok ()" by (cases res) auto
  then obtain row where row: "writes e row" "table d = (table (fst w))(ident e \<mapsto> row)"
    using save_Ok [of e "fst w" "()" d] Pair by auto
  have rest: "k () (d, snd w) = (r, w2)" using run call res by (simp add: io_bind_eq)
  with Pair res row keepsD [OF k rest] show ?thesis by (intro that) auto
qed

lemma past_save_and_notify:
  assumes run: "io_bind (save_and_notify T repo NP e message level) (\<lambda>_. io_return x) w = (r, w2)"
    and past: "is_ok r \<or> table (fst w2) \<noteq> table (fst w)"
  obtains row where "writes e row" and "table (fst w2) = (table (fst w))(ident e \<mapsto> row)"
    and "is_ok r \<longrightarrow> r = Ok x"
proof -
  have "io_bind (repo_call T (er_save repo e))
      (\<lambda>_. io_bind (port_call (np_notify NP message level)) (\<lambda>_. io_return x)) w = (r, w2)"
    using run by (auto simp: save_and_notify_def io_bind_def split: prod.splits res.splits)
  from this _ past obtain row where row: "writes e row"
      "table (fst w2) = (table (fst w))(ident e \<mapsto> row)"
    by (rule past_save) (intro keeps_intros keeps_port_call)
  have "is_ok r \<longrightarrow> r = Ok x" using run by (auto simp: is_ok_iff io_bind_Ok io_return_Ok)
  with row show ?thesis by (rule that)
qed

text \<open>Creating twice under the same identity keeps one row; other identities are not touched.\<close>

lemma others_kept:
  assumes "er_save repo e d = (r, d')" and "i \<noteq> ident e"
  shows "table d' i = table d i"
proof (cases r)
  case (Ok u)
  then show ?thesis using save_Ok assms by fastforce
qed (use save_fails assms in auto)

lemma found_after_save:
  assumes "er_save repo e d = (Ok u, d1)" and "er_find_by_id repo (ident e) d1 = (Ok found, d2)"
  shows "\<exists>row e'. writes e row \<and> reads row e' \<and> found = Some e' \<and> ident e' = ident e"
proof -
  obtain row where row: "writes e row" "table d1 = (table d)(ident e \<mapsto> row)"
    using save_Ok assms(1) by blast
  show ?thesis
  proof (cases found)
    case None
    then show ?thesis using find_None assms(2) row(2) by fastforce
  next
    case (Some e')
    then have "ident e' = ident e" "reads row e'" using find_Some assms(2) row(2) by fastforce+
    with row Some show ?thesis by blast
  qed
qed

end

lemma order_fill_ident: "order_fill D now1 now2 ord q p = Ok ord' \<Longrightarrow> ord_id ord' = ord_id ord"
  by (auto simp: order_fill_def res_simps Let_def split: if_splits)

section \<open>The use cases on an order store\<close>

locale order_entities = entity_store repo ord_id table writes reads
  for repo :: "('d, order) entity_repository" and table :: "'d \<Rightarrow> uuid \<Rightarrow> 'r option" and writes and reads
begin

text \<open>
  A run of the fill use case either ends without success and leaves the table alone, or replaces
  the row of the order by one of the filled order; then only the notification can still fail.
\<close>

lemma fill_outcome:
  assumes run: "fill_order_execute D T repo NP fresh now1 now2 now3 dto w = (r, w')"
    and past: "is_ok r \<or> table (fst w') \<noteq> table (fst w)"
  obtains row ord ord' ev row' where "table (fst w) (ofd_order_id dto) = Some row" and "reads row ord"
    and "0 < ofd_fill_quantity dto" and "0 < ofd_fill_price dto"
    and "service_fill_order D fresh now1 now2 now3 ord (Quantity (ofd_fill_quantity dto))
           (Price (ofd_fill_price dto)) = Ok (ord', ev)"
    and "writes ord' row'" and "table (fst w') = (table (fst w))(ofd_order_id dto \<mapsto> row')"
    and "is_ok r \<longrightarrow> r = Ok (order_to_dto ord')"
proof -
  obtain found w1 where lookup: "repo_call T (er_find_by_id repo (ofd_order_id dto)) w = (Ok found, w1)"
    and t1: "table (fst w1) = table (fst w)" and p1: "is_ok r \<or> table (fst w') \<noteq> table (fst w1)"
    and rest: "\<exists>ord q p ord' ev message. found = Some ord \<and> quantity_new D (ofd_fill_quantity dto) = Ok q \<and>
       price_new D (ofd_fill_price dto) = Ok p \<and>
       service_fill_order D fresh now1 now2 now3 ord q p = Ok (ord', ev) \<and>
       io_bind (save_and_notify T repo NP ord' message Level_Info) (\<lambda>_. io_return (order_to_dto ord')) w1 = (r, w')"
    by (rule past_step [OF run [unfolded fill_order_execute_def] lookup_frame past])
      (auto simp: bind_pure split: option.splits res.splits)
  from lookup obtain d1 where find: "er_find_by_id repo (ofd_order_id dto) (fst w) = (Ok found, d1)"
    by (auto simp: call_Ok)
  from rest obtain ord q p ord' ev message where found: "found = Some ord"
    and q: "quantity_new D (ofd_fill_quantity dto) = Ok q" and p: "price_new D (ofd_fill_price dto) = Ok p"
    and fill: "service_fill_order D fresh now1 now2 now3 ord q p = Ok (ord', ev)"
    and save: "io_bind (save_and_notify T repo NP ord' message Level_Info)
                 (\<lambda>_. io_return (order_to_dto ord')) w1 = (r, w')"
    by blast
  obtain row where row: "table (fst w) (ofd_order_id dto) = Some row" "reads row ord"
    and i: "ord_id ord = ofd_order_id dto"
    using find_Some [OF find [unfolded found]] by blast
  have "ord_id ord' = ord_id ord"
    using fill by (auto simp: service_fill_order_def res_simps order_fill_ident)
  moreover obtain row' where "writes ord' row'" "table (fst w') = (table (fst w1))(ord_id ord' \<mapsto> row')"
    "is_ok r \<longrightarrow> r = Ok (order_to_dto ord')"
    using save p1 by (rule past_save_and_notify)
  ultimately show ?thesis
    using that [OF row] fill q p t1 i by (auto simp: quantity_new_def price_new_def split: if_splits)
qed

text \<open>
  Creating an order: the order is stored before the market hears of it, and a market that refuses it
  leaves it stored.  The kind of the order is always a market order.
\<close>

lemma create_outcome:
  assumes run: "create_order_execute D T repo XP DP NP fresh1 fresh2 now1 now2 dto w = (r, w')"
    and past: "is_ok r \<or> table (fst w') \<noteq> table (fst w)"
  obtains ord ev row where "symbol_new (cod_symbol dto) = Ok (ord_symbol ord)"
    and "create_order fresh1 fresh2 now1 now2 (cod_account_id dto) (ord_symbol ord)
           (side_from_dto (cod_side dto)) (Quantity (cod_quantity dto)) = Ok (ord, ev)"
    and "writes ord row" and "table (fst w') = (table (fst w))(fresh1 \<mapsto> row)"
    and "is_ok r \<longrightarrow> (\<exists>p p'. xp_submit_order XP fresh1 p = (Ok (), p')) \<and> r = Ok (order_to_dto ord)"
proof -
  obtain is_open w1 where t1: "table (fst w1) = table (fst w)"
    and p1: "is_ok r \<or> table (fst w') \<noteq> table (fst w1)"
    and rest: "\<exists>symbol q ord ev message. symbol_new (cod_symbol dto) = Ok symbol \<and>
       quantity_new D (cod_quantity dto) = Ok q \<and>
       create_order fresh1 fresh2 now1 now2 (cod_account_id dto) symbol (side_from_dto (cod_side dto)) q = Ok (ord, ev) \<and>
       io_bind (repo_call T (er_save repo ord)) (\<lambda>_.
       io_bind (port_call (xp_submit_order XP (ord_id ord))) (\<lambda>_.
       io_bind (port_call (np_notify NP message Level_Info)) (\<lambda>_.
       io_return (order_to_dto ord)))) w1 = (r, w')"
    by (rule past_step [OF run [unfolded create_order_execute_def] keeps_port_call past])
      (auto simp: bind_pure io_lift_def split: if_splits res.splits)
  then obtain symbol q ord ev message where symbol: "symbol_new (cod_symbol dto) = Ok symbol"
    and q: "quantity_new D (cod_quantity dto) = Ok q"
    and ord: "create_order fresh1 fresh2 now1 now2 (cod_account_id dto) symbol (side_from_dto (cod_side dto)) q = Ok (ord, ev)"
    and save: "io_bind (repo_call T (er_save repo ord)) (\<lambda>_.
       io_bind (port_call (xp_submit_order XP (ord_id ord))) (\<lambda>_.
       io_bind (port_call (np_notify NP message Level_Info)) (\<lambda>_.
       io_return (order_to_dto ord)))) w1 = (r, w')"
    by blast
  have id: "ord_id ord = fresh1" and sym: "ord_symbol ord = symbol"
    using ord by (auto simp: create_order_def order_new_def res_simps)
  have q': "q = Quantity (cod_quantity dto)" using q by (auto simp: quantity_new_def split: if_splits)
  from save _ p1 obtain d row where "writes ord row" "table (fst w') = (table (fst w1))(ord_id ord \<mapsto> row)"
    by (rule past_save) (intro keeps_intros keeps_port_call)
  moreover have "is_ok r \<longrightarrow> (\<exists>p p'. xp_submit_order XP fresh1 p = (Ok (), p')) \<and> r = Ok (order_to_dto ord)"
    using save id by (fastforce simp: is_ok_iff io_bind_Ok io_return_Ok call_Ok)
  ultimately show ?thesis
    using that [of ord ev row] symbol ord id sym q' t1 by simp
qed

text \<open>Cancelling: the stored order is cancelled only after the market has agreed to it.\<close>

lemma cancel_outcome:
  assumes run: "cancel_order_execute T repo XP NP fresh now1 now2 now3 order_id reason w = (r, w')"
    and past: "is_ok r \<or> table (fst w') \<noteq> table (fst w)"
  obtains row ord ord' ev row' p p' where "table (fst w) order_id = Some row" and "reads row ord"
    and "status_is_active (ord_status ord)" and "xp_cancel_order XP order_id p = (Ok (), p')"
    and "service_cancel_order fresh now1 now2 now3 ord reason = Ok (ord', ev)"
    and "writes ord' row'" and "table (fst w') = (table (fst w))(order_id \<mapsto> row')"
    and "is_ok r \<longrightarrow> r = Ok (order_to_dto ord')"
proof -
  obtain found w1 where lookup: "repo_call T (er_find_by_id repo order_id) w = (Ok found, w1)"
    and t1: "table (fst w1) = table (fst w)" and p1: "is_ok r \<or> table (fst w') \<noteq> table (fst w1)"
    and rest: "\<exists>ord message. found = Some ord \<and> order_is_active ord \<and>
       io_bind (port_call (xp_cancel_order XP order_id)) (\<lambda>_.
       io_bind (domain_call T (service_cancel_order fresh now1 now2 now3 ord reason)) (\<lambda>(ord', event).
       io_bind (save_and_notify T repo NP ord' message Level_Warning) (\<lambda>_.
       io_return (order_to_dto ord')))) w1 = (r, w')"
    by (rule past_step [OF run [unfolded cancel_order_execute_def] lookup_frame past])
      (auto simp: bind_pure io_lift_def split: if_splits option.splits)
  from lookup obtain d1 where find: "er_find_by_id repo order_id (fst w) = (Ok found, d1)"
    by (auto simp: call_Ok)
  from rest obtain ord message where found: "found = Some ord" and act: "order_is_active ord"
    and rest: "io_bind (port_call (xp_cancel_order XP order_id)) (\<lambda>_.
       io_bind (domain_call T (service_cancel_order fresh now1 now2 now3 ord reason)) (\<lambda>(ord', event).
       io_bind (save_and_notify T repo NP ord' message Level_Warning) (\<lambda>_.
       io_return (order_to_dto ord')))) w1 = (r, w')"
    by blast
  obtain u w2 where market: "port_call (xp_cancel_order XP order_id) w1 = (Ok u, w2)"
    and t2: "table (fst w2) = table (fst w1)" and p2: "is_ok r \<or> table (fst w') \<noteq> table (fst w2)"
    and rest: "\<exists>ord' ev. service_cancel_order fresh now1 now2 now3 ord reason = Ok (ord', ev) \<and>
       io_bind (save_and_notify T repo NP ord' message Level_Warning) (\<lambda>_. io_return (order_to_dto ord')) w2 = (r, w')"
    by (rule past_step [OF rest keeps_port_call p1]) (auto simp: bind_pure split: res.splits)
  from rest obtain ord' ev where cancel: "service_cancel_order fresh now1 now2 now3 ord reason = Ok (ord', ev)"
    and save: "io_bind (save_and_notify T repo NP ord' message Level_Warning)
                 (\<lambda>_. io_return (order_to_dto ord')) w2 = (r, w')"
    by blast
  obtain row where row: "table (fst w) order_id = Some row" "reads row ord" and i: "ord_id ord = order_id"
    using find_Some [OF find [unfolded found]] by blast
  have "ord_id ord' = ord_id ord"
    using cancel by (auto simp: service_cancel_order_def res_simps order_cancel_eq_Ok Let_def)
  moreover obtain row' where "writes ord' row'" "table (fst w') = (table (fst w2))(ord_id ord' \<mapsto> row')"
    "is_ok r \<longrightarrow> r = Ok (order_to_dto ord')"
    using save p2 by (rule past_save_and_notify)
  moreover obtain p p' where "xp_cancel_order XP order_id p = (Ok (), p')"
    using market by (auto simp: call_Ok)
  ultimately show ?thesis
    using that [OF row] cancel act t1 t2 i by (auto simp: order_is_active_def)
qed

end

end
