(* ===== verification/Order_Store.thy ===== *)
theory Order_Store
  imports Db_Connection Use_Cases
begin

text \<open>
  The order repository of \<open>crates/infrastructure/src/database/order_repo.rs\<close>, and what the use cases
  do on it.  The number formats and the JSON encoding belong to other crates and are parameters.
\<close>

section \<open>The stored form of a status\<close>

record order_status_json =
  osj_variant :: string
  osj_at :: "timestamp option"
  osj_filled :: "string option"
  osj_remaining :: "string option"
  osj_avg_price :: "string option"
  osj_reason :: "string option"

fun from_status :: "dec_ops \<Rightarrow> order_status \<Rightarrow> order_status_json" where
  "from_status D Created =
     \<lparr>osj_variant = ''Created'', osj_at = None, osj_filled = None, osj_remaining = None,
      osj_avg_price = None, osj_reason = None\<rparr>"
| "from_status D (Submitted moment) =
     \<lparr>osj_variant = ''Submitted'', osj_at = Some moment, osj_filled = None, osj_remaining = None,
      osj_avg_price = None, osj_reason = None\<rparr>"
| "from_status D (Pending moment) =
     \<lparr>osj_variant = ''Pending'', osj_at = Some moment, osj_filled = None, osj_remaining = None,
      osj_avg_price = None, osj_reason = None\<rparr>"
| "from_status D (PartiallyFilled filled remaining avg_price) =
     \<lparr>osj_variant = ''PartiallyFilled'', osj_at = None, osj_filled = Some (d_fmt D (qty_inner filled)),
      osj_remaining = Some (d_fmt D (qty_inner remaining)),
      osj_avg_price = Some (d_fmt D (price_inner avg_price)), osj_reason = None\<rparr>"
| "from_status D (Filled moment) =
     \<lparr>osj_variant = ''Filled'', osj_at = Some moment, osj_filled = None, osj_remaining = None,
      osj_avg_price = None, osj_reason = None\<rparr>"
| "from_status D (Cancelled moment reason) =
     \<lparr>osj_variant = ''Cancelled'', osj_at = Some moment, osj_filled = None, osj_remaining = None,
      osj_avg_price = None, osj_reason = Some reason\<rparr>"
| "from_status D (Rejected moment reason) =
     \<lparr>osj_variant = ''Rejected'', osj_at = Some moment, osj_filled = None, osj_remaining = None,
      osj_avg_price = None, osj_reason = Some reason\<rparr>"

abbreviation (input) serialization :: "string \<Rightarrow> repository_error" where
  "serialization \<equiv> repository_error_serialization"

definition stored_moment :: "string \<Rightarrow> order_status_json \<Rightarrow> (timestamp, repository_error) res" where
  "stored_moment name j =
     ok_or (osj_at j) (serialization (''Missing 'at' timestamp for '' @ name @ '' status''))"

definition parse_amount :: "dec_ops \<Rightarrow> string \<Rightarrow> string \<Rightarrow> (decimal, repository_error) res" where
  "parse_amount D what s =
     map_err (\<lambda>e. serialization (''Invalid '' @ what @ '': '' @ e)) (d_parse D s)"

definition to_status :: "dec_ops \<Rightarrow> order_status_json \<Rightarrow> (order_status, repository_error) res" where
  "to_status D j =
     (let v = osj_variant j; invalid = (\<lambda>what e. serialization (''Invalid '' @ what @ '': '' @ value_error_display e)) in
      if v = ''Created'' then Ok Created
      else if v = ''Submitted'' then bind (stored_moment v j) (\<lambda>moment. Ok (Submitted moment))
      else if v = ''Pending'' then bind (stored_moment v j) (\<lambda>moment. Ok (Pending moment))
      else if v = ''PartiallyFilled'' then
        bind (ok_or (osj_filled j)
                (serialization ''Missing 'filled' quantity for PartiallyFilled status'')) (\<lambda>filled_str.
        bind (ok_or (osj_remaining j)
                (serialization ''Missing 'remaining' quantity for PartiallyFilled status'')) (\<lambda>remaining_str.
        bind (ok_or (osj_avg_price j)
                (serialization ''Missing 'avg_price' for PartiallyFilled status'')) (\<lambda>avg_price_str.
        bind (parse_amount D ''filled quantity'' filled_str) (\<lambda>filled_val.
        bind (parse_amount D ''remaining quantity'' remaining_str) (\<lambda>remaining_val.
        bind (parse_amount D ''avg_price'' avg_price_str) (\<lambda>avg_price_val.
        bind (map_err (invalid ''filled quantity'') (quantity_new D filled_val)) (\<lambda>filled.
        bind (map_err (invalid ''remaining quantity'') (quantity_new D remaining_val)) (\<lambda>remaining.
        bind (map_err (invalid ''avg_price'') (price_new D avg_price_val)) (\<lambda>avg_price.
        Ok (PartiallyFilled filled remaining avg_price))))))))))
      else if v = ''Filled'' then bind (stored_moment v j) (\<lambda>moment. Ok (Filled moment))
      else if v = ''Cancelled'' then
        bind (stored_moment v j) (\<lambda>moment.
        Ok (Cancelled moment (case osj_reason j of Some r \<Rightarrow> r | None \<Rightarrow> '''')))
      else if v = ''Rejected'' then
        bind (stored_moment v j) (\<lambda>moment.
        Ok (Rejected moment (case osj_reason j of Some r \<Rightarrow> r | None \<Rightarrow> '''')))
      else Err (serialization (''Unknown OrderStatus variant: '' @ v)))"

section \<open>Rows\<close>

text \<open>
  A row of the table, with its \<open>DOUBLE PRECISION\<close> columns as binary floating point numbers.  The
  column \<open>external_id\<close> is never written and not used after reading.
\<close>

record order_row =
  row_id :: uuid
  row_symbol :: string
  row_side :: string
  row_quantity :: f64
  row_order_type :: string
  row_limit_price :: "f64 option"
  row_stop_price :: "f64 option"
  row_tif :: string
  row_status :: string
  row_created_at :: timestamp
  row_updated_at :: timestamp
  row_provider :: string
  row_account_id :: "uuid option"

text \<open>
  The formats of other crates: \<open>str::parse\<close> to a floating point number, \<open>Decimal::from_f64_retain\<close>,
  the display of a floating point number, \<open>str::to_lowercase\<close>, and \<open>serde_json\<close> on the stored status.
\<close>

record db_formats =
  dbf_parse_f64 :: "string \<Rightarrow> (f64, string) res"
  dbf_retain :: "f64 \<Rightarrow> decimal option"
  dbf_show_f64 :: "f64 \<Rightarrow> string"
  dbf_lower :: "string \<Rightarrow> string"
  dbf_encode :: "order_status_json \<Rightarrow> (string, string) res"
  dbf_decode :: "string \<Rightarrow> (order_status_json, string) res"
  dbf_sqlx :: "sqlx_error \<Rightarrow> string"
  dbf_time :: "timestamp \<Rightarrow> string"
  dbf_uuid :: "uuid \<Rightarrow> string"

fun order_type_to_db :: "order_type \<Rightarrow> string" where
  "order_type_to_db Market = ''market''"
| "order_type_to_db Limit = ''limit''"
| "order_type_to_db Stop = ''stop''"
| "order_type_to_db StopLimit = ''stop_limit''"

fun tif_to_db :: "time_in_force \<Rightarrow> string" where
  "tif_to_db Day = ''day''"
| "tif_to_db GTC = ''gtc''"
| "tif_to_db IOC = ''ioc''"
| "tif_to_db FOK = ''fok''"

definition price_to_db :: "dec_ops \<Rightarrow> db_formats \<Rightarrow> price \<Rightarrow> f64" where
  "price_to_db D F p =
     (case dbf_parse_f64 F (d_fmt D (price_inner p)) of Ok y \<Rightarrow> y | _ \<Rightarrow> Finite 0)"

text \<open>
  What \<open>save\<close> and \<open>update\<close> bind to the parameters of their statements; both bind the identity of the
  order where the account belongs.
\<close>

definition order_to_row ::
    "dec_ops \<Rightarrow> db_formats \<Rightarrow> order \<Rightarrow> (order_row, repository_error) res" where
  "order_to_row D F ord =
     bind (map_err (\<lambda>e. serialization (''Failed to serialize status: '' @ e))
             (dbf_encode F (from_status D (ord_status ord)))) (\<lambda>status_json_str.
     bind (map_err (\<lambda>e. serialization (''Failed to convert quantity: '' @ e))
             (dbf_parse_f64 F (d_fmt D (qty_inner (ord_quantity ord))))) (\<lambda>quantity.
     Ok \<lparr>row_id = ord_id ord, row_symbol = symbol_str (ord_symbol ord),
         row_side = dbf_lower F (side_as_str (ord_side ord)), row_quantity = quantity,
         row_order_type = order_type_to_db (ord_type ord),
         row_limit_price = map_option (price_to_db D F) (ord_limit_price ord),
         row_stop_price = map_option (price_to_db D F) (ord_stop_price ord),
         row_tif = tif_to_db (ord_time_in_force ord), row_status = status_json_str,
         row_created_at = ord_created_at ord, row_updated_at = ord_updated_at ord,
         row_provider = ''infrastructure'', row_account_id = Some (ord_id ord)\<rparr>))"

definition stored_price :: "dec_ops \<Rightarrow> db_formats \<Rightarrow> f64 option \<Rightarrow> price option" where
  "stored_price D F column =
     Option.bind (Option.bind column (dbf_retain F))
       (\<lambda>p. case price_new D p of Ok price \<Rightarrow> Some price | _ \<Rightarrow> None)"

text \<open>Reading a row: the stored status must parse, and is then not used.\<close>

definition row_to_order ::
    "dec_ops \<Rightarrow> db_formats \<Rightarrow> timestamp \<Rightarrow> order_row \<Rightarrow> (order, repository_error) res" where
  "row_to_order D F now row =
     (let i = row_id row;
          account_id = (case row_account_id row of Some a \<Rightarrow> a | None \<Rightarrow> i);
          side_str = dbf_lower F (row_side row);
          type_str = dbf_lower F (row_order_type row);
          tif_str = dbf_lower F (row_tif row) in
      bind (map_err (\<lambda>e. serialization (''Invalid symbol '' @ quoted (row_symbol row) @ '': '' @ value_error_display e))
              (symbol_new (row_symbol row))) (\<lambda>symbol.
      bind (if side_str = ''buy'' then Ok Buy else if side_str = ''sell'' then Ok Sell
            else Err (serialization (''Invalid side: '' @ row_side row))) (\<lambda>side.
      bind (if type_str = ''market'' then Ok Market else if type_str = ''limit'' then Ok Limit
            else if type_str = ''stop'' then Ok Stop
            else if type_str \<in> {''stoplimit'', ''stop_limit'', ''stop-limit''} then Ok StopLimit
            else Err (serialization (''Invalid order_type: '' @ row_order_type row))) (\<lambda>order_type.
      bind (ok_or (dbf_retain F (row_quantity row))
              (serialization (''Invalid quantity: '' @ dbf_show_f64 F (row_quantity row)))) (\<lambda>amount.
      bind (map_err (\<lambda>e. serialization (''Invalid quantity: '' @ value_error_display e))
              (quantity_new D amount)) (\<lambda>quantity.
      bind (map_err (\<lambda>e. serialization (''Failed to parse status JSON: '' @ row_status row @ '' - '' @ e))
              (dbf_decode F (row_status row))) (\<lambda>status_json.
      bind (to_status D status_json) (\<lambda>status.
      bind (if tif_str = ''day'' then Ok Day else if tif_str = ''gtc'' then Ok GTC
            else if tif_str = ''ioc'' then Ok IOC else if tif_str = ''fok'' then Ok FOK
            else Err (serialization (''Invalid time_in_force: '' @ row_tif row))) (\<lambda>tif.
      map_err (\<lambda>e. serialization (''Failed to create Order: '' @ domain_error_display (dbf_time F) e))
        (order_new_with_id now (OrderId i) account_id symbol side quantity order_type tif
           (stored_price D F (row_limit_price row)) (stored_price D F (row_stop_price row))))))))))))"

section \<open>Statements\<close>

text \<open>\<open>INSERT ... ON CONFLICT (id) DO UPDATE\<close>: creation time and provider of an existing row stay.\<close>

definition conflict_update :: "order_row \<Rightarrow> order_row \<Rightarrow> order_row" where
  "conflict_update new old =
     new\<lparr>row_id := row_id old, row_created_at := row_created_at old, row_provider := row_provider old\<rparr>"

definition insert_order :: "order_row \<Rightarrow> order_row list \<Rightarrow> order_row list" where
  "insert_order new t =
     (if \<exists>row \<in> set t. row_id row = row_id new
      then map (\<lambda>row. if row_id row = row_id new then conflict_update new row else row) t
      else t @ [new])"

text \<open>\<open>UPDATE ... WHERE id = $1\<close> with the number of rows it affects.\<close>

definition update_order_row :: "order_row \<Rightarrow> order_row list \<Rightarrow> nat \<times> order_row list" where
  "update_order_row new t =
     (length (filter (\<lambda>row. row_id row = row_id new) t),
      map (\<lambda>row. if row_id row = row_id new then conflict_update new row else row) t)"

definition delete_order_row :: "uuid \<Rightarrow> order_row list \<Rightarrow> nat \<times> order_row list" where
  "delete_order_row i t =
     (length (filter (\<lambda>row. row_id row = i) t), filter (\<lambda>row. row_id row \<noteq> i) t)"

text \<open>\<open>WHERE id = $1\<close> and \<open>WHERE ... ORDER BY created_at DESC\<close>; equal times stay in table order.\<close>

definition select_by_id :: "uuid \<Rightarrow> order_row list \<Rightarrow> order_row option" where
  "select_by_id i t = find (\<lambda>row. row_id row = i) t"

definition select_orders :: "(order_row \<Rightarrow> bool) \<Rightarrow> order_row list \<Rightarrow> order_row list" where
  "select_orders condition t = sort_key (\<lambda>row. - row_created_at row) (filter condition t)"

definition open_status_names :: "string list" where
  "open_status_names = [''Created'', ''Submitted'', ''Pending'', ''PartiallyFilled'']"

section \<open>The repository\<close>

definition read_row ::
    "dec_ops \<Rightarrow> db_formats \<Rightarrow> order_row \<Rightarrow> (order_row db, order, repository_error) io" where
  "read_row D F row = io_bind utc_now (\<lambda>now. io_lift (row_to_order D F now row))"

primrec read_rows ::
    "dec_ops \<Rightarrow> db_formats \<Rightarrow> order_row list \<Rightarrow> (order_row db, order list, repository_error) io" where
  "read_rows D F [] = io_return []"
| "read_rows D F (row # rows) =
     io_bind (read_row D F row) (\<lambda>ord. io_bind (read_rows D F rows) (\<lambda>orders. io_return (ord # orders)))"

definition fetch_orders ::
    "dec_ops \<Rightarrow> db_formats \<Rightarrow> (order_row \<Rightarrow> bool) \<Rightarrow> (order_row db, order list, repository_error) io" where
  "fetch_orders D F condition =
     io_bind (io_map_err (map_sqlx_error (dbf_sqlx F)) (run_query (select_orders condition))) (read_rows D F)"

definition order_repo_get ::
    "dec_ops \<Rightarrow> db_formats \<Rightarrow> order_id \<Rightarrow> (order_row db, order option, repository_error) io" where
  "order_repo_get D F order_id =
     io_bind (io_map_err (map_sqlx_error (dbf_sqlx F)) (run_query (select_by_id (order_uuid order_id))))
       (\<lambda>found. case found of
          Some row \<Rightarrow> io_bind (read_row D F row) (\<lambda>ord. io_return (Some ord))
        | None \<Rightarrow> io_return None)"

definition order_repo_find_by_id ::
    "dec_ops \<Rightarrow> db_formats \<Rightarrow> uuid \<Rightarrow> (order_row db, order option, domain_error) io" where
  "order_repo_find_by_id D F i =
     io_map_err Dom_Repository
       (io_bind (io_map_err (map_sqlx_error (dbf_sqlx F)) (run_query (select_by_id i)))
          (\<lambda>found. case found of
             Some row \<Rightarrow> io_bind (read_row D F row) (\<lambda>ord. io_return (Some ord))
           | None \<Rightarrow> io_return None))"

definition order_repo_find_by_account ::
    "dec_ops \<Rightarrow> db_formats \<Rightarrow> uuid \<Rightarrow> (order_row db, order list, domain_error) io" where
  "order_repo_find_by_account D F account_id =
     io_map_err Dom_Repository (fetch_orders D F (\<lambda>row. row_account_id row = Some account_id))"

definition order_repo_find_active_by_account ::
    "dec_ops \<Rightarrow> db_formats \<Rightarrow> uuid \<Rightarrow> (order_row db, order list, domain_error) io" where
  "order_repo_find_active_by_account D F account_id =
     io_map_err Dom_Repository
       (fetch_orders D F (\<lambda>row. row_account_id row = Some account_id \<and> row_status row \<in> set open_status_names))"

definition order_repo_save ::
    "dec_ops \<Rightarrow> db_formats \<Rightarrow> order \<Rightarrow> (order_row db, unit, domain_error) io" where
  "order_repo_save D F ord =
     io_map_err Dom_Repository
       (io_bind (io_lift (order_to_row D F ord)) (\<lambda>row.
        with_retry (dbf_sqlx F) (run_stmt (\<lambda>t. ((), insert_order row t)))))"

definition order_repo_delete :: "db_formats \<Rightarrow> uuid \<Rightarrow> (order_row db, unit, domain_error) io" where
  "order_repo_delete F i =
     io_map_err Dom_Repository
       (io_bind (io_map_err (map_sqlx_error (dbf_sqlx F)) (run_stmt (delete_order_row i))) (\<lambda>rows_affected.
        if rows_affected = 0 then io_lift (Err (repository_error_not_found (''Order '' @ dbf_uuid F i)))
        else io_return ()))"

definition order_repo_update ::
    "dec_ops \<Rightarrow> db_formats \<Rightarrow> order \<Rightarrow> (order_row db, unit, repository_error) io" where
  "order_repo_update D F ord =
     io_bind (io_lift (order_to_row D F ord)) (\<lambda>row.
     io_bind utc_now (\<lambda>now.
     io_bind (io_map_err (map_sqlx_error (dbf_sqlx F))
                (run_stmt (update_order_row (row\<lparr>row_updated_at := now\<rparr>)))) (\<lambda>rows_affected.
     if rows_affected = 0
     then io_lift (Err (repository_error_not_found (''Order '' @ dbf_uuid F (ord_id ord))))
     else io_return ())))"

definition order_repo_get_open ::
    "dec_ops \<Rightarrow> db_formats \<Rightarrow> (order_row db, order list, repository_error) io" where
  "order_repo_get_open D F = fetch_orders D F (\<lambda>row. row_status row \<in> set open_status_names)"

definition order_repo_get_by_symbol ::
    "dec_ops \<Rightarrow> db_formats \<Rightarrow> symbol \<Rightarrow> (order_row db, order list, repository_error) io" where
  "order_repo_get_by_symbol D F symbol = fetch_orders D F (\<lambda>row. row_symbol row = symbol_str symbol)"

definition order_repo_get_history ::
    "dec_ops \<Rightarrow> db_formats \<Rightarrow> timestamp \<Rightarrow> timestamp \<Rightarrow> (order_row db, order list, repository_error) io" where
  "order_repo_get_history D F start finish =
     fetch_orders D F (\<lambda>row. start \<le> row_created_at row \<and> row_created_at row \<le> finish)"

text \<open>\<open>SELECT COUNT(*) ... WHERE status LIKE $1 || '%'\<close>; the names hold no pattern characters.\<close>

definition order_repo_count_by_status ::
    "db_formats \<Rightarrow> order_status \<Rightarrow> (order_row db, u64, repository_error) io" where
  "order_repo_count_by_status F status =
     io_bind (io_map_err (map_sqlx_error (dbf_sqlx F))
                (run_query (\<lambda>t. length (filter (\<lambda>row. starts_with (row_status row) (variant_name status)) t))))
       (\<lambda>count. io_return (of_nat count))"

text \<open>What the use cases see.\<close>

definition timescale_orders :: "dec_ops \<Rightarrow> db_formats \<Rightarrow> (order_row db, order) entity_repository" where
  "timescale_orders D F =
     \<lparr>er_find_by_id = order_repo_find_by_id D F, er_save = order_repo_save D F\<rparr>"

text \<open>
  The constraints that \<open>src/db/init/01_schema.sql\<close> puts on the columns of the table; the table it
  creates has no column \<open>account_id\<close>.
\<close>

definition schema_accepts :: "order_row \<Rightarrow> bool" where
  "schema_accepts row =
     (row_side row \<in> {''buy'', ''sell''} \<and> row_order_type row \<in> {''market'', ''limit'', ''stop''} \<and>
      row_tif row \<in> {''day'', ''gtc'', ''ioc'', ''fok''} \<and>
      row_status row \<in> {''created'', ''submitted'', ''pending'', ''partially_filled'', ''filled'',
                        ''cancelled'', ''rejected''})"
section \<open>What queries keep\<close>

lemma read_row_frame: "keeps db_table (read_row D F row)"
  by (auto simp: read_row_def intro: keeps_intros utc_now_frame)

lemma read_rows_frame: "keeps db_table (read_rows D F rows)"
  by (induction rows) (auto intro!: keeps_intros read_row_frame)

lemma fetch_orders_frame: "keeps db_table (fetch_orders D F condition)"
  unfolding fetch_orders_def by (intro keeps_intros run_query_frame read_rows_frame)

lemma find_by_id_frame: "keeps db_table (order_repo_find_by_id D F i)"
  unfolding order_repo_find_by_id_def by (intro keeps_intros run_query_frame read_row_frame)

section \<open>The table as a store of orders\<close>

definition order_table :: "order_row db \<Rightarrow> uuid \<Rightarrow> order_row option" where
  "order_table w i = select_by_id i (db_table w)"

definition order_writes :: "dec_ops \<Rightarrow> db_formats \<Rightarrow> order \<Rightarrow> order_row \<Rightarrow> bool" where
  "order_writes D F ord row =
     (\<exists>new. order_to_row D F ord = Ok new \<and>
        (row = new \<or> (\<exists>old. row_id old = row_id new \<and> row = conflict_update new old)))"

definition order_reads :: "dec_ops \<Rightarrow> db_formats \<Rightarrow> order_row \<Rightarrow> order \<Rightarrow> bool" where
  "order_reads D F row ord = (\<exists>now. row_to_order D F now row = Ok ord)"

lemma select_by_id_Some: "select_by_id i t = Some row \<Longrightarrow> row_id row = i \<and> row \<in> set t"
  by (induction t) (auto simp: select_by_id_def split: if_splits)

lemma select_by_id_None: "select_by_id i t = None \<longleftrightarrow> (\<forall>row \<in> set t. row_id row \<noteq> i)"
  by (auto simp: select_by_id_def find_None_iff)

lemma select_map_same:
  "select_by_id i (map (\<lambda>row. if row_id row = row_id new then conflict_update new row else row) t) =
     map_option (\<lambda>row. if i = row_id new then conflict_update new row else row) (select_by_id i t)"
  by (induction t) (auto simp: select_by_id_def conflict_update_def)

lemma select_insert:
  "select_by_id i (insert_order new t) =
     (if i = row_id new
      then Some (case select_by_id i t of None \<Rightarrow> new | Some old \<Rightarrow> conflict_update new old)
      else select_by_id i t)"
proof (cases "\<exists>row \<in> set t. row_id row = row_id new")
  case True
  then have "select_by_id (row_id new) t \<noteq> None" by (auto simp: select_by_id_None)
  with True show ?thesis
    by (auto simp: insert_order_def select_map_same option.map_ident split: option.splits cong: option.map_cong)
next
  case False
  moreover have "select_by_id i (t @ [new]) =
      (case select_by_id i t of None \<Rightarrow> (if i = row_id new then Some new else None) | Some row \<Rightarrow> Some row)"
    by (induction t) (auto simp: select_by_id_def)
  moreover have "select_by_id (row_id new) t = None" using False by (auto simp: select_by_id_None)
  ultimately show ?thesis by (auto simp: insert_order_def split: option.splits)
qed

lemma order_to_row_id: "order_to_row D F ord = Ok row \<Longrightarrow> row_id row = ord_id ord"
  by (auto simp: order_to_row_def res_simps)

lemma row_to_order_id: "row_to_order D F now row = Ok ord \<Longrightarrow> ord_id ord = row_id row"
  by (auto simp: row_to_order_def res_simps Let_def order_new_with_id_def)

lemma order_repo_save_cases:
  assumes "order_repo_save D F ord w = (r, w')"
  obtains (saved) new where "order_to_row D F ord = Ok new" and "r = Ok ()"
      and "db_table w' = insert_order new (db_table w)"
  | (failed) "\<not> is_ok r" and "db_table w' = db_table w"
proof (cases "order_to_row D F ord")
  case (Ok new)
  obtain res w1 where run: "with_retry (dbf_sqlx F) (run_stmt (\<lambda>t. ((), insert_order new t))) w = (res, w1)"
    by (cases "with_retry (dbf_sqlx F) (run_stmt (\<lambda>t. ((), insert_order new t))) w")
  have "r = map_err Dom_Repository res" "w' = w1"
    using assms Ok run by (simp_all add: order_repo_save_def io_map_err_def io_bind_def io_lift_def)
  with with_retry_cases [OF run] Ok show ?thesis by (auto intro: saved failed)
next
  case (Err e)
  with assms show ?thesis by (intro failed) (auto simp: order_repo_save_def io_map_err_def io_bind_def io_lift_def)
next
  case Panic
  with assms show ?thesis by (intro failed) (auto simp: order_repo_save_def io_map_err_def io_bind_def io_lift_def)
qed

lemma order_repo_save_table:
  assumes "order_repo_save D F ord w = (Ok u, w')"
  shows "\<exists>row. order_writes D F ord row \<and> order_table w' = (order_table w)(ord_id ord \<mapsto> row)"
  using assms
proof (cases rule: order_repo_save_cases)
  case (saved new)
  have i: "row_id new = ord_id ord" using saved(1) by (rule order_to_row_id)
  let ?row = "case order_table w (ord_id ord) of None \<Rightarrow> new | Some old \<Rightarrow> conflict_update new old"
  have "order_table w' = (order_table w)(ord_id ord \<mapsto> ?row)"
    using saved(3) i by (auto simp: order_table_def fun_eq_iff select_insert)
  moreover have "order_writes D F ord ?row"
    using saved(1) i by (auto simp: order_writes_def order_table_def dest: select_by_id_Some split: option.split)
  ultimately show ?thesis by blast
qed simp

lemma order_repo_find_cases:
  assumes "order_repo_find_by_id D F i w = (Ok found, w')"
  shows "case order_table w i of
      None \<Rightarrow> found = None
    | Some row \<Rightarrow> (\<exists>ord. found = Some ord \<and> order_reads D F row ord \<and> ord_id ord = i)"
proof -
  have "\<exists>w1. run_query (select_by_id i) w = (Ok (order_table w i), w1) \<and>
      io_map_err Dom_Repository (case order_table w i of
             Some row \<Rightarrow> io_bind (read_row D F row) (\<lambda>ord. io_return (Some ord))
           | None \<Rightarrow> io_return None) w1 = (Ok found, w')"
    using assms
    by (auto simp: order_repo_find_by_id_def io_map_err_def io_bind_def run_query_def run_stmt_def Let_def
        order_table_def split: option.splits list.splits res.splits prod.splits)
  then show ?thesis
    by (auto simp: io_map_err_def io_bind_def io_return_def read_row_def io_lift_def utc_now_def order_reads_def
        order_table_def res_simps dest: row_to_order_id dest!: select_by_id_Some split: option.splits prod.splits res.splits)
qed

interpretation db_orders: order_entities "timescale_orders D F" order_table "order_writes D F" "order_reads D F"
  for D :: dec_ops and F :: db_formats
proof unfold_locales
  show "\<exists>row. order_writes D F ord row \<and> order_table d' = (order_table d)(ord_id ord \<mapsto> row)"
    if "er_save (timescale_orders D F) ord d = (Ok u, d')" for ord d u d'
    using that by (simp add: timescale_orders_def order_repo_save_table)
  show "order_table d' = order_table d"
    if "er_save (timescale_orders D F) ord d = (r, d')" and "\<not> is_ok r" for ord d r d'
    using that by (auto simp: timescale_orders_def order_table_def elim!: order_repo_save_cases)
  show "ord_id ord = i \<and> (\<exists>row. order_table d i = Some row \<and> order_reads D F row ord)"
    if "er_find_by_id (timescale_orders D F) i d = (Ok (Some ord), d')" for i d ord d'
    using that order_repo_find_cases [of D F i d "Some ord" d'] by (auto simp: timescale_orders_def split: option.splits)
  show "order_table d i = None"
    if "er_find_by_id (timescale_orders D F) i d = (Ok None, d')" for i d d'
    using that order_repo_find_cases [of D F i d None d'] by (auto simp: timescale_orders_def split: option.splits)
  show "keeps order_table (er_find_by_id (timescale_orders D F) i)" for i
    using find_by_id_frame by (auto simp: timescale_orders_def keeps_def order_table_def)
qed
section \<open>What survives storage\<close>

definition f64_keeps :: "dec_ops \<Rightarrow> db_formats \<Rightarrow> decimal \<Rightarrow> bool" where
  "f64_keeps D F x = (\<exists>y. dbf_parse_f64 F (d_fmt D x) = Ok y \<and> dbf_retain F y = Some x)"

definition text_keeps :: "db_formats \<Rightarrow> order_status_json \<Rightarrow> bool" where
  "text_keeps F j = (\<exists>s. dbf_encode F j = Ok s \<and> dbf_decode F s = Ok j)"

definition lowers_names :: "db_formats \<Rightarrow> bool" where
  "lowers_names F =
     (dbf_lower F ''BUY'' = ''buy'' \<and> dbf_lower F ''SELL'' = ''sell'' \<and>
      (\<forall>s \<in> {''buy'', ''sell'', ''market'', ''limit'', ''stop'', ''stop_limit'', ''day'', ''gtc'', ''ioc'', ''fok''}.
         dbf_lower F s = s))"

fun status_amounts :: "order_status \<Rightarrow> decimal set" where
  "status_amounts (PartiallyFilled filled remaining avg_price) =
     {qty_inner filled, qty_inner remaining, price_inner avg_price}"
| "status_amounts _ = {}"

definition price_stored :: "dec_ops \<Rightarrow> db_formats \<Rightarrow> price option \<Rightarrow> bool" where
  "price_stored D F p = (case p of None \<Rightarrow> True | Some x \<Rightarrow> 0 < price_inner x \<and> f64_keeps D F (price_inner x))"

text \<open>An order whose row can be read: its columns hold their values and its status has a stored form.\<close>

definition storable :: "dec_ops \<Rightarrow> db_formats \<Rightarrow> order \<Rightarrow> bool" where
  "storable D F ord =
     (symbol_new (symbol_str (ord_symbol ord)) = Ok (ord_symbol ord) \<and>
      0 < qty_inner (ord_quantity ord) \<and> f64_keeps D F (qty_inner (ord_quantity ord)) \<and>
      price_stored D F (ord_limit_price ord) \<and> price_stored D F (ord_stop_price ord) \<and>
      check_prices (ord_type ord) (ord_limit_price ord) (ord_stop_price ord) = Ok () \<and>
      text_keeps F (from_status D (ord_status ord)) \<and>
      to_status D (from_status D (ord_status ord)) = Ok (ord_status ord))"

definition reloaded :: "timestamp \<Rightarrow> order \<Rightarrow> order" where
  "reloaded now ord =
     ord\<lparr>ord_account_id := ord_id ord, ord_filled_quantity := Quantity 0, ord_status := Created,
         ord_created_at := now, ord_updated_at := now\<rparr>"

lemma stored_price_kept: "price_stored D F p \<Longrightarrow> stored_price D F (map_option (price_to_db D F) p) = p"
  by (auto simp: price_stored_def stored_price_def price_to_db_def f64_keeps_def price_new_def split: option.splits)

lemma storable_row: "storable D F ord \<Longrightarrow> \<exists>new. order_to_row D F ord = Ok new"
  by (auto simp: storable_def order_to_row_def f64_keeps_def text_keeps_def)

lemma conflict_update_columns [simp]:
  "row_symbol (conflict_update new old) = row_symbol new" "row_side (conflict_update new old) = row_side new"
  "row_quantity (conflict_update new old) = row_quantity new"
  "row_order_type (conflict_update new old) = row_order_type new"
  "row_limit_price (conflict_update new old) = row_limit_price new"
  "row_stop_price (conflict_update new old) = row_stop_price new"
  "row_tif (conflict_update new old) = row_tif new" "row_status (conflict_update new old) = row_status new"
  "row_account_id (conflict_update new old) = row_account_id new" "row_id (conflict_update new old) = row_id old"
  by (simp_all add: conflict_update_def)

lemma row_to_order_conflict:
  "row_id old = row_id new \<Longrightarrow> row_to_order D F now (conflict_update new old) = row_to_order D F now new"
  unfolding row_to_order_def conflict_update_columns by (simp only:)

lemma row_read_back:
  assumes F: "lowers_names F" and ord: "storable D F ord" and row: "order_writes D F ord row"
  shows "row_to_order D F now row = Ok (reloaded now ord)"
proof -
  obtain new where new: "order_to_row D F ord = Ok new"
    and r: "row = new \<or> (\<exists>old. row_id old = row_id new \<and> row = conflict_update new old)"
    using row by (auto simp: order_writes_def)
  have same: "row_to_order D F now row = row_to_order D F now new"
    using r row_to_order_conflict by blast
  obtain y s where y: "dbf_parse_f64 F (d_fmt D (qty_inner (ord_quantity ord))) = Ok y"
      "dbf_retain F y = Some (qty_inner (ord_quantity ord))"
    and s: "dbf_encode F (from_status D (ord_status ord)) = Ok s" "dbf_decode F s = Ok (from_status D (ord_status ord))"
    using ord by (auto simp: storable_def f64_keeps_def text_keeps_def)
  have q: "quantity_new D (qty_inner (ord_quantity ord)) = Ok (ord_quantity ord)"
    using ord by (simp add: storable_def quantity_new_def)
  let ?low = "dbf_lower F" and ?side = "side_as_str (ord_side ord)"
    and ?type = "order_type_to_db (ord_type ord)" and ?tif = "tif_to_db (ord_time_in_force ord)"
  have side: "(if ?low (?low ?side) = ''buy'' then Ok Buy else if ?low (?low ?side) = ''sell'' then Ok Sell
      else Err e) = (Ok (ord_side ord) :: (side, repository_error) res)" for e
    using F by (cases "ord_side ord") (simp_all add: lowers_names_def)
  have type: "(if ?low ?type = ''market'' then Ok Market else if ?low ?type = ''limit'' then Ok Limit
      else if ?low ?type = ''stop'' then Ok Stop
      else if ?low ?type \<in> {''stoplimit'', ''stop_limit'', ''stop-limit''} then Ok StopLimit
      else Err e) = (Ok (ord_type ord) :: (order_type, repository_error) res)" for e
    using F by (cases "ord_type ord") (simp_all add: lowers_names_def)
  have tif: "(if ?low ?tif = ''day'' then Ok Day else if ?low ?tif = ''gtc'' then Ok GTC
      else if ?low ?tif = ''ioc'' then Ok IOC else if ?low ?tif = ''fok'' then Ok FOK
      else Err e) = (Ok (ord_time_in_force ord) :: (time_in_force, repository_error) res)" for e
    using F by (cases "ord_time_in_force ord") (simp_all add: lowers_names_def)
  have cols: "row_id new = ord_id ord" "row_symbol new = symbol_str (ord_symbol ord)" "row_side new = ?low ?side"
      "row_quantity new = y" "row_order_type new = ?type" "row_tif new = ?tif" "row_status new = s"
      "row_limit_price new = map_option (price_to_db D F) (ord_limit_price ord)"
      "row_stop_price new = map_option (price_to_db D F) (ord_stop_price ord)"
      "row_account_id new = Some (ord_id ord)"
    using new y(1) s(1) by (auto simp: order_to_row_def)
  have prices: "stored_price D F (row_limit_price new) = ord_limit_price ord"
      "stored_price D F (row_stop_price new) = ord_stop_price ord"
    using ord by (simp_all add: cols storable_def stored_price_kept)
  have status: "to_status D (from_status D (ord_status ord)) = Ok (ord_status ord)"
    and symbol: "symbol_new (symbol_str (ord_symbol ord)) = Ok (ord_symbol ord)"
    and check: "check_prices (ord_type ord) (ord_limit_price ord) (ord_stop_price ord) = Ok ()"
    using ord by (simp_all add: storable_def)
  have "row_to_order D F now new = Ok (reloaded now ord)"
    unfolding row_to_order_def Let_def cols(1-7,10) prices side type tif symbol y(2) s(2) status
    by (simp add: q s status order_new_with_id_def check reloaded_def quantity_new_unchecked_def)
  with same show ?thesis by simp
qed
section \<open>Properties\<close>

text \<open>  The stored form of a status is read back as the status exactly when the amounts it holds are
  positive.
\<close>

theorem stored_status_read_back:
  assumes "\<And>x. x \<in> status_amounts s \<Longrightarrow> d_parse D (d_fmt D x) = Ok x"
  shows "to_status D (from_status D s) = Ok s \<longleftrightarrow> (\<forall>x \<in> status_amounts s. 0 < x)"
proof (cases s)
  case (PartiallyFilled filled remaining avg_price)
  with assms show ?thesis
    by (cases filled; cases remaining; cases avg_price)
      (auto simp: to_status_def parse_amount_def quantity_new_def price_new_def Let_def res_simps)
qed (simp_all add: to_status_def stored_moment_def Let_def)


text \<open>Fill messages of the trading service, one after the other.\<close>

primrec handle_fills ::
    "dec_ops \<Rightarrow> uc_texts \<Rightarrow> ('d, order) entity_repository \<Rightarrow> uuid \<Rightarrow> timestamp \<Rightarrow> timestamp \<Rightarrow>
     timestamp \<Rightarrow> order_fill_dto list \<Rightarrow> ('d \<times> 'o, unit, application_error) io" where
  "handle_fills D T repo fresh now1 now2 now3 [] = io_return ()"
| "handle_fills D T repo fresh now1 now2 now3 (f # fs) =
     io_bind (handle_order_fill D T repo fresh now1 now2 now3 f)
       (\<lambda>_. handle_fills D T repo fresh now1 now2 now3 fs)"

text \<open>On a connection without faults a save writes and a lookup reads.\<close>

lemma save_on_good_connection:
  assumes "order_to_row D F ord = Ok new" and "db_script w = []"
  shows "order_repo_save D F ord w = (Ok (), w\<lparr>db_table := insert_order new (db_table w)\<rparr>)"
  using assms
  by (simp add: order_repo_save_def io_map_err_def io_bind_def io_lift_def with_retry_def MAX_RETRIES_def
      retry_from_good [OF assms(2), where left = 4, simplified] del: retry_when.simps)

lemma find_on_good_connection:
  assumes "order_table w i = Some row" and "db_script w = []"
    and "row_to_order D F (db_clock w (db_reads w)) row = Ok ord"
  shows "order_repo_find_by_id D F i w = (Ok (Some ord), w\<lparr>db_reads := db_reads w + 1\<rparr>)"
  using assms
  by (simp add: order_repo_find_by_id_def io_map_err_def io_bind_def run_query_def run_stmt_script
      order_table_def read_row_def utc_now_def io_lift_def io_return_def)

lemma full_fill:
  assumes "dec_ok D" and "representable q" and "0 < q"
  shows "order_fill D now1 now2 (ord\<lparr>ord_quantity := Quantity q, ord_filled_quantity := Quantity 0, ord_status := Created\<rparr>)
      (Quantity q) p =
    Ok (ord\<lparr>ord_quantity := Quantity q, ord_filled_quantity := Quantity q, ord_status := Filled now1,
            ord_updated_at := now2\<rparr>)"
  using assms
  by (simp add: order_fill_def remaining_quantity_def quantity_new_unchecked_def d_sub_0 d_add_0_left d_sub_self
      calculate_avg_fill_price_def)

text \<open>
  The connection is good and the row of the order is read as the new order it is: what a full fill
  finds, and what it leaves.
\<close>

definition refillable :: "dec_ops \<Rightarrow> db_formats \<Rightarrow> order \<Rightarrow> order_row db \<times> 'o \<Rightarrow> bool" where
  "refillable D F ord w \<longleftrightarrow>
     db_script (fst w) = [] \<and> (\<exists>row. order_table (fst w) (ord_id ord) = Some row \<and>
       (\<forall>now. row_to_order D F now row = Ok (reloaded now ord)))"

lemma refill:
  assumes "dec_ok D" and "representable q" and "0 < q" and "0 < p"
    and "lowers_names F" and "storable D F ord" and "ord_quantity ord = Quantity q"
    and "text_keeps F (from_status D (Filled now1))" and "refillable D F ord w"
  shows "\<exists>w1. handle_order_fill D T (timescale_orders D F) fresh now1 now2 now3
      \<lparr>ofd_order_id = ord_id ord, ofd_fill_quantity = q, ofd_fill_price = p\<rparr> w = (Ok (), w1) \<and> refillable D F ord w1"
proof -
  obtain d x where w: "w = (d, x)" by (cases w)
  from assms(9) obtain row where s: "db_script d = []" and row: "order_table d (ord_id ord) = Some row"
    and rd: "\<And>now. row_to_order D F now row = Ok (reloaded now ord)" by (auto simp: refillable_def w)
  define now where "now = db_clock d (db_reads d)"
  let ?d1 = "d\<lparr>db_reads := db_reads d + 1\<rparr>"
  have find: "order_repo_find_by_id D F (ord_id ord) d = (Ok (Some (reloaded now ord)), ?d1)"
    unfolding now_def using row s rd by (intro find_on_good_connection)
  let ?o = "(reloaded now ord)\<lparr>ord_filled_quantity := Quantity q, ord_status := Filled now1, ord_updated_at := now2\<rparr>"
  have fill: "order_fill D now1 now2 (reloaded now ord) (Quantity q) (Price p) = Ok ?o"
    using full_fill [OF assms(1-3), of now1 now2 "ord\<lparr>ord_account_id := ord_id ord, ord_created_at := now, ord_updated_at := now\<rparr>"] assms(7)
    by (cases ord) (simp add: reloaded_def)
  have st: "storable D F ?o"
    using assms(6,8) by (simp add: storable_def reloaded_def to_status_def stored_moment_def Let_def)
  then obtain new where new: "order_to_row D F ?o = Ok new" using storable_row by blast
  let ?d2 = "?d1\<lparr>db_table := insert_order new (db_table ?d1)\<rparr>"
  have save: "order_repo_save D F ?o ?d1 = (Ok (), ?d2)"
    using new s by (intro save_on_good_connection) simp_all
  obtain row' where row': "order_writes D F ?o row'" "order_table ?d2 = (order_table ?d1)(ord_id ?o \<mapsto> row')"
    using order_repo_save_table [OF save] by blast
  have "row_to_order D F now' row' = Ok (reloaded now' ord)" for now'
    using row_read_back [OF assms(5) st row'(1)] by (simp add: reloaded_def)
  then have "refillable D F ord (?d2, x)" using s row'(2) by (auto simp: refillable_def reloaded_def)
  moreover have "handle_order_fill D T (timescale_orders D F) fresh now1 now2 now3
      \<lparr>ofd_order_id = ord_id ord, ofd_fill_quantity = q, ofd_fill_price = p\<rparr> (d, x) = (Ok (), (?d2, x))"
    using find fill save assms(3,4)
    by (simp add: handle_order_fill_def fill_order_execute_def repo_call_def on_store_def io_map_err_def io_bind_def
        timescale_orders_def bind_pure save_and_notify_def port_call_def on_ports_def mock_notification_port_def
        io_return_def quantity_new_def price_new_def service_fill_order_def found_or_def io_lift_def validated_def
        domain_call_def)
  ultimately show ?thesis using w by blast
qed



text \<open>The steps that write the table, with any outcome.\<close>

inductive order_db_step :: "dec_ops \<Rightarrow> db_formats \<Rightarrow> order_row db \<Rightarrow> order_row db \<Rightarrow> bool" for D F where
  by_save: "order_repo_save D F ord w = (r, w') \<Longrightarrow> order_db_step D F w w'"
| by_update: "order_repo_update D F ord w = (r', w') \<Longrightarrow> order_db_step D F w w'"
| by_delete: "order_repo_delete F i w = (r, w') \<Longrightarrow> order_db_step D F w w'"

text \<open>\<open>serde_json\<close> writes a structure as an object, whose text starts with a brace.\<close>

definition writes_objects :: "db_formats \<Rightarrow> bool" where
  "writes_objects F = (\<forall>j s. dbf_encode F j = Ok s \<longrightarrow> (\<exists>t. s = CHR ''{'' # t))"

definition holds_objects :: "order_row db \<Rightarrow> bool" where
  "holds_objects w = (\<forall>row \<in> set (db_table w). \<exists>t. row_status row = CHR ''{'' # t)"

lemma order_to_row_object:
  "writes_objects F \<Longrightarrow> order_to_row D F ord = Ok new \<Longrightarrow> \<exists>t. row_status new = CHR ''{'' # t"
  by (auto simp: order_to_row_def writes_objects_def res_simps)

lemma set_overwrite:
  "row \<in> set (map (\<lambda>row. if row_id row = i then conflict_update new row else row) t) \<Longrightarrow>
     row \<in> set t \<or> row_status row = row_status new"
  by (auto split: if_splits)

lemma set_insert_order: "row \<in> set (insert_order new t) \<Longrightarrow> row \<in> set t \<or> row_status row = row_status new"
  unfolding insert_order_def by (auto dest: set_overwrite split: if_splits)

lemma order_repo_update_table:
  assumes "order_repo_update D F ord w = (r, w')"
  shows "db_table w' = db_table w \<or> (\<exists>new now. order_to_row D F ord = Ok new \<and>
    db_table w' = snd (update_order_row (new\<lparr>row_updated_at := now\<rparr>) (db_table w)))"
proof (cases "order_to_row D F ord")
  case (Ok new)
  then have "db_table w' = db_table w \<or> db_table w' =
      snd (update_order_row (new\<lparr>row_updated_at := db_clock w (db_reads w)\<rparr>) (db_table w))"
    using assms
    by (auto simp: order_repo_update_def io_bind_def io_lift_def utc_now_def io_map_err_def io_return_def
        run_stmt_def Let_def split: prod.splits option.splits list.splits if_splits)
  with Ok show ?thesis by blast
qed (use assms in \<open>simp_all add: order_repo_update_def io_bind_def io_lift_def\<close>)

lemma order_repo_delete_table:
  assumes "order_repo_delete F i w = (r, w')"
  shows "set (db_table w') \<subseteq> set (db_table w)"
  using assms
  by (auto simp: order_repo_delete_def io_bind_def io_lift_def io_map_err_def io_return_def delete_order_row_def
      run_stmt_def Let_def split: res.splits prod.splits option.splits list.splits if_splits)

lemma order_db_step_objects:
  assumes "order_db_step D F w w'" and "writes_objects F" and "holds_objects w"
  shows "holds_objects w'"
  using assms
proof (induction rule: order_db_step.induct)
  case (by_save ord w r w')
  from by_save(1) show ?case
  proof (cases rule: order_repo_save_cases)
    case (saved new)
    then show ?thesis
      using by_save(3) order_to_row_object [OF by_save(2) saved(1)]
      by (fastforce simp: holds_objects_def dest: set_insert_order)
  next
    case failed
    then show ?thesis using by_save(3) by (simp add: holds_objects_def)
  qed
next
  case (by_update ord w r' w')
  from order_repo_update_table [OF by_update(1)] show ?case
  proof (elim disjE exE conjE)
    fix new now
    assume n: "order_to_row D F ord = Ok new"
      "db_table w' = snd (update_order_row (new\<lparr>row_updated_at := now\<rparr>) (db_table w))"
    then show ?thesis
      using by_update(3) order_to_row_object [OF by_update(2) n(1)]
      by (fastforce simp: holds_objects_def update_order_row_def dest: set_overwrite)
  qed (use by_update(3) in \<open>simp add: holds_objects_def\<close>)
next
  case (by_delete i w r w')
  then show ?case using order_repo_delete_table [OF by_delete(1)] by (auto simp: holds_objects_def)
qed

lemma fetch_none:
  assumes "\<forall>row \<in> set (db_table w). \<not> condition row" and "fetch_orders D F condition w = (Ok orders, w')"
  shows "orders = []"
proof -
  have none: "select_orders condition (db_table w) = []" using assms(1) by (simp add: select_orders_def)
  show ?thesis
    using assms(2)
    by (auto simp: fetch_orders_def io_bind_def io_map_err_def run_query_def run_stmt_def Let_def none io_return_def
        split: option.splits list.splits)
qed

text \<open>C29:
  Whatever is saved, updated or deleted, no query for open orders ever finds one: the stored status
  is a JSON object, the queries compare it with bare names.  Nor does any row meet the constraints of
  the schema that the repository ships.
\<close>

theorem open_orders_never_listed:
  assumes "writes_objects F" and "(order_db_step D F)\<^sup>*\<^sup>* w0 w" and "db_table w0 = []"
  shows "(order_repo_get_open D F w = (Ok orders, w1) \<longrightarrow> orders = []) \<and>
    (order_repo_find_active_by_account D F a w = (Ok active, w2) \<longrightarrow> active = []) \<and>
    (order_repo_count_by_status F status w = (Ok count, w3) \<longrightarrow> count = 0) \<and>
    (\<forall>row \<in> set (db_table w). \<not> schema_accepts row)"
proof -
  have "holds_objects w0" using assms(3) by (simp add: holds_objects_def)
  with assms(2) have "holds_objects w"
    by (induction rule: rtranclp_induct) (auto intro: order_db_step_objects [OF _ assms(1)])
  then have obj: "\<And>row. row \<in> set (db_table w) \<Longrightarrow> \<exists>t. row_status row = CHR ''{'' # t"
    by (simp add: holds_objects_def)
  have bare: "row_status row \<notin> set open_status_names" and "\<not> starts_with (row_status row) (variant_name status)"
    and schema: "\<not> schema_accepts row" if "row \<in> set (db_table w)" for row
    using obj [OF that] by (cases status; auto simp: open_status_names_def schema_accepts_def starts_with_def)+
  then have "filter (\<lambda>row. starts_with (row_status row) (variant_name status)) (db_table w) = []"
    by (simp add: filter_empty_conv)
  then have "order_repo_count_by_status F status w = (Ok count, w3) \<longrightarrow> count = 0"
    by (auto simp: order_repo_count_by_status_def io_bind_def io_map_err_def run_query_def run_stmt_def Let_def
        io_return_def split: option.splits list.splits)
  moreover have "order_repo_get_open D F w = (Ok orders, w1) \<longrightarrow> orders = []"
    using bare fetch_none [of w "\<lambda>row. row_status row \<in> set open_status_names" D F orders w1]
    by (auto simp: order_repo_get_open_def)
  moreover have "order_repo_find_active_by_account D F a w = (Ok active, w2) \<longrightarrow> active = []"
    using bare fetch_none [of w "\<lambda>row. row_account_id row = Some a \<and> row_status row \<in> set open_status_names" D F active w2]
    by (auto simp: order_repo_find_active_by_account_def io_map_err_def res_simps split: prod.splits)
  ultimately show ?thesis using schema by blast
qed
text \<open>C30:
  An order that the market refuses is not taken back: the use case reports the refusal, and the
  order stays in the database as one that is pending.
\<close>

theorem refused_order_stays_stored:
  assumes "dp_is_market_open DP (cod_symbol dto) x = (Ok True, x1)"
    and "symbol_new (cod_symbol dto) = Ok symbol" and "0 < cod_quantity dto"
    and "create_order fresh1 fresh2 now1 now2 (cod_account_id dto) symbol (side_from_dto (cod_side dto))
           (Quantity (cod_quantity dto)) = Ok (ord, ev)"
    and "order_repo_save D F ord d = (Ok (), d1)"
    and "xp_submit_order XP fresh1 x1 = (Err e, x2)"
  shows "create_order_execute D T (timescale_orders D F) XP DP NP fresh1 fresh2 now1 now2 dto (d, x) =
      (Err (App_Infrastructure (application_error_display e)), (d1, x2)) \<and>
    (\<exists>row. order_table d1 = (order_table d)(fresh1 \<mapsto> row) \<and> order_writes D F ord row) \<and>
    ord_status ord = Pending now1 \<and> ord_type ord = Market"
proof -
  have ord: "ord_id ord = fresh1" "ord_status ord = Pending now1" "ord_type ord = Market"
    using assms(4) by (auto simp: create_order_def order_new_def res_simps)
  have "\<exists>row. order_table d1 = (order_table d)(fresh1 \<mapsto> row) \<and> order_writes D F ord row"
    using order_repo_save_table [OF assms(5)] ord(1) by auto
  moreover have "create_order_execute D T (timescale_orders D F) XP DP NP fresh1 fresh2 now1 now2 dto (d, x) =
      (Err (App_Infrastructure (application_error_display e)), (d1, x2))"
    using assms ord(1)
    by (simp add: create_order_execute_def port_call_def on_ports_def io_map_err_def io_bind_def validated_def
        quantity_new_def io_lift_def domain_call_def repo_call_def on_store_def timescale_orders_def)
  ultimately show ?thesis using ord(2,3) by simp
qed

text \<open>
  A cancellation that is reported as done, or that changed the database, was agreed to by the market
  and then applied to the order as it was read.
\<close>

theorem cancellation_agreed_by_market:
  assumes "cancel_order_execute T (timescale_orders D F) XP NP fresh now1 now2 now3 order_id reason w = (r, w')"
    and "is_ok r \<or> order_table (fst w') \<noteq> order_table (fst w)"
  shows "(\<exists>p p'. xp_cancel_order XP order_id p = (Ok (), p')) \<and>
    (\<exists>row ord ord' ev row'. order_table (fst w) order_id = Some row \<and> order_reads D F row ord \<and>
       service_cancel_order fresh now1 now2 now3 ord reason = Ok (ord', ev) \<and>
       order_writes D F ord' row' \<and> order_table (fst w') = (order_table (fst w))(order_id \<mapsto> row') \<and>
       (is_ok r \<longrightarrow> r = Ok (order_to_dto ord')))"
  by (rule db_orders.cancel_outcome [OF assms]) blast

text \<open>
  Likewise a fill; when it is stored, only the notification can still make the use case fail, so an
  error does not mean that the fill was not recorded.
\<close>

theorem recorded_fill:
  assumes "fill_order_execute D T (timescale_orders D F) NP fresh now1 now2 now3 dto w = (r, w')"
    and "is_ok r \<or> order_table (fst w') \<noteq> order_table (fst w)"
  shows "\<exists>row ord ord' ev row'. order_table (fst w) (ofd_order_id dto) = Some row \<and> order_reads D F row ord \<and>
    service_fill_order D fresh now1 now2 now3 ord (Quantity (ofd_fill_quantity dto))
      (Price (ofd_fill_price dto)) = Ok (ord', ev) \<and>
    order_writes D F ord' row' \<and> order_table (fst w') = (order_table (fst w))(ofd_order_id dto \<mapsto> row') \<and>
    (is_ok r \<longrightarrow> r = Ok (order_to_dto ord'))"
  by (rule db_orders.fill_outcome [OF assms]) blast

section \<open>Witnesses\<close>

text \<open>Formats for the amounts 40, 60, 100 and 150 and the states an example goes through.\<close>

definition sample_dec :: dec_ops where
  "sample_dec = exact_dec\<lparr>
     d_fmt := (\<lambda>x. if x = 40 then ''40'' else if x = 60 then ''60'' else if x = 100 then ''100'' else ''150''),
     d_parse := (\<lambda>s. if s = ''40'' then Ok 40 else if s = ''60'' then Ok 60 else if s = ''100'' then Ok 100
                     else Ok 150)\<rparr>"

definition sample_formats :: db_formats where
  "sample_formats =
     \<lparr>dbf_parse_f64 = (\<lambda>s. if s = ''100'' then Ok (Finite 100) else Err ''invalid''),
      dbf_retain = (\<lambda>y. case y of Finite r \<Rightarrow> Some r | _ \<Rightarrow> None), dbf_show_f64 = (\<lambda>_. ''''),
      dbf_lower = (\<lambda>s. if s = ''BUY'' then ''buy'' else if s = ''SELL'' then ''sell'' else s),
      dbf_encode = (\<lambda>j. Ok (CHR ''{'' # osj_variant j)),
      dbf_decode = (\<lambda>s. if s = ''{Created'' then Ok (from_status exact_dec Created)
                        else if s = ''{Pending'' then Ok (from_status exact_dec (Pending 1))
                        else Ok (from_status exact_dec (Filled 1))),
      dbf_sqlx = (\<lambda>_. ''''), dbf_time = (\<lambda>_. ''''), dbf_uuid = (\<lambda>_. '''')\<rparr>"

definition sample_db_order :: order where
  "sample_db_order =
     \<lparr>ord_id = 7, ord_account_id = 3, ord_symbol = Symbol ''NQ'', ord_side = Buy, ord_type = Market,
      ord_quantity = Quantity 100, ord_filled_quantity = Quantity 0, ord_limit_price = None,
      ord_stop_price = None, ord_status = Created, ord_time_in_force = Day, ord_created_at = 0,
      ord_updated_at = 0\<rparr>"

definition sample_db :: "sqlx_error option list \<Rightarrow> order_row db" where
  "sample_db script = \<lparr>db_table = [], db_script = script, db_slept = [], db_clock = int, db_reads = 0\<rparr>"

definition sample_row :: order_row where
  "sample_row =
     \<lparr>row_id = 7, row_symbol = ''NQ'', row_side = ''buy'', row_quantity = Finite 100,
      row_order_type = ''market'', row_limit_price = None, row_stop_price = None, row_tif = ''day'',
      row_status = ''{Created'', row_created_at = 0, row_updated_at = 0, row_provider = ''infrastructure'',
      row_account_id = Some 7\<rparr>"

lemma sample_dec_ok: "dec_ok sample_dec"
  using dec_ok_exact by (simp add: dec_ok_def sample_dec_def)

lemma sample_lowers: "lowers_names sample_formats"
  by (simp add: lowers_names_def sample_formats_def)

lemma sample_to_row: "order_to_row sample_dec sample_formats sample_db_order = Ok sample_row"
  by (simp add: order_to_row_def sample_dec_def sample_formats_def sample_db_order_def sample_row_def)

lemma sample_symbol: "symbol_new ''NQ'' = Ok (Symbol ''NQ'')"
  by code_simp

lemma sample_storable: "storable sample_dec sample_formats sample_db_order"
  by (simp add: storable_def sample_db_order_def sample_formats_def sample_dec_def sample_symbol
      f64_keeps_def price_stored_def check_prices_def
      text_keeps_def to_status_def Let_def)

definition sample_saved :: "order_row db" where
  "sample_saved = (sample_db [])\<lparr>db_table := [sample_row]\<rparr>"

lemma sample_save: "order_repo_save sample_dec sample_formats sample_db_order (sample_db []) = (Ok (), sample_saved)"
  using save_on_good_connection [OF sample_to_row, of "sample_db []"]
  by (simp add: sample_db_def sample_saved_def insert_order_def)

theorem stored_status_read_back_witness:
  "to_status sample_dec (from_status sample_dec (PartiallyFilled (Quantity 40) (Quantity 60) (Price 150))) =
     Ok (PartiallyFilled (Quantity 40) (Quantity 60) (Price 150))"
  by (subst stored_status_read_back) (auto simp: sample_dec_def)




theorem open_orders_never_listed_witness:
  "\<exists>w1. order_repo_get_open sample_dec sample_formats sample_saved = (Ok [], w1) \<and>
     order_table sample_saved 7 = Some sample_row"
proof -
  have o: "writes_objects sample_formats" by (auto simp: writes_objects_def sample_formats_def)
  have r: "(order_db_step sample_dec sample_formats)\<^sup>*\<^sup>* (sample_db []) sample_saved"
    using sample_save by (intro r_into_rtranclp order_db_step.by_save)
  have e: "db_table (sample_db []) = []" by (simp add: sample_db_def)
  obtain orders w1 where g: "order_repo_get_open sample_dec sample_formats sample_saved = (Ok orders, w1)"
    by (simp add: order_repo_get_open_def fetch_orders_def io_bind_def io_map_err_def run_query_def
        run_stmt_script sample_saved_def sample_db_def select_orders_def sample_row_def open_status_names_def io_return_def)
  moreover have "orders = []"
    using open_orders_never_listed [OF o r e, of orders w1] g by blast
  moreover have "order_table sample_saved 7 = Some sample_row"
    by (simp add: order_table_def sample_saved_def select_by_id_def sample_row_def)
  ultimately show ?thesis by simp
qed
definition sample_uc_texts :: uc_texts where
  "sample_uc_texts = \<lparr>ut_time = (\<lambda>_. ''''), ut_uuid = (\<lambda>_. ''''), ut_reason = (\<lambda>_. '''')\<rparr>"

text \<open>A market that cancels what it is asked to, records it, and refuses every new order.\<close>

definition sample_market :: "uuid list order_execution_port" where
  "sample_market =
     \<lparr>xp_submit_order = (\<lambda>i. io_lift (Err (App_Infrastructure ''rejected''))),
      xp_cancel_order = (\<lambda>i w. (Ok (), i # w)), xp_is_market_open = (\<lambda>_. io_return True)\<rparr>"

theorem refused_order_stays_stored_witness:
  "\<exists>d1. fst (create_order_execute sample_dec sample_uc_texts (timescale_orders sample_dec sample_formats) sample_market
       mock_market_data_port mock_notification_port 7 8 1 2
       \<lparr>cod_account_id = 3, cod_symbol = ''NQ'', cod_side = Dto_Buy, cod_order_type = Dto_Limit, cod_quantity = 100,
        cod_limit_price = Some 150, cod_stop_price = None\<rparr> (sample_db [], [])) =
       Err (App_Infrastructure ''Infrastructure error: rejected'') \<and>
     order_table d1 7 \<noteq> None"
proof -
  let ?dto = "\<lparr>cod_account_id = 3, cod_symbol = ''NQ'', cod_side = Dto_Buy, cod_order_type = Dto_Limit,
    cod_quantity = 100, cod_limit_price = Some 150, cod_stop_price = None\<rparr>"
  have m: "dp_is_market_open mock_market_data_port (cod_symbol ?dto) [] = (Ok True, [])"
    by (simp add: mock_market_data_port_def io_return_def)
  have q: "symbol_new (cod_symbol ?dto) = Ok (Symbol ''NQ'')" "0 < cod_quantity ?dto" by (simp_all add: sample_symbol)
  obtain ord ev where c: "create_order 7 8 1 2 (cod_account_id ?dto) (Symbol ''NQ'') (side_from_dto (cod_side ?dto))
      (Quantity (cod_quantity ?dto)) = Ok (ord, ev)"
    and o: "ord_quantity ord = Quantity 100" "ord_limit_price ord = None" "ord_stop_price ord = None"
    by (auto simp: create_order_def order_new_def check_prices_def)
  obtain new where "order_to_row sample_dec sample_formats ord = Ok new"
    using o by (simp add: order_to_row_def sample_formats_def sample_dec_def)
  then obtain d1 where s: "order_repo_save sample_dec sample_formats ord (sample_db []) = (Ok (), d1)"
    using save_on_good_connection [of sample_dec sample_formats ord new "sample_db []"] by (auto simp: sample_db_def)
  have x: "xp_submit_order sample_market 7 [] = (Err (App_Infrastructure ''rejected''), [])"
    by (simp add: sample_market_def io_lift_def)
  from refused_order_stays_stored [OF m q c s x, of sample_uc_texts mock_notification_port]
  show ?thesis by (intro exI [of _ d1]) auto
qed

theorem cancellation_agreed_by_market_witness:
  "\<exists>r w'. cancel_order_execute sample_uc_texts (timescale_orders sample_dec sample_formats) sample_market
       mock_notification_port 9 1 1 1 7 None (sample_saved, []) = (r, w') \<and> is_ok r \<and>
     order_table (fst w') 7 \<noteq> None"
proof -
  have row: "order_table sample_saved 7 = Some sample_row"
    by (simp add: order_table_def sample_saved_def select_by_id_def sample_row_def)
  have "order_writes sample_dec sample_formats sample_db_order sample_row"
    using sample_to_row by (simp add: order_writes_def)
  then have rd: "row_to_order sample_dec sample_formats now sample_row = Ok (reloaded now sample_db_order)" for now
    using row_read_back [OF sample_lowers sample_storable] by blast
  obtain d1 where find: "order_repo_find_by_id sample_dec sample_formats 7 sample_saved =
      (Ok (Some (reloaded 0 sample_db_order)), d1)" and d1: "db_script d1 = []"
    using find_on_good_connection [OF row _ rd] by (auto simp: sample_saved_def sample_db_def)
  define ord where "ord = (reloaded 0 sample_db_order)\<lparr>ord_status := Cancelled 1 ''user_request'', ord_updated_at := 1\<rparr>"
  have cancel: "\<exists>ev. service_cancel_order 9 1 1 1 (reloaded 0 sample_db_order) None = Ok (ord, ev)"
    by (simp add: service_cancel_order_def order_cancel_def order_can_cancel_def reloaded_def ord_def Let_def)
  obtain new where "order_to_row sample_dec sample_formats ord = Ok new"
    by (simp add: order_to_row_def sample_formats_def sample_dec_def ord_def reloaded_def sample_db_order_def)
  then obtain d2 where save: "order_repo_save sample_dec sample_formats ord d1 = (Ok (), d2)"
    using save_on_good_connection d1 by blast
  obtain r w' where run: "cancel_order_execute sample_uc_texts (timescale_orders sample_dec sample_formats) sample_market
       mock_notification_port 9 1 1 1 7 None (sample_saved, []) = (r, w')" and ok: "is_ok r"
    using find save cancel
    by (auto simp: cancel_order_execute_def repo_call_def on_store_def io_map_err_def io_bind_def timescale_orders_def
        bind_pure order_is_active_def reloaded_def port_call_def on_ports_def sample_market_def save_and_notify_def
        mock_notification_port_def io_return_def found_or_def io_lift_def domain_call_def)
  from cancellation_agreed_by_market [OF run disjI1 [OF ok]] have "order_table (fst w') 7 \<noteq> None" by auto
  with run ok show ?thesis by blast
qed

end
