(* ===== verification/Fill_Store.thy ===== *)
theory Fill_Store
  imports Db_Connection
begin

text \<open>
  The fill repository of \<open>crates/infrastructure/src/database/fill_repo.rs\<close>.  Its amounts are
  \<open>NUMERIC\<close> columns, which hold a decimal as it is.
\<close>

section \<open>Rows\<close>

record fill_row =
  frow_id :: uuid
  frow_time :: timestamp
  frow_order_id :: uuid
  frow_symbol :: string
  frow_side :: string
  frow_quantity :: decimal
  frow_price :: decimal
  frow_commission :: decimal
  frow_exchange :: string
  frow_provider :: string

text \<open>
  The identity that the database generates for the \<open>n\<close>th row, \<open>str::to_lowercase\<close>, the debug form of
  an error and the text of driver errors.
\<close>

record fill_formats =
  ff_generated :: "nat \<Rightarrow> uuid"
  ff_lower :: "string \<Rightarrow> string"
  ff_debug :: "value_error \<Rightarrow> string"
  ff_sqlx :: "sqlx_error \<Rightarrow> string"

definition fill_map_sqlx_error :: "(sqlx_error \<Rightarrow> string) \<Rightarrow> sqlx_error \<Rightarrow> repository_error" where
  "fill_map_sqlx_error = map_sqlx_error_for ''Fill''"

definition row_to_fill :: "dec_ops \<Rightarrow> fill_formats \<Rightarrow> fill_row \<Rightarrow> (fill, repository_error) res" where
  "row_to_fill D F row =
     bind (map_err (\<lambda>e. repository_error_serialization (''Invalid symbol in database: '' @ value_error_display e))
             (symbol_new (frow_symbol row))) (\<lambda>symbol.
     bind (map_err (\<lambda>e. repository_error_serialization (''Invalid quantity in database: '' @ ff_debug F e))
             (quantity_new D (frow_quantity row))) (\<lambda>quantity.
     bind (map_err (\<lambda>e. repository_error_serialization (''Invalid price in database: '' @ ff_debug F e))
             (price_new D (frow_price row))) (\<lambda>price.
     bind (if ff_lower F (frow_side row) = ''buy'' then Ok Buy
           else if ff_lower F (frow_side row) = ''sell'' then Ok Sell
           else Err (repository_error_serialization (''Invalid side in database: '' @ frow_side row))) (\<lambda>side.
     Ok (fill_new (OrderId (frow_order_id row)) symbol quantity price side (frow_time row))))))"

text \<open>What is bound to the statement; the identity is left to the database.\<close>

definition fill_to_row :: "fill \<Rightarrow> fill_row" where
  "fill_to_row f =
     \<lparr>frow_id = 0, frow_time = fl_timestamp f, frow_order_id = order_uuid (fl_order_id f),
      frow_symbol = symbol_str (fl_symbol f), frow_side = side_as_str (fl_side f),
      frow_quantity = qty_inner (fl_quantity f), frow_price = price_inner (fl_price f),
      frow_commission = (case fl_commission f of Some m \<Rightarrow> m_amount m | None \<Rightarrow> 0),
      frow_exchange = ''default_exchange'', frow_provider = ''manual''\<rparr>"

section \<open>Statements\<close>

text \<open>\<open>INSERT ... ON CONFLICT (time, id) DO NOTHING\<close>, for one row and for several.\<close>

definition insert_fill :: "fill_formats \<Rightarrow> fill_row \<Rightarrow> fill_row list \<Rightarrow> fill_row list" where
  "insert_fill F row t =
     (let new = row\<lparr>frow_id := ff_generated F (length t)\<rparr> in
      if \<exists>old \<in> set t. frow_time old = frow_time new \<and> frow_id old = frow_id new then t else t @ [new])"

definition insert_fills :: "fill_formats \<Rightarrow> fill_row list \<Rightarrow> fill_row list \<Rightarrow> fill_row list" where
  "insert_fills F rows t = fold (insert_fill F) rows t"

definition select_fills :: "(fill_row \<Rightarrow> bool) \<Rightarrow> fill_row list \<Rightarrow> fill_row list" where
  "select_fills condition t = sort_key (\<lambda>row. - frow_time row) (filter condition t)"

section \<open>The repository\<close>

definition fill_with_retry ::
    "fill_formats \<Rightarrow> (fill_row db, 'a, sqlx_error) io \<Rightarrow> (fill_row db, 'a, repository_error) io" where
  "fill_with_retry F f =
     retry_from (fill_map_sqlx_error (ff_sqlx F)) (repository_error_connection ''Max retries exceeded'') f
       MAX_RETRIES INITIAL_RETRY_DELAY_MS"

definition fill_repo_save :: "fill_formats \<Rightarrow> fill \<Rightarrow> (fill_row db, unit, repository_error) io" where
  "fill_repo_save F f = fill_with_retry F (run_stmt (\<lambda>t. ((), insert_fill F (fill_to_row f) t)))"

definition fill_repo_save_batch :: "fill_formats \<Rightarrow> fill list \<Rightarrow> (fill_row db, unit, repository_error) io" where
  "fill_repo_save_batch F fs =
     (if fs = [] then io_return ()
      else fill_with_retry F (run_stmt (\<lambda>t. ((), insert_fills F (map fill_to_row fs) t))))"

definition fetch_fills ::
    "dec_ops \<Rightarrow> fill_formats \<Rightarrow> (fill_row list \<Rightarrow> fill_row list) \<Rightarrow> (fill_row db, fill list, repository_error) io" where
  "fetch_fills D F query =
     io_bind (io_map_err (fill_map_sqlx_error (ff_sqlx F)) (run_query query))
       (\<lambda>rows. io_lift (map_res (row_to_fill D F) rows))"

definition fill_repo_get_by_order ::
    "dec_ops \<Rightarrow> fill_formats \<Rightarrow> order_id \<Rightarrow> (fill_row db, fill list, repository_error) io" where
  "fill_repo_get_by_order D F i = fetch_fills D F (select_fills (\<lambda>row. frow_order_id row = order_uuid i))"

definition fill_repo_get_by_symbol_range ::
    "dec_ops \<Rightarrow> fill_formats \<Rightarrow> symbol \<Rightarrow> timestamp \<Rightarrow> timestamp \<Rightarrow> (fill_row db, fill list, repository_error) io" where
  "fill_repo_get_by_symbol_range D F s start finish =
     fetch_fills D F (select_fills (\<lambda>row. frow_symbol row = symbol_str s \<and> start \<le> frow_time row \<and> frow_time row \<le> finish))"

text \<open>A count that is no \<open>i64\<close> becomes 1000, and no more than 10000 rows are asked for.\<close>

definition recent_limit :: "u64 \<Rightarrow> nat" where
  "recent_limit n = min (if unat n < 2 ^ 63 then unat n else 1000) 10000"

definition fill_repo_get_recent ::
    "dec_ops \<Rightarrow> fill_formats \<Rightarrow> u64 \<Rightarrow> (fill_row db, fill list, repository_error) io" where
  "fill_repo_get_recent D F n = fetch_fills D F (\<lambda>t. take (recent_limit n) (select_fills (\<lambda>_. True) t))"

section \<open>The table as a history of fills\<close>

definition uncommissioned :: "fill \<Rightarrow> fill" where
  "uncommissioned f = f\<lparr>fl_commission := None\<rparr>"

text \<open>A fill whose row can be read.\<close>

definition fill_storable :: "fill_formats \<Rightarrow> fill \<Rightarrow> bool" where
  "fill_storable F f =
     (symbol_new (symbol_str (fl_symbol f)) = Ok (fl_symbol f) \<and> 0 < qty_inner (fl_quantity f) \<and>
      0 < price_inner (fl_price f) \<and>
      ff_lower F (side_as_str (fl_side f)) = (case fl_side f of Buy \<Rightarrow> ''buy'' | Sell \<Rightarrow> ''sell''))"

text \<open>The table holds the rows of the fills, in order, under generated identities.\<close>

definition holds_fills :: "fill_formats \<Rightarrow> fill_row list \<Rightarrow> fill list \<Rightarrow> bool" where
  "holds_fills F t fs =
     (list_all2 (\<lambda>row f. row\<lparr>frow_id := 0\<rparr> = fill_to_row f) t fs \<and>
      map frow_id t = map (ff_generated F) [0 ..< length t])"

lemma fill_to_row_read:
  assumes "fill_storable F f" and "row\<lparr>frow_id := 0\<rparr> = fill_to_row f"
  shows "row_to_fill D F row = Ok (uncommissioned f)"
proof -
  have "row_to_fill D F row = row_to_fill D F (row\<lparr>frow_id := 0\<rparr>)" by (simp add: row_to_fill_def)
  with assms show ?thesis
    by (cases "fl_side f"; cases "fl_quantity f"; cases "fl_price f"; cases "fl_order_id f")
      (simp_all add: row_to_fill_def fill_to_row_def fill_storable_def quantity_new_def price_new_def fill_new_def
        uncommissioned_def)
qed

lemma holds_fills_insert:
  assumes "inj (ff_generated F)" and "holds_fills F t fs"
  shows "holds_fills F (insert_fill F (fill_to_row f) t) (fs @ [f])"
proof -
  let ?new = "(fill_to_row f)\<lparr>frow_id := ff_generated F (length t)\<rparr>"
  have ids: "map frow_id t = map (ff_generated F) [0 ..< length t]"
    and rows: "list_all2 (\<lambda>row f. row\<lparr>frow_id := 0\<rparr> = fill_to_row f) t fs"
    using assms(2) by (simp_all add: holds_fills_def)
  have "frow_id old \<noteq> ff_generated F (length t)" if "old \<in> set t" for old
  proof -
    from that have "frow_id old \<in> set (map frow_id t)" by simp
    then obtain k where "k < length t" "frow_id old = ff_generated F k" unfolding ids by auto
    with assms(1) show ?thesis by (auto dest: injD)
  qed
  then have "insert_fill F (fill_to_row f) t = t @ [?new]" by (auto simp: insert_fill_def)
  moreover have "?new\<lparr>frow_id := 0\<rparr> = fill_to_row f" by (simp add: fill_to_row_def)
  ultimately show ?thesis using ids rows by (simp add: holds_fills_def list_all2_appendI)
qed

lemma holds_fills_inserts:
  "inj (ff_generated F) \<Longrightarrow> holds_fills F t fs \<Longrightarrow> holds_fills F (insert_fills F (map fill_to_row gs) t) (fs @ gs)"
proof (induction gs arbitrary: t fs)
  case (Cons g gs)
  from Cons.IH [OF Cons.prems(1) holds_fills_insert [OF Cons.prems]] show ?case by (simp add: insert_fills_def)
qed (simp add: insert_fills_def)

lemma insort_key_map: "insort_key k (h x) (map h xs) = map h (insort_key (\<lambda>y. k (h y)) x xs)"
  by (induction xs) auto

lemma sort_key_map: "sort_key k (map h xs) = map h (sort_key (\<lambda>y. k (h y)) xs)"
  by (induction xs) (simp_all add: insort_key_map)

lemma row_columns:
  assumes "row\<lparr>frow_id := 0\<rparr> = fill_to_row f"
  shows "frow_time row = fl_timestamp f" and "(frow_order_id row = order_uuid i) = (fl_order_id f = i)"
  using arg_cong [OF assms, of frow_time] arg_cong [OF assms, of frow_order_id]
  by (cases i; cases "fl_order_id f"; simp add: fill_to_row_def)+

lemma save_batch_cases:
  assumes "fill_repo_save_batch F fs w = (Ok u, w')"
  shows "db_table w' = insert_fills F (map fill_to_row fs) (db_table w)"
  using assms retry_from_cases [of is_transient "fill_map_sqlx_error (ff_sqlx F)" "repository_error_connection ''Max retries exceeded''"
      "\<lambda>t. ((), insert_fills F (map fill_to_row fs) t)" MAX_RETRIES INITIAL_RETRY_DELAY_MS w "Ok u" w']
  by (auto simp: fill_repo_save_batch_def fill_with_retry_def io_return_def insert_fills_def split: if_splits)

lemma save_cases:
  assumes "fill_repo_save F f w = (Ok u, w')"
  shows "db_table w' = insert_fills F (map fill_to_row [f]) (db_table w)"
  using assms retry_from_cases [of is_transient "fill_map_sqlx_error (ff_sqlx F)" "repository_error_connection ''Max retries exceeded''"
      "\<lambda>t. ((), insert_fill F (fill_to_row f) t)" MAX_RETRIES INITIAL_RETRY_DELAY_MS w "Ok u" w']
  by (auto simp: fill_repo_save_def fill_with_retry_def insert_fills_def)

lemma fetch_fills_Ok:
  assumes "fetch_fills D F query w = (Ok found, w')"
  shows "map_res (row_to_fill D F) (query (db_table w)) = Ok found"
  using assms
  by (auto simp: fetch_fills_def io_bind_def io_map_err_def run_query_def run_stmt_def Let_def io_lift_def
      split: option.splits list.splits)

lemma read_times:
  "list_all2 (\<lambda>row f. row_to_fill D F row = Ok f) rows fs \<Longrightarrow>
     map (\<lambda>f. - fl_timestamp f) fs = map (\<lambda>row. - frow_time row) rows"
proof (induction rule: list_all2_induct)
  case (Cons row rows f fs)
  then show ?case by (auto simp: row_to_fill_def res_simps fill_new_def)
qed simp

section \<open>Properties\<close>


text \<open>  Asking for the most recent fills gives at most as many as asked for and at most 10000; a count
  beyond the 63-bit integers gives at most 1000.
\<close>

theorem recent_fills_bounded:
  assumes "fill_repo_get_recent D F n w = (Ok found, w')"
  shows "length found \<le> min (unat n) 10000 \<and> (2 ^ 63 \<le> unat n \<longrightarrow> length found \<le> 1000) \<and>
    sorted (map (\<lambda>f. - fl_timestamp f) found)"
proof -
  let ?rows = "select_fills (\<lambda>_. True) (db_table w)"
  have "list_all2 (\<lambda>row f. row_to_fill D F row = Ok f) (take (recent_limit n) ?rows) found"
    using fetch_fills_Ok [OF assms [unfolded fill_repo_get_recent_def]] by (simp add: map_res_Ok_iff)
  then have len: "length found \<le> recent_limit n"
    and times: "map (\<lambda>f. - fl_timestamp f) found = map (\<lambda>row. - frow_time row) (take (recent_limit n) ?rows)"
    by (auto dest: list_all2_lengthD simp: read_times)
  have "sorted (map (\<lambda>row. - frow_time row) (take (recent_limit n) ?rows))"
    by (simp add: select_fills_def take_map [symmetric] sorted_wrt_take)
  with len times show ?thesis by (auto simp: recent_limit_def split: if_splits)
qed
section \<open>Witnesses\<close>

definition sample_fill_formats :: fill_formats where
  "sample_fill_formats =
     \<lparr>ff_generated = (\<lambda>n. n), ff_lower = (\<lambda>s. if s = ''BUY'' then ''buy'' else ''sell''), ff_debug = (\<lambda>_. ''''),
      ff_sqlx = (\<lambda>_. '''')\<rparr>"

definition sample_fill_db :: "fill_row list \<Rightarrow> fill_row db" where
  "sample_fill_db t = \<lparr>db_table = t, db_script = [], db_slept = [], db_clock = int, db_reads = 0\<rparr>"

definition early_fill :: fill where
  "early_fill = fill_new (OrderId 7) (Symbol ''NQ'') (Quantity 40) (Price 150) Buy 1"

definition late_fill :: fill where
  "late_fill = fill_with_commission (OrderId 7) (Symbol ''NQ'') (Quantity 60) (Price 151) Buy 2
     (money_new_unchecked 1 USD)"

lemma sample_fill_symbol: "symbol_new ''NQ'' = Ok (Symbol ''NQ'')"
  by code_simp

lemma sample_fills_storable: "list_all (fill_storable sample_fill_formats) ([early_fill] @ [late_fill])"
  by (simp add: fill_storable_def early_fill_def late_fill_def fill_new_def fill_with_commission_def
      sample_fill_symbol sample_fill_formats_def)

definition both_rows :: "fill_row list" where
  "both_rows = [(fill_to_row early_fill)\<lparr>frow_id := 0\<rparr>, (fill_to_row late_fill)\<lparr>frow_id := 1\<rparr>]"

lemma sample_fills_saved:
  "fill_repo_save_batch sample_fill_formats [early_fill] (sample_fill_db []) = (Ok (), sample_fill_db (take 1 both_rows))"
  "fill_repo_save sample_fill_formats late_fill (sample_fill_db (take 1 both_rows)) = (Ok (), sample_fill_db both_rows)"
  by (simp_all add: fill_repo_save_batch_def fill_repo_save_def fill_with_retry_def MAX_RETRIES_def numeral_eq_Suc
      run_stmt_script sample_fill_db_def insert_fills_def insert_fill_def sample_fill_formats_def both_rows_def
      fill_to_row_def early_fill_def late_fill_def fill_new_def fill_with_commission_def)

lemma sample_rows_read:
  "row_to_fill exact_dec sample_fill_formats ((fill_to_row early_fill)\<lparr>frow_id := 0\<rparr>) = Ok (uncommissioned early_fill)"
  "row_to_fill exact_dec sample_fill_formats ((fill_to_row late_fill)\<lparr>frow_id := 1\<rparr>) = Ok (uncommissioned late_fill)"
  using sample_fills_storable
  by (auto intro!: fill_to_row_read simp: fill_to_row_def)


theorem recent_fills_bounded_witness:
  "\<exists>found w'. fill_repo_get_recent exact_dec sample_fill_formats 1 (sample_fill_db both_rows) = (Ok found, w') \<and>
     length found \<le> 1"
proof -
  obtain found w' where g: "fill_repo_get_recent exact_dec sample_fill_formats 1 (sample_fill_db both_rows) = (Ok found, w')"
    using sample_rows_read
    by (simp add: fill_repo_get_recent_def fetch_fills_def io_bind_def io_map_err_def run_query_def run_stmt_script
        sample_fill_db_def both_rows_def select_fills_def io_lift_def fill_to_row_def early_fill_def late_fill_def
        fill_new_def fill_with_commission_def recent_limit_def)
  from recent_fills_bounded [OF g] g show ?thesis by auto
qed

end
