(* ===== verification/Position_Store.thy ===== *)
theory Position_Store
  imports Db_Connection Use_Cases
begin

text \<open>
  The position repository of \<open>crates/infrastructure/src/database/position_repo.rs\<close> and the use case
  that closes a position on it.  \<open>total_pnl\<close> sums a column that nothing writes and is left out.
\<close>

section \<open>Rows\<close>

fun side_to_db :: "side \<Rightarrow> string" where
  "side_to_db Buy = ''Long''"
| "side_to_db Sell = ''Short''"

definition side_from_db :: "string \<Rightarrow> (side, repository_error) res" where
  "side_from_db s =
     (if s = ''Long'' then Ok Buy else if s = ''Short'' then Ok Sell
      else Err (repository_error_query (''Invalid side value: '' @ s)))"

record position_row =
  prow_id :: uuid
  prow_symbol :: string
  prow_side :: string
  prow_quantity :: f64
  prow_avg_entry_price :: f64
  prow_market_price :: "f64 option"
  prow_unrealized_pnl :: f64
  prow_realized_pnl :: f64
  prow_opened_at :: timestamp
  prow_updated_at :: timestamp
  prow_is_open :: bool
  prow_closed_at :: "timestamp option"

text \<open>
  The conversions between \<open>Decimal\<close> and floating point numbers, the arithmetic and the collation of
  the database, the text of driver errors, and the fresh identities.
\<close>

record position_formats =
  pf_to_f64 :: "decimal \<Rightarrow> f64 option"
  pf_to_dec :: "f64 \<Rightarrow> (decimal, string) res"
  pf_mul :: "f64 \<Rightarrow> f64 option \<Rightarrow> f64"
  pf_sum :: "f64 list \<Rightarrow> f64"
  pf_rank :: "string \<Rightarrow> nat"
  pf_sqlx :: "sqlx_error \<Rightarrow> string"
  pf_fresh :: "nat \<Rightarrow> uuid"

definition position_map_sqlx_error :: "(sqlx_error \<Rightarrow> string) \<Rightarrow> sqlx_error \<Rightarrow> repository_error" where
  "position_map_sqlx_error = map_sqlx_error_for ''Position''"

definition to_column :: "position_formats \<Rightarrow> decimal \<Rightarrow> f64" where
  "to_column F x = (case pf_to_f64 F x of Some y \<Rightarrow> y | None \<Rightarrow> Finite 0)"

definition from_column :: "position_formats \<Rightarrow> string \<Rightarrow> f64 \<Rightarrow> (decimal, repository_error) res" where
  "from_column F what y =
     map_err (\<lambda>e. repository_error_query (''Invalid '' @ what @ '' in database: '' @ e)) (pf_to_dec F y)"

text \<open>
  The identity and the clock reading are those of the position that is returned.  The market price
  must convert, and neither it nor the profit, the currency or the opening time is used.
\<close>

definition row_to_position ::
    "position_formats \<Rightarrow> uuid \<Rightarrow> timestamp \<Rightarrow> position_row \<Rightarrow> (position, repository_error) res" where
  "row_to_position F fresh now row =
     bind (map_err (\<lambda>e. repository_error_query
              (''Invalid symbol in database: '' @ prow_symbol row @ '' - '' @ value_error_display e))
             (symbol_new (prow_symbol row))) (\<lambda>symbol.
     bind (side_from_db (prow_side row)) (\<lambda>side.
     bind (from_column F ''quantity'' (prow_quantity row)) (\<lambda>quantity.
     bind (from_column F ''avg_entry_price'' (prow_avg_entry_price row)) (\<lambda>avg_entry_price.
     bind (case prow_market_price row of
             Some mp \<Rightarrow> from_column F ''market_price'' mp
           | None \<Rightarrow> Ok avg_entry_price) (\<lambda>current_price.
     let direction = (if side = Sell then Short else Long) in
     Ok (position_new fresh now (prow_id row) symbol direction (quantity_new_unchecked quantity)
           (price_new_unchecked avg_entry_price) USD))))))"

definition position_to_row :: "position_formats \<Rightarrow> timestamp \<Rightarrow> position \<Rightarrow> position_row" where
  "position_to_row F now p =
     \<lparr>prow_id = pos_id p, prow_symbol = symbol_str (pos_symbol p), prow_side = side_to_db (pos_side p),
      prow_quantity = to_column F (qty_inner (pos_quantity p)),
      prow_avg_entry_price = to_column F (price_inner (pos_avg_entry_price p)),
      prow_market_price = Some (to_column F (price_inner (pos_current_price p))),
      prow_unrealized_pnl = to_column F (m_amount (pos_unrealized_pnl p)),
      prow_realized_pnl = to_column F (m_amount (pos_realized_pnl p)),
      prow_opened_at = pos_opened_at p, prow_updated_at = now, prow_is_open = True, prow_closed_at = None\<rparr>"

section \<open>Statements\<close>

text \<open>
  \<open>INSERT ... ON CONFLICT (symbol) DO UPDATE\<close>: the identity and the opening time of an existing row
  stay.  A new symbol with the identity of another row violates the primary key.
\<close>

definition upsert_position_row ::
    "position_row \<Rightarrow> position_row list \<Rightarrow> sqlx_error option \<times> position_row list" where
  "upsert_position_row new t =
     (if \<exists>row \<in> set t. prow_symbol row = prow_symbol new
      then (None, map (\<lambda>row. if prow_symbol row = prow_symbol new
                             then new\<lparr>prow_id := prow_id row, prow_opened_at := prow_opened_at row\<rparr> else row) t)
      else if \<exists>row \<in> set t. prow_id row = prow_id new
      then (Some (Sqlx_Database Unique_Violation ''duplicate key value violates unique constraint''), t)
      else (None, t @ [new]))"

definition is_open_symbol :: "string \<Rightarrow> position_row \<Rightarrow> bool" where
  "is_open_symbol s row = (prow_symbol row = s \<and> prow_is_open row)"

text \<open>\<open>UPDATE ... SET is_open = FALSE ... WHERE symbol = $1 AND is_open = TRUE RETURNING id\<close>\<close>

definition close_position_rows ::
    "timestamp \<Rightarrow> string \<Rightarrow> position_row list \<Rightarrow> uuid option \<times> position_row list" where
  "close_position_rows now s t =
     (map_option prow_id (find (is_open_symbol s) t),
      map (\<lambda>row. if is_open_symbol s row
                 then row\<lparr>prow_is_open := False, prow_closed_at := Some now, prow_updated_at := now\<rparr> else row) t)"

definition delete_position_rows :: "uuid \<Rightarrow> position_row list \<Rightarrow> nat \<times> position_row list" where
  "delete_position_rows i t =
     (length (filter (\<lambda>row. prow_id row = i) t), filter (\<lambda>row. prow_id row \<noteq> i) t)"

definition select_positions ::
    "position_formats \<Rightarrow> (position_row \<Rightarrow> bool) \<Rightarrow> position_row list \<Rightarrow> position_row list" where
  "select_positions F condition t = sort_key (\<lambda>row. pf_rank F (prow_symbol row)) (filter condition t)"

section \<open>The repository\<close>

definition read_position ::
    "position_formats \<Rightarrow> position_row \<Rightarrow> (position_row db, position, repository_error) io" where
  "read_position F row w =
     io_bind utc_now (\<lambda>now. io_lift (row_to_position F (pf_fresh F (db_reads w)) now row)) w"

primrec read_positions ::
    "position_formats \<Rightarrow> position_row list \<Rightarrow> (position_row db, position list, repository_error) io" where
  "read_positions F [] = io_return []"
| "read_positions F (row # rows) =
     io_bind (read_position F row) (\<lambda>p. io_bind (read_positions F rows) (\<lambda>ps. io_return (p # ps)))"

definition run_mapped ::
    "position_formats \<Rightarrow> (position_row list \<Rightarrow> 'a \<times> position_row list) \<Rightarrow> (position_row db, 'a, repository_error) io" where
  "run_mapped F stmt = io_map_err (position_map_sqlx_error (pf_sqlx F)) (run_stmt stmt)"

definition try_upsert :: "position_formats \<Rightarrow> position \<Rightarrow> (position_row db, unit, repository_error) io" where
  "try_upsert F p =
     io_bind utc_now (\<lambda>now.
     io_bind (run_mapped F (upsert_position_row (position_to_row F now p))) (\<lambda>violation.
     case violation of
       Some e \<Rightarrow> io_lift (Err (position_map_sqlx_error (pf_sqlx F) e))
     | None \<Rightarrow> io_return ()))"

text \<open>The loop with \<open>left\<close> retries to go; only a lost connection is tried again.\<close>

primrec upsert_loop ::
    "('t db, 'a, repository_error) io \<Rightarrow> nat \<Rightarrow> int \<Rightarrow> ('t db, 'a, repository_error) io" where
  "upsert_loop f 0 delay w = f w"
| "upsert_loop f (Suc left) delay w =
     (case f w of
        (Err e, w') \<Rightarrow>
          if e = Repo_ConnectionFailed
          then upsert_loop f left (min (delay * 2) MAX_RETRY_DELAY_MS) (w'\<lparr>db_slept := db_slept w' @ [delay]\<rparr>)
          else (Err e, w')
      | (r, w') \<Rightarrow> (r, w'))"

definition upsert_with_retry :: "position_formats \<Rightarrow> position \<Rightarrow> (position_row db, unit, repository_error) io" where
  "upsert_with_retry F p = upsert_loop (try_upsert F p) MAX_RETRIES INITIAL_RETRY_DELAY_MS"

definition position_repo_save :: "position_formats \<Rightarrow> position \<Rightarrow> (position_row db, unit, repository_error) io" where
  "position_repo_save F p = upsert_with_retry F p"

definition position_repo_upsert :: "position_formats \<Rightarrow> position \<Rightarrow> (position_row db, unit, repository_error) io" where
  "position_repo_upsert F p = upsert_with_retry F p"

definition fetch_position ::
    "position_formats \<Rightarrow> (position_row \<Rightarrow> bool) \<Rightarrow> (position_row db, position option, repository_error) io" where
  "fetch_position F condition =
     io_bind (run_mapped F (\<lambda>t. (find condition t, t))) (\<lambda>found. case found of
       Some row \<Rightarrow> io_bind (read_position F row) (\<lambda>p. io_return (Some p))
     | None \<Rightarrow> io_return None)"

definition fetch_positions ::
    "position_formats \<Rightarrow> (position_row \<Rightarrow> bool) \<Rightarrow> (position_row db, position list, repository_error) io" where
  "fetch_positions F condition =
     io_bind (run_mapped F (\<lambda>t. (select_positions F condition t, t))) (read_positions F)"

definition position_repo_get_by_symbol ::
    "position_formats \<Rightarrow> symbol \<Rightarrow> (position_row db, position option, repository_error) io" where
  "position_repo_get_by_symbol F s = fetch_position F (is_open_symbol (symbol_str s))"

definition position_repo_get_all_open ::
    "position_formats \<Rightarrow> (position_row db, position list, repository_error) io" where
  "position_repo_get_all_open F = fetch_positions F prow_is_open"

definition position_repo_get_by_side ::
    "position_formats \<Rightarrow> side \<Rightarrow> (position_row db, position list, repository_error) io" where
  "position_repo_get_by_side F side =
     fetch_positions F (\<lambda>row. prow_side row = side_to_db side \<and> prow_is_open row)"

definition position_repo_close ::
    "position_formats \<Rightarrow> timestamp \<Rightarrow> symbol \<Rightarrow> (position_row db, unit, repository_error) io" where
  "position_repo_close F now s =
     io_bind (run_mapped F (close_position_rows now (symbol_str s))) (\<lambda>result. case result of
       Some _ \<Rightarrow> io_return ()
     | None \<Rightarrow> io_lift (Err (repository_error_not_found ''Position'')))"

definition position_repo_exists :: "position_formats \<Rightarrow> symbol \<Rightarrow> (position_row db, bool, repository_error) io" where
  "position_repo_exists F s = run_mapped F (\<lambda>t. (\<exists>row \<in> set t. is_open_symbol (symbol_str s) row, t))"

definition position_repo_total_exposure :: "position_formats \<Rightarrow> (position_row db, money, repository_error) io" where
  "position_repo_total_exposure F =
     io_bind (run_mapped F (\<lambda>t. (pf_sum F (map (\<lambda>row. pf_mul F (prow_quantity row) (prow_market_price row))
                                             (filter prow_is_open t)), t)))
       (\<lambda>total. io_return (money_new_unchecked (case pf_to_dec F total of Ok x \<Rightarrow> x | _ \<Rightarrow> 0) USD))"

definition position_repo_find_by_id ::
    "position_formats \<Rightarrow> uuid \<Rightarrow> (position_row db, position option, repository_error) io" where
  "position_repo_find_by_id F i = fetch_position F (\<lambda>row. prow_id row = i)"

definition position_repo_find_by_account ::
    "position_formats \<Rightarrow> uuid \<Rightarrow> (position_row db, position list, repository_error) io" where
  "position_repo_find_by_account F account_id = position_repo_get_all_open F"

definition position_repo_find_open_positions ::
    "position_formats \<Rightarrow> (position_row db, position list, repository_error) io" where
  "position_repo_find_open_positions F = position_repo_get_all_open F"

definition position_repo_find_by_account_and_symbol ::
    "position_formats \<Rightarrow> uuid \<Rightarrow> symbol \<Rightarrow> (position_row db, position option, repository_error) io" where
  "position_repo_find_by_account_and_symbol F account_id s = position_repo_get_by_symbol F s"

definition position_repo_delete :: "position_formats \<Rightarrow> uuid \<Rightarrow> (position_row db, unit, repository_error) io" where
  "position_repo_delete F i =
     io_bind (run_mapped F (delete_position_rows i)) (\<lambda>rows_affected.
     if rows_affected = 0 then io_lift (Err (repository_error_not_found ''Position'')) else io_return ())"

text \<open>What the use cases see.\<close>

definition timescale_positions :: "position_formats \<Rightarrow> (position_row db, position) entity_repository" where
  "timescale_positions F =
     \<lparr>er_find_by_id = (\<lambda>i. io_map_err Dom_Repository (position_repo_find_by_id F i)),
      er_save = (\<lambda>p. io_map_err Dom_Repository (position_repo_save F p))\<rparr>"

section \<open>The set of open positions\<close>

definition open_symbols :: "position_row db \<Rightarrow> string set" where
  "open_symbols w = {s. \<exists>row \<in> set (db_table w). is_open_symbol s row}"

text \<open>Each symbol has one row, as the unique constraint of the table demands.\<close>

definition symbols_unique :: "position_row db \<Rightarrow> bool" where
  "symbols_unique w = distinct (map prow_symbol (db_table w))"

lemma run_mapped_cases:
  assumes "run_mapped F stmt w = (r, w')"
  shows "(\<exists>x t. stmt (db_table w) = (x, t) \<and> r = Ok x \<and> db_table w' = t) \<or>
    (\<exists>e. r = Err (position_map_sqlx_error (pf_sqlx F) e) \<and> db_table w' = db_table w)"
  using assms unfolding run_mapped_def io_map_err_def
  by (auto split: prod.splits dest!: run_stmt_cases)

lemma try_upsert_cases:
  assumes "try_upsert F p w = (r, w')"
  shows "(\<exists>now. r = Ok () \<and> upsert_position_row (position_to_row F now p) (db_table w) = (None, db_table w')) \<or>
    (\<exists>e. r = Err e \<and> db_table w' = db_table w)"
proof -
  let ?now = "db_clock w (db_reads w)" and ?w = "w\<lparr>db_reads := db_reads w + 1\<rparr>"
  obtain res w1 where run: "run_mapped F (upsert_position_row (position_to_row F ?now p)) ?w = (res, w1)"
    by (cases "run_mapped F (upsert_position_row (position_to_row F ?now p)) ?w")
  have unchanged: "upsert_position_row row t = (Some e, t') \<Longrightarrow> t' = t" for row t e t'
    by (auto simp: upsert_position_row_def split: if_splits)
  from run_mapped_cases [OF run] assms run show ?thesis
    by (auto simp: try_upsert_def io_bind_def utc_now_def io_lift_def io_return_def dest: unchanged split: option.splits)
qed

lemma upsert_loop_cases:
  assumes "upsert_loop (try_upsert F p) left delay w = (r, w')"
  shows "(\<exists>now. r = Ok () \<and> upsert_position_row (position_to_row F now p) (db_table w) = (None, db_table w')) \<or>
    (\<exists>e. r = Err e \<and> db_table w' = db_table w)"
  using assms
proof (induction left arbitrary: delay w)
  case (Suc left)
  obtain res w1 where run: "try_upsert F p w = (res, w1)" by (cases "try_upsert F p w")
  from try_upsert_cases [OF run] show ?case
  proof (elim disjE exE conjE)
    fix e assume e: "res = Err e" "db_table w1 = db_table w"
    show ?case
    proof (cases "e = Repo_ConnectionFailed")
      case True
      with Suc.prems run e have "upsert_loop (try_upsert F p) left (min (delay * 2) MAX_RETRY_DELAY_MS)
          (w1\<lparr>db_slept := db_slept w1 @ [delay]\<rparr>) = (r, w')" by simp
      from Suc.IH [OF this] e(2) show ?thesis by simp
    qed (use Suc.prems run e in auto)
  qed (use Suc.prems run in auto)
qed (use try_upsert_cases in auto)

lemmas upsert_cases =
  upsert_loop_cases [where left = MAX_RETRIES and delay = INITIAL_RETRY_DELAY_MS, folded upsert_with_retry_def]
definition opened :: "position_row list \<Rightarrow> string set" where
  "opened t = {s. \<exists>row \<in> set t. is_open_symbol s row}"

lemma open_symbols_opened: "open_symbols w = opened (db_table w)"
  by (simp add: open_symbols_def opened_def)

lemma opened_map: "s \<in> opened (map f t) \<longleftrightarrow> (\<exists>row \<in> set t. is_open_symbol s (f row))"
  by (simp add: opened_def)

lemma map_symbol_upsert:
  "map prow_symbol (map (\<lambda>row. if prow_symbol row = prow_symbol new
      then new\<lparr>prow_id := prow_id row, prow_opened_at := prow_opened_at row\<rparr> else row) t) = map prow_symbol t"
  by (induction t) auto

lemma upsert_distinct:
  assumes "upsert_position_row new t = (None, t')" and "distinct (map prow_symbol t)"
  shows "distinct (map prow_symbol t')"
proof (cases "\<exists>row \<in> set t. prow_symbol row = prow_symbol new")
  case True
  then show ?thesis using assms map_symbol_upsert [of new t] by (auto simp: upsert_position_row_def)
next
  case False
  then have "t' = t @ [new]" using assms(1) by (auto simp: upsert_position_row_def split: if_splits)
  with False assms(2) show ?thesis by auto
qed

lemma upsert_opened:
  assumes "upsert_position_row new t = (None, t')" and "prow_is_open new"
  shows "opened t' = insert (prow_symbol new) (opened t)"
proof (cases "\<exists>row \<in> set t. prow_symbol row = prow_symbol new")
  case True
  then have "t' = map (\<lambda>row. if prow_symbol row = prow_symbol new
      then new\<lparr>prow_id := prow_id row, prow_opened_at := prow_opened_at row\<rparr> else row) t"
    using assms(1) by (auto simp: upsert_position_row_def)
  then have "s \<in> opened t' \<longleftrightarrow> (\<exists>row \<in> set t. is_open_symbol s (if prow_symbol row = prow_symbol new
      then new\<lparr>prow_id := prow_id row, prow_opened_at := prow_opened_at row\<rparr> else row))" for s
    by (simp only: opened_map)
  moreover have "is_open_symbol s (if prow_symbol row = prow_symbol new
      then new\<lparr>prow_id := prow_id row, prow_opened_at := prow_opened_at row\<rparr> else row) \<longleftrightarrow>
      (if prow_symbol row = prow_symbol new then s = prow_symbol new else is_open_symbol s row)" for s row
    using assms(2) by (auto simp: is_open_symbol_def)
  ultimately have "s \<in> opened t' \<longleftrightarrow> (\<exists>row \<in> set t. if prow_symbol row = prow_symbol new
      then s = prow_symbol new else is_open_symbol s row)" for s
    by simp
  moreover have "s \<in> opened t \<longleftrightarrow> (\<exists>row \<in> set t. is_open_symbol s row)" for s
    by (simp add: opened_def)
  ultimately show ?thesis using True by (auto simp: set_eq_iff is_open_symbol_def split: if_splits) 
next
  case False
  then have "t' = t @ [new]" using assms(1) by (auto simp: upsert_position_row_def split: if_splits)
  with assms(2) show ?thesis by (auto simp: opened_def is_open_symbol_def)
qed

lemma position_to_row_columns [simp]:
  "prow_symbol (position_to_row F now p) = symbol_str (pos_symbol p)" "prow_is_open (position_to_row F now p)"
  "prow_quantity (position_to_row F now p) = to_column F (qty_inner (pos_quantity p))"
  by (simp_all add: position_to_row_def)

lemma save_opens:
  assumes "position_repo_save F p w = (r, w')" and "symbols_unique w"
  shows "symbols_unique w' \<and>
    open_symbols w' = (if is_ok r then insert (symbol_str (pos_symbol p)) (open_symbols w) else open_symbols w)"
  using upsert_cases [OF assms(1) [unfolded position_repo_save_def]] assms(2)
  by (auto simp: open_symbols_opened symbols_unique_def upsert_opened dest: upsert_distinct)

lemma closed_rows:
  "map prow_symbol (snd (close_position_rows now s t)) = map prow_symbol t"
  "opened (snd (close_position_rows now s t)) = opened t - {s}"
  "fst (close_position_rows now s t) \<noteq> None \<longleftrightarrow> s \<in> opened t"
proof -
  show "map prow_symbol (snd (close_position_rows now s t)) = map prow_symbol t"
    by (simp add: close_position_rows_def)
  have "s' \<in> opened (snd (close_position_rows now s t)) \<longleftrightarrow> (\<exists>row \<in> set t. is_open_symbol s' row \<and> s' \<noteq> s)" for s'
    unfolding close_position_rows_def snd_conv opened_map by (intro bex_cong refl) (auto simp: is_open_symbol_def)
  then show "opened (snd (close_position_rows now s t)) = opened t - {s}"
    by (auto simp: opened_def)
  show "fst (close_position_rows now s t) \<noteq> None \<longleftrightarrow> s \<in> opened t"
    by (auto simp: close_position_rows_def opened_def find_None_iff)
qed

lemma close_closes:
  assumes "position_repo_close F now s w = (r, w')" and "symbols_unique w"
  shows "symbols_unique w' \<and>
    open_symbols w' = (if is_ok r then open_symbols w - {symbol_str s} else open_symbols w) \<and>
    (is_ok r \<longrightarrow> symbol_str s \<in> open_symbols w)"
proof -
  obtain res w1 where run: "run_mapped F (close_position_rows now (symbol_str s)) w = (res, w1)"
    by (cases "run_mapped F (close_position_rows now (symbol_str s)) w")
  from run_mapped_cases [OF run] show ?thesis
  proof (elim disjE exE conjE)
    fix x t assume c: "close_position_rows now (symbol_str s) (db_table w) = (x, t)" "res = Ok x" "db_table w1 = t"
    note rows = closed_rows [of now "symbol_str s" "db_table w", unfolded c(1) fst_conv snd_conv]
    have "w' = w1" and ok: "is_ok r \<longleftrightarrow> x \<noteq> None"
      using assms(1) run c(2) by (cases x; simp add: position_repo_close_def io_bind_def io_return_def io_lift_def; auto)+
    then have t: "db_table w' = t" using c(3) by simp
    then have "symbols_unique w'" using assms(2) rows(1) by (simp add: symbols_unique_def)
    moreover have "open_symbols w' = open_symbols w - {symbol_str s}" using t rows(2) by (simp add: open_symbols_opened)
    ultimately show ?thesis using ok rows(3) by (auto simp: open_symbols_opened)
  qed (use assms run in \<open>auto simp: position_repo_close_def io_bind_def open_symbols_opened symbols_unique_def\<close>)
qed

lemma exists_tests:
  assumes "position_repo_exists F s w = (Ok b, w')"
  shows "b = (symbol_str s \<in> open_symbols w) \<and> db_table w' = db_table w"
  using run_mapped_cases [OF assms [unfolded position_repo_exists_def]]
  by (auto simp: open_symbols_opened opened_def)

lemma read_position_table: "read_position F row w = (r, w') \<Longrightarrow> db_table w' = db_table w"
  by (auto simp: read_position_def io_bind_def utc_now_def io_lift_def)

lemma fetch_position_Ok:
  assumes "fetch_position F condition w = (Ok found, w')"
  shows "db_table w' = db_table w \<and>
    (case find condition (db_table w) of
       None \<Rightarrow> found = None
     | Some row \<Rightarrow> \<exists>fresh now p. found = Some p \<and> row_to_position F fresh now row = Ok p)"
proof -
  obtain res w1 where run: "run_mapped F (\<lambda>t. (find condition t, t)) w = (res, w1)"
    by (cases "run_mapped F (\<lambda>t. (find condition t, t)) w")
  then have res: "res = Ok (find condition (db_table w))" and t: "db_table w1 = db_table w"
    using run_mapped_cases [OF run] assms by (auto simp: fetch_position_def io_bind_def)
  show ?thesis
  proof (cases "find condition (db_table w)")
    case None
    then show ?thesis using assms run res t by (auto simp: fetch_position_def io_bind_def io_return_def)
  next
    case (Some row)
    then obtain p w2 where rd: "read_position F row w1 = (Ok p, w2)" and "found = Some p" "w' = w2"
      using assms run res by (auto simp: fetch_position_def io_bind_def io_return_def split: prod.splits res.splits)
    moreover have "\<exists>fresh now. row_to_position F fresh now row = Ok p"
      using rd by (auto simp: read_position_def io_bind_def utc_now_def io_lift_def)
    ultimately show ?thesis using Some t read_position_table [OF rd] by auto
  qed
qed

lemma get_by_symbol_finds:
  assumes "position_repo_get_by_symbol F s w = (Ok found, w')"
  shows "found \<noteq> None \<longleftrightarrow> symbol_str s \<in> open_symbols w"
  using fetch_position_Ok [OF assms [unfolded position_repo_get_by_symbol_def]]
  by (auto simp: open_symbols_opened opened_def find_None_iff find_Some_iff split: option.splits)

section \<open>Properties\<close>


text \<open>An amount that its column holds exactly.\<close>

definition column_keeps :: "position_formats \<Rightarrow> decimal \<Rightarrow> bool" where
  "column_keeps F x = (pf_to_dec F (to_column F x) = Ok x)"

lemma upserted_row:
  assumes "upsert_position_row new t = (None, t')" and "row \<in> set t'" and "prow_symbol row = prow_symbol new"
  shows "\<exists>i opened_at. row = new\<lparr>prow_id := i, prow_opened_at := opened_at\<rparr>"
proof -
  have "row = new \<or> (\<exists>i opened_at. row = new\<lparr>prow_id := i, prow_opened_at := opened_at\<rparr>)"
    using assms by (fastforce simp: upsert_position_row_def split: if_splits)
  moreover have "new = new\<lparr>prow_id := prow_id new, prow_opened_at := prow_opened_at new\<rparr>" by simp
  ultimately show ?thesis by metis
qed

text \<open>  A position that is saved and looked up comes back with its symbol, side, quantity and entry price.
  Its profits, its market price and its account do not: they are those of a position just opened.
\<close>

theorem stored_position_comes_back_new:
  assumes "symbol_new (symbol_str (pos_symbol p)) = Ok (pos_symbol p)"
    and "column_keeps F (qty_inner (pos_quantity p))" and "column_keeps F (price_inner (pos_avg_entry_price p))"
    and "column_keeps F (price_inner (pos_current_price p))"
    and "position_repo_save F p w = (Ok (), w1)"
    and "position_repo_get_by_symbol F (pos_symbol p) w1 = (Ok found, w2)"
  shows "\<exists>fresh now i. found = Some (position_new fresh now i (pos_symbol p) (position_direction_of p)
    (pos_quantity p) (pos_avg_entry_price p) USD)"
proof -
  let ?s = "symbol_str (pos_symbol p)"
  note fetched = fetch_position_Ok [OF assms(6) [unfolded position_repo_get_by_symbol_def]]
  obtain now1 where up: "upsert_position_row (position_to_row F now1 p) (db_table w) = (None, db_table w1)"
    using upsert_cases [OF assms(5) [unfolded position_repo_save_def]] by auto
  have "?s \<in> opened (db_table w1)" using upsert_opened [OF up] by simp
  then obtain row where find: "find (is_open_symbol ?s) (db_table w1) = Some row"
    by (cases "find (is_open_symbol ?s) (db_table w1)") (auto simp: opened_def find_None_iff)
  then have row: "row \<in> set (db_table w1)" "prow_symbol row = ?s"
    by (auto simp: find_Some_iff is_open_symbol_def)
  then obtain i opened_at where "row = (position_to_row F now1 p)\<lparr>prow_id := i, prow_opened_at := opened_at\<rparr>"
    using upserted_row [OF up] by fastforce
  then have "row_to_position F fresh now row = Ok (position_new fresh now i (pos_symbol p) (position_direction_of p)
      (pos_quantity p) (pos_avg_entry_price p) USD)" for fresh now
    using assms(1-4)
    by (cases "pos_side p"; cases "pos_quantity p"; cases "pos_avg_entry_price p")
      (simp_all add: row_to_position_def position_to_row_def side_from_db_def from_column_def column_keeps_def
        quantity_new_unchecked_def price_new_unchecked_def position_direction_of_def)
  with fetched find show ?thesis by auto
qed

text \<open>C36:
  Closing a position with the use case does not close it: however much of it is closed, the position
  is open in the database afterwards, with the quantity it had.
\<close>

theorem closed_position_stays_open:
  assumes "close_position_execute D T (timescale_positions F) DP NP fresh1 fresh2 now1 now2 now3 i close_qty w =
    (Ok dto, w')"
  shows "\<exists>row fresh now p. row \<in> set (db_table (fst w)) \<and> prow_id row = i \<and>
    row_to_position F fresh now row = Ok p \<and> pd_quantity dto = qty_inner (pos_quantity p) \<and>
    symbol_str (pos_symbol p) \<in> open_symbols (fst w') \<and>
    (\<forall>row' \<in> set (db_table (fst w')). prow_symbol row' = symbol_str (pos_symbol p) \<longrightarrow>
       prow_is_open row' \<and> prow_quantity row' = to_column F (qty_inner (pos_quantity p)))"
proof -
  from assms obtain p d1 q x p' cev updated p2 d3 where
      find: "er_find_by_id (timescale_positions F) i (fst w) = (Ok (Some p), d1)"
    and close: "close_position D fresh1 fresh2 now1 now2 now3 p q x = Ok (p', cev, updated)"
    and save: "er_save (timescale_positions F) p' p2 = (Ok (), d3)"
    and w': "fst w' = d3" and dto: "dto = position_to_dto p'"
    by (fastforce simp: close_position_execute_def io_bind_Ok call_Ok save_and_notify_def io_return_Ok Let_def
        io_lift_def split: if_splits prod.splits)
  obtain u r n where "add_realized_pnl D now1 p (money_new_unchecked r (m_currency (pos_realized_pnl p))) =
      (Ok p' :: (position, domain_error) res)"
    using close by (rule close_position_Ok)
  note same = add_realized_pnl_frame [OF this]
  have "position_repo_find_by_id F i (fst w) = (Ok (Some p), d1)"
    using find by (auto simp: timescale_positions_def io_map_err_def res_simps split: prod.splits)
  then obtain row fresh now where row: "find (\<lambda>row. prow_id row = i) (db_table (fst w)) = Some row"
    and rd: "row_to_position F fresh now row = Ok p"
    using fetch_position_Ok [of F "\<lambda>row. prow_id row = i" "fst w" "Some p" d1] by (auto simp: position_repo_find_by_id_def split: option.splits)
  have saved: "position_repo_save F p' p2 = (Ok (), d3)"
    using save by (auto simp: timescale_positions_def io_map_err_def res_simps split: prod.splits)
  obtain now4 where up: "upsert_position_row (position_to_row F now4 p') (db_table p2) = (None, db_table d3)"
    using upsert_cases [OF saved [unfolded position_repo_save_def]] by auto
  have "symbol_str (pos_symbol p) \<in> open_symbols d3"
    using upsert_opened [OF up] same(5) by (simp add: open_symbols_opened)
  moreover have "prow_is_open row' \<and> prow_quantity row' = to_column F (qty_inner (pos_quantity p))"
    if "row' \<in> set (db_table d3)" and "prow_symbol row' = symbol_str (pos_symbol p)" for row'
    using upserted_row [OF up that(1)] that(2) same(1,5) by auto
  moreover have "row \<in> set (db_table (fst w))" "prow_id row = i" using row by (auto simp: find_Some_iff)
  moreover have "pd_quantity dto = qty_inner (pos_quantity p)" using dto same(1) by (simp add: position_to_dto_def)
  ultimately show ?thesis using rd w' by metis
qed
section \<open>Witnesses\<close>

definition sample_position_formats :: position_formats where
  "sample_position_formats =
     \<lparr>pf_to_f64 = (\<lambda>x. Some (Finite x)), pf_to_dec = (\<lambda>y. case y of Finite x \<Rightarrow> Ok x | _ \<Rightarrow> Err ''not finite''),
      pf_mul = (\<lambda>x y. x), pf_sum = (\<lambda>xs. Finite 0), pf_rank = length, pf_sqlx = (\<lambda>_. ''''),
      pf_fresh = (\<lambda>n. 50 + n)\<rparr>"

definition sample_position_db :: "position_row list \<Rightarrow> position_row db" where
  "sample_position_db t = \<lparr>db_table = t, db_script = [], db_slept = [], db_clock = int, db_reads = 0\<rparr>"

definition saved_position_row :: position_row where
  "saved_position_row = position_to_row sample_position_formats 0 (sample_position 10 100)"

lemma sample_position_save:
  "position_repo_save sample_position_formats (sample_position 10 100) (sample_position_db []) =
     (Ok (), (sample_position_db [saved_position_row])\<lparr>db_reads := 1\<rparr>)"
  by (simp add: position_repo_save_def upsert_with_retry_def MAX_RETRIES_def numeral_eq_Suc try_upsert_def io_bind_def
      utc_now_def run_mapped_def io_map_err_def run_stmt_script sample_position_db_def upsert_position_row_def
      io_return_def saved_position_row_def)

lemma sample_position_symbol: "symbol_new ''AAPL'' = Ok (Symbol ''AAPL'')"
  by code_simp

lemma sample_columns: "column_keeps sample_position_formats x"
  by (simp add: column_keeps_def to_column_def sample_position_formats_def)


theorem stored_position_comes_back_new_witness:
  "\<exists>found w2. position_repo_get_by_symbol sample_position_formats (Symbol ''AAPL'')
       ((sample_position_db [saved_position_row])\<lparr>db_reads := 1\<rparr>) = (Ok (Some found), w2) \<and>
     pos_quantity found = Quantity 10 \<and> m_amount (pos_realized_pnl found) = 0"
proof -
  let ?w = "(sample_position_db [saved_position_row])\<lparr>db_reads := 1\<rparr>"
  have s: "pos_symbol (sample_position 10 100) = Symbol ''AAPL''" by (simp add: sample_position_def)
  then have sym: "symbol_new (symbol_str (pos_symbol (sample_position 10 100))) = Ok (pos_symbol (sample_position 10 100))"
    by (simp add: sample_position_symbol)
  obtain found w2 where g: "position_repo_get_by_symbol sample_position_formats (pos_symbol (sample_position 10 100)) ?w = (Ok found, w2)"
    by (simp add: s position_repo_get_by_symbol_def fetch_position_def io_bind_def run_mapped_def io_map_err_def
        run_stmt_script sample_position_db_def saved_position_row_def position_to_row_def is_open_symbol_def
        read_position_def utc_now_def io_lift_def io_return_def row_to_position_def sample_position_symbol
        side_from_db_def sample_position_formats_def from_column_def to_column_def sample_position_def)
  from stored_position_comes_back_new [OF sym sample_columns sample_columns sample_columns sample_position_save g] g s
  show ?thesis by (auto simp: sample_position_def money_new_unchecked_def)
qed

definition sample_prices :: "unit market_data_port" where
  "sample_prices =
     \<lparr>dp_get_current_price = (\<lambda>_. io_return 105), dp_is_market_open = (\<lambda>_. io_return True),
      dp_get_historical_prices = (\<lambda>_ _ _. io_return [])\<rparr>"

definition sample_position_texts :: uc_texts where
  "sample_position_texts = \<lparr>ut_time = (\<lambda>_. ''''), ut_uuid = (\<lambda>_. ''''), ut_reason = (\<lambda>_. '''')\<rparr>"

theorem closed_position_stays_open_witness:
  "\<exists>i dto w'. close_position_execute exact_dec sample_position_texts (timescale_positions sample_position_formats)
       sample_prices mock_notification_port 1 2 3 3 3 i None (sample_position_db [saved_position_row], ()) =
       (Ok dto, w') \<and> pd_quantity dto = 10 \<and> open_symbols (fst w') \<noteq> {}"
proof -
  let ?i = "pos_id (sample_position 10 100)"
  obtain dto w' where run: "close_position_execute exact_dec sample_position_texts
      (timescale_positions sample_position_formats) sample_prices mock_notification_port 1 2 3 3 3 ?i None
      (sample_position_db [saved_position_row], ()) = (Ok dto, w')" and q: "pd_quantity dto = 10"
    by (simp add: close_position_execute_def repo_call_def on_store_def io_map_err_def io_bind_def timescale_positions_def
        position_repo_find_by_id_def fetch_position_def run_mapped_def run_stmt_script sample_position_db_def
        saved_position_row_def position_to_row_def read_position_def utc_now_def io_lift_def io_return_def
        row_to_position_def sample_position_symbol side_from_db_def sample_position_formats_def from_column_def
        to_column_def sample_position_def bind_pure port_call_def on_ports_def sample_prices_def price_new_def
        close_position_def position_direction_of_def add_realized_pnl_def money_new_unchecked_def
        price_new_unchecked_def quantity_new_unchecked_def save_and_notify_def mock_notification_port_def
        position_repo_save_def upsert_with_retry_def MAX_RETRIES_def numeral_eq_Suc try_upsert_def
        upsert_position_row_def found_or_def validated_def domain_call_def position_to_dto_def Let_def position_new_def)
  from closed_position_stays_open [OF run] have "open_symbols (fst w') \<noteq> {}" by blast
  with run q show ?thesis by blast
qed

end
