(* ===== verification/Account_Store.thy ===== *)
theory Account_Store
  imports Use_Cases
begin

text \<open>
  The account repository of \<open>crates/infrastructure/src/database/repositories.rs\<close>, the only one there
  is, and what the account use cases do on it.  It keeps nothing, so its world is \<open>unit\<close>.
\<close>

definition sqlx_account_find_by_id :: "uuid \<Rightarrow> (unit, account option, domain_error) io" where
  "sqlx_account_find_by_id i = io_return None"

definition sqlx_account_find_all :: "(unit, account list, domain_error) io" where
  "sqlx_account_find_all = io_return []"

definition sqlx_account_save :: "account \<Rightarrow> (unit, unit, domain_error) io" where
  "sqlx_account_save a = io_return ()"

definition sqlx_account_delete :: "uuid \<Rightarrow> (unit, unit, domain_error) io" where
  "sqlx_account_delete i = io_return ()"

definition sqlx_accounts :: "(unit, account) entity_repository" where
  "sqlx_accounts = \<lparr>er_find_by_id = sqlx_account_find_by_id, er_save = sqlx_account_save\<rparr>"

lemma sqlx_accounts_simps [simp]:
  "er_find_by_id sqlx_accounts i = io_return None" "er_save sqlx_accounts a = io_return ()"
  by (simp_all add: sqlx_accounts_def sqlx_account_find_by_id_def sqlx_account_save_def)

lemma bind_repo_return [simp]: "io_bind (repo_call T (io_return x)) k w = k x w"
  by (simp add: io_bind_def repo_call_def on_store_def io_map_err_def io_return_def)

lemma created_account:
  assumes "create_account_execute up T repo NP fresh now request w = (Ok dto, w')"
  shows "ad_id dto = fresh \<and> ad_balance dto = cad_initial_balance request \<and> cad_name request \<noteq> []"
proof -
  obtain currency a where a: "create_account fresh now (cad_name request) currency (cad_initial_balance request) = Ok a"
    and dto: "dto = account_to_dto a"
    using assms by (auto simp: create_account_execute_def io_bind_Ok call_Ok io_return_Ok io_lift_def)
  then show ?thesis
    by (auto simp: create_account_def account_new_def account_to_dto_def money_new_unchecked_def split: if_splits)
qed

text \<open>
  Accounts are created and gone.  A valid account is created and its owner notified, whatever else
  happened before; no account is ever found again, so no balance is ever updated.
\<close>

theorem accounts_are_never_kept:
  "update_balance_execute D T sqlx_accounts NP now2 i balance w =
     (Err (App_NotFound (''Account '' @ ut_uuid T i)), w) \<and>
   get_account_by_id T sqlx_accounts i w = (Err (App_NotFound (''Account '' @ ut_uuid T i)), w) \<and>
   get_all_accounts T sqlx_account_find_all w = (Ok [], w) \<and>
   (create_account_execute up T sqlx_accounts NP fresh now request w = (Ok dto, w') \<longrightarrow>
      ad_id dto = fresh \<and> ad_balance dto = cad_initial_balance request \<and> cad_name request \<noteq> [])"
  using created_account [of up T sqlx_accounts NP fresh now request w dto w']
  by (simp add: update_balance_execute_def get_account_by_id_def get_all_accounts_def sqlx_account_find_all_def
      bind_pure io_return_def)

end
