(* ===== verification/Configuration.thy ===== *)
theory Configuration
  imports Redis_Cache
begin

text \<open>
  The configuration of the program, \<open>crates/infrastructure/src/config.rs\<close>: its sections with the
  checks that their attributes derive, loading with its sources and its cache, and the masked form that
  is shown.  Reading a source and turning the merged keys into a configuration belong to the crates
  \<open>config\<close> and \<open>serde\<close> and are arguments; a later source overrides an earlier one.
\<close>

section \<open>Checks\<close>

text \<open>
  A failed check names its field and carries its message, if it has one; a derived validation makes the
  checks of the fields that have attributes.
\<close>

type_synonym validation_errors = "(string \<times> string option) list"

definition check_field :: "string \<Rightarrow> string option \<Rightarrow> bool \<Rightarrow> validation_errors" where
  "check_field field message passed = (if passed then [] else [(field, message)])"

definition derived_validate :: "validation_errors list \<Rightarrow> (unit, validation_errors) res" where
  "derived_validate checks = (if concat checks = [] then Ok () else Err (concat checks))"

definition in_bounds :: "nat \<Rightarrow> nat \<Rightarrow> 'a::len word \<Rightarrow> bool" where
  "in_bounds lo hi x = (lo \<le> unat x \<and> unat x \<le> hi)"

definition validate_port :: "16 word \<Rightarrow> (unit, string) res" where
  "validate_port port = (if port = 0 then Err ''port_zero'' else Ok ())"

definition validate_non_empty :: "(string \<Rightarrow> string) \<Rightarrow> string \<Rightarrow> (unit, string) res" where
  "validate_non_empty trim s = (if trim s = [] then Err ''empty_string'' else Ok ())"

definition validate_redis_db :: "i64 \<Rightarrow> (unit, string) res" where
  "validate_redis_db db = (if sint db < 0 \<or> 15 < sint db then Err ''invalid_redis_db'' else Ok ())"

text \<open>\<open>low\<close> and \<open>up\<close> are \<open>str::to_lowercase\<close> and \<open>str::to_uppercase\<close>.\<close>

definition validate_log_level :: "(string \<Rightarrow> string) \<Rightarrow> string \<Rightarrow> (unit, string) res" where
  "validate_log_level low level =
     (if low level \<notin> {''trace'', ''debug'', ''info'', ''warn'', ''error''} then Err ''invalid_log_level'' else Ok ())"

definition validate_log_format :: "(string \<Rightarrow> string) \<Rightarrow> string \<Rightarrow> (unit, string) res" where
  "validate_log_format low format =
     (if low format \<notin> {''json'', ''pretty'', ''compact''} then Err ''invalid_log_format'' else Ok ())"

definition validate_exchange :: "(string \<Rightarrow> string) \<Rightarrow> string \<Rightarrow> (unit, string) res" where
  "validate_exchange up exchange =
     (if up exchange \<notin> {''IB'', ''SIMULATED'', ''BINANCE'', ''COINBASE''} then Err ''invalid_exchange'' else Ok ())"

definition validate_environment :: "(string \<Rightarrow> string) \<Rightarrow> string \<Rightarrow> (unit, string) res" where
  "validate_environment low env =
     (if low env \<notin> {''development'', ''production'', ''test''} then Err ''invalid_environment'' else Ok ())"

section \<open>Sections\<close>

record app_metadata_config =
  am_name :: string
  am_version :: string
  am_environment :: string

definition app_metadata_validate :: "(string \<Rightarrow> string) \<Rightarrow> app_metadata_config \<Rightarrow> (unit, validation_errors) res" where
  "app_metadata_validate low c = derived_validate
     [check_field ''name'' (Some ''app.name cannot be empty'') (am_name c \<noteq> []),
      check_field ''version'' (Some ''app.version cannot be empty'') (am_version c \<noteq> []),
      check_field ''environment'' None (is_ok (validate_environment low (am_environment c)))]"

record database_config =
  dc_host :: string
  dc_port :: "16 word"
  dc_name :: string
  dc_user :: string
  dc_password :: string
  dc_max_connections :: u32
  dc_timeout_ms :: u64

definition database_config_validate :: "database_config \<Rightarrow> (unit, validation_errors) res" where
  "database_config_validate c = derived_validate
     [check_field ''host'' (Some ''database.host cannot be empty'') (dc_host c \<noteq> []),
      check_field ''port'' (Some ''database.port must be between 1 and 65535'') (in_bounds 1 65535 (dc_port c)),
      check_field ''name'' (Some ''database.name cannot be empty'') (dc_name c \<noteq> []),
      check_field ''user'' (Some ''database.user cannot be empty'') (dc_user c \<noteq> []),
      check_field ''password'' (Some ''database.password cannot be empty'') (dc_password c \<noteq> []),
      check_field ''max_connections'' (Some ''database.max_connections must be between 1 and 1000'')
        (in_bounds 1 1000 (dc_max_connections c)),
      check_field ''timeout_ms'' (Some ''database.timeout_ms must be between 100 and 60000'')
        (in_bounds 100 60000 (dc_timeout_ms c))]"

definition database_url_with :: "string \<Rightarrow> database_config \<Rightarrow> string" where
  "database_url_with password c =
     ''postgres://'' @ dc_user c @ '':'' @ password @ ''@'' @ dc_host c @ '':'' @ show_nat (unat (dc_port c)) @
     ''/'' @ dc_name c"

definition database_url :: "database_config \<Rightarrow> string" where
  "database_url c = database_url_with (dc_password c) c"

definition database_masked_url :: "database_config \<Rightarrow> string" where
  "database_masked_url c = database_url_with ''***'' c"

record redis_config =
  rd_host :: string
  rd_port :: "16 word"
  rd_password :: "string option"
  rd_db :: i64
  rd_timeout_ms :: u64

definition redis_config_validate :: "redis_config \<Rightarrow> (unit, validation_errors) res" where
  "redis_config_validate c = derived_validate
     [check_field ''host'' (Some ''redis.host cannot be empty'') (rd_host c \<noteq> []),
      check_field ''port'' (Some ''redis.port must be between 1 and 65535'') (in_bounds 1 65535 (rd_port c)),
      check_field ''db'' (Some ''redis.db must be between 0 and 15'') (0 \<le> sint (rd_db c) \<and> sint (rd_db c) \<le> 15),
      check_field ''timeout_ms'' (Some ''redis.timeout_ms must be between 100 and 60000'')
        (in_bounds 100 60000 (rd_timeout_ms c))]"

definition redis_url_with :: "string option \<Rightarrow> redis_config \<Rightarrow> string" where
  "redis_url_with password c =
     ''redis://'' @ (case password of Some pwd \<Rightarrow> '':'' @ pwd @ ''@'' | None \<Rightarrow> []) @
     rd_host c @ '':'' @ show_nat (unat (rd_port c)) @ ''/'' @ show_int (sint (rd_db c))"

definition redis_url :: "redis_config \<Rightarrow> string" where
  "redis_url c = redis_url_with (rd_password c) c"

definition redis_masked_url :: "redis_config \<Rightarrow> string" where
  "redis_masked_url c = redis_url_with (map_option (\<lambda>_. ''***'') (rd_password c)) c"

record logging_config =
  lg_level :: string
  lg_format :: string
  lg_output :: string

definition logging_config_validate :: "(string \<Rightarrow> string) \<Rightarrow> logging_config \<Rightarrow> (unit, validation_errors) res" where
  "logging_config_validate low c = derived_validate
     [check_field ''level'' None (is_ok (validate_log_level low (lg_level c))),
      check_field ''format'' None (is_ok (validate_log_format low (lg_format c))),
      check_field ''output'' (Some ''logging.output cannot be empty'') (lg_output c \<noteq> [])]"

record trading_config =
  tc_risk_enabled :: bool
  tc_max_position_size :: u32
  tc_default_exchange :: string
  tc_paper_trading :: bool

definition trading_config_validate :: "(string \<Rightarrow> string) \<Rightarrow> trading_config \<Rightarrow> (unit, validation_errors) res" where
  "trading_config_validate up c = derived_validate
     [check_field ''max_position_size'' (Some ''trading.max_position_size must be between 1 and 10000'')
        (in_bounds 1 10000 (tc_max_position_size c)),
      check_field ''default_exchange'' None (is_ok (validate_exchange up (tc_default_exchange c)))]"

record server_config =
  sv_host :: string
  sv_port :: "16 word"
  sv_request_timeout_ms :: u64

definition server_config_validate :: "server_config \<Rightarrow> (unit, validation_errors) res" where
  "server_config_validate c = derived_validate
     [check_field ''host'' (Some ''server.host cannot be empty'') (sv_host c \<noteq> []),
      check_field ''port'' (Some ''server.port must be between 1 and 65535'') (in_bounds 1 65535 (sv_port c)),
      check_field ''request_timeout_ms'' (Some ''server.request_timeout_ms must be between 1000 and 300000'')
        (in_bounds 1000 300000 (sv_request_timeout_ms c))]"

record app_config =
  cf_app :: app_metadata_config
  cf_database :: database_config
  cf_redis :: redis_config
  cf_logging :: logging_config
  cf_trading :: trading_config
  cf_server :: server_config

text \<open>
  No field of \<open>AppConfig\<close> has a \<open>validate\<close> attribute, so its derived validation makes no check; those
  of the sections are derived for the sections alone.
\<close>

definition app_config_validate :: "app_config \<Rightarrow> (unit, validation_errors) res" where
  "app_config_validate c = derived_validate []"

definition app_config_default :: app_config where
  "app_config_default =
     \<lparr>cf_app = \<lparr>am_name = ''trading-core'', am_version = ''0.1.0'', am_environment = ''development''\<rparr>,
      cf_database = \<lparr>dc_host = ''localhost'', dc_port = 5432, dc_name = ''trading_db'', dc_user = ''trader'',
        dc_password = ''trader'', dc_max_connections = 10, dc_timeout_ms = 5000\<rparr>,
      cf_redis = \<lparr>rd_host = ''localhost'', rd_port = 6379, rd_password = None, rd_db = 0, rd_timeout_ms = 2000\<rparr>,
      cf_logging = \<lparr>lg_level = ''info'', lg_format = ''json'', lg_output = ''stdout''\<rparr>,
      cf_trading = \<lparr>tc_risk_enabled = True, tc_max_position_size = 100, tc_default_exchange = ''IB'',
        tc_paper_trading = True\<rparr>,
      cf_server = \<lparr>sv_host = ''127.0.0.1'', sv_port = 8080, sv_request_timeout_ms = 30000\<rparr>\<rparr>"

text \<open>One message for each error, separated by semicolons.\<close>

fun join_with :: "string \<Rightarrow> string list \<Rightarrow> string" where
  "join_with separator [] = []"
| "join_with separator [s] = s"
| "join_with separator (s # t # rest) = s @ separator @ join_with separator (t # rest)"

definition format_validation_errors :: "validation_errors \<Rightarrow> string" where
  "format_validation_errors es =
     join_with ''; '' (map (\<lambda>(field, message). case message of Some m \<Rightarrow> m | None \<Rightarrow> ''Invalid value for '' @ field) es)"

definition validate_and_report :: "app_config \<Rightarrow> (unit, string) res" where
  "validate_and_report c = map_err format_validation_errors (app_config_validate c)"

section \<open>Loading\<close>

text \<open>
  A source is a file, named without its extension or by its path, or the environment with its prefix
  and separator.  A source that may be missing reads as no keys.
\<close>

datatype config_source = Source_Named string | Source_File string | Source_Environment string string

type_synonym config_keys = "string \<rightharpoonup> string"

record config_crate =
  cc_read :: "config_source \<Rightarrow> (config_keys, string) res"
  cc_deserialize :: "config_keys \<Rightarrow> (app_config, string) res"

primrec build_config :: "config_crate \<Rightarrow> config_source list \<Rightarrow> config_keys \<Rightarrow> (config_keys, string) res" where
  "build_config C [] keys = Ok keys"
| "build_config C (source # sources) keys = bind (cc_read C source) (\<lambda>more. build_config C sources (keys ++ more))"

definition config_sources :: "string \<Rightarrow> config_source list" where
  "config_sources environment =
     [Source_Named ''config/default'', Source_Named (''config/'' @ environment), Source_Named ''config/local'',
      Source_Environment ''APP'' ''__'']"

definition load_with_environment :: "config_crate \<Rightarrow> string \<Rightarrow> (app_config, infrastructure_error) res" where
  "load_with_environment C environment =
     bind (map_err (\<lambda>e. Infra_Configuration (''Failed to build config: '' @ e))
             (build_config C (config_sources environment) Map.empty)) (\<lambda>config.
     map_err (\<lambda>e. Infra_Configuration (''Failed to deserialize config: '' @ e)) (cc_deserialize C config))"

definition validated_config :: "app_config \<Rightarrow> (app_config, infrastructure_error) res" where
  "validated_config c =
     bind (map_err (\<lambda>e. Infra_Configuration (''Validation failed: '' @ format_validation_errors e))
             (app_config_validate c)) (\<lambda>_. Ok c)"

definition config_from_file :: "config_crate \<Rightarrow> string \<Rightarrow> (app_config, infrastructure_error) res" where
  "config_from_file C path =
     bind (map_err (\<lambda>e. Infra_Configuration (''Failed to load file: '' @ e))
             (build_config C [Source_File path] Map.empty)) (\<lambda>config.
     bind (map_err (\<lambda>e. Infra_Configuration (''Failed to parse config: '' @ e)) (cc_deserialize C config))
       validated_config)"

text \<open>The cache behind its lock; a poisoned lock is passed over.\<close>

record config_cache =
  ca_poisoned :: bool
  ca_config :: "app_config option"

definition cache_write :: "app_config option \<Rightarrow> config_cache \<Rightarrow> config_cache" where
  "cache_write c cache = (if ca_poisoned cache then cache else cache\<lparr>ca_config := c\<rparr>)"

definition config_cached :: "config_cache \<Rightarrow> app_config option" where
  "config_cached cache = (if ca_poisoned cache then None else ca_config cache)"

definition clear_cache :: "config_cache \<Rightarrow> config_cache" where
  "clear_cache cache = cache_write None cache"

definition environment_name :: "(string \<Rightarrow> string option) \<Rightarrow> string" where
  "environment_name var =
     (case var ''APP_ENVIRONMENT'' of Some e \<Rightarrow> e
      | None \<Rightarrow> (case var ''RUN_MODE'' of Some e \<Rightarrow> e | None \<Rightarrow> ''development''))"

definition config_load ::
    "config_crate \<Rightarrow> (string \<Rightarrow> string option) \<Rightarrow> (config_cache, app_config, infrastructure_error) io" where
  "config_load C var =
     io_bind (io_lift (bind (load_with_environment C (environment_name var)) validated_config)) (\<lambda>c cache.
     (Ok c, cache_write (Some c) cache))"

section \<open>The masked form\<close>

record masked_app_config =
  mk_app :: app_metadata_config
  mk_database :: "database_config \<times> string" \<comment> \<open>with the masked password, and the masked URL\<close>
  mk_redis :: "redis_config \<times> string"
  mk_logging :: logging_config
  mk_trading :: trading_config
  mk_server :: server_config

definition masked :: "app_config \<Rightarrow> masked_app_config" where
  "masked c =
     \<lparr>mk_app = cf_app c,
      mk_database = ((cf_database c)\<lparr>dc_password := ''***''\<rparr>, database_masked_url (cf_database c)),
      mk_redis = ((cf_redis c)\<lparr>rd_password := map_option (\<lambda>_. ''***'') (rd_password (cf_redis c))\<rparr>,
        redis_masked_url (cf_redis c)),
      mk_logging = cf_logging c, mk_trading = cf_trading c, mk_server = cf_server c\<rparr>"

definition show_bool :: "bool \<Rightarrow> string" where
  "show_bool b = (if b then ''true'' else ''false'')"

text \<open>The debug form of an optional text without characters that are escaped.\<close>

definition debug_option :: "string option \<Rightarrow> string" where
  "debug_option s = (case s of Some t \<Rightarrow> ''Some('' @ [CHR 0x22] @ t @ [CHR 0x22] @ '')'' | None \<Rightarrow> ''None'')"

definition masked_display :: "masked_app_config \<Rightarrow> string list" where
  "masked_display m =
     (let db = fst (mk_database m); rd = fst (mk_redis m) in
      [[CHR 0xF0, CHR 0x9F, CHR 0x93, CHR 0x8B] @ '' Configuration:'', ''  App:'',
       ''    Name:        '' @ am_name (mk_app m), ''    Version:     '' @ am_version (mk_app m),
       ''    Environment: '' @ am_environment (mk_app m), ''  Database:'',
       ''    Host:        '' @ dc_host db, ''    Port:        '' @ show_nat (unat (dc_port db)),
       ''    Name:        '' @ dc_name db, ''    User:        '' @ dc_user db,
       ''    Password:    '' @ dc_password db, ''    Pool Size:   '' @ show_nat (unat (dc_max_connections db)),
       ''    Timeout:     '' @ show_nat (unat (dc_timeout_ms db)) @ ''ms'', ''    URL:         '' @ snd (mk_database m),
       ''  Redis:'', ''    Host:        '' @ rd_host rd, ''    Port:        '' @ show_nat (unat (rd_port rd)),
       ''    Password:    '' @ debug_option (rd_password rd), ''    DB:          '' @ show_int (sint (rd_db rd)),
       ''    Timeout:     '' @ show_nat (unat (rd_timeout_ms rd)) @ ''ms'', ''    URL:         '' @ snd (mk_redis m),
       ''  Logging:'', ''    Level:       '' @ lg_level (mk_logging m), ''    Format:      '' @ lg_format (mk_logging m),
       ''    Output:      '' @ lg_output (mk_logging m), ''  Trading:'',
       ''    Risk:        '' @ show_bool (tc_risk_enabled (mk_trading m)),
       ''    Max Pos:     '' @ show_nat (unat (tc_max_position_size (mk_trading m))),
       ''    Exchange:    '' @ tc_default_exchange (mk_trading m),
       ''    Paper:       '' @ show_bool (tc_paper_trading (mk_trading m)), ''  Server:'',
       ''    Host:        '' @ sv_host (mk_server m), ''    Port:        '' @ show_nat (unat (sv_port (mk_server m))),
       ''    Timeout:     '' @ show_nat (unat (sv_request_timeout_ms (mk_server m))) @ ''ms''])"

section \<open>Properties\<close>

text \<open>The configuration with other passwords.\<close>

definition with_secrets :: "string \<Rightarrow> string option \<Rightarrow> app_config \<Rightarrow> app_config" where
  "with_secrets password redis_password c =
     c\<lparr>cf_database := (cf_database c)\<lparr>dc_password := password\<rparr>,
       cf_redis := (cf_redis c)\<lparr>rd_password := redis_password\<rparr>\<rparr>"

lemma masked_with_secrets:
  assumes "redis_password = None \<longleftrightarrow> rd_password (cf_redis c) = None"
  shows "masked (with_secrets password redis_password c) = masked c"
proof -
  have "map_option (\<lambda>_. ''***'') redis_password = map_option (\<lambda>_. ''***'') (rd_password (cf_redis c))"
    using assms by (cases redis_password; cases "rd_password (cf_redis c)") simp_all
  then show ?thesis
    by (simp add: with_secrets_def masked_def database_masked_url_def database_url_with_def redis_masked_url_def
        redis_url_with_def)
qed

text \<open>  The masked form gives no password away: a configuration with other passwords has the same masked form
  and prints the same text, as long as Redis has a password in both or in neither.
\<close>

theorem masked_hides_secrets:
  assumes "redis_password = None \<longleftrightarrow> rd_password (cf_redis c) = None"
  shows "masked (with_secrets password redis_password c) = masked c \<and>
    masked_display (masked (with_secrets password redis_password c)) = masked_display (masked c)"
  by (simp add: masked_with_secrets [OF assms])

text \<open>  A configuration is never refused for its contents: whatever can be read is loaded, from a file or from
  the environment, and cached in the latter case, even when every section fails its own checks.
\<close>

theorem invalid_configuration_accepted:
  "(load_with_environment C (environment_name var) = Ok c \<longrightarrow>
      config_load C var cache = (Ok c, cache_write (Some c) cache)) \<and>
   (build_config C [Source_File path] Map.empty = Ok keys \<and> cc_deserialize C keys = Ok c \<longrightarrow>
      config_from_file C path = Ok c) \<and>
   validate_and_report c = Ok ()"
  by (simp add: config_load_def validated_config_def app_config_validate_def derived_validate_def io_bind_def io_lift_def
      config_from_file_def validate_and_report_def)

text \<open>  Each key of a loaded configuration has the value of the environment variables if they have one, else
  that of the local file, else that of the file of the environment, else that of the default file.
\<close>

theorem configuration_precedence:
  assumes "load_with_environment C environment = Ok c"
  shows "\<exists>keys defaults specific locals vars. cc_deserialize C keys = Ok c \<and>
    cc_read C (Source_Named ''config/default'') = Ok defaults \<and>
    cc_read C (Source_Named (''config/'' @ environment)) = Ok specific \<and>
    cc_read C (Source_Named ''config/local'') = Ok locals \<and>
    cc_read C (Source_Environment ''APP'' ''__'') = Ok vars \<and>
    (\<forall>k. keys k = (case vars k of Some v \<Rightarrow> Some v | None \<Rightarrow>
       (case locals k of Some v \<Rightarrow> Some v | None \<Rightarrow>
       (case specific k of Some v \<Rightarrow> Some v | None \<Rightarrow> defaults k))))"
proof -
  from assms obtain keys where keys: "build_config C (config_sources environment) Map.empty = Ok keys"
      "cc_deserialize C keys = Ok c"
    by (auto simp: load_with_environment_def res_simps)
  from keys(1) obtain d s l v where "cc_read C (Source_Named ''config/default'') = Ok d"
      "cc_read C (Source_Named (''config/'' @ environment)) = Ok s" "cc_read C (Source_Named ''config/local'') = Ok l"
      "cc_read C (Source_Environment ''APP'' ''__'') = Ok v" "keys = d ++ s ++ l ++ v"
    unfolding config_sources_def by (auto simp: bind_eq_Ok)
  with keys(2) show ?thesis
    by (intro exI [of _ keys] exI [of _ d] exI [of _ s] exI [of _ l] exI [of _ v]) (simp add: map_add_def)
qed

text \<open>
  The sections of the default configuration pass their checks; a section whose fields are all empty or
  zero fails all of them.
\<close>

theorem section_checks:
  assumes "low ''development'' = ''development''" and "low ''info'' = ''info''" and "low ''json'' = ''json''"
    and "up ''IB'' = ''IB''"
  shows "app_metadata_validate low (cf_app app_config_default) = Ok () \<and>
    database_config_validate (cf_database app_config_default) = Ok () \<and>
    redis_config_validate (cf_redis app_config_default) = Ok () \<and>
    logging_config_validate low (cf_logging app_config_default) = Ok () \<and>
    trading_config_validate up (cf_trading app_config_default) = Ok () \<and>
    server_config_validate (cf_server app_config_default) = Ok () \<and>
    database_config_validate \<lparr>dc_host = '''', dc_port = 0, dc_name = '''', dc_user = '''', dc_password = '''',
      dc_max_connections = 0, dc_timeout_ms = 0\<rparr> \<noteq> Ok ()"
  using assms
  by (simp add: app_config_default_def app_metadata_validate_def database_config_validate_def redis_config_validate_def
      logging_config_validate_def trading_config_validate_def server_config_validate_def derived_validate_def
      check_field_def in_bounds_def validate_environment_def validate_log_level_def validate_log_format_def
      validate_exchange_def)

section \<open>Witnesses\<close>

theorem masked_hides_secrets_witness:
  "masked_display (masked (with_secrets ''hunter2'' None app_config_default)) = masked_display (masked app_config_default)"
proof -
  have "None = None \<longleftrightarrow> rd_password (cf_redis app_config_default) = None" by (simp add: app_config_default_def)
  from masked_hides_secrets [OF this] show ?thesis by blast
qed

text \<open>A crate that reads one key from the environment and makes a configuration that no section accepts.\<close>

definition empty_configuration :: app_config where
  "empty_configuration =
     \<lparr>cf_app = \<lparr>am_name = '''', am_version = '''', am_environment = ''''\<rparr>,
      cf_database = \<lparr>dc_host = '''', dc_port = 0, dc_name = '''', dc_user = '''', dc_password = '''',
        dc_max_connections = 0, dc_timeout_ms = 0\<rparr>,
      cf_redis = \<lparr>rd_host = '''', rd_port = 0, rd_password = None, rd_db = -1, rd_timeout_ms = 0\<rparr>,
      cf_logging = \<lparr>lg_level = '''', lg_format = '''', lg_output = ''''\<rparr>,
      cf_trading = \<lparr>tc_risk_enabled = False, tc_max_position_size = 0, tc_default_exchange = '''',
        tc_paper_trading = False\<rparr>,
      cf_server = \<lparr>sv_host = '''', sv_port = 0, sv_request_timeout_ms = 0\<rparr>\<rparr>"

definition sample_config_crate :: config_crate where
  "sample_config_crate =
     \<lparr>cc_read = (\<lambda>source. Ok (case source of Source_Environment _ _ \<Rightarrow> [''database.host'' \<mapsto> ''db''] | _ \<Rightarrow> Map.empty)),
      cc_deserialize = (\<lambda>keys. if keys ''database.host'' = Some ''db'' then Ok empty_configuration else Err ''host'')\<rparr>"

lemma sample_config_loaded: "load_with_environment sample_config_crate ''test'' = Ok empty_configuration"
  by (simp add: load_with_environment_def config_sources_def sample_config_crate_def)

theorem invalid_configuration_accepted_witness:
  "config_load sample_config_crate (\<lambda>v. if v = ''RUN_MODE'' then Some ''test'' else None) \<lparr>ca_poisoned = False, ca_config = None\<rparr> =
     (Ok empty_configuration, \<lparr>ca_poisoned = False, ca_config = Some empty_configuration\<rparr>)"
proof -
  let ?var = "\<lambda>v. if v = ''RUN_MODE'' then Some ''test'' else None"
  have "load_with_environment sample_config_crate (environment_name ?var) = Ok empty_configuration"
    by (simp add: environment_name_def sample_config_loaded)
  with invalid_configuration_accepted [of sample_config_crate ?var empty_configuration
      "\<lparr>ca_poisoned = False, ca_config = None\<rparr>"]
  show ?thesis by (simp add: cache_write_def)
qed

theorem configuration_precedence_witness:
  "\<exists>keys. cc_deserialize sample_config_crate keys = Ok empty_configuration \<and> keys ''database.host'' = Some ''db''"
proof -
  from configuration_precedence [OF sample_config_loaded] obtain keys vars where
    "cc_deserialize sample_config_crate keys = Ok empty_configuration"
    "cc_read sample_config_crate (Source_Environment ''APP'' ''__'') = Ok vars"
    "keys ''database.host'' = (case vars ''database.host'' of Some v \<Rightarrow> Some v | None \<Rightarrow> keys ''database.host'')"
    by (metis (no_types, lifting) option.case_eq_if)
  then show ?thesis by (intro exI [of _ keys]) (auto simp: sample_config_crate_def)
qed

end
