(* ===== verification/Logging.thy ===== *)
theory Logging
  imports Configuration
begin

text \<open>
  The logic of \<open>crates/infrastructure/src/logging.rs\<close>: correlation identifiers with their place in the
  thread, the formats and outputs of the log, and what the subscriber is built from.  Filter directives
  and the subscriber belong to \<open>tracing_subscriber\<close> and are arguments.
\<close>

section \<open>Correlation identifiers\<close>

datatype correlation_id = CorrelationId (correlation_uuid: uuid)

definition correlation_parse :: "uuid_ops \<Rightarrow> string \<Rightarrow> (correlation_id, infrastructure_error) res" where
  "correlation_parse U s =
     map_err (\<lambda>e. Infra_Configuration (''Invalid correlation ID: '' @ e)) (bind (u_parse U s) (\<lambda>i. Ok (CorrelationId i)))"

text \<open>The storage of the thread; \<open>f\<close> runs on it and on the rest of the world.\<close>

type_synonym correlation_store = "correlation_id option"

definition set_correlation_id :: "correlation_id \<Rightarrow> correlation_store \<times> 'w \<Rightarrow> correlation_store \<times> 'w" where
  "set_correlation_id i w = (Some i, snd w)"

definition get_correlation_id :: "correlation_store \<times> 'w \<Rightarrow> correlation_id option" where
  "get_correlation_id w = fst w"

definition clear_correlation_id :: "correlation_store \<times> 'w \<Rightarrow> correlation_store \<times> 'w" where
  "clear_correlation_id w = (None, snd w)"

definition with_correlation_id ::
    "correlation_id \<Rightarrow> (correlation_store \<times> 'w, 'a, 'e) io \<Rightarrow> (correlation_store \<times> 'w, 'a, 'e) io" where
  "with_correlation_id i f w =
     (case f (set_correlation_id i w) of
        (Panic, w') \<Rightarrow> (Panic, w')
      | (r, w') \<Rightarrow> (r, clear_correlation_id w'))"

definition eq_ignore_ascii_case :: "string \<Rightarrow> string \<Rightarrow> bool" where
  "eq_ignore_ascii_case s t = (ascii_upper s = ascii_upper t)"

definition is_correlation_header :: "string \<Rightarrow> bool" where
  "is_correlation_header key =
     (eq_ignore_ascii_case key ''X-Correlation-ID'' \<or> eq_ignore_ascii_case key ''X-Request-ID'' \<or>
      eq_ignore_ascii_case key ''X-Trace-ID'')"

text \<open>The first header that names an identifier and parses; \<open>fresh\<close> is a new one.\<close>

primrec extract_correlation_id :: "uuid_ops \<Rightarrow> uuid \<Rightarrow> (string \<times> string) list \<Rightarrow> correlation_id" where
  "extract_correlation_id U fresh [] = CorrelationId fresh"
| "extract_correlation_id U fresh (header # headers) =
     (if is_correlation_header (fst header)
      then (case correlation_parse U (snd header) of
              Ok i \<Rightarrow> i
            | _ \<Rightarrow> extract_correlation_id U fresh headers)
      else extract_correlation_id U fresh headers)"

definition visitor_record_str :: "uuid_ops \<Rightarrow> string \<Rightarrow> string \<Rightarrow> correlation_id option \<Rightarrow> correlation_id option" where
  "visitor_record_str U field value seen =
     (if field = ''correlation_id'' \<or> field = ''correlationId''
      then (case correlation_parse U value of Ok i \<Rightarrow> Some i | _ \<Rightarrow> seen)
      else seen)"

section \<open>Formats and outputs\<close>

datatype log_format = Log_Pretty | Log_Json | Log_Compact

fun log_format_display :: "log_format \<Rightarrow> string" where
  "log_format_display Log_Pretty = ''pretty''"
| "log_format_display Log_Json = ''json''"
| "log_format_display Log_Compact = ''compact''"

definition log_format_from_str :: "(string \<Rightarrow> string) \<Rightarrow> string \<Rightarrow> (log_format, string) res" where
  "log_format_from_str low s =
     (if low s = ''pretty'' then Ok Log_Pretty else if low s = ''json'' then Ok Log_Json
      else if low s = ''compact'' then Ok Log_Compact
      else Err (''Invalid log format: '' @ s @ ''. Use '' @ quoted ''pretty'' @ '', '' @ quoted ''json'' @ '', or '' @
             quoted ''compact''))"

definition log_format_of :: "(string \<Rightarrow> string) \<Rightarrow> string \<Rightarrow> log_format" where
  "log_format_of low s = (case log_format_from_str low s of Ok f \<Rightarrow> f | _ \<Rightarrow> Log_Pretty)"

datatype log_output = Out_Stdout | Out_Stderr | Out_File string

fun log_output_display :: "log_output \<Rightarrow> string" where
  "log_output_display Out_Stdout = ''stdout''"
| "log_output_display Out_Stderr = ''stderr''"
| "log_output_display (Out_File path) = ''file:'' @ path"

text \<open>The path is taken from the text in lower case.\<close>

definition log_output_from_str :: "(string \<Rightarrow> string) \<Rightarrow> string \<Rightarrow> (log_output, string) res" where
  "log_output_from_str low s =
     (let path = low s in
      if path = ''stdout'' then Ok Out_Stdout else if path = ''stderr'' then Ok Out_Stderr
      else if starts_with path ''file:'' then Ok (Out_File (drop 5 path))
      else if starts_with path ''/'' \<or> starts_with path ''./'' \<or> starts_with path ''../'' then Ok (Out_File path)
      else Err (''Invalid log output: '' @ s @ ''. Use '' @ quoted ''stdout'' @ '', '' @ quoted ''stderr'' @
             '', or a file path''))"

definition log_output_of :: "(string \<Rightarrow> string) \<Rightarrow> string \<Rightarrow> log_output" where
  "log_output_of low s = (case log_output_from_str low s of Ok out \<Rightarrow> out | _ \<Rightarrow> Out_Stdout)"

section \<open>The subscriber\<close>

record tracing_config =
  tr_level :: string
  tr_format :: log_format
  tr_output :: log_output
  tr_correlation_ids :: bool
  tr_span_events :: bool
  tr_thread_ids :: bool
  tr_target :: bool

definition tracing_config_default :: tracing_config where
  "tracing_config_default =
     \<lparr>tr_level = ''info'', tr_format = Log_Pretty, tr_output = Out_Stdout, tr_correlation_ids = True,
      tr_span_events = False, tr_thread_ids = False, tr_target = True\<rparr>"

definition tracing_config_of :: "(string \<Rightarrow> string) \<Rightarrow> logging_config \<Rightarrow> tracing_config" where
  "tracing_config_of low c =
     \<lparr>tr_level = lg_level c, tr_format = log_format_of low (lg_format c), tr_output = log_output_of low (lg_output c),
      tr_correlation_ids = True, tr_span_events = False, tr_thread_ids = False, tr_target = True\<rparr>"

text \<open>
  What a subscriber is built from: its format, filter, span events (all of them, or closing ones), and
  the flags for thread identifiers, targets and colours.  \<open>EnvFilter::try_new\<close> and \<open>try_init\<close> may fail.
\<close>

record 'f subscriber =
  sb_format :: log_format
  sb_filter :: 'f
  sb_full_span_events :: bool
  sb_thread_ids :: bool
  sb_target :: bool
  sb_ansi :: bool

definition build_env_filter ::
    "(string \<Rightarrow> ('f, string) res) \<Rightarrow> (string \<Rightarrow> string option) \<Rightarrow> tracing_config \<Rightarrow> ('f, infrastructure_error) res" where
  "build_env_filter try_new var config =
     (case var ''RUST_LOG'' of
        Some rust_log \<Rightarrow> map_err (\<lambda>e. Infra_Configuration (''Invalid RUST_LOG: '' @ e)) (try_new rust_log)
      | None \<Rightarrow>
          (case var ''APP_LOG_LEVEL'' of
             Some app_log \<Rightarrow> map_err (\<lambda>e. Infra_Configuration (''Invalid APP_LOG_LEVEL: '' @ e)) (try_new app_log)
           | None \<Rightarrow> map_err (\<lambda>e. Infra_Configuration (''Invalid log level: '' @ e)) (try_new (tr_level config))))"

definition init_tracing ::
    "(string \<Rightarrow> ('f, string) res) \<Rightarrow> (string \<Rightarrow> string option) \<Rightarrow> ('f subscriber \<Rightarrow> ('w, unit, string) io) \<Rightarrow>
     tracing_config \<Rightarrow> ('w, unit, infrastructure_error) io" where
  "init_tracing try_new var try_init config =
     io_bind (io_lift (build_env_filter try_new var config)) (\<lambda>env_filter.
     io_map_err (\<lambda>e. Infra_Configuration
         ((case tr_format config of
             Log_Json \<Rightarrow> ''Failed to initialize JSON subscriber: ''
           | Log_Pretty \<Rightarrow> ''Failed to initialize pretty subscriber: ''
           | Log_Compact \<Rightarrow> ''Failed to initialize compact subscriber: '') @ e))
       (try_init
          \<lparr>sb_format = tr_format config, sb_filter = env_filter, sb_full_span_events = tr_span_events config,
           sb_thread_ids = tr_thread_ids config, sb_target = tr_target config,
           sb_ansi = (tr_format config \<noteq> Log_Compact)\<rparr>))"

definition init_tracing_legacy ::
    "(string \<Rightarrow> string) \<Rightarrow> (string \<Rightarrow> ('f, string) res) \<Rightarrow> (string \<Rightarrow> string option) \<Rightarrow>
     ('f subscriber \<Rightarrow> ('w, unit, string) io) \<Rightarrow> logging_config \<Rightarrow> ('w, unit, infrastructure_error) io" where
  "init_tracing_legacy low try_new var try_init config =
     init_tracing try_new var try_init (tracing_config_of low config)"

section \<open>Properties\<close>

text \<open>
  Formats are read back as they are printed.  Outputs are too, except that the path of a file comes back
  in lower case: on most file systems that is another file.
\<close>

theorem log_settings_read_back:
  assumes "low (log_format_display f) = log_format_display f"
    and "low (log_output_display out) = (case out of Out_File path \<Rightarrow> ''file:'' @ low path | _ \<Rightarrow> log_output_display out)"
  shows "log_format_from_str low (log_format_display f) = Ok f \<and>
    log_output_from_str low (log_output_display out) =
      Ok (case out of Out_File path \<Rightarrow> Out_File (low path) | _ \<Rightarrow> out)"
  using assms
  by (cases f; cases out) (simp_all add: log_format_from_str_def log_output_from_str_def Let_def starts_with_def)

text \<open>Nothing that is configured about the output of the log reaches the subscriber.\<close>

theorem log_output_is_ignored:
  "init_tracing try_new var try_init (config\<lparr>tr_output := out\<rparr>) = init_tracing try_new var try_init config"
  by (simp add: init_tracing_def build_env_filter_def cong: option.case_cong)

text \<open>
  Running something under an identifier leaves the thread without one, whatever it had before: the
  identifier of an enclosing call is lost.
\<close>

theorem nested_correlation_is_lost:
  assumes "with_correlation_id i f w = (r, w')" and "r \<noteq> Panic"
  shows "get_correlation_id w' = None"
  using assms
  by (auto simp: with_correlation_id_def get_correlation_id_def clear_correlation_id_def split: prod.splits res.splits)

text \<open>The identifier of a request is that of its first header that names one and parses.\<close>

theorem extracted_correlation:
  "extract_correlation_id U fresh headers =
     (case find (\<lambda>(key, value). is_correlation_header key \<and> is_ok (u_parse U value)) headers of
        Some (key, value) \<Rightarrow> (case u_parse U value of Ok i \<Rightarrow> CorrelationId i | _ \<Rightarrow> CorrelationId fresh)
      | None \<Rightarrow> CorrelationId fresh)"
proof (induction headers)
  case (Cons header headers)
  obtain k v where "header = (k, v)" by (cases header)
  with Cons show ?case by (cases "u_parse U v") (auto simp: correlation_parse_def)
qed simp

end
