(* ===== verification/Market_Store.thy ===== *)
theory Market_Store
  imports Db_Connection Market_Data
begin

text \<open>
  The repositories of bars and ticks, \<open>crates/infrastructure/src/database/timescale.rs\<close>.  Both tables
  are keyed by time and symbol, and an insert that meets a row adds its volume to it.  The statements
  are shared; what they do to a row is an argument.
\<close>

section \<open>Rows\<close>

record bar_row =
  brow_time :: timestamp
  brow_symbol :: string
  brow_open :: f64
  brow_high :: f64
  brow_low :: f64
  brow_close :: f64
  brow_volume :: int
  brow_provider :: string

record tick_row =
  trow_time :: timestamp
  trow_symbol :: string
  trow_price :: f64
  trow_volume :: int
  trow_provider :: string

text \<open>The type of the volume column: the program binds and reads \<open>i64\<close>, which is \<open>BIGINT\<close>.\<close>

datatype volume_column = Integer_Column | Bigint_Column

fun column_holds :: "volume_column \<Rightarrow> int \<Rightarrow> bool" where
  "column_holds Integer_Column v = (- (2 ^ 31) \<le> v \<and> v < 2 ^ 31)"
| "column_holds Bigint_Column v = (- (2 ^ 63) \<le> v \<and> v < 2 ^ 63)"

text \<open>
  \<open>f64::try_from(Decimal)\<close>, \<open>Decimal::from_f64_retain\<close>, the text of driver errors, and the column.
\<close>

record market_formats =
  mf_to_f64 :: "decimal \<Rightarrow> f64 option"
  mf_retain :: "f64 \<Rightarrow> decimal option"
  mf_sqlx :: "sqlx_error \<Rightarrow> string"
  mf_volume :: volume_column

definition market_map_sqlx_error :: "market_formats \<Rightarrow> sqlx_error \<Rightarrow> domain_error" where
  "market_map_sqlx_error F e =
     Dom_Repository (case e of
        Sqlx_RowNotFound \<Rightarrow> repository_error_not_found ''Record not found''
      | Sqlx_PoolTimedOut \<Rightarrow> repository_error_connection ''Connection pool timeout''
      | Sqlx_PoolClosed \<Rightarrow> repository_error_connection ''Connection pool closed''
      | Sqlx_Io t \<Rightarrow> repository_error_connection (''IO error: '' @ t)
      | Sqlx_Tls t \<Rightarrow> repository_error_connection (''TLS error: '' @ t)
      | Sqlx_Database kind msg \<Rightarrow>
          if kind = Unique_Violation then repository_error_duplicate_key msg
          else if kind = Foreign_Key_Violation then repository_error_constraint_violation msg
          else repository_error_query msg
      | Sqlx_Other _ \<Rightarrow> repository_error_query (mf_sqlx F e))"

definition to_f64 :: "market_formats \<Rightarrow> string \<Rightarrow> price \<Rightarrow> (f64, domain_error) res" where
  "to_f64 F reason p = ok_or (mf_to_f64 F (price_inner p)) (Dom_Repository (Repo_SerializationFailed reason))"

text \<open>What is bound for a bar; \<open>reason\<close> is the message about a price that does not convert.\<close>

definition bar_to_row :: "market_formats \<Rightarrow> (string \<Rightarrow> string) \<Rightarrow> bar \<Rightarrow> (bar_row, domain_error) res" where
  "bar_to_row F reason b =
     bind (to_f64 F (reason ''open'') (bar_open b)) (\<lambda>open_price.
     bind (to_f64 F (reason ''high'') (bar_high b)) (\<lambda>high.
     bind (to_f64 F (reason ''low'') (bar_low b)) (\<lambda>low.
     bind (to_f64 F (reason ''close'') (bar_close b)) (\<lambda>close_price.
     Ok \<lparr>brow_time = bar_timestamp b, brow_symbol = symbol_str (bar_symbol b), brow_open = open_price,
         brow_high = high, brow_low = low, brow_close = close_price,
         brow_volume = sint (volume_i64 (bar_volume b)), brow_provider = bar_provider b\<rparr>))))"

definition tick_to_row :: "market_formats \<Rightarrow> string \<Rightarrow> tick \<Rightarrow> (tick_row, domain_error) res" where
  "tick_to_row F reason t =
     bind (to_f64 F reason (tick_price t)) (\<lambda>p.
     Ok \<lparr>trow_time = tick_timestamp t, trow_symbol = symbol_str (tick_symbol t), trow_price = p,
         trow_volume = sint (volume_i64 (tick_size t)), trow_provider = tick_provider t\<rparr>)"

definition stored_symbol :: "string \<Rightarrow> (symbol, domain_error) res" where
  "stored_symbol s = map_err (\<lambda>e. Dom_Repository (repository_error_query (value_error_display e))) (symbol_new s)"

definition price_of_column :: "dec_ops \<Rightarrow> market_formats \<Rightarrow> string \<Rightarrow> f64 \<Rightarrow> (price, domain_error) res" where
  "price_of_column D F reason y =
     bind (ok_or (mf_retain F y) (Dom_Repository (repository_error_serialization reason))) (\<lambda>p.
     map_err (\<lambda>e. Dom_Repository (repository_error_query (value_error_display e))) (price_new D p))"

text \<open>\<open>try_get\<close> of an \<open>i64\<close> refuses a column of another type; the volume is then taken unchecked.\<close>

definition volume_of_column :: "market_formats \<Rightarrow> int \<Rightarrow> (volume, domain_error) res" where
  "volume_of_column F v =
     (if mf_volume F = Bigint_Column then Ok (Volume (word_of_int v))
      else Err (market_map_sqlx_error F (Sqlx_Other ''mismatched types'')))"

definition row_to_bar :: "dec_ops \<Rightarrow> market_formats \<Rightarrow> bar_row \<Rightarrow> (bar, domain_error) res" where
  "row_to_bar D F row =
     bind (stored_symbol (brow_symbol row)) (\<lambda>symbol.
     bind (price_of_column D F ''Invalid open price'' (brow_open row)) (\<lambda>open_price.
     bind (price_of_column D F ''Invalid high price'' (brow_high row)) (\<lambda>high.
     bind (price_of_column D F ''Invalid low price'' (brow_low row)) (\<lambda>low.
     bind (price_of_column D F ''Invalid close price'' (brow_close row)) (\<lambda>close_price.
     bind (volume_of_column F (brow_volume row)) (\<lambda>volume.
     bar_new D (brow_time row) symbol open_price high low close_price volume M1 (brow_provider row)))))))"

definition row_to_tick :: "dec_ops \<Rightarrow> market_formats \<Rightarrow> tick_row \<Rightarrow> (tick, domain_error) res" where
  "row_to_tick D F row =
     bind (stored_symbol (trow_symbol row)) (\<lambda>symbol.
     bind (price_of_column D F ''Invalid price'' (trow_price row)) (\<lambda>price.
     bind (volume_of_column F (trow_volume row)) (\<lambda>volume.
     tick_new (trow_time row) symbol price volume None (trow_provider row))))"

section \<open>Statements\<close>

definition out_of_range :: "volume_column \<Rightarrow> sqlx_error" where
  "out_of_range c =
     Sqlx_Database Other_Violation
       (case c of Integer_Column \<Rightarrow> ''integer out of range'' | Bigint_Column \<Rightarrow> ''bigint out of range'')"

definition row_at :: "('r \<Rightarrow> 'k) \<Rightarrow> 'k \<Rightarrow> 'r list \<Rightarrow> 'r option" where
  "row_at key k t = find (\<lambda>row. key row = k) t"

text \<open>
  \<open>INSERT ... ON CONFLICT (time, symbol) DO UPDATE SET ..., volume = volume + EXCLUDED.volume\<close>:
  \<open>merge new old\<close> is the row that a conflict leaves.
\<close>

definition upsert_row ::
    "('r \<Rightarrow> 'k) \<Rightarrow> ('r \<Rightarrow> int) \<Rightarrow> ('r \<Rightarrow> 'r \<Rightarrow> 'r) \<Rightarrow> volume_column \<Rightarrow> 'r \<Rightarrow> 'r list \<Rightarrow> ('r list, sqlx_error) res" where
  "upsert_row key volume merge c new t =
     (if \<not> column_holds c (volume new) then Err (out_of_range c)
      else case row_at key (key new) t of
        None \<Rightarrow> Ok (t @ [new])
      | Some old \<Rightarrow>
          if column_holds c (volume (merge new old))
          then Ok (map (\<lambda>row. if key row = key new then merge new row else row) t)
          else Err (out_of_range c))"

text \<open>One statement for several rows may not touch a row of the table twice.\<close>

definition upsert_rows ::
    "('r \<Rightarrow> 'k) \<Rightarrow> ('r \<Rightarrow> int) \<Rightarrow> ('r \<Rightarrow> 'r \<Rightarrow> 'r) \<Rightarrow> volume_column \<Rightarrow> 'r list \<Rightarrow> 'r list \<Rightarrow> ('r list, sqlx_error) res" where
  "upsert_rows key volume merge c rows t =
     bind (fold_res (\<lambda>new (touched, t).
             if key new \<in> set touched
             then Err (Sqlx_Database Other_Violation ''ON CONFLICT DO UPDATE command cannot affect row a second time'')
             else bind (upsert_row key volume merge c new t) (\<lambda>t'. Ok (key new # touched, t')))
           rows ([], t))
       (\<lambda>(touched, t'). Ok t')"

definition bar_key :: "bar_row \<Rightarrow> timestamp \<times> string" where
  "bar_key row = (brow_time row, brow_symbol row)"

definition merge_bar :: "bar_row \<Rightarrow> bar_row \<Rightarrow> bar_row" where
  "merge_bar new old =
     old\<lparr>brow_open := brow_open new, brow_high := brow_high new, brow_low := brow_low new,
         brow_close := brow_close new, brow_volume := brow_volume old + brow_volume new\<rparr>"

definition tick_key :: "tick_row \<Rightarrow> timestamp \<times> string" where
  "tick_key row = (trow_time row, trow_symbol row)"

definition merge_tick :: "tick_row \<Rightarrow> tick_row \<Rightarrow> tick_row" where
  "merge_tick new old = old\<lparr>trow_price := trow_price new, trow_volume := trow_volume old + trow_volume new\<rparr>"

text \<open>\<open>WHERE symbol = $1 AND time >= $2 AND time <= $3 ORDER BY time ASC\<close>\<close>

definition select_range ::
    "('r \<Rightarrow> timestamp \<times> string) \<Rightarrow> string \<Rightarrow> timestamp \<Rightarrow> timestamp \<Rightarrow> 'r list \<Rightarrow> 'r list" where
  "select_range key s start finish t =
     sort_key (\<lambda>row. fst (key row))
       (filter (\<lambda>row. snd (key row) = s \<and> start \<le> fst (key row) \<and> fst (key row) \<le> finish) t)"

text \<open>\<open>WHERE symbol = $1 ORDER BY time DESC LIMIT $2\<close>; a negative limit is an error.\<close>

definition select_latest :: "string \<Rightarrow> int \<Rightarrow> bar_row list \<Rightarrow> (bar_row list, sqlx_error) res" where
  "select_latest s limit t =
     (if limit < 0 then Err (Sqlx_Database Other_Violation ''LIMIT must not be negative'')
      else Ok (take (nat limit) (sort_key (\<lambda>row. - brow_time row) (filter (\<lambda>row. brow_symbol row = s) t))))"

section \<open>The repositories\<close>

fun market_transient :: "sqlx_error \<Rightarrow> bool" where
  "market_transient Sqlx_PoolTimedOut = True"
| "market_transient Sqlx_PoolClosed = True"
| "market_transient (Sqlx_Io _) = True"
| "market_transient (Sqlx_Tls _) = True"
| "market_transient _ = False"

definition market_with_retry ::
    "market_formats \<Rightarrow> ('t db, 'a, sqlx_error) io \<Rightarrow> ('t db, 'a, domain_error) io" where
  "market_with_retry F f =
     retry_when market_transient (market_map_sqlx_error F)
       (Dom_Repository (repository_error_connection ''Max retries exceeded'')) f MAX_RETRIES INITIAL_RETRY_DELAY_MS"

definition save_reason :: "string \<Rightarrow> string" where
  "save_reason what = ''Failed to convert '' @ what @ '' price to f64''"

definition batch_reason :: "string \<Rightarrow> string" where
  "batch_reason what = ''Invalid '' @ what @ '' price''"

definition bar_repo_save :: "market_formats \<Rightarrow> bar \<Rightarrow> (bar_row db, unit, domain_error) io" where
  "bar_repo_save F b =
     io_bind (io_lift (bar_to_row F save_reason b)) (\<lambda>row.
     market_with_retry F (run_checked (upsert_row bar_key brow_volume merge_bar (mf_volume F) row)))"

definition bar_repo_save_batch :: "market_formats \<Rightarrow> bar list \<Rightarrow> (bar_row db, unit, domain_error) io" where
  "bar_repo_save_batch F bars =
     (if bars = [] then io_return ()
      else io_bind (io_lift (map_res (bar_to_row F batch_reason) bars)) (\<lambda>rows.
           market_with_retry F (run_checked (upsert_rows bar_key brow_volume merge_bar (mf_volume F) rows))))"

definition bar_repo_get_range ::
    "dec_ops \<Rightarrow> market_formats \<Rightarrow> symbol \<Rightarrow> timestamp \<Rightarrow> timestamp \<Rightarrow> (bar_row db, bar list, domain_error) io" where
  "bar_repo_get_range D F symbol start finish =
     io_bind (market_with_retry F (run_query (select_range bar_key (symbol_str symbol) start finish))) (\<lambda>rows.
     io_lift (map_res (row_to_bar D F) rows))"

text \<open>The limit is \<open>n as i64\<close>; the rows are read from the oldest.\<close>

definition bar_repo_get_latest ::
    "dec_ops \<Rightarrow> market_formats \<Rightarrow> symbol \<Rightarrow> u64 \<Rightarrow> (bar_row db, bar list, domain_error) io" where
  "bar_repo_get_latest D F symbol n =
     io_bind (market_with_retry F
               (io_bind (run_query (select_latest (symbol_str symbol) (sint n))) io_lift)) (\<lambda>rows.
     io_lift (map_res (row_to_bar D F) (rev rows)))"

definition tick_repo_save :: "market_formats \<Rightarrow> tick \<Rightarrow> (tick_row db, unit, domain_error) io" where
  "tick_repo_save F t =
     io_bind (io_lift (tick_to_row F ''Failed to convert price to f64'' t)) (\<lambda>row.
     market_with_retry F (run_checked (upsert_row tick_key trow_volume merge_tick (mf_volume F) row)))"

definition tick_repo_get_range ::
    "dec_ops \<Rightarrow> market_formats \<Rightarrow> symbol \<Rightarrow> timestamp \<Rightarrow> timestamp \<Rightarrow> (tick_row db, tick list, domain_error) io" where
  "tick_repo_get_range D F symbol start finish =
     io_bind (market_with_retry F (run_query (select_range tick_key (symbol_str symbol) start finish))) (\<lambda>rows.
     io_lift (map_res (row_to_tick D F) rows))"

definition tick_repo_save_batch :: "market_formats \<Rightarrow> tick list \<Rightarrow> (tick_row db, unit, domain_error) io" where
  "tick_repo_save_batch F ticks =
     (if ticks = [] then io_return ()
      else io_bind (io_lift (map_res (tick_to_row F ''Invalid price'') ticks)) (\<lambda>rows.
           market_with_retry F (run_checked (upsert_rows tick_key trow_volume merge_tick (mf_volume F) rows))))"

section \<open>Tables keyed by time and symbol\<close>

definition volume_at :: "('r \<Rightarrow> 'k) \<Rightarrow> ('r \<Rightarrow> int) \<Rightarrow> 'k \<Rightarrow> 'r list \<Rightarrow> int" where
  "volume_at key volume k t = (case row_at key k t of None \<Rightarrow> 0 | Some row \<Rightarrow> volume row)"

lemma row_at_append: "row_at key k (t @ u) = (case row_at key k t of None \<Rightarrow> row_at key k u | found \<Rightarrow> found)"
  by (induction t) (simp_all add: row_at_def)

lemma row_at_Nil [simp]: "row_at key k [] = None"
  by (simp add: row_at_def)

lemma row_at_Cons: "row_at key k (row # t) = (if key row = k then Some row else row_at key k t)"
  by (simp add: row_at_def)

lemma row_at_None_iff: "row_at key k t = None \<longleftrightarrow> k \<notin> key ` set t"
  by (induction t) (auto simp: row_at_Cons)

lemma row_at_Some_key: "row_at key k t = Some row \<Longrightarrow> row \<in> set t \<and> key row = k"
  by (auto simp: row_at_def find_Some_iff)

lemma row_at_distinct:
  "distinct (map key t) \<Longrightarrow> row_at key k t = Some row \<longleftrightarrow> row \<in> set t \<and> key row = k"
  by (induction t) (auto simp: row_at_Cons image_iff)

text \<open>What the statements need to know of the rows: a merged row keeps its key and adds the volumes.\<close>

locale time_series =
  fixes key :: "'r \<Rightarrow> 'k" and volume :: "'r \<Rightarrow> int" and merge :: "'r \<Rightarrow> 'r \<Rightarrow> 'r"
  assumes merge_key: "key (merge new old) = key old"
    and merge_volume: "volume (merge new old) = volume old + volume new"
begin

lemma merged_keys: "map key (map (\<lambda>row. if P row then merge new row else row) t) = map key t"
  by (simp add: merge_key)

lemma row_at_merged:
  "row_at key k (map (\<lambda>row. if key row = key new then merge new row else row) t) =
     (if k = key new then map_option (merge new) (row_at key k t) else row_at key k t)"
  by (induction t) (auto simp: row_at_Cons merge_key)

lemma upsert_at:
  assumes "upsert_row key volume merge c new t = Ok t'"
  shows "row_at key k t' =
    (if k = key new then Some (case row_at key k t of None \<Rightarrow> new | Some old \<Rightarrow> merge new old) else row_at key k t)"
  using assms
  by (auto simp: upsert_row_def row_at_append row_at_Cons row_at_merged split: if_splits option.splits)

lemma upsert_volume:
  assumes "upsert_row key volume merge c new t = Ok t'"
  shows "volume_at key volume k t' = volume_at key volume k t + (if key new = k then volume new else 0)"
  using upsert_at [OF assms, of k] by (auto simp: volume_at_def merge_volume split: option.splits)

lemma upsert_keys_distinct:
  assumes "upsert_row key volume merge c new t = Ok t'" and "distinct (map key t)"
  shows "distinct (map key t')"
  using assms merged_keys [of "\<lambda>row. key row = key new" new t]
  by (auto simp: upsert_row_def row_at_None_iff simp del: map_map split: if_splits option.splits)

lemma upsert_no_panic [simp]: "upsert_row key volume merge c new t \<noteq> Panic"
  by (simp add: upsert_row_def split: option.split)

lemma upsert_each_no_panic [simp]: "fold_res (upsert_row key volume merge c) rows t \<noteq> Panic"
  by (induction rows arbitrary: t) (simp_all add: bind_eq_Panic)

text \<open>Rows with different keys may go in one statement; rows with equal ones may not.\<close>

lemma upsert_rows_each:
  assumes "distinct (map key rows)"
  shows "upsert_rows key volume merge c rows t = fold_res (upsert_row key volume merge c) rows t"
proof -
  let ?f = "\<lambda>new (touched, t). if key new \<in> set touched
             then Err (Sqlx_Database Other_Violation ''ON CONFLICT DO UPDATE command cannot affect row a second time'')
             else bind (upsert_row key volume merge c new t) (\<lambda>t'. Ok (key new # touched, t'))"
  have "bind (fold_res ?f rows (touched, t)) (\<lambda>(touched, t'). Ok t') = fold_res (upsert_row key volume merge c) rows t"
    if "distinct (map key rows)" and "set touched \<inter> key ` set rows = {}" for touched
    using that
  proof (induction rows arbitrary: touched t)
    case (Cons new rows)
    then show ?case by (cases "upsert_row key volume merge c new t") auto
  qed simp
  from this [of "[]"] assms show ?thesis by (simp add: upsert_rows_def)
qed

lemma upsert_rows_repeated:
  assumes "\<not> distinct (map key rows)"
  shows "\<exists>e. upsert_rows key volume merge c rows t = Err e"
proof -
  let ?f = "\<lambda>new (touched, t). if key new \<in> set touched
             then Err (Sqlx_Database Other_Violation ''ON CONFLICT DO UPDATE command cannot affect row a second time'')
             else bind (upsert_row key volume merge c new t) (\<lambda>t'. Ok (key new # touched, t'))"
  have "\<exists>e. fold_res ?f rows (touched, t) = Err e"
    if "\<not> distinct (map key rows) \<or> set touched \<inter> key ` set rows \<noteq> {}" for touched
    using that
  proof (induction rows arbitrary: touched t)
    case (Cons new rows)
    show ?case
    proof (cases "key new \<in> set touched")
      case False
      with Cons.prems have "\<not> distinct (map key rows) \<or> set (key new # touched) \<inter> key ` set rows \<noteq> {}" by auto
      from Cons.IH [OF this] False show ?thesis by (cases "upsert_row key volume merge c new t") auto
    qed simp
  qed simp
  from this [of "[]"] assms show ?thesis by (auto simp: upsert_rows_def)
qed

lemma upsert_rows_no_panic [simp]: "upsert_rows key volume merge c rows t \<noteq> Panic"
  by (cases "distinct (map key rows)") (use upsert_rows_repeated [of rows c t] in \<open>auto simp: upsert_rows_each\<close>)

lemma upsert_rows_Ok:
  "upsert_rows key volume merge c rows t = Ok t' \<longleftrightarrow>
     distinct (map key rows) \<and> fold_res (upsert_row key volume merge c) rows t = Ok t'"
  by (cases "distinct (map key rows)") (use upsert_rows_repeated [of rows c t] in \<open>auto simp: upsert_rows_each\<close>)

lemma upsert_each_volume:
  assumes "fold_res (upsert_row key volume merge c) rows t = Ok t'"
  shows "volume_at key volume k t' =
    volume_at key volume k t + sum_list (map volume (filter (\<lambda>row. key row = k) rows))"
  using assms
proof (induction rows arbitrary: t)
  case (Cons new rows)
  then obtain t1 where "upsert_row key volume merge c new t = Ok t1"
      "fold_res (upsert_row key volume merge c) rows t1 = Ok t'"
    by (auto simp: bind_eq_Ok)
  then show ?case using Cons.IH upsert_volume by fastforce
qed simp

lemma upsert_each_distinct:
  "fold_res (upsert_row key volume merge c) rows t = Ok t' \<Longrightarrow> distinct (map key t) \<Longrightarrow> distinct (map key t')"
  by (induction rows arbitrary: t) (auto simp: bind_eq_Ok dest: upsert_keys_distinct)

lemma upsert_each_fresh:
  assumes "distinct (map key (t @ rows))" and "\<forall>row \<in> set rows. column_holds c (volume row)"
  shows "fold_res (upsert_row key volume merge c) rows t = Ok (t @ rows)"
  using assms
proof (induction rows arbitrary: t)
  case (Cons new rows)
  then have "upsert_row key volume merge c new t = Ok (t @ [new])"
    by (auto simp: upsert_row_def row_at_None_iff split: option.split)
  with Cons show ?case by simp
qed simp

end

interpretation bars_table: time_series bar_key brow_volume merge_bar
  by unfold_locales (simp_all add: bar_key_def merge_bar_def)

interpretation ticks_table: time_series tick_key trow_volume merge_tick
  by unfold_locales (simp_all add: tick_key_def merge_tick_def)

section \<open>What the operations do to the table\<close>

lemma market_write:
  assumes "market_with_retry F (run_checked stmt) w = (r, w')" and "\<And>t. stmt t \<noteq> Panic"
  shows "(r = Ok () \<and> stmt (db_table w) = Ok (db_table w')) \<or> (\<exists>e. r = Err e \<and> db_table w' = db_table w)"
proof -
  have step: "(\<exists>x. r = Ok x \<and> stmt (db_table w) = Ok (db_table w')) \<or> (\<exists>e. r = Err e \<and> db_table w' = db_table w)"
    if "run_checked stmt w = (r, w')" for w r and w' :: "'a db"
    using run_checked_cases [OF that] assms(2) by auto
  show ?thesis
    using retry_when_cases [OF step assms(1) [unfolded market_with_retry_def]] by auto
qed

lemma market_query:
  assumes "market_with_retry F (run_query q) w = (r, w')"
  shows "(r = Ok (q (db_table w)) \<or> (\<exists>e. r = Err e)) \<and> db_table w' = db_table w"
  using retry_from_cases [OF assms [unfolded market_with_retry_def run_query_def]] by auto

lemma to_f64_no_panic [simp]: "to_f64 F reason p \<noteq> Panic"
  by (cases "mf_to_f64 F (price_inner p)") (simp_all add: to_f64_def)

lemma to_f64_Ok: "to_f64 F reason p = Ok y \<longleftrightarrow> mf_to_f64 F (price_inner p) = Some y"
  by (simp add: to_f64_def res_simps)

lemma bar_to_row_no_panic [simp]: "bar_to_row F reason b \<noteq> Panic"
  by (simp add: bar_to_row_def res_simps)

lemma map_res_no_panic: "(\<And>x. f x \<noteq> Panic) \<Longrightarrow> map_res f xs \<noteq> Panic"
  by (induction xs) (simp_all add: bind_eq_Panic)

text \<open>The row of a bar is the same in both statements; only their messages differ.\<close>

definition row_of_bar :: "market_formats \<Rightarrow> bar \<Rightarrow> bar_row \<Rightarrow> bool" where
  "row_of_bar F b row = (bar_to_row F (\<lambda>what. what) b = Ok row)"

lemma bar_to_row_Ok: "bar_to_row F reason b = Ok row \<longleftrightarrow> row_of_bar F b row"
  by (auto simp: row_of_bar_def bar_to_row_def bind_eq_Ok to_f64_Ok)

lemma row_of_bar_columns:
  assumes "row_of_bar F b row"
  shows "bar_key row = (bar_timestamp b, symbol_str (bar_symbol b))"
    and "brow_volume row = sint (volume_i64 (bar_volume b))"
  using assms by (auto simp: row_of_bar_def bar_to_row_def bind_eq_Ok bar_key_def)

lemma rows_of_bars: "map_res (bar_to_row F reason) bars = Ok rows \<longleftrightarrow> list_all2 (row_of_bar F) bars rows"
  by (induction bars arbitrary: rows) (auto simp: bind_eq_Ok bar_to_row_Ok list_all2_Cons1)

lemma bar_repo_save_cases:
  assumes "bar_repo_save F b w = (r, w')"
  shows "(r = Ok () \<and> (\<exists>row. row_of_bar F b row \<and>
      upsert_row bar_key brow_volume merge_bar (mf_volume F) row (db_table w) = Ok (db_table w'))) \<or>
    (\<exists>e. r = Err e \<and> db_table w' = db_table w)"
proof (cases "bar_to_row F save_reason b")
  case (Ok row)
  with assms have "market_with_retry F (run_checked (upsert_row bar_key brow_volume merge_bar (mf_volume F) row)) w = (r, w')"
    by (simp add: bar_repo_save_def io_bind_def io_lift_def)
  from market_write [OF this] Ok show ?thesis by (auto simp: bar_to_row_Ok)
qed (use assms in \<open>auto simp: bar_repo_save_def io_bind_def io_lift_def\<close>)

lemma bar_repo_save_batch_cases:
  assumes "bar_repo_save_batch F bars w = (r, w')"
  shows "(r = Ok () \<and> (\<exists>rows. list_all2 (row_of_bar F) bars rows \<and> distinct (map bar_key rows) \<and>
      fold_res (upsert_row bar_key brow_volume merge_bar (mf_volume F)) rows (db_table w) = Ok (db_table w'))) \<or>
    (\<exists>e. r = Err e \<and> db_table w' = db_table w)"
proof (cases "bars = []")
  case False
  show ?thesis
  proof (cases "map_res (bar_to_row F batch_reason) bars")
    case (Ok rows)
    with assms False have
      "market_with_retry F (run_checked (upsert_rows bar_key brow_volume merge_bar (mf_volume F) rows)) w = (r, w')"
      by (simp add: bar_repo_save_batch_def io_bind_def io_lift_def)
    from market_write [OF this] Ok show ?thesis by (auto simp: rows_of_bars bars_table.upsert_rows_Ok)
  next
    case Panic
    with map_res_no_panic [of "bar_to_row F batch_reason" bars] show ?thesis by simp
  qed (use assms False in \<open>auto simp: bar_repo_save_batch_def io_bind_def io_lift_def\<close>)
qed (use assms in \<open>simp add: bar_repo_save_batch_def io_return_def\<close>)

lemma bar_repo_get_range_cases:
  assumes "bar_repo_get_range D F s start finish w = (r, w')"
  shows "db_table w' = db_table w \<and> (r = map_res (row_to_bar D F)
    (select_range bar_key (symbol_str s) start finish (db_table w)) \<or> (\<exists>e. r = Err e))"
proof -
  obtain q w1 where q: "market_with_retry F (run_query (select_range bar_key (symbol_str s) start finish)) w = (q, w1)"
    by force
  from market_query [OF q] assms q show ?thesis
    by (auto simp: bar_repo_get_range_def io_bind_def io_lift_def)
qed

section \<open>Properties\<close>

text \<open>A history of the bar table: the bars whose saving was reported as done, with any faults in between.\<close>

inductive bar_history :: "market_formats \<Rightarrow> bar list \<Rightarrow> bar_row db \<Rightarrow> bool" for F where
  empty: "db_table w = [] \<Longrightarrow> bar_history F [] w"
| saved: "bar_history F bars w \<Longrightarrow> bar_repo_save F b w = (r, w') \<Longrightarrow>
    bar_history F (if is_ok r then bars @ [b] else bars) w'"
| batch: "bar_history F bars w \<Longrightarrow> bar_repo_save_batch F bs w = (r, w') \<Longrightarrow>
    bar_history F (if is_ok r then bars @ bs else bars) w'"
| queried: "bar_history F bars w \<Longrightarrow> bar_repo_get_range D F s start finish w = (r', w') \<Longrightarrow> bar_history F bars w'"

definition bar_slot :: "bar \<Rightarrow> timestamp \<times> string" where
  "bar_slot b = (bar_timestamp b, symbol_str (bar_symbol b))"

definition slot_volume :: "timestamp \<times> string \<Rightarrow> bar list \<Rightarrow> int" where
  "slot_volume k bars = sum_list (map (\<lambda>b. sint (volume_i64 (bar_volume b))) (filter (\<lambda>b. bar_slot b = k) bars))"

lemma slot_volume_append [simp]: "slot_volume k (bars @ bs) = slot_volume k bars + slot_volume k bs"
  by (simp add: slot_volume_def)

lemma slot_volume_rows:
  assumes "list_all2 (row_of_bar F) bars rows"
  shows "sum_list (map brow_volume (filter (\<lambda>row. bar_key row = k) rows)) = slot_volume k bars"
  using assms
  by (induction rule: list_all2_induct) (auto simp: slot_volume_def bar_slot_def row_of_bar_columns)


primrec save_each :: "market_formats \<Rightarrow> bar list \<Rightarrow> (bar_row db, unit, domain_error) io" where
  "save_each F [] = io_return ()"
| "save_each F (b # bars) = io_bind (bar_repo_save F b) (\<lambda>_. save_each F bars)"

lemma market_write_good:
  "db_script w = [] \<Longrightarrow> market_with_retry F (run_checked stmt) w = (Ok (), w') \<longleftrightarrow>
     (\<exists>t. stmt (db_table w) = Ok t \<and> w' = w\<lparr>db_table := t\<rparr>)"
  by (cases "stmt (db_table w)") (auto simp: market_with_retry_def MAX_RETRIES_def numeral_eq_Suc run_checked_good)

lemma save_good:
  assumes "db_script w = []"
  shows "bar_repo_save F b w = (Ok (), w') \<longleftrightarrow> (\<exists>row t. row_of_bar F b row \<and>
    upsert_row bar_key brow_volume merge_bar (mf_volume F) row (db_table w) = Ok t \<and> w' = w\<lparr>db_table := t\<rparr>)"
proof -
  have row: "row_of_bar F b row \<longleftrightarrow> bar_to_row F save_reason b = Ok row" for row by (simp add: bar_to_row_Ok)
  show ?thesis
    by (cases "bar_to_row F save_reason b")
      (simp_all add: bar_repo_save_def io_bind_def io_lift_def row market_write_good [OF assms])
qed

lemma save_batch_good:
  assumes "db_script w = []"
  shows "bar_repo_save_batch F bars w = (Ok (), w') \<longleftrightarrow> (\<exists>rows t. list_all2 (row_of_bar F) bars rows \<and>
    upsert_rows bar_key brow_volume merge_bar (mf_volume F) rows (db_table w) = Ok t \<and> w' = w\<lparr>db_table := t\<rparr>)"
proof (cases "bars = []")
  case False
  have rows: "list_all2 (row_of_bar F) bars rows \<longleftrightarrow> map_res (bar_to_row F batch_reason) bars = Ok rows" for rows
    by (simp add: rows_of_bars)
  from False show ?thesis
    by (cases "map_res (bar_to_row F batch_reason) bars")
      (simp_all add: bar_repo_save_batch_def io_bind_def io_lift_def rows market_write_good [OF assms])
qed (auto simp: bar_repo_save_batch_def io_return_def upsert_rows_def)

lemma save_each_good:
  assumes "db_script w = []"
  shows "save_each F bars w = (Ok (), w') \<longleftrightarrow> (\<exists>rows t. list_all2 (row_of_bar F) bars rows \<and> w' = w\<lparr>db_table := t\<rparr> \<and>
    fold_res (upsert_row bar_key brow_volume merge_bar (mf_volume F)) rows (db_table w) = Ok t)"
  using assms
proof (induction bars arbitrary: w)
  case (Cons b bars)
  let ?u = "upsert_row bar_key brow_volume merge_bar (mf_volume F)"
  have IH: "save_each F bars (w\<lparr>db_table := t\<rparr>) = (Ok (), w') \<longleftrightarrow> (\<exists>rows t'. list_all2 (row_of_bar F) bars rows \<and>
      w' = w\<lparr>db_table := t'\<rparr> \<and> fold_res ?u rows t = Ok t')" for t
    using Cons.IH [of "w\<lparr>db_table := t\<rparr>"] Cons.prems by simp
  have "save_each F (b # bars) w = (Ok (), w') \<longleftrightarrow>
      (\<exists>w1. bar_repo_save F b w = (Ok (), w1) \<and> save_each F bars w1 = (Ok (), w'))"
    by (auto simp: io_bind_def split: prod.splits res.splits)
  also have "\<dots> \<longleftrightarrow> (\<exists>row t. row_of_bar F b row \<and> ?u row (db_table w) = Ok t \<and>
      save_each F bars (w\<lparr>db_table := t\<rparr>) = (Ok (), w'))"
    unfolding save_good [OF Cons.prems] by blast
  finally have step: "save_each F (b # bars) w = (Ok (), w') \<longleftrightarrow> (\<exists>row t. row_of_bar F b row \<and>
      ?u row (db_table w) = Ok t \<and> save_each F bars (w\<lparr>db_table := t\<rparr>) = (Ok (), w'))" .
  show ?case
  proof
    assume "save_each F (b # bars) w = (Ok (), w')"
    then obtain row t rows t' where "row_of_bar F b row" "?u row (db_table w) = Ok t" "w' = w\<lparr>db_table := t'\<rparr>"
        "list_all2 (row_of_bar F) bars rows" "fold_res ?u rows t = Ok t'" using step IH by blast
    then show "\<exists>rows t. list_all2 (row_of_bar F) (b # bars) rows \<and> w' = w\<lparr>db_table := t\<rparr> \<and>
        fold_res ?u rows (db_table w) = Ok t"
      by (intro exI [of _ "row # rows"] exI [of _ t']) simp
  next
    assume "\<exists>rows t. list_all2 (row_of_bar F) (b # bars) rows \<and> w' = w\<lparr>db_table := t\<rparr> \<and>
        fold_res ?u rows (db_table w) = Ok t"
    then obtain row rows t' where r: "row_of_bar F b row" "list_all2 (row_of_bar F) bars rows" "w' = w\<lparr>db_table := t'\<rparr>"
        "fold_res ?u (row # rows) (db_table w) = Ok t'" by (auto simp: list_all2_Cons1)
    then obtain t where "?u row (db_table w) = Ok t" "fold_res ?u rows t = Ok t'" by (auto simp: bind_eq_Ok)
    with r step IH show "save_each F (b # bars) w = (Ok (), w')" by blast
  qed
qed (auto simp: io_return_def)

text \<open>  On a connection without faults, saving a batch does what saving its bars one after another does,
  provided that no two of them have the same time and symbol.  A batch in which two have is refused.
\<close>

theorem batch_is_each:
  assumes "db_script w = []"
  shows "bar_repo_save_batch F bars w = (Ok (), w') \<longleftrightarrow>
    distinct (map bar_slot bars) \<and> save_each F bars w = (Ok (), w')"
proof -
  have keys: "map bar_key rows = map bar_slot bars" if "list_all2 (row_of_bar F) bars rows" for rows
    using that by (induction rule: list_all2_induct) (simp_all add: row_of_bar_columns bar_slot_def)
  show ?thesis
    using keys by (auto simp: save_batch_good [OF assms] save_each_good [OF assms] bars_table.upsert_rows_Ok)
qed

text \<open>
  A bar whose prices their columns hold exactly.  The prices are decimals and the columns binary
  floating point numbers, so this is the case for 10.25 and not for 10.10, which is read back as the
  decimal expansion of the nearest binary fraction.
\<close>

definition column_keeps_price :: "market_formats \<Rightarrow> price \<Rightarrow> bool" where
  "column_keeps_price F p = (0 < price_inner p \<and> Option.bind (mf_to_f64 F (price_inner p)) (mf_retain F) = Some (price_inner p))"

definition bar_storable :: "market_formats \<Rightarrow> bar \<Rightarrow> bool" where
  "bar_storable F b =
     (symbol_new (symbol_str (bar_symbol b)) = Ok (bar_symbol b) \<and> bar_wf b \<and>
      column_keeps_price F (bar_open b) \<and> column_keeps_price F (bar_high b) \<and>
      column_keeps_price F (bar_low b) \<and> column_keeps_price F (bar_close b))"

lemma price_column_read:
  "column_keeps_price F p \<Longrightarrow> mf_to_f64 F (price_inner p) = Some y \<Longrightarrow> price_of_column D F reason y = Ok p"
  by (cases p) (simp add: column_keeps_price_def price_of_column_def price_new_def)

lemma row_of_bar_read:
  assumes "bar_storable F b" and "mf_volume F = Bigint_Column" and "row_of_bar F b row"
  shows "row_to_bar D F row = Ok (b\<lparr>bar_timeframe := M1\<rparr>)"
proof -
  from assms(3) obtain o' h l c where
    cols: "mf_to_f64 F (price_inner (bar_open b)) = Some o'" "mf_to_f64 F (price_inner (bar_high b)) = Some h"
      "mf_to_f64 F (price_inner (bar_low b)) = Some l" "mf_to_f64 F (price_inner (bar_close b)) = Some c"
    and row: "row = \<lparr>brow_time = bar_timestamp b, brow_symbol = symbol_str (bar_symbol b), brow_open = o',
         brow_high = h, brow_low = l, brow_close = c,
         brow_volume = sint (volume_i64 (bar_volume b)), brow_provider = bar_provider b\<rparr>"
    by (auto simp: row_of_bar_def bar_to_row_def bind_eq_Ok to_f64_Ok)
  have wf: "bar_wf b" using assms(1) by (simp add: bar_storable_def)
  have "bar_new D (bar_timestamp b) (bar_symbol b) (bar_open b) (bar_high b) (bar_low b) (bar_close b)
      (bar_volume b) M1 (bar_provider b) = Ok (b\<lparr>bar_timeframe := M1\<rparr>)"
    using wf bar_wf_low_high [OF wf] by (auto simp: bar_new_def bar_wf_def)
  then show ?thesis
    using assms(1,2) price_column_read [OF _ cols(1)] price_column_read [OF _ cols(2)] price_column_read [OF _ cols(3)]
      price_column_read [OF _ cols(4)]
    by (simp add: row row_to_bar_def stored_symbol_def bar_storable_def volume_of_column_def)
qed

lemma bigint_holds_i64: "column_holds Bigint_Column (sint (v :: i64))"
  using sint_range_size [of v] by (simp add: word_size)


lemma integer_column_unreadable: "mf_volume F = Integer_Column \<Longrightarrow> row_to_bar D F row \<noteq> Ok b"
  by (simp add: row_to_bar_def volume_of_column_def bind_eq_Ok)

lemma map_res_all_fail: "map_res f xs = Ok ys \<Longrightarrow> (\<And>x y. f x \<noteq> Ok y) \<Longrightarrow> xs = [] \<and> ys = []"
  by (cases xs) (auto simp: bind_eq_Ok)

lemma bar_repo_get_latest_Ok:
  assumes "bar_repo_get_latest D F s n w = (Ok found, w')"
  shows "0 \<le> sint n \<and> map_res (row_to_bar D F) (rev (take (nat (sint n)) (sort_key (\<lambda>row. - brow_time row)
    (filter (\<lambda>row. brow_symbol row = symbol_str s) (db_table w))))) = Ok found"
proof -
  let ?q = "select_latest (symbol_str s) (sint n)"
  have step: "(\<exists>x. r = Ok x \<and> ?q (db_table w) = Ok x) \<or> (\<exists>e. r = Err e \<and> db_table w' = db_table w)"
    if "io_bind (run_query ?q) io_lift w = (r, w')" for w r and w' :: "bar_row db"
  proof -
    obtain r1 w1 where q: "run_query ?q w = (r1, w1)" by force
    from run_stmt_cases [OF q [unfolded run_query_def]] that q show ?thesis
      by (auto simp: io_bind_def io_lift_def select_latest_def split: if_splits)
  qed
  obtain rows w1 where run: "market_with_retry F (io_bind (run_query ?q) io_lift) w = (rows, w1)" by force
  from retry_when_cases [OF step run [unfolded market_with_retry_def]] assms run show ?thesis
    by (auto simp: bar_repo_get_latest_def io_bind_def io_lift_def select_latest_def split: if_splits)
qed

text \<open>  The schema that is shipped gives the volume of a bar the type \<open>INTEGER\<close>, the program reads
  \<open>i64\<close>: over that schema no query ever returns a bar, whatever the table holds.
\<close>

theorem shipped_schema_unreadable:
  assumes "mf_volume F = Integer_Column"
    and "bar_repo_get_range D F s start finish w = (Ok found, w') \<or> bar_repo_get_latest D F s n w = (Ok found, w')"
  shows "found = []"
  using assms(2)
proof
  assume "bar_repo_get_range D F s start finish w = (Ok found, w')"
  from bar_repo_get_range_cases [OF this]
  have "map_res (row_to_bar D F) (select_range bar_key (symbol_str s) start finish (db_table w)) = Ok found" by auto
  from map_res_all_fail [OF this] integer_column_unreadable [OF assms(1)] show ?thesis by blast
next
  assume "bar_repo_get_latest D F s n w = (Ok found, w')"
  from bar_repo_get_latest_Ok [OF this] show ?thesis
    using map_res_all_fail integer_column_unreadable [OF assms(1)] by blast
qed

lemma row_to_bar_time: "row_to_bar D F row = Ok b \<Longrightarrow> bar_timestamp b = brow_time row"
  by (auto simp: row_to_bar_def bind_eq_Ok bar_new_def split: if_splits)

text \<open>  The latest bars are at most as many as asked for and come from the oldest to the newest; a count that
  is negative as an \<open>i64\<close> is an error.
\<close>

theorem latest_bars_bounded:
  assumes "bar_repo_get_latest D F s n w = (Ok found, w')"
  shows "length found \<le> unat n \<and> unat n < 2 ^ 63 \<and> sorted (map bar_timestamp found)"
proof -
  let ?rows = "take (nat (sint n)) (sort_key (\<lambda>row. - brow_time row)
    (filter (\<lambda>row. brow_symbol row = symbol_str s) (db_table w)))"
  from bar_repo_get_latest_Ok [OF assms] have n: "0 \<le> sint n" and rows: "map_res (row_to_bar D F) (rev ?rows) = Ok found"
    by auto
  from rows have l: "list_all2 (\<lambda>row b. row_to_bar D F row = Ok b) (rev ?rows) found"
    by (simp add: map_res_Ok_iff list_all2_map2)
  then have "map bar_timestamp found = map brow_time (rev ?rows)"
    by (induction rule: list_all2_induct) (simp_all add: row_to_bar_time)
  moreover have "sorted (map (\<lambda>row. - brow_time row) ?rows)"
    by (simp add: sorted_wrt_take flip: take_map)
  then have "sorted (map brow_time (rev ?rows))"
    by (simp add: sorted_wrt_map sorted_wrt_rev)
  moreover have "length found \<le> nat (sint n)" using list_all2_lengthD [OF l] by simp
  moreover have "nat (sint n) = unat n \<and> unat n < 2 ^ 63" 
  proof -
    have r: "sint n < 2 ^ 63" using sint_range_size [of n] by (simp add: word_size)
    then have "uint n = sint n" using n by (simp add: uint_sint take_bit_eq_mod)
    with r show ?thesis by (simp add: unat_eq_nat_uint nat_less_iff)
  qed
  ultimately show ?thesis by simp
qed

text \<open>  The side of a trade is not stored: every tick that is read back is a quote.
\<close>

theorem trades_come_back_as_quotes:
  assumes "tick_repo_get_range D F s start finish w = (Ok found, w')"
  shows "list_all (\<lambda>t. tick_is_quote t \<and> \<not> tick_is_trade t) found"
proof -
  obtain rows w1 where "market_with_retry F (run_query (select_range tick_key (symbol_str s) start finish)) w = (rows, w1)"
    by force
  with assms obtain rs where "map_res (row_to_tick D F) rs = Ok found"
    by (auto simp: tick_repo_get_range_def io_bind_def io_lift_def split: res.splits)
  then have "list_all2 (\<lambda>row t. row_to_tick D F row = Ok t) rs found" by (simp add: map_res_Ok_iff list_all2_map2)
  then show ?thesis
    by (induction rule: list_all2_induct)
      (auto simp: row_to_tick_def bind_eq_Ok tick_new_def tick_is_quote_def tick_is_trade_def)
qed

text \<open>
  Ticks accumulate in the same way: an accepted tick adds its size to the row of its time and symbol, a
  refused one leaves the table alone.
\<close>

theorem stored_ticks_accumulate:
  assumes "tick_repo_save F t w = (r, w')"
  shows "(is_ok r \<longrightarrow> volume_at tick_key trow_volume k (db_table w') = volume_at tick_key trow_volume k (db_table w) +
      (if (tick_timestamp t, symbol_str (tick_symbol t)) = k then sint (volume_i64 (tick_size t)) else 0)) \<and>
    (\<not> is_ok r \<longrightarrow> db_table w' = db_table w)"
proof (cases "tick_to_row F ''Failed to convert price to f64'' t")
  case (Ok row)
  then have row: "tick_key row = (tick_timestamp t, symbol_str (tick_symbol t))" "trow_volume row = sint (volume_i64 (tick_size t))"
    by (auto simp: tick_to_row_def bind_eq_Ok tick_key_def)
  from Ok assms have
    "market_with_retry F (run_checked (upsert_row tick_key trow_volume merge_tick (mf_volume F) row)) w = (r, w')"
    by (simp add: tick_repo_save_def io_bind_def io_lift_def)
  from market_write [OF this] row show ?thesis by (auto dest: ticks_table.upsert_volume [where k = k])
next
  case Panic
  then show ?thesis by (simp add: tick_to_row_def res_simps)
qed (use assms in \<open>auto simp: tick_repo_save_def io_bind_def io_lift_def\<close>)

section \<open>Witnesses\<close>

definition sample_market :: "volume_column \<Rightarrow> market_formats" where
  "sample_market c =
     \<lparr>mf_to_f64 = (\<lambda>x. Some (Finite x)), mf_retain = (\<lambda>y. case y of Finite x \<Rightarrow> Some x | _ \<Rightarrow> None),
      mf_sqlx = (\<lambda>_. ''''), mf_volume = c\<rparr>"

definition sample_market_db :: "'r list \<Rightarrow> 'r db" where
  "sample_market_db t = \<lparr>db_table = t, db_script = [], db_slept = [], db_clock = int, db_reads = 0\<rparr>"

definition hour_bar :: bar where
  "hour_bar = sample_bar\<lparr>bar_volume := Volume 7, bar_timeframe := H1\<rparr>"

definition next_bar :: bar where
  "next_bar = sample_bar\<lparr>bar_timestamp := 60\<rparr>"

definition sample_row :: "timestamp \<Rightarrow> int \<Rightarrow> bar_row" where
  "sample_row t v =
     \<lparr>brow_time = t, brow_symbol = ''NQ'', brow_open = Finite 10, brow_high = Finite 14, brow_low = Finite 9,
      brow_close = Finite 13, brow_volume = v, brow_provider = ''ib''\<rparr>"

lemma sample_rows:
  "bar_to_row (sample_market c) reason sample_bar = Ok (sample_row 0 5)"
  "bar_to_row (sample_market c) reason hour_bar = Ok (sample_row 0 7)"
  "bar_to_row (sample_market c) reason next_bar = Ok (sample_row 60 5)"
  by (simp_all add: bar_to_row_def to_f64_def sample_market_def sample_bar_def hour_bar_def next_bar_def sample_row_def)

lemma sample_retry [simp]:
  "f w = (Ok x, w') \<Longrightarrow> market_with_retry F f w = (Ok x, w')"
  by (simp add: market_with_retry_def MAX_RETRIES_def numeral_eq_Suc)

lemma sample_checked:
  "stmt t = Ok t' \<Longrightarrow> run_checked stmt (sample_market_db t) = (Ok (), sample_market_db t')"
  by (simp add: run_checked_good sample_market_db_def)

lemma sample_upserts:
  "upsert_row bar_key brow_volume merge_bar Bigint_Column (sample_row 0 5) [] = Ok [sample_row 0 5]"
  "upsert_row bar_key brow_volume merge_bar Bigint_Column (sample_row 0 7) [sample_row 0 5] = Ok [sample_row 0 12]"
  "upsert_row bar_key brow_volume merge_bar Bigint_Column (sample_row 60 5) [sample_row 0 5] =
     Ok [sample_row 0 5, sample_row 60 5]"
  by (simp_all add: upsert_row_def row_at_def bar_key_def merge_bar_def sample_row_def)

lemma sample_saves:
  "bar_repo_save (sample_market Bigint_Column) sample_bar (sample_market_db []) = (Ok (), sample_market_db [sample_row 0 5])"
  "bar_repo_save (sample_market Bigint_Column) hour_bar (sample_market_db [sample_row 0 5]) =
     (Ok (), sample_market_db [sample_row 0 12])"
  "bar_repo_save (sample_market Bigint_Column) next_bar (sample_market_db [sample_row 0 5]) =
     (Ok (), sample_market_db [sample_row 0 5, sample_row 60 5])"
proof -
  have c: "mf_volume (sample_market Bigint_Column) = Bigint_Column" by (simp add: sample_market_def)
  note s = bar_repo_save_def io_bind_def io_lift_def sample_rows c
  show "bar_repo_save (sample_market Bigint_Column) sample_bar (sample_market_db []) = (Ok (), sample_market_db [sample_row 0 5])"
    by (simp add: s sample_checked [where stmt = "upsert_row bar_key brow_volume merge_bar Bigint_Column (sample_row 0 5)", OF sample_upserts(1)])
  show "bar_repo_save (sample_market Bigint_Column) hour_bar (sample_market_db [sample_row 0 5]) =
      (Ok (), sample_market_db [sample_row 0 12])"
    by (simp add: s sample_checked [where stmt = "upsert_row bar_key brow_volume merge_bar Bigint_Column (sample_row 0 7)", OF sample_upserts(2)])
  show "bar_repo_save (sample_market Bigint_Column) next_bar (sample_market_db [sample_row 0 5]) =
      (Ok (), sample_market_db [sample_row 0 5, sample_row 60 5])"
    by (simp add: s sample_checked [where stmt = "upsert_row bar_key brow_volume merge_bar Bigint_Column (sample_row 60 5)", OF sample_upserts(3)])
qed


theorem batch_is_each_witness:
  "bar_repo_save_batch (sample_market Bigint_Column) [sample_bar, next_bar] (sample_market_db []) =
     (Ok (), sample_market_db [sample_row 0 5, sample_row 60 5])"
proof -
  have "db_script (sample_market_db []) = []" by (simp add: sample_market_db_def)
  moreover have "distinct (map bar_slot [sample_bar, next_bar])"
    by (simp add: bar_slot_def sample_bar_def next_bar_def)
  moreover have "save_each (sample_market Bigint_Column) [sample_bar, next_bar] (sample_market_db []) =
      (Ok (), sample_market_db [sample_row 0 5, sample_row 60 5])"
    by (simp add: io_bind_def io_return_def sample_saves)
  ultimately show ?thesis using batch_is_each [of "sample_market_db []"] by blast
qed

lemma sample_bars_storable: "list_all (bar_storable (sample_market c)) [sample_bar, hour_bar, next_bar]"
proof -
  have "symbol_new ''NQ'' = Ok (Symbol ''NQ'')" by code_simp
  then show ?thesis
    by (simp add: bar_storable_def column_keeps_price_def sample_market_def sample_bar_def hour_bar_def next_bar_def bar_wf_def)
qed


theorem shipped_schema_unreadable_witness:
  "\<exists>w'. bar_repo_get_range exact_dec (sample_market Integer_Column) (Symbol ''NQ'') 1 9
     (sample_market_db [sample_row 0 7]) = (Ok [], w')"
proof -
  have c: "mf_volume (sample_market Integer_Column) = Integer_Column" by (simp add: sample_market_def)
  obtain found w' where g: "bar_repo_get_range exact_dec (sample_market Integer_Column) (Symbol ''NQ'') 1 9
      (sample_market_db [sample_row 0 7]) = (Ok found, w')"
    by (simp add: bar_repo_get_range_def io_bind_def io_lift_def run_query_def run_stmt_script sample_market_db_def
        select_range_def bar_key_def sample_row_def)
  from shipped_schema_unreadable [OF c disjI1 [OF g]] g show ?thesis by blast
qed

theorem latest_bars_bounded_witness:
  "\<exists>found w'. bar_repo_get_latest exact_dec (sample_market Bigint_Column) (Symbol ''NQ'') 1
     (sample_market_db [sample_row 0 5, sample_row 60 5]) = (Ok found, w') \<and> length found \<le> 1"
proof -
  let ?F = "sample_market Bigint_Column"
  have "row_to_bar exact_dec ?F (sample_row 60 5) = Ok (next_bar\<lparr>bar_timeframe := M1\<rparr>)"
    using row_of_bar_read [of ?F next_bar "sample_row 60 5" exact_dec] sample_bars_storable sample_rows(3)
    by (simp add: row_of_bar_def) (simp add: sample_market_def)
  then obtain found w' where g: "bar_repo_get_latest exact_dec ?F (Symbol ''NQ'') 1
      (sample_market_db [sample_row 0 5, sample_row 60 5]) = (Ok found, w')"
    by (simp add: bar_repo_get_latest_def io_bind_def io_lift_def run_query_def run_stmt_script sample_market_db_def
        select_latest_def sample_row_def)
  from latest_bars_bounded [OF g] g show ?thesis by auto
qed

theorem trades_come_back_as_quotes_witness:
  "\<exists>t w'. tick_repo_get_range exact_dec (sample_market Bigint_Column) (Symbol ''NQ'') 0 9
     (sample_market_db [\<lparr>trow_time = 3, trow_symbol = ''NQ'', trow_price = Finite 10, trow_volume = 1, trow_provider = ''ib''\<rparr>]) =
     (Ok [t], w') \<and> tick_is_quote t"
proof -
  have s: "symbol_new ''NQ'' = Ok (Symbol ''NQ'')" by code_simp
  obtain t w' where g: "tick_repo_get_range exact_dec (sample_market Bigint_Column) (Symbol ''NQ'') 0 9
     (sample_market_db [\<lparr>trow_time = 3, trow_symbol = ''NQ'', trow_price = Finite 10, trow_volume = 1, trow_provider = ''ib''\<rparr>]) =
     (Ok [t], w')"
    by (simp add: tick_repo_get_range_def io_bind_def io_lift_def run_query_def run_stmt_script sample_market_db_def
        select_range_def tick_key_def row_to_tick_def stored_symbol_def s price_of_column_def price_new_def sample_market_def
        volume_of_column_def tick_new_def)
  from trades_come_back_as_quotes [OF g] g show ?thesis by auto
qed

end
