(* ===== verification/Command_Line.thy ===== *)
theory Command_Line
  imports Trading_Service Use_Cases
begin

text \<open>
  The trading commands of \<open>crates/cli/src/commands/trading.rs\<close>, the argument types of
  \<open>crates/cli/src/main.rs\<close> and the mock adapters of \<open>crates/infrastructure/src/external/mod.rs\<close>.  An
  error of the command line is its text.  The layout of the printed tables is left out; what they
  show is the value of the command.
\<close>

section \<open>Arguments\<close>

datatype order_status_filter = Filter_Open | Filter_Filled | Filter_Cancelled | Filter_Rejected | Filter_All

fun filter_matches :: "order_status_filter \<Rightarrow> order_status \<Rightarrow> bool" where
  "filter_matches Filter_Open s = status_is_active s"
| "filter_matches Filter_Filled s = (case s of Filled _ \<Rightarrow> True | _ \<Rightarrow> False)"
| "filter_matches Filter_Cancelled s = (case s of Cancelled _ _ \<Rightarrow> True | _ \<Rightarrow> False)"
| "filter_matches Filter_Rejected s = (case s of Rejected _ _ \<Rightarrow> True | _ \<Rightarrow> False)"
| "filter_matches Filter_All s = True"

text \<open>\<open>low\<close> and \<open>up\<close> are \<open>str::to_lowercase\<close> and \<open>str::to_uppercase\<close>.\<close>

definition parse_order_status_filter :: "(string \<Rightarrow> string) \<Rightarrow> string \<Rightarrow> (order_status_filter, string) res" where
  "parse_order_status_filter low s =
     (let l = low s in
      if l = ''open'' then Ok Filter_Open else if l = ''filled'' then Ok Filter_Filled
      else if l \<in> {''cancelled'', ''canceled''} then Ok Filter_Cancelled
      else if l = ''rejected'' then Ok Filter_Rejected else if l = ''all'' then Ok Filter_All
      else Err (''Invalid status filter: '' @ s @ ''. Use: open, filled, cancelled, rejected, all''))"

definition order_status_filter_from_str :: "(string \<Rightarrow> string) \<Rightarrow> string \<Rightarrow> (order_status_filter, string) res" where
  "order_status_filter_from_str low s = parse_order_status_filter low s"

definition parse_side :: "(string \<Rightarrow> string) \<Rightarrow> string \<Rightarrow> (side, string) res" where
  "parse_side up s = map_err value_error_display (side_parse up s)"

definition parse_quantity :: "dec_ops \<Rightarrow> string \<Rightarrow> (quantity, string) res" where
  "parse_quantity D s =
     bind (map_err (\<lambda>e. ''Invalid quantity '' @ quoted s @ '': '' @ e) (d_parse D s)) (\<lambda>decimal.
     map_err value_error_display (quantity_new D decimal))"

definition parse_price :: "dec_ops \<Rightarrow> string \<Rightarrow> (price, string) res" where
  "parse_price D s = map_err value_error_display (price_from_str D s)"

definition parse_order_type :: "(string \<Rightarrow> string) \<Rightarrow> string \<Rightarrow> (order_type, string) res" where
  "parse_order_type up s = map_err value_error_display (order_type_parse up s)"

definition parse_time_in_force :: "(string \<Rightarrow> string) \<Rightarrow> string \<Rightarrow> (time_in_force, string) res" where
  "parse_time_in_force up s = map_err value_error_display (time_in_force_parse up s)"

record place_order_args =
  poa_symbol :: string
  poa_side :: side
  poa_quantity :: quantity
  poa_order_type :: order_type
  poa_price :: "price option"
  poa_stop_price :: "price option"
  poa_tif :: time_in_force
  poa_account_id :: "string option"

record cancel_order_args =
  coa_id :: string

record get_positions_args =
  gpa_symbol :: "string option"

record get_orders_args =
  goa_status :: "order_status_filter option"
  goa_symbol :: "string option"

datatype trading_subcommand =
    Cmd_PlaceOrder place_order_args
  | Cmd_CancelOrder cancel_order_args
  | Cmd_GetPositions get_positions_args
  | Cmd_GetOrders get_orders_args

text \<open>The arguments of \<open>main.rs\<close>.\<close>

datatype order_side_arg = Arg_Buy | Arg_Sell

datatype order_type_arg = Arg_Market | Arg_Limit | Arg_Stop

datatype config_output_format = Format_Text | Format_Json

definition order_side_arg_from_str :: "(string \<Rightarrow> string) \<Rightarrow> string \<Rightarrow> (order_side_arg, string) res" where
  "order_side_arg_from_str low s =
     (if low s = ''buy'' then Ok Arg_Buy else if low s = ''sell'' then Ok Arg_Sell
      else Err (''Invalid side: '' @ s))"

definition order_type_arg_from_str :: "(string \<Rightarrow> string) \<Rightarrow> string \<Rightarrow> (order_type_arg, string) res" where
  "order_type_arg_from_str low s =
     (if low s = ''market'' then Ok Arg_Market else if low s = ''limit'' then Ok Arg_Limit
      else if low s = ''stop'' then Ok Arg_Stop else Err (''Invalid order type: '' @ s))"

definition config_output_format_from_str :: "(string \<Rightarrow> string) \<Rightarrow> string \<Rightarrow> (config_output_format, string) res" where
  "config_output_format_from_str low s =
     (if low s = ''text'' then Ok Format_Text else if low s = ''json'' then Ok Format_Json
      else Err (''Invalid format: '' @ s @ ''. Use '' @ quoted ''text'' @ '' or '' @ quoted ''json''))"

fun side_arg_to_dto :: "order_side_arg \<Rightarrow> order_side_dto" where
  "side_arg_to_dto Arg_Buy = Dto_Buy"
| "side_arg_to_dto Arg_Sell = Dto_Sell"

fun type_arg_to_dto :: "order_type_arg \<Rightarrow> order_type_dto" where
  "type_arg_to_dto Arg_Market = Dto_Market"
| "type_arg_to_dto Arg_Limit = Dto_Limit"
| "type_arg_to_dto Arg_Stop = Dto_Stop"

section \<open>Mock adapters\<close>

definition mock_order_execution_adapter :: "'o order_execution_port" where
  "mock_order_execution_adapter =
     \<lparr>xp_submit_order = (\<lambda>_. io_return ()), xp_cancel_order = (\<lambda>_. io_return ()),
      xp_is_market_open = (\<lambda>_. io_return True)\<rparr>"

definition mock_market_data_adapter :: "'o market_data_port" where
  "mock_market_data_adapter =
     \<lparr>dp_get_current_price = (\<lambda>_. io_return 100), dp_is_market_open = (\<lambda>_. io_return True),
      dp_get_historical_prices = (\<lambda>_ _ _. io_return [])\<rparr>"

definition console_notification_adapter :: "'o notification_port" where
  "console_notification_adapter = \<lparr>np_notify = (\<lambda>_ _. io_return ())\<rparr>"

section \<open>Commands\<close>

text \<open>
  What a command prints when it succeeds, and the hints that go with an error of the service.  The
  side of a position is printed from the sign of its quantity.
\<close>

datatype cli_output =
    Printed_Placed order_id
  | Printed_Cancelled order_id
  | Printed_Positions "(string \<times> decimal \<times> decimal \<times> decimal \<times> string) list"
  | Printed_Orders "(uuid \<times> string \<times> side \<times> decimal \<times> string \<times> timestamp) list"

fun trading_error_hints :: "trading_error \<Rightarrow> string list" where
  "trading_error_hints (Tr_Validation message) =
     [''   The order parameters are invalid. Please check:'', ''   - Symbol is valid (e.g., NQ, ES, AAPL)'',
      ''   - Quantity is positive'', ''   - Price is provided for Limit/StopLimit orders'',
      ''   - Stop price is provided for Stop/StopLimit orders'', ''   Details: '' @ message]"
| "trading_error_hints (Tr_RiskRejected reason) =
     [''   The order was rejected by risk management.'', ''   Reason: '' @ reason]"
| "trading_error_hints (Tr_Execution message) =
     [''   The order could not be executed.'', ''   Details: '' @ message]"
| "trading_error_hints (Tr_OrderNotFound order_id) =
     [''   The specified order was not found.'', ''   Order ID: '' @ order_id]"
| "trading_error_hints (Tr_InvalidState message) =
     [''   The order is in an invalid state for this operation.'', ''   Details: '' @ message]"
| "trading_error_hints (Tr_CancellationFailed message) =
     [''   The order could not be cancelled.'', ''   Details: '' @ message]"
| "trading_error_hints (Tr_Repository message) =
     [''   A database error occurred.'', ''   Details: '' @ message]"

definition position_line :: "position \<Rightarrow> string \<times> decimal \<times> decimal \<times> decimal \<times> string" where
  "position_line p =
     (symbol_str (pos_symbol p), \<bar>qty_inner (pos_quantity p)\<bar>, price_inner (pos_avg_entry_price p),
      m_amount (pos_unrealized_pnl p), if 0 < qty_inner (pos_quantity p) then ''Long'' else ''Short'')"

definition order_line :: "order \<Rightarrow> uuid \<times> string \<times> side \<times> decimal \<times> string \<times> timestamp" where
  "order_line ord =
     (ord_id ord, symbol_str (ord_symbol ord), ord_side ord, qty_inner (ord_quantity ord),
      variant_name (ord_status ord), ord_created_at ord)"

text \<open>
  The gateway and the bus the command creates, with the state they start from; \<open>fresh\<close> gives new
  identities, \<open>clk\<close> the clock readings, \<open>today\<close> the day of the risk engine.
\<close>

record ('g, 'b) cli_env =
  ce_gateway :: "'g execution_gateway"
  ce_bus :: "'b event_bus_port"
  ce_gateway_start :: 'g
  ce_bus_start :: 'b
  ce_today :: int
  ce_fresh :: "nat \<Rightarrow> uuid"
  ce_clk :: "nat \<Rightarrow> timestamp"
  ce_texts :: texts

text \<open>Every command makes its service anew, with empty repositories.\<close>

definition init_trading_service :: "('g, 'b) cli_env \<Rightarrow> ('g, 'b) cli_world trading_state" where
  "init_trading_service E =
     \<lparr>ts_world = \<lparr>cw_orders = hash_empty, cw_positions = hash_empty, cw_gateway = ce_gateway_start E,
                  cw_bus = ce_bus_start E\<rparr>,
      ts_risk = risk_engine_new (ce_today E) risk_config_default\<rparr>"

type_synonym ('g, 'b) command_result = "(cli_output, string) res \<times> ('g, 'b) cli_world trading_state"

definition with_context :: "string \<Rightarrow> ('a, 'e) res \<Rightarrow> ('a, string) res" where
  "with_context text r = map_err (\<lambda>_. text) r"

definition validate_place_order_args :: "place_order_args \<Rightarrow> (unit, string) res" where
  "validate_place_order_args args =
     (if requires_limit_price (poa_order_type args) \<and> poa_price args = None
      then Err ''Limit orders require a --price argument''
      else if requires_stop_price (poa_order_type args) \<and> poa_stop_price args = None
      then Err ''Stop orders require a --stop-price argument''
      else Ok ())"

text \<open>The order the command places; the time in force of the arguments is not used.\<close>

definition order_of_args :: "('g, 'b) cli_env \<Rightarrow> place_order_args \<Rightarrow> (order, string) res" where
  "order_of_args E args =
     bind (validate_place_order_args args) (\<lambda>_.
     bind (with_context (''Invalid symbol: '' @ poa_symbol args) (symbol_new (poa_symbol args))) (\<lambda>symbol.
     bind (case poa_account_id args of
             Some id_str \<Rightarrow> with_context (''Invalid account ID: '' @ id_str) (u_parse (tx_uuid (ce_texts E)) id_str)
           | None \<Rightarrow> Ok (ce_fresh E 0)) (\<lambda>account_id.
     with_context ''Failed to create order: validation error''
       (order_new (ce_fresh E 1) (ce_clk E 0) account_id symbol (poa_side args) (poa_order_type args)
          (poa_quantity args) (poa_price args) (poa_stop_price args)))))"

definition execute_place_order :: "dec_ops \<Rightarrow> ('g, 'b) cli_env \<Rightarrow> place_order_args \<Rightarrow> ('g, 'b) command_result" where
  "execute_place_order D E args =
     (let service = init_trading_service E; P = cli_ports (ce_gateway E) (ce_bus E) in
      case order_of_args E args of
        Ok ord \<Rightarrow>
          (case place_order D (ce_texts E) P (\<lambda>n. ce_clk E (n + 1)) ord service of
             (Ok order_id, st) \<Rightarrow> (Ok (Printed_Placed order_id), st)
           | (Err e, st) \<Rightarrow> (Err (''Order placement failed: '' @ trading_error_display e), st)
           | (Panic, st) \<Rightarrow> (Panic, st))
      | Err e \<Rightarrow> (Err e, service)
      | Panic \<Rightarrow> (Panic, service))"

definition execute_cancel_order :: "('g, 'b) cli_env \<Rightarrow> cancel_order_args \<Rightarrow> ('g, 'b) command_result" where
  "execute_cancel_order E args =
     (let service = init_trading_service E; P = cli_ports (ce_gateway E) (ce_bus E) in
      case with_context (''Invalid order ID: '' @ coa_id args) (order_id_from_str (tx_uuid (ce_texts E)) (coa_id args)) of
        Ok order_id \<Rightarrow>
          (case cancel_order (ce_texts E) P (ce_clk E) order_id service of
             (Ok _, st) \<Rightarrow> (Ok (Printed_Cancelled order_id), st)
           | (Err e, st) \<Rightarrow> (Err (''Order cancellation failed: '' @ trading_error_display e), st)
           | (Panic, st) \<Rightarrow> (Panic, st))
      | Err e \<Rightarrow> (Err e, service)
      | Panic \<Rightarrow> (Panic, service))"

text \<open>The filter of both listings.\<close>

definition by_symbol_arg :: "('x \<Rightarrow> symbol) \<Rightarrow> string option \<Rightarrow> 'x list \<Rightarrow> ('x list, string) res" where
  "by_symbol_arg symbol_of arg xs =
     (case arg of
        Some text \<Rightarrow>
          bind (with_context (''Invalid symbol: '' @ text) (symbol_new text)) (\<lambda>filter_symbol.
          Ok (filter (\<lambda>x. symbol_of x = filter_symbol) xs))
      | None \<Rightarrow> Ok xs)"

definition execute_get_positions :: "('g, 'b) cli_env \<Rightarrow> get_positions_args \<Rightarrow> ('g, 'b) command_result" where
  "execute_get_positions E args =
     (let service = init_trading_service E; P = cli_ports (ce_gateway E) (ce_bus E) in
      case get_positions (ce_texts E) P service of
        (r, st) \<Rightarrow>
          (bind (with_context ''Failed to retrieve positions'' r) (\<lambda>positions.
           bind (by_symbol_arg pos_symbol (gpa_symbol args) positions) (\<lambda>filtered.
           Ok (Printed_Positions (map position_line filtered)))), st))"

text \<open>Filters other than \<open>open\<close> are applied to the open orders.\<close>

definition execute_get_orders :: "('g, 'b) cli_env \<Rightarrow> get_orders_args \<Rightarrow> ('g, 'b) command_result" where
  "execute_get_orders E args =
     (let service = init_trading_service E; P = cli_ports (ce_gateway E) (ce_bus E) in
      case get_open_orders P service of
        (r, st) \<Rightarrow>
          (bind (with_context
                   (if goa_status args = Some Filter_Open then ''Failed to retrieve open orders''
                    else ''Failed to retrieve orders'') r) (\<lambda>open_orders.
           let orders = (case goa_status args of
                           None \<Rightarrow> open_orders
                         | Some Filter_Open \<Rightarrow> open_orders
                         | Some f \<Rightarrow> filter (\<lambda>ord. filter_matches f (ord_status ord)) open_orders) in
           bind (by_symbol_arg ord_symbol (goa_symbol args) orders) (\<lambda>filtered.
           Ok (Printed_Orders (map order_line filtered)))), st))"

definition trading_command_execute ::
    "dec_ops \<Rightarrow> ('g, 'b) cli_env \<Rightarrow> trading_subcommand \<Rightarrow> ('g, 'b) command_result" where
  "trading_command_execute D E command =
     (case command of
        Cmd_PlaceOrder args \<Rightarrow> execute_place_order D E args
      | Cmd_CancelOrder args \<Rightarrow> execute_cancel_order E args
      | Cmd_GetPositions args \<Rightarrow> execute_get_positions E args
      | Cmd_GetOrders args \<Rightarrow> execute_get_orders E args)"

section \<open>Lemmas\<close>

lemma order_of_args_pending:
  assumes "order_of_args E args = Ok ord"
  shows "ord_status ord = Pending (ce_clk E 0)" and "symbol_str (ord_symbol ord) \<noteq> []"
    and "ord_quantity ord = poa_quantity args" and "\<not> (requires_limit_price (ord_type ord) \<and> ord_limit_price ord = None)"
    and "\<not> (requires_stop_price (ord_type ord) \<and> ord_stop_price ord = None)"
  using assms
  by (auto simp: order_of_args_def with_context_def order_new_def check_prices_def symbol_new_def ascii_upper_def
      res_simps split: if_splits)

text \<open>The service refuses an order that does not come as \<open>Created\<close>, before it does anything else.\<close>

lemma place_order_not_created:
  assumes "validate_for_submission ord = Err e"
  shows "place_order D tx P clk ord st = (Err (trading_error_from_domain (tx_time tx) e), st)"
  using assms by (simp add: place_order_def io_bind_def io_map_err_def io_lift_def)

lemma not_created_invalid:
  "ord_status ord \<noteq> Created \<Longrightarrow> \<exists>e. validate_for_submission ord = Err e"
  by (auto simp: validate_for_submission_def)

section \<open>Properties\<close>

lemma place_order_fails:
  "snd (execute_place_order D E args) = init_trading_service E \<and> \<not> is_ok (fst (execute_place_order D E args))"
proof (cases "order_of_args E args")
  case (Ok ord)
  obtain e where "validate_for_submission ord = Err e"
    using not_created_invalid order_of_args_pending(1) [OF Ok] by force
  with Ok show ?thesis by (simp add: execute_place_order_def Let_def place_order_not_created)
qed (simp_all add: execute_place_order_def Let_def)

lemma cancel_order_fails:
  "snd (execute_cancel_order E args) = init_trading_service E \<and> \<not> is_ok (fst (execute_cancel_order E args))"
proof (cases "with_context (''Invalid order ID: '' @ coa_id args) (order_id_from_str (tx_uuid (ce_texts E)) (coa_id args))")
  case (Ok i)
  then show ?thesis
    by (simp add: execute_cancel_order_def Let_def cancel_order_def io_bind_def io_map_err_def on_world_def
        cli_ports_def on_orders_def mock_order_get_def init_trading_service_def io_lift_def)
qed (simp_all add: execute_cancel_order_def Let_def)

lemma by_symbol_arg_empty: "by_symbol_arg f arg [] = Ok ys \<Longrightarrow> ys = []"
  by (auto simp: by_symbol_arg_def res_simps split: option.splits)

lemma get_positions_empty:
  "snd (execute_get_positions E args) = init_trading_service E \<and>
   (is_ok (fst (execute_get_positions E args)) \<longrightarrow> fst (execute_get_positions E args) = Ok (Printed_Positions []))"
  by (auto simp: execute_get_positions_def Let_def get_positions_def io_map_err_def on_world_def cli_ports_def
      on_positions_def mock_position_find_open_positions_def init_trading_service_def with_context_def is_ok_iff
      res_simps dest: by_symbol_arg_empty)

lemma get_orders_empty:
  "snd (execute_get_orders E args) = init_trading_service E \<and>
   (is_ok (fst (execute_get_orders E args)) \<longrightarrow> fst (execute_get_orders E args) = Ok (Printed_Orders []))"
  by (cases "goa_status args"; cases "the (goa_status args)")
    (auto simp: execute_get_orders_def Let_def get_open_orders_def io_map_err_def on_world_def cli_ports_def
      on_orders_def mock_order_get_open_def init_trading_service_def with_context_def is_ok_iff res_simps
      dest: by_symbol_arg_empty)

text \<open>C38:
  No trading command ever does anything.  Placing an order fails for every argument, since the order is
  created as one that is pending already; cancelling fails and both listings are empty, since the
  repositories are new with each command.  Gateway, bus, repositories and risk engine are left as they were.
\<close>

theorem trading_commands_are_inert:
  "snd (trading_command_execute D E command) = init_trading_service E \<and>
   (case fst (trading_command_execute D E command) of
      Ok printed \<Rightarrow> printed = Printed_Positions [] \<or> printed = Printed_Orders []
    | _ \<Rightarrow> True)"
proof (cases command)
  case (Cmd_PlaceOrder args)
  with place_order_fails [of D E args] show ?thesis by (auto simp: trading_command_execute_def split: res.splits)
next
  case (Cmd_CancelOrder args)
  with cancel_order_fails [of E args] show ?thesis by (auto simp: trading_command_execute_def split: res.splits)
next
  case (Cmd_GetPositions args)
  with get_positions_empty [of E args] show ?thesis by (auto simp: trading_command_execute_def split: res.splits)
next
  case (Cmd_GetOrders args)
  with get_orders_empty [of E args] show ?thesis by (auto simp: trading_command_execute_def split: res.splits)
qed

text \<open>
  With arguments that parse, the refusal names the state: the command line accepts them and the service
  does not.
\<close>

theorem valid_order_is_refused:
  assumes "order_of_args E args = Ok ord" and "0 < qty_inner (poa_quantity args)"
  shows "fst (execute_place_order D E args) =
    Err (''Order placement failed: Order validation failed: Cannot submit order in state: Pending'')"
proof -
  note o = order_of_args_pending [OF assms(1)]
  have "validate_for_submission ord = Err (Dom_OrderValidation ''Cannot submit order in state: Pending'')"
    using o assms(2) by (auto simp: validate_for_submission_def)
  with assms(1) show ?thesis
    by (simp add: execute_place_order_def Let_def place_order_not_created)
qed

text \<open>A short position with a positive quantity, as every position has, is listed as a long one.\<close>

lemma short_listed_as_long:
  assumes "pos_side p = Sell" and "0 < qty_inner (pos_quantity p)"
  shows "position_direction_of p = Short \<and> snd (snd (snd (snd (position_line p)))) = ''Long''"
  using assms by (simp add: position_direction_of_def position_line_def)

end
