(* ===== verification/Ingest.thy ===== *)
theory Ingest
  imports Market_Store IB_Market_Data Command_Line
begin

text \<open>
  The ingestion command of \<open>crates/cli/src/commands/ingest.rs\<close>: its arguments, the loop that gathers
  bars and saves them in batches, and its run over the market data provider of Interactive Brokers.
  The periodic log of counters is left out.
\<close>

section \<open>Arguments\<close>

record ingest_command =
  ing_symbol :: string
  ing_duration :: string
  ing_provider :: string
  ing_timeframe :: string
  ing_output_db :: bool
  ing_output_stdout :: bool

text \<open>\<open>str::trim\<close>, \<open>str::to_lowercase\<close> and \<open>str::to_uppercase\<close>.\<close>

record str_ops =
  str_trim :: "string \<Rightarrow> string"
  str_lower :: "string \<Rightarrow> string"
  str_upper :: "string \<Rightarrow> string"

definition is_ascii_digit :: "char \<Rightarrow> bool" where
  "is_ascii_digit c = (48 \<le> code c \<and> code c \<le> 57)"

text \<open>\<open>str::parse::<u64>\<close> on a text of digits.\<close>

definition digits_value :: "string \<Rightarrow> nat" where
  "digits_value s = foldl (\<lambda>n c. 10 * n + (code c - 48)) 0 s"

definition parse_u64_digits :: "string \<Rightarrow> (u64, string) res" where
  "parse_u64_digits s =
     (if s = [] then Err ''cannot parse integer from empty string''
      else if digits_value s < 2 ^ 64 then Ok (of_nat (digits_value s))
      else Err ''number too large to fit in target type'')"

definition duration_unit :: "string \<Rightarrow> u64 option" where
  "duration_unit unit =
     (if unit \<in> {''s'', ''sec'', ''secs''} then Some 1
      else if unit \<in> {''m'', ''min'', ''mins''} then Some 60
      else if unit \<in> {''h'', ''hr'', ''hrs''} then Some 3600
      else if unit \<in> {''d'', ''day'', ''days''} then Some 86400
      else if unit \<in> {''w'', ''wk'', ''wks''} then Some 604800
      else None)"

text \<open>In seconds; the product wraps around.\<close>

definition parse_duration :: "str_ops \<Rightarrow> string \<Rightarrow> (u64, string) res" where
  "parse_duration S input =
     (let s = str_lower S (str_trim S input);
          num_str = takeWhile is_ascii_digit s; unit = dropWhile is_ascii_digit s in
      if unit = [] then Err ''Duration must contain a number and unit (e.g., 1h)''
      else
        bind (with_context (''Invalid number in duration: '' @ num_str) (parse_u64_digits num_str)) (\<lambda>number.
        ok_or (map_option (\<lambda>seconds. number * seconds) (duration_unit unit))
          (''Invalid duration unit: '' @ unit @ ''. Use s, m, h, d, or w'')))"

definition parse_timeframe :: "str_ops \<Rightarrow> string \<Rightarrow> (time_frame, string) res" where
  "parse_timeframe S input =
     (let s = str_upper S (str_trim S input) in
      if s = ''M1'' then Ok M1 else if s = ''M5'' then Ok M5
      else if s = ''M15'' then Ok M15 else if s = ''M30'' then Ok M30
      else if s = ''H1'' then Ok H1 else if s = ''H4'' then Ok H4
      else if s = ''D1'' then Ok D1 else if s = ''W1'' then Ok W1
      else map_err (\<lambda>e. ''Invalid timeframe: '' @ value_error_display e) (time_frame_parse (str_lower S s)))"

section \<open>The loop\<close>

text \<open>
  The state of a run: the buffer, the two counters, the bars printed, and the world of the repository.
  A repository is its \<open>save_batch\<close>, if there is one.
\<close>

record 'w ingest_run =
  run_buffer :: "bar list"
  run_received :: u64
  run_saved :: u64
  run_stdout :: "bar list"
  run_store :: 'w

type_synonym 'w saver = "bar list \<Rightarrow> ('w, unit, domain_error) io"

definition ingest_start :: "'w \<Rightarrow> 'w ingest_run" where
  "ingest_start w = \<lparr>run_buffer = [], run_received = 0, run_saved = 0, run_stdout = [], run_store = w\<rparr>"

text \<open>
  What wakes the loop: a bar, the end of the channel, the ticker of five seconds, the interrupt, or a
  whole second in which nothing else did, with the milliseconds since the start.
\<close>

datatype wakeup = W_Bar bar | W_Closed | W_Flush | W_CtrlC | W_Second nat

text \<open>\<open>save_batch\<close> of the buffer: a refused batch is logged, an accepted one is counted.\<close>

definition save_buffer :: "'w saver \<Rightarrow> 'w ingest_run \<Rightarrow> ('w ingest_run, unit) res" where
  "save_buffer save s =
     (case save (run_buffer s) (run_store s) of
        (Ok _, w) \<Rightarrow> Ok (s\<lparr>run_store := w, run_saved := run_saved s + of_nat (length (run_buffer s))\<rparr>)
      | (Err _, w) \<Rightarrow> Ok (s\<lparr>run_store := w\<rparr>)
      | (Panic, w) \<Rightarrow> Panic)"

definition on_bar :: "bool \<Rightarrow> 'w saver option \<Rightarrow> bar \<Rightarrow> 'w ingest_run \<Rightarrow> ('w ingest_run, unit) res" where
  "on_bar output_stdout repo b s =
     (let s1 = s\<lparr>run_received := run_received s + 1,
                 run_stdout := (if output_stdout then run_stdout s @ [b] else run_stdout s),
                 run_buffer := run_buffer s @ [b]\<rparr> in
      if 100 \<le> length (run_buffer s1)
      then (case repo of
              Some save \<Rightarrow> bind (save_buffer save s1) (\<lambda>s2. Ok (s2\<lparr>run_buffer := []\<rparr>))
            | None \<Rightarrow> Ok s1)
      else Ok s1)"

definition on_flush :: "'w saver option \<Rightarrow> 'w ingest_run \<Rightarrow> ('w ingest_run, unit) res" where
  "on_flush repo s =
     (if run_buffer s = [] then Ok s
      else bind (case repo of Some save \<Rightarrow> save_buffer save s | None \<Rightarrow> Ok s) (\<lambda>s1.
           Ok (s1\<lparr>run_buffer := []\<rparr>)))"

definition final_flush :: "'w saver option \<Rightarrow> 'w ingest_run \<Rightarrow> ('w ingest_run, unit) res" where
  "final_flush repo s =
     (if run_buffer s = [] then Ok s
      else case repo of Some save \<Rightarrow> save_buffer save s | None \<Rightarrow> Ok s)"

text \<open>One turn; the flag says that the loop is left.\<close>

definition ingest_turn ::
    "bool \<Rightarrow> 'w saver option \<Rightarrow> u64 \<Rightarrow> wakeup \<Rightarrow> 'w ingest_run \<Rightarrow> ('w ingest_run \<times> bool, unit) res" where
  "ingest_turn output_stdout repo duration wake s =
     (case wake of
        W_Bar b \<Rightarrow> bind (on_bar output_stdout repo b s) (\<lambda>s1. Ok (s1, False))
      | W_Closed \<Rightarrow> Ok (s, True)
      | W_Flush \<Rightarrow> bind (on_flush repo s) (\<lambda>s1. Ok (s1, False))
      | W_CtrlC \<Rightarrow> Ok (s, True)
      | W_Second elapsed_ms \<Rightarrow> Ok (s, unat duration * 1000 \<le> elapsed_ms))"

fun ingest_loop ::
    "bool \<Rightarrow> 'w saver option \<Rightarrow> u64 \<Rightarrow> wakeup list \<Rightarrow> 'w ingest_run \<Rightarrow> ('w ingest_run \<times> bool, unit) res" where
  "ingest_loop output_stdout repo duration [] s = Ok (s, False)"
| "ingest_loop output_stdout repo duration (wake # wakes) s =
     bind (ingest_turn output_stdout repo duration wake s) (\<lambda>(s1, left_loop).
     if left_loop then Ok (s1, True) else ingest_loop output_stdout repo duration wakes s1)"

section \<open>The run over Interactive Brokers\<close>

text \<open>
  What happens during a run: the provider processes an event of the broker, the channel is polled, or
  one of the other branches of the loop is ready.
\<close>

datatype ib_turn = IT_Event ib_event | IT_Poll | IT_Flush | IT_CtrlC | IT_Second nat

text \<open>
  Polling the channel of the subscription: nothing while it is open and empty, the end once the
  subscription has been dropped.
\<close>

definition poll_bars :: "symbol \<Rightarrow> ib_provider \<Rightarrow> wakeup option \<times> ib_provider" where
  "poll_bars symbol p =
     (case hash_get (mp_subscriptions p) (symbol_str symbol) of
        None \<Rightarrow> (Some W_Closed, p)
      | Some sub \<Rightarrow>
          (case si_bar_tx sub of
             None \<Rightarrow> (None, p)
           | Some c \<Rightarrow>
               (case ch_queue c of
                  [] \<Rightarrow> (None, p)
                | b # bs \<Rightarrow>
                    (Some (W_Bar b),
                     p\<lparr>mp_subscriptions := hash_insert (symbol_str symbol)
                        (sub\<lparr>si_bar_tx := Some (c\<lparr>ch_queue := bs\<rparr>)\<rparr>) (mp_subscriptions p)\<rparr>))))"

definition ib_wakeup ::
    "dec_ops \<Rightarrow> feed_ops \<Rightarrow> symbol \<Rightarrow> ib_turn \<Rightarrow> ib_provider \<Rightarrow> (wakeup option \<times> ib_provider, unit) res" where
  "ib_wakeup D E symbol turn p =
     (case turn of
        IT_Event ev \<Rightarrow> bind (process_feed_event D E ev p) (\<lambda>p1. Ok (None, p1))
      | IT_Poll \<Rightarrow> Ok (poll_bars symbol p)
      | IT_Flush \<Rightarrow> Ok (Some W_Flush, p)
      | IT_CtrlC \<Rightarrow> Ok (Some W_CtrlC, p)
      | IT_Second elapsed_ms \<Rightarrow> Ok (Some (W_Second elapsed_ms), p))"

fun ib_ingest_loop ::
    "dec_ops \<Rightarrow> feed_ops \<Rightarrow> symbol \<Rightarrow> bool \<Rightarrow> 'w saver option \<Rightarrow> u64 \<Rightarrow> ib_turn list \<Rightarrow> ib_provider \<Rightarrow>
     'w ingest_run \<Rightarrow> (ib_provider \<times> 'w ingest_run \<times> bool, unit) res" where
  "ib_ingest_loop D E symbol output_stdout repo duration [] p s = Ok (p, s, False)"
| "ib_ingest_loop D E symbol output_stdout repo duration (turn # turns) p s =
     bind (ib_wakeup D E symbol turn p) (\<lambda>(wake, p1).
     case wake of
       None \<Rightarrow> ib_ingest_loop D E symbol output_stdout repo duration turns p1 s
     | Some wk \<Rightarrow>
         bind (ingest_turn output_stdout repo duration wk s) (\<lambda>(s1, left_loop).
         if left_loop then Ok (p1, s1, True)
         else ib_ingest_loop D E symbol output_stdout repo duration turns p1 s1))"

text \<open>
  The run with the turns that happen, and the broker's answer to the final disconnection.  \<open>None\<close> is a
  connection attempt that never ends.  A run whose turns do not leave the loop is still going on.
\<close>

definition run_ib_provider ::
    "dec_ops \<Rightarrow> feed_ops \<Rightarrow> broker \<Rightarrow> instant \<Rightarrow> bool \<Rightarrow> symbol \<Rightarrow> time_frame \<Rightarrow> u64 \<Rightarrow> 'w saver option \<Rightarrow> 'w \<Rightarrow>
     ib_turn list \<Rightarrow> (unit, provider_error) res \<Rightarrow>
     ((unit, string) res \<times> 'w ingest_run \<times> ib_provider) option" where
  "run_ib_provider D E B now output_stdout symbol timeframe duration repo w turns answer =
     (case provider_connect B (ib_provider_new (ib_client_new now ib_config_default) 1000) of
        None \<Rightarrow> None
      | Some (Err e, p) \<Rightarrow> Some (Err ''Failed to connect to IB Gateway'', ingest_start w, p)
      | Some (Panic, p) \<Rightarrow> Some (Panic, ingest_start w, p)
      | Some (Ok _, p) \<Rightarrow>
          (case subscribe_bars symbol timeframe p of
             (Err e, p1) \<Rightarrow> Some (Err ''Failed to subscribe to bars'', ingest_start w, p1)
           | (Panic, p1) \<Rightarrow> Some (Panic, ingest_start w, p1)
           | (Ok _, p1) \<Rightarrow>
               (case bind (ib_ingest_loop D E symbol output_stdout repo duration turns p1 (ingest_start w))
                       (\<lambda>(p2, s, left_loop).
                        if left_loop
                        then bind (final_flush repo s) (\<lambda>s1.
                             Ok (snd (provider_disconnect answer (snd (provider_unsubscribe symbol p2))), s1))
                        else Ok (p2, s)) of
                  Ok (p2, s) \<Rightarrow> Some (Ok (), s, p2)
                | _ \<Rightarrow> Some (Panic, ingest_start w, p1))))"

text \<open>
  The command: the arguments, the database, and only then the name of the provider.  \<open>database\<close> is the
  connection, \<open>run\<close> the run over Interactive Brokers.
\<close>

definition ingest_execute ::
    "str_ops \<Rightarrow> ('w saver, string) res \<Rightarrow>
     (symbol \<Rightarrow> time_frame \<Rightarrow> u64 \<Rightarrow> 'w saver option \<Rightarrow> (unit, string) res) \<Rightarrow> ingest_command \<Rightarrow> (unit, string) res" where
  "ingest_execute S database run cmd =
     bind (with_context (''Invalid symbol: '' @ ing_symbol cmd) (symbol_new (ing_symbol cmd))) (\<lambda>symbol.
     bind (with_context (''Invalid duration: '' @ ing_duration cmd) (parse_duration S (ing_duration cmd))) (\<lambda>duration.
     bind (with_context (''Invalid timeframe: '' @ ing_timeframe cmd) (parse_timeframe S (ing_timeframe cmd))) (\<lambda>timeframe.
     bind (if ing_output_db cmd
           then bind (with_context ''Failed to connect to database'' database) (\<lambda>repo. Ok (Some repo))
           else Ok None) (\<lambda>repo.
     let provider_type = str_lower S (ing_provider cmd) in
     if provider_type = ''ib'' then run symbol timeframe duration repo
     else if provider_type = ''polygon'' then Err ''Polygon provider not yet implemented''
     else Err (''Unknown provider: '' @ provider_type @ ''. Use '' @ quoted ''ib'' @ '' or '' @ quoted ''polygon'')))))"

section \<open>Lemmas\<close>

lemma save_buffer_frame:
  assumes "save_buffer save s = Ok s'"
  shows "run_buffer s' = run_buffer s \<and> run_received s' = run_received s \<and> run_stdout s' = run_stdout s"
  using assms by (auto simp: save_buffer_def split: prod.splits res.splits)

text \<open>What arrives before the loop is left.\<close>

fun before_end :: "u64 \<Rightarrow> wakeup list \<Rightarrow> wakeup list" where
  "before_end duration [] = []"
| "before_end duration (W_Closed # wakes) = []"
| "before_end duration (W_CtrlC # wakes) = []"
| "before_end duration (W_Second e # wakes) =
     (if unat duration * 1000 \<le> e then [] else W_Second e # before_end duration wakes)"
| "before_end duration (wake # wakes) = wake # before_end duration wakes"

fun bars_of :: "wakeup list \<Rightarrow> bar list" where
  "bars_of [] = []"
| "bars_of (W_Bar b # wakes) = b # bars_of wakes"
| "bars_of (_ # wakes) = bars_of wakes"

lemma bars_of_append: "bars_of (ws @ vs) = bars_of ws @ bars_of vs"
  by (induction ws rule: bars_of.induct) auto

text \<open>Offering batches to a repository, one after another, with the number of bars that are accepted.\<close>

primrec offer :: "'w saver \<Rightarrow> bar list list \<Rightarrow> u64 \<times> 'w \<Rightarrow> (u64 \<times> 'w, unit) res" where
  "offer save [] n = Ok n"
| "offer save (batch # batches) n =
     (case save batch (snd n) of
        (Ok _, w) \<Rightarrow> offer save batches (fst n + of_nat (length batch), w)
      | (Err _, w) \<Rightarrow> offer save batches (fst n, w)
      | (Panic, w) \<Rightarrow> Panic)"

lemma offer_append: "offer save (xs @ ys) n = bind (offer save xs n) (offer save ys)"
  by (induction xs arbitrary: n) (auto split: prod.split res.split)

lemma save_buffer_offer:
  "save_buffer save s = Ok s' \<Longrightarrow> offer save [run_buffer s] (run_saved s, run_store s) = Ok (run_saved s', run_store s')"
  by (auto simp: save_buffer_def split: prod.splits res.splits)

text \<open>
  The state of a run that started from \<open>w0\<close> and took the bars \<open>bars\<close>: what is not in the buffer has been
  offered, in order, in batches of one to a hundred.
\<close>

definition gathered :: "'w saver \<Rightarrow> 'w \<Rightarrow> bar list \<Rightarrow> 'w ingest_run \<Rightarrow> bool" where
  "gathered save w0 bars s =
     (length (run_buffer s) < 100 \<and> run_received s = of_nat (length bars) \<and>
      (\<exists>batches. concat batches @ run_buffer s = bars \<and> (\<forall>b \<in> set batches. b \<noteq> [] \<and> length b \<le> 100) \<and>
        offer save batches (0, w0) = Ok (run_saved s, run_store s)))"

lemma gathered_start: "gathered save w0 [] (ingest_start w0)"
  by (simp add: gathered_def ingest_start_def exI [of _ "[]"])

lemma gathered_offered:
  assumes "gathered save w0 bars s" and "save_buffer save s = Ok s'" and "run_buffer s \<noteq> []"
  shows "gathered save w0 bars (s'\<lparr>run_buffer := []\<rparr>)"
proof -
  from assms(1) obtain batches where b: "concat batches @ run_buffer s = bars"
      "\<forall>b \<in> set batches. b \<noteq> [] \<and> length b \<le> 100" "offer save batches (0, w0) = Ok (run_saved s, run_store s)"
      "length (run_buffer s) < 100" "run_received s = of_nat (length bars)"
    by (auto simp: gathered_def)
  then show ?thesis
    using save_buffer_offer [OF assms(2)] save_buffer_frame [OF assms(2)] assms(3)
    by (auto simp: gathered_def offer_append intro!: exI [of _ "batches @ [run_buffer s]"])
qed

lemma gathered_bar:
  assumes "gathered save w0 bars s" and "on_bar out (Some save) b s = Ok s'"
  shows "gathered save w0 (bars @ [b]) s'"
proof -
  let ?s1 = "s\<lparr>run_received := run_received s + 1, run_stdout := (if out then run_stdout s @ [b] else run_stdout s),
                 run_buffer := run_buffer s @ [b]\<rparr>"
  from assms(1) obtain batches where g: "concat batches @ run_buffer s = bars"
      "\<forall>b \<in> set batches. b \<noteq> [] \<and> length b \<le> 100" "offer save batches (0, w0) = Ok (run_saved s, run_store s)"
      "length (run_buffer s) < 100" "run_received s = of_nat (length bars)"
    by (auto simp: gathered_def)
  show ?thesis
  proof (cases "100 \<le> length (run_buffer ?s1)")
    case False
    with assms(2) have "s' = ?s1" by (simp add: on_bar_def Let_def)
    with g False show ?thesis by (auto simp: gathered_def)
  next
    case True
    with assms(2) obtain s2 where s2: "save_buffer save ?s1 = Ok s2" "s' = s2\<lparr>run_buffer := []\<rparr>"
      by (auto simp: on_bar_def Let_def bind_eq_Ok)
    have "concat (batches @ [run_buffer ?s1]) = bars @ [b]" using g(1) by simp
    moreover have "\<forall>b \<in> set (batches @ [run_buffer ?s1]). b \<noteq> [] \<and> length b \<le> 100" using g(2,4) by auto
    moreover have "offer save (batches @ [run_buffer ?s1]) (0, w0) = Ok (run_saved s2, run_store s2)"
      using g(3) save_buffer_offer [OF s2(1)] by (simp add: offer_append)
    ultimately show ?thesis
      using save_buffer_frame [OF s2(1)] g(5) s2(2)
      by (auto simp: gathered_def intro!: exI [of _ "batches @ [run_buffer ?s1]"])
  qed
qed

lemma gathered_flush:
  assumes "gathered save w0 bars s" and "on_flush (Some save) s = Ok s'"
  shows "gathered save w0 bars s'"
proof (cases "run_buffer s = []")
  case False
  with assms(2) obtain s1 where "save_buffer save s = Ok s1" "s' = s1\<lparr>run_buffer := []\<rparr>"
    by (auto simp: on_flush_def bind_eq_Ok)
  with gathered_offered [OF assms(1) _ False] show ?thesis by simp
qed (use assms in \<open>simp add: on_flush_def\<close>)

lemma gathered_loop:
  assumes "ingest_loop out (Some save) duration wakes s = Ok (s', left_loop)" and "gathered save w0 bars s"
  shows "gathered save w0 (bars @ bars_of (before_end duration wakes)) s' \<and>
    (left_loop \<longleftrightarrow> length (before_end duration wakes) < length wakes)"
  using assms
proof (induction wakes arbitrary: s bars)
  case (Cons wake wakes)
  show ?case
  proof (cases wake)
    case (W_Bar b)
    with Cons.prems obtain s1 where s1: "on_bar out (Some save) b s = Ok s1"
        "ingest_loop out (Some save) duration wakes s1 = Ok (s', left_loop)"
      by (auto simp: ingest_turn_def bind_eq_Ok)
    from Cons.IH [OF s1(2) gathered_bar [OF Cons.prems(2) s1(1)]] W_Bar show ?thesis by simp
  next
    case W_Flush
    with Cons.prems obtain s1 where s1: "on_flush (Some save) s = Ok s1"
        "ingest_loop out (Some save) duration wakes s1 = Ok (s', left_loop)"
      by (auto simp: ingest_turn_def bind_eq_Ok)
    from Cons.IH [OF s1(2) gathered_flush [OF Cons.prems(2) s1(1)]] W_Flush show ?thesis by simp
  next
    case (W_Second e)
    with Cons show ?thesis by (cases "unat duration * 1000 \<le> e") (auto simp: ingest_turn_def)
  qed (use Cons.prems in \<open>simp_all add: ingest_turn_def\<close>)
qed simp

section \<open>Properties\<close>

text \<open>C33:
  An ingestion with a database that is left offers every bar it received to the repository exactly once,
  in the order of arrival, in batches of one to a hundred bars; what the repository refuses is lost.
  Nothing that arrives after the loop is left is taken.  The counters are the number of bars received and
  the number in accepted batches.
\<close>

theorem every_bar_offered_once:
  assumes "ingest_loop output_stdout (Some save) duration wakes (ingest_start w0) = Ok (s, True)"
    and "final_flush (Some save) s = Ok s'"
  shows "\<exists>batches. concat batches = bars_of (before_end duration wakes) \<and>
    (\<forall>b \<in> set batches. b \<noteq> [] \<and> length b \<le> 100) \<and>
    offer save batches (0, w0) = Ok (run_saved s', run_store s') \<and>
    run_received s' = of_nat (length (concat batches))"
proof -
  from gathered_loop [OF assms(1) gathered_start] obtain batches where
    g: "concat batches @ run_buffer s = bars_of (before_end duration wakes)"
      "\<forall>b \<in> set batches. b \<noteq> [] \<and> length b \<le> 100" "offer save batches (0, w0) = Ok (run_saved s, run_store s)"
      "length (run_buffer s) < 100" "run_received s = of_nat (length (bars_of (before_end duration wakes)))"
    by (auto simp: gathered_def)
  show ?thesis
  proof (cases "run_buffer s = []")
    case True
    with assms(2) g show ?thesis by (intro exI [of _ batches]) (simp add: final_flush_def)
  next
    case False
    with assms(2) have f: "save_buffer save s = Ok s'" by (simp add: final_flush_def)
    have "offer save (batches @ [run_buffer s]) (0, w0) = Ok (run_saved s', run_store s')"
      using g(3) save_buffer_offer [OF f] by (simp add: offer_append)
    with False g save_buffer_frame [OF f] show ?thesis by (intro exI [of _ "batches @ [run_buffer s]"]) auto
  qed
qed

section \<open>Ingestion over Interactive Brokers\<close>

lemma polled_nothing:
  assumes "provider_inv p" and "poll_bars symbol p = (wake, p')"
  shows "p' = p \<and> (wake = None \<or> wake = Some W_Closed)"
proof (cases "hash_get (mp_subscriptions p) (symbol_str symbol)")
  case (Some sub)
  with assms(1) have "nothing_queued sub" by (auto simp: provider_inv_def subs_ok_def entry_ok_def)
  with Some assms(2) show ?thesis by (auto simp: poll_bars_def nothing_queued_def split: option.splits)
qed (use assms(2) in \<open>auto simp: poll_bars_def\<close>)

lemma ib_loop_idle:
  assumes "ib_ingest_loop D E symbol out repo duration turns p s = Ok (p', s', left_loop)"
    and "provider_inv p" and "run_buffer s = []"
  shows "s' = s"
  using assms
proof (induction turns arbitrary: p)
  case (Cons turn turns)
  from Cons.prems(1) obtain wake p1 where wake: "ib_wakeup D E symbol turn p = Ok (wake, p1)"
    and rest: "(case wake of None \<Rightarrow> ib_ingest_loop D E symbol out repo duration turns p1 s
      | Some wk \<Rightarrow> bind (ingest_turn out repo duration wk s) (\<lambda>(s1, left_loop).
          if left_loop then Ok (p1, s1, True) else ib_ingest_loop D E symbol out repo duration turns p1 s1)) =
        Ok (p', s', left_loop)"
    by (auto simp: bind_eq_Ok)
  have inv: "provider_inv p1 \<and> (\<forall>b. wake \<noteq> Some (W_Bar b))"
  proof (cases turn)
    case (IT_Event ev)
    with wake obtain "process_feed_event D E ev p = Ok p1" "wake = None" by (auto simp: ib_wakeup_def bind_eq_Ok)
    with feed_step_inv [OF feed_step.event Cons.prems(2)] show ?thesis by simp
  next
    case IT_Poll
    with wake polled_nothing [OF Cons.prems(2)] Cons.prems(2) show ?thesis
      by (cases "poll_bars symbol p") (fastforce simp: ib_wakeup_def)
  qed (use wake Cons.prems(2) in \<open>auto simp: ib_wakeup_def\<close>)
  have turn: "s1 = s" if "ingest_turn out repo duration wk s = Ok (s1, l)" and "\<forall>b. wk \<noteq> W_Bar b" for wk s1 l
    using that Cons.prems(3) by (cases wk) (auto simp: ingest_turn_def on_flush_def)
  show ?case
  proof (cases wake)
    case None
    with rest Cons.IH [of p1] inv Cons.prems(3) show ?thesis by simp
  next
    case (Some wk)
    with rest obtain s1 l where t: "ingest_turn out repo duration wk s = Ok (s1, l)"
      and l: "(if l then Ok (p1, s1, True) else ib_ingest_loop D E symbol out repo duration turns p1 s1) = Ok (p', s', left_loop)"
      by (auto simp: bind_eq_Ok)
    have "s1 = s" using turn [OF t] inv Some by auto
    with l Cons.IH [of p1] inv Cons.prems(3) show ?thesis by (auto split: if_splits)
  qed
qed simp

text \<open>C34:
  An ingestion over Interactive Brokers takes in nothing: whatever the broker sends, and however long it
  runs, no bar is received, printed or saved, and the database is as it was.
\<close>

theorem ib_ingestion_takes_nothing:
  assumes "run_ib_provider D E B now output_stdout symbol timeframe duration repo w turns answer = Some (r, s, p)"
  shows "s = ingest_start w"
proof (cases "provider_connect B (ib_provider_new (ib_client_new now ib_config_default) 1000)")
  case (Some rp)
  obtain r0 p0 where rp: "rp = (r0, p0)" by (cases rp)
  have inv0: "provider_inv p0"
    using feed_step_inv [OF feed_step.connect [OF Some [unfolded rp]]]
    by (simp add: provider_inv_def ib_provider_new_def)
  show ?thesis
  proof (cases r0)
    case (Ok u)
    obtain r1 p1 where sub: "subscribe_bars symbol timeframe p0 = (r1, p1)" by force
    show ?thesis
    proof (cases r1)
      case (Ok u')
      have id: "sint (mp_next_req_id p0) < 2 ^ 31 - 1"
        using Some by (auto simp: rp provider_connect_def ib_provider_new_def)
      have inv1: "provider_inv p1" by (rule feed_step_inv [OF feed_step.bars [OF sub id] inv0])
      have start: "run_buffer (ingest_start w) = []" by (simp add: ingest_start_def)
      have idle: "s' = ingest_start w" if
        "ib_ingest_loop D E symbol output_stdout repo duration turns p1 (ingest_start w) = Ok (p2, s', l)" for p2 s' l
        using ib_loop_idle [OF that inv1 start] .
      show ?thesis
        using assms Some rp \<open>r0 = Ok u\<close> sub Ok idle start
        by (auto simp: run_ib_provider_def final_flush_def bind_eq_Ok split: res.splits if_splits)
    qed (use assms Some rp Ok sub in \<open>auto simp: run_ib_provider_def\<close>)
  qed (use assms Some rp in \<open>auto simp: run_ib_provider_def\<close>)
qed (use assms in \<open>simp add: run_ib_provider_def\<close>)

text \<open>The time frames of more than an hour are arguments that parse, and end in a refused subscription.\<close>

theorem long_time_frames_refused:
  assumes "timeframe \<in> {H4, D1, W1}"
    and "provider_connect B (ib_provider_new (ib_client_new now ib_config_default) 1000) = Some (Ok u, p)"
    and "provider_is_connected p"
  shows "\<exists>s p'. run_ib_provider D E B now output_stdout symbol timeframe duration repo w turns answer =
    Some (Err ''Failed to subscribe to bars'', s, p')"
proof -
  have "mp_subscriptions p = hash_empty" using assms(2) by (auto simp: provider_connect_def ib_provider_new_def)
  then have "is_err (fst (subscribe_bars symbol timeframe p))"
    using assms(1,3) by (auto simp: subscribe_bars_def)
  then obtain e p1 where "subscribe_bars symbol timeframe p = (Err e, p1)"
    by (cases "subscribe_bars symbol timeframe p"; cases "fst (subscribe_bars symbol timeframe p)") auto
  with assms(2) show ?thesis by (simp add: run_ib_provider_def)
qed

section \<open>The duration\<close>

text \<open>
  Wake-ups with their times in milliseconds: the branch of the duration is ready a second after the
  previous turn, since every turn starts its timer anew.
\<close>

fun well_timed :: "nat \<Rightarrow> (nat \<times> wakeup) list \<Rightarrow> bool" where
  "well_timed t [] = True"
| "well_timed t ((t', wake) # rest) =
     (t \<le> t' \<and> (case wake of W_Second e \<Rightarrow> t + 1000 \<le> t' \<and> e = t' | _ \<Rightarrow> True) \<and> well_timed t' rest)"

fun steady :: "nat \<Rightarrow> (nat \<times> wakeup) list \<Rightarrow> bool" where
  "steady t [] = True"
| "steady t ((t', wake) # rest) = (t' < t + 1000 \<and> steady t' rest)"

text \<open>  The duration is looked at only in a second in which nothing happens.  An ingestion that is woken at
  least once a second is not left, however far it is beyond its duration.
\<close>

theorem busy_ingestion_ignores_duration:
  assumes "well_timed t timed" and "steady t timed" and "W_Closed \<notin> snd ` set timed" and "W_CtrlC \<notin> snd ` set timed"
    and "ingest_loop output_stdout repo duration (map snd timed) s = Ok (s', left_loop)"
  shows "\<not> left_loop"
  using assms
proof (induction timed arbitrary: t s)
  case (Cons tw timed)
  obtain t' wake where tw: "tw = (t', wake)" by (cases tw)
  with Cons.prems have w: "wake \<noteq> W_Closed" "wake \<noteq> W_CtrlC" "\<forall>e. wake \<noteq> W_Second e" by auto
  with tw Cons.prems(5) obtain s1 where rest: "ingest_loop output_stdout repo duration (map snd timed) s1 = Ok (s', left_loop)"
    by (cases wake) (auto simp: ingest_turn_def bind_eq_Ok)
  have "well_timed t' timed" "steady t' timed" using tw Cons.prems(1,2) by simp_all
  from Cons.IH [OF this _ _ rest] Cons.prems(3,4) show ?case by simp
qed simp

section \<open>Reading the duration\<close>

lemma takeWhile_digits: "list_all is_ascii_digit xs \<Longrightarrow> y \<noteq> [] \<Longrightarrow> \<not> is_ascii_digit (hd y) \<Longrightarrow>
    takeWhile is_ascii_digit (xs @ y) = xs \<and> dropWhile is_ascii_digit (xs @ y) = y"
  by (induction xs) (cases y; auto)+

lemma digits_value_snoc: "digits_value (s @ [c]) = 10 * digits_value s + (code c - 48)"
  by (simp add: digits_value_def)

lemma digits_show_nat: "list_all is_ascii_digit (show_nat n) \<and> digits_value (show_nat n) = n"
proof (induction n rule: show_nat.induct)
  case (1 n)
  show ?case
  proof (cases "n < 10")
    case True
    then show ?thesis
      by (subst (1 2) show_nat.simps) (simp add: is_ascii_digit_def digits_value_def digit_char_def)
  next
    case False
    have "is_ascii_digit (digit_char (n mod 10)) \<and> code (digit_char (n mod 10)) = 48 + n mod 10"
      using mod_less_divisor [of 10 n] by (simp add: is_ascii_digit_def digit_char_def less_Suc_eq_le [symmetric] del: mod_less_divisor)
    with False 1 show ?thesis
      by (subst (1 2) show_nat.simps) (simp add: digits_value_snoc)
  qed
qed

definition unit_names :: "string list" where
  "unit_names = [''s'', ''sec'', ''secs'', ''m'', ''min'', ''mins'', ''h'', ''hr'', ''hrs'', ''d'', ''day'', ''days'',
     ''w'', ''wk'', ''wks'']"

text \<open>
  A number of 64 bits before a known unit is read as that many units in seconds; the product is taken
  modulo \<open>2 ^ 64\<close>, so a long duration can become a short one.
\<close>

theorem duration_read:
  assumes "str_lower S (str_trim S input) = show_nat n @ unit" and "n < 2 ^ 64" and "duration_unit unit = Some k"
  shows "parse_duration S input = Ok (of_nat n * k) \<and>
    unat (of_nat n * k :: u64) = n * unat k mod 2 ^ 64"
proof -
  have "unit \<in> set unit_names"
    using assms(3) by (rule contrapos_pp) (simp add: duration_unit_def unit_names_def)
  moreover have "list_all (\<lambda>u. u \<noteq> [] \<and> \<not> is_ascii_digit (hd u)) unit_names" by code_simp
  ultimately have u: "unit \<noteq> [] \<and> \<not> is_ascii_digit (hd unit)" by (simp add: list_all_iff)
  have s: "takeWhile is_ascii_digit (show_nat n @ unit) = show_nat n"
      "dropWhile is_ascii_digit (show_nat n @ unit) = unit"
    using takeWhile_digits [of "show_nat n" unit] digits_show_nat [of n] u by auto
  have "parse_duration S input = Ok (of_nat n * k)"
    using assms u digits_show_nat [of n]
    by (simp add: parse_duration_def Let_def s parse_u64_digits_def with_context_def del: dropWhile_eq_Nil_conv)
  moreover have "unat (of_nat n * k :: u64) = n * unat k mod 2 ^ 64"
    using assms(2) by (simp add: unat_word_ariths take_bit_eq_mod unat_of_nat)
  ultimately show ?thesis by blast
qed

section \<open>Witnesses\<close>

text \<open>A repository that keeps its batches.\<close>

definition keep_batches :: "bar list list saver" where
  "keep_batches batch w = (Ok (), w @ [batch])"

theorem every_bar_offered_once_witness:
  "\<exists>s s' batches. ingest_loop False (Some keep_batches) 60
       [W_Bar sample_bar, W_Flush, W_Bar next_bar, W_CtrlC, W_Bar hour_bar] (ingest_start []) = Ok (s, True) \<and>
     final_flush (Some keep_batches) s = Ok s' \<and> concat batches = [sample_bar, next_bar] \<and>
     offer keep_batches batches (0, []) = Ok (run_saved s', run_store s') \<and> run_received s' = 2"
proof -
  let ?ws = "[W_Bar sample_bar, W_Flush, W_Bar next_bar, W_CtrlC, W_Bar hour_bar]"
  obtain s s' where r: "ingest_loop False (Some keep_batches) 60 ?ws (ingest_start []) = Ok (s, True)"
      "final_flush (Some keep_batches) s = Ok s'"
    by (simp add: ingest_turn_def on_bar_def on_flush_def final_flush_def save_buffer_def keep_batches_def ingest_start_def Let_def)
  from every_bar_offered_once [OF r] r show ?thesis by fastforce
qed

theorem ib_ingestion_takes_nothing_witness:
  "\<exists>r p. run_ib_provider exact_dec sample_feed willing_broker 0 True (Symbol ''AAPL'') M1 60 (Some keep_batches) []
     [IT_Event (IBE_MarketData 1000 sample_quote), IT_Poll, IT_Flush, IT_CtrlC] (Ok ()) =
     Some (r, ingest_start [], p)"
proof -
  let ?c = "ib_client_new 0 ib_config_default"
  have "answered_ok (br_answer willing_broker 0)" by (simp add: willing_broker_def answered_ok_def)
  then obtain c2 where a: "attempt_connection (br_answer willing_broker 0) (br_instant willing_broker 0)
      (br_wall willing_broker 0) (set_state CN_Connecting ?c) = (Ok (), c2)"
    by (rule attempt_ok)
  have "\<not> client_is_connected ?c" by (simp add: ib_client_new_def client_is_connected_def)
  with a have "provider_connect willing_broker (ib_provider_new ?c 1000) \<noteq> None"
    by (simp add: provider_connect_def ib_provider_new_def ensure_connected_def client_connect_def connect_loop.simps)
  then obtain r s p where "run_ib_provider exact_dec sample_feed willing_broker 0 True (Symbol ''AAPL'') M1 60
      (Some keep_batches) [] [IT_Event (IBE_MarketData 1000 sample_quote), IT_Poll, IT_Flush, IT_CtrlC] (Ok ()) =
      Some (r, s, p)"
    by (fastforce simp: run_ib_provider_def split: option.splits prod.splits res.splits)
  from ib_ingestion_takes_nothing [OF this] this show ?thesis by blast
qed

theorem busy_ingestion_ignores_duration_witness:
  "\<exists>s' l. ingest_loop False None 1 [W_Bar sample_bar, W_Flush, W_Bar next_bar] (ingest_start ()) = Ok (s', l) \<and> \<not> l"
proof -
  let ?timed = "[(600 :: nat, W_Bar sample_bar), (1300, W_Flush), (2100, W_Bar next_bar)]"
  obtain s' l where r: "ingest_loop False None 1 (map snd ?timed) (ingest_start ()) = Ok (s', l)"
    by (simp add: ingest_turn_def on_bar_def on_flush_def ingest_start_def Let_def) blast
  have "well_timed 0 ?timed" "steady 0 ?timed" by simp_all
  from busy_ingestion_ignores_duration [OF this _ _ r] have "\<not> l" by simp
  moreover from r have "ingest_loop False None 1 [W_Bar sample_bar, W_Flush, W_Bar next_bar] (ingest_start ()) = Ok (s', l)"
    by (simp only: list.map snd_conv)
  ultimately show ?thesis by blast
qed

theorem duration_read_witness:
  "parse_duration \<lparr>str_trim = id, str_lower = id, str_upper = id\<rparr> ''90m'' = Ok 5400"
proof -
  have "show_nat 90 @ ''m'' = ''90m''" by code_simp
  then show ?thesis
    using duration_read [of "\<lparr>str_trim = id, str_lower = id, str_upper = id\<rparr>" "''90m''" 90 "''m''" 60]
    by (simp add: duration_unit_def)
qed

end
