(* ===== verification/Main_Program.thy ===== *)
theory Main_Program
  imports Logging Ingest
begin

text \<open>
  The commands of \<open>crates/cli/src/main.rs\<close> that are not the trading and ingestion commands: loading the
  configuration and the \<open>config\<close> command, and the commands that print.  What is printed is a value for
  each text.  \<open>from_file\<close> and the like are those of the theory on the configuration.
\<close>

section \<open>The configuration\<close>

definition config_of_arguments ::
    "config_crate \<Rightarrow> (string \<Rightarrow> string option) \<Rightarrow> string option \<Rightarrow> string option \<Rightarrow>
     (config_cache, app_config, infrastructure_error) io" where
  "config_of_arguments C var config_path environment =
     (case (config_path, environment) of
        (Some path, _) \<Rightarrow> io_lift (config_from_file C path)
      | (None, Some env) \<Rightarrow> io_lift (load_with_environment C env)
      | (None, None) \<Rightarrow> config_load C var)"

text \<open>Without arguments, an error falls back to the default configuration.\<close>

definition load_configuration ::
    "config_crate \<Rightarrow> (string \<Rightarrow> string option) \<Rightarrow> string option \<Rightarrow> string option \<Rightarrow>
     (config_cache, app_config, infrastructure_error) io" where
  "load_configuration C var config_path environment =
     (if config_path = None \<and> environment = None
      then io_match (config_load C var) io_return (\<lambda>_. io_return app_config_default)
      else config_of_arguments C var config_path environment)"

datatype main_output =
    Out_ConfigValid
  | Out_ConfigError string \<comment> \<open>and the process ends with exit code 1\<close>
  | Out_ConfigText "string list"
  | Out_ConfigJson string
  | Out_NoAccounts
  | Out_NoPositions
  | Out_OrderMock order_side_dto string decimal
  | Out_Health bool bool
  | Out_DatabaseInitialized

text \<open>\<open>serde_json::to_string_pretty\<close> is an argument.\<close>

definition display_config ::
    "(masked_app_config \<Rightarrow> (string, string) res) \<Rightarrow> app_config \<Rightarrow> config_output_format \<Rightarrow> (main_output, string) res" where
  "display_config to_json c format =
     (case format of
        Format_Text \<Rightarrow> Ok (Out_ConfigText (masked_display (masked c)))
      | Format_Json \<Rightarrow> bind (to_json (masked c)) (\<lambda>json. Ok (Out_ConfigJson json)))"

definition handle_config_command ::
    "config_crate \<Rightarrow> (string \<Rightarrow> string option) \<Rightarrow> (masked_app_config \<Rightarrow> (string, string) res) \<Rightarrow> string option \<Rightarrow>
     string option \<Rightarrow> bool \<Rightarrow> bool \<Rightarrow> config_output_format \<Rightarrow> (config_cache, main_output, string) io" where
  "handle_config_command C var to_json config_path environment validate shown format =
     io_match (config_of_arguments C var config_path environment)
       (\<lambda>c. if validate then io_return Out_ConfigValid else io_lift (display_config to_json c format))
       (\<lambda>e. if validate then io_return (Out_ConfigError (infrastructure_error_display e))
            else io_lift (Err (infrastructure_error_display e)))"

definition main_tracing_config :: "(string \<Rightarrow> string) \<Rightarrow> app_config \<Rightarrow> tracing_config" where
  "main_tracing_config low c =
     \<lparr>tr_level = lg_level (cf_logging c), tr_format = log_format_of low (lg_format (cf_logging c)),
      tr_output = log_output_of low (lg_output (cf_logging c)), tr_correlation_ids = True, tr_span_events = False,
      tr_thread_ids = (am_environment (cf_app c) = ''production''), tr_target = True\<rparr>"

section \<open>Commands\<close>

definition list_accounts :: main_output where
  "list_accounts = Out_NoAccounts"

definition list_positions :: "uuid option \<Rightarrow> main_output" where
  "list_positions account_id = Out_NoPositions"

text \<open>
  The \<open>order\<close> command validates the symbol, prints, and notifies; \<open>show_side\<close> and \<open>show_dec\<close> are the
  debug form of a side and the display of a decimal, \<open>show_error\<close> the display of an error of the symbol.
\<close>

definition main_create_order ::
    "'o notification_port \<Rightarrow> (order_side_dto \<Rightarrow> string) \<Rightarrow> (decimal \<Rightarrow> string) \<Rightarrow> uuid \<Rightarrow> string \<Rightarrow> order_side_arg \<Rightarrow>
     decimal \<Rightarrow> order_type_arg \<Rightarrow> ('o, main_output, string) io" where
  "main_create_order NP show_side show_dec account_id symbol side quantity type_arg =
     io_bind (io_lift (map_err value_error_display (symbol_new symbol))) (\<lambda>sym.
     let dto = \<lparr>cod_account_id = account_id, cod_symbol = symbol_str sym, cod_side = side_arg_to_dto side,
                cod_order_type = type_arg_to_dto type_arg, cod_quantity = quantity, cod_limit_price = None,
                cod_stop_price = None\<rparr> in
     io_bind (io_map_err application_error_display
        (np_notify NP (''Order created for '' @ cod_symbol dto @ '': '' @ show_side (cod_side dto) @ '' '' @
                       show_dec (cod_quantity dto)) Level_Info)) (\<lambda>_.
     io_return (Out_OrderMock (cod_side dto) (cod_symbol dto) (cod_quantity dto))))"

text \<open>The connections are tried and reported; a failed one is no error.\<close>

definition main_check_health :: "(unit, string) res \<Rightarrow> (unit, string) res \<Rightarrow> main_output" where
  "main_check_health database redis = Out_Health (is_ok database) (is_ok redis)"

text \<open>The migrations of \<open>database/mod.rs\<close> are commented out.\<close>

definition database_migrate :: "'t db \<Rightarrow> (unit, infrastructure_error) res \<times> 't db" where
  "database_migrate w = (Ok (), w)"

definition init_database :: "('t db, unit, string) io \<Rightarrow> ('t db, main_output, string) io" where
  "init_database connect =
     io_bind connect (\<lambda>_. io_bind (io_map_err infrastructure_error_display database_migrate) (\<lambda>_.
     io_return Out_DatabaseInitialized))"

text \<open>What the server prints, without the leading symbols, before it waits for the interrupt; it starts nothing.\<close>

definition run_server :: "app_config \<Rightarrow> string \<Rightarrow> 16 word \<Rightarrow> string list" where
  "run_server c host port =
     [''Trading Core Server started on '' @ host @ '':'' @ show_nat (unat port),
      ''Database: '' @ database_masked_url (cf_database c),
      ''Redis: '' @ redis_masked_url (cf_redis c)]"

section \<open>Starting\<close>

datatype main_command =
    Cmd_Server string "16 word"
  | Cmd_Accounts
  | Cmd_Positions "uuid option"
  | Cmd_Order uuid string order_side_arg decimal order_type_arg
  | Cmd_Health
  | Cmd_Init
  | Cmd_Config bool bool config_output_format
  | Cmd_Ingest ingest_command
  | Cmd_Trading trading_subcommand

text \<open>
  \<open>main\<close> up to the command: the \<open>config\<close> command is answered at once, every other one starts from the
  loaded configuration, with the log set up.  The world is the cache of the configuration beside what
  the subscriber is installed in.
\<close>

datatype startup = Answered main_output | Started app_config

definition on_cache :: "('c, 'a, 'e) io \<Rightarrow> ('c \<times> 'w, 'a, 'e) io" where
  "on_cache m w = (case m (fst w) of (r, c) \<Rightarrow> (r, (c, snd w)))"

definition on_log :: "('w, 'a, 'e) io \<Rightarrow> ('c \<times> 'w, 'a, 'e) io" where
  "on_log m w = (case m (snd w) of (r, x) \<Rightarrow> (r, (fst w, x)))"

definition main_startup ::
    "config_crate \<Rightarrow> (string \<Rightarrow> string option) \<Rightarrow> (masked_app_config \<Rightarrow> (string, string) res) \<Rightarrow> (string \<Rightarrow> string) \<Rightarrow>
     (string \<Rightarrow> ('f, string) res) \<Rightarrow> ('f subscriber \<Rightarrow> ('w, unit, string) io) \<Rightarrow> string option \<Rightarrow> string option \<Rightarrow>
     main_command \<Rightarrow> (config_cache \<times> 'w, startup, string) io" where
  "main_startup C var to_json low try_new try_init config_path environment cmd =
     (case cmd of
        Cmd_Config validate shown format \<Rightarrow>
          io_bind (on_cache (handle_config_command C var to_json config_path environment validate shown format)) (\<lambda>out.
          io_return (Answered out))
      | _ \<Rightarrow>
          io_bind (io_map_err infrastructure_error_display (on_cache (load_configuration C var config_path environment))) (\<lambda>config.
          io_bind (io_map_err infrastructure_error_display
                     (on_log (init_tracing try_new var try_init (main_tracing_config low config)))) (\<lambda>_.
          io_return (Started config))))"

section \<open>Properties\<close>

text \<open>  The validating \<open>config\<close> command approves of every configuration that can be read, whatever its
  contents, and prints an error exactly when reading fails; it never returns an error itself.
\<close>

theorem config_validate_approves:
  "handle_config_command C var to_json config_path environment True shown format cache =
     (case config_of_arguments C var config_path environment cache of
        (Ok c, cache') \<Rightarrow> (Ok Out_ConfigValid, cache')
      | (Err e, cache') \<Rightarrow> (Ok (Out_ConfigError (infrastructure_error_display e)), cache')
      | (Panic, cache') \<Rightarrow> (Panic, cache')) \<and>
   (\<forall>keys c. config_path = None \<and> build_config C (config_sources (case environment of
        Some env \<Rightarrow> env | None \<Rightarrow> environment_name var)) Map.empty = Ok keys \<and> cc_deserialize C keys = Ok c \<longrightarrow>
      fst (handle_config_command C var to_json config_path environment True shown format cache) = Ok Out_ConfigValid)"
  by (auto simp: handle_config_command_def io_match_def io_return_def config_of_arguments_def load_with_environment_def
      config_load_def validated_config_def app_config_validate_def derived_validate_def io_bind_def io_lift_def
      split: option.splits res.splits prod.splits)

text \<open>Whatever the \<open>config\<close> command shows, it shows it without the passwords.\<close>

theorem config_shows_no_secret:
  assumes "redis_password = None \<longleftrightarrow> rd_password (cf_redis c) = None"
  shows "display_config to_json (with_secrets password redis_password c) format = display_config to_json c format"
  by (cases format) (simp_all add: display_config_def masked_with_secrets [OF assms])

text \<open>Initializing the database runs nothing on it beyond connecting, and reports success.\<close>

theorem initialized_database_is_untouched:
  assumes "connect w = (Ok (), w1)"
  shows "init_database connect w = (Ok Out_DatabaseInitialized, w1)"
  using assms by (simp add: init_database_def io_bind_def io_map_err_def database_migrate_def io_return_def)

text \<open>
  Without arguments no command fails for its configuration: when nothing can be read, all but the
  \<open>config\<close> command start with the default configuration, and only the log can stop them.
\<close>

theorem unreadable_configuration_is_replaced:
  assumes "config_load C var cache = (Err e, cache')" and "\<And>v s f. cmd \<noteq> Cmd_Config v s f"
    and "init_tracing try_new var try_init (main_tracing_config low app_config_default) w = (Ok (), w')"
  shows "main_startup C var to_json low try_new try_init None None cmd (cache, w) =
    (Ok (Started app_config_default), (cache', w'))"
  using assms
  by (cases cmd)
    (auto simp: main_startup_def load_configuration_def io_bind_def io_map_err_def io_match_def io_return_def
      on_cache_def on_log_def)

text \<open>The server says that it started, starts nothing, and gives no password away.\<close>

theorem server_shows_no_secret:
  assumes "redis_password = None \<longleftrightarrow> rd_password (cf_redis c) = None"
  shows "run_server (with_secrets password redis_password c) host port = run_server c host port"
  using assms
  by (cases "rd_password (cf_redis c)"; cases redis_password)
    (simp_all add: run_server_def with_secrets_def database_masked_url_def database_url_with_def redis_masked_url_def
      redis_url_with_def)

end
