(* ===== verification/Trading_Desk.thy ===== *)
theory Trading_Desk
  imports Order_Lifecycle
begin

text \<open>
  The trading service (\<open>crates/application/src/trading_service.rs\<close>), the risk engine it consults and
  the order lifecycle manager (\<open>order_lifecycle.rs\<close>) at work on the same repositories: the platform
  in use.  A step is one call of either service that returns, or one operation of the risk engine; a
  call that panics ends the process and has no step.
\<close>

section \<open>Computations that maintain an assertion\<close>

text \<open>
  From a world with \<open>I\<close>, a run that returns leaves a world with \<open>I\<close>, and a result that is not an
  error has \<open>Q\<close>.
\<close>

definition ensures :: "('w \<Rightarrow> bool) \<Rightarrow> ('w, 'a, 'e) io \<Rightarrow> ('a \<Rightarrow> bool) \<Rightarrow> bool" where
  "ensures I m Q =
     (\<forall>w r w'. I w \<longrightarrow> m w = (r, w') \<longrightarrow> r \<noteq> Panic \<longrightarrow> I w' \<and> (\<forall>x. r = Ok x \<longrightarrow> Q x))"

lemma ensuresD: "ensures I m Q \<Longrightarrow> I w \<Longrightarrow> m w = (r, w') \<Longrightarrow> r \<noteq> Panic \<Longrightarrow> I w'"
  by (auto simp: ensures_def)

lemma ensures_return: "Q x \<Longrightarrow> ensures I (io_return x) Q"
  by (simp add: ensures_def io_return_def)

lemma ensures_lift: "(\<And>x. r = Ok x \<Longrightarrow> Q x) \<Longrightarrow> ensures I (io_lift r) Q"
  by (simp add: ensures_def io_lift_def)

lemma ensures_match:
  assumes m: "ensures I m Q" and k: "\<And>x. Q x \<Longrightarrow> ensures I (k x) R" and h: "\<And>e. ensures I (h e) R"
  shows "ensures I (io_match m k h) R"
  unfolding ensures_def
proof (intro allI impI)
  fix w r w' assume w: "I w" "io_match m k h w = (r, w')" "r \<noteq> Panic"
  obtain r1 w1 where r1: "m w = (r1, w1)" by fastforce
  show "I w' \<and> (\<forall>x. r = Ok x \<longrightarrow> R x)"
  proof (cases r1)
    case (Ok x)
    with m w r1 have "I w1" "Q x" by (simp_all add: ensures_def)
    with k [OF this(2)] w r1 Ok show ?thesis by (simp add: ensures_def io_match_def)
  next
    case (Err e)
    with m w r1 have "I w1" by (simp add: ensures_def)
    with h [of e] w r1 Err show ?thesis by (simp add: ensures_def io_match_def)
  qed (use w r1 in \<open>simp add: io_match_def\<close>)
qed

lemma ensures_bind:
  assumes m: "ensures I m Q" and k: "\<And>x. Q x \<Longrightarrow> ensures I (k x) R"
  shows "ensures I (io_bind m k) R"
proof -
  have eq: "io_bind m k = io_match m k (\<lambda>e. io_lift (Err e))"
    by (rule ext) (simp add: io_bind_def io_match_def io_lift_def split: prod.split res.split)
  show ?thesis
    unfolding eq by (rule ensures_match [OF m k]) (simp_all add: ensures_def io_lift_def)
qed

lemma ensures_map_err: "ensures I m Q \<Longrightarrow> ensures I (io_map_err g m) Q"
  by (fastforce simp: ensures_def io_map_err_def res_simps split: prod.splits)

lemma ensures_option:
  "ensures I a R \<Longrightarrow> (\<And>x. found = Some x \<Longrightarrow> ensures I (b x) R) \<Longrightarrow>
     ensures I (case found of None \<Rightarrow> a | Some x \<Rightarrow> b x) R"
  by (cases found) simp_all

lemma ensures_any: "keeps f m \<Longrightarrow> ensures (\<lambda>w. J (f w)) m (\<lambda>_. True)"
  by (auto simp: ensures_def dest: keepsD)

lemma ensures_in_world: "ensures I m Q \<Longrightarrow> ensures (\<lambda>st. I (ls_world st)) (in_world m) Q"
  by (auto simp: ensures_def in_world_def split: prod.splits)

lemma ensures_on_world: "ensures I m Q \<Longrightarrow> ensures (\<lambda>st. I (ts_world st)) (on_world m) Q"
  by (auto simp: ensures_def on_world_def split: prod.splits)

lemma ensures_if: "ensures I a R \<Longrightarrow> ensures I b R \<Longrightarrow> ensures I (if c then a else b) R"
  by simp

lemma ensures_decision:
  "ensures I a R \<Longrightarrow> (\<And>x. ensures I (b x) R) \<Longrightarrow> (\<And>x. ensures I (c x) R) \<Longrightarrow>
     ensures I (case d of Allow \<Rightarrow> a | Reject x \<Rightarrow> b x | Reduce x \<Rightarrow> c x) R"
  by (cases d) simp_all

lemma ensures_beside: "ensures (\<lambda>st. I (ts_risk st)) (on_world m) (\<lambda>_. True)"
  by (auto simp: ensures_def on_world_def split: prod.splits)

lemmas ensures_anyhow =
  ensures_bind [where Q = "\<lambda>_. True"] ensures_match [where Q = "\<lambda>_. True"] ensures_map_err ensures_if ensures_decision
  ensures_option ensures_lift [where Q = "\<lambda>_. True"] ensures_return [where Q = "\<lambda>_. True"]

lemma ensures_clock:
  "ensures (\<lambda>st. I (ls_world st)) (now_io X) (\<lambda>_. True)"
  "ensures (\<lambda>st. I (ls_world st)) (fresh_io X) (\<lambda>_. True)"
  "ensures (\<lambda>st. I (ls_world st)) (sleep_io d) (\<lambda>_. True)"
  by (simp_all add: ensures_def now_io_def fresh_io_def sleep_io_def)

lemma ensures_publish:
  assumes "\<And>ev w. I w \<Longrightarrow> I (snd (eb_publish B ev w))"
  shows "ensures I (io_publish B ev) (\<lambda>_. True)"
  using assms by (fastforce simp: ensures_def io_publish_def split: prod.splits dest: arg_cong [where f = snd])

section \<open>Ledgers of orders\<close>

text \<open>
  What can be said of each stored order: it is stored under its own identifier, and \<open>good\<close> holds of
  it there; and the orders in \<open>known\<close> are still stored.
\<close>

definition ledger ::
    "order_id set \<Rightarrow> (order_id \<Rightarrow> order \<Rightarrow> bool) \<Rightarrow> (order_id \<Rightarrow> order option) \<Rightarrow> bool" where
  "ledger known good c =
     (known \<subseteq> dom c \<and> (\<forall>i ord. c i = Some ord \<longrightarrow> OrderId (ord_id ord) = i \<and> good i ord))"

lemma ledger_put:
  "ledger known good c \<Longrightarrow> good (OrderId (ord_id ord)) ord \<Longrightarrow> ledger known good (c(OrderId (ord_id ord) \<mapsto> ord))"
  by (auto simp: ledger_def)

lemma ledger_mono:
  "ledger known good c \<Longrightarrow> (\<And>i ord. good i ord \<Longrightarrow> good' i ord) \<Longrightarrow> ledger known good' c"
  by (auto simp: ledger_def)

lemma ledgerD: "ledger known good c \<Longrightarrow> c i = Some ord \<Longrightarrow> OrderId (ord_id ord) = i \<and> good i ord"
  by (simp add: ledger_def)

text \<open>What the operations of an order keep.\<close>

definition kept_by_steps :: "dec_ops \<Rightarrow> (decimal \<Rightarrow> bool) \<Rightarrow> (order_id \<Rightarrow> order \<Rightarrow> bool) \<Rightarrow> bool" where
  "kept_by_steps D P good = (\<forall>i ord ord'. good i ord \<longrightarrow> order_step D P ord ord' \<longrightarrow> good i ord')"

lemma kept_by_stepsD: "kept_by_steps D P good \<Longrightarrow> good i ord \<Longrightarrow> order_step D P ord ord' \<Longrightarrow> good i ord'"
  by (auto simp: kept_by_steps_def)

lemma order_step_id: "order_step D P ord ord' \<Longrightarrow> ord_id ord' = ord_id ord"
  by (induction rule: order_step.induct)
    (auto simp: order_ops_eq_Ok dest!: order_fill_frame dest: arg_cong [where f = ord_id])

text \<open>All that an operation of an order leaves as it was.\<close>

definition same_terms :: "order \<Rightarrow> order \<Rightarrow> bool" where
  "same_terms ord ord' =
     (ord' = ord\<lparr>ord_filled_quantity := ord_filled_quantity ord', ord_status := ord_status ord',
                ord_updated_at := ord_updated_at ord'\<rparr>)"

lemma same_terms_refl [simp]: "same_terms ord ord"
  by (simp add: same_terms_def)

lemma same_terms_trans: "same_terms a b \<Longrightarrow> same_terms b c \<Longrightarrow> same_terms a c"
  by (cases a; cases b; cases c) (simp add: same_terms_def)

lemma same_terms_update [simp]:
  "same_terms a (b\<lparr>ord_status := s\<rparr>) = same_terms a b" "same_terms a (b\<lparr>ord_updated_at := t\<rparr>) = same_terms a b"
  by (cases a; cases b; simp add: same_terms_def)+

lemma order_step_terms: "order_step D P ord ord' \<Longrightarrow> same_terms ord ord'"
proof (induction rule: order_step.induct)
  case (by_fill q now1 now2 ord p ord')
  from order_fill_frame [OF this(2)] have "ord' = ord\<lparr>ord_filled_quantity := ord_filled_quantity ord',
      ord_status := ord_status ord', ord_updated_at := now2\<rparr>" by blast
  then show ?case by (cases ord; cases ord') (simp add: same_terms_def)
qed (auto simp: order_ops_eq_Ok)

section \<open>The desk\<close>

text \<open>The manager's state holds the world that both services share.\<close>

record 'w desk =
  dk_manager :: "'w lifecycle_state"
  dk_risk :: risk_engine

definition desk_world :: "'w desk \<Rightarrow> 'w" where
  "desk_world d = ls_world (dk_manager d)"

definition service_view :: "'w desk \<Rightarrow> 'w trading_state" where
  "service_view d = \<lparr>ts_world = desk_world d, ts_risk = dk_risk d\<rparr>"

definition on_service :: "('w trading_state, 'a, 'e) io \<Rightarrow> ('w desk, 'a, 'e) io" where
  "on_service m d =
     (case m (service_view d) of (r, st) \<Rightarrow>
        (r, d\<lparr>dk_manager := (dk_manager d)\<lparr>ls_world := ts_world st\<rparr>, dk_risk := ts_risk st\<rparr>))"

definition on_manager :: "('w lifecycle_state, 'a, 'e) io \<Rightarrow> ('w desk, 'a, 'e) io" where
  "on_manager m d = (case m (dk_manager d) of (r, st) \<Rightarrow> (r, d\<lparr>dk_manager := st\<rparr>))"

text \<open>What happened, with the answer of the service.\<close>

datatype desk_event =
    Placed order "(order_id, trading_error) res"
  | Withdrawn order_id "(unit, trading_error) res"
  | Reported order_update "(unit, lifecycle_error) res"
  | Executed fill "(unit, lifecycle_error) res"
  | Risk_Did risk_label

inductive desk_step ::
    "dec_ops \<Rightarrow> (timestamp \<Rightarrow> int) \<Rightarrow> texts \<Rightarrow> outside \<Rightarrow> 'w trading_ports \<Rightarrow> 'w lifecycle_ports \<Rightarrow>
     'w desk \<Rightarrow> desk_event \<Rightarrow> 'w desk \<Rightarrow> bool"
  for D df tx X T L where
  place: "on_service (place_order D tx T clk ord) d = (r, d') \<Longrightarrow> r \<noteq> Panic \<Longrightarrow>
    desk_step D df tx X T L d (Placed ord r) d'"
| withdraw: "on_service (cancel_order tx T clk i) d = (r, d') \<Longrightarrow> r \<noteq> Panic \<Longrightarrow>
    desk_step D df tx X T L d (Withdrawn i r) d'"
| report: "on_manager (process_order_update X L u cid) d = (r, d') \<Longrightarrow> r \<noteq> Panic \<Longrightarrow>
    desk_step D df tx X T L d (Reported u r) d'"
| execute: "on_manager (process_fill D X L f cid) d = (r, d') \<Longrightarrow> r \<noteq> Panic \<Longrightarrow>
    desk_step D df tx X T L d (Executed f r) d'"
| risk: "risk_step D df l (dk_risk d) e \<Longrightarrow> desk_step D df tx X T L d (Risk_Did l) (d\<lparr>dk_risk := e\<rparr>)"

text \<open>A history: each event between the desk it found and the desk it left.\<close>

type_synonym 'w desk_history = "('w desk \<times> desk_event \<times> 'w desk) list"

inductive desk_runs ::
    "dec_ops \<Rightarrow> (timestamp \<Rightarrow> int) \<Rightarrow> texts \<Rightarrow> outside \<Rightarrow> 'w trading_ports \<Rightarrow> 'w lifecycle_ports \<Rightarrow>
     'w desk \<Rightarrow> 'w desk_history \<Rightarrow> 'w desk \<Rightarrow> bool"
  for D df tx X T L d0 where
  start: "desk_runs D df tx X T L d0 [] d0"
| more: "desk_runs D df tx X T L d0 h d \<Longrightarrow> desk_step D df tx X T L d ev d' \<Longrightarrow>
    desk_runs D df tx X T L d0 (h @ [(d, ev, d')]) d'"

definition happened :: "'w desk_history \<Rightarrow> desk_event set" where
  "happened h = (\<lambda>(d, ev, d'). ev) ` set h"

lemma happened_simps [simp]:
  "happened [] = {}" "happened (h @ [(d, ev, d')]) = insert ev (happened h)"
  by (auto simp: happened_def)

definition risk_labels :: "desk_event set \<Rightarrow> risk_label set" where
  "risk_labels E = {l. Risk_Did l \<in> E} \<union> {L_check}"

lemma risk_runs_step: "risk_runs D df ls e e1 \<Longrightarrow> risk_step D df l e1 e2 \<Longrightarrow> l \<in> ls \<Longrightarrow> risk_runs D df ls e e2"
  unfolding risk_runs_def by (auto intro: rtranclp.rtrancl_into_rtrancl)

section \<open>The two services on the same stores\<close>

locale trading_desk =
  service: order_service T content + manager: lifecycle_service L content held
  for T :: "'w trading_ports" and L :: "'w lifecycle_ports"
    and content :: "'w \<Rightarrow> order_id \<Rightarrow> order option" and held :: "'w \<Rightarrow> symbol \<Rightarrow> position option" +
  assumes content_frames: "keeps content (fr_save (lp_fill_repo L) f)"
      "keeps content (pr_get_by_symbol (lp_position_repo L) s)" "keeps content (pr_upsert (lp_position_repo L) p)"
      "lp_dead_letter_queue L = Some send \<Longrightarrow> keeps content (send entry)"
    and held_frames: "keeps held (or_save (tp_order_repo T) ord)" "keeps held (or_update (tp_order_repo T) ord)"
      "keeps held (or_get (tp_order_repo T) i)" "keeps held (gw_place_order (tp_execution T) ord)"
      "keeps held (gw_cancel_order (tp_execution T) i)" "keeps held (pr_find_open_positions (tp_position_repo T))"
      "held (snd (eb_publish (tp_event_bus T) ev w)) = held w"
    and open_positions: "pr_find_open_positions (tp_position_repo T) w = (Ok ps, w') \<Longrightarrow> set ps = ran (held w)"
begin

text \<open>The manager's calls on a ledger.\<close>

abbreviation "kept_ledger known good \<equiv> (\<lambda>st. ledger known good (content (ls_world st)))"

lemmas ledger_any = ensures_any [where f = content]

lemma ledger_get:
  "ensures (\<lambda>w. ledger known good (content w)) (or_get (lp_order_repo L) i)
     (\<lambda>found. \<forall>ord. found = Some ord \<longrightarrow> OrderId (ord_id ord) = i \<and> good i ord)"
  unfolding ensures_def
proof (intro allI impI)
  fix w w' and r :: "(order option, repository_error) res"
  assume w: "ledger known good (content w)" "or_get (lp_order_repo L) i w = (r, w')" "r \<noteq> Panic"
  show "ledger known good (content w') \<and>
    (\<forall>x. r = Ok x \<longrightarrow> (\<forall>ord. x = Some ord \<longrightarrow> OrderId (ord_id ord) = i \<and> good i ord))"
  proof (cases r)
    case (Ok x)
    with manager.orders.get_Ok w(2) have "x = content w i" "content w' = content w" by blast+
    with w(1) Ok show ?thesis by (auto dest: ledgerD)
  next
    case (Err e)
    with manager.orders.get_Err w(2) have "content w' = content w" by blast
    with w(1) Err show ?thesis by simp
  qed (use w(3) in simp)
qed

lemma ledger_update:
  assumes "good (OrderId (ord_id ord)) ord"
  shows "ensures (\<lambda>w. ledger known good (content w)) (or_update (lp_order_repo L) ord) (\<lambda>_. True)"
  unfolding ensures_def
proof (intro allI impI conjI)
  fix w w' and r :: "(unit, repository_error) res"
  assume w: "ledger known good (content w)" "or_update (lp_order_repo L) ord w = (r, w')" "r \<noteq> Panic"
  show "ledger known good (content w')"
  proof (cases r)
    case (Ok x)
    with manager.orders.update_Ok w(2) have "content w' = (content w)(OrderId (ord_id ord) \<mapsto> ord)" by blast
    with ledger_put [OF w(1) assms] show ?thesis by simp
  next
    case (Err e)
    with manager.orders.update_Err w(2) have "content w' = content w" by blast
    with w(1) show ?thesis by simp
  qed (use w(3) in simp)
qed simp

lemma ledger_publish: "ensures (kept_ledger known good) (publish_at X L ev) (\<lambda>_. True)"
  unfolding publish_at_def
  apply (rule ensures_bind [OF ensures_clock(1)])
  apply (rule ensures_bind [where Q = "\<lambda>_. True"])
   apply (rule ensures_in_world [where I = "\<lambda>w. ledger known good (content w)"])
   apply (rule ensures_publish)
   apply (simp add: manager.publish_frame)
  apply (rule ensures_return, simp)
  done

lemma ledger_handle_update:
  assumes "kept_by_steps D P good"
  shows "ensures (kept_ledger known good) (handle_order_update X L u) (\<lambda>_. True)"
proof -
  have step: "good (OrderId (ord_id ord')) ord'"
    if "OrderId (ord_id ord) = ou_order_id u \<and> good (ou_order_id u) ord"
      and "update_status now ord (ou_status u) = Ok ord'" for now ord ord'
    using kept_by_stepsD [OF assms _ order_step.by_update [OF that(2)]]
      order_step_id [OF order_step.by_update [OF that(2)]] that(1) by auto
  show ?thesis
    unfolding handle_order_update_def Let_def
    apply (rule ensures_bind [OF ensures_map_err [OF ensures_in_world [OF ledger_get]]])
    apply (rule ensures_option)
     apply (rule ensures_lift, simp)
    apply (rule ensures_bind [OF ensures_clock(1)])
    apply (rule ensures_bind [OF ensures_map_err [OF ensures_lift [where Q = "\<lambda>ord'. good (OrderId (ord_id ord')) ord'"]]])
     apply (blast intro: step)
    apply (rule ensures_bind [OF ensures_map_err [OF ensures_in_world [OF ledger_update]]], assumption)
    apply (cases "ou_status u"; simp add: ledger_publish ensures_return)
    done
qed

lemma ledger_update_position: "ensures (kept_ledger known good) (update_position D X L f ord) (\<lambda>_. True)"
  unfolding update_position_def
  by (intro ensures_bind [where Q = "\<lambda>_. True"] ensures_map_err ensures_clock ensures_return ensures_lift
      ensures_option ensures_in_world [where I = "\<lambda>w. ledger known good (content w)"] ledger_any content_frames TrueI)

lemma ledger_handle_fill:
  assumes good: "kept_by_steps D P good" and q: "P (qty_inner (fl_quantity f))"
  shows "ensures (kept_ledger known good) (handle_fill D X L f) (\<lambda>_. True)"
proof -
  have step: "good (OrderId (ord_id ord')) ord'"
    if "OrderId (ord_id ord) = fl_order_id f \<and> good (fl_order_id f) ord"
      and "order_fill D now1 now2 ord (fl_quantity f) (fl_price f) = Ok ord'" for now1 now2 ord ord'
  proof -
    have s: "order_step D P ord ord'" using q that(2) by (rule order_step.by_fill)
    from kept_by_stepsD [OF good _ s] order_step_id [OF s] that(1) show ?thesis by auto
  qed
  show ?thesis
    unfolding handle_fill_def Let_def
    apply (rule ensures_bind [OF ensures_map_err [OF ensures_in_world [OF ledger_any [OF content_frames(1)]]]])
    apply (rule ensures_bind [OF ensures_map_err [OF ensures_in_world [OF ledger_get]]])
    apply (rule ensures_option)
     apply (rule ensures_lift, simp)
    apply (rule ensures_bind [OF ensures_clock(1)], rule ensures_bind [OF ensures_clock(1)])
    apply (rule ensures_bind [OF ensures_map_err [OF ensures_lift [where Q = "\<lambda>ord'. good (OrderId (ord_id ord')) ord'"]]])
     apply (blast intro: step)
    apply (rule ensures_bind [OF ensures_map_err [OF ensures_in_world [OF ledger_update]]], assumption)
    apply (rule ensures_bind [OF ledger_update_position])
    apply (rule ensures_bind [OF ensures_map_err [OF ensures_in_world [OF ledger_any [OF content_frames(2)]]]])
    apply (rule ensures_bind [where Q = "\<lambda>_. True"])
     apply (rule ensures_option)
      apply (rule ensures_return, simp)
     apply (rule ledger_publish)
    apply (rule ledger_publish)
    done
qed

lemma ledger_give_up: "ensures (kept_ledger known good) (give_up X L name cid e) (\<lambda>_. True)"
  unfolding give_up_def
  by (intro ensures_option ensures_bind [where Q = "\<lambda>_. True"] ensures_match [where Q = "\<lambda>_. True"] ensures_clock
      ensures_lift ensures_in_world [where I = "\<lambda>w. ledger known good (content w)"] ledger_any content_frames)
    simp_all

lemma ledger_retry:
  assumes "ensures (kept_ledger known good) op (\<lambda>_. True)"
  shows "ensures (kept_ledger known good) (retry_loop X L name cid op n d) (\<lambda>_. True)"
proof (induction n arbitrary: d)
  case 0
  show ?case using assms by (auto intro!: ensures_match ensures_return ledger_give_up)
next
  case (Suc n)
  show ?case
    using assms Suc
    by (auto intro!: ensures_match ensures_bind [where Q = "\<lambda>_. True"] ensures_return ledger_give_up ensures_clock)
qed

lemma ledger_process_update:
  "kept_by_steps D P good \<Longrightarrow> ensures (kept_ledger known good) (process_order_update X L u cid) (\<lambda>_. True)"
  unfolding process_order_update_def execute_with_retry_def by (rule ledger_retry [OF ledger_handle_update])

lemma ledger_process_fill:
  assumes "kept_by_steps D P good" and "P (qty_inner (fl_quantity f))"
  shows "ensures (kept_ledger known good) (process_fill D X L f cid) (\<lambda>_. True)"
  using ledger_retry [OF ledger_handle_fill [OF assms]]
  unfolding ensures_def process_fill_def execute_with_retry_def
  by (fastforce split: prod.splits res.splits if_splits)

text \<open>The service's calls on a ledger.\<close>

lemma place_changes:
  assumes "place_order D tx T clk ord st = (r, st')"
  shows "content (ts_world st') = content (ts_world st) \<and> (\<forall>i. r \<noteq> Ok i) \<or>
    (\<exists>ps w1 e. approved D T clk ord st ps w1 e)"
  using assms
proof (cases rule: place_order_cases [where 'z = "order_id \<Rightarrow> order option", consumes 1, case_names early save_failed reached])
  case early
  have "content (ts_world st') = content (ts_world st)"
    by (rule early(2)) (auto intro: service.positions_frame service.publish_keeps)
  with early(1) show ?thesis by simp
qed blast+

lemma ledger_place:
  assumes run: "place_order D tx T clk ord st = (r, st')" "r \<noteq> Panic"
    and led: "ledger known good (content (ts_world st))" and kept: "kept_by_steps D P good"
    and new: "\<And>ps w1 e. approved D T clk ord st ps w1 e \<Longrightarrow> good (OrderId (ord_id ord)) (submitted clk ord)"
  shows "ledger known good (content (ts_world st'))"
proof (cases "content (ts_world st') = content (ts_world st)")
  case False
  with place_changes [OF run(1)] new have g: "good (OrderId (ord_id ord)) (submitted clk ord)" by blast
  let ?rejected = "\<lambda>reason. (submitted clk ord)\<lparr>ord_status := Rejected (clk 3) reason, ord_updated_at := clk 4\<rparr>"
  have rej: "order_step D P (submitted clk ord) (?rejected reason)" for reason
    by (rule order_step.by_reject [of "clk 3" "clk 4" _ reason]) (simp add: order_reject_eq_Ok)
  have "good (OrderId (ord_id ord)) (?rejected reason)" for reason
    by (rule kept_by_stepsD [OF kept g rej])
  with g service.place_order_store [OF run] False led show ?thesis
    using ledger_put [OF led, of "submitted clk ord"] ledger_put [OF led, of "?rejected reason" for reason]
    by (cases r) (use run(2) in auto)
qed (use led in simp)

lemma ledger_withdraw:
  assumes run: "cancel_order tx T clk i st = (r, st')" "r \<noteq> Panic"
    and led: "ledger known good (content (ts_world st))" and kept: "kept_by_steps D P good"
  shows "ledger known good (content (ts_world st'))"
proof (cases r)
  case (Ok u)
  with service.cancel_order_store [OF run] obtain ord where ord: "content (ts_world st) i = Some ord"
      "order_can_cancel ord" "content (ts_world st') = (content (ts_world st))(OrderId (ord_id ord) \<mapsto>
         ord\<lparr>ord_status := Cancelled (clk 0) ''User request'', ord_updated_at := clk 1\<rparr>)" by auto
  let ?ord' = "ord\<lparr>ord_status := Cancelled (clk 0) ''User request'', ord_updated_at := clk 1\<rparr>"
  have s: "order_step D P ord ?ord'"
    by (rule order_step.by_cancel [of "clk 0" "clk 1" _ "''User request''"])
      (use ord(2) in \<open>simp add: order_cancel_def\<close>)
  from ledgerD [OF led ord(1)] kept_by_stepsD [OF kept _ s] have "good (OrderId (ord_id ?ord')) ?ord'" by auto
  from ledger_put [OF led this] ord(3) show ?thesis by simp
next
  case (Err e)
  with service.cancel_order_store [OF run] led show ?thesis by simp
qed (use run(2) in simp)

text \<open>One event on a ledger, and a whole history.\<close>

lemma ledger_step:
  assumes step: "desk_step D df tx X T L d ev d'"
    and led: "ledger known good (content (desk_world d))" and kept: "kept_by_steps D P good"
    and fills: "\<And>f r. ev = Executed f r \<Longrightarrow> P (qty_inner (fl_quantity f))"
    and new: "\<And>clk ord r ps w1 e. ev = Placed ord r \<Longrightarrow> approved D T clk ord (service_view d) ps w1 e \<Longrightarrow>
      good (OrderId (ord_id ord)) (submitted clk ord)"
  shows "ledger known good (content (desk_world d'))"
  using step
proof (cases rule: desk_step.cases)
  case (place clk ord r)
  from place(2) obtain st' where st': "place_order D tx T clk ord (service_view d) = (r, st')"
      "desk_world d' = ts_world st'"
    by (auto simp: on_service_def desk_world_def split: prod.splits)
  have "ledger known good (content (ts_world (service_view d)))" using led by (simp add: service_view_def)
  from ledger_place [OF st'(1) place(3) this kept new [OF place(1)]] st'(2) show ?thesis by simp
next
  case (withdraw clk i r)
  from withdraw(2) obtain st' where st': "cancel_order tx T clk i (service_view d) = (r, st')"
      "desk_world d' = ts_world st'"
    by (auto simp: on_service_def desk_world_def split: prod.splits)
  have "ledger known good (content (ts_world (service_view d)))" using led by (simp add: service_view_def)
  from ledger_withdraw [OF st'(1) withdraw(3) this kept] st'(2) show ?thesis by simp
next
  case (report u cid r)
  from report(2) obtain m where m: "process_order_update X L u cid (dk_manager d) = (r, m)" "dk_manager d' = m"
    by (auto simp: on_manager_def split: prod.splits)
  from ensuresD [OF ledger_process_update [OF kept] _ m(1) report(3)] led m(2) show ?thesis
    by (simp add: desk_world_def)
next
  case (execute f cid r)
  from execute(2) obtain m where m: "process_fill D X L f cid (dk_manager d) = (r, m)" "dk_manager d' = m"
    by (auto simp: on_manager_def split: prod.splits)
  from ensuresD [OF ledger_process_fill [OF kept fills [OF execute(1)]] _ m(1) execute(3)] led m(2)
  show ?thesis by (simp add: desk_world_def)
next
  case (risk l e)
  with led show ?thesis by (simp add: desk_world_def)
qed

lemma ledger_runs:
  assumes run: "desk_runs D df tx X T L d0 h d"
    and start: "ledger known (good []) (content (desk_world d0))"
    and kept: "\<And>h. kept_by_steps D P (good h)" and grows: "\<And>h x i ord. good h i ord \<Longrightarrow> good (h @ [x]) i ord"
    and fills: "\<And>f r. Executed f r \<in> happened h \<Longrightarrow> P (qty_inner (fl_quantity f))"
    and new: "\<And>g d d' clk ord r ps w1 e. desk_runs D df tx X T L d0 g d \<Longrightarrow> happened g \<subseteq> happened h \<Longrightarrow>
      Placed ord r \<in> happened h \<Longrightarrow> approved D T clk ord (service_view d) ps w1 e \<Longrightarrow>
      good (g @ [(d, Placed ord r, d')]) (OrderId (ord_id ord)) (submitted clk ord)"
  shows "ledger known (good h) (content (desk_world d))"
proof -
  have "ledger known (good g) (content (desk_world d))"
    if "desk_runs D df tx X T L d0 g d" and "happened g \<subseteq> happened h" for g d
    using that
  proof (induction rule: desk_runs.induct)
    case (more g d ev d')
    then have led: "ledger known (good g) (content (desk_world d))" by simp
    have "ledger known (good (g @ [(d, ev, d')])) (content (desk_world d))"
      by (rule ledger_mono [OF led]) (rule grows)
    from ledger_step [OF more.hyps(2) this kept] fills new [OF more.hyps(1)] more.prems show ?case
      by (metis happened_simps(2) insert_subset)
  qed (use start in simp)
  from this [OF run] show ?thesis by simp
qed

text \<open>The positions are the manager's alone.\<close>

lemma held_publish: "keeps held (io_publish (tp_event_bus T) ev)"
  using held_frames(7) by (auto simp: keeps_def io_publish_def split: prod.splits) (metis snd_conv)

lemmas held_on_world = keeps_on_world [where f = held, unfolded comp_def]

lemma held_rollback: "keeps (\<lambda>st. held (ts_world st)) (rollback_order_submission T clk i reason)"
  unfolding rollback_order_submission_def by (intro keeps_intros held_on_world held_frames)

lemma held_execute: "keeps (\<lambda>st. held (ts_world st)) (execute_and_announce T clk ord)"
  unfolding execute_and_announce_def
  by (intro keeps_intros held_on_world held_frames held_publish held_rollback)

lemma held_place: "keeps (\<lambda>st. held (ts_world st)) (place_order D tx T clk ord)"
proof -
  have decision: "keeps f a \<Longrightarrow> (\<And>x. keeps f (b x)) \<Longrightarrow> (\<And>x. keeps f (c x)) \<Longrightarrow>
      keeps f (case d of Allow \<Rightarrow> a | Reject x \<Rightarrow> b x | Reduce x \<Rightarrow> c x)"
    for d and f :: "'w trading_state \<Rightarrow> symbol \<Rightarrow> position option" and a :: "('w trading_state, 'x, 'y) io" and b c
    by (cases d) simp_all
  show ?thesis
    unfolding place_order_def Let_def
    by (intro keeps_intros decision held_on_world held_frames held_publish held_execute
        keeps_check_risk [where f = held, unfolded comp_def])
qed

lemma held_withdraw: "keeps (\<lambda>st. held (ts_world st)) (cancel_order tx T clk i)"
  unfolding cancel_order_def by (intro keeps_intros held_on_world held_frames held_publish)

lemma flat_report: "stays manager.flat (process_order_update X L u cid)"
proof -
  have "stays manager.flat (handle_order_update X L u)"
    unfolding handle_order_update_def Let_def
    by (cases "ou_status u")
      (auto split: option.splits intro!: stays_bind stays_map_err manager.flat_in_world manager.order_frames
        manager.flat_now manager.flat_publish)
  then show ?thesis
    unfolding process_order_update_def execute_with_retry_def by (rule manager.flat_retry)
qed

lemma flat_step:
  assumes "desk_step D df tx X T L d ev d'" and flat: "held (desk_world d) = Map.empty"
  shows "held (desk_world d') = Map.empty"
  using assms(1)
proof (cases rule: desk_step.cases)
  case (place clk ord r)
  with keepsD [OF held_place] flat show ?thesis
    by (fastforce simp: on_service_def service_view_def desk_world_def split: prod.splits)
next
  case (withdraw clk i r)
  with keepsD [OF held_withdraw] flat show ?thesis
    by (fastforce simp: on_service_def service_view_def desk_world_def split: prod.splits)
next
  case (report u cid r)
  with staysD [OF flat_report] flat show ?thesis
    by (fastforce simp: on_manager_def desk_world_def split: prod.splits)
next
  case (execute f cid r)
  with staysD [OF manager.flat_process_fill] flat show ?thesis
    by (fastforce simp: on_manager_def desk_world_def split: prod.splits)
next
  case (risk l e)
  with flat show ?thesis by (simp add: desk_world_def)
qed

text \<open>Every desk of a history is one its beginning leads to.\<close>

lemma history_runs:
  assumes "desk_runs D df tx X T L d0 h d" and "(d1, ev, d2) \<in> set h"
  shows "\<exists>g. desk_runs D df tx X T L d0 g d1 \<and> desk_step D df tx X T L d1 ev d2 \<and> happened g \<subseteq> happened h"
  using assms by (induction rule: desk_runs.induct) auto

lemma flat_runs:
  "desk_runs D df tx X T L d0 h d \<Longrightarrow> held (desk_world d0) = Map.empty \<Longrightarrow> held (desk_world d) = Map.empty"
  by (induction rule: desk_runs.induct) (auto dest: flat_step)

text \<open>A placement that succeeds was approved.\<close>

lemma success_approved:
  assumes "desk_step D df tx X T L d (Placed ord (Ok i)) d'"
  shows "\<exists>clk ps w1 e. approved D T clk ord (service_view d) ps w1 e"
  using assms
proof (cases rule: desk_step.cases)
  case (place clk)
  then obtain st' where "place_order D tx T clk ord (service_view d) = (Ok i, st')"
    by (auto simp: on_service_def split: prod.splits)
  from place_changes [OF this] show ?thesis by blast
qed

text \<open>The engine of a desk is always one that its own operations lead to.\<close>

lemma engine_place:
  assumes checks: "\<And>now e ps price e' d. check_pre_trade D now e ord ps price = Ok (e', d) \<Longrightarrow> I e \<Longrightarrow> I e'"
  shows "ensures (\<lambda>st. I (ts_risk st)) (place_order D tx T clk ord) (\<lambda>_. True)"
proof -
  have check: "ensures (\<lambda>st. I (ts_risk st)) (check_risk D now ord ps price) (\<lambda>_. True)" for now ps price
    by (auto simp: ensures_def check_risk_def dest: checks split: res.splits)
  show ?thesis
    unfolding place_order_def execute_and_announce_def rollback_order_submission_def Let_def
    by (intro ensures_anyhow check ensures_beside TrueI)
qed

lemma engine_withdraw: "ensures (\<lambda>st. I (ts_risk st)) (cancel_order tx T clk i) (\<lambda>_. True)"
  unfolding cancel_order_def by (intro ensures_anyhow ensures_beside TrueI)

lemma engine_step:
  assumes "desk_step D df tx X T L d ev d'" and "risk_runs D df (risk_labels E) e (dk_risk d)" and "ev \<in> E"
  shows "risk_runs D df (risk_labels E) e (dk_risk d')"
  using assms(1)
proof (cases rule: desk_step.cases)
  case (place clk ord r)
  from place(2) obtain st' where st': "place_order D tx T clk ord (service_view d) = (r, st')" "dk_risk d' = ts_risk st'"
    by (auto simp: on_service_def split: prod.splits)
  have check: "risk_runs D df (risk_labels E) e e2"
    if "check_pre_trade D now e1 ord ps price = Ok (e2, c)" and "risk_runs D df (risk_labels E) e e1"
    for now e1 ps price e2 c
    by (rule risk_runs_step [OF that(2) risk_step.check [OF that(1)]]) (simp add: risk_labels_def)
  from ensuresD [OF engine_place [OF check] _ st'(1) place(3)] assms(2) st'(2) show ?thesis
    by (simp add: service_view_def)
next
  case (withdraw clk i r)
  from withdraw(2) obtain st' where st': "cancel_order tx T clk i (service_view d) = (r, st')" "dk_risk d' = ts_risk st'"
    by (auto simp: on_service_def split: prod.splits)
  from ensuresD [OF engine_withdraw [where I = "risk_runs D df (risk_labels E) e"] _ st'(1) withdraw(3)] assms(2) st'(2)
  show ?thesis by (simp add: service_view_def)
next
  case (report u cid r)
  with assms(2) show ?thesis by (auto simp: on_manager_def split: prod.splits)
next
  case (execute f cid r)
  with assms(2) show ?thesis by (auto simp: on_manager_def split: prod.splits)
next
  case (risk l e')
  with assms(2,3) show ?thesis
    by (auto simp: risk_labels_def intro: risk_runs_step)
qed

lemma engine_runs:
  assumes "desk_runs D df tx X T L d0 h d" and "happened h \<subseteq> E"
  shows "risk_runs D df (risk_labels E) (dk_risk d0) (dk_risk d)"
  using assms
proof (induction rule: desk_runs.induct)
  case start
  show ?case by (simp add: risk_runs_def)
next
  case (more h d ev d')
  then show ?case using engine_step by auto
qed

end

interpretation cli_desk: trading_desk "cli_ports G B" "lifecycle_wiring F B Q cfg" cli_orders cli_positions
  for G :: "'g execution_gateway" and B :: "'b event_bus_port" and F :: "'g fill_repository"
    and Q :: "(dead_letter_entry \<Rightarrow> ('g, unit, lifecycle_error) io) option" and cfg :: lifecycle_config
  by unfold_locales
    (auto simp: lifecycle_wiring_def cli_ports_def cli_orders_def cli_positions_def keeps_def Let_def
      on_orders_def on_positions_def on_gateway_def mock_order_save_def mock_order_update_def mock_order_get_def
      mock_position_find_open_positions_def mock_position_upsert_def mock_position_find_by_symbol_def
      set_hash_values split: prod.splits)

text \<open>What was read as the open positions when an order was approved.\<close>

lemma approved_on_open_positions:
  "approved D (cli_ports G B) clk ord st ps w e \<Longrightarrow> ps = hash_values (cw_positions (ts_world st))"
  by (auto simp: approved_def cli_ports_def on_positions_def mock_position_find_open_positions_def)

lemma kept_terms: "kept_by_steps D P (\<lambda>i ord. \<exists>x \<in> S. R x i \<and> same_terms (t x) ord)"
  unfolding kept_by_steps_def by (blast dest: order_step_terms intro: same_terms_trans)

lemma kept_sound: "dec_ok D \<Longrightarrow> k \<le> 28 \<Longrightarrow> kept_by_steps D (\<lambda>q. 0 \<le> q \<and> on_grid k q) (\<lambda>i. sound_at k)"
  unfolding kept_by_steps_def by (blast dest: order_step_sound)

section \<open>Properties\<close>

text \<open>The order of an event that placed one.\<close>

fun placed_order :: "desk_event \<Rightarrow> order option" where
  "placed_order (Placed ord r) = Some ord"
| "placed_order _ = None"

text \<open>C1:
  Every order in the repository was allowed.  Whatever is placed, cancelled, reported and filled on a
  desk that began without orders: a stored order is one that was placed, passed the submission check and
  was answered \<open>Allow\<close> by the risk engine as it stood then, on the open positions of that moment; since
  then nothing but its status, its filled quantity and its time of change is different.
\<close>

theorem stored_orders_were_allowed:
  assumes "desk_runs D df tx X (cli_ports G B) (lifecycle_wiring F B Q cfg) d0 h d"
    and "cli_orders (desk_world d0) = Map.empty" and "cli_orders (desk_world d) i = Some ord"
  shows "OrderId (ord_id ord) = i \<and>
    (\<exists>d1 new r d2 now e. (d1, Placed new r, d2) \<in> set h \<and> same_terms new ord \<and>
       validate_for_submission new = Ok () \<and>
       check_pre_trade D now (dk_risk d1) new (hash_values (cw_positions (desk_world d1))) (check_price new) =
         Ok (e, Allow))"
proof -
  let ?ok = "\<lambda>x i. case x of (d1, ev, d2) \<Rightarrow> \<exists>new now e. placed_order ev = Some new \<and>
      validate_for_submission new = Ok () \<and>
      check_pre_trade D now (dk_risk d1) new (hash_values (cw_positions (desk_world d1))) (check_price new) =
        Ok (e, Allow)"
  let ?good = "\<lambda>h i ord. \<exists>x \<in> set h. ?ok x i \<and> same_terms (the (placed_order (fst (snd x)))) ord"
  have "ledger {} (?good h) (cli_orders (desk_world d))"
    using assms(1)
  proof (rule cli_desk.ledger_runs [where P = "\<lambda>_. True"])
    show "ledger {} (?good []) (cli_orders (desk_world d0))" using assms(2) by (simp add: ledger_def)
    show "kept_by_steps D (\<lambda>_. True) (?good h)" for h by (rule kept_terms)
    show "?good (h @ [x]) i ord" if "?good h i ord" for h x i ord using that by auto
    show "?good (g @ [(d, Placed new r, d')]) (OrderId (ord_id new)) (submitted clk new)"
      if "approved D (cli_ports G B) clk new (service_view d) ps w1 e" for g d d' clk new r ps w1 e
    proof -
      from that approved_on_open_positions [OF that] have "?ok (d, Placed new r, d') (OrderId (ord_id new))"
        by (auto simp: approved_def service_view_def)
      moreover have "same_terms new (submitted clk new)" by (simp add: submitted_def)
      ultimately show ?thesis by auto
    qed
  qed simp
  from ledgerD [OF this assms(3)] show ?thesis by (fastforce elim: placed_order.elims)
qed

text \<open>C2:
  No order is over-filled on a desk.  When the orders that are placed are new and all quantities have the
  same number of decimal places, then through any history of placements, cancellations, status reports and
  fills, with every retry, the filled quantity of every stored order lies between zero and its quantity.
\<close>

theorem desk_never_overfills:
  assumes "desk_runs D df tx X (cli_ports G B) (lifecycle_wiring F B Q cfg) d0 h d"
    and "dec_ok D" and "k \<le> 28" and "cli_orders (desk_world d0) = Map.empty"
    and placed: "\<And>new r. Placed new r \<in> happened h \<Longrightarrow>
      on_grid k (qty_inner (ord_quantity new)) \<and> qty_inner (ord_filled_quantity new) = 0"
    and filled: "\<And>f r. Executed f r \<in> happened h \<Longrightarrow> 0 \<le> qty_inner (fl_quantity f) \<and> on_grid k (qty_inner (fl_quantity f))"
    and "cli_orders (desk_world d) i = Some ord"
  shows "0 \<le> qty_inner (ord_filled_quantity ord) \<and> qty_inner (ord_filled_quantity ord) \<le> qty_inner (ord_quantity ord)"
proof -
  have "ledger {} (\<lambda>i. sound_at k) (cli_orders (desk_world d))"
    using assms(1)
  proof (rule cli_desk.ledger_runs [where P = "\<lambda>q. 0 \<le> q \<and> on_grid k q" and good = "\<lambda>h i. sound_at k"])
    show "sound_at k (submitted clk new)"
      if "Placed new r \<in> happened h" "approved D (cli_ports G B) clk new (service_view d) ps w1 e"
      for d clk new r ps w1 e
    proof -
      have "0 < qty_inner (ord_quantity new)"
        using that(2) by (auto simp: approved_def validate_for_submission_def split: if_splits)
      with placed [OF that(1)] show ?thesis by (simp add: sound_at_def submitted_def on_grid_0)
    qed
  qed (use assms(4) filled in \<open>simp_all add: ledger_def kept_sound [OF assms(2,3)]\<close>)
  from ledgerD [OF this assms(7)] show ?thesis by (simp add: sound_at_def)
qed

text \<open>C3:
  A finished order stays finished.  Once a stored order is filled, cancelled or rejected, no history of
  the desk that does not place its identifier again moves it to another phase of its life or changes
  what was filled of it, whatever is cancelled, reported or filled.
\<close>

theorem finished_order_stays:
  assumes "desk_runs D df tx X (cli_ports G B) (lifecycle_wiring F B Q cfg) d0 h d"
    and keyed: "\<And>j o1. cli_orders (desk_world d0) j = Some o1 \<Longrightarrow> OrderId (ord_id o1) = j"
    and ord: "cli_orders (desk_world d0) i = Some ord" "order_is_terminal ord"
    and others: "\<And>new r. Placed new r \<in> happened h \<Longrightarrow> OrderId (ord_id new) \<noteq> i"
  shows "\<exists>ord'. cli_orders (desk_world d) i = Some ord' \<and> phase_of (ord_status ord') = phase_of (ord_status ord) \<and>
    ord_filled_quantity ord' = ord_filled_quantity ord \<and> same_terms ord ord'"
proof -
  let ?good = "\<lambda>j o1. j = i \<longrightarrow> phase_of (ord_status o1) = phase_of (ord_status ord) \<and>
    ord_filled_quantity o1 = ord_filled_quantity ord \<and> same_terms ord o1"
  have kept: "kept_by_steps D (\<lambda>_. True) ?good"
    unfolding kept_by_steps_def
  proof (intro allI impI)
    fix j o1 o2 assume g: "?good j o1" and s: "order_step D (\<lambda>_. True) o1 o2" and j: "j = i"
    from g j ord(2) have "order_is_terminal o1" by (simp add: order_is_terminal_def terminal_phase)
    with order_step_terminal [OF s] order_step_terms [OF s] g j
    show "phase_of (ord_status o2) = phase_of (ord_status ord) \<and>
        ord_filled_quantity o2 = ord_filled_quantity ord \<and> same_terms ord o2"
      by (auto intro: same_terms_trans)
  qed
  have "ledger {i} ?good (cli_orders (desk_world d))"
    using assms(1)
  proof (rule cli_desk.ledger_runs [where P = "\<lambda>_. True" and good = "\<lambda>h. ?good"])
    show "ledger {i} ?good (cli_orders (desk_world d0))" using keyed ord(1) by (auto simp: ledger_def)
  qed (use kept others in auto)
  then show ?thesis by (fastforce simp: ledger_def)
qed

text \<open>C4:
  The risk checks never see a position.  On a desk that began without positions there is none after any
  history of placements, cancellations, reports and fills, so every placement that succeeded was allowed
  on the empty list of positions: the limits on positions and exposures bound each order alone, never
  the sum of what was bought.
\<close>

theorem checks_see_no_positions:
  assumes "desk_runs D df tx X (cli_ports G B) (lifecycle_wiring F B Q cfg) d0 h d"
    and "cli_positions (desk_world d0) = Map.empty"
  shows "cli_positions (desk_world d) = Map.empty \<and>
    (\<forall>d1 ord i d2. (d1, Placed ord (Ok i), d2) \<in> set h \<longrightarrow>
       (\<exists>now e. check_pre_trade D now (dk_risk d1) ord [] (check_price ord) = Ok (e, Allow)))"
proof (intro conjI allI impI)
  show "cli_positions (desk_world d) = Map.empty" by (rule cli_desk.flat_runs [OF assms])
next
  fix d1 ord i d2 assume "(d1, Placed ord (Ok i), d2) \<in> set h"
  from cli_desk.history_runs [OF assms(1) this] obtain g where
    g: "desk_runs D df tx X (cli_ports G B) (lifecycle_wiring F B Q cfg) d0 g d1"
      "desk_step D df tx X (cli_ports G B) (lifecycle_wiring F B Q cfg) d1 (Placed ord (Ok i)) d2" by blast
  from cli_desk.success_approved [OF g(2)] obtain clk ps w1 e where
    a: "approved D (cli_ports G B) clk ord (service_view d1) ps w1 e" by blast
  have "hash_get (cw_positions (desk_world d1)) = Map.empty"
    using cli_desk.flat_runs [OF g(1) assms(2)] by (simp add: cli_positions_def)
  then have "set (hash_values (cw_positions (desk_world d1))) = {}" by (simp add: set_hash_values)
  with approved_on_open_positions [OF a] have "ps = []" by (simp add: service_view_def)
  with a show "\<exists>now e. check_pre_trade D now (dk_risk d1) ord [] (check_price ord) = Ok (e, Allow)"
    by (auto simp: approved_def service_view_def)
qed

text \<open>C5:
  A halted desk places nothing.  While the kill switch is triggered and is not reset, whatever else
  happens on the desk, every placement fails, and neither the repository of orders nor the gateway is
  touched by it.
\<close>

theorem halted_desk_places_nothing:
  assumes "desk_runs D df tx X (cli_ports G B) (lifecycle_wiring F B Q cfg) d0 h d"
    and "rs_kill_switch_triggered (re_state (dk_risk d0))" and "Risk_Did L_reset \<notin> happened h"
    and "(d1, Placed ord r, d2) \<in> set h"
  shows "\<not> is_ok r \<and> cli_orders (desk_world d2) = cli_orders (desk_world d1) \<and>
    cw_gateway (desk_world d2) = cw_gateway (desk_world d1)"
proof -
  from cli_desk.history_runs [OF assms(1,4)] obtain g where
    g: "desk_runs D df tx X (cli_ports G B) (lifecycle_wiring F B Q cfg) d0 g d1" "happened g \<subseteq> happened h"
      "desk_step D df tx X (cli_ports G B) (lifecycle_wiring F B Q cfg) d1 (Placed ord r) d2" by blast
  have "L_reset \<notin> risk_labels (happened h)" using assms(3) by (simp add: risk_labels_def)
  with kill_switch_runs [OF cli_desk.engine_runs [OF g(1,2)] _ assms(2)]
  have halted: "rs_kill_switch_triggered (re_state (dk_risk d1))" by blast
  have no: False if "approved D (cli_ports G B) clk ord (service_view d1) ps w1 e" for clk ps w1 e
    using that halted check_pre_trade_allow
    by (fastforce simp: approved_def service_view_def passes_def trading_halted_def)
  from g(3) obtain clk st' where p: "place_order D tx (cli_ports G B) clk ord (service_view d1) = (r, st')"
      "desk_world d2 = ts_world st'"
    by (cases rule: desk_step.cases) (auto simp: on_service_def desk_world_def split: prod.splits)
  have keep: "keeps (\<lambda>w. (cw_gateway w, cw_orders w)) (pr_find_open_positions (tp_position_repo (cli_ports G B)))"
    "keeps (\<lambda>w. (cw_gateway w, cw_orders w))
       (io_publish (tp_event_bus (cli_ports G B)) ev :: (_, nat, trading_error) io)" for ev
    by (auto simp: keeps_def cli_ports_def on_positions_def io_publish_def split: prod.splits)
  from p(1) show ?thesis
  proof (cases rule: place_order_cases [where 'z = "'a \<times> mock_orders", consumes 1, case_names early save_failed reached])
    case early
    have "(cw_gateway (ts_world st'), cw_orders (ts_world st')) =
        (cw_gateway (ts_world (service_view d1)), cw_orders (ts_world (service_view d1)))"
      by (rule early(2)) (rule keep)+
    with early(1) p(2) show ?thesis by (auto simp: is_ok_iff cli_orders_def service_view_def)
  qed (use no in blast)+
qed

section \<open>A sample desk\<close>

definition sample_fills :: "order list fill_repository" where
  "sample_fills = \<lparr>fr_save = (\<lambda>f w. (Ok (), w))\<rparr>"

definition opening_desk :: "mock_orders \<Rightarrow> risk_engine \<Rightarrow> (order list, trading_event list) cli_world desk" where
  "opening_desk m e =
     \<lparr>dk_manager = \<lparr>ls_world = sample_world\<lparr>cw_orders := m\<rparr>, ls_processed_fills = {}, ls_slept = [], ls_ticks = 0\<rparr>,
      dk_risk = e\<rparr>"

abbreviation "sample_desk_runs \<equiv>
  desk_runs exact_dec (\<lambda>t. 0) sample_texts sample_outside (cli_ports sample_gateway sample_bus)
    (lifecycle_wiring sample_fills sample_bus None lifecycle_config_default)"

abbreviation "sample_desk_step \<equiv>
  desk_step exact_dec (\<lambda>t. 0) sample_texts sample_outside (cli_ports sample_gateway sample_bus)
    (lifecycle_wiring sample_fills sample_bus None lifecycle_config_default)"

lemma one_event: "sample_desk_step d ev d' \<Longrightarrow> sample_desk_runs d [(d, ev, d')] d'"
  using desk_runs.more [OF desk_runs.start] by fastforce

text \<open>An order placed on an empty desk.\<close>

lemma sample_placement:
  "\<exists>d. sample_desk_step (opening_desk hash_empty (risk_engine_new 0 risk_config_default))
         (Placed sample_risk_order (Ok (OrderId 7))) d \<and>
       cli_orders (desk_world d) = [OrderId 7 \<mapsto> submitted int sample_risk_order]"
proof -
  let ?d = "opening_desk hash_empty (risk_engine_new 0 risk_config_default)"
  have v: "service_view ?d = sample_state"
    by (simp add: service_view_def opening_desk_def desk_world_def sample_state_def sample_world_def)
  obtain st' where p: "place_order exact_dec sample_texts (cli_ports sample_gateway sample_bus) int sample_risk_order
      sample_state = (Ok (OrderId 7), st')" using sample_place by blast
  let ?d' = "?d\<lparr>dk_manager := (dk_manager ?d)\<lparr>ls_world := ts_world st'\<rparr>, dk_risk := ts_risk st'\<rparr>"
  have "on_service (place_order exact_dec sample_texts (cli_ports sample_gateway sample_bus) int sample_risk_order) ?d =
      (Ok (OrderId 7), ?d')" using p by (simp add: on_service_def v)
  then have "sample_desk_step ?d (Placed sample_risk_order (Ok (OrderId 7))) ?d'" by (rule desk_step.place) simp
  moreover have "ord_id sample_risk_order = 7" by (simp add: sample_risk_order_def sample_order_def)
  then have "cli_orders (desk_world ?d') = [OrderId 7 \<mapsto> submitted int sample_risk_order]"
    using cli.place_order_store [OF p]
    by (simp add: desk_world_def cli_orders_def sample_state_def sample_world_def)
  ultimately show ?thesis by blast
qed

theorem stored_orders_were_allowed_witness:
  "\<exists>d e now. sample_desk_step (opening_desk hash_empty (risk_engine_new 0 risk_config_default))
       (Placed sample_risk_order (Ok (OrderId 7))) d \<and>
     cli_orders (desk_world d) (OrderId 7) = Some (submitted int sample_risk_order) \<and>
     check_pre_trade exact_dec now (risk_engine_new 0 risk_config_default) sample_risk_order [] (Price 150) = Ok (e, Allow)"
proof -
  let ?d = "opening_desk hash_empty (risk_engine_new 0 risk_config_default)"
  obtain d where d: "sample_desk_step ?d (Placed sample_risk_order (Ok (OrderId 7))) d"
      "cli_orders (desk_world d) = [OrderId 7 \<mapsto> submitted int sample_risk_order]" using sample_placement by blast
  have "cli_orders (desk_world ?d) = Map.empty" "hash_values (cw_positions (desk_world ?d)) = []"
      "dk_risk ?d = risk_engine_new 0 risk_config_default" "check_price sample_risk_order = Price 150"
    by (simp_all add: opening_desk_def desk_world_def cli_orders_def sample_world_def check_price_def
        sample_risk_order_def sample_order_def)
  with stored_orders_were_allowed [OF one_event [OF d(1)], of "OrderId 7"] d(2) obtain e now where
    "check_pre_trade exact_dec now (risk_engine_new 0 risk_config_default) sample_risk_order [] (Price 150) = Ok (e, Allow)"
    by auto
  with d show ?thesis by (intro exI [of _ d] exI [of _ e] exI [of _ now]) simp
qed

theorem desk_never_overfills_witness:
  "\<exists>d ord. sample_desk_step (opening_desk hash_empty (risk_engine_new 0 risk_config_default))
       (Placed sample_risk_order (Ok (OrderId 7))) d \<and>
     cli_orders (desk_world d) (OrderId 7) = Some ord \<and> qty_inner (ord_filled_quantity ord) \<le> qty_inner (ord_quantity ord)"
proof -
  let ?d = "opening_desk hash_empty (risk_engine_new 0 risk_config_default)"
  obtain d where d: "sample_desk_step ?d (Placed sample_risk_order (Ok (OrderId 7))) d"
      "cli_orders (desk_world d) = [OrderId 7 \<mapsto> submitted int sample_risk_order]" using sample_placement by blast
  have e: "cli_orders (desk_world ?d) = Map.empty"
    by (simp add: opening_desk_def desk_world_def cli_orders_def sample_world_def)
  have "qty_inner (ord_quantity sample_risk_order) = of_nat 100" "qty_inner (ord_filled_quantity sample_risk_order) = 0"
    by (simp_all add: sample_risk_order_def sample_order_def)
  with on_grid_of_nat [of 100]
  have "on_grid 0 (qty_inner (ord_quantity sample_risk_order)) \<and> qty_inner (ord_filled_quantity sample_risk_order) = 0"
    by simp
  with desk_never_overfills [OF one_event [OF d(1)] dec_ok_exact, of 0 "OrderId 7" "submitted int sample_risk_order"] e d
  show ?thesis by (auto simp: happened_def)
qed

theorem checks_see_no_positions_witness:
  "\<exists>d e now. sample_desk_step (opening_desk hash_empty (risk_engine_new 0 risk_config_default))
       (Placed sample_risk_order (Ok (OrderId 7))) d \<and> cli_positions (desk_world d) = Map.empty \<and>
     check_pre_trade exact_dec now (risk_engine_new 0 risk_config_default) sample_risk_order [] (Price 150) = Ok (e, Allow)"
proof -
  let ?d = "opening_desk hash_empty (risk_engine_new 0 risk_config_default)"
  obtain d where d: "sample_desk_step ?d (Placed sample_risk_order (Ok (OrderId 7))) d" using sample_placement by blast
  have "cli_positions (desk_world ?d) = Map.empty" "dk_risk ?d = risk_engine_new 0 risk_config_default"
      "check_price sample_risk_order = Price 150"
    by (simp_all add: opening_desk_def desk_world_def cli_positions_def sample_world_def check_price_def
        sample_risk_order_def sample_order_def)
  with checks_see_no_positions [OF one_event [OF d]] d show ?thesis by fastforce
qed

text \<open>An order that was cancelled is cancelled again.\<close>

definition finished_order :: order where
  "finished_order = sample_risk_order\<lparr>ord_status := Cancelled 1 ''User request''\<rparr>"

theorem finished_order_stays_witness:
  "\<exists>d e ord'. sample_desk_step (opening_desk (hash_insert (OrderId 7) finished_order hash_empty)
       (risk_engine_new 0 risk_config_default)) (Withdrawn (OrderId 7) (Err e)) d \<and>
     cli_orders (desk_world d) (OrderId 7) = Some ord' \<and> phase_of (ord_status ord') = P_Cancelled"
proof -
  let ?d = "opening_desk (hash_insert (OrderId 7) finished_order hash_empty) (risk_engine_new 0 risk_config_default)"
  have "on_service (cancel_order sample_texts (cli_ports sample_gateway sample_bus) int (OrderId 7)) ?d =
      (Err (Tr_InvalidState ''Order cannot be cancelled in state: ''), ?d)"
    by (simp add: on_service_def service_view_def desk_world_def opening_desk_def cancel_order_def cli_ports_def
        io_bind_def io_map_err_def io_lift_def on_world_def on_orders_def mock_order_get_def finished_order_def
        order_can_cancel_def sample_texts_def)
  then have s: "sample_desk_step ?d (Withdrawn (OrderId 7) (Err (Tr_InvalidState ''Order cannot be cancelled in state: ''))) ?d"
    by (rule desk_step.withdraw) simp
  have o: "cli_orders (desk_world ?d) = [OrderId 7 \<mapsto> finished_order]" "ord_id finished_order = 7"
      "order_is_terminal finished_order" "phase_of (ord_status finished_order) = P_Cancelled"
    by (simp_all add: opening_desk_def desk_world_def cli_orders_def finished_order_def sample_risk_order_def
        sample_order_def order_is_terminal_def)
  from finished_order_stays [OF one_event [OF s], of "OrderId 7" finished_order] o s show ?thesis
    by (fastforce simp: happened_def split: if_splits)
qed

theorem halted_desk_places_nothing_witness:
  "\<exists>e r d. trigger_kill_switch 1 (risk_engine_new 0 risk_config_default) = Ok e \<and>
     sample_desk_step (opening_desk hash_empty e) (Placed sample_risk_order r) d \<and> \<not> is_ok r \<and>
     cw_gateway (desk_world d) = []"
proof -
  obtain e where e: "trigger_kill_switch 1 (risk_engine_new 0 risk_config_default) = Ok e"
      "rs_kill_switch_triggered (re_state e)" "\<not> re_poisoned e"
    by (simp add: trigger_kill_switch_def with_lock_def risk_engine_new_def risk_config_default_def)
  let ?d = "opening_desk hash_empty e"
  obtain r d where d: "on_service (place_order exact_dec sample_texts (cli_ports sample_gateway sample_bus) int
      sample_risk_order) ?d = (r, d)" by fastforce
  have "check_pre_trade exact_dec t e sample_risk_order ps price =
      decide t e (Reject ''KILL SWITCH ACTIVE - Trading disabled'')" for t ps price
    using e(2,3) by (simp add: check_pre_trade_def with_lock_def trading_halted_def)
  then have "r \<noteq> Panic"
    using d e(3) sample_valid
    by (auto simp: on_service_def service_view_def desk_world_def opening_desk_def place_order_def cli_ports_def
        io_bind_def io_match_def io_map_err_def io_lift_def on_world_def on_positions_def check_risk_def decide_def
        record_decision_def with_lock_def mock_position_find_open_positions_def io_publish_def sample_bus_def Let_def
        split: prod.splits)
  then have s: "sample_desk_step ?d (Placed sample_risk_order r) d" by (rule desk_step.place [OF d])
  have "cw_gateway (desk_world ?d) = []" "dk_risk ?d = e"
    by (simp_all add: opening_desk_def desk_world_def sample_world_def)
  with halted_desk_places_nothing [OF one_event [OF s], of ?d sample_risk_order r d] e s show ?thesis
    by (auto simp: happened_def)
qed

end
