(* ===== verification/Metrics.thy ===== *)
theory Metrics
  imports Health Trading_Events
begin

text \<open>
  The metrics of \<open>crates/infrastructure/src/metrics.rs\<close> and the monitoring server of \<open>monitoring.rs\<close>.
  Counters and gauges of the \<open>prometheus\<close> crate hold an \<open>f64\<close>; a histogram is the list of what it
  observed.  Rounding to an \<open>f64\<close> is a parameter, as is \<open>Duration::as_secs_f64\<close>.
\<close>

section \<open>Floating point\<close>

record float_env =
  fe_round :: "rat \<Rightarrow> f64"
  fe_secs :: "int \<Rightarrow> f64"

text \<open>Whole numbers up to \<open>2^53\<close> are represented exactly.\<close>

definition float_ok :: "float_env \<Rightarrow> bool" where
  "float_ok F = (\<forall>n. \<bar>n\<bar> \<le> 2 ^ 53 \<longrightarrow> fe_round F (of_int n) = Finite (of_int n))"

fun f64_plus :: "float_env \<Rightarrow> f64 \<Rightarrow> f64 \<Rightarrow> f64" where
  "f64_plus F (Finite a) (Finite b) = fe_round F (a + b)"
| "f64_plus F NotANumber y = NotANumber"
| "f64_plus F x NotANumber = NotANumber"
| "f64_plus F PosInf NegInf = NotANumber"
| "f64_plus F NegInf PosInf = NotANumber"
| "f64_plus F PosInf y = PosInf"
| "f64_plus F NegInf y = NegInf"
| "f64_plus F (Finite a) y = y"

fun f64_above :: "f64 \<Rightarrow> rat \<Rightarrow> bool" where
  "f64_above (Finite a) b = (b < a)"
| "f64_above PosInf b = True"
| "f64_above _ b = False"

text \<open>\<open>as u64\<close> and \<open>as u8\<close>: towards zero, held at the ends of the type, zero for no number.\<close>

fun f64_as :: "f64 \<Rightarrow> 'a::len word" where
  "f64_as (Finite a) = (if a < 0 then 0 else if 2 ^ LENGTH('a) \<le> a then - 1 else word_of_int \<lfloor>a\<rfloor>)"
| "f64_as PosInf = - 1"
| "f64_as _ = 0"

definition f64_of_word :: "float_env \<Rightarrow> 'a::len word \<Rightarrow> f64" where
  "f64_of_word F n = fe_round F (of_int (uint n))"

section \<open>The collector\<close>

record metrics_collector =
  mc_bars_ingested_total :: f64
  mc_bars_persisted_total :: f64
  mc_errors_total :: f64
  mc_processing_rate :: f64
  mc_provider_connected :: f64
  mc_circuit_breaker_state :: f64
  mc_buffer_depth :: f64
  mc_active_subscribers :: f64
  mc_db_query_latency_ms :: "f64 list"
  mc_last_rate_calculation :: instant
  mc_bars_at_last_calculation :: u64

text \<open>
  The names are registered one after another in the registry that the process has; each is refused if
  it is there already.  The collector's own registry, which is new, takes them all afterwards.
\<close>

definition metric_names :: "string list" where
  "metric_names =
     [''bars_ingested_total'', ''bars_persisted_total'', ''errors_total'', ''processing_rate'', ''provider_connected'',
      ''circuit_breaker_state'', ''buffer_depth'', ''active_subscribers'', ''db_query_latency_ms'']"

datatype prometheus_error = AlreadyReg

primrec register_all :: "string list \<Rightarrow> string set \<Rightarrow> (unit, prometheus_error) res \<times> string set" where
  "register_all [] taken = (Ok (), taken)"
| "register_all (name # names) taken =
     (if name \<in> taken then (Err AlreadyReg, taken) else register_all names (insert name taken))"

definition collector_new ::
    "instant \<Rightarrow> (string set, metrics_collector, prometheus_error) io" where
  "collector_new now =
     io_bind (register_all metric_names) (\<lambda>_.
     io_return \<lparr>mc_bars_ingested_total = Finite 0, mc_bars_persisted_total = Finite 0, mc_errors_total = Finite 0,
       mc_processing_rate = Finite 0, mc_provider_connected = Finite 0, mc_circuit_breaker_state = Finite 0,
       mc_buffer_depth = Finite 0, mc_active_subscribers = Finite 0, mc_db_query_latency_ms = [],
       mc_last_rate_calculation = now, mc_bars_at_last_calculation = 0\<rparr>)"

definition record_bars_ingested :: "float_env \<Rightarrow> u64 \<Rightarrow> metrics_collector \<Rightarrow> metrics_collector" where
  "record_bars_ingested F count c =
     c\<lparr>mc_bars_ingested_total := f64_plus F (mc_bars_ingested_total c) (f64_of_word F count)\<rparr>"

definition record_bars_persisted :: "float_env \<Rightarrow> u64 \<Rightarrow> metrics_collector \<Rightarrow> metrics_collector" where
  "record_bars_persisted F count c =
     c\<lparr>mc_bars_persisted_total := f64_plus F (mc_bars_persisted_total c) (f64_of_word F count)\<rparr>"

definition metrics_record_error :: "float_env \<Rightarrow> metrics_collector \<Rightarrow> metrics_collector" where
  "metrics_record_error F c = c\<lparr>mc_errors_total := f64_plus F (mc_errors_total c) (Finite 1)\<rparr>"

definition bars_ingested_total :: "metrics_collector \<Rightarrow> u64" where
  "bars_ingested_total c = f64_as (mc_bars_ingested_total c)"

definition bars_persisted_total :: "metrics_collector \<Rightarrow> u64" where
  "bars_persisted_total c = f64_as (mc_bars_persisted_total c)"

text \<open>The rate since the last update; \<open>now1\<close> is read for the elapsed time, \<open>now2\<close> is kept.\<close>

definition saturating_sub :: "u64 \<Rightarrow> u64 \<Rightarrow> u64" where
  "saturating_sub a b = (if b \<le> a then a - b else 0)"

fun f64_over :: "float_env \<Rightarrow> f64 \<Rightarrow> f64 \<Rightarrow> f64" where
  "f64_over F (Finite a) (Finite b) = fe_round F (a / b)"
| "f64_over F (Finite a) PosInf = Finite 0"
| "f64_over F (Finite a) NegInf = Finite 0"
| "f64_over F PosInf (Finite b) = (if b < 0 then NegInf else PosInf)"
| "f64_over F NegInf (Finite b) = (if b < 0 then PosInf else NegInf)"
| "f64_over F _ _ = NotANumber"

definition update_processing_rate :: "float_env \<Rightarrow> instant \<Rightarrow> instant \<Rightarrow> metrics_collector \<Rightarrow> metrics_collector" where
  "update_processing_rate F now1 now2 c =
     (let current_bars = bars_ingested_total c;
          elapsed_secs = fe_secs F (elapsed now1 (mc_last_rate_calculation c));
          c1 = c\<lparr>mc_bars_at_last_calculation := current_bars, mc_last_rate_calculation := now2\<rparr> in
      if f64_above elapsed_secs 0
      then c1\<lparr>mc_processing_rate :=
             f64_over F (f64_of_word F (saturating_sub current_bars (mc_bars_at_last_calculation c))) elapsed_secs\<rparr>
      else c1)"

definition set_provider_connected :: "bool \<Rightarrow> metrics_collector \<Rightarrow> metrics_collector" where
  "set_provider_connected is_connected c = c\<lparr>mc_provider_connected := Finite (if is_connected then 1 else 0)\<rparr>"

definition is_provider_connected :: "metrics_collector \<Rightarrow> bool" where
  "is_provider_connected c = f64_above (mc_provider_connected c) (1 / 2)"

definition set_circuit_breaker_state :: "float_env \<Rightarrow> 8 word \<Rightarrow> metrics_collector \<Rightarrow> metrics_collector" where
  "set_circuit_breaker_state F state c = c\<lparr>mc_circuit_breaker_state := f64_of_word F state\<rparr>"

definition metrics_circuit_breaker_state :: "metrics_collector \<Rightarrow> 8 word" where
  "metrics_circuit_breaker_state c = f64_as (mc_circuit_breaker_state c)"

definition set_buffer_depth :: "float_env \<Rightarrow> u64 \<Rightarrow> metrics_collector \<Rightarrow> metrics_collector" where
  "set_buffer_depth F depth c = c\<lparr>mc_buffer_depth := f64_of_word F depth\<rparr>"

definition set_active_subscribers :: "float_env \<Rightarrow> u64 \<Rightarrow> metrics_collector \<Rightarrow> metrics_collector" where
  "set_active_subscribers F count c = c\<lparr>mc_active_subscribers := f64_of_word F count\<rparr>"

definition record_db_latency :: "f64 \<Rightarrow> metrics_collector \<Rightarrow> metrics_collector" where
  "record_db_latency latency_ms c = c\<lparr>mc_db_query_latency_ms := mc_db_query_latency_ms c @ [latency_ms]\<rparr>"

section \<open>The servers\<close>

record monitoring_config =
  mon_bind_address :: string
  mon_port :: "16 word"
  mon_enable_metrics :: bool
  mon_enable_health :: bool
  mon_rate_update_interval_secs :: u64

definition monitoring_config_default :: monitoring_config where
  "monitoring_config_default =
     \<lparr>mon_bind_address = ''0.0.0.0'', mon_port = 8080, mon_enable_metrics = True, mon_enable_health = True,
      mon_rate_update_interval_secs = 10\<rparr>"

definition monitoring_with_port :: "16 word \<Rightarrow> monitoring_config" where
  "monitoring_with_port port = monitoring_config_default\<lparr>mon_port := port\<rparr>"

text \<open>The handlers behind the paths, and the page of metrics, whose text is that of the crate.\<close>

datatype monitoring_handler = Metrics_Page | Health_Page | Readiness_Probe | Liveness_Probe

definition monitoring_routes :: "monitoring_config \<Rightarrow> (string \<times> monitoring_handler) list" where
  "monitoring_routes config =
     (if mon_enable_metrics config then [(''/metrics'', Metrics_Page)] else []) @
     (if mon_enable_health config
      then [(''/health'', Health_Page), (''/health/ready'', Readiness_Probe), (''/health/live'', Liveness_Probe)]
      else [])"

definition monitoring_metrics_handler :: "(string, prometheus_error) res \<Rightarrow> nat \<times> string" where
  "monitoring_metrics_handler rendered =
     (case rendered of Ok metrics \<Rightarrow> (200, metrics) | _ \<Rightarrow> (500, ''Internal error''))"

definition server_metrics_handler :: "(string, prometheus_error) res \<Rightarrow> (string, nat) res" where
  "server_metrics_handler rendered = (case rendered of Ok metrics \<Rightarrow> Ok metrics | _ \<Rightarrow> Err 500)"

definition update_pipeline_health :: "string \<Rightarrow> bool \<Rightarrow> 'w health_checker \<Rightarrow> 'w health_checker" where
  "update_pipeline_health now healthy c =
     update_component ''data_pipeline''
       (if healthy then component_up now
        else component_down now ''Pipeline is not running or circuit breaker is open'') c"

section \<open>Properties\<close>

text \<open>The counters of bars, as what was recorded in them.\<close>

primrec record_all :: "float_env \<Rightarrow> u64 list \<Rightarrow> metrics_collector \<Rightarrow> metrics_collector" where
  "record_all F [] c = c"
| "record_all F (n # ns) c = record_all F ns (record_bars_ingested F n c)"

lemma uints_nonneg: "0 \<le> (\<Sum>n\<leftarrow>ns. uint (n :: u64))"
  by (induction ns) simp_all

lemma recorded_exactly:
  assumes F: "float_ok F" and "mc_bars_ingested_total c = Finite (of_int m)" and "0 \<le> m"
    and "m + (\<Sum>n\<leftarrow>ns. uint n) \<le> 2 ^ 53"
  shows "record_all F ns c = c\<lparr>mc_bars_ingested_total := Finite (of_int (m + (\<Sum>n\<leftarrow>ns. uint n)))\<rparr>"
  using assms(2-4)
proof (induction ns arbitrary: c m)
  case Nil
  then show ?case by simp
next
  case (Cons n ns)
  note s = uints_nonneg [of ns]
  with Cons.prems have b: "\<bar>uint n\<bar> \<le> 2 ^ 53" "\<bar>m + uint n\<bar> \<le> 2 ^ 53" by simp_all
  with F have "fe_round F (of_int (uint n)) = Finite (of_int (uint n))"
      "fe_round F (of_int (m + uint n)) = Finite (of_int (m + uint n))"
    unfolding float_ok_def by blast+
  then have r: "record_bars_ingested F n c = c\<lparr>mc_bars_ingested_total := Finite (of_int (m + uint n))\<rparr>"
    using Cons.prems(1) by (simp add: record_bars_ingested_def f64_of_word_def)
  have "record_all F ns (record_bars_ingested F n c) =
      (record_bars_ingested F n c)\<lparr>mc_bars_ingested_total := Finite (of_int (m + uint n + (\<Sum>n\<leftarrow>ns. uint n)))\<rparr>"
    by (rule Cons.IH) (use r Cons.prems in simp_all)
  with r show ?case by (simp add: algebra_simps)
qed

lemma whole_as_u64:
  assumes "0 \<le> m" and "m \<le> 2 ^ 53"
  shows "uint (f64_as (Finite (of_int m)) :: u64) = m"
proof -
  have "(of_int m :: rat) \<le> of_int (2 ^ 53)" using assms(2) by (simp only: of_int_le_iff)
  then have "\<not> (2 ^ 64 :: rat) \<le> of_int m" by simp
  moreover have "take_bit 64 m = m" using assms by (simp add: take_bit_int_eq_self)
  ultimately show ?thesis using assms(1) by (simp add: unsigned_of_int)
qed

text \<open>
  The processing rate is that of the bars recorded since the last update.  As long as fewer than
  \<open>2^53\<close> bars were recorded, nothing is rounded on the way: after any records the total is their sum,
  and an update after them divides exactly the bars recorded since the last one by the time since then.
\<close>

theorem rate_counts_new_bars:
  assumes F: "float_ok F" and m: "mc_bars_ingested_total c = Finite (of_int m)" "0 \<le> m"
    and mark: "mc_bars_at_last_calculation c = bars_ingested_total c"
    and b: "m + (\<Sum>n\<leftarrow>ns. uint n) \<le> 2 ^ 53"
    and t: "fe_secs F (elapsed now1 (mc_last_rate_calculation c)) = Finite secs" "0 < secs"
  shows "uint (bars_ingested_total (record_all F ns c)) = m + (\<Sum>n\<leftarrow>ns. uint n) \<and>
    mc_processing_rate (update_processing_rate F now1 now2 (record_all F ns c)) =
      fe_round F (of_int (\<Sum>n\<leftarrow>ns. uint n) / secs) \<and>
    mc_bars_at_last_calculation (update_processing_rate F now1 now2 (record_all F ns c)) =
      bars_ingested_total (update_processing_rate F now1 now2 (record_all F ns c))"
proof -
  let ?s = "\<Sum>n\<leftarrow>ns. uint n" and ?c = "record_all F ns c"
  have s: "0 \<le> ?s" by (rule uints_nonneg)
  note r = recorded_exactly [OF F m b]
  have total: "uint (bars_ingested_total ?c) = m + ?s"
    using whole_as_u64 [of "m + ?s"] s m(2) b r by (simp add: bars_ingested_total_def)
  have old: "uint (bars_ingested_total c) = m"
    using whole_as_u64 [of m] s m b by (simp add: bars_ingested_total_def)
  have marked: "mc_bars_at_last_calculation ?c = bars_ingested_total c" "mc_last_rate_calculation ?c = mc_last_rate_calculation c"
    using mark r by simp_all
  have le: "bars_ingested_total c \<le> bars_ingested_total ?c"
    using s by (simp add: word_le_def total old)
  then have "uint (saturating_sub (bars_ingested_total ?c) (bars_ingested_total c)) = ?s"
    by (simp add: saturating_sub_def uint_minus_simple_alt word_le_def total old)
  moreover have "fe_round F (of_int ?s) = Finite (of_int ?s)" using F s m(2) b by (simp add: float_ok_def)
  ultimately have "f64_of_word F (saturating_sub (bars_ingested_total ?c) (bars_ingested_total c)) = Finite (of_int ?s)"
    by (simp add: f64_of_word_def del: of_int_uint)
  then show ?thesis
    using t marked total by (simp add: update_processing_rate_def Let_def bars_ingested_total_def)
qed

lemma register_all_Ok:
  "distinct names \<Longrightarrow> set names \<inter> taken = {} \<Longrightarrow> register_all names taken = (Ok (), set names \<union> taken)"
  by (induction names arbitrary: taken) auto

text \<open>
  There is one collector in a process.  The first one registers its names in the process's registry,
  every later one is refused and leaves the registry as it was.
\<close>

theorem second_collector_refused:
  "\<exists>c. collector_new t {} = (Ok c, set metric_names) \<and>
     collector_new t' (set metric_names) = (Err AlreadyReg, set metric_names)"
proof -
  have "distinct metric_names" by (simp add: metric_names_def)
  then have "register_all metric_names {} = (Ok (), set metric_names)" by (simp add: register_all_Ok)
  moreover have "register_all metric_names (set metric_names) = (Err AlreadyReg, set metric_names)"
    by (cases metric_names) (simp_all add: metric_names_def)
  ultimately show ?thesis by (simp add: collector_new_def io_bind_def io_return_def)
qed

text \<open>What is set is read back: the state of a circuit breaker and of the connection.\<close>

theorem gauges_read_back:
  assumes "float_ok F"
  shows "metrics_circuit_breaker_state (set_circuit_breaker_state F state c) = state \<and>
    is_provider_connected (set_provider_connected b c) = b"
proof -
  have "uint state < 2 ^ 8" using uint_lt2p [of state] by simp
  with assms have "fe_round F (of_int (uint state)) = Finite (of_int (uint state))"
    by (simp add: float_ok_def del: of_int_uint)
  moreover have "(of_int (uint state) :: rat) < of_int (2 ^ 8)" using \<open>uint state < 2 ^ 8\<close> by (simp only: of_int_less_iff)
  then have "\<not> (2 ^ 8 :: rat) \<le> of_int (uint state)" by simp
  ultimately show ?thesis
    by (simp add: metrics_circuit_breaker_state_def set_circuit_breaker_state_def f64_of_word_def
        is_provider_connected_def set_provider_connected_def word_of_int_uint del: of_int_uint)
qed

text \<open>
  A pipeline that was reported as unhealthy is seen: unless a check of its own name is registered, the
  report names it as down and is not healthy.
\<close>

theorem unhealthy_pipeline_is_reported:
  assumes "''data_pipeline'' \<notin> fst ` set (hash_entries (hc_check_functions c))"
  shows "ch_status (the (hash_get (hs_components (fst (check_health now
      (update_pipeline_health stamp False c) w))) ''data_pipeline'')) = Down \<and>
    hs_status (fst (check_health now (update_pipeline_health stamp False c) w)) \<in> {OH_Degraded, OH_Unhealthy}"
proof -
  let ?c = "update_pipeline_health stamp False c"
  let ?es = "hash_entries (hc_check_functions ?c)"
  have none: "check_answers es w ''data_pipeline'' = None" if "''data_pipeline'' \<notin> fst ` set es"
    for es and w :: 'a
    using that by (induction es arbitrary: w) (auto simp: map_add_def split: prod.split)
  have es: "?es = hash_entries (hc_check_functions c)" by (simp add: update_pipeline_health_def update_component_def)
  let ?m = "hc_components (fst (run_checks ?es ?c w))"
  have at: "hash_get ?m ''data_pipeline'' =
      Some (component_down stamp ''Pipeline is not running or circuit breaker is open'')"
    using none [OF assms] unfolding run_checks_components es
    by (simp add: map_add_def update_pipeline_health_def update_component_def)
  then have "component_down stamp ''Pipeline is not running or circuit breaker is open'' \<in> set (hash_values ?m)"
    unfolding set_hash_values by (rule ranI)
  then have "\<exists>h \<in> set (hash_values ?m). ch_status h = Down" by (force simp: component_down_def)
  then have "calculate_overall_health ?m \<noteq> OH_Unknown \<and> calculate_overall_health ?m \<noteq> OH_Healthy"
    using overall_by_statuses(1) [of ?m] overall_unknown_iff [of ?m] by auto
  then have "calculate_overall_health ?m \<in> {OH_Degraded, OH_Unhealthy}"
    by (cases "calculate_overall_health ?m") auto
  with at show ?thesis
    by (auto simp: check_health_def component_down_def split: prod.splits)
qed

end
