(* ===== verification/Spec2Isabelle.thy ===== *)
theory Spec2Isabelle
  imports Market_Data Domain_Services Order_Lifecycle Event_Bus Data_Pipeline Paper_Trading Risk_Metrics
    IB_Execution IB_Market_Data Redis_Cache Health Order_Store Fill_Store Position_Store Account_Store
    Main_Program Trading_Desk Metrics
begin

text \<open>
  ATOM trading platform: a verification library of its core.

  The program is a trading platform in Rust, in four crates under \<open>src/crates/\<close>.  The domain crate
  holds the values (prices, quantities, symbols), the entities (orders, fills, positions, bars) with
  their state machines, and the traits of the outside world.  The application crate holds the
  services: the risk engine that judges every order, the trading service that places and cancels
  orders, the lifecycle manager that applies what the gateway reports, the data pipeline that stores
  market data, and the risk metrics.  The infrastructure crate implements the traits: an event bus,
  a gateway that simulates a market, a gateway to Interactive Brokers, databases and caches.  The
  command line wires a service together over in-memory repositories.

  An order is created, checked and placed by the trading service: submission check, risk check on the
  open positions, \<open>Submitted\<close> in the order repository, gateway, event.  The gateway later reports
  status updates and fills; the lifecycle manager applies them to the stored order, to the position
  of its symbol and to the event bus, with retries.  Bars of market data pass through the pipeline's
  buffer to the repository, behind a circuit breaker of their own.

  \<^bold>\<open>Theories and the code they model\<close>

  \<^item> \<open>Prelude\<close>: results (\<open>Ok\<close>, \<open>Err\<close>, \<open>Panic\<close>), their sequencing, strings, words, folds that may fail.
  \<^item> \<open>Decimal_Arith\<close>: the decimals of the crate \<open>rust_decimal\<close>.  Values are rationals; the rounded
    operators are a parameter (\<open>dec_ops\<close>), and the hypothesis \<open>dec_ok\<close> states what the crate
    documents: an exact result that fits is returned, any other is rounded to a neighbour, overflow
    and division by zero panic.  \<open>no_rounding\<close> is the case in which every result fits.  \<open>exact_dec\<close>
    satisfies both and serves the witnesses.
  \<^item> \<open>Values\<close> (\<open>domain/src/values.rs\<close>), \<open>Domain_Errors\<close> (\<open>domain/src/errors.rs\<close>).
  \<^item> \<open>Order_Entity\<close>: \<open>Order\<close>, \<open>OrderStatus\<close> of \<open>domain/src/entities.rs\<close>; the lifecycle as a relation on
    phases, the operations of an order as a step relation.
  \<^item> \<open>Position_Entity\<close>: \<open>Fill\<close>, \<open>FillAggregation\<close>, \<open>Position\<close>, \<open>Account\<close> of the same file; \<open>Market_Data\<close>:
    \<open>Bar\<close>, \<open>Tick\<close>.
  \<^item> \<open>Trading_Events\<close> (\<open>domain/src/events.rs\<close>), \<open>Domain_Services\<close> (\<open>domain/src/services.rs\<close>).
  \<^item> \<open>Risk_Engine\<close> (\<open>application/src/risk/engine.rs\<close>): the state behind the lock, one function per
    operation, and a labelled step relation over all of them.
  \<^item> \<open>Ports\<close>: the traits as records of state-passing functions over an arbitrary world, and the laws
    of the stores as the locales \<open>order_store\<close> and \<open>position_store\<close>.
  \<^item> \<open>Mem_Repos\<close>: the in-memory repositories of \<open>cli/src/commands/trading.rs\<close>, on which the two
    locales are interpreted.
  \<^item> \<open>Trading_Service\<close> (\<open>application/src/trading_service.rs\<close>): placement, rollback, cancellation and the
    queries; the locale \<open>order_service\<close>, interpreted on the wiring of the command line.
  \<^item> \<open>Order_Lifecycle\<close> (\<open>application/src/order_lifecycle.rs\<close>): updates, fills, positions, retries,
    deduplication, start and stop; the locale \<open>lifecycle_service\<close>, interpreted on the same stores.
  \<^item> \<open>Trading_Desk\<close>: the trading service, the risk engine and the lifecycle manager on the same
    repositories.  A step is a call of either service that returns, or an operation of the engine; a
    history keeps every event with its answer.  The locale \<open>trading_desk\<close> extends \<open>order_service\<close> and
    \<open>lifecycle_service\<close> and is interpreted on the wiring of the command line.
  \<^item> \<open>Risk_Metrics\<close> (\<open>application/src/risk/metrics.rs\<close>): exposures, drawdown, Sharpe ratio, sectors.
  \<^item> \<open>Data_Pipeline\<close> (\<open>application/src/data_pipeline.rs\<close>): one function per operation and per turn of each
    task, and a step relation over all of them; a flush is two steps around the repository's answer.
  \<^item> \<open>Event_Bus\<close> (\<open>infrastructure/src/messaging/event_bus.rs\<close>): the bus, its subscriptions, topics and
    dead letters over a broadcast channel, whose documented behaviour is the parameter.
  \<^item> \<open>Execution\<close> (\<open>domain/src/execution.rs\<close>): order modifications and updates.  \<open>Paper_Trading\<close>
    (\<open>infrastructure/src/providers/paper_trading.rs\<close>): the simulated market and its gateway.
  \<^item> \<open>IB_Client\<close>, \<open>IB_Execution\<close> (\<open>infrastructure/src/external/ib/\<close>): connecting with retries, the
    connection manager, and the execution gateway with its two maps of identifiers.  The broker's own
    library is a placeholder in the code; its answers are arguments.  \<open>IB_Market_Data\<close>: the market
    data provider of the same directory, its requests, subscriptions and channels.
  \<^item> \<open>Redis_Cache\<close> (\<open>infrastructure/src/cache/redis.rs\<close>, \<open>infrastructure/src/errors.rs\<close>): the circuit
    breaker in front of Redis and the cache over a server and a serialization, both parameters.
  \<^item> \<open>Health\<close> (\<open>infrastructure/src/health.rs\<close>): the checker, its registered checks, the three probes.
  \<^item> \<open>Use_Cases\<close> (\<open>order_use_cases.rs\<close>, \<open>position_use_cases.rs\<close>, \<open>account_use_cases.rs\<close>, \<open>dto.rs\<close>,
    \<open>services.rs\<close>, \<open>errors.rs\<close> of the application crate): the transfer objects and every use case over
    arbitrary ports; the locale \<open>entity_store\<close> states what a repository of entities promises, and
    \<open>order_entities\<close> extends it with the outcome of the order use cases.
  \<^item> \<open>Db_Connection\<close>: the database as rows and statements that may fail, the translation of its errors
    and the retry loop the repositories share.  \<open>Order_Store\<close>, \<open>Fill_Store\<close>, \<open>Position_Store\<close>,
    \<open>Account_Store\<close> (\<open>order_repo.rs\<close>, \<open>fill_repo.rs\<close>, \<open>position_repo.rs\<close>, \<open>repositories.rs\<close> of
    \<open>infrastructure/src/database/\<close>): the conversions between rows and entities, and each query as the
    function on rows that its SQL states; \<open>order_entities\<close> is interpreted on the order table.
  \<^item> \<open>Command_Line\<close> (\<open>cli/src/commands/trading.rs\<close>, \<open>cli/src/main.rs\<close>, \<open>infrastructure/src/external/mod.rs\<close>):
    the arguments, their parsers, each trading command with what it prints, the mock adapters.
  \<^item> \<open>Market_Store\<close> (\<open>infrastructure/src/database/timescale.rs\<close>): the tables of bars and ticks, keyed by
    time and symbol; their common laws are the locale \<open>time_series\<close>, interpreted on both.  \<open>Ingest\<close>
    (\<open>cli/src/commands/ingest.rs\<close>): durations and time frames, the loop as a function of what wakes it,
    and the same loop over the market data provider of Interactive Brokers.
  \<^item> \<open>Configuration\<close> (\<open>infrastructure/src/config.rs\<close>): the sections with the checks declared for them,
    loading, the cache, the masked form; reading a source is a parameter.  \<open>Logging\<close>
    (\<open>infrastructure/src/logging.rs\<close>): correlation identifiers, formats and outputs, the set-up of the
    subscriber as data.  \<open>Main_Program\<close> (\<open>cli/src/main.rs\<close>): the start of the program up to its command,
    and the commands that need no service.
  \<^item> \<open>Metrics\<close> (\<open>infrastructure/src/metrics.rs\<close>, \<open>monitoring.rs\<close>): the collector of counters and gauges,
    the registration of its names, the routes of the monitoring server.  Floating point is a parameter.

  \<^bold>\<open>What is proved\<close>

  \<^item> Values and market data: constructors accept exactly what the types promise, texts are parsed
    back, additions are exact or panic, accepted bars are consistent.
  \<^item> Orders: status updates refine the lifecycle, terminal orders are final, an order is never
    over-filled through any sequence of operations, runs of fills are accounted exactly, the average
    price is the volume-weighted one.
  \<^item> Positions: incremental tracking agrees with aggregation under any faithful rounding, adding a
    fill conserves value, closing realizes what was shown.
  \<^item> Risk: an allowed order respects every limit, an invariant of all reachable engines, the kill
    switch, and the circuit breaker as a refinement of its state machine with its timing.
  \<^item> Trading service: nothing reaches the gateway without approval; what each branch of placement
    and cancellation leaves in the store.
  \<^item> Lifecycle manager: reports move stored orders along the lifecycle, retries are bounded,
    processed fills are refused, and what fills do to positions.
  \<^item> The services together: every stored order was allowed by the risk engine as it stood then, no
    order is over-filled, a finished order stays finished, a halted desk places nothing, and no risk
    check ever sees a position.
  \<^item> Market data: the pipeline stores bars in order and none twice, its buffer drains, what its breaker
    recovers from.  Event bus: a subscription delivers exactly what matches, counters are exact.
  \<^item> Paper trading: limit orders are protected, positions follow fills in exact arithmetic.  Risk
    metrics: agreement with the engine's exposure, accuracy of the square root.
  \<^item> Interactive Brokers: connecting ends, identifiers stay consistent through every session, orders
    are translated without loss, which reports the order lifecycle accepts; the market data provider
    delivers nothing to its subscribers.
  \<^item> Cache and health: over a server that does what Redis documents the cache is a map on its own
    keys, an open breaker recovers, what the probes answer.
  \<^item> Use cases and databases: what a use case leaves in any repository that keeps its promises, fills
    and positions are read back, a save outlasts four failures of the connection, and what an order
    loses on its way through the order table.  Command line: which commands reach a service at all.
  \<^item> Bar and tick tables: one row for each time and symbol with the sum of the volumes, batches
    against single saves, what a range query returns.  Ingestion: every bar is offered to the
    repository once and in order, when the loop is left.
  \<^item> Configuration: the precedence of the sources, the masked form gives no password away, each
    section's checks against its bounds.  Logging: settings are read back as printed.  Metrics: the rate
    counts what was recorded since the last update, gauges are read back, a pipeline that is down is
    reported.

  Where the code departs from what it means to do, the property states what it does: fills never
  open a position, the first fill of a symbol is applied again by every retry, an exact close is an
  error, the daily loss limit never rejects, a failure does not reopen a half-open breaker, an order
  built by \<open>Order::new\<close> cannot be placed, a failed start locks the manager, a paper order always
  panics, a modification is a cancellation, a success sticks an open pipeline breaker, a failed
  reconnection is final, a disconnection ends supervision for good, the broker's updates never reach
  a subscriber, failing reads never open the cache's breaker, a process is reported dead after its
  first five minutes, an order read from the database is a new order that can be filled again, no
  order is ever listed as open, the shipped schema accepts no row the order repository writes, an
  order the market refused stays stored, a position closed by the use case stays open, no account is
  ever stored, the trading commands trade nothing, bars of different time frames and bars saved twice are
  added up, over the shipped schema no bar can be read, trades come back as quotes, an ingestion over
  Interactive Brokers takes in nothing, a busy one ignores its duration, no configuration is ever
  refused for its contents, nested correlation identifiers are lost, the limits on positions and
  exposures bound each order alone, the server command starts no server, a configuration that cannot be
  read is replaced by the default one, and a second collector of metrics is refused.

  \<^bold>\<open>Conventions\<close>

  Panics end the process (the release profile aborts), so \<open>Panic\<close> is an outcome that later code never
  sees; where the code holds a lock, a panic poisons it.  \<open>u32\<close> counters wrap, as in the release
  build.  Clock readings, fresh identifiers, the iteration order of a hash set and texts printed by
  other crates are arguments.  An \<open>async\<close> call runs to its end before its caller goes on, and each
  message of a task is one step.  The retry loop of the lifecycle manager is structural recursion on
  the retries left and the loops of the pipeline and the bus recurse on what waits, so they need no
  fuel; connecting to the broker may try for ever and is a \<open>partial_function\<close>, proved to return when
  the attempts are limited.  Floating-point conversions are parameters.  Equalities of amounts in
  exact arithmetic are stated under \<open>no_rounding\<close>.

  \<^bold>\<open>Not modelled\<close>

  The text of the metrics page, which the prometheus library renders, and the serving of HTTP.  No
  program constructs the lifecycle manager or records a metric; they are modelled as components.
  The layers of the tracing subscriber, the creation of connection pools, the periodic progress line
  of the ingestion, the layout of printed tables, the trait declarations of \<open>providers.rs\<close>, and the
  stubs of \<open>database/repositories.rs\<close> for orders and positions, which return nothing.  The total
  profit of the position repository sums a column that nothing writes and is left out.
\<close>

end
